(* ===== verification/Prelude_OneAI.thy ===== *)
theory Prelude_OneAI
  imports Complex_Main "HOL-Library.Product_Lexorder" "HOL-Library.Sublist"
begin

text \<open>
  Shared vocabulary of the development: identifiers and instants, the sum type of results,
  SQL statements over tables kept as lists of rows (the way the repositories of the backend
  use them), and the Python string operations the components call. The lemma collections
  \<open>table_simps\<close> and \<open>op_simps\<close> carry the proofs of the component theories.
\<close>

named_theorems table_simps
named_theorems op_simps

section \<open>Identifiers, instants and results\<close>

text \<open>
  A UUID is an opaque identifier; an instant (\<open>datetime\<close>) counts microseconds from the epoch,
  the resolution of Python's \<open>datetime\<close>; a duration of the monotonic clock is a rational number
  of seconds.
\<close>

type_synonym uuid = nat
type_synonym datetime = int
type_synonym seconds = rat

abbreviation usec_per_sec :: int where
  "usec_per_sec \<equiv> 1000000"

text \<open>\<open>int(moment.timestamp())\<close>: Python's \<open>int\<close> truncates towards zero.\<close>

definition timestamp_int :: "datetime \<Rightarrow> int" where
  "timestamp_int t = (if 0 \<le> t then t div usec_per_sec else - ((- t) div usec_per_sec))"

lemma timestamp_int_mono: "s \<le> t \<Longrightarrow> timestamp_int s \<le> timestamp_int t"
proof -
  assume st: "s \<le> t"
  show ?thesis
  proof (cases "0 \<le> s")
    case True
    with st show ?thesis by (simp add: timestamp_int_def zdiv_mono1)
  next
    case False
    show ?thesis
    proof (cases "0 \<le> t")
      case True
      have "0 \<le> t div usec_per_sec" and "0 \<le> (- s) div usec_per_sec"
        using True False by (simp_all add: pos_imp_zdiv_nonneg_iff)
      with True False show ?thesis by (simp add: timestamp_int_def)
    next
      case t: False
      have "(- t) div usec_per_sec \<le> (- s) div usec_per_sec"
        using st by (intro zdiv_mono1) auto
      with False t show ?thesis by (simp add: timestamp_int_def)
    qed
  qed
qed

text \<open>Adding whole seconds to a moment after the epoch adds them to its timestamp.\<close>

lemma timestamp_int_add_seconds:
  "0 \<le> t \<Longrightarrow> 0 \<le> n \<Longrightarrow> timestamp_int (t + n * usec_per_sec) = timestamp_int t + n"
  by (simp add: timestamp_int_def)

text \<open>
  A result is \<open>Inl\<close> of the exception raised or \<open>Inr\<close> of the value returned.
\<close>

fun is_ok :: "'e + 'a \<Rightarrow> bool" where
  "is_ok (Inl _) = False"
| "is_ok (Inr _) = True"

lemma is_ok_iff: "is_ok r \<longleftrightarrow> (\<exists>a. r = Inr a)"
  by (cases r) auto

section \<open>SQL statements over tables\<close>

text \<open>
  A table is the list of its rows. \<open>SELECT ... WHERE\<close> with \<open>scalar_one_or_none()\<close> on a unique
  key returns the row that matches, if any; \<open>UPDATE ... WHERE\<close> and \<open>DELETE ... WHERE\<close> touch
  exactly the rows that match, and \<open>rowcount\<close> is their number.
\<close>

definition select_one :: "('r \<Rightarrow> bool) \<Rightarrow> 'r list \<Rightarrow> 'r option" where
  "select_one P t = find P t"

definition select_where :: "('r \<Rightarrow> bool) \<Rightarrow> 'r list \<Rightarrow> 'r list" where
  "select_where P t = filter P t"

definition update_where :: "('r \<Rightarrow> bool) \<Rightarrow> ('r \<Rightarrow> 'r) \<Rightarrow> 'r list \<Rightarrow> 'r list" where
  "update_where P f t = map (\<lambda>r. if P r then f r else r) t"

definition delete_where :: "('r \<Rightarrow> bool) \<Rightarrow> 'r list \<Rightarrow> 'r list" where
  "delete_where P t = filter (\<lambda>r. \<not> P r) t"

definition rowcount :: "('r \<Rightarrow> bool) \<Rightarrow> 'r list \<Rightarrow> nat" where
  "rowcount P t = length (filter P t)"

text \<open>\<open>ORDER BY k DESC\<close>; \<open>LIMIT\<close> and \<open>OFFSET\<close> drop and take.\<close>

definition order_desc :: "('r \<Rightarrow> 'k::linorder) \<Rightarrow> 'r list \<Rightarrow> 'r list" where
  "order_desc k t = rev (sort_key k t)"

definition paginate :: "nat \<Rightarrow> nat \<Rightarrow> 'r list \<Rightarrow> 'r list" where
  "paginate limit offset t = take limit (drop offset t)"

lemma select_one_SomeD:
  assumes "select_one P t = Some r"
  shows "r \<in> set t" and "P r"
  using assms by (auto simp: select_one_def find_Some_iff in_set_conv_nth)

lemma select_one_None_iff: "select_one P t = None \<longleftrightarrow> (\<forall>r \<in> set t. \<not> P r)"
  by (auto simp: select_one_def find_None_iff)

lemma select_one_Cons [simp]:
  "select_one P (r # t) = (if P r then Some r else select_one P t)"
  "select_one P [] = None"
  by (simp_all add: select_one_def)

lemma select_one_append:
  "select_one P (s @ t) = (case select_one P s of None \<Rightarrow> select_one P t | Some r \<Rightarrow> Some r)"
  by (induction s) auto

text \<open>
  Where the predicate tests a unique key, the row found is the only one that matches, so that
  \<open>scalar_one_or_none()\<close> never sees two rows.
\<close>

lemma select_one_unique:
  assumes "distinct (map k t)" and "r \<in> set t" and "\<And>x. P x \<Longrightarrow> k x = k r" and "P r"
  shows "select_one P t = Some r" and "filter P t = [r]"
proof -
  have inj: "inj_on k (set t)" using assms(1) by (simp add: distinct_map)
  have eq: "x = r" if "x \<in> set t" and "P x" for x
    using inj_onD[OF inj assms(3)[OF that(2)] that(1) assms(2)] .
  show "select_one P t = Some r"
  proof (cases "select_one P t")
    case None
    with assms(2,4) show ?thesis by (simp add: select_one_None_iff)
  next
    case (Some x)
    with eq[OF select_one_SomeD[OF Some]] show ?thesis by simp
  qed
  have d: "distinct (filter P t)" using assms(1) by (simp add: distinct_map)
  have e: "set (filter P t) = {r}" using eq assms(2,4) unfolding set_filter by blast
  show "filter P t = [r]"
  proof (cases "filter P t")
    case Nil
    with e show ?thesis by simp
  next
    case (Cons y ys)
    with d e have "y = r" and "set ys \<subseteq> {r}" and "y \<notin> set ys" by auto
    with Cons show ?thesis by (cases ys) auto
  qed
qed

lemma set_update_where:
  "set (update_where P f t) = {r. r \<in> set t \<and> \<not> P r} \<union> f ` {r. r \<in> set t \<and> P r}"
  by (auto simp: update_where_def image_iff)

lemma length_update_where [simp]: "length (update_where P f t) = length t"
  by (simp add: update_where_def)

lemma update_where_Cons [simp]:
  "update_where P f (r # t) = (if P r then f r else r) # update_where P f t"
  "update_where P f [] = []"
  by (simp_all add: update_where_def)

lemma update_where_append [simp]:
  "update_where P f (s @ t) = update_where P f s @ update_where P f t"
  by (simp add: update_where_def)

lemma map_update_where:
  assumes "\<And>r. P r \<Longrightarrow> k (f r) = k r"
  shows "map k (update_where P f t) = map k t"
  using assms by (simp add: update_where_def)

text \<open>Saving one row by its key leaves every key, and what the row did not change, alone.\<close>

lemma map_save_key [simp]:
  "k r = i \<Longrightarrow> map k (update_where (\<lambda>x. k x = i) (\<lambda>_. r) t) = map k t"
  by (rule map_update_where) simp

lemma map_save_proj:
  assumes "distinct (map k t)" and "r0 \<in> set t" and "k r = k r0" and "j r = j r0"
  shows "map j (update_where (\<lambda>x. k x = k r) (\<lambda>_. r) t) = map j t"
proof -
  have inj: "inj_on k (set t)" using assms(1) by (simp add: distinct_map)
  have "j r = j x" if "x \<in> set t" and "k x = k r" for x
  proof -
    have "x = r0" using inj_onD[OF inj _ that(1) assms(2)] that(2) assms(3) by simp
    with assms(4) show ?thesis by simp
  qed
  then show ?thesis by (simp add: update_where_def)
qed

lemma image_save_key [simp]:
  "k r = i \<Longrightarrow> k ` set (update_where (\<lambda>x. k x = i) (\<lambda>_. r) t) = k ` set t"
  by (metis map_save_key set_map)

lemma image_save_proj:
  assumes "distinct (map k t)" and "r0 \<in> set t" and "k r = k r0" and "j r = j r0"
  shows "j ` set (update_where (\<lambda>x. k x = k r) (\<lambda>_. r) t) = j ` set t"
  using map_save_proj[of k t r0 r j] assms by (metis set_map)

text \<open>A row appended under a key that is not taken.\<close>

lemma distinct_snoc_key: "distinct (map k (t @ [r])) \<longleftrightarrow> distinct (map k t) \<and> k r \<notin> k ` set t"
  by auto

lemma filter_update_where_disjoint:
  assumes "\<And>r. Q r \<Longrightarrow> \<not> P r" and "\<And>r. P r \<Longrightarrow> \<not> Q (f r)"
  shows "filter Q (update_where P f t) = filter Q t"
  using assms by (induction t) auto

lemma update_where_id: "(\<And>r. r \<in> set t \<Longrightarrow> \<not> P r) \<Longrightarrow> update_where P f t = t"
  by (induction t) auto

lemma select_update_where:
  assumes "\<And>r. P r \<Longrightarrow> Q (f r) = Q r"
  shows "select_one Q (update_where P f t)
    = map_option (\<lambda>r. if P r then f r else r) (select_one Q t)"
  using assms by (induction t) auto

lemma select_update_where_other:
  assumes "\<And>r. Q r \<Longrightarrow> \<not> P r" and "\<And>r. P r \<Longrightarrow> \<not> Q (f r)"
  shows "select_one Q (update_where P f t) = select_one Q t"
  using assms by (induction t) auto

lemma key_inj:
  assumes "distinct (map k t)" and "x \<in> set t" and "y \<in> set t" and "k x = k y"
  shows "x = y"
  using assms by (auto simp: distinct_map dest: inj_onD)

lemma filter_save_other:
  assumes "\<forall>x \<in> set t. k x = i \<longrightarrow> \<not> Q x" and "\<not> Q r"
  shows "filter Q (update_where (\<lambda>x. k x = i) (\<lambda>_. r) t) = filter Q t"
  using assms by (induction t) auto

lemma set_delete_where: "set (delete_where P t) = {r. r \<in> set t \<and> \<not> P r}"
  by (simp add: delete_where_def)

lemma delete_where_rowcount: "length t = length (delete_where P t) + rowcount P t"
  using sum_length_filter_compl[of P t] by (simp add: delete_where_def rowcount_def)

lemma filter_delete_where_disjoint:
  assumes "\<And>r. Q r \<Longrightarrow> \<not> P r"
  shows "filter Q (delete_where P t) = filter Q t"
  using assms by (induction t) (auto simp: delete_where_def)

lemma filter_delete_where_same [simp]: "filter P (delete_where P t) = []"
  by (simp add: delete_where_def)

lemma rowcount_0_iff: "rowcount P t = 0 \<longleftrightarrow> (\<forall>r \<in> set t. \<not> P r)"
  by (simp add: rowcount_def filter_empty_conv)

lemma rowcount_Cons [simp]:
  "rowcount P (r # t) = (if P r then Suc (rowcount P t) else rowcount P t)"
  "rowcount P [] = 0"
  by (simp_all add: rowcount_def)

lemma set_order_desc [simp]: "set (order_desc k t) = set t"
  by (simp add: order_desc_def)

lemma length_order_desc [simp]: "length (order_desc k t) = length t"
  by (simp add: order_desc_def)

lemma sorted_order_desc: "sorted_wrt (\<lambda>a b. k b \<le> k a) (order_desc k t)"
proof -
  have "sorted_wrt (\<lambda>a b. k a \<le> k b) (sort_key k t)"
    using sorted_sort_key[of k t] by (simp add: sorted_map)
  then show ?thesis by (simp add: order_desc_def sorted_wrt_rev)
qed

lemma set_paginate: "set (paginate l n t) \<subseteq> set t"
  by (auto simp: paginate_def dest: in_set_takeD in_set_dropD)

lemma length_paginate: "length (paginate l n t) = min l (length t - n)"
  by (simp add: paginate_def min.commute)

lemmas [table_simps] = set_update_where set_delete_where select_one_None_iff rowcount_0_iff

end
