(* ===== verification/Py_Strings.thy ===== *)
theory Py_Strings
  imports Prelude_OneAI
begin

text \<open>
  The \<open>str\<close> methods the backend calls, on strings of code points up to 255 (\<open>char\<close>): on that range
  \<open>lower\<close>, \<open>strip\<close> and \<open>isascii\<close> below are Python's. Code points beyond it are not represented.
\<close>

section \<open>Characters\<close>

definition py_isspace :: "char \<Rightarrow> bool" where
  "py_isspace c = (let n = (of_char c :: nat) in
     (9 \<le> n \<and> n \<le> 13) \<or> (28 \<le> n \<and> n \<le> 32) \<or> n = 133 \<or> n = 160)"

definition lower_code :: "nat \<Rightarrow> nat" where
  "lower_code n = (if (65 \<le> n \<and> n \<le> 90) \<or> (192 \<le> n \<and> n \<le> 222 \<and> n \<noteq> 215) then n + 32 else n)"

definition lower_char :: "char \<Rightarrow> char" where
  "lower_char c = char_of (lower_code (of_char c))"

section \<open>Strings\<close>

definition py_lower :: "string \<Rightarrow> string" where
  "py_lower s = map lower_char s"

definition strip_where :: "(char \<Rightarrow> bool) \<Rightarrow> string \<Rightarrow> string" where
  "strip_where P s = rev (dropWhile P (rev (dropWhile P s)))"

definition py_strip :: "string \<Rightarrow> string" where
  "py_strip s = strip_where py_isspace s"

definition py_strip_chars :: "string \<Rightarrow> string \<Rightarrow> string" where
  "py_strip_chars s cs = strip_where (\<lambda>c. c \<in> set cs) s"

definition py_isascii :: "string \<Rightarrow> bool" where
  "py_isascii s = list_all (\<lambda>c. (of_char c :: nat) < 128) s"

text \<open>\<open>re.split\<close> on a class of single characters, and \<open>str.split\<close> with a one-character separator.\<close>

fun split_where :: "(char \<Rightarrow> bool) \<Rightarrow> string \<Rightarrow> string list" where
  "split_where P [] = [[]]"
| "split_where P (c # s) =
     (if P c then [] # split_where P s
      else (case split_where P s of [] \<Rightarrow> [[c]] | t # ts \<Rightarrow> (c # t) # ts))"

text \<open>
  \<open>s.rpartition(sep)\<close> for one character: the part before the last separator and the part after it;
  \<open>None\<close> where \<open>s\<close> does not hold the separator.
\<close>

fun py_rsplit1 :: "char \<Rightarrow> string \<Rightarrow> (string \<times> string) option" where
  "py_rsplit1 sep [] = None"
| "py_rsplit1 sep (c # s) =
     (case py_rsplit1 sep s of
        Some (a, b) \<Rightarrow> Some (c # a, b)
      | None \<Rightarrow> if c = sep then Some ([], s) else None)"

section \<open>Facts\<close>

lemma of_char_lower: "of_char (lower_char c) = (lower_code (of_char c) :: nat)"
proof -
  have "(of_char c :: nat) < 256" using nat_of_char_less_256 by simp
  then have "lower_code (of_char c) < 256" by (simp add: lower_code_def)
  then show ?thesis by (simp add: lower_char_def)
qed

lemma lower_code_idem [simp]: "lower_code (lower_code n) = lower_code n"
  by (auto simp: lower_code_def)

lemma lower_char_idem [simp]: "lower_char (lower_char c) = lower_char c"
  using of_char_lower[of c] lower_char_def[of "lower_char c"] by (simp add: lower_char_def)

lemma py_lower_idem [simp]: "py_lower (py_lower s) = py_lower s"
  by (simp add: py_lower_def)

lemma py_lower_append: "py_lower (s @ t) = py_lower s @ py_lower t"
  by (simp add: py_lower_def)

lemma py_lower_Nil_iff [simp]: "py_lower s = [] \<longleftrightarrow> s = []"
  by (simp add: py_lower_def)

lemma isspace_lower [simp]: "py_isspace (lower_char c) = py_isspace c"
  by (auto simp: py_isspace_def Let_def of_char_lower lower_code_def)

lemma lower_char_eq_iff:
  "lower_char c = d \<longleftrightarrow> c = d" if "lower_code (of_char d) = of_char d"
    and "\<not> ((97 \<le> (of_char d :: nat) \<and> of_char d \<le> (122 :: nat)) \<or> (224 \<le> (of_char d :: nat)))"
proof
  assume "lower_char c = d"
  then have "of_char d = lower_code (of_char c :: nat)" by (simp add: of_char_lower[symmetric])
  with that(2) have "(of_char d :: nat) = of_char c" by (auto simp: lower_code_def split: if_splits)
  then show "c = d" by simp
next
  assume "c = d"
  with that(1) show "lower_char c = d" by (simp add: lower_char_def)
qed

lemma lower_char_at [simp]: "lower_char c = CHR ''@'' \<longleftrightarrow> c = CHR ''@''"
  by (rule lower_char_eq_iff) (simp_all add: lower_code_def)

lemma lower_char_lt_gt [simp]:
  "lower_char c = CHR ''<'' \<longleftrightarrow> c = CHR ''<''" "lower_char c = CHR ''>'' \<longleftrightarrow> c = CHR ''>''"
  by (rule lower_char_eq_iff; simp add: lower_code_def)+

lemma strip_where_id:
  assumes "s = [] \<or> (\<not> P (hd s) \<and> \<not> P (last s))"
  shows "strip_where P s = s"
proof (cases s)
  case Nil
  then show ?thesis by (simp add: strip_where_def)
next
  case (Cons c t)
  with assms have "\<not> P c" and "\<not> P (last s)" by auto
  moreover have "hd (rev s) = last s" by (rule hd_rev)
  ultimately have "dropWhile P s = s" and "dropWhile P (rev s) = rev s"
    unfolding dropWhile_eq_self_iff using Cons by simp_all
  then show ?thesis by (simp add: strip_where_def)
qed

lemma strip_where_ends:
  "strip_where P s = [] \<or> (\<not> P (hd (strip_where P s)) \<and> \<not> P (last (strip_where P s)))"
proof (cases "strip_where P s = []")
  case False
  let ?t = "dropWhile P s" and ?u = "dropWhile P (rev (dropWhile P s))"
  have u: "?u \<noteq> []" using False by (simp add: strip_where_def)
  then have 1: "\<not> P (hd ?u)" by (rule hd_dropWhile)
  have "?t \<noteq> []" using u by (metis dropWhile.simps(1) rev.simps(1))
  then have hd: "\<not> P (hd ?t)" by (rule hd_dropWhile)
  obtain v where v: "rev ?t = v @ ?u" by (metis takeWhile_dropWhile_id)
  then have "?t = rev ?u @ rev v" by (metis rev_append rev_rev_ident)
  with u have "hd ?t = last ?u" by (metis hd_append2 hd_rev rev_is_Nil_conv)
  with hd 1 u show ?thesis by (simp add: strip_where_def hd_rev last_rev)
qed simp

lemma strip_where_idem [simp]: "strip_where P (strip_where P s) = strip_where P s"
  by (rule strip_where_id) (rule strip_where_ends)

lemma set_strip_where: "set (strip_where P s) \<subseteq> set s"
  unfolding strip_where_def set_rev using set_dropWhileD by (metis set_rev subsetI)

lemma split_where_ne [simp]: "split_where P s \<noteq> []"
  by (induction s) (auto split: list.splits)

lemma split_where_tokens: "t \<in> set (split_where P s) \<Longrightarrow> \<forall>c \<in> set t. \<not> P c"
  by (induction s arbitrary: t) (force split: list.splits if_splits)+

lemma split_where_no_sep: "\<forall>c \<in> set s. \<not> P c \<Longrightarrow> split_where P s = [s]"
  by (induction s) auto

lemma py_rsplit1_None_iff: "py_rsplit1 sep s = None \<longleftrightarrow> sep \<notin> set s"
  by (induction s) (auto split: option.splits)

lemma py_rsplit1_Some:
  "py_rsplit1 sep s = Some (a, b) \<longleftrightarrow> s = a @ sep # b \<and> sep \<notin> set b"
proof (induction s arbitrary: a)
  case (Cons c s)
  show ?case
  proof (cases "py_rsplit1 sep s")
    case None
    then have "sep \<notin> set s" by (simp add: py_rsplit1_None_iff)
    with None show ?thesis by (cases a) (auto simp: append_eq_Cons_conv Cons_eq_append_conv)
  next
    case (Some p)
    then have "sep \<in> set s" using py_rsplit1_None_iff[of sep s] by auto
    with Some Cons.IH show ?thesis by (cases p; cases a) auto
  qed
qed auto

end
