(* ===== verification/Identity_Tables.thy ===== *)
theory Identity_Tables
  imports Py_Strings
begin

text \<open>
  The identity domain's data: the enumerations of \<open>identity/enums.py\<close>, one record per table of
  \<open>identity/models\<close>, the exceptions of \<open>identity/exceptions.py\<close> with the HTTP status
  \<open>identity/error_handlers.py\<close> maps them to, and the statements of \<open>identity/repositories\<close> as
  functions on the tables. A session is global (the \<open>BYPASSRLS\<close> engine) or bound to one tenant,
  in which case row-level security shows it that organization's rows only.
\<close>

section \<open>Enumerations\<close>

datatype user_role = company_admin | member

datatype subject_type = subject_user | subject_platform_admin

datatype organization_status = org_active | org_suspended | org_onboarding | org_offboarded

datatype support_grant_status = grant_requested | grant_approved | grant_denied | grant_revoked

datatype audit_actor_type = actor_platform_admin | actor_user | actor_system

fun role_value :: "user_role \<Rightarrow> string" where
  "role_value company_admin = ''company_admin''"
| "role_value member = ''member''"

fun subject_type_value :: "subject_type \<Rightarrow> string" where
  "subject_type_value subject_user = ''user''"
| "subject_type_value subject_platform_admin = ''platform_admin''"

fun organization_status_value :: "organization_status \<Rightarrow> string" where
  "organization_status_value org_active = ''active''"
| "organization_status_value org_suspended = ''suspended''"
| "organization_status_value org_onboarding = ''onboarding''"
| "organization_status_value org_offboarded = ''offboarded''"

fun support_grant_status_value :: "support_grant_status \<Rightarrow> string" where
  "support_grant_status_value grant_requested = ''requested''"
| "support_grant_status_value grant_approved = ''approved''"
| "support_grant_status_value grant_denied = ''denied''"
| "support_grant_status_value grant_revoked = ''revoked''"

section \<open>Exceptions\<close>

text \<open>
  Every exception carries its message; the throttle's message is determined by the wait it reports.
  \<open>IntegrityError\<close> is the database's refusal of an insert that no service handles (a 500).
\<close>

datatype identity_error =
    ErasureConfirmationError string
  | InvalidCredentialsError string
  | TokenInvalidError string
  | TokenExpiredError string
  | RefreshTokenInvalidError string
  | PermissionDeniedError string
  | CrossSiteRequestRejectedError string
  | OrganizationSuspendedError string
  | PasswordConfirmationError string
  | UserNotFoundError string
  | OrganizationNotFoundError string
  | SupportGrantNotFoundError string
  | DuplicateUserError string
  | DuplicateOrganizationError string
  | LastAdminError string
  | InvalidGrantTransitionError string
  | LegalHoldError string
  | RateLimitedError int
  | ErasureNotConfiguredError "string list"
  | IntegrityError

fun http_status :: "identity_error \<Rightarrow> nat" where
  "http_status (ErasureConfirmationError _) = 400"
| "http_status (InvalidCredentialsError _) = 401"
| "http_status (TokenInvalidError _) = 401"
| "http_status (TokenExpiredError _) = 401"
| "http_status (RefreshTokenInvalidError _) = 401"
| "http_status (PermissionDeniedError _) = 403"
| "http_status (CrossSiteRequestRejectedError _) = 403"
| "http_status (OrganizationSuspendedError _) = 403"
| "http_status (PasswordConfirmationError _) = 403"
| "http_status (UserNotFoundError _) = 404"
| "http_status (OrganizationNotFoundError _) = 404"
| "http_status (SupportGrantNotFoundError _) = 404"
| "http_status (DuplicateUserError _) = 409"
| "http_status (DuplicateOrganizationError _) = 409"
| "http_status (LastAdminError _) = 409"
| "http_status (InvalidGrantTransitionError _) = 409"
| "http_status (LegalHoldError _) = 409"
| "http_status (RateLimitedError _) = 429"
| "http_status (ErasureNotConfiguredError _) = 500"
| "http_status IntegrityError = 500"

section \<open>Tables\<close>

record organization =
  o_id :: uuid
  o_name :: string
  o_slug :: string
  o_status :: organization_status
  o_legal_hold :: bool
  o_created_at :: datetime

record user =
  u_id :: uuid
  u_org_id :: uuid
  u_email :: string
  u_full_name :: string
  u_password_hash :: string
  u_role :: user_role
  u_is_active :: bool
  u_created_at :: datetime

record platform_admin =
  pa_id :: uuid
  pa_email :: string
  pa_full_name :: string
  pa_password_hash :: string
  pa_is_active :: bool

record refresh_token =
  rt_id :: uuid
  rt_subject_id :: uuid
  rt_subject_type :: subject_type
  rt_token_hash :: string
  rt_expires_at :: datetime
  rt_revoked_at :: "datetime option"

record support_grant =
  sg_id :: uuid
  sg_org_id :: uuid
  sg_requested_by_admin_id :: uuid
  sg_requested_by_email :: "string option"
  sg_reason :: string
  sg_status :: support_grant_status
  sg_decided_at :: "datetime option"
  sg_decided_by_user_id :: "uuid option"
  sg_decided_by_email :: "string option"
  sg_expires_at :: "datetime option"
  sg_created_at :: datetime

text \<open>JSON values of the audit details; identifiers and instants are kept as they are, before \<open>str\<close>.\<close>

datatype json =
    JNull | JBool bool | JInt int | JNum rat | JStr string | JId uuid | JTime datetime
  | JList "json list" | JObj "(string \<times> json) list"

record audit_row =
  al_id :: uuid
  al_occurred_at :: datetime
  al_actor_type :: audit_actor_type
  al_actor_id :: "uuid option"
  al_actor_email :: "string option"
  al_action :: string
  al_org_id :: "uuid option"
  al_entity_type :: "string option"
  al_entity_id :: "uuid option"
  al_details :: "(string \<times> json) list"
  al_ip_address :: "string option"
  al_request_id :: "string option"

record identity_db =
  organizations :: "organization list"
  users :: "user list"
  platform_admins :: "platform_admin list"
  refresh_tokens :: "refresh_token list"
  support_grants :: "support_grant list"
  audit_log :: "audit_row list"

section \<open>Row-level security\<close>

datatype db_session = Global_Session | Tenant_Session uuid

fun sees :: "db_session \<Rightarrow> uuid \<Rightarrow> bool" where
  "sees Global_Session org_id = True"
| "sees (Tenant_Session g) org_id = (org_id = g)"

section \<open>Repositories\<close>

subsection \<open>Organizations\<close>

definition organizations_get_by_id :: "identity_db \<Rightarrow> uuid \<Rightarrow> organization option" where
  "organizations_get_by_id db org_id = select_one (\<lambda>r. o_id r = org_id) (organizations db)"

definition organizations_get_for_update :: "identity_db \<Rightarrow> uuid \<Rightarrow> organization option" where
  "organizations_get_for_update db org_id = select_one (\<lambda>r. o_id r = org_id) (organizations db)"

definition organizations_get_by_slug :: "identity_db \<Rightarrow> string \<Rightarrow> organization option" where
  "organizations_get_by_slug db slug = select_one (\<lambda>r. o_slug r = slug) (organizations db)"

text \<open>A flush of a new row: the database refuses a slug that is taken (\<open>None\<close>).\<close>

definition organizations_add :: "organization \<Rightarrow> identity_db \<Rightarrow> identity_db option" where
  "organizations_add r db =
     (if \<exists>x \<in> set (organizations db). o_slug x = o_slug r then None
      else Some (db\<lparr>organizations := organizations db @ [r]\<rparr>))"

definition organizations_save :: "organization \<Rightarrow> identity_db \<Rightarrow> identity_db" where
  "organizations_save r db = db\<lparr>organizations := update_where (\<lambda>x. o_id x = o_id r) (\<lambda>_. r) (organizations db)\<rparr>"

definition user_count :: "identity_db \<Rightarrow> uuid \<Rightarrow> nat" where
  "user_count db org_id = rowcount (\<lambda>u. u_org_id u = org_id) (users db)"

definition list_all_with_user_counts :: "identity_db \<Rightarrow> (organization \<times> nat) list" where
  "list_all_with_user_counts db =
     map (\<lambda>r. (r, user_count db (o_id r))) (sort_key o_created_at (organizations db))"

definition get_with_user_count :: "identity_db \<Rightarrow> uuid \<Rightarrow> (organization \<times> nat) option" where
  "get_with_user_count db org_id =
     map_option (\<lambda>r. (r, user_count db org_id)) (select_one (\<lambda>r. o_id r = org_id) (organizations db))"

subsection \<open>Users\<close>

definition users_get_by_email :: "db_session \<Rightarrow> identity_db \<Rightarrow> string \<Rightarrow> user option" where
  "users_get_by_email sn db email =
     select_one (\<lambda>u. sees sn (u_org_id u) \<and> u_email u = email) (users db)"

definition users_get_by_subject_id :: "db_session \<Rightarrow> identity_db \<Rightarrow> uuid \<Rightarrow> user option" where
  "users_get_by_subject_id sn db user_id =
     select_one (\<lambda>u. sees sn (u_org_id u) \<and> u_id u = user_id) (users db)"

definition users_get_in_org :: "db_session \<Rightarrow> identity_db \<Rightarrow> uuid \<Rightarrow> uuid \<Rightarrow> user option" where
  "users_get_in_org sn db user_id org_id =
     select_one (\<lambda>u. sees sn (u_org_id u) \<and> u_id u = user_id \<and> u_org_id u = org_id) (users db)"

definition users_list_by_org :: "db_session \<Rightarrow> identity_db \<Rightarrow> uuid \<Rightarrow> user list" where
  "users_list_by_org sn db org_id =
     order_desc u_created_at (select_where (\<lambda>u. sees sn (u_org_id u) \<and> u_org_id u = org_id) (users db))"

definition users_email_exists :: "db_session \<Rightarrow> identity_db \<Rightarrow> string \<Rightarrow> bool" where
  "users_email_exists sn db email \<longleftrightarrow>
     select_one (\<lambda>u. sees sn (u_org_id u) \<and> u_email u = email) (users db) \<noteq> None"

definition users_lock_active_admin_ids :: "db_session \<Rightarrow> identity_db \<Rightarrow> uuid \<Rightarrow> uuid list" where
  "users_lock_active_admin_ids sn db org_id =
     sort (map u_id (select_where
       (\<lambda>u. sees sn (u_org_id u) \<and> u_org_id u = org_id \<and> u_role u = company_admin \<and> u_is_active u)
       (users db)))"

text \<open>
  The flush of a new user: \<open>users.email\<close> and \<open>lower(email)\<close> are unique over all organizations,
  whatever the session sees, and the organization must exist.
\<close>

definition users_add :: "user \<Rightarrow> identity_db \<Rightarrow> identity_db option" where
  "users_add r db =
     (if (\<exists>x \<in> set (users db). u_email x = u_email r \<or> py_lower (u_email x) = py_lower (u_email r))
         \<or> (\<forall>g \<in> set (organizations db). o_id g \<noteq> u_org_id r)
      then None
      else Some (db\<lparr>users := users db @ [r]\<rparr>))"

text \<open>The flush of a loaded user whose attributes changed.\<close>

definition users_save :: "user \<Rightarrow> identity_db \<Rightarrow> identity_db" where
  "users_save r db = db\<lparr>users := update_where (\<lambda>x. u_id x = u_id r) (\<lambda>_. r) (users db)\<rparr>"

definition users_delete_all_in_org :: "uuid \<Rightarrow> identity_db \<Rightarrow> nat \<times> identity_db" where
  "users_delete_all_in_org org_id db =
     (rowcount (\<lambda>u. u_org_id u = org_id) (users db),
      db\<lparr>users := delete_where (\<lambda>u. u_org_id u = org_id) (users db)\<rparr>)"

subsection \<open>Platform admins\<close>

definition platform_admins_get_by_email :: "identity_db \<Rightarrow> string \<Rightarrow> platform_admin option" where
  "platform_admins_get_by_email db email = select_one (\<lambda>a. pa_email a = email) (platform_admins db)"

definition platform_admins_get_by_id :: "identity_db \<Rightarrow> uuid \<Rightarrow> platform_admin option" where
  "platform_admins_get_by_id db admin_id = select_one (\<lambda>a. pa_id a = admin_id) (platform_admins db)"

subsection \<open>Refresh tokens\<close>

definition refresh_tokens_get_by_hash :: "identity_db \<Rightarrow> string \<Rightarrow> refresh_token option" where
  "refresh_tokens_get_by_hash db token_hash =
     select_one (\<lambda>t. rt_token_hash t = token_hash) (refresh_tokens db)"

definition refresh_tokens_add :: "refresh_token \<Rightarrow> identity_db \<Rightarrow> identity_db option" where
  "refresh_tokens_add r db =
     (if \<exists>x \<in> set (refresh_tokens db). rt_token_hash x = rt_token_hash r then None
      else Some (db\<lparr>refresh_tokens := refresh_tokens db @ [r]\<rparr>))"

definition live_with_hash :: "string \<Rightarrow> refresh_token \<Rightarrow> bool" where
  "live_with_hash token_hash t \<longleftrightarrow> rt_token_hash t = token_hash \<and> rt_revoked_at t = None"

definition refresh_tokens_revoke_by_hash ::
  "datetime \<Rightarrow> string \<Rightarrow> identity_db \<Rightarrow> nat \<times> identity_db" where
  "refresh_tokens_revoke_by_hash now token_hash db =
     (rowcount (live_with_hash token_hash) (refresh_tokens db),
      db\<lparr>refresh_tokens :=
           update_where (live_with_hash token_hash) (\<lambda>t. t\<lparr>rt_revoked_at := Some now\<rparr>) (refresh_tokens db)\<rparr>)"

definition owned_by_org_user :: "identity_db \<Rightarrow> uuid \<Rightarrow> refresh_token \<Rightarrow> bool" where
  "owned_by_org_user db org_id t \<longleftrightarrow>
     rt_subject_type t = subject_user
     \<and> rt_subject_id t \<in> set (map u_id (select_where (\<lambda>u. u_org_id u = org_id) (users db)))"

definition refresh_tokens_delete_for_org_users :: "uuid \<Rightarrow> identity_db \<Rightarrow> nat \<times> identity_db" where
  "refresh_tokens_delete_for_org_users org_id db =
     (rowcount (owned_by_org_user db org_id) (refresh_tokens db),
      db\<lparr>refresh_tokens := delete_where (owned_by_org_user db org_id) (refresh_tokens db)\<rparr>)"

subsection \<open>Support grants\<close>

definition support_grants_insert :: "support_grant \<Rightarrow> identity_db \<Rightarrow> identity_db" where
  "support_grants_insert g db = db\<lparr>support_grants := support_grants db @ [g]\<rparr>"

definition support_grants_get_for_requester ::
  "identity_db \<Rightarrow> uuid \<Rightarrow> uuid \<Rightarrow> support_grant option" where
  "support_grants_get_for_requester db grant_id admin_id =
     select_one (\<lambda>g. sg_id g = grant_id \<and> sg_requested_by_admin_id g = admin_id) (support_grants db)"

definition support_grants_get_in_org ::
  "db_session \<Rightarrow> identity_db \<Rightarrow> uuid \<Rightarrow> uuid \<Rightarrow> support_grant option" where
  "support_grants_get_in_org sn db grant_id org_id =
     select_one (\<lambda>g. sees sn (sg_org_id g) \<and> sg_id g = grant_id \<and> sg_org_id g = org_id)
       (support_grants db)"

definition support_grants_list_for_requester :: "identity_db \<Rightarrow> uuid \<Rightarrow> support_grant list" where
  "support_grants_list_for_requester db admin_id =
     order_desc (\<lambda>g. (sg_created_at g, sg_id g))
       (select_where (\<lambda>g. sg_requested_by_admin_id g = admin_id) (support_grants db))"

definition support_grants_list_for_org :: "db_session \<Rightarrow> identity_db \<Rightarrow> uuid \<Rightarrow> support_grant list" where
  "support_grants_list_for_org sn db org_id =
     order_desc (\<lambda>g. (sg_created_at g, sg_id g))
       (select_where (\<lambda>g. sees sn (sg_org_id g) \<and> sg_org_id g = org_id) (support_grants db))"

text \<open>The flush of a loaded grant whose attributes changed.\<close>

definition support_grants_save :: "support_grant \<Rightarrow> identity_db \<Rightarrow> identity_db" where
  "support_grants_save g db =
     db\<lparr>support_grants := update_where (\<lambda>x. sg_id x = sg_id g) (\<lambda>_. g) (support_grants db)\<rparr>"

definition support_grants_scrub_decider_emails :: "uuid \<Rightarrow> identity_db \<Rightarrow> nat \<times> identity_db" where
  "support_grants_scrub_decider_emails org_id db =
     (let P = (\<lambda>g. sg_org_id g = org_id \<and> sg_decided_by_email g \<noteq> None)
      in (rowcount P (support_grants db),
          db\<lparr>support_grants := update_where P (\<lambda>g. g\<lparr>sg_decided_by_email := None\<rparr>) (support_grants db)\<rparr>))"

subsection \<open>Audit log\<close>

definition audit_insert :: "audit_row \<Rightarrow> identity_db \<Rightarrow> identity_db" where
  "audit_insert r db = db\<lparr>audit_log := audit_log db @ [r]\<rparr>"

definition audit_list_for_org :: "audit_row list \<Rightarrow> uuid \<Rightarrow> nat \<Rightarrow> nat \<Rightarrow> audit_row list" where
  "audit_list_for_org rows org_id limit offset =
     paginate limit offset
       (order_desc (\<lambda>r. (al_occurred_at r, al_id r)) (select_where (\<lambda>r. al_org_id r = Some org_id) rows))"

definition audit_list_global ::
  "audit_row list \<Rightarrow> string option \<Rightarrow> uuid option \<Rightarrow> nat \<Rightarrow> nat \<Rightarrow> audit_row list" where
  "audit_list_global rows action org_id limit offset =
     paginate limit offset
       (order_desc (\<lambda>r. (al_occurred_at r, al_id r))
         (select_where (\<lambda>r. (case action of None \<Rightarrow> True | Some a \<Rightarrow> al_action r = a)
                          \<and> (case org_id of None \<Rightarrow> True | Some g \<Rightarrow> al_org_id r = Some g)) rows))"

section \<open>Well-formed tables\<close>

text \<open>What the unique and foreign-key constraints keep: primary keys, slugs, addresses and hashes are
  unique, and every user belongs to an organization that exists.\<close>

definition identity_wf :: "identity_db \<Rightarrow> bool" where
  "identity_wf db \<longleftrightarrow>
     distinct (map o_id (organizations db)) \<and> distinct (map o_slug (organizations db))
     \<and> distinct (map u_id (users db)) \<and> distinct (map (py_lower \<circ> u_email) (users db))
     \<and> distinct (map rt_token_hash (refresh_tokens db))
     \<and> distinct (map sg_id (support_grants db))
     \<and> u_org_id ` set (users db) \<subseteq> o_id ` set (organizations db)"

text \<open>The identifiers a request draws are new.\<close>

definition fresh_id :: "uuid \<Rightarrow> identity_db \<Rightarrow> bool" where
  "fresh_id i db \<longleftrightarrow> i \<notin> o_id ` set (organizations db) \<and> i \<notin> u_id ` set (users db)
     \<and> i \<notin> sg_id ` set (support_grants db)"

lemma identity_wf_audit [simp]: "identity_wf (audit_insert r db) = identity_wf db"
  by (simp add: identity_wf_def audit_insert_def)

lemma audit_insert_sel [simp]:
  "organizations (audit_insert r db) = organizations db" "users (audit_insert r db) = users db"
  "platform_admins (audit_insert r db) = platform_admins db"
  "refresh_tokens (audit_insert r db) = refresh_tokens db"
  "support_grants (audit_insert r db) = support_grants db"
  "audit_log (audit_insert r db) = audit_log db @ [r]"
  by (simp_all add: audit_insert_def)

text \<open>A statement writes its own table only.\<close>

lemma write_sel [simp]:
  "users (organizations_save r db) = users db" "platform_admins (organizations_save r db) = platform_admins db" "refresh_tokens (organizations_save r db) = refresh_tokens db" "support_grants (organizations_save r db) = support_grants db" "audit_log (organizations_save r db) = audit_log db"
  "organizations (users_save u db) = organizations db" "platform_admins (users_save u db) = platform_admins db" "refresh_tokens (users_save u db) = refresh_tokens db" "support_grants (users_save u db) = support_grants db" "audit_log (users_save u db) = audit_log db"
  "organizations (support_grants_insert g db) = organizations db" "users (support_grants_insert g db) = users db" "platform_admins (support_grants_insert g db) = platform_admins db" "refresh_tokens (support_grants_insert g db) = refresh_tokens db" "audit_log (support_grants_insert g db) = audit_log db"
  "organizations (support_grants_save g db) = organizations db" "users (support_grants_save g db) = users db" "platform_admins (support_grants_save g db) = platform_admins db" "refresh_tokens (support_grants_save g db) = refresh_tokens db" "audit_log (support_grants_save g db) = audit_log db"
  by (simp_all add: organizations_save_def users_save_def support_grants_insert_def support_grants_save_def)

lemma organizations_add_wf:
  assumes "identity_wf db" and "organizations_add r db = Some db'" and "fresh_id (o_id r) db"
  shows "identity_wf db'"
proof -
  from assms(2) have "db' = db\<lparr>organizations := organizations db @ [r]\<rparr>"
    and "\<forall>x \<in> set (organizations db). o_slug x \<noteq> o_slug r"
    by (auto simp: organizations_add_def split: if_splits)
  moreover from this(2) have "o_slug r \<notin> o_slug ` set (organizations db)"
    by (auto simp: image_iff)
  ultimately show ?thesis using assms(1,3) by (auto simp: identity_wf_def fresh_id_def)
qed

lemma organizations_save_wf:
  assumes "identity_wf db" and "r0 \<in> set (organizations db)" and "o_id r = o_id r0" and "o_slug r = o_slug r0"
  shows "identity_wf (organizations_save r db)"
  using assms map_save_proj[of o_id "organizations db" r0 r o_slug]
  by (simp add: identity_wf_def organizations_save_def)

lemma users_add_wf:
  assumes "identity_wf db" and "users_add r db = Some db'" and "fresh_id (u_id r) db"
  shows "identity_wf db'"
proof -
  from assms(2) have "db' = db\<lparr>users := users db @ [r]\<rparr>"
    and "\<forall>x \<in> set (users db). py_lower (u_email x) \<noteq> py_lower (u_email r)"
    and "u_org_id r \<in> o_id ` set (organizations db)"
    by (auto simp: users_add_def image_iff split: if_splits) metis
  moreover from this(2) have "(py_lower \<circ> u_email) r \<notin> (py_lower \<circ> u_email) ` set (users db)"
    by (auto simp: image_iff)
  ultimately show ?thesis using assms(1,3) by (simp add: identity_wf_def fresh_id_def)
qed

lemma users_save_wf:
  assumes "identity_wf db" and "r0 \<in> set (users db)" and "u_id r = u_id r0" and "u_email r = u_email r0"
    and "u_org_id r = u_org_id r0"
  shows "identity_wf (users_save r db)"
  using assms map_save_proj[of u_id "users db" r0 r "py_lower \<circ> u_email"]
    image_save_proj[of u_id "users db" r0 r u_org_id]
  by (simp add: identity_wf_def users_save_def)

lemma users_delete_wf: "identity_wf db \<Longrightarrow> identity_wf (snd (users_delete_all_in_org g db))"
  by (auto simp: identity_wf_def users_delete_all_in_org_def delete_where_def distinct_map_filter)

lemma refresh_tokens_add_wf:
  assumes "identity_wf db" and "refresh_tokens_add r db = Some db'"
  shows "identity_wf db'"
proof -
  from assms(2) have "db' = db\<lparr>refresh_tokens := refresh_tokens db @ [r]\<rparr>"
    and "\<forall>x \<in> set (refresh_tokens db). rt_token_hash x \<noteq> rt_token_hash r"
    by (auto simp: refresh_tokens_add_def split: if_splits)
  moreover from this(2) have "rt_token_hash r \<notin> rt_token_hash ` set (refresh_tokens db)"
    by (auto simp: image_iff)
  ultimately show ?thesis using assms(1) by (simp add: identity_wf_def)
qed

lemma refresh_tokens_revoke_wf:
  "identity_wf db \<Longrightarrow> identity_wf (snd (refresh_tokens_revoke_by_hash now h db))"
  by (simp add: identity_wf_def refresh_tokens_revoke_by_hash_def map_update_where)

lemma refresh_tokens_delete_wf:
  "identity_wf db \<Longrightarrow> identity_wf (snd (refresh_tokens_delete_for_org_users g db))"
  by (simp add: identity_wf_def refresh_tokens_delete_for_org_users_def delete_where_def distinct_map_filter)

lemma support_grants_insert_wf:
  "identity_wf db \<Longrightarrow> fresh_id (sg_id g) db \<Longrightarrow> identity_wf (support_grants_insert g db)"
  by (auto simp: identity_wf_def support_grants_insert_def fresh_id_def)

lemma support_grants_save_wf: "identity_wf db \<Longrightarrow> identity_wf (support_grants_save g db)"
  by (simp add: identity_wf_def support_grants_save_def)

lemma support_grants_scrub_wf:
  "identity_wf db \<Longrightarrow> identity_wf (snd (support_grants_scrub_decider_emails g db))"
  by (simp add: identity_wf_def support_grants_scrub_decider_emails_def map_update_where Let_def)

lemmas wf_steps = organizations_add_wf organizations_save_wf users_add_wf users_save_wf users_delete_wf
  refresh_tokens_add_wf refresh_tokens_revoke_wf refresh_tokens_delete_wf
  support_grants_insert_wf support_grants_save_wf support_grants_scrub_wf

text \<open>Under the constraints every keyed lookup matches at most one row.\<close>

lemma keyed_lookups_unique:
  assumes "identity_wf db"
  shows "r \<in> set (organizations db) \<Longrightarrow> organizations_get_by_id db (o_id r) = Some r"
    and "u \<in> set (users db) \<Longrightarrow> sees sn (u_org_id u) \<Longrightarrow> users_get_by_email sn db (u_email u) = Some u"
    and "u \<in> set (users db) \<Longrightarrow> sees sn (u_org_id u) \<Longrightarrow> users_get_by_subject_id sn db (u_id u) = Some u"
    and "t \<in> set (refresh_tokens db) \<Longrightarrow> refresh_tokens_get_by_hash db (rt_token_hash t) = Some t"
    and "g \<in> set (support_grants db) \<Longrightarrow> sees sn (sg_org_id g) \<Longrightarrow>
           support_grants_get_in_org sn db (sg_id g) (sg_org_id g) = Some g"
  using assms
  unfolding identity_wf_def organizations_get_by_id_def users_get_by_email_def
    users_get_by_subject_id_def refresh_tokens_get_by_hash_def support_grants_get_in_org_def
  by (auto intro: select_one_unique(1)[where k = o_id] select_one_unique(1)[where k = "py_lower \<circ> u_email"]
      select_one_unique(1)[where k = u_id] select_one_unique(1)[where k = rt_token_hash]
      select_one_unique(1)[where k = sg_id])

lemma identity_keys_inj:
  assumes "identity_wf db"
  shows "x \<in> set (users db) \<Longrightarrow> y \<in> set (users db) \<Longrightarrow> u_id x = u_id y \<Longrightarrow> x = y"
    and "r \<in> set (organizations db) \<Longrightarrow> q \<in> set (organizations db) \<Longrightarrow> o_id r = o_id q \<Longrightarrow> r = q"
    and "g \<in> set (support_grants db) \<Longrightarrow> h \<in> set (support_grants db) \<Longrightarrow> sg_id g = sg_id h \<Longrightarrow> g = h"
  using assms by (auto simp: identity_wf_def intro: key_inj)

end
