(* ===== verification/Rate_Limit.thy ===== *)
theory Rate_Limit
  imports Prelude_OneAI
begin

text \<open>
  The login throttle of \<open>identity/security/rate_limit.py\<close>: a sliding window of failed attempts per
  key with a lockout once the window holds as many failures as the policy allows. The clock is the
  monotonic clock, passed to every operation. The locale \<open>throttle\<close> is the contract of the
  \<open>RateLimiter\<close> protocol; the in-process limiter interprets it.
\<close>

section \<open>Keys, policies and state\<close>

definition IP_KEY_PREFIX :: string where
  "IP_KEY_PREFIX = ''ip:''"

definition ACCOUNT_KEY_PREFIX :: string where
  "ACCOUNT_KEY_PREFIX = ''account:''"

definition ip_key :: "string option \<Rightarrow> string" where
  "ip_key client_ip = IP_KEY_PREFIX @
     (case client_ip of None \<Rightarrow> ''unknown'' | Some ip \<Rightarrow> if ip = [] then ''unknown'' else ip)"

definition account_key :: "string \<Rightarrow> string" where
  "account_key email = ACCOUNT_KEY_PREFIX @ email"

record key_state =
  failures :: "seconds list"
  locked_until :: seconds

definition fresh_key_state :: key_state where
  "fresh_key_state = \<lparr>failures = [], locked_until = 0\<rparr>"

record rate_limit_policy =
  max_attempts :: int
  window_seconds :: seconds
  base_lockout_seconds :: seconds
  max_lockout_seconds :: seconds

record rate_limiter =
  ip_policy :: rate_limit_policy
  account_policy :: rate_limit_policy
  rl_state :: "string \<rightharpoonup> key_state"

datatype rate_limited = RateLimited (retry_after: int)

section \<open>Operations\<close>

definition new_rate_limiter :: "rate_limit_policy \<Rightarrow> rate_limit_policy \<Rightarrow> rate_limiter" where
  "new_rate_limiter ip acc = \<lparr>ip_policy = ip, account_policy = acc, rl_state = Map.empty\<rparr>"

definition reset_limiter :: "rate_limiter \<Rightarrow> rate_limiter" where
  "reset_limiter rl = rl\<lparr>rl_state := Map.empty\<rparr>"

definition policy_for :: "rate_limiter \<Rightarrow> string \<Rightarrow> rate_limit_policy" where
  "policy_for rl key =
     (if prefix ACCOUNT_KEY_PREFIX key then account_policy rl else ip_policy rl)"

text \<open>\<open>check\<close> reads the state and raises or returns; it stores nothing.\<close>

definition check :: "rate_limiter \<Rightarrow> seconds \<Rightarrow> string \<Rightarrow> rate_limited + unit" where
  "check rl now key =
     (case rl_state rl key of
        None \<Rightarrow> Inr ()
      | Some state \<Rightarrow>
          if now < locked_until state
          then Inl (RateLimited (\<lfloor>locked_until state - now\<rfloor> + 1))
          else Inr ())"

text \<open>The \<open>while\<close> loop pops the deque from the left; \<open>self._state[key]\<close> creates a missing entry.\<close>

definition note_failure :: "rate_limit_policy \<Rightarrow> seconds \<Rightarrow> key_state \<Rightarrow> key_state" where
  "note_failure policy now state =
     (let cutoff = now - window_seconds policy;
          kept = dropWhile (\<lambda>t. t < cutoff) (failures state) @ [now];
          n = int (length kept)
      in if max_attempts policy \<le> n
         then \<lparr>failures = kept,
               locked_until = now + min (base_lockout_seconds policy * 2 ^ nat (n - max_attempts policy))
                                        (max_lockout_seconds policy)\<rparr>
         else state\<lparr>failures := kept\<rparr>)"

definition register_failure :: "rate_limiter \<Rightarrow> seconds \<Rightarrow> string \<Rightarrow> rate_limiter" where
  "register_failure rl now key =
     (let state = (case rl_state rl key of None \<Rightarrow> fresh_key_state | Some s \<Rightarrow> s)
      in rl\<lparr>rl_state := (rl_state rl)(key \<mapsto> note_failure (policy_for rl key) now state)\<rparr>)"

text \<open>One throttled login attempt that fails: refused with 429 without a trace, or registered.\<close>

definition failed_attempt :: "string \<Rightarrow> seconds \<Rightarrow> rate_limiter \<Rightarrow> rate_limiter" where
  "failed_attempt key now rl =
     (case check rl now key of Inl _ \<Rightarrow> rl | Inr _ \<Rightarrow> register_failure rl now key)"

section \<open>The window invariant\<close>

text \<open>The deque is in time order and holds no instant after \<open>now\<close>.\<close>

definition key_ok :: "seconds \<Rightarrow> key_state \<Rightarrow> bool" where
  "key_ok now s \<longleftrightarrow> sorted (failures s) \<and> (\<forall>t \<in> set (failures s). t \<le> now)"

definition limiter_ok :: "seconds \<Rightarrow> rate_limiter \<Rightarrow> bool" where
  "limiter_ok now rl \<longleftrightarrow> (\<forall>k s. rl_state rl k = Some s \<longrightarrow> key_ok now s)"

lemma policies_register [simp]:
  "ip_policy (register_failure rl t k) = ip_policy rl"
  "account_policy (register_failure rl t k) = account_policy rl"
  "policy_for (register_failure rl t k) k' = policy_for rl k'"
  by (simp_all add: register_failure_def policy_for_def Let_def)

lemma rl_state_register:
  "rl_state (register_failure rl t k) k' =
     (if k' = k
      then Some (note_failure (policy_for rl k) t
             (case rl_state rl k of None \<Rightarrow> fresh_key_state | Some s \<Rightarrow> s))
      else rl_state rl k')"
  by (simp add: register_failure_def Let_def)

lemma dropWhile_sorted_filter:
  "sorted (xs :: 'a::linorder list) \<Longrightarrow> dropWhile (\<lambda>t. t < c) xs = filter (\<lambda>t. c \<le> t) xs"
proof (induction xs)
  case (Cons x xs)
  show ?case
  proof (cases "x < c")
    case True
    with Cons show ?thesis by simp
  next
    case False
    with Cons.prems have "\<forall>t \<in> set (x # xs). c \<le> t" by auto
    then have "filter (\<lambda>t. c \<le> t) (x # xs) = x # xs" by (simp add: filter_id_conv)
    with False show ?thesis by simp
  qed
qed simp

lemma failures_note_failure:
  "failures (note_failure p now s) = dropWhile (\<lambda>t. t < now - window_seconds p) (failures s) @ [now]"
  by (simp add: note_failure_def Let_def)

lemma key_ok_fresh: "key_ok now fresh_key_state"
  by (simp add: key_ok_def fresh_key_state_def)

lemma key_ok_later: "key_ok now s \<Longrightarrow> now \<le> now' \<Longrightarrow> key_ok now' s"
  by (auto simp: key_ok_def)

lemma key_ok_note_failure:
  assumes "key_ok now s"
  shows "key_ok now (note_failure p now s)"
proof -
  let ?c = "now - window_seconds p"
  from assms have "dropWhile (\<lambda>t. t < ?c) (failures s) = filter (\<lambda>t. ?c \<le> t) (failures s)"
    by (simp add: key_ok_def dropWhile_sorted_filter)
  with assms show ?thesis
    by (auto simp: key_ok_def failures_note_failure sorted_append sorted_wrt_filter)
qed

lemma limiter_ok_register:
  assumes "limiter_ok now rl"
  shows "limiter_ok now (register_failure rl now k)"
  using assms
  by (auto simp: limiter_ok_def rl_state_register key_ok_note_failure key_ok_fresh split: option.splits)

section \<open>The throttle contract\<close>

text \<open>
  What the login services rely on: a verdict that only lapses with time while nothing is
  registered, and failures that count against their own key only.
\<close>

locale throttle =
  fixes allowed :: "'s \<Rightarrow> seconds \<Rightarrow> string \<Rightarrow> bool"
    and register :: "'s \<Rightarrow> seconds \<Rightarrow> string \<Rightarrow> 's"
  assumes allowed_mono: "allowed s t k \<Longrightarrow> t \<le> t' \<Longrightarrow> allowed s t' k"
    and register_other: "k' \<noteq> k \<Longrightarrow> allowed (register s t k) t' k' = allowed s t' k'"
begin

definition after :: "(seconds \<times> string) list \<Rightarrow> 's \<Rightarrow> 's" where
  "after evs s = foldl (\<lambda>s (t, k). register s t k) s evs"

lemma after_other:
  "k \<notin> snd ` set evs \<Longrightarrow> allowed (after evs s) t k = allowed s t k"
  unfolding after_def
  by (induction evs arbitrary: s) (auto simp: register_other split: prod.splits)

lemma stays_allowed:
  assumes "allowed s t k" and "t \<le> t'" and "k \<notin> snd ` set evs"
  shows "allowed (after evs s) t' k"
  using assms after_other allowed_mono by metis

end

lemma check_ok_iff:
  "is_ok (check rl t k) \<longleftrightarrow> (\<forall>s. rl_state rl k = Some s \<longrightarrow> locked_until s \<le> t)"
  by (auto simp: check_def split: option.splits)

interpretation rl: throttle "\<lambda>rl t k. is_ok (check rl t k)" register_failure
proof
  show "is_ok (check s t' k)" if "is_ok (check s t k)" and "t \<le> t'" for s t t' k
    using that by (force simp: check_ok_iff)
  show "is_ok (check (register_failure s t k) t' k') = is_ok (check s t' k')"
    if "k' \<noteq> k" for s t t' k k'
    using that by (simp add: check_ok_iff rl_state_register)
qed

lemma rl_after_foldl:
  "rl.after evs l = foldl (\<lambda>l (t, k). register_failure l t k) l evs"
  by (rule rl.after_def)

section \<open>Behaviour of the sliding window\<close>

text \<open>
  Registering a failure keeps exactly the failures that are still inside the policy's window
  and appends the new one, so that the deque trimmed from the left is the sliding window; it
  arms a lockout exactly when the window then holds at least \<open>max_attempts\<close> failures, of length
  \<open>min (base * 2 ^ overflow) max\<close>, leaves the lockout alone otherwise, and touches no other key.
\<close>

theorem register_failure_sliding_window:
  assumes "limiter_ok now rl" and "rl_state rl key = Some s"
  shows "limiter_ok now (register_failure rl now key)
     \<and> (\<forall>k. k \<noteq> key \<longrightarrow> rl_state (register_failure rl now key) k = rl_state rl k)
     \<and> (let p = policy_for rl key;
            kept = filter (\<lambda>t. now - window_seconds p \<le> t) (failures s) @ [now]
        in \<exists>s'. rl_state (register_failure rl now key) key = Some s'
           \<and> failures s' = kept
           \<and> locked_until s' =
               (if max_attempts p \<le> int (length kept)
                then now + min (base_lockout_seconds p * 2 ^ nat (int (length kept) - max_attempts p))
                               (max_lockout_seconds p)
                else locked_until s))"
proof -
  define p where "p = policy_for rl key"
  define kept where "kept = filter (\<lambda>t. now - window_seconds p \<le> t) (failures s) @ [now]"
  from assms(1,2) have "sorted (failures s)"
    by (simp add: limiter_ok_def key_ok_def)
  then have kept: "dropWhile (\<lambda>t. t < now - window_seconds p) (failures s) @ [now] = kept"
    by (simp add: kept_def dropWhile_sorted_filter)
  have "note_failure p now s =
     (if max_attempts p \<le> int (length kept)
      then \<lparr>failures = kept,
            locked_until = now + min (base_lockout_seconds p * 2 ^ nat (int (length kept) - max_attempts p))
                                     (max_lockout_seconds p)\<rparr>
      else s\<lparr>failures := kept\<rparr>)"
    unfolding note_failure_def Let_def kept by (rule refl)
  then show ?thesis
    using assms(2) limiter_ok_register[OF assms(1), of key]
    unfolding Let_def p_def[symmetric] kept_def[symmetric]
    by (simp add: rl_state_register p_def[symmetric])
qed

definition demo_policy :: rate_limit_policy where
  "demo_policy = \<lparr>max_attempts = 5, window_seconds = 60, base_lockout_seconds = 60,
     max_lockout_seconds = 900\<rparr>"

definition demo_limiter :: rate_limiter where
  "demo_limiter = \<lparr>ip_policy = demo_policy, account_policy = demo_policy,
     rl_state = [account_key ''a'' \<mapsto> \<lparr>failures = [10, 95], locked_until = 0\<rparr>]\<rparr>"

lemma demo_limiter_simps:
  "limiter_ok 100 demo_limiter"
  "rl_state demo_limiter (account_key ''a'') = Some \<lparr>failures = [10, 95], locked_until = 0\<rparr>"
  "policy_for demo_limiter k = demo_policy"
  by (simp_all add: demo_limiter_def limiter_ok_def key_ok_def policy_for_def split: if_splits)

theorem register_failure_sliding_window_witness:
  "\<exists>s'. rl_state (register_failure demo_limiter 100 (account_key ''a'')) (account_key ''a'') = Some s'
     \<and> failures s' = [95, 100] \<and> locked_until s' = 0"
  using register_failure_sliding_window[OF demo_limiter_simps(1,2)]
  by (simp add: Let_def demo_limiter_simps demo_policy_def)

text \<open>
  \<open>check\<close> refuses a key exactly while its lockout lasts, and the wait it reports is at least the
  time left and at most one second more; an armed lockout never exceeds the policy's ceiling.
\<close>

theorem check_refuses_until_lockout_ends:
  assumes "rl_state rl key = Some s" and "0 \<le> max_lockout_seconds (policy_for rl key)"
  shows "(is_ok (check rl now key) \<longleftrightarrow> locked_until s \<le> now)
     \<and> (\<forall>n. check rl now key = Inl (RateLimited n) \<longrightarrow>
           locked_until s - now < of_int n \<and> of_int n \<le> locked_until s - now + 1)
     \<and> (is_ok (check rl now key) \<longrightarrow>
           (\<exists>s'. rl_state (register_failure rl now key) key = Some s'
              \<and> locked_until s' \<le> now + max_lockout_seconds (policy_for rl key)))"
proof (intro conjI allI impI)
  show "is_ok (check rl now key) \<longleftrightarrow> locked_until s \<le> now"
    using assms by (simp add: check_ok_iff)
next
  fix n assume "check rl now key = Inl (RateLimited n)"
  then have "n = \<lfloor>locked_until s - now\<rfloor> + 1"
    using assms(1) by (auto simp: check_def split: if_splits)
  then show "locked_until s - now < of_int n" and "of_int n \<le> locked_until s - now + 1"
    by (simp_all, linarith)
next
  assume "is_ok (check rl now key)"
  then have "locked_until s \<le> now" using assms(1) by (simp add: check_ok_iff)
  then show "\<exists>s'. rl_state (register_failure rl now key) key = Some s'
              \<and> locked_until s' \<le> now + max_lockout_seconds (policy_for rl key)"
    using assms by (simp add: rl_state_register note_failure_def Let_def)
qed

theorem check_refuses_until_lockout_ends_witness:
  "is_ok (check demo_limiter 100 (account_key ''a''))
   \<and> (\<exists>s'. rl_state (register_failure demo_limiter 100 (account_key ''a'')) (account_key ''a'') = Some s'
        \<and> locked_until s' \<le> 1000)"
  using check_refuses_until_lockout_ends[OF demo_limiter_simps(2), of 100]
  by (simp add: demo_limiter_simps demo_policy_def)

section \<open>Escalation\<close>

text \<open>
  The state of a key between sequential attempts: at most \<open>max_attempts\<close> failures, strictly in
  time order, and a full window is locked for the base lockout from its last failure.
\<close>

definition base_lockout :: "rate_limit_policy \<Rightarrow> seconds" where
  "base_lockout p = min (base_lockout_seconds p) (max_lockout_seconds p)"

definition never_escalated :: "rate_limit_policy \<Rightarrow> seconds \<Rightarrow> key_state \<Rightarrow> bool" where
  "never_escalated p now s \<longleftrightarrow>
     sorted_wrt (<) (failures s) \<and> (\<forall>t \<in> set (failures s). t \<le> now)
     \<and> int (length (failures s)) \<le> max_attempts p
     \<and> (if int (length (failures s)) = max_attempts p
        then locked_until s = last (failures s) + base_lockout p
        else locked_until s \<le> now)"

lemma strict_sorted_all_ge_last:
  assumes "sorted_wrt (<) (xs :: 'a::linorder list)" and "last xs \<le> c" and "xs \<noteq> []"
  shows "length (filter (\<lambda>t. c \<le> t) xs) \<le> 1"
proof -
  from assms(3) obtain ys y where xs: "xs = ys @ [y]" by (metis rev_exhaust)
  with assms(1,2) have "\<forall>t \<in> set ys. t < c" by (auto simp: sorted_wrt_append)
  then have "filter (\<lambda>t. c \<le> t) ys = []" by (auto simp: filter_empty_conv)
  with xs show ?thesis by simp
qed

lemma never_escalated_step:
  assumes pol: "2 \<le> max_attempts p" "0 \<le> window_seconds p" "window_seconds p \<le> base_lockout p"
    and inv: "never_escalated p t0 s" and later: "t0 < now" and free: "locked_until s \<le> now"
  shows "never_escalated p now (note_failure p now s)"
proof -
  let ?c = "now - window_seconds p"
  let ?kept = "filter (\<lambda>t. ?c \<le> t) (failures s)"
  have srt: "sorted_wrt (<) (failures s)" and le: "\<forall>t \<in> set (failures s). t \<le> t0"
    and len: "int (length (failures s)) \<le> max_attempts p"
    using inv by (auto simp: never_escalated_def)
  have kept: "dropWhile (\<lambda>t. t < ?c) (failures s) = ?kept"
    by (rule dropWhile_sorted_filter) (use srt in \<open>rule strict_sorted_imp_sorted\<close>)
  have "int (length ?kept) < max_attempts p"
  proof (cases "int (length (failures s)) = max_attempts p")
    case True
    then have ne: "failures s \<noteq> []" using pol(1) by auto
    from True inv free have "last (failures s) + base_lockout p \<le> now"
      by (auto simp: never_escalated_def)
    with pol(3) have "last (failures s) \<le> ?c" by linarith
    from strict_sorted_all_ge_last[OF srt this ne] pol(1) show ?thesis by linarith
  next
    case False
    with len have "int (length (failures s)) < max_attempts p" by simp
    moreover have "length ?kept \<le> length (failures s)" by (rule length_filter_le)
    ultimately show ?thesis by linarith
  qed
  moreover have "sorted_wrt (<) (?kept @ [now])"
    using srt le later by (auto simp: sorted_wrt_append sorted_wrt_filter)
  moreover have "\<forall>t \<in> set (?kept @ [now]). t \<le> now" using le later by auto
  ultimately show ?thesis
    using free by (auto simp: never_escalated_def note_failure_def Let_def kept base_lockout_def)
qed

text \<open>
  A run of failed logins for one key, one after the other, as the login services issue them:
  each is refused while the key is locked and registered otherwise.
\<close>

fun failed_attempts :: "string \<Rightarrow> seconds list \<Rightarrow> rate_limiter \<Rightarrow> rate_limiter" where
  "failed_attempts key [] rl = rl"
| "failed_attempts key (t # ts) rl = failed_attempts key ts (failed_attempt key t rl)"

lemma policy_for_failed_attempt [simp]: "policy_for (failed_attempt key t rl) k = policy_for rl k"
  by (simp add: failed_attempt_def split: sum.splits)

lemma failed_attempts_never_escalated:
  assumes "2 \<le> max_attempts p" "0 \<le> window_seconds p" "window_seconds p \<le> base_lockout p"
    and "policy_for rl key = p" and "sorted_wrt (<) (t0 # ts)"
    and "rl_state rl key = Some s" and "never_escalated p t0 s"
  shows "\<exists>s'. rl_state (failed_attempts key ts rl) key = Some s'
           \<and> never_escalated p (last (t0 # ts)) s'"
  using assms(4-)
proof (induction ts arbitrary: rl s t0)
  case (Cons t ts)
  have "t0 < t" and srt: "sorted_wrt (<) (t # ts)" using Cons.prems(2) by auto
  show ?case
  proof (cases "locked_until s \<le> t")
    case True
    have "rl_state (failed_attempt key t rl) key = Some (note_failure p t s)"
      using True Cons.prems(1,3) by (simp add: failed_attempt_def check_def rl_state_register)
    from Cons.IH[OF _ srt this never_escalated_step[OF assms(1-3) Cons.prems(4) \<open>t0 < t\<close> True]]
    show ?thesis using Cons.prems(1) by simp
  next
    case False
    then have "failed_attempt key t rl = rl"
      using Cons.prems(3) by (simp add: failed_attempt_def check_def)
    moreover have "never_escalated p t s"
      using Cons.prems(4) \<open>t0 < t\<close> by (fastforce simp: never_escalated_def split: if_splits)
    ultimately show ?thesis using Cons.IH[OF Cons.prems(1) srt Cons.prems(3)] by simp
  qed
qed auto

text \<open>
  Under a policy whose lockouts last at least as long as its window (the configured one), failed
  logins for a key that come one after the other never arm more than the base lockout: the window
  never holds more than \<open>max_attempts\<close> failures, because by the time a lockout lapses the failures
  that caused it have left the window. The doubling that \<open>register_failure\<close> computes is reached by
  attempts that were checked before the lockout was armed, only.
\<close>

theorem sequential_failures_never_escalate:
  assumes "2 \<le> max_attempts p" and "0 \<le> window_seconds p" and "window_seconds p \<le> base_lockout p"
    and "policy_for rl key = p" and "rl_state rl key = None"
    and "sorted_wrt (<) ts" and "ts \<noteq> []" and "0 \<le> hd ts"
  shows "\<exists>s. rl_state (failed_attempts key ts rl) key = Some s
          \<and> int (length (failures s)) \<le> max_attempts p
          \<and> locked_until s \<le> last ts + base_lockout p"
proof -
  from assms(7) obtain t ts' where ts: "ts = t # ts'" by (cases ts) auto
  let ?s0 = "note_failure p t fresh_key_state"
  have first: "failed_attempt key t rl = register_failure rl t key"
    using assms(5) by (simp add: failed_attempt_def check_def)
  have s0: "rl_state (register_failure rl t key) key = Some ?s0"
    using assms(4,5) by (simp add: rl_state_register)
  have "never_escalated p t ?s0"
    using assms(1,8) by (simp add: never_escalated_def note_failure_def fresh_key_state_def ts)
  with failed_attempts_never_escalated[OF assms(1-3) _ _ s0, of t ts'] assms(4,6)
  obtain s where s: "rl_state (failed_attempts key ts rl) key = Some s"
    and ne: "never_escalated p (last ts) s"
    by (auto simp: ts first)
  have "locked_until s \<le> last ts + base_lockout p"
  proof (cases "int (length (failures s)) = max_attempts p")
    case True
    then have "failures s \<noteq> []" using assms(1) by auto
    then have "last (failures s) \<le> last ts" using ne by (simp add: never_escalated_def)
    with True ne show ?thesis by (simp add: never_escalated_def)
  next
    case False
    with ne have "locked_until s \<le> last ts" by (simp add: never_escalated_def)
    with assms(2,3) show ?thesis by simp
  qed
  with s ne show ?thesis by (auto simp: never_escalated_def)
qed

theorem sequential_failures_never_escalate_witness:
  "\<exists>s. rl_state (failed_attempts ''account:b'' [1, 2, 3, 4, 5, 6, 65, 66, 67, 68, 69, 70] demo_limiter)
         ''account:b'' = Some s
       \<and> int (length (failures s)) \<le> 5 \<and> locked_until s \<le> 130"
proof -
  have pol: "2 \<le> max_attempts demo_policy" "0 \<le> window_seconds demo_policy"
    "window_seconds demo_policy \<le> base_lockout demo_policy"
    by (simp_all add: demo_policy_def base_lockout_def)
  have "rl_state demo_limiter ''account:b'' = None"
    by (simp add: demo_limiter_def account_key_def ACCOUNT_KEY_PREFIX_def)
  from sequential_failures_never_escalate
      [OF pol demo_limiter_simps(3) this, of "[1, 2, 3, 4, 5, 6, 65, 66, 67, 68, 69, 70]"]
  show ?thesis by (simp add: demo_policy_def base_lockout_def)
qed

text \<open>
  An account or address is locked out by failures registered for that key only: whatever
  failures are registered for other keys, a key that \<open>check\<close> admits now is admitted later.
\<close>

theorem lockout_needs_own_failures:
  assumes "is_ok (check rl t key)" and "t \<le> t'" and "\<forall>(u, k) \<in> set evs. k \<noteq> key"
  shows "is_ok (check (foldl (\<lambda>l (u, k). register_failure l u k) rl evs) t' key)"
proof -
  have "key \<notin> snd ` set evs" using assms(3) by force
  from rl.stays_allowed[OF assms(1,2) this] show ?thesis by (simp add: rl_after_foldl)
qed

theorem lockout_needs_own_failures_witness:
  "is_ok (check (foldl (\<lambda>l (u, k). register_failure l u k) demo_limiter
      (replicate 9 (100, ip_key None))) 101 (account_key ''a''))"
proof -
  have "is_ok (check demo_limiter 100 (account_key ''a''))"
    by (simp add: check_ok_iff demo_limiter_simps)
  then show ?thesis
    by (rule lockout_needs_own_failures)
      (auto simp: ip_key_def account_key_def IP_KEY_PREFIX_def ACCOUNT_KEY_PREFIX_def)
qed

end
