(* ===== verification/Token_Denylist.thy ===== *)
theory Token_Denylist
  imports Prelude_OneAI
begin

text \<open>
  The access-token denylist of \<open>identity/security/token_denylist.py\<close>: revocation by cutoff with lazy
  eviction. The clock is Unix time in whole seconds. The locale \<open>revocation\<close> is the contract of the
  \<open>TokenDenylist\<close> protocol, under which a denylist answers exactly as the trace of revocations
  says; \<open>InProcessTokenDenylist\<close> interprets it.
\<close>

section \<open>The contract\<close>

datatype revocation_event = Revoke_Subject uuid | Revoke_Org uuid

text \<open>What the trace of revocations says of a token: revoked at or after the moment it was issued.\<close>

definition revoked_by :: "(int \<times> revocation_event) list \<Rightarrow> uuid \<Rightarrow> uuid option \<Rightarrow> int \<Rightarrow> bool" where
  "revoked_by trace subject org iat \<longleftrightarrow>
     (\<exists>(t, e) \<in> set trace. iat \<le> t
        \<and> (case e of Revoke_Subject u \<Rightarrow> u = subject | Revoke_Org g \<Rightarrow> org = Some g))"

locale revocation =
  fixes rev_subject :: "'s \<Rightarrow> int \<Rightarrow> uuid \<Rightarrow> 's"
    and rev_org :: "'s \<Rightarrow> int \<Rightarrow> uuid \<Rightarrow> 's"
    and revoked :: "'s \<Rightarrow> uuid \<Rightarrow> uuid option \<Rightarrow> int option \<Rightarrow> bool"
    and ttl :: "'s \<Rightarrow> int"
  assumes closed: "revoked s u g None"
    and subject_kills: "iat \<le> now \<Longrightarrow> revoked (rev_subject s now u) u g (Some iat)"
    and org_kills: "iat \<le> now \<Longrightarrow> revoked (rev_org s now h) u (Some h) (Some iat)"
    and subject_keeps: "revoked s u g (Some iat) \<Longrightarrow> iat \<le> now \<Longrightarrow> now \<le> iat + ttl s \<Longrightarrow>
          revoked (rev_subject s now u') u g (Some iat)"
    and org_keeps: "revoked s u g (Some iat) \<Longrightarrow> iat \<le> now \<Longrightarrow> now \<le> iat + ttl s \<Longrightarrow>
          revoked (rev_org s now h) u g (Some iat)"
    and subject_only: "revoked (rev_subject s now u') u g (Some iat) \<Longrightarrow>
          revoked s u g (Some iat) \<or> (u' = u \<and> iat \<le> now)"
    and org_only: "revoked (rev_org s now h) u g (Some iat) \<Longrightarrow>
          revoked s u g (Some iat) \<or> (g = Some h \<and> iat \<le> now)"
    and ttl_subject: "ttl (rev_subject s now u) = ttl s"
    and ttl_org: "ttl (rev_org s now h) = ttl s"
begin

definition apply_event :: "'s \<Rightarrow> int \<times> revocation_event \<Rightarrow> 's" where
  "apply_event s te = (case te of (t, Revoke_Subject u) \<Rightarrow> rev_subject s t u
                                | (t, Revoke_Org g) \<Rightarrow> rev_org s t g)"

lemma ttl_run: "ttl (foldl apply_event s tr) = ttl s"
  by (induction tr rule: rev_induct)
     (auto simp: apply_event_def ttl_subject ttl_org split: prod.splits revocation_event.splits)

lemma event_keeps:
  assumes "revoked s u g (Some iat)" and "iat \<le> t" and "t \<le> iat + ttl s"
  shows "revoked (apply_event s (t, e)) u g (Some iat)"
  using assms by (cases e) (simp_all add: apply_event_def subject_keeps org_keeps)

lemma event_kills:
  assumes "revoked_by [(t, e)] u g iat"
  shows "revoked (apply_event s (t, e)) u g (Some iat)"
  using assms by (cases e) (auto simp: revoked_by_def apply_event_def subject_kills org_kills)

lemma event_only:
  assumes "revoked (apply_event s (t, e)) u g (Some iat)"
  shows "revoked s u g (Some iat) \<or> revoked_by [(t, e)] u g iat"
  using assms
  by (cases e) (auto simp: revoked_by_def apply_event_def dest: subject_only org_only)

lemma revoked_iff_trace:
  assumes "\<not> revoked s u g (Some iat)"
    and "sorted (map fst tr)" and "\<forall>(t, e) \<in> set tr. t \<le> iat + ttl s"
  shows "revoked (foldl apply_event s tr) u g (Some iat) \<longleftrightarrow> revoked_by tr u g iat"
  using assms(2,3)
proof (induction tr rule: rev_induct)
  case Nil
  with assms(1) show ?case by (simp add: revoked_by_def)
next
  case (snoc te tr)
  obtain t e where te: "te = (t, e)" by (cases te)
  have IH: "revoked (foldl apply_event s tr) u g (Some iat) \<longleftrightarrow> revoked_by tr u g iat"
    using snoc by (simp add: sorted_append)
  have split: "revoked_by (tr @ [te]) u g iat \<longleftrightarrow> revoked_by tr u g iat \<or> revoked_by [te] u g iat"
    by (auto simp: revoked_by_def)
  have tt: "t \<le> iat + ttl (foldl apply_event s tr)"
    using snoc.prems(2) by (auto simp: te ttl_run)
  have later: "iat \<le> t" if rb: "revoked_by tr u g iat"
  proof -
    from rb obtain t' e' where "(t', e') \<in> set tr" "iat \<le> t'"
      by (auto simp: revoked_by_def)
    moreover from this snoc.prems(1) have "t' \<le> t" by (force simp: sorted_append te)
    ultimately show ?thesis by simp
  qed
  have keep: "revoked (apply_event (foldl apply_event s tr) (t, e)) u g (Some iat)"
    if "revoked_by tr u g iat"
    using event_keeps[OF _ later[OF that] tt] IH that by blast
  show ?case
    unfolding split using IH keep event_kills[of t e u g iat] te
      event_only[of "foldl apply_event s tr" t e u g iat]
    by auto
qed

end

section \<open>The in-process denylist\<close>

record token_denylist =
  access_ttl_seconds :: int
  subject_cutoffs :: "uuid \<rightharpoonup> int"
  org_cutoffs :: "uuid \<rightharpoonup> int"

definition new_denylist :: "int \<Rightarrow> token_denylist" where
  "new_denylist ttl_s = \<lparr>access_ttl_seconds = ttl_s, subject_cutoffs = Map.empty, org_cutoffs = Map.empty\<rparr>"

definition reset_denylist :: "token_denylist \<Rightarrow> token_denylist" where
  "reset_denylist d = d\<lparr>subject_cutoffs := Map.empty, org_cutoffs := Map.empty\<rparr>"

definition evict_expired :: "token_denylist \<Rightarrow> (uuid \<rightharpoonup> int) \<Rightarrow> int \<Rightarrow> (uuid \<rightharpoonup> int)" where
  "evict_expired d cutoffs now =
     (let horizon = now - access_ttl_seconds d
      in (\<lambda>k. case cutoffs k of None \<Rightarrow> None | Some ts \<Rightarrow> if ts < horizon then None else Some ts))"

definition revoke_subject :: "token_denylist \<Rightarrow> int \<Rightarrow> uuid \<Rightarrow> token_denylist" where
  "revoke_subject d now subject_id =
     d\<lparr>subject_cutoffs := (evict_expired d (subject_cutoffs d) now)(subject_id \<mapsto> now)\<rparr>"

definition revoke_org :: "token_denylist \<Rightarrow> int \<Rightarrow> uuid \<Rightarrow> token_denylist" where
  "revoke_org d now org_id =
     d\<lparr>org_cutoffs := (evict_expired d (org_cutoffs d) now)(org_id \<mapsto> now)\<rparr>"

definition is_revoked :: "token_denylist \<Rightarrow> uuid \<Rightarrow> uuid option \<Rightarrow> int option \<Rightarrow> bool" where
  "is_revoked d subject_id org_id issued_at =
     (case issued_at of
        None \<Rightarrow> True
      | Some iat \<Rightarrow>
          (case subject_cutoffs d subject_id of Some c \<Rightarrow> iat \<le> c | None \<Rightarrow> False)
          \<or> (case org_id of
               None \<Rightarrow> False
             | Some g \<Rightarrow> (case org_cutoffs d g of Some c \<Rightarrow> iat \<le> c | None \<Rightarrow> False)))"

lemma is_revoked_Some:
  "is_revoked d u g (Some iat) \<longleftrightarrow>
     (\<exists>c. subject_cutoffs d u = Some c \<and> iat \<le> c)
     \<or> (\<exists>o' c. g = Some o' \<and> org_cutoffs d o' = Some c \<and> iat \<le> c)"
  by (auto simp: is_revoked_def split: option.splits)

lemma evict_expired_Some:
  "evict_expired d m now k = Some c \<longleftrightarrow> m k = Some c \<and> now - access_ttl_seconds d \<le> c"
  by (auto simp: evict_expired_def Let_def split: option.splits if_splits)

lemma access_ttl_revoke [simp]:
  "access_ttl_seconds (revoke_subject d now u) = access_ttl_seconds d"
  "access_ttl_seconds (revoke_org d now g) = access_ttl_seconds d"
  by (simp_all add: revoke_subject_def revoke_org_def)

lemma cutoffs_revoke:
  "subject_cutoffs (revoke_subject d now u) u' = Some c \<longleftrightarrow>
     (if u' = u then c = now else subject_cutoffs d u' = Some c \<and> now - access_ttl_seconds d \<le> c)"
  "org_cutoffs (revoke_org d now g) g' = Some c \<longleftrightarrow>
     (if g' = g then c = now else org_cutoffs d g' = Some c \<and> now - access_ttl_seconds d \<le> c)"
  "org_cutoffs (revoke_subject d now u) = org_cutoffs d"
  "subject_cutoffs (revoke_org d now g) = subject_cutoffs d"
  by (auto simp: revoke_subject_def revoke_org_def evict_expired_Some)

interpretation dl: revocation revoke_subject revoke_org is_revoked access_ttl_seconds
proof
  show "is_revoked d u g None" for d u g by (simp add: is_revoked_def)
  show "is_revoked (revoke_subject d now u) u g (Some iat)" if "iat \<le> now" for d now u g iat
    using that by (simp add: is_revoked_Some cutoffs_revoke)
  show "is_revoked (revoke_org d now g) u (Some g) (Some iat)" if "iat \<le> now" for d now u g iat
    using that by (simp add: is_revoked_Some cutoffs_revoke)
  show "is_revoked (revoke_subject d now u') u g (Some iat)"
    if "is_revoked d u g (Some iat)" and "iat \<le> now" and "now \<le> iat + access_ttl_seconds d"
    for d u g iat now u'
    using that by (cases "u = u'") (auto simp: is_revoked_Some cutoffs_revoke)
  show "is_revoked (revoke_org d now g') u g (Some iat)"
    if "is_revoked d u g (Some iat)" and "iat \<le> now" and "now \<le> iat + access_ttl_seconds d"
    for d u g iat now g'
    using that by (cases "g = Some g'") (auto simp: is_revoked_Some cutoffs_revoke)
  show "is_revoked d u g (Some iat) \<or> (u' = u \<and> iat \<le> now)"
    if "is_revoked (revoke_subject d now u') u g (Some iat)" for d now u' u g iat
    using that by (auto simp: is_revoked_Some cutoffs_revoke split: if_splits)
  show "is_revoked d u g (Some iat) \<or> (g = Some g' \<and> iat \<le> now)"
    if "is_revoked (revoke_org d now g') u g (Some iat)" for d now g' u g iat
    using that by (auto simp: is_revoked_Some cutoffs_revoke split: if_splits)
qed simp_all

fun revoke_event :: "token_denylist \<Rightarrow> int \<times> revocation_event \<Rightarrow> token_denylist" where
  "revoke_event d (t, Revoke_Subject u) = revoke_subject d t u"
| "revoke_event d (t, Revoke_Org g) = revoke_org d t g"

lemma revoke_event_eq: "revoke_event = dl.apply_event"
  by (auto simp: fun_eq_iff dl.apply_event_def split: prod.splits revocation_event.splits)

text \<open>
  C31: started empty, the denylist answers for every token that has not yet run out exactly as the
  trace of revocations says, eviction notwithstanding: it is revoked if and only if its subject or its
  organization was revoked at or after the second it was issued.
\<close>

theorem denylist_matches_trace:
  assumes "sorted (map fst trace)" and "\<forall>(t, e) \<in> set trace. t \<le> iat + ttl_s"
  shows "is_revoked (foldl revoke_event (new_denylist ttl_s) trace) subject org (Some iat)
           \<longleftrightarrow> revoked_by trace subject org iat"
proof -
  have "\<not> is_revoked (new_denylist ttl_s) subject org (Some iat)"
    and "access_ttl_seconds (new_denylist ttl_s) = ttl_s"
    by (simp_all add: new_denylist_def is_revoked_Some)
  with dl.revoked_iff_trace[of "new_denylist ttl_s" subject org iat trace] assms
  show ?thesis by (simp add: revoke_event_eq)
qed

theorem denylist_matches_trace_witness:
  "is_revoked (foldl revoke_event (new_denylist 900)
      [(10, Revoke_Subject 1), (50, Revoke_Org 7), (940, Revoke_Subject 2)]) 3 (Some 7) (Some 40)
   \<and> \<not> is_revoked (foldl revoke_event (new_denylist 900)
      [(10, Revoke_Subject 1), (50, Revoke_Org 7), (940, Revoke_Subject 2)]) 1 None (Some 40)"
proof -
  let ?tr = "[(10, Revoke_Subject 1), (50, Revoke_Org 7), (940, Revoke_Subject 2)]"
  show ?thesis
    using denylist_matches_trace[of ?tr 40 900 3 "Some 7"] denylist_matches_trace[of ?tr 40 900 1 None]
    by (simp add: revoked_by_def)
qed

end
