(* ===== verification/Audit_Trail.thy ===== *)
theory Audit_Trail
  imports Identity_Tables Rate_Limit Token_Denylist
begin

text \<open>
  The environment of one request, the state its handler works on, the audit writer of
  \<open>identity/services/audit_service.py\<close> and the unit of work of \<open>core/database.py\<close>. Rows written
  with \<open>record\<close> live and die with the request's transaction; rows written with
  \<open>record_independently\<close> are committed on a session of their own and survive its rollback, as do
  the two process-wide singletons, the login throttle and the token denylist.
\<close>

section \<open>Actions and events\<close>

datatype audit_action =
    LOGIN_SUCCESS | LOGIN_FAILURE | LOGIN_BLOCKED | REFRESH | LOGOUT
  | ORG_ONBOARD | ORG_SUSPEND | ORG_REACTIVATE | ORG_STATUS_CHANGE
  | ORG_LEGAL_HOLD_SET | ORG_LEGAL_HOLD_CLEAR
  | USER_CREATE | USER_ROLE_CHANGE | USER_DEACTIVATE | USER_REACTIVATE
  | SUPPORT_REQUESTED | SUPPORT_APPROVED | SUPPORT_DENIED | SUPPORT_REVOKED
  | ORG_ERASED
  | CONNECTOR_CREATED | CONNECTOR_DISABLED | CONNECTOR_ENABLED | CONNECTOR_DELETED
  | SYNC_STARTED | SYNC_FINISHED
  | ENTITLEMENT_GRANTED | ENTITLEMENT_REVOKED | CONNECTOR_POLICY_CHANGED
  | CONNECTOR_CONSENTED | CONNECTOR_CONSENT_WITHDRAWN | CONNECTOR_CONNECTED | CONNECTOR_DISCONNECTED
  | VISIBILITY_PROMOTED | ACCESS_RETRIEVAL_DECISION | ACCESS_GRANT_REVOKED

fun action_value :: "audit_action \<Rightarrow> string" where
  "action_value LOGIN_SUCCESS = ''auth.login.success''"
| "action_value LOGIN_FAILURE = ''auth.login.failure''"
| "action_value LOGIN_BLOCKED = ''auth.login.blocked''"
| "action_value REFRESH = ''auth.refresh''"
| "action_value LOGOUT = ''auth.logout''"
| "action_value ORG_ONBOARD = ''org.onboard''"
| "action_value ORG_SUSPEND = ''org.suspend''"
| "action_value ORG_REACTIVATE = ''org.reactivate''"
| "action_value ORG_STATUS_CHANGE = ''org.status_change''"
| "action_value ORG_LEGAL_HOLD_SET = ''org.legal_hold.set''"
| "action_value ORG_LEGAL_HOLD_CLEAR = ''org.legal_hold.clear''"
| "action_value USER_CREATE = ''user.create''"
| "action_value USER_ROLE_CHANGE = ''user.role_change''"
| "action_value USER_DEACTIVATE = ''user.deactivate''"
| "action_value USER_REACTIVATE = ''user.reactivate''"
| "action_value SUPPORT_REQUESTED = ''support.requested''"
| "action_value SUPPORT_APPROVED = ''support.approved''"
| "action_value SUPPORT_DENIED = ''support.denied''"
| "action_value SUPPORT_REVOKED = ''support.revoked''"
| "action_value ORG_ERASED = ''org.erased''"
| "action_value CONNECTOR_CREATED = ''connector.created''"
| "action_value CONNECTOR_DISABLED = ''connector.disabled''"
| "action_value CONNECTOR_ENABLED = ''connector.enabled''"
| "action_value CONNECTOR_DELETED = ''connector.deleted''"
| "action_value SYNC_STARTED = ''sync.started''"
| "action_value SYNC_FINISHED = ''sync.finished''"
| "action_value ENTITLEMENT_GRANTED = ''entitlement.granted''"
| "action_value ENTITLEMENT_REVOKED = ''entitlement.revoked''"
| "action_value CONNECTOR_POLICY_CHANGED = ''connector.policy_changed''"
| "action_value CONNECTOR_CONSENTED = ''connector.consented''"
| "action_value CONNECTOR_CONSENT_WITHDRAWN = ''connector.consent_withdrawn''"
| "action_value CONNECTOR_CONNECTED = ''connector.connected''"
| "action_value CONNECTOR_DISCONNECTED = ''connector.disconnected''"
| "action_value VISIBILITY_PROMOTED = ''access.visibility_promoted''"
| "action_value ACCESS_RETRIEVAL_DECISION = ''access.retrieval_decision''"
| "action_value ACCESS_GRANT_REVOKED = ''access.grant_revoked''"

record audit_event =
  ae_action :: audit_action
  ae_actor_type :: audit_actor_type
  ae_actor_id :: "uuid option"
  ae_actor_email :: "string option"
  ae_org_id :: "uuid option"
  ae_entity_type :: "string option"
  ae_entity_id :: "uuid option"
  ae_details :: "(string \<times> json) list"

text \<open>An event with the dataclass defaults.\<close>

definition audit_event_of :: "audit_action \<Rightarrow> audit_actor_type \<Rightarrow> audit_event" where
  "audit_event_of action actor = \<lparr>ae_action = action, ae_actor_type = actor, ae_actor_id = None,
     ae_actor_email = None, ae_org_id = None, ae_entity_type = None, ae_entity_id = None, ae_details = []\<rparr>"

section \<open>The environment and the state of a request\<close>

record request_context =
  ctx_ip_address :: "string option"
  ctx_request_id :: string

text \<open>
  What a request reads from outside: the clocks (one instant per request), the request context,
  the identifiers it draws in order, and whether the independent audit session could commit.
\<close>

record env =
  now_utc :: datetime
  monotonic :: seconds
  request_ctx :: "request_context option"
  uuids :: "nat \<Rightarrow> uuid"
  independent_ok :: bool

record world =
  w_db :: identity_db
  w_independent :: "audit_row list"
  w_limiter :: rate_limiter
  w_denylist :: token_denylist

definition REQUEST_ID_MAX_LENGTH :: nat where
  "REQUEST_ID_MAX_LENGTH = 64"

definition build_row :: "env \<Rightarrow> uuid \<Rightarrow> audit_event \<Rightarrow> audit_row" where
  "build_row e i ev = \<lparr>
     al_id = i,
     al_occurred_at = now_utc e,
     al_actor_type = ae_actor_type ev,
     al_actor_id = ae_actor_id ev,
     al_actor_email = ae_actor_email ev,
     al_action = action_value (ae_action ev),
     al_org_id = ae_org_id ev,
     al_entity_type = ae_entity_type ev,
     al_entity_id = ae_entity_id ev,
     al_details = ae_details ev,
     al_ip_address = (case request_ctx e of None \<Rightarrow> None | Some c \<Rightarrow> ctx_ip_address c),
     al_request_id = (case request_ctx e of None \<Rightarrow> None
                      | Some c \<Rightarrow> Some (take REQUEST_ID_MAX_LENGTH (ctx_request_id c)))\<rparr>"

text \<open>\<open>record\<close> appends in the caller's transaction, \<open>record_independently\<close> in one of its own and swallows its failure.\<close>

definition record_event :: "env \<Rightarrow> uuid \<Rightarrow> audit_event \<Rightarrow> world \<Rightarrow> world" where
  "record_event e i ev w = w\<lparr>w_db := audit_insert (build_row e i ev) (w_db w)\<rparr>"

definition record_independently :: "env \<Rightarrow> uuid \<Rightarrow> audit_event \<Rightarrow> world \<Rightarrow> world" where
  "record_independently e i ev w =
     (if independent_ok e then w\<lparr>w_independent := w_independent w @ [build_row e i ev]\<rparr> else w)"

text \<open>The committed trail: both kinds of rows are rows of the one table.\<close>

definition audit_rows :: "world \<Rightarrow> audit_row list" where
  "audit_rows w = audit_log (w_db w) @ w_independent w"

definition list_for_org :: "world \<Rightarrow> uuid \<Rightarrow> nat \<Rightarrow> nat \<Rightarrow> audit_row list" where
  "list_for_org w org_id limit offset = audit_list_for_org (audit_rows w) org_id limit offset"

definition list_global :: "world \<Rightarrow> string option \<Rightarrow> uuid option \<Rightarrow> nat \<Rightarrow> nat \<Rightarrow> audit_row list" where
  "list_global w action org_id limit offset = audit_list_global (audit_rows w) action org_id limit offset"

section \<open>The unit of work\<close>

text \<open>
  \<open>get_session\<close> commits when the handler returns and rolls back when it raises: a handler that
  raises leaves the tables as they were.
\<close>

type_synonym 'a handler = "world \<Rightarrow> (identity_error + 'a) \<times> world"

definition unit_of_work :: "'a handler \<Rightarrow> 'a handler" where
  "unit_of_work op w =
     (case op w of
        (Inl err, w') \<Rightarrow> (Inl err, w'\<lparr>w_db := w_db w\<rparr>)
      | (Inr a, w') \<Rightarrow> (Inr a, w'))"

lemma record_event_sel [simp]:
  "w_db (record_event e i ev w) = audit_insert (build_row e i ev) (w_db w)"
  "w_independent (record_event e i ev w) = w_independent w"
  "w_limiter (record_event e i ev w) = w_limiter w"
  "w_denylist (record_event e i ev w) = w_denylist w"
  by (simp_all add: record_event_def)

lemma record_independently_sel [simp]:
  "w_db (record_independently e i ev w) = w_db w"
  "w_limiter (record_independently e i ev w) = w_limiter w"
  "w_denylist (record_independently e i ev w) = w_denylist w"
  "w_independent (record_independently e i ev w) =
     w_independent w @ (if independent_ok e then [build_row e i ev] else [])"
  by (simp_all add: record_independently_def)

text \<open>
  The audit trail is append-only: what a handler leaves behind extends both kinds of rows.
\<close>

definition audit_extends :: "world \<Rightarrow> world \<Rightarrow> bool" where
  "audit_extends w w' \<longleftrightarrow>
     prefix (audit_log (w_db w)) (audit_log (w_db w')) \<and> prefix (w_independent w) (w_independent w')"

lemma audit_extends_refl [simp, intro]: "audit_extends w w"
  by (simp add: audit_extends_def)

lemma audit_extends_trans [trans]: "audit_extends a b \<Longrightarrow> audit_extends b c \<Longrightarrow> audit_extends a c"
  unfolding audit_extends_def by (blast intro: prefix_order.trans)

text \<open>
  A handler is audited when, on every world, it extends the trail and keeps the constraints; the
  unit of work turns such a handler into a transaction that does the same and changes no table
  when it raises.
\<close>

locale audited_handler =
  fixes op :: "'a handler" and ok :: "world \<Rightarrow> bool"
  assumes extends: "audit_extends w (snd (op w))"
    and keeps_wf: "ok w \<Longrightarrow> identity_wf (w_db w) \<Longrightarrow> identity_wf (w_db (snd (op w)))"
begin

lemma unit_of_work_extends: "audit_extends w (snd (unit_of_work op w))"
  using extends[of w] by (auto simp: unit_of_work_def audit_extends_def split: prod.splits sum.splits)

lemma unit_of_work_wf:
  assumes "ok w" and "identity_wf (w_db w)"
  shows "identity_wf (w_db (snd (unit_of_work op w)))"
  using keeps_wf[OF assms] assms(2) by (auto simp: unit_of_work_def split: prod.splits sum.splits)

lemma unit_of_work_rolls_back:
  "fst (unit_of_work op w) = Inl err \<Longrightarrow> w_db (snd (unit_of_work op w)) = w_db w"
  by (auto simp: unit_of_work_def split: prod.splits sum.splits)

lemma audit_rows_kept: "set (audit_rows w) \<subseteq> set (audit_rows (snd (unit_of_work op w)))"
  using unit_of_work_extends[of w]
  by (auto simp: audit_extends_def audit_rows_def dest: set_mono_prefix)

end

text \<open>
  The trail reads are faithful pages: every entry returned belongs to the requested organization
  and to the trail, there are at most \<open>limit\<close> of them, and they come newest first.
\<close>

theorem audit_page_faithful:
  "set (list_for_org w org_id limit offset) \<subseteq> {r \<in> set (audit_rows w). al_org_id r = Some org_id}
   \<and> length (list_for_org w org_id limit offset)
       = min limit (length (filter (\<lambda>r. al_org_id r = Some org_id) (audit_rows w)) - offset)
   \<and> sorted_wrt (\<lambda>a b. (al_occurred_at b, al_id b) \<le> (al_occurred_at a, al_id a))
       (list_for_org w org_id limit offset)"
proof -
  let ?sel = "select_where (\<lambda>r. al_org_id r = Some org_id) (audit_rows w)"
  let ?ord = "order_desc (\<lambda>r. (al_occurred_at r, al_id r)) ?sel"
  have page: "list_for_org w org_id limit offset = paginate limit offset ?ord"
    by (simp add: list_for_org_def audit_list_for_org_def)
  have "set (paginate limit offset ?ord) \<subseteq> set ?sel"
    using set_paginate[of limit offset ?ord] by simp
  then have 1: "set (paginate limit offset ?ord) \<subseteq> {r \<in> set (audit_rows w). al_org_id r = Some org_id}"
    by (auto simp: select_where_def)
  have 2: "sorted_wrt (\<lambda>a b. (al_occurred_at b, al_id b) \<le> (al_occurred_at a, al_id a)) ?ord"
    by (rule sorted_order_desc)
  have "sorted_wrt (\<lambda>a b. (al_occurred_at b, al_id b) \<le> (al_occurred_at a, al_id a))
      (paginate limit offset ?ord)"
    unfolding paginate_def by (intro sorted_wrt_take sorted_wrt_drop 2)
  with 1 show ?thesis by (simp only: page length_paginate length_order_desc) (simp add: select_where_def)
qed

end
