(* ===== verification/Tokens.thy ===== *)
theory Tokens
  imports Audit_Trail
begin

text \<open>
  Access tokens (\<open>identity/security/tokens.py\<close>), opaque refresh tokens with their issuer and
  rotator (\<open>identity/services/token_issuer.py\<close>, \<open>token_rotator.py\<close>) and the authentication
  dependencies of \<open>identity/dependencies.py\<close>. PyJWT, bcrypt, SHA-256 and the system's randomness are
  parameters (record \<open>crypto\<close>); what the code relies on of PyJWT is the predicate \<open>pyjwt_contract\<close>.
\<close>

section \<open>Principals, settings and external functions\<close>

record principal =
  p_subject_id :: uuid
  p_org_id :: "uuid option"
  p_role :: string
  p_subject_type :: subject_type

record settings =
  jwt_secret :: string
  jwt_algorithm :: string
  access_token_ttl_minutes :: int
  refresh_token_ttl_days :: int

datatype jwt_failure = ExpiredSignature | InvalidToken

type_synonym claims = "string \<rightharpoonup> json"

text \<open>
  \<open>'tok\<close> is the type of compact-serialized JWTs. \<open>bcrypt_checkpw\<close> is \<open>None\<close> where bcrypt raises
  \<open>ValueError\<close>; \<open>token_urlsafe\<close> is the random text the request draws; \<open>str_of\<close> is Python's
  \<open>str\<close> on claim values that are no strings.
\<close>

record 'tok crypto =
  jwt_encode :: "(string \<times> json) list \<Rightarrow> string \<Rightarrow> string \<Rightarrow> 'tok"
  jwt_decode :: "'tok \<Rightarrow> string \<Rightarrow> string \<Rightarrow> string \<Rightarrow> datetime \<Rightarrow> jwt_failure + claims"
  sha256_hexdigest :: "string \<Rightarrow> string"
  bcrypt_checkpw :: "string \<Rightarrow> string \<Rightarrow> bool option"
  bcrypt_hashpw :: "string \<Rightarrow> string"
  token_urlsafe :: string
  str_of :: "json \<Rightarrow> string"

definition COMPANY_AUDIENCE :: string where
  "COMPANY_AUDIENCE = ''company''"

definition PLATFORM_AUDIENCE :: string where
  "PLATFORM_AUDIENCE = ''platform''"

section \<open>Access tokens\<close>

definition access_token_ttl :: "settings \<Rightarrow> int" where
  "access_token_ttl st = access_token_ttl_minutes st * 60 * usec_per_sec"

definition refresh_token_ttl :: "settings \<Rightarrow> int" where
  "refresh_token_ttl st = refresh_token_ttl_days st * 86400 * usec_per_sec"

definition access_claims :: "env \<Rightarrow> uuid \<Rightarrow> principal \<Rightarrow> int \<Rightarrow> string \<Rightarrow> (string \<times> json) list" where
  "access_claims e jti p ttl audience =
     [(''sub'', JId (p_subject_id p)),
      (''type'', JStr ''access''),
      (''aud'', JStr audience),
      (''role'', JStr (p_role p)),
      (''org_id'', case p_org_id p of None \<Rightarrow> JNull | Some g \<Rightarrow> JId g),
      (''iat'', JInt (timestamp_int (now_utc e))),
      (''exp'', JInt (timestamp_int (now_utc e + ttl))),
      (''jti'', JId jti)]"

definition encode_access_token ::
  "'tok crypto \<Rightarrow> settings \<Rightarrow> env \<Rightarrow> uuid \<Rightarrow> principal \<Rightarrow> int \<Rightarrow> string \<Rightarrow> 'tok" where
  "encode_access_token cr st e jti p ttl audience =
     jwt_encode cr (access_claims e jti p ttl audience) (jwt_secret st) (jwt_algorithm st)"

definition decode_access_token ::
  "'tok crypto \<Rightarrow> settings \<Rightarrow> env \<Rightarrow> 'tok \<Rightarrow> string \<Rightarrow> identity_error + claims" where
  "decode_access_token cr st e token audience =
     (case jwt_decode cr token (jwt_secret st) (jwt_algorithm st) audience (now_utc e) of
        Inr cl \<Rightarrow> Inr cl
      | Inl ExpiredSignature \<Rightarrow> Inl (TokenExpiredError ''Access token has expired.'')
      | Inl InvalidToken \<Rightarrow> Inl (TokenInvalidError ''Access token is invalid.''))"

section \<open>Refresh tokens\<close>

definition new_refresh_token :: "'tok crypto \<Rightarrow> string \<times> string" where
  "new_refresh_token cr = (token_urlsafe cr, sha256_hexdigest cr (token_urlsafe cr))"

definition refresh_token_expiry :: "env \<Rightarrow> int \<Rightarrow> datetime" where
  "refresh_token_expiry e ttl = now_utc e + ttl"

text \<open>
  \<open>TokenIssuer.issue_pair\<close>; the request's \<open>k\<close>-th draw is the \<open>jti\<close>, the next one the row's
  identifier. \<open>None\<close> is the refusal of a hash that is already stored.
\<close>

definition issue_pair ::
  "'tok crypto \<Rightarrow> settings \<Rightarrow> env \<Rightarrow> nat \<Rightarrow> principal \<Rightarrow> string \<Rightarrow> subject_type \<Rightarrow> identity_db
    \<Rightarrow> (('tok \<times> string) \<times> identity_db) option" where
  "issue_pair cr st e k p audience stype db =
     (let access = encode_access_token cr st e (uuids e k) p (access_token_ttl st) audience;
          (raw, token_hash) = new_refresh_token cr
      in case refresh_tokens_add
               \<lparr>rt_id = uuids e (Suc k), rt_subject_id = p_subject_id p, rt_subject_type = stype,
                rt_token_hash = token_hash,
                rt_expires_at = refresh_token_expiry e (refresh_token_ttl st), rt_revoked_at = None\<rparr> db of
           None \<Rightarrow> None
         | Some db' \<Rightarrow> Some ((access, raw), db'))"

definition is_expired :: "env \<Rightarrow> refresh_token \<Rightarrow> bool" where
  "is_expired e t \<longleftrightarrow> rt_expires_at t \<le> now_utc e"

abbreviation refresh_invalid :: identity_error where
  "refresh_invalid \<equiv> RefreshTokenInvalidError ''Refresh token is invalid.''"

definition consume ::
  "'tok crypto \<Rightarrow> env \<Rightarrow> string \<Rightarrow> subject_type \<Rightarrow> identity_db
    \<Rightarrow> (identity_error + refresh_token) \<times> identity_db" where
  "consume cr e raw expected db =
     (let token_hash = sha256_hexdigest cr raw
      in case refresh_tokens_get_by_hash db token_hash of
           None \<Rightarrow> (Inl refresh_invalid, db)
         | Some stored \<Rightarrow>
             if rt_subject_type stored \<noteq> expected \<or> is_expired e stored then (Inl refresh_invalid, db)
             else (let (n, db') = refresh_tokens_revoke_by_hash (now_utc e) token_hash db
                   in if n = 0 then (Inl refresh_invalid, db') else (Inr stored, db')))"

definition revoke_refresh :: "'tok crypto \<Rightarrow> env \<Rightarrow> string \<Rightarrow> identity_db \<Rightarrow> uuid option \<times> identity_db" where
  "revoke_refresh cr e raw db =
     (let token_hash = sha256_hexdigest cr raw;
          stored = refresh_tokens_get_by_hash db token_hash;
          (_, db') = refresh_tokens_revoke_by_hash (now_utc e) token_hash db
      in (map_option rt_subject_id stored, db'))"

section \<open>Authentication of a request\<close>

text \<open>\<open>UUID(str(v))\<close>: a string that is the text of a UUID is \<open>JId\<close>; anything else is malformed.\<close>

fun uuid_of_json :: "json \<Rightarrow> uuid option" where
  "uuid_of_json (JId u) = Some u"
| "uuid_of_json _ = None"

text \<open>Python's truth value of a claim.\<close>

fun truthy :: "json \<Rightarrow> bool" where
  "truthy JNull = False"
| "truthy (JBool b) = b"
| "truthy (JInt i) = (i \<noteq> 0)"
| "truthy (JNum q) = (q \<noteq> 0)"
| "truthy (JStr s) = (s \<noteq> [])"
| "truthy (JList xs) = (xs \<noteq> [])"
| "truthy (JObj xs) = (xs \<noteq> [])"
| "truthy _ = True"

text \<open>Python's \<open>int(v)\<close>; \<open>None\<close> where it raises.\<close>

definition digit_value :: "char \<Rightarrow> nat option" where
  "digit_value c = (let n = of_char c in if 48 \<le> n \<and> n \<le> (57::nat) then Some (n - 48) else None)"

definition digits_value :: "string \<Rightarrow> int option" where
  "digits_value s =
     foldl (\<lambda>acc c. case (acc, digit_value c) of (Some v, Some d) \<Rightarrow> Some (10 * v + int d) | _ \<Rightarrow> None)
       (if s = [] then None else Some 0) s"

definition py_int :: "string \<Rightarrow> int option" where
  "py_int s =
     (let t = py_strip s;
          (sgn, body) = (case t of
              c # r \<Rightarrow> if c = CHR ''-'' then (-1, r) else if c = CHR ''+'' then (1, r) else (1, t)
            | [] \<Rightarrow> (1, t));
          parts = split_where (\<lambda>c. c = CHR ''_'') body
      in if [] \<in> set parts then None else map_option (\<lambda>v. sgn * v) (digits_value (concat parts)))"

fun int_of_json :: "json \<Rightarrow> int option" where
  "int_of_json (JInt i) = Some i"
| "int_of_json (JBool b) = Some (if b then 1 else 0)"
| "int_of_json (JNum q) = Some (if 0 \<le> q then \<lfloor>q\<rfloor> else \<lceil>q\<rceil>)"
| "int_of_json (JStr s) = py_int s"
| "int_of_json _ = None"

abbreviation claims_malformed :: identity_error where
  "claims_malformed \<equiv> TokenInvalidError ''Access token claims are malformed.''"

definition claim_uuid :: "claims \<Rightarrow> string \<Rightarrow> uuid option option" where
  "claim_uuid cl key =
     (case cl key of
        None \<Rightarrow> Some None
      | Some v \<Rightarrow> if truthy v then map_option Some (uuid_of_json v) else Some None)"

definition reject_if_revoked :: "claims \<Rightarrow> token_denylist \<Rightarrow> identity_error + unit" where
  "reject_if_revoked cl denylist =
     (case Option.bind (cl ''sub'') uuid_of_json of
        None \<Rightarrow> Inl claims_malformed
      | Some subject_id \<Rightarrow>
        (case claim_uuid cl ''org_id'' of
           None \<Rightarrow> Inl claims_malformed
         | Some org_id \<Rightarrow>
           (case (case cl ''iat'' of
                    None \<Rightarrow> Some None
                  | Some v \<Rightarrow> if v = JNull then Some None else map_option Some (int_of_json v)) of
              None \<Rightarrow> Inl claims_malformed
            | Some issued_at \<Rightarrow>
                if is_revoked denylist subject_id org_id issued_at
                then Inl (TokenInvalidError ''Access token has been revoked.'')
                else Inr ())))"

definition principal_from_claims ::
  "'tok crypto \<Rightarrow> claims \<Rightarrow> subject_type \<Rightarrow> identity_error + principal" where
  "principal_from_claims cr cl stype =
     (case Option.bind (cl ''sub'') uuid_of_json of
        None \<Rightarrow> Inl claims_malformed
      | Some subject_id \<Rightarrow>
        (case cl ''role'' of
           None \<Rightarrow> Inl claims_malformed
         | Some role \<Rightarrow>
           (case claim_uuid cl ''org_id'' of
              None \<Rightarrow> Inl claims_malformed
            | Some org_id \<Rightarrow>
                Inr \<lparr>p_subject_id = subject_id, p_org_id = org_id,
                     p_role = (case role of JStr s \<Rightarrow> s | _ \<Rightarrow> str_of cr role),
                     p_subject_type = stype\<rparr>)))"

definition authenticate ::
  "'tok crypto \<Rightarrow> settings \<Rightarrow> env \<Rightarrow> token_denylist \<Rightarrow> string \<Rightarrow> subject_type \<Rightarrow> 'tok option
    \<Rightarrow> identity_error + principal" where
  "authenticate cr st e denylist audience stype credentials =
     (case credentials of
        None \<Rightarrow> Inl (TokenInvalidError ''Missing bearer token.'')
      | Some token \<Rightarrow>
        (case decode_access_token cr st e token audience of
           Inl err \<Rightarrow> Inl err
         | Inr cl \<Rightarrow>
           (case reject_if_revoked cl denylist of
              Inl err \<Rightarrow> Inl err
            | Inr _ \<Rightarrow> principal_from_claims cr cl stype)))"

definition get_current_principal ::
  "'tok crypto \<Rightarrow> settings \<Rightarrow> env \<Rightarrow> token_denylist \<Rightarrow> 'tok option \<Rightarrow> identity_error + principal" where
  "get_current_principal cr st e denylist credentials =
     authenticate cr st e denylist COMPANY_AUDIENCE subject_user credentials"

definition get_current_platform_admin ::
  "'tok crypto \<Rightarrow> settings \<Rightarrow> env \<Rightarrow> token_denylist \<Rightarrow> 'tok option \<Rightarrow> identity_error + principal" where
  "get_current_platform_admin cr st e denylist credentials =
     authenticate cr st e denylist PLATFORM_AUDIENCE subject_platform_admin credentials"

definition require_company_admin :: "identity_error + principal \<Rightarrow> identity_error + principal" where
  "require_company_admin caller =
     (case caller of
        Inl err \<Rightarrow> Inl err
      | Inr p \<Rightarrow> if p_role p \<noteq> role_value company_admin
                then Inl (PermissionDeniedError ''Company administrator role required.'')
                else Inr p)"

text \<open>The session a company request runs on: bound to the organization of the verified token.\<close>

definition get_tenant_session :: "identity_error + principal \<Rightarrow> identity_error + db_session" where
  "get_tenant_session caller =
     (case caller of
        Inl err \<Rightarrow> Inl err
      | Inr p \<Rightarrow> (case p_org_id p of
          None \<Rightarrow> Inl (TokenInvalidError ''Access token is missing an organization scope.'')
        | Some g \<Rightarrow> Inr (Tenant_Session g)))"

section \<open>What the code relies on of PyJWT\<close>

text \<open>
  Decoding a token signed with the same secret and algorithm, whose claims have integer times and a
  string audience: refused while it lies in the future, expired from its \<open>exp\<close> on, refused for another
  audience, and its claims otherwise.
\<close>

definition pyjwt_contract :: "'tok crypto \<Rightarrow> bool" where
  "pyjwt_contract cr \<longleftrightarrow>
     (\<forall>cl secret alg a i x aud now.
        map_of cl ''aud'' = Some (JStr a) \<and> map_of cl ''iat'' = Some (JInt i)
        \<and> map_of cl ''exp'' = Some (JInt x) \<and> map_of cl ''sub'' \<noteq> None \<longrightarrow>
        jwt_decode cr (jwt_encode cr cl secret alg) secret alg aud now =
          (if now < i * usec_per_sec then Inl InvalidToken
           else if x * usec_per_sec \<le> now then Inl ExpiredSignature
           else if aud \<noteq> a then Inl InvalidToken
           else Inr (map_of cl)))"

lemma access_claims_lookup [simp]:
  "map_of (access_claims e j p ttl a) ''sub'' = Some (JId (p_subject_id p))"
  "map_of (access_claims e j p ttl a) ''aud'' = Some (JStr a)"
  "map_of (access_claims e j p ttl a) ''role'' = Some (JStr (p_role p))"
  "map_of (access_claims e j p ttl a) ''org_id'' = Some (case p_org_id p of None \<Rightarrow> JNull | Some g \<Rightarrow> JId g)"
  "map_of (access_claims e j p ttl a) ''iat'' = Some (JInt (timestamp_int (now_utc e)))"
  "map_of (access_claims e j p ttl a) ''exp'' = Some (JInt (timestamp_int (now_utc e + ttl)))"
  by (simp_all add: access_claims_def)

lemma decode_issued:
  assumes "pyjwt_contract cr"
  shows "decode_access_token cr st e' (encode_access_token cr st e j p ttl a) aud =
     (if now_utc e' < timestamp_int (now_utc e) * usec_per_sec
      then Inl (TokenInvalidError ''Access token is invalid.'')
      else if timestamp_int (now_utc e + ttl) * usec_per_sec \<le> now_utc e'
      then Inl (TokenExpiredError ''Access token has expired.'')
      else if aud \<noteq> a then Inl (TokenInvalidError ''Access token is invalid.'')
      else Inr (map_of (access_claims e j p ttl a)))"
  using assms unfolding pyjwt_contract_def decode_access_token_def encode_access_token_def
  by simp

lemma claim_uuid_issued [simp]:
  "claim_uuid (map_of (access_claims e j p ttl a)) ''org_id'' = Some (p_org_id p)"
  by (simp add: claim_uuid_def split: option.splits)

lemma reject_issued:
  "reject_if_revoked (map_of (access_claims e j p ttl a)) d =
     (if is_revoked d (p_subject_id p) (p_org_id p) (Some (timestamp_int (now_utc e)))
      then Inl (TokenInvalidError ''Access token has been revoked.'') else Inr ())"
  by (simp add: reject_if_revoked_def)

lemma principal_issued:
  "principal_from_claims cr (map_of (access_claims e j p ttl a)) stype = Inr (p\<lparr>p_subject_type := stype\<rparr>)"
  by (simp add: principal_from_claims_def)

text \<open>
  The access token issued to a principal for one audience, presented on that domain's endpoints,
  yields exactly that principal back, from the second it was issued until its lifetime ends,
  unless its subject or organization has been revoked; on the other domain's endpoints
  it yields an error at every moment.
\<close>

theorem access_token_roundtrip:
  assumes "pyjwt_contract cr"
    and "timestamp_int (now_utc e) * usec_per_sec \<le> now_utc e'"
    and "now_utc e' < timestamp_int (now_utc e + ttl) * usec_per_sec"
    and "p_subject_type p = subject_user"
  shows "get_current_principal cr st e' d (Some (encode_access_token cr st e j p ttl COMPANY_AUDIENCE)) =
           (if is_revoked d (p_subject_id p) (p_org_id p) (Some (timestamp_int (now_utc e)))
            then Inl (TokenInvalidError ''Access token has been revoked.'')
            else Inr p)
     \<and> (\<forall>e'' d'. \<not> is_ok (get_current_platform_admin cr st e'' d'
           (Some (encode_access_token cr st e j p ttl COMPANY_AUDIENCE))))"
proof -
  have "p\<lparr>p_subject_type := subject_user\<rparr> = p" using assms(4) by simp
  then show ?thesis
    using assms(2,3)
    by (simp add: get_current_principal_def get_current_platform_admin_def authenticate_def
        decode_issued[OF assms(1)] reject_issued principal_issued
        COMPANY_AUDIENCE_def PLATFORM_AUDIENCE_def)
qed

definition demo_crypto :: "((string \<times> json) list \<times> string \<times> string) crypto" where
  "demo_crypto = \<lparr>
     jwt_encode = (\<lambda>cl secret alg. (cl, secret, alg)),
     jwt_decode = (\<lambda>(cl, secret0, alg0) secret alg aud now.
        (case (map_of cl ''aud'', map_of cl ''iat'', map_of cl ''exp'') of
           (Some (JStr a), Some (JInt i), Some (JInt x)) \<Rightarrow>
             (if secret \<noteq> secret0 \<or> alg \<noteq> alg0 \<or> now < i * usec_per_sec then Inl InvalidToken
              else if x * usec_per_sec \<le> now then Inl ExpiredSignature
              else if aud \<noteq> a then Inl InvalidToken else Inr (map_of cl))
         | _ \<Rightarrow> Inl InvalidToken)),
     sha256_hexdigest = (\<lambda>s. CHR ''#'' # s),
     bcrypt_checkpw = (\<lambda>pw h. Some (h = CHR ''$'' # pw)),
     bcrypt_hashpw = (\<lambda>pw. CHR ''$'' # pw),
     token_urlsafe = ''raw'',
     str_of = (\<lambda>_. [])\<rparr>"

lemma demo_crypto_contract: "pyjwt_contract demo_crypto"
  by (auto simp: pyjwt_contract_def demo_crypto_def)

definition demo_env :: "datetime \<Rightarrow> env" where
  "demo_env t = \<lparr>now_utc = t, monotonic = 0, request_ctx = None, uuids = (\<lambda>n. 1000 + n), independent_ok = True\<rparr>"

definition demo_settings :: settings where
  "demo_settings = \<lparr>jwt_secret = ''s'', jwt_algorithm = ''HS256'', access_token_ttl_minutes = 15,
     refresh_token_ttl_days = 7\<rparr>"

definition demo_principal :: principal where
  "demo_principal = \<lparr>p_subject_id = 5, p_org_id = Some 7, p_role = ''member'', p_subject_type = subject_user\<rparr>"

theorem access_token_roundtrip_witness:
  "get_current_principal demo_crypto demo_settings (demo_env 2500000) (new_denylist 900)
     (Some (encode_access_token demo_crypto demo_settings (demo_env 1500000) 1 demo_principal 900000000
        COMPANY_AUDIENCE)) = Inr demo_principal"
proof -
  have "p_subject_type demo_principal = subject_user" by (simp add: demo_principal_def)
  from access_token_roundtrip[OF demo_crypto_contract _ _ this, of "demo_env 1500000" "demo_env 2500000"
      900000000 demo_settings "new_denylist 900" 1]
  show ?thesis
    by (simp add: demo_env_def demo_principal_def timestamp_int_def new_denylist_def is_revoked_def)
qed

section \<open>Rotation\<close>

lemma live_revoked_none:
  "\<not> live_with_hash h t" if "t \<in> set (update_where (live_with_hash h) (\<lambda>t. t\<lparr>rt_revoked_at := Some now\<rparr>) ts)"
proof -
  from that obtain x where "t = (if live_with_hash h x then x\<lparr>rt_revoked_at := Some now\<rparr> else x)"
    unfolding update_where_def set_map by (elim imageE)
  then show ?thesis by (cases "live_with_hash h x") (simp_all add: live_with_hash_def)
qed

lemma consume_fails_if_dead:
  assumes "\<forall>t \<in> set (refresh_tokens db). \<not> live_with_hash (sha256_hexdigest cr raw) t"
  shows "fst (consume cr e raw stype db) = Inl refresh_invalid"
proof -
  have "rowcount (live_with_hash (sha256_hexdigest cr raw)) (refresh_tokens db) = 0"
    using assms by (simp add: rowcount_0_iff)
  then show ?thesis
    by (simp add: consume_def refresh_tokens_revoke_by_hash_def Let_def split: option.splits)
qed

lemma consume_db:
  "fst (consume cr e raw stype db) = Inr t \<Longrightarrow>
     snd (consume cr e raw stype db)
       = snd (refresh_tokens_revoke_by_hash (now_utc e) (sha256_hexdigest cr raw) db)"
  by (auto simp: consume_def refresh_tokens_revoke_by_hash_def Let_def split: option.splits if_splits)

lemma consume_ok_iff:
  assumes "identity_wf db"
  shows "fst (consume cr e raw stype db) = Inr t \<longleftrightarrow>
     t \<in> set (refresh_tokens db) \<and> rt_token_hash t = sha256_hexdigest cr raw
     \<and> rt_revoked_at t = None \<and> rt_subject_type t = stype \<and> now_utc e < rt_expires_at t"
    (is "?L \<longleftrightarrow> ?R")
proof
  assume ?L
  then have g: "refresh_tokens_get_by_hash db (sha256_hexdigest cr raw) = Some t"
    and ty: "rt_subject_type t = stype" and ex: "now_utc e < rt_expires_at t"
    and n: "rowcount (live_with_hash (sha256_hexdigest cr raw)) (refresh_tokens db) \<noteq> 0"
    by (auto simp: consume_def is_expired_def refresh_tokens_revoke_by_hash_def Let_def
        split: option.splits if_splits)
  from n obtain u where u: "u \<in> set (refresh_tokens db)" "live_with_hash (sha256_hexdigest cr raw) u"
    by (auto simp: rowcount_0_iff)
  with keyed_lookups_unique(4)[OF assms u(1)] g have "u = t" by (simp add: live_with_hash_def)
  with u ty ex show ?R by (simp add: live_with_hash_def)
next
  assume R: ?R
  then have "refresh_tokens_get_by_hash db (sha256_hexdigest cr raw) = Some t"
    using keyed_lookups_unique(4)[OF assms, of t] by simp
  moreover have "rowcount (live_with_hash (sha256_hexdigest cr raw)) (refresh_tokens db) \<noteq> 0"
    using R by (auto simp: rowcount_0_iff live_with_hash_def)
  ultimately show ?L
    using R by (simp add: consume_def is_expired_def refresh_tokens_revoke_by_hash_def Let_def)
qed

text \<open>
  C30: a refresh token is good for one rotation. Consuming it succeeds exactly for a stored token of the
  expected login domain that is neither revoked nor expired, and after a success every later attempt
  with the same token, by either domain, is refused.
\<close>

theorem refresh_token_single_use:
  assumes "identity_wf db"
  shows "(fst (consume cr e raw stype db) = Inr t \<longleftrightarrow>
            t \<in> set (refresh_tokens db) \<and> rt_token_hash t = sha256_hexdigest cr raw
            \<and> rt_revoked_at t = None \<and> rt_subject_type t = stype \<and> now_utc e < rt_expires_at t)
     \<and> (fst (consume cr e raw stype db) = Inr t \<longrightarrow>
            fst (consume cr e' raw stype' (snd (consume cr e raw stype db))) = Inl refresh_invalid)"
proof -
  have "fst (consume cr e' raw stype' (snd (consume cr e raw stype db))) = Inl refresh_invalid"
    if "fst (consume cr e raw stype db) = Inr t"
    by (rule consume_fails_if_dead)
      (use live_revoked_none in \<open>force simp: consume_db[OF that] refresh_tokens_revoke_by_hash_def\<close>)
  then show ?thesis using consume_ok_iff[OF assms] by blast
qed

definition demo_token :: refresh_token where
  "demo_token = \<lparr>rt_id = 1, rt_subject_id = 5, rt_subject_type = subject_user,
     rt_token_hash = ''#raw'', rt_expires_at = 100, rt_revoked_at = None\<rparr>"

definition demo_db :: identity_db where
  "demo_db = \<lparr>organizations = [], users = [], platform_admins = [], refresh_tokens = [demo_token],
     support_grants = [], audit_log = []\<rparr>"

theorem refresh_token_single_use_witness:
  "fst (consume demo_crypto (demo_env 50) ''raw'' subject_user demo_db) = Inr demo_token
   \<and> fst (consume demo_crypto (demo_env 51) ''raw'' subject_user
        (snd (consume demo_crypto (demo_env 50) ''raw'' subject_user demo_db))) = Inl refresh_invalid"
proof -
  have wf: "identity_wf demo_db" by (simp add: identity_wf_def demo_db_def)
  from refresh_token_single_use[OF wf, of demo_crypto "demo_env 50" "''raw''" subject_user demo_token
      "demo_env 51" subject_user]
  show ?thesis by (simp add: demo_db_def demo_token_def demo_crypto_def demo_env_def)
qed

end
