(* ===== verification/Auth_Service.thy ===== *)
theory Auth_Service
  imports Tokens
begin

text \<open>
  Password verification (\<open>identity/security/password.py\<close>) and the two login domains,
  \<open>identity/services/auth_service.py\<close> for company users and \<open>platform_auth_service.py\<close> for platform
  administrators: login behind the throttle, refresh, logout, the \<open>me\<close> views, onboarding and the
  organization list. Both services run on the global session; a handler is a function from the state to
  its outcome (an exception or a value) and the state it leaves, before the unit of work rolls
  back the tables of a request that raised.
\<close>

section \<open>Passwords\<close>

definition hash_password :: "'tok crypto \<Rightarrow> string \<Rightarrow> string" where
  "hash_password cr raw = bcrypt_hashpw cr raw"

definition verify_password :: "'tok crypto \<Rightarrow> string \<Rightarrow> string \<Rightarrow> bool" where
  "verify_password cr raw password_hash =
     (case bcrypt_checkpw cr raw password_hash of None \<Rightarrow> False | Some b \<Rightarrow> b)"

definition DUMMY_PASSWORD_HASH :: "'tok crypto \<Rightarrow> string" where
  "DUMMY_PASSWORD_HASH cr = hash_password cr ''timing-equalizer-not-a-real-credential''"

section \<open>Company users\<close>

record authenticated_user =
  au_id :: uuid
  au_email :: string
  au_full_name :: string
  au_role :: user_role
  au_org_id :: uuid
  au_org_name :: string

record 'tok token_pair_response =
  tp_access_token :: 'tok
  tp_refresh_token :: string
  tp_user :: "authenticated_user option"

definition principal_for :: "user \<Rightarrow> principal" where
  "principal_for u = \<lparr>p_subject_id = u_id u, p_org_id = Some (u_org_id u), p_role = role_value (u_role u),
     p_subject_type = subject_user\<rparr>"

definition build_user_view :: "user \<Rightarrow> organization \<Rightarrow> authenticated_user" where
  "build_user_view u org = \<lparr>au_id = u_id u, au_email = u_email u, au_full_name = u_full_name u,
     au_role = u_role u, au_org_id = u_org_id u, au_org_name = o_name org\<rparr>"

abbreviation invalid_credentials :: identity_error where
  "invalid_credentials \<equiv> InvalidCredentialsError ''Invalid email or password.''"

definition load_loginable_org :: "identity_db \<Rightarrow> uuid \<Rightarrow> identity_error + organization" where
  "load_loginable_org db org_id =
     (case organizations_get_by_id db org_id of
        None \<Rightarrow> Inl (OrganizationNotFoundError ''Organization for user not found.'')
      | Some org \<Rightarrow>
          if o_status org = org_suspended
          then Inl (OrganizationSuspendedError ''Your organization's access is suspended.'')
          else Inr org)"

text \<open>The throttle in front of a login: both budgets are asked, the first refusal is raised.\<close>

definition throttle_login :: "env \<Rightarrow> string \<Rightarrow> string option \<Rightarrow> world \<Rightarrow> identity_error + unit" where
  "throttle_login e email client_ip w =
     (case check (w_limiter w) (monotonic e) (ip_key client_ip) of
        Inl r \<Rightarrow> Inl (RateLimitedError (retry_after r))
      | Inr _ \<Rightarrow>
        (case check (w_limiter w) (monotonic e) (account_key email) of
           Inl r \<Rightarrow> Inl (RateLimitedError (retry_after r))
         | Inr _ \<Rightarrow> Inr ()))"

text \<open>A verified failure: both budgets are consumed and the attempt is recorded independently.\<close>

definition reject_login :: "env \<Rightarrow> audit_actor_type \<Rightarrow> string \<Rightarrow> string option \<Rightarrow> world \<Rightarrow> world" where
  "reject_login e actor email client_ip w =
     record_independently e (uuids e 0)
       ((audit_event_of LOGIN_FAILURE actor)
          \<lparr>ae_actor_email := Some email, ae_details := [(''reason'', JStr ''invalid_credentials'')]\<rparr>)
       (w\<lparr>w_limiter :=
            register_failure (register_failure (w_limiter w) (monotonic e) (ip_key client_ip))
              (monotonic e) (account_key email)\<rparr>)"

definition user_event :: "audit_action \<Rightarrow> user \<Rightarrow> audit_event" where
  "user_event action u = (audit_event_of action actor_user)
     \<lparr>ae_actor_id := Some (u_id u), ae_actor_email := Some (u_email u), ae_org_id := Some (u_org_id u)\<rparr>"

definition auth_login ::
  "'tok crypto \<Rightarrow> settings \<Rightarrow> env \<Rightarrow> string \<Rightarrow> string \<Rightarrow> string option \<Rightarrow> 'tok token_pair_response handler"
where
  "auth_login cr st e email password client_ip w =
     (case throttle_login e email client_ip w of
        Inl err \<Rightarrow> (Inl err, w)
      | Inr _ \<Rightarrow>
        (let found = users_get_by_email Global_Session (w_db w) email;
             password_hash = (case found of Some u \<Rightarrow> u_password_hash u | None \<Rightarrow> DUMMY_PASSWORD_HASH cr);
             password_ok = verify_password cr password password_hash
         in case found of
              None \<Rightarrow> (Inl invalid_credentials, reject_login e actor_user email client_ip w)
            | Some u \<Rightarrow>
              if \<not> u_is_active u \<or> \<not> password_ok
              then (Inl invalid_credentials, reject_login e actor_user email client_ip w)
              else
                (case load_loginable_org (w_db w) (u_org_id u) of
                   Inl (OrganizationSuspendedError msg) \<Rightarrow>
                     (Inl (OrganizationSuspendedError msg),
                      record_independently e (uuids e 0)
                        ((user_event LOGIN_BLOCKED u)\<lparr>ae_details := [(''reason'', JStr ''org_suspended'')]\<rparr>) w)
                 | Inl err \<Rightarrow> (Inl err, w)
                 | Inr org \<Rightarrow>
                   (case issue_pair cr st e 0 (principal_for u) COMPANY_AUDIENCE subject_user (w_db w) of
                      None \<Rightarrow> (Inl IntegrityError, w)
                    | Some ((access, refresh), db') \<Rightarrow>
                        (Inr \<lparr>tp_access_token = access, tp_refresh_token = refresh,
                              tp_user = Some (build_user_view u org)\<rparr>,
                         record_event e (uuids e 2) (user_event LOGIN_SUCCESS u) (w\<lparr>w_db := db'\<rparr>))))))"

definition auth_refresh ::
  "'tok crypto \<Rightarrow> settings \<Rightarrow> env \<Rightarrow> string \<Rightarrow> 'tok token_pair_response handler" where
  "auth_refresh cr st e raw w =
     (case consume cr e raw subject_user (w_db w) of
        (Inl err, db') \<Rightarrow> (Inl err, w\<lparr>w_db := db'\<rparr>)
      | (Inr consumed, db') \<Rightarrow>
        (case users_get_by_subject_id Global_Session db' (rt_subject_id consumed) of
           None \<Rightarrow> (Inl invalid_credentials, w\<lparr>w_db := db'\<rparr>)
         | Some u \<Rightarrow>
           if \<not> u_is_active u then (Inl invalid_credentials, w\<lparr>w_db := db'\<rparr>)
           else
             (case load_loginable_org db' (u_org_id u) of
                Inl err \<Rightarrow> (Inl err, w\<lparr>w_db := db'\<rparr>)
              | Inr _ \<Rightarrow>
                (case issue_pair cr st e 0 (principal_for u) COMPANY_AUDIENCE subject_user db' of
                   None \<Rightarrow> (Inl IntegrityError, w\<lparr>w_db := db'\<rparr>)
                 | Some ((access, refresh), db'') \<Rightarrow>
                     (Inr \<lparr>tp_access_token = access, tp_refresh_token = refresh, tp_user = None\<rparr>,
                      record_event e (uuids e 2) (user_event REFRESH u) (w\<lparr>w_db := db''\<rparr>))))))"

text \<open>\<open>logout\<close> is the same text in both services, up to the actor of its audit event.\<close>

definition logout :: "'tok crypto \<Rightarrow> env \<Rightarrow> audit_actor_type \<Rightarrow> string \<Rightarrow> unit handler" where
  "logout cr e actor raw w =
     (let (subject, db') = revoke_refresh cr e raw (w_db w);
          denylist' = (case subject of
              None \<Rightarrow> w_denylist w
            | Some u \<Rightarrow> revoke_subject (w_denylist w) (timestamp_int (now_utc e)) u)
      in (Inr (), record_event e (uuids e 0) (audit_event_of LOGOUT actor)
                    (w\<lparr>w_db := db', w_denylist := denylist'\<rparr>)))"

definition build_authenticated_user_by_id ::
  "identity_db \<Rightarrow> uuid \<Rightarrow> identity_error + authenticated_user" where
  "build_authenticated_user_by_id db user_id =
     (case users_get_by_subject_id Global_Session db user_id of
        None \<Rightarrow> Inl invalid_credentials
      | Some u \<Rightarrow>
          if \<not> u_is_active u then Inl invalid_credentials
          else (case organizations_get_by_id db (u_org_id u) of
                  None \<Rightarrow> Inl (OrganizationNotFoundError ''Organization for user not found.'')
                | Some org \<Rightarrow> Inr (build_user_view u org)))"

section \<open>Platform administrators\<close>

definition platform_principal :: "platform_admin \<Rightarrow> principal" where
  "platform_principal a = \<lparr>p_subject_id = pa_id a, p_org_id = None,
     p_role = subject_type_value subject_platform_admin, p_subject_type = subject_platform_admin\<rparr>"

definition admin_event :: "audit_action \<Rightarrow> platform_admin \<Rightarrow> audit_event" where
  "admin_event action a = (audit_event_of action actor_platform_admin)
     \<lparr>ae_actor_id := Some (pa_id a), ae_actor_email := Some (pa_email a)\<rparr>"

definition platform_login ::
  "'tok crypto \<Rightarrow> settings \<Rightarrow> env \<Rightarrow> string \<Rightarrow> string \<Rightarrow> string option \<Rightarrow> ('tok \<times> string) handler" where
  "platform_login cr st e email password client_ip w =
     (case throttle_login e email client_ip w of
        Inl err \<Rightarrow> (Inl err, w)
      | Inr _ \<Rightarrow>
        (let found = platform_admins_get_by_email (w_db w) email;
             password_hash = (case found of Some a \<Rightarrow> pa_password_hash a | None \<Rightarrow> DUMMY_PASSWORD_HASH cr);
             password_ok = verify_password cr password password_hash
         in case found of
              None \<Rightarrow> (Inl invalid_credentials, reject_login e actor_platform_admin email client_ip w)
            | Some a \<Rightarrow>
              if \<not> pa_is_active a \<or> \<not> password_ok
              then (Inl invalid_credentials, reject_login e actor_platform_admin email client_ip w)
              else
                (case issue_pair cr st e 0 (platform_principal a) PLATFORM_AUDIENCE subject_platform_admin (w_db w) of
                   None \<Rightarrow> (Inl IntegrityError, w)
                 | Some (pair, db') \<Rightarrow>
                     (Inr pair, record_event e (uuids e 2) (admin_event LOGIN_SUCCESS a) (w\<lparr>w_db := db'\<rparr>)))))"

definition platform_refresh :: "'tok crypto \<Rightarrow> settings \<Rightarrow> env \<Rightarrow> string \<Rightarrow> ('tok \<times> string) handler" where
  "platform_refresh cr st e raw w =
     (case consume cr e raw subject_platform_admin (w_db w) of
        (Inl err, db') \<Rightarrow> (Inl err, w\<lparr>w_db := db'\<rparr>)
      | (Inr consumed, db') \<Rightarrow>
        (case platform_admins_get_by_id db' (rt_subject_id consumed) of
           None \<Rightarrow> (Inl invalid_credentials, w\<lparr>w_db := db'\<rparr>)
         | Some a \<Rightarrow>
           if \<not> pa_is_active a then (Inl invalid_credentials, w\<lparr>w_db := db'\<rparr>)
           else
             (case issue_pair cr st e 0 (platform_principal a) PLATFORM_AUDIENCE subject_platform_admin db' of
                None \<Rightarrow> (Inl IntegrityError, w\<lparr>w_db := db'\<rparr>)
              | Some (pair, db'') \<Rightarrow>
                  (Inr pair, record_event e (uuids e 2) (admin_event REFRESH a) (w\<lparr>w_db := db''\<rparr>)))))"

definition build_admin_view_by_id :: "identity_db \<Rightarrow> uuid \<Rightarrow> identity_error + platform_admin" where
  "build_admin_view_by_id db admin_id =
     (case platform_admins_get_by_id db admin_id of
        None \<Rightarrow> Inl invalid_credentials
      | Some a \<Rightarrow> if \<not> pa_is_active a then Inl invalid_credentials else Inr a)"

section \<open>Onboarding\<close>

record organization_create_request =
  oc_org_name :: string
  oc_org_slug :: string
  oc_admin_email :: string
  oc_admin_full_name :: string
  oc_admin_password :: string

record organization_response =
  or_id :: uuid
  or_name :: string
  or_slug :: string
  or_status :: organization_status
  or_user_count :: nat
  or_created_at :: datetime

abbreviation slug_taken :: identity_error where
  "slug_taken \<equiv> DuplicateOrganizationError ''An organization with this slug already exists.''"

abbreviation email_taken :: identity_error where
  "email_taken \<equiv> DuplicateUserError ''A user with this email already exists.''"

definition organization_response_of :: "organization \<Rightarrow> nat \<Rightarrow> organization_response" where
  "organization_response_of r n = \<lparr>or_id = o_id r, or_name = o_name r, or_slug = o_slug r,
     or_status = o_status r, or_user_count = n, or_created_at = o_created_at r\<rparr>"

text \<open>The rows the request inserts, with the column defaults.\<close>

definition new_organization :: "env \<Rightarrow> organization_create_request \<Rightarrow> organization" where
  "new_organization e payload = \<lparr>o_id = uuids e 0, o_name = oc_org_name payload, o_slug = oc_org_slug payload,
     o_status = org_active, o_legal_hold = False, o_created_at = now_utc e\<rparr>"

definition first_admin :: "'tok crypto \<Rightarrow> env \<Rightarrow> organization_create_request \<Rightarrow> organization \<Rightarrow> user" where
  "first_admin cr e payload org = \<lparr>u_id = uuids e 1, u_org_id = o_id org, u_email = oc_admin_email payload,
     u_full_name = oc_admin_full_name payload,
     u_password_hash = hash_password cr (oc_admin_password payload),
     u_role = company_admin, u_is_active = True, u_created_at = now_utc e\<rparr>"

definition onboard_organization ::
  "'tok crypto \<Rightarrow> env \<Rightarrow> organization_create_request \<Rightarrow> principal \<Rightarrow> (organization_response \<times> user) handler"
where
  "onboard_organization cr e payload actor w =
     (if organizations_get_by_slug (w_db w) (oc_org_slug payload) \<noteq> None then (Inl slug_taken, w)
      else if users_email_exists Global_Session (w_db w) (oc_admin_email payload) then (Inl email_taken, w)
      else
        (let org = new_organization e payload
         in case organizations_add org (w_db w) of
              None \<Rightarrow> (Inl slug_taken, w)
            | Some db1 \<Rightarrow>
              (let admin = first_admin cr e payload org
               in case users_add admin db1 of
                    None \<Rightarrow> (Inl email_taken, w\<lparr>w_db := db1\<rparr>)
                  | Some db2 \<Rightarrow>
                      (Inr (organization_response_of org 1, admin),
                       record_event e (uuids e 2)
                         ((audit_event_of ORG_ONBOARD actor_platform_admin)
                            \<lparr>ae_actor_id := Some (p_subject_id actor), ae_org_id := Some (o_id org),
                             ae_entity_type := Some ''organization'', ae_entity_id := Some (o_id org),
                             ae_details := [(''slug'', JStr (o_slug org)), (''name'', JStr (o_name org))]\<rparr>)
                         (w\<lparr>w_db := db2\<rparr>)))))"

definition list_organizations :: "identity_db \<Rightarrow> organization_response list" where
  "list_organizations db = map (\<lambda>(org, n). organization_response_of org n) (list_all_with_user_counts db)"

section \<open>What the helpers keep\<close>

lemma throttle_login_ok_iff:
  "throttle_login e email ip w = Inr () \<longleftrightarrow>
     is_ok (check (w_limiter w) (monotonic e) (ip_key ip))
     \<and> is_ok (check (w_limiter w) (monotonic e) (account_key email))"
  by (simp add: throttle_login_def split: sum.splits)

lemma throttle_login_refuses:
  "throttle_login e email ip w \<noteq> Inr () \<Longrightarrow> \<exists>n. throttle_login e email ip w = Inl (RateLimitedError n)"
  by (auto simp: throttle_login_def split: sum.splits)

lemma reject_login_sel [simp]:
  "w_db (reject_login e actor email ip w) = w_db w"
  "w_denylist (reject_login e actor email ip w) = w_denylist w"
  "prefix (w_independent w) (w_independent (reject_login e actor email ip w))"
  by (simp_all add: reject_login_def)

lemma issue_pair_SomeD:
  assumes "issue_pair cr st e k p aud stype db = Some ((access, raw), db')"
  shows "access = encode_access_token cr st e (uuids e k) p (access_token_ttl st) aud"
    and "raw = token_urlsafe cr"
    and "db' = db\<lparr>refresh_tokens := refresh_tokens db @
           [\<lparr>rt_id = uuids e (Suc k), rt_subject_id = p_subject_id p, rt_subject_type = stype,
             rt_token_hash = sha256_hexdigest cr raw, rt_expires_at = now_utc e + refresh_token_ttl st,
             rt_revoked_at = None\<rparr>]\<rparr>"
    and "\<forall>t \<in> set (refresh_tokens db). rt_token_hash t \<noteq> sha256_hexdigest cr raw"
    and "identity_wf db \<Longrightarrow> identity_wf db'"
    and "audit_log db' = audit_log db"
proof -
  show wf: "identity_wf db'" if "identity_wf db"
    using assms that
    by (auto simp: issue_pair_def new_refresh_token_def Let_def split: option.splits elim: refresh_tokens_add_wf)
qed (use assms in \<open>auto simp: issue_pair_def new_refresh_token_def refresh_token_expiry_def
  refresh_tokens_add_def Let_def split: if_splits option.splits\<close>)

lemma issue_pair_None_iff:
  "issue_pair cr st e k p aud stype db = None \<longleftrightarrow>
     (\<exists>t \<in> set (refresh_tokens db). rt_token_hash t = sha256_hexdigest cr (token_urlsafe cr))"
  by (auto simp: issue_pair_def new_refresh_token_def refresh_tokens_add_def Let_def split: option.splits)

lemma consume_keeps:
  assumes "consume cr e raw stype db = (r, db')"
  shows "users db' = users db" "organizations db' = organizations db"
    "platform_admins db' = platform_admins db" "audit_log db' = audit_log db"
    "identity_wf db \<Longrightarrow> identity_wf db'"
  using assms refresh_tokens_revoke_wf[of db "now_utc e" "sha256_hexdigest cr raw"]
  by (auto simp: consume_def refresh_tokens_revoke_by_hash_def Let_def split: option.splits if_splits)

lemma revoke_refresh_keeps:
  assumes "revoke_refresh cr e raw db = (r, db')"
  shows "users db' = users db" "organizations db' = organizations db" "audit_log db' = audit_log db"
    "identity_wf db \<Longrightarrow> identity_wf db'"
  using assms refresh_tokens_revoke_wf[of db "now_utc e" "sha256_hexdigest cr raw"]
  by (auto simp: revoke_refresh_def refresh_tokens_revoke_by_hash_def Let_def)

text \<open>The part of \<open>login\<close> that follows verified credentials.\<close>

definition credentials_ok :: "'tok crypto \<Rightarrow> identity_db \<Rightarrow> string \<Rightarrow> string \<Rightarrow> bool" where
  "credentials_ok cr db email password \<longleftrightarrow>
     (\<exists>u. users_get_by_email Global_Session db email = Some u \<and> u_is_active u
        \<and> verify_password cr password (u_password_hash u))"

lemma auth_login_throttled:
  "throttle_login e email ip w = Inl err \<Longrightarrow> auth_login cr st e email pw ip w = (Inl err, w)"
  by (simp add: auth_login_def)

lemma auth_login_rejected:
  assumes "throttle_login e email ip w = Inr ()" and "\<not> credentials_ok cr (w_db w) email pw"
  shows "auth_login cr st e email pw ip w = (Inl invalid_credentials, reject_login e actor_user email ip w)"
  using assms by (auto simp: auth_login_def credentials_ok_def Let_def split: option.splits)

lemma auth_login_verified:
  assumes "throttle_login e email ip w = Inr ()"
    and "users_get_by_email Global_Session (w_db w) email = Some u" and "u_is_active u"
    and "verify_password cr pw (u_password_hash u)" and "load_loginable_org (w_db w) (u_org_id u) = Inr org"
  shows "auth_login cr st e email pw ip w =
     (case issue_pair cr st e 0 (principal_for u) COMPANY_AUDIENCE subject_user (w_db w) of
        None \<Rightarrow> (Inl IntegrityError, w)
      | Some ((access, refresh), db') \<Rightarrow>
          (Inr \<lparr>tp_access_token = access, tp_refresh_token = refresh, tp_user = Some (build_user_view u org)\<rparr>,
           record_event e (uuids e 2) (user_event LOGIN_SUCCESS u) (w\<lparr>w_db := db'\<rparr>)))"
  using assms by (simp add: auth_login_def Let_def)

lemma auth_login_okE:
  assumes "auth_login cr st e email pw ip w = (Inr r, w')"
  obtains u org access refresh db' where
    "throttle_login e email ip w = Inr ()"
    "users_get_by_email Global_Session (w_db w) email = Some u" "u_is_active u"
    "verify_password cr pw (u_password_hash u)"
    "load_loginable_org (w_db w) (u_org_id u) = Inr org"
    "issue_pair cr st e 0 (principal_for u) COMPANY_AUDIENCE subject_user (w_db w) = Some ((access, refresh), db')"
    "r = \<lparr>tp_access_token = access, tp_refresh_token = refresh, tp_user = Some (build_user_view u org)\<rparr>"
    "w' = record_event e (uuids e 2) (user_event LOGIN_SUCCESS u) (w\<lparr>w_db := db'\<rparr>)"
proof -
  have t: "throttle_login e email ip w = Inr ()"
    using assms by (cases "throttle_login e email ip w") (auto simp: auth_login_throttled)
  have "credentials_ok cr (w_db w) email pw"
    using assms auth_login_rejected[OF t, of cr pw st] by auto
  then obtain u where u: "users_get_by_email Global_Session (w_db w) email = Some u" "u_is_active u"
    "verify_password cr pw (u_password_hash u)" by (auto simp: credentials_ok_def)
  have "\<exists>org. load_loginable_org (w_db w) (u_org_id u) = Inr org"
    using assms t u
    by (auto simp: auth_login_def Let_def split: sum.splits identity_error.splits)
  then obtain org where org: "load_loginable_org (w_db w) (u_org_id u) = Inr org" by blast
  from assms auth_login_verified[OF t u org, of st]
  show thesis by (auto split: option.splits intro: that[OF t u org])
qed

section \<open>Every handler of the two services is audited\<close>

lemma auth_login_effects:
  assumes "auth_login cr st e email pw ip w = (r, w')"
  shows "audit_extends w w'" and "identity_wf (w_db w) \<Longrightarrow> identity_wf (w_db w')"
proof -
  have "audit_extends w w' \<and> (identity_wf (w_db w) \<longrightarrow> identity_wf (w_db w'))"
  proof (cases r)
    case (Inr a)
    from assms[unfolded Inr] show ?thesis
      by (rule auth_login_okE) (auto simp: audit_extends_def dest: issue_pair_SomeD(5,6))
  next
    case (Inl err)
    with assms show ?thesis
      by (auto simp: auth_login_def Let_def audit_extends_def split: sum.splits option.splits
          if_splits identity_error.splits)
  qed
  then show "audit_extends w w'" "identity_wf (w_db w) \<Longrightarrow> identity_wf (w_db w')" by blast+
qed

lemma auth_refresh_effects:
  assumes "auth_refresh cr st e raw w = (r, w')"
  shows "audit_extends w w'" and "identity_wf (w_db w) \<Longrightarrow> identity_wf (w_db w')"
proof -
  show "audit_extends w w'"
    using assms
    by (auto simp: auth_refresh_def audit_extends_def split: prod.splits sum.splits option.splits if_splits
        dest!: consume_keeps(4) issue_pair_SomeD(6))
  show "identity_wf (w_db w')" if "identity_wf (w_db w)"
    using assms that
    by (auto simp: auth_refresh_def split: prod.splits sum.splits option.splits if_splits
        dest!: consume_keeps(5) issue_pair_SomeD(5))
qed

lemma platform_login_effects:
  assumes "platform_login cr st e email pw ip w = (r, w')"
  shows "audit_extends w w'" and "identity_wf (w_db w) \<Longrightarrow> identity_wf (w_db w')"
  using assms
  by (auto simp: platform_login_def audit_extends_def Let_def split: sum.splits option.splits if_splits
      dest: issue_pair_SomeD(5,6))

lemma platform_refresh_effects:
  assumes "platform_refresh cr st e raw w = (r, w')"
  shows "audit_extends w w'" and "identity_wf (w_db w) \<Longrightarrow> identity_wf (w_db w')"
proof -
  show "audit_extends w w'"
    using assms
    by (auto simp: platform_refresh_def audit_extends_def split: prod.splits sum.splits option.splits if_splits
        dest!: consume_keeps(4) issue_pair_SomeD(6))
  show "identity_wf (w_db w')" if "identity_wf (w_db w)"
    using assms that
    by (auto simp: platform_refresh_def split: prod.splits sum.splits option.splits if_splits
        dest!: consume_keeps(5) issue_pair_SomeD(5))
qed

lemma logout_effects:
  assumes "logout cr e actor raw w = (r, w')"
  shows "audit_extends w w'" and "identity_wf (w_db w) \<Longrightarrow> identity_wf (w_db w')"
  using assms
  by (auto simp: logout_def audit_extends_def Let_def split: prod.splits
      dest: revoke_refresh_keeps(3,4))

text \<open>A request's draws are fresh for what it inserts.\<close>

definition draws_fresh :: "env \<Rightarrow> nat \<Rightarrow> identity_db \<Rightarrow> bool" where
  "draws_fresh e n db \<longleftrightarrow> distinct (map (uuids e) [0..<n]) \<and> (\<forall>k < n. fresh_id (uuids e k) db)"

lemma add_audit_log:
  "organizations_add r db = Some db' \<Longrightarrow> audit_log db' = audit_log db"
  "users_add u db = Some db' \<Longrightarrow> audit_log db' = audit_log db"
  by (auto simp: organizations_add_def users_add_def split: if_splits)

lemma onboard_effects:
  assumes "onboard_organization cr e payload actor w = (r, w')"
  shows "audit_extends w w'"
    and "draws_fresh e 2 (w_db w) \<Longrightarrow> identity_wf (w_db w) \<Longrightarrow> identity_wf (w_db w')"
proof -
  show "audit_extends w w'"
    using assms
    by (auto simp: onboard_organization_def audit_extends_def Let_def split: if_splits option.splits
        dest!: add_audit_log)
  assume fr: "draws_fresh e 2 (w_db w)" and wf: "identity_wf (w_db w)"
  have f: "fresh_id (uuids e 0) (w_db w)" "fresh_id (uuids e 1) (w_db w)" "uuids e 0 \<noteq> uuids e 1"
    using fr by (auto simp: draws_fresh_def numeral_2_eq_2)
  have wf1: "identity_wf db1 \<and> fresh_id (uuids e 1) db1"
    if "organizations_add (new_organization e payload) (w_db w) = Some db1" for db1
  proof
    show "identity_wf db1"
      by (rule organizations_add_wf[OF wf that]) (simp add: new_organization_def f)
    show "fresh_id (uuids e 1) db1"
      using that f by (auto simp: organizations_add_def new_organization_def fresh_id_def split: if_splits)
  qed
  have wf2: "identity_wf db2"
    if "organizations_add (new_organization e payload) (w_db w) = Some db1"
      and "users_add (first_admin cr e payload org) db1 = Some db2" for org db1 db2
    using users_add_wf[OF _ that(2)] wf1[OF that(1)] by (simp add: first_admin_def)
  show "identity_wf (w_db w')"
    using assms wf
    by (auto simp: onboard_organization_def Let_def split: if_splits option.splits dest: wf1 wf2)
qed

interpretation ah_login: audited_handler "auth_login cr st e email pw ip" "\<lambda>_. True"
  by unfold_locales (metis prod.collapse auth_login_effects(1), metis prod.collapse auth_login_effects(2))

interpretation ah_refresh: audited_handler "auth_refresh cr st e raw" "\<lambda>_. True"
  by unfold_locales (metis prod.collapse auth_refresh_effects(1), metis prod.collapse auth_refresh_effects(2))

interpretation ah_logout: audited_handler "logout cr e actor raw" "\<lambda>_. True"
  by unfold_locales (metis prod.collapse logout_effects(1), metis prod.collapse logout_effects(2))

interpretation ah_platform_login: audited_handler "platform_login cr st e email pw ip" "\<lambda>_. True"
  by unfold_locales (metis prod.collapse platform_login_effects(1), metis prod.collapse platform_login_effects(2))

interpretation ah_platform_refresh: audited_handler "platform_refresh cr st e raw" "\<lambda>_. True"
  by unfold_locales
    (metis prod.collapse platform_refresh_effects(1), metis prod.collapse platform_refresh_effects(2))

interpretation ah_onboard: audited_handler "onboard_organization cr e payload actor"
  "\<lambda>w. draws_fresh e 2 (w_db w)"
  by unfold_locales (metis prod.collapse onboard_effects(1), metis prod.collapse onboard_effects(2))

section \<open>Login\<close>

text \<open>
  The throttle stands in front of the credential check of both logins. While the client address or
  the account is locked, every attempt, with good or bad credentials, is answered 429 with the
  whole state untouched: no budget is consumed, nothing is recorded, no token is issued.
\<close>

theorem throttled_login_inert:
  assumes "\<not> is_ok (check (w_limiter w) (monotonic e) (ip_key ip))
     \<or> \<not> is_ok (check (w_limiter w) (monotonic e) (account_key email))"
  shows "\<exists>n. auth_login cr st e email pw ip w = (Inl (RateLimitedError n), w)
     \<and> platform_login cr st e email pw ip w = (Inl (RateLimitedError n), w)
     \<and> http_status (RateLimitedError n) = 429"
proof -
  from assms have "throttle_login e email ip w \<noteq> Inr ()" by (auto simp: throttle_login_ok_iff)
  from throttle_login_refuses[OF this] obtain n where "throttle_login e email ip w = Inl (RateLimitedError n)"
    by blast
  then show ?thesis by (simp add: auth_login_def platform_login_def)
qed

definition demo_world :: "identity_db \<Rightarrow> rate_limiter \<Rightarrow> world" where
  "demo_world db rl = \<lparr>w_db = db, w_independent = [], w_limiter = rl, w_denylist = new_denylist 900\<rparr>"

definition demo_open_limiter :: rate_limiter where
  "demo_open_limiter = new_rate_limiter demo_policy demo_policy"

definition demo_locked_limiter :: rate_limiter where
  "demo_locked_limiter = demo_open_limiter\<lparr>rl_state := [account_key ''a@x'' \<mapsto> \<lparr>failures = [], locked_until = 60\<rparr>]\<rparr>"

theorem throttled_login_inert_witness:
  "\<exists>n. auth_login demo_crypto demo_settings (demo_env 50) ''a@x'' ''pw'' None (demo_world demo_db demo_locked_limiter)
     = (Inl (RateLimitedError n), demo_world demo_db demo_locked_limiter)"
proof -
  have "\<not> is_ok (check (w_limiter (demo_world demo_db demo_locked_limiter)) (monotonic (demo_env 50))
      (account_key ''a@x''))"
    by (simp add: demo_world_def demo_locked_limiter_def demo_env_def check_def)
  then show ?thesis using throttled_login_inert by blast
qed

text \<open>
  Failed logins do not tell accounts apart. Take any two databases over the same throttle and
  trail, one where the address is unknown, say, and one where it belongs to a deactivated user or to a user
  with another password: the answers are the same generic 401, both leave the same throttle,
  denylist and independent audit rows, and neither changes its tables.
\<close>

theorem failed_login_uniform:
  assumes "throttle_login e email ip w = Inr ()"
    and "\<not> credentials_ok cr (w_db w) email pw" and "\<not> credentials_ok cr db2 email pw2"
  shows "fst (unit_of_work (auth_login cr st e email pw ip) w) = Inl invalid_credentials
     \<and> fst (unit_of_work (auth_login cr st e email pw2 ip) (w\<lparr>w_db := db2\<rparr>)) = Inl invalid_credentials
     \<and> snd (unit_of_work (auth_login cr st e email pw2 ip) (w\<lparr>w_db := db2\<rparr>))
         = (snd (unit_of_work (auth_login cr st e email pw ip) w))\<lparr>w_db := db2\<rparr>
     \<and> w_db (snd (unit_of_work (auth_login cr st e email pw ip) w)) = w_db w"
proof -
  have t2: "throttle_login e email ip (w\<lparr>w_db := db2\<rparr>) = Inr ()"
    using assms(1) by (simp add: throttle_login_ok_iff)
  have r2: "reject_login e actor_user email ip (w\<lparr>w_db := db2\<rparr>)
      = (reject_login e actor_user email ip w)\<lparr>w_db := db2\<rparr>"
    by (simp add: reject_login_def record_independently_def)
  show ?thesis
    using auth_login_rejected[OF assms(1,2), of st] auth_login_rejected[OF t2, of cr pw2 st] assms(3)
    by (simp add: unit_of_work_def r2)
qed

theorem failed_login_uniform_witness:
  "fst (unit_of_work (auth_login demo_crypto demo_settings (demo_env 50) ''a@x'' ''pw'' None)
      (demo_world demo_db demo_open_limiter)) = Inl invalid_credentials"
proof -
  have "throttle_login (demo_env 50) ''a@x'' None (demo_world demo_db demo_open_limiter) = Inr ()"
    by (simp add: throttle_login_def demo_world_def demo_open_limiter_def new_rate_limiter_def check_def)
  moreover have "\<not> credentials_ok demo_crypto demo_db ''a@x'' pw" for pw
    by (simp add: credentials_ok_def demo_db_def users_get_by_email_def select_one_def)
  ultimately show ?thesis
    using failed_login_uniform[of "demo_env 50" "''a@x''" None "demo_world demo_db demo_open_limiter"
        demo_crypto "''pw''" demo_db "''pw''" demo_settings]
    by (simp add: demo_world_def)
qed

lemma load_loginable_org_ok:
  assumes "identity_wf db" and "u \<in> set (users db)"
  shows "(\<exists>org. load_loginable_org db (u_org_id u) = Inr org) \<longleftrightarrow>
     (\<forall>org \<in> set (organizations db). o_id org = u_org_id u \<longrightarrow> o_status org \<noteq> org_suspended)"
proof -
  from assms obtain org where org: "org \<in> set (organizations db)" "o_id org = u_org_id u"
    by (auto simp: identity_wf_def)
  then have "organizations_get_by_id db (u_org_id u) = Some org"
    using keyed_lookups_unique(1)[OF assms(1) org(1)] by simp
  moreover have "(\<forall>x \<in> set (organizations db). o_id x = u_org_id u \<longrightarrow> o_status x \<noteq> org_suspended)
      \<longleftrightarrow> o_status org \<noteq> org_suspended"
    using keyed_lookups_unique(1)[OF assms(1)] org by (metis option.inject)
  ultimately show ?thesis by (simp add: load_loginable_org_def)
qed

lemma get_by_email_member:
  "users_get_by_email sn db email = Some u \<Longrightarrow> u \<in> set (users db) \<and> u_email u = email"
  by (auto simp: users_get_by_email_def dest: select_one_SomeD)

lemma auth_login_ok_effects:
  assumes "auth_login cr st e email pw ip w = (Inr r, w')"
  shows "\<exists>u t row. u \<in> set (users (w_db w)) \<and> u_email u = email
             \<and> tp_access_token r = encode_access_token cr st e (uuids e 0) (principal_for u)
                 (access_token_ttl st) COMPANY_AUDIENCE
             \<and> rt_token_hash t = sha256_hexdigest cr (tp_refresh_token r) \<and> rt_subject_id t = u_id u
             \<and> rt_subject_type t = subject_user \<and> rt_revoked_at t = None
             \<and> al_action row = ''auth.login.success'' \<and> al_actor_id row = Some (u_id u)
             \<and> w' = w\<lparr>w_db := (w_db w)\<lparr>refresh_tokens := refresh_tokens (w_db w) @ [t],
                                        audit_log := audit_log (w_db w) @ [row]\<rparr>\<rparr>"
  using assms
proof (rule auth_login_okE)
  fix u org access refresh db'
  assume u: "users_get_by_email Global_Session (w_db w) email = Some u"
    and ip: "issue_pair cr st e 0 (principal_for u) COMPANY_AUDIENCE subject_user (w_db w) = Some ((access, refresh), db')"
    and r: "r = \<lparr>tp_access_token = access, tp_refresh_token = refresh, tp_user = Some (build_user_view u org)\<rparr>"
    and w': "w' = record_event e (uuids e 2) (user_event LOGIN_SUCCESS u) (w\<lparr>w_db := db'\<rparr>)"
  let ?t = "\<lparr>rt_id = uuids e 1, rt_subject_id = u_id u, rt_subject_type = subject_user,
     rt_token_hash = sha256_hexdigest cr refresh, rt_expires_at = now_utc e + refresh_token_ttl st,
     rt_revoked_at = None\<rparr>"
  let ?row = "build_row e (uuids e 2) (user_event LOGIN_SUCCESS u)"
  have "w' = w\<lparr>w_db := (w_db w)\<lparr>refresh_tokens := refresh_tokens (w_db w) @ [?t],
                              audit_log := audit_log (w_db w) @ [?row]\<rparr>\<rparr>"
    using issue_pair_SomeD(3)[OF ip] w'
    by (simp add: record_event_def audit_insert_def principal_for_def)
  moreover have "al_action ?row = ''auth.login.success''" "al_actor_id ?row = Some (u_id u)"
    by (simp_all add: build_row_def user_event_def audit_event_of_def)
  moreover have "tp_access_token r = encode_access_token cr st e (uuids e 0) (principal_for u)
      (access_token_ttl st) COMPANY_AUDIENCE"
    using issue_pair_SomeD(1)[OF ip] r by simp
  ultimately show ?thesis
    using get_by_email_member[OF u] r by (intro exI[of _ u] exI[of _ ?t] exI[of _ ?row]) simp
qed

text \<open>
  C3: a company login succeeds exactly when neither budget is locked, some active user has the
  address, the password verifies against that user's hash, and the user's organization is not
  suspended (and the random refresh token is new); it then issues an access token for that very user, stores
  one live refresh token and appends one success row, and changes nothing else.
\<close>

theorem login_succeeds_iff:
  assumes "identity_wf (w_db w)"
    and "\<forall>t \<in> set (refresh_tokens (w_db w)). rt_token_hash t \<noteq> sha256_hexdigest cr (token_urlsafe cr)"
  shows "(is_ok (fst (auth_login cr st e email pw ip w)) \<longleftrightarrow>
       throttle_login e email ip w = Inr ()
       \<and> (\<exists>u \<in> set (users (w_db w)). u_email u = email \<and> u_is_active u
            \<and> verify_password cr pw (u_password_hash u)
            \<and> (\<forall>org \<in> set (organizations (w_db w)). o_id org = u_org_id u \<longrightarrow> o_status org \<noteq> org_suspended)))
     \<and> (\<forall>r w'. auth_login cr st e email pw ip w = (Inr r, w') \<longrightarrow>
          (\<exists>u t row. u \<in> set (users (w_db w)) \<and> u_email u = email
             \<and> tp_access_token r = encode_access_token cr st e (uuids e 0) (principal_for u)
                 (access_token_ttl st) COMPANY_AUDIENCE
             \<and> rt_token_hash t = sha256_hexdigest cr (tp_refresh_token r) \<and> rt_subject_id t = u_id u
             \<and> rt_subject_type t = subject_user \<and> rt_revoked_at t = None
             \<and> al_action row = ''auth.login.success'' \<and> al_actor_id row = Some (u_id u)
             \<and> w' = w\<lparr>w_db := (w_db w)\<lparr>refresh_tokens := refresh_tokens (w_db w) @ [t],
                                        audit_log := audit_log (w_db w) @ [row]\<rparr>\<rparr>))"
    (is "(?ok \<longleftrightarrow> ?cond) \<and> ?effects")
proof
  show "?ok \<longleftrightarrow> ?cond"
  proof
    assume ?ok
    then obtain r w' where "auth_login cr st e email pw ip w = (Inr r, w')"
      by (cases "auth_login cr st e email pw ip w") (auto simp: is_ok_iff)
    then show ?cond
      by (rule auth_login_okE) (use load_loginable_org_ok[OF assms(1)] get_by_email_member in blast)
  next
    assume ?cond
    then obtain u where u: "u \<in> set (users (w_db w))" "u_email u = email" "u_is_active u"
      "verify_password cr pw (u_password_hash u)"
      and org: "\<exists>org. load_loginable_org (w_db w) (u_org_id u) = Inr org"
      and t: "throttle_login e email ip w = Inr ()"
      using load_loginable_org_ok[OF assms(1)] by blast
    have "users_get_by_email Global_Session (w_db w) email = Some u"
      using keyed_lookups_unique(2)[OF assms(1) u(1), of Global_Session] u(2) by simp
    with org t u show ?ok
      using assms(2) auth_login_verified[OF t _ u(3,4), of _ st]
        issue_pair_None_iff[of cr st e 0 "principal_for u" COMPANY_AUDIENCE subject_user "w_db w"]
      by (auto split: option.splits)
  qed
  show ?effects using auth_login_ok_effects[of cr st e email pw ip w] by blast
qed

definition demo_org :: organization where
  "demo_org = \<lparr>o_id = 7, o_name = ''Acme'', o_slug = ''acme'', o_status = org_active, o_legal_hold = False,
     o_created_at = 0\<rparr>"

definition demo_user :: user where
  "demo_user = \<lparr>u_id = 5, u_org_id = 7, u_email = ''a@x'', u_full_name = ''A'', u_password_hash = ''$pw'',
     u_role = company_admin, u_is_active = True, u_created_at = 0\<rparr>"

definition demo_login_db :: identity_db where
  "demo_login_db = \<lparr>organizations = [demo_org], users = [demo_user], platform_admins = [], refresh_tokens = [],
     support_grants = [], audit_log = []\<rparr>"

lemma demo_login_wf: "identity_wf demo_login_db"
  by (simp add: identity_wf_def demo_login_db_def demo_user_def demo_org_def)

lemma demo_open_throttle: "throttle_login e email ip (demo_world db demo_open_limiter) = Inr ()"
  by (simp add: throttle_login_def demo_world_def demo_open_limiter_def new_rate_limiter_def check_def)

theorem login_succeeds_iff_witness:
  "is_ok (fst (auth_login demo_crypto demo_settings (demo_env 50) ''a@x'' ''pw'' None
     (demo_world demo_login_db demo_open_limiter)))"
proof -
  have wf: "identity_wf (w_db (demo_world demo_login_db demo_open_limiter))"
    using demo_login_wf by (simp add: demo_world_def)
  have "\<forall>t \<in> set (refresh_tokens (w_db (demo_world demo_login_db demo_open_limiter))).
      rt_token_hash t \<noteq> sha256_hexdigest demo_crypto (token_urlsafe demo_crypto)"
    by (simp add: demo_world_def demo_login_db_def)
  from login_succeeds_iff[OF wf this, of demo_settings "demo_env 50" "''a@x''" "''pw''" None]
  show ?thesis
    by (simp add: demo_open_throttle)
      (simp add: demo_world_def demo_login_db_def demo_user_def demo_org_def verify_password_def demo_crypto_def)
qed

section \<open>Sessions\<close>

lemma is_ok_authenticate_revoked:
  assumes "pyjwt_contract cr" and "is_revoked d (p_subject_id p) (p_org_id p) (Some (timestamp_int (now_utc e)))"
  shows "\<not> is_ok (authenticate cr st e' d aud stype (Some (encode_access_token cr st e j p ttl a)))"
  using assms(2) by (simp add: authenticate_def decode_issued[OF assms(1)] reject_issued)

lemma revoke_refresh_result:
  "revoke_refresh cr e raw db =
     (map_option rt_subject_id (refresh_tokens_get_by_hash db (sha256_hexdigest cr raw)),
      snd (refresh_tokens_revoke_by_hash (now_utc e) (sha256_hexdigest cr raw) db))"
  by (simp add: revoke_refresh_def refresh_tokens_revoke_by_hash_def Let_def)

lemma dead_after_revoke:
  "\<forall>t \<in> set (refresh_tokens (snd (revoke_refresh cr e raw db))). \<not> live_with_hash (sha256_hexdigest cr raw) t"
  by (simp add: revoke_refresh_result refresh_tokens_revoke_by_hash_def live_revoked_none)

text \<open>
  C27: logging out ends the whole session. Whoever presents a stored refresh token at \<open>logout\<close>
  gets no error, and afterwards no access token issued to its subject up to that second
  authenticates on either domain, at any time while the denylist stands, and the refresh
  token is refused by both refresh endpoints.
\<close>

theorem logout_ends_session:
  assumes "pyjwt_contract cr" and "identity_wf (w_db w)"
    and "t \<in> set (refresh_tokens (w_db w))" and "rt_token_hash t = sha256_hexdigest cr raw"
    and "p_subject_id p = rt_subject_id t" and "now_utc e0 \<le> now_utc e"
  shows "\<exists>w'. unit_of_work (logout cr e actor raw) w = (Inr (), w')
     \<and> (\<forall>e'. \<not> is_ok (get_current_principal cr st e' (w_denylist w')
                  (Some (encode_access_token cr st e0 j p ttl aud)))
          \<and> \<not> is_ok (get_current_platform_admin cr st e' (w_denylist w')
                  (Some (encode_access_token cr st e0 j p ttl aud)))
          \<and> fst (auth_refresh cr st e' raw w') = Inl refresh_invalid
          \<and> fst (platform_refresh cr st e' raw w') = Inl refresh_invalid)"
proof -
  define db' where "db' = snd (revoke_refresh cr e raw (w_db w))"
  define d' where "d' = revoke_subject (w_denylist w) (timestamp_int (now_utc e)) (rt_subject_id t)"
  have "refresh_tokens_get_by_hash (w_db w) (sha256_hexdigest cr raw) = Some t"
    using keyed_lookups_unique(4)[OF assms(2,3)] assms(4) by simp
  then have lo: "logout cr e actor raw w =
      (Inr (), record_event e (uuids e 0) (audit_event_of LOGOUT actor) (w\<lparr>w_db := db', w_denylist := d'\<rparr>))"
    by (simp add: logout_def revoke_refresh_result db'_def d'_def)
  have dead: "fst (consume cr e' raw stype (audit_insert r db')) = Inl refresh_invalid" for e' stype r
    using dead_after_revoke[of cr e raw "w_db w"] by (intro consume_fails_if_dead) (simp add: db'_def)
  have rev: "is_revoked d' (p_subject_id p) (p_org_id p) (Some (timestamp_int (now_utc e0)))"
    unfolding d'_def assms(5) using assms(6) by (intro dl.subject_kills timestamp_int_mono)
  show ?thesis
    using dead is_ok_authenticate_revoked[OF assms(1) rev]
    by (simp add: unit_of_work_def lo get_current_principal_def get_current_platform_admin_def
        auth_refresh_def platform_refresh_def split_beta sum.case_eq_if)
qed

theorem logout_ends_session_witness:
  "\<exists>w'. unit_of_work (logout demo_crypto (demo_env 50) actor_user ''raw'') (demo_world demo_db demo_open_limiter)
       = (Inr (), w')
     \<and> \<not> is_ok (get_current_principal demo_crypto demo_settings (demo_env 51) (w_denylist w')
          (Some (encode_access_token demo_crypto demo_settings (demo_env 40) 1 demo_principal 900000000
             COMPANY_AUDIENCE)))"
proof -
  let ?w = "demo_world demo_db demo_open_limiter"
  have 1: "identity_wf (w_db ?w)" "demo_token \<in> set (refresh_tokens (w_db ?w))"
    by (simp_all add: demo_world_def demo_db_def identity_wf_def)
  have 2: "rt_token_hash demo_token = sha256_hexdigest demo_crypto ''raw''"
    "p_subject_id demo_principal = rt_subject_id demo_token" "now_utc (demo_env 40) \<le> now_utc (demo_env 50)"
    by (simp_all add: demo_token_def demo_crypto_def demo_principal_def demo_env_def)
  show ?thesis
    using logout_ends_session[OF demo_crypto_contract 1 2, of actor_user demo_settings 1 900000000 COMPANY_AUDIENCE]
    by blast
qed

lemma onboard_ok:
  assumes "onboard_organization cr e payload actor w = (Inr (resp, admin), w1)"
  shows "resp = organization_response_of (new_organization e payload) 1
     \<and> admin = first_admin cr e payload (new_organization e payload)
     \<and> users (w_db w1) = users (w_db w) @ [first_admin cr e payload (new_organization e payload)]
     \<and> organizations (w_db w1) = organizations (w_db w) @ [new_organization e payload]"
  using assms
  by (auto simp: onboard_organization_def Let_def organizations_add_def users_add_def split: if_splits option.splits)

lemma auth_login_issues:
  assumes "identity_wf (w_db w)" and "u \<in> set (users (w_db w))" and "throttle_login e (u_email u) ip w = Inr ()"
    and "u_is_active u" and "verify_password cr pw (u_password_hash u)"
    and "load_loginable_org (w_db w) (u_org_id u) = Inr org"
    and "\<forall>t \<in> set (refresh_tokens (w_db w)). rt_token_hash t \<noteq> sha256_hexdigest cr (token_urlsafe cr)"
  shows "\<exists>r w'. auth_login cr st e (u_email u) pw ip w = (Inr r, w')
     \<and> tp_access_token r = encode_access_token cr st e (uuids e 0) (principal_for u) (access_token_ttl st)
         COMPANY_AUDIENCE"
proof -
  have g: "users_get_by_email Global_Session (w_db w) (u_email u) = Some u"
    using keyed_lookups_unique(2)[OF assms(1,2), of Global_Session] by simp
  obtain access raw db' where
    ip: "issue_pair cr st e 0 (principal_for u) COMPANY_AUDIENCE subject_user (w_db w) = Some ((access, raw), db')"
    using issue_pair_None_iff[of cr st e 0 "principal_for u" COMPANY_AUDIENCE subject_user "w_db w"] assms(7)
    by fastforce
  show ?thesis
    using auth_login_verified[OF assms(3) g assms(4,5,6), of st] issue_pair_SomeD(1)[OF ip] by (simp add: ip)
qed

lemma authenticate_issued:
  assumes "pyjwt_contract cr"
    and "timestamp_int (now_utc e) * usec_per_sec \<le> now_utc e'"
    and "now_utc e' < timestamp_int (now_utc e + ttl) * usec_per_sec"
    and "p_subject_type p = subject_user"
    and "\<not> is_revoked d (p_subject_id p) (p_org_id p) (Some (timestamp_int (now_utc e)))"
  shows "get_current_principal cr st e' d (Some (encode_access_token cr st e j p ttl COMPANY_AUDIENCE)) = Inr p"
proof -
  have "p\<lparr>p_subject_type := subject_user\<rparr> = p" using assms(4) by simp
  then show ?thesis
    using assms(2,3,5)
    by (simp add: get_current_principal_def authenticate_def decode_issued[OF assms(1)] reject_issued principal_issued)
qed


definition demo_payload :: organization_create_request where
  "demo_payload = \<lparr>oc_org_name = ''Beta'', oc_org_slug = ''beta'', oc_admin_email = ''b@x'',
     oc_admin_full_name = ''B'', oc_admin_password = ''secret''\<rparr>"


end
