(* ===== verification/User_Service.thy ===== *)
theory User_Service
  imports Auth_Service
begin

text \<open>
  Company user management, \<open>identity/services/user_service.py\<close>. The service runs on the tenant session of
  the caller's organization, so its repository reads see that organization only, while the uniqueness
  of addresses is the database's and spans all of them. Shown: no change removes an organization's last active
  administrator, other tenants are out of reach, and a deactivated user is locked out at once.
\<close>

section \<open>Requests\<close>

record user_create_request =
  uc_email :: string
  uc_full_name :: string
  uc_role :: user_role
  uc_password :: string

record user_update_request =
  uu_full_name :: "string option"
  uu_role :: "user_role option"
  uu_is_active :: "bool option"

section \<open>Operations\<close>

definition list_users :: "db_session \<Rightarrow> identity_db \<Rightarrow> uuid \<Rightarrow> user list" where
  "list_users sn db org_id = users_list_by_org sn db org_id"

definition managed_user_event ::
  "audit_action \<Rightarrow> principal \<Rightarrow> user \<Rightarrow> (string \<times> json) list \<Rightarrow> audit_event" where
  "managed_user_event action actor target details = (audit_event_of action actor_user)
     \<lparr>ae_actor_id := Some (p_subject_id actor), ae_org_id := Some (u_org_id target),
      ae_entity_type := Some ''user'', ae_entity_id := Some (u_id target), ae_details := details\<rparr>"

definition new_user :: "'tok crypto \<Rightarrow> env \<Rightarrow> uuid \<Rightarrow> user_create_request \<Rightarrow> user" where
  "new_user cr e org_id payload = \<lparr>u_id = uuids e 0, u_org_id = org_id, u_email = uc_email payload,
     u_full_name = uc_full_name payload, u_password_hash = hash_password cr (uc_password payload),
     u_role = uc_role payload, u_is_active = True, u_created_at = now_utc e\<rparr>"

definition create_user ::
  "'tok crypto \<Rightarrow> env \<Rightarrow> db_session \<Rightarrow> uuid \<Rightarrow> user_create_request \<Rightarrow> principal \<Rightarrow> user handler" where
  "create_user cr e sn org_id payload actor w =
     (if users_email_exists sn (w_db w) (uc_email payload) then (Inl email_taken, w)
      else
        (let u = new_user cr e org_id payload
         in case users_add u (w_db w) of
              None \<Rightarrow> (Inl email_taken, w)
            | Some db' \<Rightarrow>
                (Inr u, record_event e (uuids e 1)
                   (managed_user_event USER_CREATE actor u [(''role'', JStr (role_value (u_role u)))])
                   (w\<lparr>w_db := db'\<rparr>))))"

definition guard_last_admin ::
  "db_session \<Rightarrow> identity_db \<Rightarrow> uuid \<Rightarrow> user \<Rightarrow> user_role option \<Rightarrow> bool option \<Rightarrow> identity_error + unit" where
  "guard_last_admin sn db org_id u new_role new_is_active =
     (if \<not> (u_role u = company_admin \<and> u_is_active u) then Inr ()
      else
        (let resolved_role = (case new_role of Some r \<Rightarrow> r | None \<Rightarrow> u_role u);
             resolved_active = (case new_is_active of Some b \<Rightarrow> b | None \<Rightarrow> u_is_active u)
         in if resolved_role = company_admin \<and> resolved_active then Inr ()
            else if \<not> (\<exists>admin_id \<in> set (users_lock_active_admin_ids sn db org_id). admin_id \<noteq> u_id u)
            then Inl (LastAdminError ''Cannot remove the organization's last active administrator.'')
            else Inr ()))"

definition apply_update :: "user_update_request \<Rightarrow> user \<Rightarrow> user" where
  "apply_update payload u = u\<lparr>
     u_full_name := (case uu_full_name payload of Some n \<Rightarrow> n | None \<Rightarrow> u_full_name u),
     u_role := (case uu_role payload of Some r \<Rightarrow> r | None \<Rightarrow> u_role u),
     u_is_active := (case uu_is_active payload of Some b \<Rightarrow> b | None \<Rightarrow> u_is_active u)\<rparr>"

definition update_user ::
  "env \<Rightarrow> db_session \<Rightarrow> uuid \<Rightarrow> uuid \<Rightarrow> user_update_request \<Rightarrow> principal \<Rightarrow> user handler" where
  "update_user e sn org_id user_id payload actor w =
     (case users_get_in_org sn (w_db w) user_id org_id of
        None \<Rightarrow> (Inl (UserNotFoundError ''User not found.''), w)
      | Some u \<Rightarrow>
        (case guard_last_admin sn (w_db w) org_id u (uu_role payload) (uu_is_active payload) of
           Inl err \<Rightarrow> (Inl err, w)
         | Inr _ \<Rightarrow>
           (let u' = apply_update payload u;
                w1 = w\<lparr>w_db := users_save u' (w_db w)\<rparr>;
                w2 = (if u_role u' \<noteq> u_role u \<or> (u_is_active u \<and> \<not> u_is_active u')
                      then w1\<lparr>w_denylist := revoke_subject (w_denylist w1) (timestamp_int (now_utc e)) (u_id u')\<rparr>
                      else w1);
                w3 = (if u_role u' \<noteq> u_role u
                      then record_event e (uuids e 0)
                             (managed_user_event USER_ROLE_CHANGE actor u'
                                [(''from_role'', JStr (role_value (u_role u))),
                                 (''to_role'', JStr (role_value (u_role u')))]) w2
                      else w2);
                w4 = (if u_is_active u \<and> \<not> u_is_active u'
                      then record_event e (uuids e 1) (managed_user_event USER_DEACTIVATE actor u' []) w3
                      else w3);
                w5 = (if \<not> u_is_active u \<and> u_is_active u'
                      then record_event e (uuids e 1) (managed_user_event USER_REACTIVATE actor u' []) w4
                      else w4)
            in (Inr u', w5))))"

definition deactivate_user :: "env \<Rightarrow> db_session \<Rightarrow> uuid \<Rightarrow> uuid \<Rightarrow> principal \<Rightarrow> unit handler" where
  "deactivate_user e sn org_id user_id actor w =
     (case users_get_in_org sn (w_db w) user_id org_id of
        None \<Rightarrow> (Inl (UserNotFoundError ''User not found.''), w)
      | Some u \<Rightarrow>
        (case guard_last_admin sn (w_db w) org_id u None (Some False) of
           Inl err \<Rightarrow> (Inl err, w)
         | Inr _ \<Rightarrow>
           (let u' = u\<lparr>u_is_active := False\<rparr>;
                w1 = w\<lparr>w_db := users_save u' (w_db w),
                       w_denylist := revoke_subject (w_denylist w) (timestamp_int (now_utc e)) user_id\<rparr>;
                w2 = (if u_is_active u
                      then record_event e (uuids e 0) (managed_user_event USER_DEACTIVATE actor u' []) w1
                      else w1)
            in (Inr (), w2))))"

section \<open>The table the two updates leave\<close>

lemma get_in_org_member:
  assumes "users_get_in_org sn db user_id org_id = Some u"
  shows "u \<in> set (users db)" "u_id u = user_id" "u_org_id u = org_id" "sees sn org_id"
  using select_one_SomeD[OF assms[unfolded users_get_in_org_def]] by auto

lemma apply_update_keeps [simp]:
  "u_id (apply_update p u) = u_id u" "u_org_id (apply_update p u) = u_org_id u"
  "u_email (apply_update p u) = u_email u" "u_password_hash (apply_update p u) = u_password_hash u"
  by (simp_all add: apply_update_def)

text \<open>Both updates either leave the state alone with an error, or save one row of the caller's organization.\<close>

lemma update_user_cases:
  assumes "update_user e sn org_id user_id payload actor w = (r, w')"
  obtains err where "r = Inl err" "w' = w"
  | u rows where "users_get_in_org sn (w_db w) user_id org_id = Some u"
      "guard_last_admin sn (w_db w) org_id u (uu_role payload) (uu_is_active payload) = Inr ()"
      "r = Inr (apply_update payload u)"
      "w_db w' = (users_save (apply_update payload u) (w_db w))\<lparr>audit_log := audit_log (w_db w) @ rows\<rparr>"
      "w_independent w' = w_independent w" "w_limiter w' = w_limiter w"
      "w_denylist w' =
         (if u_role (apply_update payload u) \<noteq> u_role u \<or> (u_is_active u \<and> \<not> u_is_active (apply_update payload u))
          then revoke_subject (w_denylist w) (timestamp_int (now_utc e)) user_id else w_denylist w)"
proof (cases "users_get_in_org sn (w_db w) user_id org_id")
  case None
  with assms show thesis by (intro that(1)) (auto simp: update_user_def)
next
  case (Some u)
  note id = get_in_org_member(2)[OF Some]
  show thesis
  proof (cases "guard_last_admin sn (w_db w) org_id u (uu_role payload) (uu_is_active payload)")
    case (Inl err)
    with assms Some show thesis by (intro that(1)) (auto simp: update_user_def)
  next
    case (Inr x)
    with assms Some id show thesis
      by (intro that(2)[of u "drop (length (audit_log (w_db w))) (audit_log (w_db w'))"])
         (auto simp: update_user_def Let_def users_save_def audit_insert_def record_event_def split: if_splits)
  qed
qed

lemma deactivate_user_cases:
  assumes "deactivate_user e sn org_id user_id actor w = (r, w')"
  obtains err where "r = Inl err" "w' = w"
  | u rows where "users_get_in_org sn (w_db w) user_id org_id = Some u"
      "guard_last_admin sn (w_db w) org_id u None (Some False) = Inr ()" "r = Inr ()"
      "w_db w' = (users_save (u\<lparr>u_is_active := False\<rparr>) (w_db w))\<lparr>audit_log := audit_log (w_db w) @ rows\<rparr>"
      "w_independent w' = w_independent w" "w_limiter w' = w_limiter w"
      "w_denylist w' = revoke_subject (w_denylist w) (timestamp_int (now_utc e)) user_id"
proof (cases "users_get_in_org sn (w_db w) user_id org_id")
  case None
  with assms show thesis by (intro that(1)) (auto simp: deactivate_user_def)
next
  case (Some u)
  show thesis
  proof (cases "guard_last_admin sn (w_db w) org_id u None (Some False)")
    case (Inl err)
    with assms Some show thesis by (intro that(1)[of err]) (auto simp: deactivate_user_def)
  next
    case (Inr x)
    with assms Some show thesis
      by (intro that(2)[of u "drop (length (audit_log (w_db w))) (audit_log (w_db w'))"])
         (auto simp: deactivate_user_def Let_def users_save_def audit_insert_def record_event_def split: if_splits)
  qed
qed

lemma update_user_effects:
  assumes "update_user e sn org_id user_id payload actor w = (r, w')"
  shows "audit_extends w w'" and "identity_wf (w_db w) \<Longrightarrow> identity_wf (w_db w')"
proof -
  have "audit_extends w w' \<and> (identity_wf (w_db w) \<longrightarrow> identity_wf (w_db w'))"
    using assms
  proof (cases rule: update_user_cases)
    case (2 u rows)
    have "identity_wf (users_save (apply_update payload u) (w_db w))" if "identity_wf (w_db w)"
      by (rule users_save_wf[OF that get_in_org_member(1)[OF 2(1)]]) simp_all
    with 2 show ?thesis by (simp add: audit_extends_def identity_wf_def)
  qed simp
  then show "audit_extends w w'" "identity_wf (w_db w) \<Longrightarrow> identity_wf (w_db w')" by blast+
qed

lemma deactivate_user_effects:
  assumes "deactivate_user e sn org_id user_id actor w = (r, w')"
  shows "audit_extends w w'" and "identity_wf (w_db w) \<Longrightarrow> identity_wf (w_db w')"
proof -
  have "audit_extends w w' \<and> (identity_wf (w_db w) \<longrightarrow> identity_wf (w_db w'))"
    using assms
  proof (cases rule: deactivate_user_cases)
    case (2 u rows)
    have "identity_wf (users_save (u\<lparr>u_is_active := False\<rparr>) (w_db w))" if "identity_wf (w_db w)"
      by (rule users_save_wf[OF that get_in_org_member(1)[OF 2(1)]]) simp_all
    with 2 show ?thesis by (simp add: audit_extends_def identity_wf_def)
  qed simp
  then show "audit_extends w w'" "identity_wf (w_db w) \<Longrightarrow> identity_wf (w_db w')" by blast+
qed

lemma create_user_effects:
  assumes "create_user cr e sn org_id payload actor w = (r, w')"
  shows "audit_extends w w'"
    and "draws_fresh e 1 (w_db w) \<Longrightarrow> identity_wf (w_db w) \<Longrightarrow> identity_wf (w_db w')"
proof -
  show "audit_extends w w'"
    using assms
    by (auto simp: create_user_def audit_extends_def Let_def split: if_splits option.splits dest!: add_audit_log)
  assume "draws_fresh e 1 (w_db w)" and wf: "identity_wf (w_db w)"
  then have "fresh_id (u_id (new_user cr e org_id payload)) (w_db w)"
    by (simp add: draws_fresh_def new_user_def)
  with assms wf show "identity_wf (w_db w')"
    by (auto simp: create_user_def Let_def split: if_splits option.splits elim: users_add_wf)
qed

interpretation ah_create_user: audited_handler "create_user cr e sn org_id payload actor"
  "\<lambda>w. draws_fresh e 1 (w_db w)"
  by unfold_locales (metis prod.collapse create_user_effects(1), metis prod.collapse create_user_effects(2))

interpretation ah_update_user: audited_handler "update_user e sn org_id user_id payload' actor" "\<lambda>_. True"
  by unfold_locales (metis prod.collapse update_user_effects(1), metis prod.collapse update_user_effects(2))

interpretation ah_deactivate_user: audited_handler "deactivate_user e sn org_id user_id actor" "\<lambda>_. True"
  by unfold_locales (metis prod.collapse deactivate_user_effects(1), metis prod.collapse deactivate_user_effects(2))

section \<open>The last administrator\<close>

definition active_admins :: "identity_db \<Rightarrow> uuid \<Rightarrow> user set" where
  "active_admins db g = {u \<in> set (users db). u_org_id u = g \<and> u_role u = company_admin \<and> u_is_active u}"

lemma locked_admin_ids:
  "sees sn g \<Longrightarrow> set (users_lock_active_admin_ids sn db g) = u_id ` active_admins db g"
  by (auto simp: users_lock_active_admin_ids_def active_admins_def select_where_def)

text \<open>The guard refuses a change exactly when it would strip the only active administrator.\<close>

lemma guard_last_admin_iff:
  assumes "identity_wf db" and "u \<in> set (users db)" and "sees sn (u_org_id u)"
  shows "guard_last_admin sn db (u_org_id u) u r b = Inr () \<longleftrightarrow>
     (active_admins db (u_org_id u) = {u} \<longrightarrow>
        (case r of Some x \<Rightarrow> x | None \<Rightarrow> u_role u) = company_admin
        \<and> (case b of Some x \<Rightarrow> x | None \<Rightarrow> u_is_active u))"
proof -
  have inj: "x = u" if "x \<in> active_admins db (u_org_id u)" "u_id x = u_id u" for x
    using that identity_keys_inj(1)[OF assms(1) _ assms(2)] by (simp add: active_admins_def)
  have "(\<exists>i \<in> set (users_lock_active_admin_ids sn db (u_org_id u)). i \<noteq> u_id u)
      \<longleftrightarrow> (\<exists>x \<in> active_admins db (u_org_id u). x \<noteq> u)"
    unfolding locked_admin_ids[OF assms(3)] bex_simps using inj by metis
  moreover have "u \<in> active_admins db (u_org_id u) \<longleftrightarrow> u_role u = company_admin \<and> u_is_active u"
    using assms(2) by (simp add: active_admins_def)
  ultimately show ?thesis
    unfolding guard_last_admin_def Let_def by (auto split: if_splits)
qed

lemma active_admins_save:
  assumes "identity_wf db" and "u \<in> set (users db)" and "u_id u' = u_id u" and "u_org_id u' = u_org_id u"
  shows "active_admins (users_save u' db) g =
     (active_admins db g - {u}) \<union> (if u_org_id u = g \<and> u_role u' = company_admin \<and> u_is_active u' then {u'} else {})"
proof -
  note inj = identity_keys_inj(1)[OF assms(1) _ assms(2)]
  have "set (users (users_save u' db)) = (set (users db) - {u}) \<union> {u'}"
    using assms(2,3) inj by (auto simp: users_save_def set_update_where)
  then show ?thesis using assms(3,4) by (auto simp: active_admins_def)
qed

lemma active_admins_audit [simp]:
  "active_admins (db\<lparr>audit_log := rows\<rparr>) g = active_admins db g"
  by (simp add: active_admins_def)

lemma update_user_keeps_admin:
  assumes "identity_wf (w_db w)" and "active_admins (w_db w) g \<noteq> {}"
  shows "active_admins (w_db (snd (update_user e sn org_id user_id payload actor w))) g \<noteq> {}"
proof -
  obtain r w' where run: "update_user e sn org_id user_id payload actor w = (r, w')" by (meson surj_pair)
  from run have "active_admins (w_db w') g \<noteq> {}"
  proof (cases rule: update_user_cases)
    case (2 u rows)
    note m = get_in_org_member[OF 2(1)]
    have gd: "active_admins (w_db w) org_id = {u} \<longrightarrow>
        u_role (apply_update payload u) = company_admin \<and> u_is_active (apply_update payload u)"
      using guard_last_admin_iff[OF assms(1) m(1), of sn "uu_role payload" "uu_is_active payload"] 2(2) m(3,4)
      by (simp add: apply_update_def)
    have "active_admins (w_db w') g = active_admins (users_save (apply_update payload u) (w_db w)) g"
      by (simp add: 2(4))
    also have "\<dots> = (active_admins (w_db w) g - {u}) \<union>
        (if org_id = g \<and> u_role (apply_update payload u) = company_admin \<and> u_is_active (apply_update payload u)
         then {apply_update payload u} else {})"
      using active_admins_save[OF assms(1) m(1)] m(3) by simp
    finally show ?thesis using gd assms(2) m(3) by (cases "u \<in> active_admins (w_db w) g") (auto simp: active_admins_def)
  qed (use assms in simp)
  then show ?thesis by (simp add: run)
qed

lemma deactivate_user_keeps_admin:
  assumes "identity_wf (w_db w)" and "active_admins (w_db w) g \<noteq> {}"
  shows "active_admins (w_db (snd (deactivate_user e sn org_id user_id actor w))) g \<noteq> {}"
proof -
  obtain r w' where run: "deactivate_user e sn org_id user_id actor w = (r, w')" by (meson surj_pair)
  from run have "active_admins (w_db w') g \<noteq> {}"
  proof (cases rule: deactivate_user_cases)
    case (2 u rows)
    note m = get_in_org_member[OF 2(1)]
    have gd: "active_admins (w_db w) org_id \<noteq> {u}"
      using guard_last_admin_iff[OF assms(1) m(1), of sn None "Some False"] 2(2) m(3,4) by simp
    have "active_admins (w_db w') g = active_admins (w_db w) g - {u}"
      using active_admins_save[OF assms(1) m(1), of "u\<lparr>u_is_active := False\<rparr>"] by (simp add: 2(4))
    then show ?thesis
      using gd assms(2) m(3) by (cases "u \<in> active_admins (w_db w) g") (auto simp: active_admins_def)
  qed (use assms in simp)
  then show ?thesis by (simp add: run)
qed

text \<open>
  C20: no user-management request removes an organization's last active administrator: an organization that has
  one before an update or a deactivation, by whomever and of whatever tenant, has one after it; and
  deactivation is refused with 409 exactly for the only active administrator, never for anyone else.
\<close>

theorem last_admin_kept:
  assumes "identity_wf (w_db w)" and "active_admins (w_db w) g \<noteq> {}"
    and "u \<in> set (users (w_db w))"
  shows "active_admins (w_db (snd (update_user e sn org_id user_id payload actor w))) g \<noteq> {}
     \<and> active_admins (w_db (snd (deactivate_user e sn org_id user_id actor w))) g \<noteq> {}
     \<and> (is_ok (fst (deactivate_user e (Tenant_Session (u_org_id u)) (u_org_id u) (u_id u) actor w))
          \<longleftrightarrow> active_admins (w_db w) (u_org_id u) \<noteq> {u})"
proof -
  have "users_get_in_org (Tenant_Session (u_org_id u)) (w_db w) (u_id u) (u_org_id u) = Some u"
    using assms(1,3) unfolding users_get_in_org_def identity_wf_def
    by (auto intro: select_one_unique(1)[where k = u_id])
  then have "is_ok (fst (deactivate_user e (Tenant_Session (u_org_id u)) (u_org_id u) (u_id u) actor w))
      \<longleftrightarrow> is_ok (guard_last_admin (Tenant_Session (u_org_id u)) (w_db w) (u_org_id u) u None (Some False))"
    by (simp add: deactivate_user_def Let_def split: sum.splits)
  also have "\<dots> \<longleftrightarrow> active_admins (w_db w) (u_org_id u) \<noteq> {u}"
    using guard_last_admin_iff[OF assms(1,3), of "Tenant_Session (u_org_id u)" None "Some False"]
    by (simp add: is_ok_iff)
  finally show ?thesis
    using update_user_keeps_admin[OF assms(1,2)] deactivate_user_keeps_admin[OF assms(1,2)] by simp
qed

theorem last_admin_kept_witness:
  "\<not> is_ok (fst (deactivate_user (demo_env 50) (Tenant_Session 7) 7 5 demo_principal
       (demo_world demo_login_db demo_open_limiter)))"
proof -
  let ?w = "demo_world demo_login_db demo_open_limiter"
  have a: "active_admins (w_db ?w) 7 = {demo_user}"
    by (auto simp: active_admins_def demo_world_def demo_login_db_def demo_user_def)
  have "identity_wf (w_db ?w)" "demo_user \<in> set (users (w_db ?w))"
    using demo_login_wf by (simp_all add: demo_world_def demo_login_db_def)
  with last_admin_kept[of ?w 7 demo_user "demo_env 50" "Tenant_Session 7" 7 5
      "\<lparr>uu_full_name = None, uu_role = None, uu_is_active = None\<rparr>" demo_principal] a
  show ?thesis by (simp add: demo_user_def)
qed

section \<open>Tenant isolation and lockout\<close>

lemma users_save_other_orgs:
  assumes "identity_wf db" and "u \<in> set (users db)" and "u_id u' = u_id u" and "u_org_id u' = u_org_id u" and "g \<noteq> u_org_id u"
  shows "filter (\<lambda>x. u_org_id x = g) (users (users_save u' db)) = filter (\<lambda>x. u_org_id x = g) (users db)"
proof -
  have "\<forall>x \<in> set (users db). u_id x = u_id u' \<longrightarrow> u_org_id x \<noteq> g"
    using identity_keys_inj(1)[OF assms(1) _ assms(2)] assms(3,5) by metis
  then show ?thesis using assms(4,5) unfolding users_save_def by (simp add: filter_save_other)
qed

text \<open>
  A tenant cannot touch another tenant's users. On the session of one organization, an update or a
  deactivation aimed at a user of another organization is a 404 that leaves the state alone, whatever
  organization identifier the request carries, and no such request changes a row of another organization.
\<close>

theorem user_management_confined:
  assumes "identity_wf (w_db w)" and "u \<in> set (users (w_db w))" and "u_org_id u \<noteq> g"
  shows "update_user e (Tenant_Session g) org_id (u_id u) payload actor w = (Inl (UserNotFoundError ''User not found.''), w)
     \<and> deactivate_user e (Tenant_Session g) org_id (u_id u) actor w = (Inl (UserNotFoundError ''User not found.''), w)
     \<and> filter (\<lambda>x. u_org_id x = u_org_id u) (users (w_db (snd (update_user e (Tenant_Session g) org_id v payload actor w))))
         = filter (\<lambda>x. u_org_id x = u_org_id u) (users (w_db w))
     \<and> filter (\<lambda>x. u_org_id x = u_org_id u) (users (w_db (snd (deactivate_user e (Tenant_Session g) org_id v actor w))))
         = filter (\<lambda>x. u_org_id x = u_org_id u) (users (w_db w))"
proof -
  have none: "users_get_in_org (Tenant_Session g) (w_db w) (u_id u) org_id = None"
    using assms(3) identity_keys_inj(1)[OF assms(1) _ assms(2)]
    by (auto simp: users_get_in_org_def select_one_None_iff)
  have other: "filter (\<lambda>x. u_org_id x = u_org_id u) (users (users_save v' (w_db w))) = filter (\<lambda>x. u_org_id x = u_org_id u) (users (w_db w))"
    if "users_get_in_org (Tenant_Session g) (w_db w) v org_id = Some x" "u_id v' = u_id x" "u_org_id v' = u_org_id x" for v' x
    using get_in_org_member[OF that(1)] that(2,3) assms(3) by (intro users_save_other_orgs[OF assms(1)]) auto
  obtain r1 w1 r2 w2 where run: "update_user e (Tenant_Session g) org_id v payload actor w = (r1, w1)"
    "deactivate_user e (Tenant_Session g) org_id v actor w = (r2, w2)" by (meson surj_pair)
  from run(1) have "filter (\<lambda>x. u_org_id x = u_org_id u) (users (w_db w1)) = filter (\<lambda>x. u_org_id x = u_org_id u) (users (w_db w))"
    by (cases rule: update_user_cases) (use other in auto)
  moreover from run(2) have "filter (\<lambda>x. u_org_id x = u_org_id u) (users (w_db w2)) = filter (\<lambda>x. u_org_id x = u_org_id u) (users (w_db w))"
    by (cases rule: deactivate_user_cases) (use other in auto)
  ultimately show ?thesis by (simp add: run update_user_def[of _ _ _ "u_id u"] deactivate_user_def[of _ _ _ "u_id u"] none)
qed

theorem user_management_confined_witness:
  "deactivate_user (demo_env 50) (Tenant_Session 8) 7 5 demo_principal (demo_world demo_login_db demo_open_limiter)
     = (Inl (UserNotFoundError ''User not found.''), demo_world demo_login_db demo_open_limiter)"
proof -
  let ?w = "demo_world demo_login_db demo_open_limiter"
  have "identity_wf (w_db ?w)" "demo_user \<in> set (users (w_db ?w))"
    using demo_login_wf by (simp_all add: demo_world_def demo_login_db_def)
  then show ?thesis
    using user_management_confined[of ?w demo_user 8 "demo_env 50" 7
        "\<lparr>uu_full_name = None, uu_role = None, uu_is_active = None\<rparr>" demo_principal 5]
    by (simp add: demo_user_def)
qed

lemma refresh_token_owner:
  assumes "identity_wf db" and "u \<in> set (users db)" and "t \<in> set (refresh_tokens db)"
    and "rt_token_hash t = sha256_hexdigest cr raw" and "rt_subject_id t = u_id u"
    and "consume cr e raw stype db = (r, db')"
  shows "r = Inr x \<Longrightarrow> rt_subject_id x = u_id u"
    and "users_get_by_subject_id Global_Session db' (u_id u) = Some u"
proof -
  assume "r = Inr x"
  then have "x \<in> set (refresh_tokens db) \<and> rt_token_hash x = sha256_hexdigest cr raw"
    using consume_ok_iff[OF assms(1), of cr e raw stype x] assms(6) by simp
  then show "rt_subject_id x = u_id u"
    using keyed_lookups_unique(4)[OF assms(1)] assms(3,4,5) by (metis option.inject)
next
  show "users_get_by_subject_id Global_Session db' (u_id u) = Some u"
    using keyed_lookups_unique(3)[OF assms(1,2), of Global_Session] consume_keeps(1)[OF assms(6)]
    by (simp add: users_get_by_subject_id_def)
qed

lemma inactive_user_refused:
  assumes "identity_wf (w_db w)" and "u \<in> set (users (w_db w))" and "\<not> u_is_active u"
  shows "\<not> is_ok (fst (auth_login cr st e (u_email u) pw ip w))"
    and "t \<in> set (refresh_tokens (w_db w)) \<Longrightarrow> rt_token_hash t = sha256_hexdigest cr raw \<Longrightarrow>
      rt_subject_id t = u_id u \<Longrightarrow> \<not> is_ok (fst (auth_refresh cr st e raw w))"
proof -
  have g: "users_get_by_email Global_Session (w_db w) (u_email u) = Some u"
    using keyed_lookups_unique(2)[OF assms(1,2), of Global_Session] by simp
  show "\<not> is_ok (fst (auth_login cr st e (u_email u) pw ip w))"
    using assms(3) by (simp add: auth_login_def g Let_def split: sum.splits)
  assume t: "t \<in> set (refresh_tokens (w_db w))" "rt_token_hash t = sha256_hexdigest cr raw" "rt_subject_id t = u_id u"
  obtain r db' where c: "consume cr e raw subject_user (w_db w) = (r, db')" by (meson surj_pair)
  note own = refresh_token_owner[OF assms(1,2) t c]
  show "\<not> is_ok (fst (auth_refresh cr st e raw w))"
    using own assms(3) by (cases r) (simp_all add: auth_refresh_def c)
qed

text \<open>
  C29: deactivation takes effect at once. After an administrator deactivates a user, none of the access
  tokens issued to that user up to then authenticates, and neither the password nor any stored
  refresh token of that user obtains a new one.
\<close>

theorem deactivated_user_locked_out:
  assumes "pyjwt_contract cr" and "identity_wf (w_db w)"
    and "deactivate_user e sn org_id user_id actor w = (Inr (), w')"
    and "p_subject_id p = user_id" and "now_utc e0 \<le> now_utc e"
  shows "\<exists>u \<in> set (users (w_db w')). u_id u = user_id \<and> u_org_id u = org_id
     \<and> \<not> is_ok (get_current_principal cr st e' (w_denylist w') (Some (encode_access_token cr st e0 j p ttl aud)))
     \<and> \<not> is_ok (fst (auth_login cr st e' (u_email u) pw ip w'))
     \<and> (\<forall>t \<in> set (refresh_tokens (w_db w')). rt_subject_id t = user_id \<and> rt_token_hash t = sha256_hexdigest cr raw
          \<longrightarrow> \<not> is_ok (fst (auth_refresh cr st e' raw w')))"
  using assms(3)
proof (cases rule: deactivate_user_cases)
  case (2 u rows)
  note m = get_in_org_member[OF 2(1)]
  let ?u = "u\<lparr>u_is_active := False\<rparr>"
  have wf': "identity_wf (w_db w')" using deactivate_user_effects(2)[OF assms(3,2)] .
  have mem: "?u \<in> set (users (w_db w'))"
    using m(1) by (auto simp: 2(4) users_save_def set_update_where)
  have "is_revoked (w_denylist w') (p_subject_id p) (p_org_id p) (Some (timestamp_int (now_utc e0)))"
    unfolding 2(7) assms(4) using assms(5) by (intro dl.subject_kills timestamp_int_mono)
  from is_ok_authenticate_revoked[OF assms(1) this]
  have "\<not> is_ok (get_current_principal cr st e' (w_denylist w') (Some (encode_access_token cr st e0 j p ttl aud)))"
    by (simp add: get_current_principal_def)
  then show ?thesis
    using inactive_user_refused(1)[OF wf' mem, of cr st e' pw ip] inactive_user_refused(2)[OF wf' mem, of _ cr raw st e'] m(2,3)
    by (intro bexI[OF _ mem]) auto
qed simp

definition demo_member :: user where
  "demo_member = demo_user\<lparr>u_id := 6, u_email := ''m@x'', u_role := member\<rparr>"

definition demo_team_db :: identity_db where
  "demo_team_db = demo_login_db\<lparr>users := [demo_user, demo_member]\<rparr>"

lemma demo_team_wf: "identity_wf demo_team_db"
  by (simp add: identity_wf_def demo_team_db_def demo_login_db_def demo_user_def demo_member_def demo_org_def
      py_lower_def lower_char_def lower_code_def)

theorem deactivated_user_locked_out_witness:
  "\<exists>w'. deactivate_user (demo_env 50) (Tenant_Session 7) 7 6 demo_principal (demo_world demo_team_db demo_open_limiter)
      = (Inr (), w')
    \<and> (\<exists>u \<in> set (users (w_db w')). u_id u = 6
         \<and> \<not> is_ok (fst (auth_login demo_crypto demo_settings (demo_env 60) (u_email u) ''pw'' None w')))"
proof -
  let ?w = "demo_world demo_team_db demo_open_limiter"
  obtain w' where run: "deactivate_user (demo_env 50) (Tenant_Session 7) 7 6 demo_principal ?w = (Inr (), w')"
    by (simp add: deactivate_user_def demo_world_def demo_team_db_def demo_login_db_def demo_user_def demo_member_def
        users_get_in_org_def select_one_def guard_last_admin_def Let_def)
  have wf: "identity_wf (w_db ?w)" using demo_team_wf by (simp add: demo_world_def)
  have p: "p_subject_id (demo_principal\<lparr>p_subject_id := 6\<rparr>) = 6" by simp
  have t: "now_utc (demo_env 40) \<le> now_utc (demo_env 50)" by (simp add: demo_env_def)
  from deactivated_user_locked_out[OF demo_crypto_contract wf run p t, of demo_settings "demo_env 60" 1 900 COMPANY_AUDIENCE
      "''pw''" None "''raw''"] run
  show ?thesis by blast
qed

lemma users_add_None_iff:
  "users_add r db = None \<longleftrightarrow>
     (\<exists>u \<in> set (users db). py_lower (u_email u) = py_lower (u_email r)) \<or> u_org_id r \<notin> o_id ` set (organizations db)"
proof -
  have "(\<exists>x \<in> set (users db). u_email x = u_email r \<or> py_lower (u_email x) = py_lower (u_email r))
      \<longleftrightarrow> (\<exists>u \<in> set (users db). py_lower (u_email u) = py_lower (u_email r))" by metis
  then show ?thesis by (auto simp: users_add_def image_iff intro: sym)
qed

lemma new_user_sel:
  "u_email (new_user cr e g p) = uc_email p" "u_org_id (new_user cr e g p) = g"
  by (simp_all add: new_user_def)

text \<open>
  Creating a user is decided by the uniqueness of the address over all organizations, compared without
  case, although the pre-check sees the caller's organization only: the request succeeds exactly when no
  user anywhere has the address and the organization exists, it then adds exactly the requested active user to
  that organization, and every refusal is the documented 409 with nothing changed.
\<close>

theorem create_user_outcome:
  shows "(is_ok (fst (create_user cr e sn org_id payload actor w)) \<longleftrightarrow>
       (\<forall>u \<in> set (users (w_db w)). py_lower (u_email u) \<noteq> py_lower (uc_email payload))
       \<and> org_id \<in> o_id ` set (organizations (w_db w)))
     \<and> (\<forall>err w'. create_user cr e sn org_id payload actor w = (Inl err, w') \<longrightarrow>
          err = email_taken \<and> http_status err = 409 \<and> w' = w)
     \<and> (\<forall>u w'. create_user cr e sn org_id payload actor w = (Inr u, w') \<longrightarrow>
          users (w_db w') = users (w_db w) @ [u] \<and> u_email u = uc_email payload \<and> u_role u = uc_role payload
          \<and> u_org_id u = org_id \<and> u_is_active u \<and> u_password_hash u = hash_password cr (uc_password payload)
          \<and> organizations (w_db w') = organizations (w_db w) \<and> refresh_tokens (w_db w') = refresh_tokens (w_db w))"
proof -
  have pre: "\<exists>u \<in> set (users (w_db w)). py_lower (u_email u) = py_lower (uc_email payload)"
    if "users_email_exists sn (w_db w) (uc_email payload)"
    using that by (simp only: users_email_exists_def select_one_None_iff) (metis (no_types, lifting))
  note add = users_add_None_iff[of "new_user cr e org_id payload" "w_db w"]
  have "is_ok (fst (create_user cr e sn org_id payload actor w)) \<longleftrightarrow>
       (\<forall>u \<in> set (users (w_db w)). py_lower (u_email u) \<noteq> py_lower (uc_email payload))
       \<and> org_id \<in> o_id ` set (organizations (w_db w))"
    using pre add[unfolded new_user_sel]
    by (cases "users_add (new_user cr e org_id payload) (w_db w)") (auto simp: create_user_def Let_def)
  then show ?thesis
    by (auto simp: create_user_def users_add_def new_user_def Let_def split: if_splits option.splits)
qed

theorem create_user_outcome_witness:
  "fst (create_user demo_crypto (demo_env 50) (Tenant_Session 8) 8
      \<lparr>uc_email = ''A@X'', uc_full_name = ''B'', uc_role = member, uc_password = ''secret''\<rparr> demo_principal
      (demo_world demo_login_db demo_open_limiter)) = Inl email_taken"
proof -
  let ?w = "demo_world demo_login_db demo_open_limiter"
    and ?p = "\<lparr>uc_email = ''A@X'', uc_full_name = ''B'', uc_role = member, uc_password = ''secret''\<rparr>"
  obtain r w' where run: "create_user demo_crypto (demo_env 50) (Tenant_Session 8) 8 ?p demo_principal ?w = (r, w')"
    by (meson surj_pair)
  note c = create_user_outcome[of demo_crypto "demo_env 50" "Tenant_Session 8" 8 ?p demo_principal ?w]
  have "\<not> is_ok r"
    using c by (simp add: run) (simp add: demo_world_def demo_login_db_def demo_org_def)
  then obtain err where "r = Inl err" by (cases r) auto
  then show ?thesis using c run by simp
qed

end
