(* ===== verification/Org_Support.thy ===== *)
theory Org_Support
  imports User_Service
begin

text \<open>
  Organization lifecycle (\<open>identity/services/platform_org_service.py\<close>) and break-glass support access:
  \<open>platform_support_service.py\<close> on the platform's global session, \<open>company_support_service.py\<close> on the tenant
  session of the organization that is asked for consent, and the shared view \<open>support_grant_view.py\<close>.
  Support grants form a state machine; its step relation runs every handler in any order, and
  the invariant ties an active grant to an approval on the audit trail.
\<close>

section \<open>Organization lifecycle\<close>

record organization_detail =
  od_organization :: organization_response
  od_legal_hold :: bool

definition to_detail :: "organization \<Rightarrow> nat \<Rightarrow> organization_detail" where
  "to_detail org n = \<lparr>od_organization = organization_response_of org n, od_legal_hold = o_legal_hold org\<rparr>"

definition load_org :: "identity_db \<Rightarrow> uuid \<Rightarrow> identity_error + organization \<times> nat" where
  "load_org db org_id =
     (case get_with_user_count db org_id of
        None \<Rightarrow> Inl (OrganizationNotFoundError ''Organization not found.'')
      | Some row \<Rightarrow> Inr row)"

definition get_detail :: "identity_db \<Rightarrow> uuid \<Rightarrow> identity_error + organization_detail" where
  "get_detail db org_id =
     (case load_org db org_id of Inl err \<Rightarrow> Inl err | Inr (org, n) \<Rightarrow> Inr (to_detail org n))"

definition status_action :: "organization_status \<Rightarrow> audit_action" where
  "status_action s =
     (case s of org_suspended \<Rightarrow> ORG_SUSPEND | org_active \<Rightarrow> ORG_REACTIVATE | _ \<Rightarrow> ORG_STATUS_CHANGE)"

definition org_event :: "audit_action \<Rightarrow> principal \<Rightarrow> uuid \<Rightarrow> (string \<times> json) list \<Rightarrow> audit_event" where
  "org_event action actor org_id details = (audit_event_of action actor_platform_admin)
     \<lparr>ae_actor_id := Some (p_subject_id actor), ae_org_id := Some org_id,
      ae_entity_type := Some ''organization'', ae_entity_id := Some org_id, ae_details := details\<rparr>"

definition set_status :: "env \<Rightarrow> uuid \<Rightarrow> organization_status \<Rightarrow> principal \<Rightarrow> organization_detail handler" where
  "set_status e org_id status actor w =
     (case load_org (w_db w) org_id of
        Inl err \<Rightarrow> (Inl err, w)
      | Inr (org, n) \<Rightarrow>
        (let org' = org\<lparr>o_status := status\<rparr>;
             w1 = w\<lparr>w_db := organizations_save org' (w_db w)\<rparr>;
             w2 = (if status = org_suspended
                   then w1\<lparr>w_denylist := revoke_org (w_denylist w1) (timestamp_int (now_utc e)) org_id\<rparr>
                   else w1)
         in (Inr (to_detail org' n),
             record_event e (uuids e 0)
               (org_event (status_action status) actor org_id
                  [(''from_status'', JStr (organization_status_value (o_status org))),
                   (''to_status'', JStr (organization_status_value status))]) w2)))"

definition set_legal_hold :: "env \<Rightarrow> uuid \<Rightarrow> bool \<Rightarrow> principal \<Rightarrow> organization_detail handler" where
  "set_legal_hold e org_id legal_hold actor w =
     (case load_org (w_db w) org_id of
        Inl err \<Rightarrow> (Inl err, w)
      | Inr (org, n) \<Rightarrow>
        (let org' = org\<lparr>o_legal_hold := legal_hold\<rparr>
         in (Inr (to_detail org' n),
             record_event e (uuids e 0)
               (org_event (if legal_hold then ORG_LEGAL_HOLD_SET else ORG_LEGAL_HOLD_CLEAR) actor org_id
                  [(''legal_hold'', JBool legal_hold)])
               (w\<lparr>w_db := organizations_save org' (w_db w)\<rparr>))))"

section \<open>Support grants\<close>

definition SUPPORT_ACCESS_WINDOW :: int where
  "SUPPORT_ACCESS_WINDOW = 4 * 3600 * usec_per_sec"

definition revocable :: "support_grant_status \<Rightarrow> bool" where
  "revocable s \<longleftrightarrow> s \<in> {grant_requested, grant_approved}"

definition grant_is_active :: "datetime \<Rightarrow> support_grant \<Rightarrow> bool" where
  "grant_is_active now g =
     (if sg_status g \<noteq> grant_approved then False
      else (case sg_expires_at g of None \<Rightarrow> False | Some x \<Rightarrow> now < x))"

text \<open>The response is the row with the live flag.\<close>

definition to_support_response :: "env \<Rightarrow> support_grant \<Rightarrow> support_grant \<times> bool" where
  "to_support_response e g = (g, grant_is_active (now_utc e) g)"

abbreviation grant_not_found :: identity_error where
  "grant_not_found \<equiv> SupportGrantNotFoundError ''Support grant not found.''"

abbreviation cannot_revoke :: "support_grant_status \<Rightarrow> identity_error" where
  "cannot_revoke s \<equiv> InvalidGrantTransitionError
     (''Cannot revoke a grant that is '' @ support_grant_status_value s @ ''.'')"

definition support_event ::
  "audit_action \<Rightarrow> audit_actor_type \<Rightarrow> support_grant \<Rightarrow> principal \<Rightarrow> (string \<times> json) list \<Rightarrow> audit_event" where
  "support_event action actor_type g actor details = (audit_event_of action actor_type)
     \<lparr>ae_actor_id := Some (p_subject_id actor), ae_org_id := Some (sg_org_id g),
      ae_entity_type := Some ''support_grant'', ae_entity_id := Some (sg_id g), ae_details := details\<rparr>"

subsection \<open>The platform's side\<close>

definition new_grant :: "env \<Rightarrow> identity_db \<Rightarrow> uuid \<Rightarrow> string \<Rightarrow> principal \<Rightarrow> support_grant" where
  "new_grant e db org_id reason actor = \<lparr>sg_id = uuids e 0, sg_org_id = org_id,
     sg_requested_by_admin_id = p_subject_id actor,
     sg_requested_by_email = map_option pa_email (platform_admins_get_by_id db (p_subject_id actor)),
     sg_reason = reason, sg_status = grant_requested, sg_decided_at = None, sg_decided_by_user_id = None,
     sg_decided_by_email = None, sg_expires_at = None, sg_created_at = now_utc e\<rparr>"

definition request_access :: "env \<Rightarrow> uuid \<Rightarrow> string \<Rightarrow> principal \<Rightarrow> (support_grant \<times> bool) handler" where
  "request_access e org_id reason actor w =
     (if organizations_get_by_id (w_db w) org_id = None
      then (Inl (OrganizationNotFoundError ''Organization not found.''), w)
      else
        (let g = new_grant e (w_db w) org_id reason actor
         in (Inr (to_support_response e g),
             record_event e (uuids e 1)
               (support_event SUPPORT_REQUESTED actor_platform_admin g actor [(''reason'', JStr reason)])
               (w\<lparr>w_db := support_grants_insert g (w_db w)\<rparr>))))"

definition list_my_requests :: "env \<Rightarrow> identity_db \<Rightarrow> principal \<Rightarrow> (support_grant \<times> bool) list" where
  "list_my_requests e db actor =
     map (to_support_response e) (support_grants_list_for_requester db (p_subject_id actor))"

definition platform_revoke :: "env \<Rightarrow> uuid \<Rightarrow> principal \<Rightarrow> (support_grant \<times> bool) handler" where
  "platform_revoke e grant_id actor w =
     (case support_grants_get_for_requester (w_db w) grant_id (p_subject_id actor) of
        None \<Rightarrow> (Inl grant_not_found, w)
      | Some g \<Rightarrow>
        if \<not> revocable (sg_status g) then (Inl (cannot_revoke (sg_status g)), w)
        else
          (let g' = g\<lparr>sg_status := grant_revoked\<rparr>
           in (Inr (to_support_response e g'),
               record_event e (uuids e 0) (support_event SUPPORT_REVOKED actor_platform_admin g' actor [])
                 (w\<lparr>w_db := support_grants_save g' (w_db w)\<rparr>))))"

subsection \<open>The customer's side\<close>

definition list_grants_for_org :: "env \<Rightarrow> db_session \<Rightarrow> identity_db \<Rightarrow> uuid \<Rightarrow> (support_grant \<times> bool) list" where
  "list_grants_for_org e sn db org_id = map (to_support_response e) (support_grants_list_for_org sn db org_id)"

definition load_requested :: "db_session \<Rightarrow> identity_db \<Rightarrow> uuid \<Rightarrow> uuid \<Rightarrow> identity_error + support_grant" where
  "load_requested sn db grant_id org_id =
     (case support_grants_get_in_org sn db grant_id org_id of
        None \<Rightarrow> Inl grant_not_found
      | Some g \<Rightarrow>
        if sg_status g \<noteq> grant_requested
        then Inl (InvalidGrantTransitionError
               (''Cannot decide a grant that is already '' @ support_grant_status_value (sg_status g) @ ''.''))
        else Inr g)"

definition stamp_decision :: "db_session \<Rightarrow> identity_db \<Rightarrow> principal \<Rightarrow> datetime \<Rightarrow> support_grant \<Rightarrow> support_grant" where
  "stamp_decision sn db actor decided_at g =
     g\<lparr>sg_decided_at := Some decided_at, sg_decided_by_user_id := Some (p_subject_id actor),
       sg_decided_by_email := map_option u_email (users_get_by_subject_id sn db (p_subject_id actor))\<rparr>"

definition approve :: "env \<Rightarrow> db_session \<Rightarrow> uuid \<Rightarrow> uuid \<Rightarrow> principal \<Rightarrow> (support_grant \<times> bool) handler" where
  "approve e sn grant_id org_id actor w =
     (case load_requested sn (w_db w) grant_id org_id of
        Inl err \<Rightarrow> (Inl err, w)
      | Inr g \<Rightarrow>
        (let g' = (stamp_decision sn (w_db w) actor (now_utc e) g)
                    \<lparr>sg_status := grant_approved, sg_expires_at := Some (now_utc e + SUPPORT_ACCESS_WINDOW)\<rparr>
         in (Inr (to_support_response e g'),
             record_event e (uuids e 0)
               (support_event SUPPORT_APPROVED actor_user g' actor
                  [(''expires_at'', JTime (now_utc e + SUPPORT_ACCESS_WINDOW)), (''window_hours'', JNum 4)])
               (w\<lparr>w_db := support_grants_save g' (w_db w)\<rparr>))))"

definition deny :: "env \<Rightarrow> db_session \<Rightarrow> uuid \<Rightarrow> uuid \<Rightarrow> principal \<Rightarrow> (support_grant \<times> bool) handler" where
  "deny e sn grant_id org_id actor w =
     (case load_requested sn (w_db w) grant_id org_id of
        Inl err \<Rightarrow> (Inl err, w)
      | Inr g \<Rightarrow>
        (let g' = (stamp_decision sn (w_db w) actor (now_utc e) g)\<lparr>sg_status := grant_denied\<rparr>
         in (Inr (to_support_response e g'),
             record_event e (uuids e 0) (support_event SUPPORT_DENIED actor_user g' actor [])
               (w\<lparr>w_db := support_grants_save g' (w_db w)\<rparr>))))"

definition company_revoke :: "env \<Rightarrow> db_session \<Rightarrow> uuid \<Rightarrow> uuid \<Rightarrow> principal \<Rightarrow> (support_grant \<times> bool) handler" where
  "company_revoke e sn grant_id org_id actor w =
     (case support_grants_get_in_org sn (w_db w) grant_id org_id of
        None \<Rightarrow> (Inl grant_not_found, w)
      | Some g \<Rightarrow>
        if \<not> revocable (sg_status g) then (Inl (cannot_revoke (sg_status g)), w)
        else
          (let g' = g\<lparr>sg_status := grant_revoked\<rparr>
           in (Inr (to_support_response e g'),
               record_event e (uuids e 0) (support_event SUPPORT_REVOKED actor_user g' actor [])
                 (w\<lparr>w_db := support_grants_save g' (w_db w)\<rparr>))))"

section \<open>The handlers are audited\<close>

lemma load_org_SomeD:
  "load_org db org_id = Inr (org, n) \<Longrightarrow> org \<in> set (organizations db) \<and> o_id org = org_id"
  by (auto simp: load_org_def get_with_user_count_def split: option.splits dest: select_one_SomeD)

lemma set_status_effects:
  assumes "set_status e org_id status actor w = (r, w')"
  shows "audit_extends w w'" and "identity_wf (w_db w) \<Longrightarrow> identity_wf (w_db w')"
  using assms load_org_SomeD[of "w_db w" org_id]
  by (auto simp: set_status_def audit_extends_def Let_def split: sum.splits if_splits
      intro!: organizations_save_wf)

lemma set_legal_hold_effects:
  assumes "set_legal_hold e org_id hold actor w = (r, w')"
  shows "audit_extends w w'" and "identity_wf (w_db w) \<Longrightarrow> identity_wf (w_db w')"
  using assms load_org_SomeD[of "w_db w" org_id]
  by (auto simp: set_legal_hold_def audit_extends_def Let_def split: sum.splits
      intro!: organizations_save_wf)

lemma request_access_effects:
  assumes "request_access e org_id reason actor w = (r, w')"
  shows "audit_extends w w'"
    and "draws_fresh e 1 (w_db w) \<Longrightarrow> identity_wf (w_db w) \<Longrightarrow> identity_wf (w_db w')"
  using assms
  by (auto simp: request_access_def audit_extends_def Let_def draws_fresh_def new_grant_def split: if_splits
      intro!: support_grants_insert_wf)

lemma decide_effects:
  "audit_extends w (snd (platform_revoke e grant_id actor w))"
  "identity_wf (w_db w) \<Longrightarrow> identity_wf (w_db (snd (platform_revoke e grant_id actor w)))"
  "audit_extends w (snd (approve e sn grant_id org_id actor w))"
  "identity_wf (w_db w) \<Longrightarrow> identity_wf (w_db (snd (approve e sn grant_id org_id actor w)))"
  "audit_extends w (snd (deny e sn grant_id org_id actor w))"
  "identity_wf (w_db w) \<Longrightarrow> identity_wf (w_db (snd (deny e sn grant_id org_id actor w)))"
  "audit_extends w (snd (company_revoke e sn grant_id org_id actor w))"
  "identity_wf (w_db w) \<Longrightarrow> identity_wf (w_db (snd (company_revoke e sn grant_id org_id actor w)))"
  by (auto simp: platform_revoke_def approve_def deny_def company_revoke_def audit_extends_def Let_def
      split: option.splits sum.splits intro!: support_grants_save_wf)

interpretation ah_set_status: audited_handler "set_status e org_id status actor" "\<lambda>_. True"
  by unfold_locales (metis prod.collapse set_status_effects(1), metis prod.collapse set_status_effects(2))

interpretation ah_set_legal_hold: audited_handler "set_legal_hold e org_id hold actor" "\<lambda>_. True"
  by unfold_locales (metis prod.collapse set_legal_hold_effects(1), metis prod.collapse set_legal_hold_effects(2))

interpretation ah_request_access: audited_handler "request_access e org_id reason actor" "\<lambda>w. draws_fresh e 1 (w_db w)"
  by unfold_locales (metis prod.collapse request_access_effects(1), metis prod.collapse request_access_effects(2))

interpretation ah_platform_revoke: audited_handler "platform_revoke e grant_id actor" "\<lambda>_. True"
  by unfold_locales (auto intro: decide_effects)

interpretation ah_approve: audited_handler "approve e sn grant_id org_id actor" "\<lambda>_. True"
  by unfold_locales (auto intro: decide_effects)

interpretation ah_deny: audited_handler "deny e sn grant_id org_id actor" "\<lambda>_. True"
  by unfold_locales (auto intro: decide_effects)

interpretation ah_company_revoke: audited_handler "company_revoke e sn grant_id org_id actor" "\<lambda>_. True"
  by unfold_locales (auto intro: decide_effects)

section \<open>Suspension\<close>

lemma suspended_org_refused:
  assumes "identity_wf (w_db w)" and "u \<in> set (users (w_db w))" and "org \<in> set (organizations (w_db w))"
    and "o_id org = u_org_id u" and "o_status org = org_suspended"
  shows "\<not> is_ok (fst (auth_login cr st e (u_email u) pw ip w))"
    and "throttle_login e (u_email u) ip w = Inr () \<Longrightarrow> u_is_active u \<Longrightarrow> verify_password cr pw (u_password_hash u) \<Longrightarrow>
      fst (auth_login cr st e (u_email u) pw ip w)
        = Inl (OrganizationSuspendedError ''Your organization's access is suspended.'')"
    and "t \<in> set (refresh_tokens (w_db w)) \<Longrightarrow> rt_token_hash t = sha256_hexdigest cr raw \<Longrightarrow>
      rt_subject_id t = u_id u \<Longrightarrow> \<not> is_ok (fst (auth_refresh cr st e raw w))"
proof -
  have g: "users_get_by_email Global_Session (w_db w) (u_email u) = Some u"
    using keyed_lookups_unique(2)[OF assms(1,2), of Global_Session] by simp
  have l: "load_loginable_org db (u_org_id u) = Inl (OrganizationSuspendedError ''Your organization's access is suspended.'')"
    if "organizations db = organizations (w_db w)" for db
    using keyed_lookups_unique(1)[OF assms(1,3)] assms(4,5) that
    by (simp add: load_loginable_org_def organizations_get_by_id_def)
  show "\<not> is_ok (fst (auth_login cr st e (u_email u) pw ip w))"
    by (simp add: auth_login_def g l Let_def split: sum.splits)
  show "throttle_login e (u_email u) ip w = Inr () \<Longrightarrow> u_is_active u \<Longrightarrow> verify_password cr pw (u_password_hash u) \<Longrightarrow>
      fst (auth_login cr st e (u_email u) pw ip w)
        = Inl (OrganizationSuspendedError ''Your organization's access is suspended.'')"
    by (simp add: auth_login_def g l Let_def)
  assume t: "t \<in> set (refresh_tokens (w_db w))" "rt_token_hash t = sha256_hexdigest cr raw" "rt_subject_id t = u_id u"
  obtain r db' where c: "consume cr e raw subject_user (w_db w) = (r, db')" by (meson surj_pair)
  note own = refresh_token_owner[OF assms(1,2) t c]
  show "\<not> is_ok (fst (auth_refresh cr st e raw w))"
    using own l[OF consume_keeps(2)[OF c]] by (cases r) (simp_all add: auth_refresh_def c)
qed

text \<open>
  C26: suspending an organization cuts it off at once. Afterwards no access token issued to its users so far
  authenticates, none of its users obtains new tokens by password or refresh token, and a
  user with correct credentials is told 403, which nobody without them ever sees.
\<close>

theorem suspension_cuts_off:
  assumes "pyjwt_contract cr" and "identity_wf (w_db w)"
    and "set_status e g org_suspended actor w = (Inr d, w')"
    and "p_org_id p = Some g" and "now_utc e0 \<le> now_utc e"
    and "u \<in> set (users (w_db w'))" and "u_org_id u = g"
  shows "\<not> is_ok (get_current_principal cr st e' (w_denylist w') (Some (encode_access_token cr st e0 j p ttl aud)))
     \<and> \<not> is_ok (fst (auth_login cr st e' (u_email u) pw ip w'))
     \<and> (\<forall>t \<in> set (refresh_tokens (w_db w')). rt_subject_id t = u_id u \<and> rt_token_hash t = sha256_hexdigest cr raw
          \<longrightarrow> \<not> is_ok (fst (auth_refresh cr st e' raw w')))
     \<and> (throttle_login e' (u_email u) ip w' = Inr () \<longrightarrow>
          ((\<exists>msg. fst (auth_login cr st e' (u_email u) pw ip w') = Inl (OrganizationSuspendedError msg))
           \<longleftrightarrow> u_is_active u \<and> verify_password cr pw (u_password_hash u)))"
proof -
  obtain org n where l: "load_org (w_db w) g = Inr (org, n)"
    using assms(3) by (auto simp: set_status_def split: sum.splits)
  note org = load_org_SomeD[OF l]
  have wf': "identity_wf (w_db w')" using set_status_effects(2)[OF assms(3,2)] .
  have w': "organizations (w_db w') = organizations (organizations_save (org\<lparr>o_status := org_suspended\<rparr>) (w_db w))"
    "w_denylist w' = revoke_org (w_denylist w) (timestamp_int (now_utc e)) g"
    using assms(3) by (auto simp: set_status_def l Let_def)
  have mem: "org\<lparr>o_status := org_suspended\<rparr> \<in> set (organizations (w_db w'))"
    using org by (auto simp: w'(1) organizations_save_def set_update_where)
  have "is_revoked (w_denylist w') (p_subject_id p) (p_org_id p) (Some (timestamp_int (now_utc e0)))"
    unfolding w'(2) assms(4) using assms(5) by (intro dl.org_kills timestamp_int_mono)
  from is_ok_authenticate_revoked[OF assms(1) this]
  have "\<not> is_ok (get_current_principal cr st e' (w_denylist w') (Some (encode_access_token cr st e0 j p ttl aud)))"
    by (simp add: get_current_principal_def)
  moreover have same: "o_id (org\<lparr>o_status := org_suspended\<rparr>) = u_org_id u" using org assms(7) by simp
  note ref = suspended_org_refused[OF wf' assms(6) mem same]
  have "u_is_active u \<and> verify_password cr pw (u_password_hash u)"
    if "throttle_login e' (u_email u) ip w' = Inr ()"
      and "fst (auth_login cr st e' (u_email u) pw ip w') = Inl (OrganizationSuspendedError msg)" for msg
  proof (rule ccontr)
    assume "\<not> ?thesis"
    then have "\<not> credentials_ok cr (w_db w') (u_email u) pw"
      using keyed_lookups_unique(2)[OF wf' assms(6), of Global_Session] by (auto simp: credentials_ok_def)
    from auth_login_rejected[OF that(1) this] that(2) show False by simp
  qed
  ultimately show ?thesis
    using ref(1)[of cr st e' pw ip] ref(2)[of e' ip cr pw st] ref(3)[of _ cr raw st e'] by auto
qed

theorem suspension_cuts_off_witness:
  "\<exists>d w'. set_status (demo_env 50) 7 org_suspended demo_principal (demo_world demo_login_db demo_open_limiter) = (Inr d, w')
     \<and> \<not> is_ok (fst (auth_login demo_crypto demo_settings (demo_env 60) ''a@x'' ''pw'' None w'))"
proof -
  let ?w = "demo_world demo_login_db demo_open_limiter"
  obtain d w' where run: "set_status (demo_env 50) 7 org_suspended demo_principal ?w = (Inr d, w')"
    and u: "users (w_db w') = [demo_user]"
    by (simp add: set_status_def load_org_def get_with_user_count_def demo_world_def demo_login_db_def demo_org_def
        select_one_def Let_def)
  have wf: "identity_wf (w_db ?w)" using demo_login_wf by (simp add: demo_world_def)
  have 1: "p_org_id demo_principal = Some 7" "now_utc (demo_env 40) \<le> now_utc (demo_env 50)"
    "demo_user \<in> set (users (w_db w'))" "u_org_id demo_user = 7"
    by (simp_all add: demo_principal_def demo_env_def u demo_user_def)
  from suspension_cuts_off[OF demo_crypto_contract wf run 1, of demo_settings "demo_env 60" 1 900 COMPANY_AUDIENCE
      "''pw''" None "''raw''"] run
  show ?thesis by (simp add: demo_user_def)
qed

section \<open>Break-glass access as a state machine\<close>

text \<open>
  One step is one support request committed or rolled back by its unit of work; the customer's
  requests run on the tenant session of some organization, whatever organization they name.
\<close>

inductive support_step :: "world \<Rightarrow> world \<Rightarrow> bool" where
  request: "draws_fresh e 1 (w_db w) \<Longrightarrow> support_step w (snd (unit_of_work (request_access e org_id reason actor) w))"
| requester_revokes: "support_step w (snd (unit_of_work (platform_revoke e grant_id actor) w))"
| customer_approves: "support_step w (snd (unit_of_work (approve e (Tenant_Session g) grant_id org_id actor) w))"
| customer_denies: "support_step w (snd (unit_of_work (deny e (Tenant_Session g) grant_id org_id actor) w))"
| customer_revokes: "support_step w (snd (unit_of_work (company_revoke e (Tenant_Session g) grant_id org_id actor) w))"

text \<open>
  The row of the trail that records a customer's approval of a grant; and the invariant: an undecided or
  denied grant has no time box, an approved one has its approval on the trail and expires one window after it.
\<close>

definition approval_of :: "support_grant \<Rightarrow> audit_row \<Rightarrow> bool" where
  "approval_of g row \<longleftrightarrow> al_action row = action_value SUPPORT_APPROVED \<and> al_actor_type row = actor_user
     \<and> al_org_id row = Some (sg_org_id g) \<and> al_entity_id row = Some (sg_id g)
     \<and> al_actor_id row = sg_decided_by_user_id g
     \<and> sg_expires_at g = Some (al_occurred_at row + SUPPORT_ACCESS_WINDOW)"

definition grant_ok :: "audit_row list \<Rightarrow> support_grant \<Rightarrow> bool" where
  "grant_ok rows g \<longleftrightarrow>
     (case sg_status g of
        grant_requested \<Rightarrow> sg_expires_at g = None \<and> sg_decided_at g = None
      | grant_approved \<Rightarrow> (\<exists>row \<in> set rows. approval_of g row)
      | grant_denied \<Rightarrow> sg_expires_at g = None \<and> sg_decided_at g \<noteq> None
      | grant_revoked \<Rightarrow> True)"

definition grants_ok :: "world \<Rightarrow> bool" where
  "grants_ok w \<longleftrightarrow> (\<forall>g \<in> set (support_grants (w_db w)). grant_ok (audit_log (w_db w)) g)"

lemma grant_ok_snoc: "grant_ok rows g \<Longrightarrow> grant_ok (rows @ [r]) g"
  by (auto simp: grant_ok_def split: support_grant_status.splits)

lemma unit_of_work_db:
  "w_db (snd (unit_of_work op w)) = (case fst (op w) of Inl _ \<Rightarrow> w_db w | Inr _ \<Rightarrow> w_db (snd (op w)))"
  by (auto simp: unit_of_work_def split: prod.splits sum.splits)

text \<open>Every decision that commits rewrites one grant the lookup found and appends one row.\<close>

definition decides ::
  "(support_grant \<Rightarrow> support_grant \<Rightarrow> audit_row \<Rightarrow> bool) \<Rightarrow> identity_db \<Rightarrow> identity_db \<Rightarrow> bool" where
  "decides R db db' \<longleftrightarrow> db' = db \<or>
     (\<exists>g g' row. g \<in> set (support_grants db) \<and> sg_id g' = sg_id g \<and> R g g' row
        \<and> db' = audit_insert row (support_grants_save g' db))"

lemma decides_same [simp]: "decides R db db"
  by (simp add: decides_def)

lemma decidesI:
  "g \<in> set (support_grants db) \<Longrightarrow> sg_id g' = sg_id g \<Longrightarrow> R g g' row \<Longrightarrow>
     decides R db (audit_insert row (support_grants_save g' db))"
  by (auto simp: decides_def)

definition approves :: "uuid \<Rightarrow> support_grant \<Rightarrow> support_grant \<Rightarrow> audit_row \<Rightarrow> bool" where
  "approves org_id g g' row \<longleftrightarrow> sg_status g = grant_requested \<and> sg_status g' = grant_approved
     \<and> sg_org_id g = org_id \<and> approval_of g' row"

definition denies :: "support_grant \<Rightarrow> support_grant \<Rightarrow> audit_row \<Rightarrow> bool" where
  "denies g g' row \<longleftrightarrow> sg_status g = grant_requested \<and> sg_status g' = grant_denied
     \<and> sg_expires_at g' = sg_expires_at g \<and> sg_decided_at g' \<noteq> None"

definition revokes :: "support_grant \<Rightarrow> support_grant \<Rightarrow> audit_row \<Rightarrow> bool" where
  "revokes g g' row \<longleftrightarrow> revocable (sg_status g) \<and> sg_status g' = grant_revoked"

lemma get_in_org_SomeD:
  assumes "support_grants_get_in_org sn db i org_id = Some g"
  shows "g \<in> set (support_grants db)" "sg_org_id g = org_id" "sees sn org_id"
  using select_one_SomeD[OF assms[unfolded support_grants_get_in_org_def]] by auto

lemma get_for_requester_SomeD:
  "support_grants_get_for_requester db i a = Some g \<Longrightarrow> g \<in> set (support_grants db)"
  unfolding support_grants_get_for_requester_def by (rule select_one_SomeD(1))

lemma approve_decides:
  "decides (approves org_id) (w_db w) (w_db (snd (unit_of_work (approve e sn grant_id org_id actor) w)))"
proof (cases "load_requested sn (w_db w) grant_id org_id")
  case (Inl err)
  then show ?thesis by (simp add: unit_of_work_db approve_def)
next
  case (Inr g)
  then have "support_grants_get_in_org sn (w_db w) grant_id org_id = Some g" "sg_status g = grant_requested"
    by (auto simp: load_requested_def split: option.splits if_splits)
  with get_in_org_SomeD[OF this(1)] Inr show ?thesis
    by (auto simp: unit_of_work_db approve_def Let_def approves_def approval_of_def build_row_def support_event_def
        audit_event_of_def stamp_decision_def intro!: decidesI[of g])
qed

lemma deny_decides:
  "decides denies (w_db w) (w_db (snd (unit_of_work (deny e sn grant_id org_id actor) w)))"
proof (cases "load_requested sn (w_db w) grant_id org_id")
  case (Inl err)
  then show ?thesis by (simp add: unit_of_work_db deny_def)
next
  case (Inr g)
  then have "support_grants_get_in_org sn (w_db w) grant_id org_id = Some g" "sg_status g = grant_requested"
    by (auto simp: load_requested_def split: option.splits if_splits)
  with get_in_org_SomeD[OF this(1)] Inr show ?thesis
    by (auto simp: unit_of_work_db deny_def Let_def denies_def stamp_decision_def intro!: decidesI[of g])
qed

lemma platform_revoke_decides:
  "decides revokes (w_db w) (w_db (snd (unit_of_work (platform_revoke e grant_id actor) w)))"
  by (cases "support_grants_get_for_requester (w_db w) grant_id (p_subject_id actor)")
     (auto simp: unit_of_work_db platform_revoke_def revokes_def Let_def
       intro!: decidesI dest: get_for_requester_SomeD)

lemma company_revoke_decides:
  "decides revokes (w_db w) (w_db (snd (unit_of_work (company_revoke e sn grant_id org_id actor) w)))"
  by (cases "support_grants_get_in_org sn (w_db w) grant_id org_id")
     (auto simp: unit_of_work_db company_revoke_def revokes_def Let_def
       intro!: decidesI dest: get_in_org_SomeD(1))

lemmas decisions = approve_decides deny_decides platform_revoke_decides company_revoke_decides

text \<open>A decision whose outcome is fine keeps the invariant, and a terminal grant is never rewritten.\<close>

lemma decides_grants_ok:
  assumes "decides R (w_db w) (w_db w')" and "grants_ok w"
    and "\<And>g g' row. R g g' row \<Longrightarrow> grant_ok (audit_log (w_db w)) g \<Longrightarrow> grant_ok (audit_log (w_db w) @ [row]) g'"
  shows "grants_ok w'"
  using assms(1) unfolding decides_def
proof (elim disjE exE conjE)
  assume "w_db w' = w_db w"
  with assms(2) show ?thesis by (simp add: grants_ok_def)
next
  fix g g' row
  assume g: "g \<in> set (support_grants (w_db w))" and R: "R g g' row"
    and db: "w_db w' = audit_insert row (support_grants_save g' (w_db w))"
  have "grant_ok (audit_log (w_db w) @ [row]) x" if "x \<in> set (support_grants (w_db w))" for x
    using that assms(2) by (simp add: grants_ok_def grant_ok_snoc)
  moreover have "grant_ok (audit_log (w_db w) @ [row]) g'"
    using assms(2,3) g R by (simp add: grants_ok_def)
  ultimately show ?thesis by (auto simp: grants_ok_def db support_grants_save_def set_update_where)
qed

lemma decides_keeps_terminal:
  assumes "decides R db db'" and "identity_wf db" and "g \<in> set (support_grants db)" and "\<not> revocable (sg_status g)"
    and "\<And>h h' row. R h h' row \<Longrightarrow> revocable (sg_status h)"
  shows "g \<in> set (support_grants db')"
  using assms(1) unfolding decides_def
proof (elim disjE exE conjE)
  fix h h' row
  assume h: "h \<in> set (support_grants db)" "sg_id h' = sg_id h" "R h h' row"
    and db: "db' = audit_insert row (support_grants_save h' db)"
  have "sg_id g \<noteq> sg_id h'"
    using identity_keys_inj(3)[OF assms(2,3) h(1)] assms(4) assms(5)[OF h(3)] h(2) by auto
  with assms(3) show ?thesis by (simp add: db support_grants_save_def set_update_where)
qed (use assms in simp)

lemma request_access_db:
  "w_db (snd (unit_of_work (request_access e org_id reason actor) w)) = w_db w
   \<or> (\<exists>row. w_db (snd (unit_of_work (request_access e org_id reason actor) w))
        = audit_insert row (support_grants_insert (new_grant e (w_db w) org_id reason actor) (w_db w)))"
  by (auto simp: unit_of_work_db request_access_def Let_def)

lemma support_step_grants_ok: "support_step w w' \<Longrightarrow> grants_ok w \<Longrightarrow> grants_ok w'"
proof (induction rule: support_step.induct)
  case (request e w org_id reason actor)
  have "grant_ok rows (new_grant e (w_db w) org_id reason actor)" for rows
    by (simp add: grant_ok_def new_grant_def)
  then show ?case
    using request_access_db[of e org_id reason actor w] request.prems
    by (auto simp: grants_ok_def support_grants_insert_def grant_ok_snoc)
next
  case (customer_approves w e g grant_id org_id actor)
  show ?case
    by (rule decides_grants_ok[OF approve_decides customer_approves])
       (auto simp: approves_def grant_ok_def)
next
  case (customer_denies w e g grant_id org_id actor)
  show ?case
    by (rule decides_grants_ok[OF deny_decides customer_denies]) (auto simp: denies_def grant_ok_def)
qed (rule decides_grants_ok[OF platform_revoke_decides] decides_grants_ok[OF company_revoke_decides],
     simp, simp add: revokes_def grant_ok_def)+

lemma support_step_wf: "support_step w w' \<Longrightarrow> identity_wf (w_db w) \<Longrightarrow> identity_wf (w_db w')"
  by (induction rule: support_step.induct)
     (blast intro: ah_request_access.unit_of_work_wf ah_platform_revoke.unit_of_work_wf ah_approve.unit_of_work_wf
       ah_deny.unit_of_work_wf ah_company_revoke.unit_of_work_wf)+

lemma support_step_terminal:
  assumes "support_step w w'" and "identity_wf (w_db w)" and "g \<in> set (support_grants (w_db w))" and "\<not> revocable (sg_status g)"
  shows "g \<in> set (support_grants (w_db w'))"
  using assms
proof (induction rule: support_step.induct)
  case (request e w org_id reason actor)
  then show ?case using request_access_db[of e org_id reason actor w] by (auto simp: support_grants_insert_def)
qed (rule decides_keeps_terminal[OF decisions(3)] decides_keeps_terminal[OF decisions(1)]
      decides_keeps_terminal[OF decisions(2)] decides_keeps_terminal[OF decisions(4)],
     assumption, assumption, assumption, simp add: approves_def denies_def revokes_def revocable_def)+

text \<open>
  C23: support access needs the customer's consent. Whatever sequence of support requests has been served since
  there were no grants, a grant that confers access now has an approval on the audit trail, made by a user
  acting for the very organization the grant opens, less than the window of four hours ago.
\<close>

theorem active_grant_has_consent:
  assumes "support_step\<^sup>*\<^sup>* w0 w" and "support_grants (w_db w0) = []"
    and "g \<in> set (support_grants (w_db w))" and "grant_is_active now g"
  shows "\<exists>row \<in> set (audit_log (w_db w)). al_action row = ''support.approved'' \<and> al_actor_type row = actor_user
     \<and> al_org_id row = Some (sg_org_id g) \<and> al_entity_id row = Some (sg_id g)
     \<and> al_actor_id row = sg_decided_by_user_id g
     \<and> now < al_occurred_at row + 4 * 3600 * usec_per_sec"
proof -
  have "grants_ok w"
    using assms(1)
    by (induction rule: rtranclp_induct) (simp_all add: assms(2) grants_ok_def[of w0] support_step_grants_ok)
  then have ok: "grant_ok (audit_log (w_db w)) g" using assms(3) by (simp add: grants_ok_def)
  have "sg_status g = grant_approved" "\<exists>x. sg_expires_at g = Some x \<and> now < x"
    using assms(4) by (auto simp: grant_is_active_def split: if_splits option.splits)
  with ok show ?thesis
    by (auto simp: grant_ok_def approval_of_def SUPPORT_ACCESS_WINDOW_def)
qed

text \<open>
  A denied or revoked grant is final. No sequence of support requests, from either side, changes its row
  again, so it never confers access.
\<close>

theorem terminal_grant_stays:
  assumes "support_step\<^sup>*\<^sup>* w w'" and "identity_wf (w_db w)"
    and "g \<in> set (support_grants (w_db w))" and "sg_status g \<in> {grant_denied, grant_revoked}"
  shows "g \<in> set (support_grants (w_db w')) \<and> \<not> grant_is_active now g
     \<and> (\<forall>h \<in> set (support_grants (w_db w')). sg_id h = sg_id g \<longrightarrow> h = g)"
proof -
  have nr: "\<not> revocable (sg_status g)" using assms(4) by (auto simp: revocable_def)
  have both: "identity_wf (w_db w') \<and> g \<in> set (support_grants (w_db w'))"
    using assms(1)
  proof (induction rule: rtranclp_induct)
    case base
    show ?case using assms(2,3) by blast
  next
    case (step y z)
    then show ?case using support_step_wf support_step_terminal[OF _ _ _ nr] by blast
  qed
  then show ?thesis
    using assms(4) identity_keys_inj(3)[of "w_db w'" _ g] by (auto simp: grant_is_active_def)
qed

definition demo_grant :: "support_grant_status \<Rightarrow> support_grant" where
  "demo_grant s = \<lparr>sg_id = 9, sg_org_id = 7, sg_requested_by_admin_id = 2, sg_requested_by_email = None,
     sg_reason = ''debug'', sg_status = s, sg_decided_at = None, sg_decided_by_user_id = None,
     sg_decided_by_email = None, sg_expires_at = None, sg_created_at = 0\<rparr>"

definition demo_grant_world :: "support_grant_status \<Rightarrow> world" where
  "demo_grant_world s = demo_world (demo_login_db\<lparr>support_grants := [demo_grant s]\<rparr>) demo_open_limiter"

lemma demo_grant_wf: "identity_wf (w_db (demo_grant_world s))"
  using demo_login_wf by (simp add: demo_grant_world_def demo_world_def identity_wf_def)

theorem terminal_grant_stays_witness:
  "demo_grant grant_denied \<in> set (support_grants (w_db (snd (unit_of_work
     (approve (demo_env 50) (Tenant_Session 7) 9 7 demo_principal) (demo_grant_world grant_denied)))))"
proof -
  let ?w' = "snd (unit_of_work (approve (demo_env 50) (Tenant_Session 7) 9 7 demo_principal) (demo_grant_world grant_denied))"
  have "support_step\<^sup>*\<^sup>* (demo_grant_world grant_denied) ?w'" by (blast intro: support_step.intros)
  from terminal_grant_stays[OF this demo_grant_wf, of "demo_grant grant_denied" 0]
  show ?thesis by (simp add: demo_grant_world_def demo_world_def demo_grant_def)
qed

text \<open>A grant requested by the platform at 50 and approved by the customer at 60.\<close>

definition demo_approved_world :: world where
  "demo_approved_world =
     snd (unit_of_work (approve (demo_env 60) (Tenant_Session 7) 1000 7 demo_principal)
       (snd (unit_of_work (request_access (demo_env 50) 7 ''debug'' demo_principal)
          (demo_world demo_login_db demo_open_limiter))))"

lemmas demo_support_simps = unit_of_work_def approve_def request_access_def demo_world_def demo_login_db_def
  demo_org_def demo_user_def demo_principal_def demo_env_def organizations_get_by_id_def select_one_def new_grant_def
  support_grants_insert_def support_grants_save_def record_event_def audit_insert_def load_requested_def
  support_grants_get_in_org_def stamp_decision_def platform_admins_get_by_id_def users_get_by_subject_id_def
  SUPPORT_ACCESS_WINDOW_def Let_def

theorem active_grant_has_consent_witness:
  "\<exists>g row. g \<in> set (support_grants (w_db demo_approved_world)) \<and> grant_is_active 70 g
     \<and> row \<in> set (audit_log (w_db demo_approved_world)) \<and> al_action row = ''support.approved''"
proof -
  let ?w = "demo_world demo_login_db demo_open_limiter"
  have fresh: "draws_fresh (demo_env 50) 1 (w_db ?w)"
    by (simp add: draws_fresh_def demo_env_def fresh_id_def demo_world_def demo_login_db_def demo_org_def demo_user_def)
  have reach: "support_step\<^sup>*\<^sup>* ?w demo_approved_world"
    unfolding demo_approved_world_def
    by (meson fresh support_step.intros rtranclp.rtrancl_into_rtrancl rtranclp.rtrancl_refl)
  obtain g where g: "g \<in> set (support_grants (w_db demo_approved_world))" "grant_is_active 70 g"
    by (simp add: demo_approved_world_def demo_support_simps grant_is_active_def)
  from active_grant_has_consent[OF reach _ g] g show ?thesis
    by (auto simp: demo_world_def demo_login_db_def)
qed

end
