(* ===== verification/Address_Rules.thy ===== *)
theory Address_Rules
  imports Py_Strings
begin

text \<open>
  The deterministic address rules of the entity graph: \<open>entities/services/email_normalizer.py\<close> and
  \<open>entities/services/address_rules.py\<close>. The public-suffix lookup of the \<open>tldextract\<close> package is an argument (\<open>psl\<close>): the
  registrable domain of a host, empty where it has none.
\<close>

section \<open>Normalization\<close>

definition normalize_email :: "string \<Rightarrow> string" where
  "normalize_email raw_address = py_lower (py_strip (py_strip_chars (py_strip raw_address) ''<>''))"

definition extract_domain :: "string \<Rightarrow> string option" where
  "extract_domain normalized_address =
     (case py_rsplit1 CHR ''@'' normalized_address of
        None \<Rightarrow> None
      | Some (_, host) \<Rightarrow> let domain = py_strip host in if domain = [] then None else Some domain)"

section \<open>The word lists\<close>

definition ROLE_WORDS_BROAD :: "string list" where
  "ROLE_WORDS_BROAD =
     [''info'', ''contact'', ''kontakt'', ''hello'', ''hallo'', ''office'', ''mail'', ''email'', ''team'',
      ''admin'', ''administrator'', ''webmaster'', ''postmaster'', ''hostmaster'', ''root'', ''system'',
      ''sales'', ''vertrieb'', ''marketing'', ''news'', ''presse'', ''press'',
      ''support'', ''service'', ''help'', ''helpdesk'', ''feedback'', ''kundenservice'',
      ''billing'', ''accounts'', ''accounting'', ''buchhaltung'', ''rechnung'', ''rechnungen'', ''finance'',
      ''hr'', ''jobs'', ''job'', ''career'', ''careers'', ''karriere'', ''bewerbung'', ''recruiting'',
      ''datenschutz'', ''privacy'', ''legal'', ''compliance'', ''abuse'', ''security'',
      ''auto'',
      ''empfang'', ''sekretariat'', ''reception'', ''anfrage'', ''anfragen'']"

definition AUTOMATION_TOKENS :: "string list" where
  "AUTOMATION_TOKENS =
     [''noreply'', ''donotreply'', ''mailerdaemon'', ''bounce'', ''bounces'',
      ''notifications'', ''notification'', ''notify'', ''automated'', ''daemon'', ''mailer'',
      ''delivery'', ''newsletter'']"

definition ROLE_TOKEN_SEQUENCES :: "string list list" where
  "ROLE_TOKEN_SEQUENCES = [[''no'', ''reply''], [''do'', ''not'', ''reply''], [''mailer'', ''daemon'']]"

definition GENERIC_DOMAINS :: "string list" where
  "GENERIC_DOMAINS =
     [''gmail.com'', ''googlemail.com'',
      ''outlook.com'', ''outlook.de'', ''hotmail.com'', ''hotmail.de'', ''hotmail.co.uk'',
      ''live.com'', ''live.de'', ''msn.com'',
      ''yahoo.com'', ''yahoo.de'', ''yahoo.co.uk'', ''ymail.com'', ''rocketmail.com'',
      ''icloud.com'', ''me.com'', ''mac.com'',
      ''aol.com'', ''aol.de'',
      ''proton.me'', ''protonmail.com'', ''pm.me'',
      ''gmx.de'', ''gmx.net'', ''gmx.com'', ''gmx.at'', ''gmx.ch'',
      ''web.de'', ''t-online.de'', ''freenet.de'', ''arcor.de'', ''online.de'',
      ''mail.com'', ''email.com'', ''mail.ru'', ''yandex.com'', ''yandex.ru'',
      ''zoho.com'', ''fastmail.com'', ''hey.com'', ''posteo.de'', ''mailbox.org'', ''tutanota.com'',
      ''bluewin.ch'', ''sunrise.ch'', ''hispeed.ch'', ''gmx.li'',
      ''a1.net'', ''aon.at'', ''chello.at'', ''magenta.at'', ''kabsi.at'',
      ''abv.bg'', ''mail.bg'', ''dir.bg'', ''inbox.bg'', ''gbg.bg'', ''mail.orbitel.bg'']"

section \<open>Role mailboxes\<close>

definition tokenize :: "string \<Rightarrow> string \<Rightarrow> string list" where
  "tokenize localpart separators = filter (\<lambda>t. t \<noteq> []) (split_where (\<lambda>c. c \<in> set separators) localpart)"

text \<open>The two loops: run lengths 2 and 3, every start index of the range.\<close>

definition has_role_token_sequence :: "string list \<Rightarrow> bool" where
  "has_role_token_sequence tokens =
     list_ex (\<lambda>size. list_ex (\<lambda>start. take size (drop start tokens) \<in> set ROLE_TOKEN_SEQUENCES)
                [0..<length tokens + 1 - size]) [2, 3]"

definition is_role_address :: "string \<Rightarrow> bool" where
  "is_role_address normalized_address =
     (case py_rsplit1 CHR ''@'' normalized_address of
        None \<Rightarrow> False
      | Some (l, _) \<Rightarrow>
        (let localpart = py_lower l
         in if localpart \<in> set ROLE_WORDS_BROAD \<or> localpart \<in> set AUTOMATION_TOKENS then True
            else
              (let full_tokens = tokenize localpart ''-_.+''
               in if list_ex (\<lambda>t. t \<in> set AUTOMATION_TOKENS) full_tokens then True
                  else
                    (let name_safe_tokens = tokenize localpart ''-_+''
                     in if list_ex (\<lambda>t. t \<in> set ROLE_WORDS_BROAD) name_safe_tokens then True
                        else has_role_token_sequence full_tokens))))"

section \<open>Domains\<close>

definition is_generic_email_domain :: "string \<Rightarrow> bool" where
  "is_generic_email_domain domain \<longleftrightarrow> py_lower (py_strip domain) \<in> set GENERIC_DOMAINS"

definition is_punycode_domain :: "string \<Rightarrow> bool" where
  "is_punycode_domain domain =
     list_ex (\<lambda>label. prefix ''xn--'' label) (split_where (\<lambda>c. c = CHR ''.'') (py_lower (py_strip domain)))"

definition is_suspicious_idn_domain :: "string \<Rightarrow> bool" where
  "is_suspicious_idn_domain domain =
     (let cleaned = py_lower (py_strip domain) in is_punycode_domain cleaned \<or> \<not> py_isascii cleaned)"

definition fold_to_registrable_domain :: "(string \<Rightarrow> string) \<Rightarrow> string \<Rightarrow> string" where
  "fold_to_registrable_domain psl domain =
     (let cleaned = py_lower (py_strip domain); registrable = psl cleaned
      in if registrable = [] then cleaned else registrable)"

section \<open>What the rules guarantee\<close>

lemma has_role_token_sequence_iff:
  "has_role_token_sequence tokens \<longleftrightarrow> (\<exists>xs ys zs. tokens = xs @ ys @ zs \<and> ys \<in> set ROLE_TOKEN_SEQUENCES)"
proof
  assume "has_role_token_sequence tokens"
  then obtain n i where "take n (drop i tokens) \<in> set ROLE_TOKEN_SEQUENCES"
    by (auto simp: has_role_token_sequence_def list_ex_iff)
  then show "\<exists>xs ys zs. tokens = xs @ ys @ zs \<and> ys \<in> set ROLE_TOKEN_SEQUENCES"
    by (metis append_take_drop_id)
next
  assume "\<exists>xs ys zs. tokens = xs @ ys @ zs \<and> ys \<in> set ROLE_TOKEN_SEQUENCES"
  then obtain xs ys zs where t: "tokens = xs @ ys @ zs" and ys: "ys \<in> set ROLE_TOKEN_SEQUENCES" by blast
  then have "length ys \<in> {2, 3}" by (auto simp: ROLE_TOKEN_SEQUENCES_def)
  moreover have "take (length ys) (drop (length xs) tokens) = ys" using t by simp
  moreover have "length xs \<in> set [0..<length tokens + 1 - length ys]" using t by auto
  ultimately show "has_role_token_sequence tokens"
    using ys unfolding has_role_token_sequence_def list_ex_iff
    by (intro bexI[of _ "length ys"] bexI[of _ "length xs"]) auto
qed

text \<open>
  What makes a mailbox a role mailbox. The four tests of the code decide exactly this: the address has a local part
  before its last \<open>@\<close>, and in lower case it is one of the role or automation words, or one of its pieces between \<open>-\<close>,
  \<open>_\<close>, \<open>.\<close> and \<open>+\<close> is an automation word, or one of its pieces between \<open>-\<close>, \<open>_\<close> and \<open>+\<close> only is a role word (so
  \<open>anna.service\<close> stays a person), or its pieces contain an automation phrase in a row.
\<close>

theorem role_address_iff:
  "is_role_address a \<longleftrightarrow>
     (\<exists>l d. a = l @ CHR ''@'' # d \<and> CHR ''@'' \<notin> set d
        \<and> (let p = py_lower l; full = tokenize p ''-_.+'' in
             p \<in> set ROLE_WORDS_BROAD \<or> p \<in> set AUTOMATION_TOKENS
             \<or> (\<exists>t. t \<in> set full \<and> t \<in> set AUTOMATION_TOKENS)
             \<or> (\<exists>t. t \<in> set (tokenize p ''-_+'') \<and> t \<in> set ROLE_WORDS_BROAD)
             \<or> (\<exists>xs ys zs. full = xs @ ys @ zs \<and> ys \<in> set ROLE_TOKEN_SEQUENCES)))"
proof (cases "py_rsplit1 CHR ''@'' a")
  case None
  moreover have "CHR ''@'' \<notin> set a" using None py_rsplit1_None_iff by metis
  ultimately show ?thesis by (auto simp: is_role_address_def)
next
  case (Some p)
  obtain l d where p: "p = (l, d)" by (cases p)
  have u: "a = l' @ CHR ''@'' # d' \<and> CHR ''@'' \<notin> set d' \<longleftrightarrow> l' = l \<and> d' = d" for l' d'
    using Some unfolding p by (metis option.inject prod.inject py_rsplit1_Some)
  have "is_role_address a \<longleftrightarrow> (let p = py_lower l; full = tokenize p ''-_.+'' in
             p \<in> set ROLE_WORDS_BROAD \<or> p \<in> set AUTOMATION_TOKENS
             \<or> (\<exists>t. t \<in> set full \<and> t \<in> set AUTOMATION_TOKENS)
             \<or> (\<exists>t. t \<in> set (tokenize p ''-_+'') \<and> t \<in> set ROLE_WORDS_BROAD)
             \<or> (\<exists>xs ys zs. full = xs @ ys @ zs \<and> ys \<in> set ROLE_TOKEN_SEQUENCES))"
    unfolding is_role_address_def Some p Let_def list_ex_iff has_role_token_sequence_iff by (simp add: Bex_def) blast
  moreover have "(\<exists>l' d'. a = l' @ CHR ''@'' # d' \<and> CHR ''@'' \<notin> set d' \<and> Q l') \<longleftrightarrow> Q l" for Q
    using u by blast
  ultimately show ?thesis by presburger
qed

text \<open>Case, surrounding blanks and the host do not matter.\<close>

lemma normalize_email_lower: "normalize_email (py_lower s) = normalize_email s"
proof -
  have w: "strip_where P (map lower_char t) = map lower_char (strip_where P t)" if "\<And>c. P (lower_char c) = P c" for P t
  proof -
    have "dropWhile P (map lower_char u) = map lower_char (dropWhile P u)" for u
      by (induction u) (simp_all add: that)
    then show ?thesis by (simp add: strip_where_def rev_map)
  qed
  have 1: "py_strip (py_lower t) = py_lower (py_strip t)" for t
    unfolding py_strip_def py_lower_def by (rule w) simp
  have 2: "py_strip_chars (py_lower t) ''<>'' = py_lower (py_strip_chars t ''<>'')" for t
    unfolding py_strip_chars_def py_lower_def by (rule w) auto
  show ?thesis by (simp add: normalize_email_def 1 2)
qed

lemma normalize_email_stripped: "normalize_email (py_strip s) = normalize_email s"
  by (simp add: normalize_email_def py_strip_def)

lemma normalize_email_is_lower: "py_lower (normalize_email s) = normalize_email s"
  by (simp add: normalize_email_def)

text \<open>A folded company key is never empty and never depends on case or blanks.\<close>

lemma fold_nonempty: "py_strip d \<noteq> [] \<Longrightarrow> fold_to_registrable_domain psl d \<noteq> []"
  by (simp add: fold_to_registrable_domain_def Let_def)

end
