(* ===== verification/Resolution_Cache.thy ===== *)
theory Resolution_Cache
  imports Prelude_OneAI
begin

text \<open>
  The per-run memo of the entity resolver (\<open>entities/services/resolution_cache.py\<close>): entries are staged in the open
  transaction, tagged with the savepoint depth, confirmed by the commit and forgotten by a rollback. Shown: whatever
  sequence of writes, savepoints, commits and rollbacks the session goes through, the cache never
  claims a fact that the database, as this session sees it, does not hold.
\<close>

section \<open>The cache\<close>

datatype cache_key =
    Key_person uuid string
  | Key_company uuid string
  | Key_named uuid uuid
  | Key_alias uuid uuid string
  | Key_host uuid uuid string
  | Key_link uuid uuid uuid
  | Key_seen uuid uuid

datatype cache_value = Val_id uuid | Val_true | Val_window datetime datetime

record resolution_cache =
  rc_confirmed :: "cache_key \<rightharpoonup> cache_value"
  rc_staged :: "cache_key \<rightharpoonup> cache_value \<times> nat"
  rc_depth :: nat

definition new_cache :: resolution_cache where
  "new_cache = \<lparr>rc_confirmed = Map.empty, rc_staged = Map.empty, rc_depth = 0\<rparr>"

definition stage :: "cache_key \<Rightarrow> cache_value \<Rightarrow> resolution_cache \<Rightarrow> resolution_cache" where
  "stage k v c = c\<lparr>rc_staged := (rc_staged c)(k \<mapsto> (v, rc_depth c))\<rparr>"

definition cache_lookup :: "resolution_cache \<Rightarrow> cache_key \<Rightarrow> cache_value option" where
  "cache_lookup c k = (case rc_staged c k of Some (v, _) \<Rightarrow> Some v | None \<Rightarrow> rc_confirmed c k)"

definition track_savepoint_open :: "resolution_cache \<Rightarrow> resolution_cache" where
  "track_savepoint_open c = c\<lparr>rc_depth := rc_depth c + 1\<rparr>"

definition track_savepoint_close :: "resolution_cache \<Rightarrow> resolution_cache" where
  "track_savepoint_close c = (if rc_depth c > 0 then c\<lparr>rc_depth := rc_depth c - 1\<rparr> else c)"

definition promote_staged :: "resolution_cache \<Rightarrow> resolution_cache" where
  "promote_staged c =
     (if rc_depth c \<noteq> 0 then c
      else c\<lparr>rc_confirmed := rc_confirmed c ++ (\<lambda>k. map_option fst (rc_staged c k)), rc_staged := Map.empty\<rparr>)"

definition discard_staged :: "resolution_cache \<Rightarrow> resolution_cache" where
  "discard_staged c =
     (if rc_depth c = 0 then c\<lparr>rc_staged := Map.empty\<rparr>
      else c\<lparr>rc_staged := (\<lambda>k. case rc_staged c k of
               Some (v, tag) \<Rightarrow> if tag \<ge> rc_depth c then None else Some (v, tag)
             | None \<Rightarrow> None)\<rparr>)"

subsection \<open>The tiers\<close>

fun id_of :: "cache_value option \<Rightarrow> uuid option" where
  "id_of (Some (Val_id i)) = Some i"
| "id_of _ = None"

lemma id_of_Some: "id_of x = Some i \<longleftrightarrow> x = Some (Val_id i)"
  by (cases x rule: id_of.cases) auto

definition cache_person_id :: "resolution_cache \<Rightarrow> uuid \<Rightarrow> string \<Rightarrow> uuid option" where
  "cache_person_id c org_id email = id_of (cache_lookup c (Key_person org_id email))"

definition stage_person :: "uuid \<Rightarrow> string \<Rightarrow> uuid \<Rightarrow> resolution_cache \<Rightarrow> resolution_cache" where
  "stage_person org_id email person_id = stage (Key_person org_id email) (Val_id person_id)"

definition cache_company_id :: "resolution_cache \<Rightarrow> uuid \<Rightarrow> string \<Rightarrow> uuid option" where
  "cache_company_id c org_id key = id_of (cache_lookup c (Key_company org_id key))"

definition stage_company :: "uuid \<Rightarrow> string \<Rightarrow> uuid \<Rightarrow> resolution_cache \<Rightarrow> resolution_cache" where
  "stage_company org_id key company_id = stage (Key_company org_id key) (Val_id company_id)"

definition has_person_name :: "resolution_cache \<Rightarrow> uuid \<Rightarrow> uuid \<Rightarrow> bool" where
  "has_person_name c org_id person_id \<longleftrightarrow> cache_lookup c (Key_named org_id person_id) = Some Val_true"

definition stage_person_name :: "uuid \<Rightarrow> uuid \<Rightarrow> resolution_cache \<Rightarrow> resolution_cache" where
  "stage_person_name org_id person_id = stage (Key_named org_id person_id) Val_true"

definition has_alias :: "resolution_cache \<Rightarrow> uuid \<Rightarrow> uuid \<Rightarrow> string \<Rightarrow> bool" where
  "has_alias c org_id person_id a \<longleftrightarrow> cache_lookup c (Key_alias org_id person_id a) = Some Val_true"

definition stage_alias :: "uuid \<Rightarrow> uuid \<Rightarrow> string \<Rightarrow> resolution_cache \<Rightarrow> resolution_cache" where
  "stage_alias org_id person_id a = stage (Key_alias org_id person_id a) Val_true"

definition has_company_host :: "resolution_cache \<Rightarrow> uuid \<Rightarrow> uuid \<Rightarrow> string \<Rightarrow> bool" where
  "has_company_host c org_id company_id host \<longleftrightarrow> cache_lookup c (Key_host org_id company_id host) = Some Val_true"

definition stage_company_host :: "uuid \<Rightarrow> uuid \<Rightarrow> string \<Rightarrow> resolution_cache \<Rightarrow> resolution_cache" where
  "stage_company_host org_id company_id host = stage (Key_host org_id company_id host) Val_true"

definition has_person_company_link :: "resolution_cache \<Rightarrow> uuid \<Rightarrow> uuid \<Rightarrow> uuid \<Rightarrow> bool" where
  "has_person_company_link c org_id person_id company_id \<longleftrightarrow>
     cache_lookup c (Key_link org_id person_id company_id) = Some Val_true"

definition stage_person_company_link :: "uuid \<Rightarrow> uuid \<Rightarrow> uuid \<Rightarrow> resolution_cache \<Rightarrow> resolution_cache" where
  "stage_person_company_link org_id person_id company_id = stage (Key_link org_id person_id company_id) Val_true"

definition seen_window_covers :: "resolution_cache \<Rightarrow> uuid \<Rightarrow> uuid \<Rightarrow> datetime \<Rightarrow> bool" where
  "seen_window_covers c org_id person_id seen_at =
     (case cache_lookup c (Key_seen org_id person_id) of
        Some (Val_window low high) \<Rightarrow> low \<le> seen_at \<and> seen_at \<le> high
      | _ \<Rightarrow> False)"

definition stage_seen_window :: "uuid \<Rightarrow> uuid \<Rightarrow> datetime \<Rightarrow> resolution_cache \<Rightarrow> resolution_cache" where
  "stage_seen_window org_id person_id seen_at c =
     (case cache_lookup c (Key_seen org_id person_id) of
        Some (Val_window low high) \<Rightarrow> stage (Key_seen org_id person_id) (Val_window (min low seen_at) (max high seen_at)) c
      | _ \<Rightarrow> stage (Key_seen org_id person_id) (Val_window seen_at seen_at) c)"

section \<open>Soundness of one state\<close>

text \<open>\<open>holds k v\<close>: the database holds what the entry claims. Both tiers must be true, since a rollback uncovers the lower one.\<close>

definition cache_sound :: "(cache_key \<Rightarrow> cache_value \<Rightarrow> bool) \<Rightarrow> resolution_cache \<Rightarrow> bool" where
  "cache_sound holds c \<longleftrightarrow>
     (\<forall>k v t. rc_staged c k = Some (v, t) \<longrightarrow> holds k v) \<and> (\<forall>k v. rc_confirmed c k = Some v \<longrightarrow> holds k v)"

lemma cache_sound_lookup: "cache_sound holds c \<Longrightarrow> cache_lookup c k = Some v \<Longrightarrow> holds k v"
  by (auto simp: cache_sound_def cache_lookup_def split: option.splits)

lemma cache_sound_stage: "cache_sound holds c \<Longrightarrow> holds k v \<Longrightarrow> cache_sound holds (stage k v c)"
  by (auto simp: cache_sound_def stage_def)

lemma cache_sound_mono: "cache_sound holds c \<Longrightarrow> (\<And>k v. holds k v \<Longrightarrow> holds' k v) \<Longrightarrow> cache_sound holds' c"
  by (auto simp: cache_sound_def)

lemma cache_sound_events [simp]:
  "cache_sound holds (track_savepoint_open c) \<longleftrightarrow> cache_sound holds c"
  "cache_sound holds (track_savepoint_close c) \<longleftrightarrow> cache_sound holds c"
  by (simp_all add: cache_sound_def track_savepoint_open_def track_savepoint_close_def)

lemma cache_sound_discard: "cache_sound holds c \<Longrightarrow> cache_sound holds (discard_staged c)"
  by (auto simp: cache_sound_def discard_staged_def split: option.splits if_splits)

lemma cache_sound_promote: "cache_sound holds c \<Longrightarrow> cache_sound holds (promote_staged c)"
  by (auto simp: cache_sound_def promote_staged_def map_add_def split: option.splits)

lemma cache_sound_new: "cache_sound holds new_cache"
  by (simp add: cache_sound_def new_cache_def)

text \<open>\<open>staged_above d c c'\<close>: from \<open>c\<close> to \<open>c'\<close> entries were only staged, at depth \<open>d\<close> or deeper, or forgotten.\<close>

definition staged_above :: "nat \<Rightarrow> resolution_cache \<Rightarrow> resolution_cache \<Rightarrow> bool" where
  "staged_above d c c' \<longleftrightarrow> rc_confirmed c' = rc_confirmed c \<and> rc_depth c' = rc_depth c
     \<and> (\<forall>k v t. rc_staged c' k = Some (v, t) \<longrightarrow> rc_staged c k = Some (v, t) \<or> d \<le> t)"

lemma staged_above_refl [simp]: "staged_above d c c"
  by (simp add: staged_above_def)

lemma staged_above_trans: "staged_above d c c' \<Longrightarrow> staged_above d c' c'' \<Longrightarrow> staged_above d c c''"
  by (simp add: staged_above_def) blast

lemma staged_above_stage: "staged_above d c c' \<Longrightarrow> d \<le> rc_depth c \<Longrightarrow> staged_above d c (stage k v c')"
  by (auto simp: staged_above_def stage_def)

text \<open>A rollback to the savepoint forgets everything staged inside it: what is left was true when it was opened.\<close>

lemma rollback_sound:
  assumes "cache_sound holds c" and "staged_above (Suc (rc_depth c)) (track_savepoint_open c) c'"
  shows "cache_sound holds (track_savepoint_close (discard_staged c'))"
  using assms unfolding cache_sound_events
  by (fastforce simp: cache_sound_def staged_above_def discard_staged_def track_savepoint_open_def
      split: option.splits if_splits)

section \<open>The session's life\<close>

text \<open>
  A session: what its transaction sees now, what is committed, and what it saw when each open savepoint was opened,
  innermost first. Writes only add facts; SQLAlchemy fires the commit and rollback events of a
  savepoint while it is still open and its close afterwards.
\<close>

record cached_session =
  cse_cache :: resolution_cache
  cse_facts :: "(cache_key \<times> cache_value) set"
  cse_savepoints :: "(cache_key \<times> cache_value) set list"
  cse_committed :: "(cache_key \<times> cache_value) set"

inductive cache_step :: "cached_session \<Rightarrow> cached_session \<Rightarrow> bool" where
  add_facts: "cse_facts s \<subseteq> F \<Longrightarrow> cache_step s (s\<lparr>cse_facts := F\<rparr>)"
| remember: "(k, v) \<in> cse_facts s \<Longrightarrow> cache_step s (s\<lparr>cse_cache := stage k v (cse_cache s)\<rparr>)"
| begin_nested: "cache_step s (s\<lparr>cse_cache := track_savepoint_open (cse_cache s),
      cse_savepoints := cse_facts s # cse_savepoints s\<rparr>)"
| release: "cse_savepoints s = F # Fs \<Longrightarrow>
    cache_step s (s\<lparr>cse_cache := track_savepoint_close (promote_staged (cse_cache s)), cse_savepoints := Fs\<rparr>)"
| rollback_to: "cse_savepoints s = F # Fs \<Longrightarrow>
    cache_step s (s\<lparr>cse_cache := track_savepoint_close (discard_staged (cse_cache s)), cse_facts := F, cse_savepoints := Fs\<rparr>)"
| commit: "cse_savepoints s = [] \<Longrightarrow>
    cache_step s (s\<lparr>cse_cache := promote_staged (cse_cache s), cse_committed := cse_facts s\<rparr>)"
| rollback: "cse_savepoints s = [] \<Longrightarrow>
    cache_step s (s\<lparr>cse_cache := discard_staged (cse_cache s), cse_facts := cse_committed s\<rparr>)"

text \<open>An entry tagged \<open>t\<close> is true now and was true when every savepoint deeper than \<open>t\<close> was opened.\<close>

definition cache_inv :: "cached_session \<Rightarrow> bool" where
  "cache_inv s \<longleftrightarrow>
     (let c = cse_cache s; sp = cse_savepoints s in
      rc_depth c = length sp
      \<and> sorted_wrt (\<lambda>A B. B \<subseteq> A) (cse_facts s # sp @ [cse_committed s])
      \<and> (\<forall>k v. rc_confirmed c k = Some v \<longrightarrow> (k, v) \<in> cse_committed s)
      \<and> (\<forall>k v t. rc_staged c k = Some (v, t) \<longrightarrow>
           (\<forall>F \<in> set (cse_facts s # take (length sp - t) sp). (k, v) \<in> F)))"

definition new_session :: "(cache_key \<times> cache_value) set \<Rightarrow> cached_session" where
  "new_session F = \<lparr>cse_cache = new_cache, cse_facts = F, cse_savepoints = [], cse_committed = F\<rparr>"

lemma cache_step_inv:
  assumes "cache_step s s'" and "cache_inv s"
  shows "cache_inv s'"
  using assms
proof (cases rule: cache_step.cases)
  case (add_facts F)
  then show ?thesis using assms(2) by (fastforce simp: cache_inv_def Let_def)
next
  case (remember k v)
  then show ?thesis using assms(2) by (auto simp: cache_inv_def Let_def stage_def)
next
  case begin_nested
  then show ?thesis
    using assms(2) by (auto simp: cache_inv_def Let_def track_savepoint_open_def Suc_diff_le take_Suc_Cons not_le take_Cons'
        split: if_splits)
next
  case (release F Fs)
  have sub: "A \<in> set (take (length Fs - t) Fs) \<Longrightarrow> A \<in> set (take (Suc (length Fs) - t) (F # Fs))" for A t
    by (cases "t \<le> length Fs") (auto simp: Suc_diff_le)
  have c: "track_savepoint_close (promote_staged (cse_cache s)) = (cse_cache s)\<lparr>rc_depth := length Fs\<rparr>"
    using release(2) assms(2) by (simp add: cache_inv_def Let_def track_savepoint_close_def promote_staged_def)
  show ?thesis
    using assms(2) unfolding cache_inv_def Let_def release(1)
    by (simp add: c release(2)) (blast intro: sub)
next
  case (rollback_to F Fs)
  then show ?thesis
    using assms(2)
    by (auto simp: cache_inv_def Let_def track_savepoint_close_def discard_staged_def Suc_diff_le not_le less_Suc_eq_le
        split: option.splits if_splits)
next
  case commit
  then show ?thesis
    using assms(2) by (fastforce simp: cache_inv_def Let_def promote_staged_def map_add_def split: option.splits)
next
  case rollback
  then show ?thesis using assms(2) by (auto simp: cache_inv_def Let_def discard_staged_def)
qed

text \<open>
  The memo is never stale. Along every sequence of writes, staged entries, savepoints opened, released or
  rolled back, commits and transaction rollbacks, an entry the cache returns is a fact the database holds as the session sees it.
\<close>

theorem cache_never_stale:
  assumes "cache_step\<^sup>*\<^sup>* (new_session F) s" and "cache_lookup (cse_cache s) k = Some v"
  shows "(k, v) \<in> cse_facts s"
proof -
  have "cache_inv s"
    using assms(1)
  proof (induction rule: rtranclp_induct)
    case base
    then show ?case by (simp add: cache_inv_def new_session_def new_cache_def)
  next
    case (step s s')
    then show ?case using cache_step_inv by blast
  qed
  then show ?thesis
    using assms(2) by (fastforce simp: cache_inv_def Let_def cache_lookup_def split: option.splits)
qed

text \<open>A person remembered inside a savepoint is forgotten when it is rolled back.\<close>

definition demo_cached :: cached_session where
  "demo_cached = (let k = Key_person 7 ''a@x''; s = (new_session {})\<lparr>cse_cache := track_savepoint_open new_cache,
     cse_savepoints := [{}]\<rparr> in s\<lparr>cse_facts := {(k, Val_id 1)}, cse_cache := stage k (Val_id 1) (cse_cache s)\<rparr>)"

lemma demo_cached_reachable: "cache_step\<^sup>*\<^sup>* (new_session {}) demo_cached"
proof -
  let ?k = "Key_person 7 ''a@x''"
  let ?s1 = "(new_session {})\<lparr>cse_cache := track_savepoint_open new_cache, cse_savepoints := [{}]\<rparr>"
  let ?s2 = "?s1\<lparr>cse_facts := {(?k, Val_id 1)}\<rparr>"
  have "cache_step (new_session {}) ?s1"
    using cache_step.begin_nested[of "new_session {}"] by (simp add: new_session_def)
  moreover have "cache_step ?s1 ?s2" by (rule cache_step.add_facts) (simp add: new_session_def)
  moreover have "cache_step ?s2 demo_cached"
    using cache_step.remember[of ?k "Val_id 1" ?s2] by (simp add: demo_cached_def new_session_def Let_def)
  ultimately show ?thesis by (meson rtranclp.rtrancl_into_rtrancl rtranclp.rtrancl_refl)
qed

theorem cache_never_stale_witness:
  "cache_person_id (cse_cache demo_cached) 7 ''a@x'' = Some 1
   \<and> (Key_person 7 ''a@x'', Val_id 1) \<in> cse_facts demo_cached"
  using cache_never_stale[OF demo_cached_reachable, of "Key_person 7 ''a@x''" "Val_id 1"]
  by (simp add: demo_cached_def cache_lookup_def cache_person_id_def stage_def new_session_def new_cache_def
      track_savepoint_open_def Let_def)

end
