(* ===== verification/Entity_Resolver.thy ===== *)
theory Entity_Resolver
  imports Address_Rules Resolution_Cache
begin

text \<open>
  The shared entity graph: its tables (\<open>entities/models\<close>), their repositories (\<open>entities/repositories\<close>) and the
  resolver that turns the participants of an email into people and companies (\<open>entities/services/entity_resolver.py\<close>). Every
  insert checks the primary key, the unique constraint and the foreign keys the schema declares. Other sessions may commit
  rows between the resolver's look-up and its insert (argument \<open>rival\<close>).
\<close>

section \<open>Tables\<close>

record person =
  pe_id :: uuid
  pe_org_id :: uuid
  pe_display_name :: "string option"
  pe_is_internal :: bool
  pe_first_seen_at :: "datetime option"
  pe_last_seen_at :: "datetime option"
  pe_created_at :: datetime

record person_email =
  pm_org_id :: uuid
  pm_person_id :: uuid
  pm_email :: string
  pm_source :: "string option"

record person_alias =
  pa_org_id :: uuid
  pa_person_id :: uuid
  pa_alias :: string
  pa_source :: "string option"

record company =
  co_id :: uuid
  co_org_id :: uuid
  co_name :: "string option"
  co_is_internal :: bool
  co_created_at :: datetime

record company_domain =
  cd_org_id :: uuid
  cd_company_id :: uuid
  cd_domain :: string
  cd_source :: "string option"

record person_company =
  pc_org_id :: uuid
  pc_person_id :: uuid
  pc_company_id :: uuid

record entity_db =
  people :: "person list"
  person_emails :: "person_email list"
  person_aliases :: "person_alias list"
  companies :: "company list"
  company_domains :: "company_domain list"
  person_companies :: "person_company list"

section \<open>Repositories\<close>

text \<open>A flush that a constraint refuses (\<open>IntegrityError\<close>) is \<open>None\<close>.\<close>

definition person_fk_ok :: "entity_db \<Rightarrow> uuid \<Rightarrow> uuid \<Rightarrow> bool" where
  "person_fk_ok db org_id person_id \<longleftrightarrow> (\<exists>p \<in> set (people db). pe_id p = person_id \<and> pe_org_id p = org_id)"

definition company_fk_ok :: "entity_db \<Rightarrow> uuid \<Rightarrow> uuid \<Rightarrow> bool" where
  "company_fk_ok db org_id company_id \<longleftrightarrow> (\<exists>c \<in> set (companies db). co_id c = company_id \<and> co_org_id c = org_id)"

definition people_insert :: "person \<Rightarrow> entity_db \<Rightarrow> entity_db option" where
  "people_insert p db =
     (if \<exists>q \<in> set (people db). pe_id q = pe_id p then None else Some (db\<lparr>people := people db @ [p]\<rparr>))"

definition people_get_in_org :: "entity_db \<Rightarrow> uuid \<Rightarrow> uuid \<Rightarrow> person option" where
  "people_get_in_org db person_id org_id = select_one (\<lambda>p. pe_id p = person_id \<and> pe_org_id p = org_id) (people db)"

definition people_list_for_org :: "entity_db \<Rightarrow> uuid \<Rightarrow> person list" where
  "people_list_for_org db org_id =
     order_desc (\<lambda>p. (pe_created_at p, pe_id p)) (select_where (\<lambda>p. pe_org_id p = org_id) (people db))"

definition get_person_id_by_email :: "entity_db \<Rightarrow> uuid \<Rightarrow> string \<Rightarrow> uuid option" where
  "get_person_id_by_email db org_id email =
     map_option pm_person_id (select_one (\<lambda>r. pm_org_id r = org_id \<and> pm_email r = email) (person_emails db))"

definition add_email :: "person_email \<Rightarrow> entity_db \<Rightarrow> entity_db option" where
  "add_email r db =
     (if (\<exists>q \<in> set (person_emails db). pm_org_id q = pm_org_id r \<and> pm_email q = pm_email r)
         \<or> \<not> person_fk_ok db (pm_org_id r) (pm_person_id r)
      then None else Some (db\<lparr>person_emails := person_emails db @ [r]\<rparr>))"

definition add_alias :: "person_alias \<Rightarrow> entity_db \<Rightarrow> entity_db option" where
  "add_alias r db =
     (if (\<exists>q \<in> set (person_aliases db). pa_org_id q = pa_org_id r \<and> pa_person_id q = pa_person_id r \<and> pa_alias q = pa_alias r)
         \<or> \<not> person_fk_ok db (pa_org_id r) (pa_person_id r)
      then None else Some (db\<lparr>person_aliases := person_aliases db @ [r]\<rparr>))"

definition backfill_display_name :: "uuid \<Rightarrow> uuid \<Rightarrow> string \<Rightarrow> entity_db \<Rightarrow> entity_db" where
  "backfill_display_name org_id person_id name db =
     db\<lparr>people := update_where
          (\<lambda>p. pe_id p = person_id \<and> pe_org_id p = org_id \<and> (pe_display_name p = None \<or> pe_display_name p = Some []))
          (\<lambda>p. p\<lparr>pe_display_name := Some name\<rparr>) (people db)\<rparr>"

definition coalesce :: "'a option \<Rightarrow> 'a \<Rightarrow> 'a" where
  "coalesce x d = (case x of None \<Rightarrow> d | Some v \<Rightarrow> v)"

definition extend_seen_window :: "uuid \<Rightarrow> uuid \<Rightarrow> datetime \<Rightarrow> entity_db \<Rightarrow> entity_db" where
  "extend_seen_window org_id person_id seen_at db =
     db\<lparr>people := update_where (\<lambda>p. pe_id p = person_id \<and> pe_org_id p = org_id)
          (\<lambda>p. p\<lparr>pe_first_seen_at := Some (min (coalesce (pe_first_seen_at p) seen_at) seen_at),
                 pe_last_seen_at := Some (max (coalesce (pe_last_seen_at p) seen_at) seen_at)\<rparr>) (people db)\<rparr>"

definition companies_insert :: "company \<Rightarrow> entity_db \<Rightarrow> entity_db option" where
  "companies_insert c db =
     (if \<exists>q \<in> set (companies db). co_id q = co_id c then None else Some (db\<lparr>companies := companies db @ [c]\<rparr>))"

definition companies_get_in_org :: "entity_db \<Rightarrow> uuid \<Rightarrow> uuid \<Rightarrow> company option" where
  "companies_get_in_org db company_id org_id =
     select_one (\<lambda>c. co_id c = company_id \<and> co_org_id c = org_id) (companies db)"

definition companies_list_for_org :: "entity_db \<Rightarrow> uuid \<Rightarrow> company list" where
  "companies_list_for_org db org_id =
     order_desc (\<lambda>c. (co_created_at c, co_id c)) (select_where (\<lambda>c. co_org_id c = org_id) (companies db))"

definition get_company_id_by_domain :: "entity_db \<Rightarrow> uuid \<Rightarrow> string \<Rightarrow> uuid option" where
  "get_company_id_by_domain db org_id domain =
     map_option cd_company_id (select_one (\<lambda>r. cd_org_id r = org_id \<and> cd_domain r = domain) (company_domains db))"

definition add_domain :: "company_domain \<Rightarrow> entity_db \<Rightarrow> entity_db option" where
  "add_domain r db =
     (if (\<exists>q \<in> set (company_domains db). cd_org_id q = cd_org_id r \<and> cd_domain q = cd_domain r)
         \<or> \<not> company_fk_ok db (cd_org_id r) (cd_company_id r)
      then None else Some (db\<lparr>company_domains := company_domains db @ [r]\<rparr>))"

definition link_person :: "person_company \<Rightarrow> entity_db \<Rightarrow> entity_db option" where
  "link_person r db =
     (if r \<in> set (person_companies db)
         \<or> \<not> person_fk_ok db (pc_org_id r) (pc_person_id r) \<or> \<not> company_fk_ok db (pc_org_id r) (pc_company_id r)
      then None else Some (db\<lparr>person_companies := person_companies db @ [r]\<rparr>))"

section \<open>The resolver\<close>

text \<open>
  The resolver of one run: the tables, the memo and the number of ids drawn from the database so far. \<open>begin_nested\<close> opens a
  savepoint around statements that stage nothing: it is released when they succeed and rolled back when one is refused.
\<close>

record resolver =
  rs_db :: entity_db
  rs_cache :: resolution_cache
  rs_draws :: nat

record resolver_env =
  re_psl :: "string \<Rightarrow> string"
  re_ids :: "nat \<Rightarrow> uuid"
  re_now :: datetime
  re_rival :: "nat \<Rightarrow> entity_db \<Rightarrow> entity_db"

record resolver_config =
  rf_mailbox_address :: string
  rf_mailbox_company_key :: "string option"
  rf_source :: string

definition new_resolver_config :: "resolver_env \<Rightarrow> string \<Rightarrow> string \<Rightarrow> resolver_config" where
  "new_resolver_config e mailbox_address source =
     (let address = normalize_email mailbox_address
      in \<lparr>rf_mailbox_address = address,
          rf_mailbox_company_key =
            (case extract_domain address of
               None \<Rightarrow> None
             | Some d \<Rightarrow> if is_generic_email_domain d then None else Some (fold_to_registrable_domain (re_psl e) d)),
          rf_source = source\<rparr>)"

definition nested :: "(entity_db \<Rightarrow> entity_db option) \<Rightarrow> resolver \<Rightarrow> bool \<times> resolver" where
  "nested f s =
     (let c = track_savepoint_open (rs_cache s)
      in case f (rs_db s) of
           Some db \<Rightarrow> (True, s\<lparr>rs_db := db, rs_cache := track_savepoint_close (promote_staged c)\<rparr>)
         | None \<Rightarrow> (False, s\<lparr>rs_cache := track_savepoint_close (discard_staged c)\<rparr>))"

definition stage_rs :: "(resolution_cache \<Rightarrow> resolution_cache) \<Rightarrow> resolver \<Rightarrow> resolver" where
  "stage_rs f s = s\<lparr>rs_cache := f (rs_cache s)\<rparr>"

definition draw_id :: "resolver_env \<Rightarrow> resolver \<Rightarrow> uuid \<times> resolver" where
  "draw_id e s = (re_ids e (rs_draws s), s\<lparr>rs_draws := rs_draws s + 1\<rparr>)"

text \<open>The other sessions commit before the insert the next id is drawn for.\<close>

definition rival :: "resolver_env \<Rightarrow> resolver \<Rightarrow> resolver" where
  "rival e s = s\<lparr>rs_db := re_rival e (rs_draws s) (rs_db s)\<rparr>"

definition clean_display_name :: "string option \<Rightarrow> string option" where
  "clean_display_name display_name =
     (case display_name of
        None \<Rightarrow> None
      | Some raw \<Rightarrow>
        (let name = py_strip raw;
             name = (if length name > 2 \<and> hd name = last name \<and> hd name \<in> {CHR 0x27, CHR 0x22}
                     then py_strip (butlast (tl name)) else name)
         in if name = [] then None else Some name))"

definition is_internal :: "resolver_env \<Rightarrow> resolver_config \<Rightarrow> string \<Rightarrow> string option \<Rightarrow> bool" where
  "is_internal e cfg normalized_email domain =
     (case (rf_mailbox_company_key cfg, domain) of
        (Some key, Some d) \<Rightarrow> fold_to_registrable_domain (re_psl e) d = key
      | _ \<Rightarrow> normalized_email = rf_mailbox_address cfg)"

text \<open>The two statements inside one savepoint: the entity and its match key.\<close>

definition insert_with_email :: "person \<Rightarrow> person_email \<Rightarrow> entity_db \<Rightarrow> entity_db option" where
  "insert_with_email p r db = (case people_insert p db of None \<Rightarrow> None | Some db1 \<Rightarrow> add_email r db1)"

definition insert_with_domain :: "company \<Rightarrow> company_domain \<Rightarrow> entity_db \<Rightarrow> entity_db option" where
  "insert_with_domain c r db = (case companies_insert c db of None \<Rightarrow> None | Some db1 \<Rightarrow> add_domain r db1)"

text \<open>\<open>None\<close> is the \<open>IntegrityError\<close> raised again when no winner is found.\<close>

definition insert_person ::
  "resolver_env \<Rightarrow> resolver_config \<Rightarrow> uuid \<Rightarrow> string \<Rightarrow> string option \<Rightarrow> resolver \<Rightarrow> uuid option \<times> resolver" where
  "insert_person e cfg org_id normalized_email display_name s0 =
     (let (i, s) = draw_id e (rival e s0);
          p = \<lparr>pe_id = i, pe_org_id = org_id, pe_display_name = display_name,
               pe_is_internal = is_internal e cfg normalized_email (extract_domain normalized_email),
               pe_first_seen_at = None, pe_last_seen_at = None, pe_created_at = re_now e\<rparr>;
          r = \<lparr>pm_org_id = org_id, pm_person_id = i, pm_email = normalized_email, pm_source = Some (rf_source cfg)\<rparr>;
          (done, s') = nested (insert_with_email p r) s
      in if done then (Some i, s') else (get_person_id_by_email (rs_db s') org_id normalized_email, s'))"

definition enrich_person :: "resolver_config \<Rightarrow> uuid \<Rightarrow> uuid \<Rightarrow> string option \<Rightarrow> resolver \<Rightarrow> resolver" where
  "enrich_person cfg org_id person_id cleaned_name s =
     (case cleaned_name of
        None \<Rightarrow> s
      | Some name \<Rightarrow>
        if name = [] then s
        else
          (let s1 = (if has_person_name (rs_cache s) org_id person_id then s
                     else stage_rs (stage_person_name org_id person_id)
                            (s\<lparr>rs_db := backfill_display_name org_id person_id name (rs_db s)\<rparr>))
           in if has_alias (rs_cache s1) org_id person_id name then s1
              else stage_rs (stage_alias org_id person_id name)
                     (snd (nested (add_alias \<lparr>pa_org_id = org_id, pa_person_id = person_id, pa_alias = name,
                                              pa_source = Some (rf_source cfg)\<rparr>) s1))))"

definition find_person ::
  "resolver_env \<Rightarrow> resolver_config \<Rightarrow> uuid \<Rightarrow> string \<Rightarrow> string option \<Rightarrow> resolver \<Rightarrow> uuid option \<times> resolver" where
  "find_person e cfg org_id normalized_email cleaned_name s =
     (case cache_person_id (rs_cache s) org_id normalized_email of
        Some i \<Rightarrow> (Some i, s)
      | None \<Rightarrow>
        (case (case get_person_id_by_email (rs_db s) org_id normalized_email of
                 Some i \<Rightarrow> (Some i, s)
               | None \<Rightarrow> insert_person e cfg org_id normalized_email cleaned_name s) of
           (None, s') \<Rightarrow> (None, s')
         | (Some i, s') \<Rightarrow> (Some i, stage_rs (stage_person org_id normalized_email i) s')))"

definition get_or_create_person ::
  "resolver_env \<Rightarrow> resolver_config \<Rightarrow> uuid \<Rightarrow> string \<Rightarrow> string option \<Rightarrow> resolver \<Rightarrow> uuid option \<times> resolver" where
  "get_or_create_person e cfg org_id normalized_email display_name s =
     (let cleaned_name = clean_display_name display_name
      in case find_person e cfg org_id normalized_email cleaned_name s of
           (None, s1) \<Rightarrow> (None, s1)
         | (Some i, s1) \<Rightarrow> (Some i, enrich_person cfg org_id i cleaned_name s1))"

definition insert_company ::
  "resolver_env \<Rightarrow> resolver_config \<Rightarrow> uuid \<Rightarrow> string \<Rightarrow> resolver \<Rightarrow> uuid option \<times> resolver" where
  "insert_company e cfg org_id company_key s0 =
     (let (i, s) = draw_id e (rival e s0);
          c = \<lparr>co_id = i, co_org_id = org_id, co_name = Some company_key,
               co_is_internal = (rf_mailbox_company_key cfg = Some company_key), co_created_at = re_now e\<rparr>;
          r = \<lparr>cd_org_id = org_id, cd_company_id = i, cd_domain = company_key, cd_source = Some (rf_source cfg)\<rparr>;
          (done, s') = nested (insert_with_domain c r) s
      in if done then (Some i, s') else (get_company_id_by_domain (rs_db s') org_id company_key, s'))"

definition record_observed_host :: "resolver_config \<Rightarrow> uuid \<Rightarrow> uuid \<Rightarrow> string \<Rightarrow> resolver \<Rightarrow> resolver" where
  "record_observed_host cfg org_id company_id host s =
     (if has_company_host (rs_cache s) org_id company_id host then s
      else stage_rs (stage_company_host org_id company_id host)
             (snd (nested (add_domain \<lparr>cd_org_id = org_id, cd_company_id = company_id, cd_domain = host,
                                       cd_source = Some (rf_source cfg)\<rparr>) s)))"

definition find_company ::
  "resolver_env \<Rightarrow> resolver_config \<Rightarrow> uuid \<Rightarrow> string \<Rightarrow> resolver \<Rightarrow> uuid option \<times> resolver" where
  "find_company e cfg org_id company_key s =
     (case cache_company_id (rs_cache s) org_id company_key of
        Some i \<Rightarrow> (Some i, s)
      | None \<Rightarrow>
        (case (case get_company_id_by_domain (rs_db s) org_id company_key of
                 Some i \<Rightarrow> (Some i, s)
               | None \<Rightarrow> insert_company e cfg org_id company_key s) of
           (None, s') \<Rightarrow> (None, s')
         | (Some i, s') \<Rightarrow> (Some i, stage_rs (stage_company org_id company_key i) s')))"

definition get_or_create_company ::
  "resolver_env \<Rightarrow> resolver_config \<Rightarrow> uuid \<Rightarrow> string \<Rightarrow> string \<Rightarrow> resolver \<Rightarrow> uuid option \<times> resolver" where
  "get_or_create_company e cfg org_id company_key observed_host s =
     (case find_company e cfg org_id company_key s of
        (None, s1) \<Rightarrow> (None, s1)
      | (Some i, s1) \<Rightarrow>
          (Some i, if observed_host \<noteq> company_key then record_observed_host cfg org_id i observed_host s1 else s1))"

text \<open>The outer option is the exception, the inner one the company or person, if any.\<close>

definition observe_company ::
  "resolver_env \<Rightarrow> resolver_config \<Rightarrow> uuid \<Rightarrow> string \<Rightarrow> resolver \<Rightarrow> uuid option option \<times> resolver" where
  "observe_company e cfg org_id normalized_email s =
     (case extract_domain normalized_email of
        None \<Rightarrow> (Some None, s)
      | Some observed_host \<Rightarrow>
        if is_generic_email_domain observed_host then (Some None, s)
        else if is_suspicious_idn_domain observed_host then (Some None, s)
        else
          (let company_key = fold_to_registrable_domain (re_psl e) observed_host
           in if is_generic_email_domain company_key then (Some None, s)
              else (let (got, s') = get_or_create_company e cfg org_id company_key observed_host s
                    in (map_option Some got, s'))))"

definition link_person_company :: "uuid \<Rightarrow> uuid \<Rightarrow> uuid \<Rightarrow> resolver \<Rightarrow> resolver" where
  "link_person_company org_id person_id company_id s =
     (if has_person_company_link (rs_cache s) org_id person_id company_id then s
      else stage_rs (stage_person_company_link org_id person_id company_id)
             (snd (nested (link_person \<lparr>pc_org_id = org_id, pc_person_id = person_id, pc_company_id = company_id\<rparr>) s)))"

definition observe_seen :: "uuid \<Rightarrow> uuid \<Rightarrow> datetime option \<Rightarrow> resolver \<Rightarrow> resolver" where
  "observe_seen org_id person_id seen_at s =
     (case seen_at of
        None \<Rightarrow> s
      | Some t \<Rightarrow>
        if seen_window_covers (rs_cache s) org_id person_id t then s
        else stage_rs (stage_seen_window org_id person_id t) (s\<lparr>rs_db := extend_seen_window org_id person_id t (rs_db s)\<rparr>))"

definition resolve_participant ::
  "resolver_env \<Rightarrow> resolver_config \<Rightarrow> uuid \<Rightarrow> string \<Rightarrow> string option \<Rightarrow> datetime option \<Rightarrow> bool \<Rightarrow> resolver
    \<Rightarrow> uuid option option \<times> resolver" where
  "resolve_participant e cfg org_id raw_address display_name seen_at allow_person s =
     (let normalized = normalize_email raw_address
      in case py_rsplit1 CHR ''@'' normalized of
           None \<Rightarrow> (Some None, s)
         | Some (local_part, domain) \<Rightarrow>
           if local_part = [] \<or> domain = [] then (Some None, s)
           else
             (case observe_company e cfg org_id normalized s of
                (None, s1) \<Rightarrow> (None, s1)
              | (Some company, s1) \<Rightarrow>
                if \<not> allow_person \<or> is_role_address normalized then (Some None, s1)
                else
                  (case get_or_create_person e cfg org_id normalized display_name s1 of
                     (None, s2) \<Rightarrow> (None, s2)
                   | (Some person_id, s2) \<Rightarrow>
                     (let s3 = observe_seen org_id person_id seen_at s2
                      in (Some (Some person_id),
                          (case company of None \<Rightarrow> s3 | Some c \<Rightarrow> link_person_company org_id person_id c s3))))))"

end
