(* ===== verification/Entity_Graph.thy ===== *)
theory Entity_Graph
  imports Entity_Resolver
begin

text \<open>
  What the resolver guarantees: the graph stays well-formed (unique keys, no person without an address), no fact is lost, the memo
  stays true, and the memo is transparent: with any true memo, an empty one included, the resolver returns the same
  people and leaves the same tables. An address once resolved goes on resolving to the same person.
\<close>

section \<open>Well-formed graphs and true entries\<close>

text \<open>The declared constraints, and that no person is without an address and no company without a domain.\<close>

definition entity_wf :: "entity_db \<Rightarrow> bool" where
  "entity_wf db \<longleftrightarrow>
     distinct (map pe_id (people db)) \<and> distinct (map co_id (companies db))
     \<and> distinct (map (\<lambda>r. (pm_org_id r, pm_email r)) (person_emails db))
     \<and> distinct (map (\<lambda>r. (cd_org_id r, cd_domain r)) (company_domains db))
     \<and> (\<forall>r \<in> set (person_emails db). person_fk_ok db (pm_org_id r) (pm_person_id r))
     \<and> (\<forall>r \<in> set (company_domains db). company_fk_ok db (cd_org_id r) (cd_company_id r))
     \<and> (\<forall>p \<in> set (people db). \<exists>r \<in> set (person_emails db). pm_org_id r = pe_org_id p \<and> pm_person_id r = pe_id p)
     \<and> (\<forall>c \<in> set (companies db). \<exists>r \<in> set (company_domains db). cd_org_id r = co_org_id c \<and> cd_company_id r = co_id c)"

fun holds :: "entity_db \<Rightarrow> cache_key \<Rightarrow> cache_value \<Rightarrow> bool" where
  "holds db (Key_person org_id email) (Val_id i) \<longleftrightarrow> get_person_id_by_email db org_id email = Some i"
| "holds db (Key_company org_id key) (Val_id i) \<longleftrightarrow> get_company_id_by_domain db org_id key = Some i"
| "holds db (Key_named org_id i) Val_true \<longleftrightarrow>
     (\<exists>p \<in> set (people db). pe_id p = i \<and> pe_org_id p = org_id \<and> pe_display_name p \<noteq> None \<and> pe_display_name p \<noteq> Some [])"
| "holds db (Key_alias org_id i a) Val_true \<longleftrightarrow>
     (\<exists>r \<in> set (person_aliases db). pa_org_id r = org_id \<and> pa_person_id r = i \<and> pa_alias r = a)"
| "holds db (Key_host org_id i host) Val_true \<longleftrightarrow>
     (\<exists>r \<in> set (company_domains db). cd_org_id r = org_id \<and> cd_domain r = host)"
| "holds db (Key_link org_id i c) Val_true \<longleftrightarrow> \<lparr>pc_org_id = org_id, pc_person_id = i, pc_company_id = c\<rparr> \<in> set (person_companies db)"
| "holds db (Key_seen org_id i) (Val_window low high) \<longleftrightarrow>
     (\<exists>p \<in> set (people db). pe_id p = i \<and> pe_org_id p = org_id
        \<and> (\<exists>f l. pe_first_seen_at p = Some f \<and> pe_last_seen_at p = Some l \<and> f \<le> low \<and> high \<le> l))"
| "holds db _ _ \<longleftrightarrow> False"

definition keeps_facts :: "entity_db \<Rightarrow> entity_db \<Rightarrow> bool" where
  "keeps_facts db db' \<longleftrightarrow> (\<forall>k v. holds db k v \<longrightarrow> holds db' k v)"

lemma keeps_facts_refl [simp]: "keeps_facts db db"
  by (simp add: keeps_facts_def)

lemma keeps_facts_trans: "keeps_facts a b \<Longrightarrow> keeps_facts b c \<Longrightarrow> keeps_facts a c"
  by (simp add: keeps_facts_def)

lemma select_one_snoc_keep: "select_one P t = Some r \<Longrightarrow> select_one P (t @ u) = Some r"
  by (simp add: select_one_append)

text \<open>Writes that only add rows, or change people without touching keys, keep every fact.\<close>

lemma keeps_factsI:
  assumes "\<And>P r. select_one P (person_emails db) = Some r \<Longrightarrow> select_one P (person_emails db') = Some r"
    and "\<And>P r. select_one P (company_domains db) = Some r \<Longrightarrow> select_one P (company_domains db') = Some r"
    and "set (person_aliases db) \<subseteq> set (person_aliases db')" and "set (company_domains db) \<subseteq> set (company_domains db')"
    and "set (person_companies db) \<subseteq> set (person_companies db')"
    and "\<And>p. p \<in> set (people db) \<Longrightarrow> \<exists>q \<in> set (people db'). pe_id q = pe_id p \<and> pe_org_id q = pe_org_id p
      \<and> (pe_display_name p \<noteq> None \<and> pe_display_name p \<noteq> Some [] \<longrightarrow> pe_display_name q = pe_display_name p)
      \<and> (\<forall>f l. pe_first_seen_at p = Some f \<and> pe_last_seen_at p = Some l \<longrightarrow>
           (\<exists>f' l'. pe_first_seen_at q = Some f' \<and> pe_last_seen_at q = Some l' \<and> f' \<le> f \<and> l \<le> l'))"
  shows "keeps_facts db db'"
  unfolding keeps_facts_def
proof (intro allI impI)
  fix k v assume h: "holds db k v"
  have pm: "get_person_id_by_email db o' e = Some i \<Longrightarrow> get_person_id_by_email db' o' e = Some i" for o' e i
    using assms(1) by (auto simp: get_person_id_by_email_def)
  have cd: "get_company_id_by_domain db o' e = Some i \<Longrightarrow> get_company_id_by_domain db' o' e = Some i" for o' e i
    using assms(2) by (auto simp: get_company_id_by_domain_def)
  show "holds db' k v"
    using h pm cd assms(3,4,5)
  proof (cases rule: holds.cases[of "(db, k, v)"])
    case (3 d org_id i)
    then show ?thesis using h assms(6) by (simp, metis)
  next
    case (7 d org_id i low high)
    then obtain p f l where p: "p \<in> set (people db)" "pe_id p = i" "pe_org_id p = org_id"
      "pe_first_seen_at p = Some f" "pe_last_seen_at p = Some l" "f \<le> low" "high \<le> l" using h by auto
    obtain q f' l' where "q \<in> set (people db')" "pe_id q = i" "pe_org_id q = org_id" "pe_first_seen_at q = Some f'"
      "pe_last_seen_at q = Some l'" "f' \<le> f" "l \<le> l'" using assms(6)[OF p(1)] p by blast
    then show ?thesis using 7 p by (auto intro: order_trans)
  qed auto
qed

section \<open>The statements\<close>

lemma mint_person:
  assumes "entity_wf db" and "people_insert p db = Some db1" and "add_email r db1 = Some db2"
    and "pm_org_id r = pe_org_id p" and "pm_person_id r = pe_id p"
  shows "entity_wf db2" and "keeps_facts db db2" and "get_person_id_by_email db2 (pm_org_id r) (pm_email r) = Some (pe_id p)"
proof -
  have db2: "db2 = db\<lparr>people := people db @ [p], person_emails := person_emails db @ [r]\<rparr>"
    and fresh: "pe_id p \<notin> pe_id ` set (people db)"
    and uniq: "(pm_org_id r, pm_email r) \<notin> (\<lambda>q. (pm_org_id q, pm_email q)) ` set (person_emails db)"
    using assms(2,3) by (auto simp: people_insert_def add_email_def split: if_splits)
  show "entity_wf db2"
    using assms(1,4,5) fresh uniq by (auto simp: db2 entity_wf_def person_fk_ok_def company_fk_ok_def)
  show "keeps_facts db db2" by (rule keeps_factsI) (auto simp: db2 select_one_snoc_keep)
  have "select_one (\<lambda>q. pm_org_id q = pm_org_id r \<and> pm_email q = pm_email r) (person_emails db) = None"
    using uniq unfolding select_one_None_iff by (metis (no_types, lifting) image_eqI)
  then show "get_person_id_by_email db2 (pm_org_id r) (pm_email r) = Some (pe_id p)"
    using assms(5) by (simp add: db2 get_person_id_by_email_def select_one_append)
qed

lemma mint_company:
  assumes "entity_wf db" and "companies_insert c db = Some db1" and "add_domain r db1 = Some db2"
    and "cd_org_id r = co_org_id c" and "cd_company_id r = co_id c"
  shows "entity_wf db2" and "keeps_facts db db2" and "get_company_id_by_domain db2 (cd_org_id r) (cd_domain r) = Some (co_id c)"
proof -
  have db2: "db2 = db\<lparr>companies := companies db @ [c], company_domains := company_domains db @ [r]\<rparr>"
    and fresh: "co_id c \<notin> co_id ` set (companies db)"
    and uniq: "(cd_org_id r, cd_domain r) \<notin> (\<lambda>q. (cd_org_id q, cd_domain q)) ` set (company_domains db)"
    using assms(2,3) by (auto simp: companies_insert_def add_domain_def split: if_splits)
  show "entity_wf db2"
    using assms(1,4,5) fresh uniq by (auto simp: db2 entity_wf_def person_fk_ok_def company_fk_ok_def)
  show "keeps_facts db db2" by (rule keeps_factsI) (auto simp: db2 select_one_snoc_keep)
  have "select_one (\<lambda>q. cd_org_id q = cd_org_id r \<and> cd_domain q = cd_domain r) (company_domains db) = None"
    using uniq unfolding select_one_None_iff by (metis (no_types, lifting) image_eqI)
  then show "get_company_id_by_domain db2 (cd_org_id r) (cd_domain r) = Some (co_id c)"
    using assms(5) by (simp add: db2 get_company_id_by_domain_def select_one_append)
qed

text \<open>A statement that is safe keeps the constraints and the facts whenever it is not refused.\<close>

definition safe_statement :: "(entity_db \<Rightarrow> entity_db option) \<Rightarrow> bool" where
  "safe_statement f \<longleftrightarrow> (\<forall>db db'. entity_wf db \<and> f db = Some db' \<longrightarrow> entity_wf db' \<and> keeps_facts db db')"

lemma safe_mint_person: "pm_org_id r = pe_org_id p \<Longrightarrow> pm_person_id r = pe_id p \<Longrightarrow>
    safe_statement (insert_with_email p r)"
  by (auto simp: safe_statement_def insert_with_email_def split: option.splits dest: mint_person(1,2))

lemma safe_mint_company: "cd_org_id r = co_org_id c \<Longrightarrow> cd_company_id r = co_id c \<Longrightarrow>
    safe_statement (insert_with_domain c r)"
  by (auto simp: safe_statement_def insert_with_domain_def split: option.splits dest: mint_company(1,2))

lemma safe_add_alias: "safe_statement (add_alias r)"
  unfolding safe_statement_def
proof (intro allI impI conjI; elim conjE)
  fix db db' assume a: "entity_wf db" "add_alias r db = Some db'"
  then have db': "db' = db\<lparr>person_aliases := person_aliases db @ [r]\<rparr>" by (auto simp: add_alias_def split: if_splits)
  show "entity_wf db'" using a(1) by (auto simp: db' entity_wf_def person_fk_ok_def company_fk_ok_def)
  show "keeps_facts db db'" by (rule keeps_factsI) (auto simp: db')
qed

lemma safe_add_domain: "safe_statement (add_domain r)"
  unfolding safe_statement_def
proof (intro allI impI conjI; elim conjE)
  fix db db' assume a: "entity_wf db" "add_domain r db = Some db'"
  then have db': "db' = db\<lparr>company_domains := company_domains db @ [r]\<rparr>" and
    n: "(cd_org_id r, cd_domain r) \<notin> (\<lambda>q. (cd_org_id q, cd_domain q)) ` set (company_domains db)"
    "company_fk_ok db (cd_org_id r) (cd_company_id r)"
    by (auto simp: add_domain_def split: if_splits)
  show "entity_wf db'" using a(1) n by (auto simp: db' entity_wf_def person_fk_ok_def company_fk_ok_def)
  show "keeps_facts db db'" by (rule keeps_factsI) (auto simp: db' select_one_snoc_keep)
qed

lemma safe_link_person: "safe_statement (link_person r)"
  unfolding safe_statement_def
proof (intro allI impI conjI; elim conjE)
  fix db db' assume a: "entity_wf db" "link_person r db = Some db'"
  then have db': "db' = db\<lparr>person_companies := person_companies db @ [r]\<rparr>" by (auto simp: link_person_def split: if_splits)
  show "entity_wf db'" using a(1) by (auto simp: db' entity_wf_def person_fk_ok_def company_fk_ok_def)
  show "keeps_facts db db'" by (rule keeps_factsI) (auto simp: db')
qed

text \<open>An update of people that keeps their keys keeps the constraints; one that fills a blank name or widens the window keeps the facts.\<close>

abbreviation person_key :: "person \<Rightarrow> uuid \<times> uuid" where
  "person_key p \<equiv> (pe_id p, pe_org_id p)"

lemma person_fk_ok_key: "person_fk_ok db org_id i \<longleftrightarrow> (i, org_id) \<in> person_key ` set (people db)"
  by (auto simp: person_fk_ok_def)

lemma entity_wf_people_cong:
  assumes "map person_key ps = map person_key (people db)" and "entity_wf db"
  shows "entity_wf (db\<lparr>people := ps\<rparr>)"
proof -
  have img: "person_key ` set ps = person_key ` set (people db)" using assms(1) by (metis set_map)
  have "map pe_id ps = map fst (map person_key ps)" by simp
  then have "map pe_id ps = map pe_id (people db)" unfolding assms(1) by simp
  moreover have "\<exists>r \<in> set (person_emails db). pm_org_id r = pe_org_id p \<and> pm_person_id r = pe_id p" if "p \<in> set ps" for p
  proof -
    have "person_key p \<in> person_key ` set (people db)" using that img by blast
    then obtain q where "q \<in> set (people db)" "person_key p = person_key q" by blast
    then show ?thesis using assms(2) unfolding entity_wf_def by auto
  qed
  ultimately show ?thesis
    using assms(2) img by (simp add: entity_wf_def person_fk_ok_key company_fk_ok_def)
qed

lemma update_people_safe:
  assumes "entity_wf db" and "\<And>p. person_key (f p) = person_key p"
    and "\<And>p. P p \<Longrightarrow> pe_display_name p \<noteq> None \<Longrightarrow> pe_display_name p \<noteq> Some [] \<Longrightarrow> pe_display_name (f p) = pe_display_name p"
    and "\<And>p a b. pe_first_seen_at p = Some a \<Longrightarrow> pe_last_seen_at p = Some b \<Longrightarrow>
      \<exists>a' b'. pe_first_seen_at (f p) = Some a' \<and> pe_last_seen_at (f p) = Some b' \<and> a' \<le> a \<and> b \<le> b'"
  shows "entity_wf (db\<lparr>people := update_where P f (people db)\<rparr>)"
    and "keeps_facts db (db\<lparr>people := update_where P f (people db)\<rparr>)"
proof -
  show "entity_wf (db\<lparr>people := update_where P f (people db)\<rparr>)"
    by (rule entity_wf_people_cong[OF _ assms(1)]) (rule map_update_where, rule assms(2))
  have in_upd: "(if P p then f p else p) \<in> set (update_where P f (people db))" if "p \<in> set (people db)" for p
    using that by (auto simp: update_where_def)
  show "keeps_facts db (db\<lparr>people := update_where P f (people db)\<rparr>)"
  proof (rule keeps_factsI)
    fix p assume p: "p \<in> set (people db)"
    let ?q = "if P p then f p else p"
    have "pe_id ?q = pe_id p" "pe_org_id ?q = pe_org_id p" using assms(2)[of p] by simp_all
    moreover have "pe_display_name p \<noteq> None \<and> pe_display_name p \<noteq> Some [] \<longrightarrow> pe_display_name ?q = pe_display_name p"
      using assms(3)[of p] by simp
    moreover have "\<forall>a b. pe_first_seen_at p = Some a \<and> pe_last_seen_at p = Some b \<longrightarrow>
           (\<exists>a' b'. pe_first_seen_at ?q = Some a' \<and> pe_last_seen_at ?q = Some b' \<and> a' \<le> a \<and> b \<le> b')"
      using assms(4)[of p] by auto
    ultimately show "\<exists>q \<in> set (people (db\<lparr>people := update_where P f (people db)\<rparr>)). pe_id q = pe_id p \<and> pe_org_id q = pe_org_id p
      \<and> (pe_display_name p \<noteq> None \<and> pe_display_name p \<noteq> Some [] \<longrightarrow> pe_display_name q = pe_display_name p)
      \<and> (\<forall>f l. pe_first_seen_at p = Some f \<and> pe_last_seen_at p = Some l \<longrightarrow>
           (\<exists>f' l'. pe_first_seen_at q = Some f' \<and> pe_last_seen_at q = Some l' \<and> f' \<le> f \<and> l \<le> l'))"
      using in_upd[OF p] by (intro bexI[of _ ?q]) simp_all
  qed simp_all
qed

text \<open>The one person a foreign key names.\<close>

lemma person_fk_unique:
  assumes "entity_wf db" and "p \<in> set (people db)" and "q \<in> set (people db)" and "pe_id p = pe_id q"
  shows "p = q"
  using assms key_inj[of pe_id "people db" p q] by (simp add: entity_wf_def)

lemma backfill_safe:
  assumes "entity_wf db" and "name \<noteq> []"
  shows "entity_wf (backfill_display_name org_id i name db)" and "keeps_facts db (backfill_display_name org_id i name db)"
    and "person_fk_ok db org_id i \<Longrightarrow> holds (backfill_display_name org_id i name db) (Key_named org_id i) Val_true"
    and "holds db (Key_named org_id i) Val_true \<Longrightarrow> backfill_display_name org_id i name db = db"
proof -
  show "entity_wf (backfill_display_name org_id i name db)" "keeps_facts db (backfill_display_name org_id i name db)"
    unfolding backfill_display_name_def by (rule update_people_safe[OF assms(1)]; auto)+
  show "holds (backfill_display_name org_id i name db) (Key_named org_id i) Val_true" if fk: "person_fk_ok db org_id i"
  proof -
    obtain p where p: "p \<in> set (people db)" "pe_id p = i" "pe_org_id p = org_id" using fk by (auto simp: person_fk_ok_def)
    let ?P = "\<lambda>p. pe_id p = i \<and> pe_org_id p = org_id \<and> (pe_display_name p = None \<or> pe_display_name p = Some [])"
    let ?q = "if ?P p then p\<lparr>pe_display_name := Some name\<rparr> else p"
    have "?q \<in> set (people (backfill_display_name org_id i name db))"
      using p(1) by (auto simp: backfill_display_name_def update_where_def)
    moreover have "pe_id ?q = i" "pe_org_id ?q = org_id" "pe_display_name ?q \<noteq> None" "pe_display_name ?q \<noteq> Some []"
      using p assms(2) by simp_all
    ultimately show ?thesis by (simp only: holds.simps) blast
  qed
  assume "holds db (Key_named org_id i) Val_true"
  then obtain p where p: "p \<in> set (people db)" "pe_id p = i" "pe_display_name p \<noteq> None" "pe_display_name p \<noteq> Some []" by auto
  have "update_where (\<lambda>q. pe_id q = i \<and> pe_org_id q = org_id \<and> (pe_display_name q = None \<or> pe_display_name q = Some []))
      (\<lambda>q. q\<lparr>pe_display_name := Some name\<rparr>) (people db) = people db"
    using person_fk_unique[OF assms(1) p(1)] p by (intro update_where_id) metis
  then show "backfill_display_name org_id i name db = db" by (simp add: backfill_display_name_def)
qed

lemma extend_safe:
  assumes "entity_wf db"
  shows "entity_wf (extend_seen_window org_id i t db)" and "keeps_facts db (extend_seen_window org_id i t db)"
    and "person_fk_ok db org_id i \<Longrightarrow> holds (extend_seen_window org_id i t db) (Key_seen org_id i) (Val_window t t)"
    and "holds db (Key_seen org_id i) (Val_window low high) \<Longrightarrow>
      holds (extend_seen_window org_id i t db) (Key_seen org_id i) (Val_window (min low t) (max high t))"
    and "holds db (Key_seen org_id i) (Val_window low high) \<Longrightarrow> low \<le> t \<Longrightarrow> t \<le> high \<Longrightarrow>
      extend_seen_window org_id i t db = db"
proof -
  let ?P = "\<lambda>p. pe_id p = i \<and> pe_org_id p = org_id"
  let ?f = "\<lambda>p. p\<lparr>pe_first_seen_at := Some (min (coalesce (pe_first_seen_at p) t) t),
                 pe_last_seen_at := Some (max (coalesce (pe_last_seen_at p) t) t)\<rparr>"
  show "entity_wf (extend_seen_window org_id i t db)" "keeps_facts db (extend_seen_window org_id i t db)"
    unfolding extend_seen_window_def by (rule update_people_safe[OF assms(1)]; simp add: coalesce_def)+
  have upd: "?f p \<in> set (people (extend_seen_window org_id i t db))" if "p \<in> set (people db)" "?P p" for p
    using that by (simp add: extend_seen_window_def set_update_where)
  show "holds (extend_seen_window org_id i t db) (Key_seen org_id i) (Val_window t t)" if fk: "person_fk_ok db org_id i"
  proof -
    obtain p where p: "p \<in> set (people db)" "?P p" using fk by (auto simp: person_fk_ok_def)
    show ?thesis unfolding holds.simps by (rule bexI[OF _ upd[OF p]]) (use p in simp)
  qed
  show "holds (extend_seen_window org_id i t db) (Key_seen org_id i) (Val_window (min low t) (max high t))"
    if h: "holds db (Key_seen org_id i) (Val_window low high)"
  proof -
    obtain p a b where p: "p \<in> set (people db)" "?P p" "pe_first_seen_at p = Some a" "pe_last_seen_at p = Some b"
      "a \<le> low" "high \<le> b" using h by auto
    show ?thesis unfolding holds.simps by (rule bexI[OF _ upd[OF p(1,2)]]) (use p in \<open>auto simp: coalesce_def\<close>)
  qed
  show "extend_seen_window org_id i t db = db"
    if h: "holds db (Key_seen org_id i) (Val_window low high)" and t: "low \<le> t" "t \<le> high"
  proof -
    obtain p a b where p: "p \<in> set (people db)" "?P p" "pe_first_seen_at p = Some a" "pe_last_seen_at p = Some b"
      "a \<le> low" "high \<le> b" using h by auto
    have "?f p = p" using p t by (simp add: coalesce_def min_def max_def)
    then have "?f q = q" if "q \<in> set (people db)" "?P q" for q
      using person_fk_unique[OF assms p(1) that(1)] p(2) that(2) by simp
    then have "update_where ?P ?f (people db) = people db" unfolding update_where_def by (intro map_idI) simp
    then show ?thesis by (simp add: extend_seen_window_def)
  qed
qed

section \<open>Every operation of the resolver\<close>

definition resolver_inv :: "resolver \<Rightarrow> bool" where
  "resolver_inv s \<longleftrightarrow> entity_wf (rs_db s) \<and> cache_sound (holds (rs_db s)) (rs_cache s)"

text \<open>From \<open>s\<close> to \<open>s'\<close> the graph stayed well-formed, no fact was lost, the memo is true and was only added to at this depth.\<close>

definition progress :: "resolver \<Rightarrow> resolver \<Rightarrow> bool" where
  "progress s s' \<longleftrightarrow> resolver_inv s' \<and> keeps_facts (rs_db s) (rs_db s')
     \<and> staged_above (rc_depth (rs_cache s)) (rs_cache s) (rs_cache s')"

definition rival_ok :: "resolver_env \<Rightarrow> bool" where
  "rival_ok e \<longleftrightarrow> (\<forall>k db. entity_wf db \<longrightarrow> entity_wf (re_rival e k db) \<and> keeps_facts db (re_rival e k db))"

lemma progress_refl [simp]: "progress s s \<longleftrightarrow> resolver_inv s"
  by (simp add: progress_def)

lemma progress_trans: "progress a b \<Longrightarrow> progress b c \<Longrightarrow> progress a c"
  unfolding progress_def using keeps_facts_trans staged_above_trans by (metis staged_above_def)

lemma progress_inv: "progress s s' \<Longrightarrow> resolver_inv s'"
  by (simp add: progress_def)

lemma progress_facts: "progress s s' \<Longrightarrow> holds (rs_db s) k v \<Longrightarrow> holds (rs_db s') k v"
  by (simp add: progress_def keeps_facts_def)

lemma progress_write:
  assumes "resolver_inv s" and "entity_wf db'" and "keeps_facts (rs_db s) db'"
  shows "progress s (s\<lparr>rs_db := db'\<rparr>)"
  using assms by (auto simp: progress_def resolver_inv_def keeps_facts_def intro: cache_sound_mono)

lemma progress_stage: "resolver_inv s \<Longrightarrow> holds (rs_db s) k v \<Longrightarrow> progress s (stage_rs (stage k v) s)"
  by (simp add: progress_def resolver_inv_def stage_rs_def cache_sound_stage staged_above_stage)

lemma nested_cache:
  "staged_above d c (track_savepoint_close (promote_staged (track_savepoint_open c)))"
  "staged_above d c (track_savepoint_close (discard_staged (track_savepoint_open c)))"
  by (auto simp: staged_above_def track_savepoint_close_def promote_staged_def discard_staged_def track_savepoint_open_def
      split: option.splits if_splits)

lemma progress_nested:
  assumes "resolver_inv s" and "safe_statement f"
  shows "progress s (snd (nested f s))"
proof (cases "f (rs_db s)")
  case None
  then show ?thesis
    using assms(1) by (simp add: nested_def progress_def resolver_inv_def nested_cache cache_sound_discard)
next
  case (Some db')
  then have "entity_wf db'" "keeps_facts (rs_db s) db'" using assms by (auto simp: safe_statement_def resolver_inv_def)
  then show ?thesis
    using assms(1) Some
    by (auto simp: nested_def progress_def resolver_inv_def nested_cache keeps_facts_def
        intro!: cache_sound_promote intro: cache_sound_mono)
qed

lemma nested_result: "fst (nested f s) \<longleftrightarrow> f (rs_db s) \<noteq> None" "rs_draws (snd (nested f s)) = rs_draws s"
  "rs_db (snd (nested f s)) = (case f (rs_db s) of Some db \<Rightarrow> db | None \<Rightarrow> rs_db s)"
  by (auto simp: nested_def Let_def split: option.splits)

lemma progress_rival: "rival_ok e \<Longrightarrow> resolver_inv s \<Longrightarrow> progress s (rival e s)"
  unfolding rival_def by (rule progress_write) (auto simp: rival_ok_def resolver_inv_def)

lemma progress_draw: "resolver_inv s \<Longrightarrow> progress s (snd (draw_id e s))"
  by (simp add: progress_def resolver_inv_def draw_id_def)

lemma email_fk:
  assumes "entity_wf db" and "get_person_id_by_email db org_id email = Some i"
  shows "person_fk_ok db org_id i"
  using assms by (auto simp: entity_wf_def get_person_id_by_email_def dest: select_one_SomeD)

lemma domain_fk:
  assumes "entity_wf db" and "get_company_id_by_domain db org_id key = Some i"
  shows "company_fk_ok db org_id i"
  using assms by (auto simp: entity_wf_def get_company_id_by_domain_def dest: select_one_SomeD)

lemma insert_person_sound:
  assumes "rival_ok e" and "resolver_inv s" and "insert_person e cfg org_id email name s = (got, s')"
  shows "progress s s'" and "got = Some i \<Longrightarrow> get_person_id_by_email (rs_db s') org_id email = Some i"
proof -
  define s1 where "s1 = snd (draw_id e (rival e s))"
  define i0 where "i0 = re_ids e (rs_draws s)"
  let ?p = "\<lparr>pe_id = i0, pe_org_id = org_id, pe_display_name = name,
               pe_is_internal = is_internal e cfg email (extract_domain email),
               pe_first_seen_at = None, pe_last_seen_at = None, pe_created_at = re_now e\<rparr>"
  let ?r = "\<lparr>pm_org_id = org_id, pm_person_id = i0, pm_email = email, pm_source = Some (rf_source cfg)\<rparr>"
  let ?f = "insert_with_email ?p ?r"
  have s1: "progress s s1"
    unfolding s1_def using assms(1,2) progress_draw progress_inv progress_rival progress_trans by blast
  have s': "s' = snd (nested ?f s1)"
    "got = (if ?f (rs_db s1) \<noteq> None then Some i0 else get_person_id_by_email (rs_db s') org_id email)"
    using assms(3) nested_result(1)[of ?f s1]
    by (auto simp: insert_person_def s1_def i0_def draw_id_def rival_def Let_def case_prod_beta split: if_splits)
  have safe: "safe_statement ?f" by (rule safe_mint_person) simp_all
  show "progress s s'" using s1 progress_nested[OF progress_inv[OF s1] safe] progress_trans unfolding s'(1) by blast
  have wf: "entity_wf (rs_db s1)" using progress_inv[OF s1] by (simp add: resolver_inv_def)
  assume got: "got = Some i"
  show "get_person_id_by_email (rs_db s') org_id email = Some i"
  proof (cases "?f (rs_db s1)")
    case None
    with got s'(2) show ?thesis by simp
  next
    case (Some db2)
    then obtain db1 where "people_insert ?p (rs_db s1) = Some db1" "add_email ?r db1 = Some db2"
      by (auto simp: insert_with_email_def split: option.splits)
    from mint_person(3)[OF wf this] Some got s'(2) show ?thesis
      by (simp add: s'(1) nested_result(3))
  qed
qed

lemma insert_company_sound:
  assumes "rival_ok e" and "resolver_inv s" and "insert_company e cfg org_id key s = (got, s')"
  shows "progress s s'" and "got = Some i \<Longrightarrow> get_company_id_by_domain (rs_db s') org_id key = Some i"
proof -
  define s1 where "s1 = snd (draw_id e (rival e s))"
  define i0 where "i0 = re_ids e (rs_draws s)"
  let ?c = "\<lparr>co_id = i0, co_org_id = org_id, co_name = Some key,
               co_is_internal = (rf_mailbox_company_key cfg = Some key), co_created_at = re_now e\<rparr>"
  let ?r = "\<lparr>cd_org_id = org_id, cd_company_id = i0, cd_domain = key, cd_source = Some (rf_source cfg)\<rparr>"
  let ?f = "insert_with_domain ?c ?r"
  have s1: "progress s s1"
    unfolding s1_def using assms(1,2) progress_draw progress_inv progress_rival progress_trans by blast
  have s': "s' = snd (nested ?f s1)"
    "got = (if ?f (rs_db s1) \<noteq> None then Some i0 else get_company_id_by_domain (rs_db s') org_id key)"
    using assms(3) nested_result(1)[of ?f s1]
    by (auto simp: insert_company_def s1_def i0_def draw_id_def rival_def Let_def case_prod_beta split: if_splits)
  have safe: "safe_statement ?f" by (rule safe_mint_company) simp_all
  show "progress s s'" using s1 progress_nested[OF progress_inv[OF s1] safe] progress_trans unfolding s'(1) by blast
  have wf: "entity_wf (rs_db s1)" using progress_inv[OF s1] by (simp add: resolver_inv_def)
  assume got: "got = Some i"
  show "get_company_id_by_domain (rs_db s') org_id key = Some i"
  proof (cases "?f (rs_db s1)")
    case None
    with got s'(2) show ?thesis by simp
  next
    case (Some db2)
    then obtain db1 where "companies_insert ?c (rs_db s1) = Some db1" "add_domain ?r db1 = Some db2"
      by (auto simp: insert_with_domain_def split: option.splits)
    from mint_company(3)[OF wf this] Some got s'(2) show ?thesis
      by (simp add: s'(1) nested_result(3))
  qed
qed

text \<open>
  The idempotent records: after the attempt the row exists, whether it was added or refused, so remembering it is sound.
\<close>

lemma add_alias_exists:
  "person_fk_ok (rs_db s) (pa_org_id r) (pa_person_id r) \<Longrightarrow>
     holds (rs_db (snd (nested (add_alias r) s))) (Key_alias (pa_org_id r) (pa_person_id r) (pa_alias r)) Val_true"
  by (auto simp: nested_result add_alias_def split: option.splits if_splits)

lemma add_domain_exists:
  "company_fk_ok (rs_db s) (cd_org_id r) (cd_company_id r) \<Longrightarrow>
     holds (rs_db (snd (nested (add_domain r) s))) (Key_host (cd_org_id r) c (cd_domain r)) Val_true"
  by (auto simp: nested_result add_domain_def split: option.splits if_splits)

lemma link_person_exists:
  "person_fk_ok (rs_db s) org_id i \<Longrightarrow> company_fk_ok (rs_db s) org_id c \<Longrightarrow>
     holds (rs_db (snd (nested (link_person \<lparr>pc_org_id = org_id, pc_person_id = i, pc_company_id = c\<rparr>) s))) (Key_link org_id i c) Val_true"
  by (auto simp: nested_result link_person_def split: option.splits if_splits)

text \<open>The keys survive: a person or company that exists goes on existing.\<close>

lemma progress_lookup:
  assumes "progress s s'"
  shows "get_person_id_by_email (rs_db s) org_id email = Some i \<Longrightarrow> get_person_id_by_email (rs_db s') org_id email = Some i"
    and "get_company_id_by_domain (rs_db s) org_id key = Some i \<Longrightarrow> get_company_id_by_domain (rs_db s') org_id key = Some i"
  using progress_facts[OF assms, of "Key_person org_id email" "Val_id i"]
    progress_facts[OF assms, of "Key_company org_id key" "Val_id i"] by simp_all

lemma record_and_stage:
  assumes "resolver_inv s" and "safe_statement f" and "holds (rs_db (snd (nested f s))) k v"
  shows "progress s (stage_rs (stage k v) (snd (nested f s)))"
  using progress_nested[OF assms(1,2)] progress_stage[OF progress_inv[OF progress_nested[OF assms(1,2)]] assms(3)]
  by (rule progress_trans)

lemma enrich_person_progress:
  assumes inv: "resolver_inv s" and i: "get_person_id_by_email (rs_db s) org_id email = Some i"
  shows "progress s (enrich_person cfg org_id i name s)"
proof (cases "name = None \<or> name = Some []")
  case True
  then show ?thesis using inv by (auto simp: enrich_person_def)
next
  case False
  then obtain n where n: "name = Some n" "n \<noteq> []" by auto
  define s1 where "s1 = (if has_person_name (rs_cache s) org_id i then s
    else stage_rs (stage_person_name org_id i) (s\<lparr>rs_db := backfill_display_name org_id i n (rs_db s)\<rparr>))"
  have wf: "entity_wf (rs_db s)" using inv by (simp add: resolver_inv_def)
  have p1: "progress s s1"
  proof (cases "has_person_name (rs_cache s) org_id i")
    case True
    then show ?thesis using inv by (simp add: s1_def)
  next
    case False
    have w: "progress s (s\<lparr>rs_db := backfill_display_name org_id i n (rs_db s)\<rparr>)"
      by (rule progress_write[OF inv backfill_safe(1,2)[OF wf n(2)]])
    have "progress (s\<lparr>rs_db := backfill_display_name org_id i n (rs_db s)\<rparr>) s1"
      using False backfill_safe(3)[OF wf n(2) email_fk[OF wf i]] progress_stage[OF progress_inv[OF w]]
      by (simp add: s1_def stage_person_name_def del: holds.simps)
    with w show ?thesis by (rule progress_trans)
  qed
  have fk: "person_fk_ok (rs_db s1) org_id i"
    using email_fk progress_inv[OF p1] progress_lookup(1)[OF p1 i] by (auto simp: resolver_inv_def)
  let ?r = "\<lparr>pa_org_id = org_id, pa_person_id = i, pa_alias = n, pa_source = Some (rf_source cfg)\<rparr>"
  have "progress s1 (stage_rs (stage_alias org_id i n) (snd (nested (add_alias ?r) s1)))"
    using record_and_stage[OF progress_inv[OF p1] safe_add_alias add_alias_exists[of s1 ?r]] fk
    by (simp add: stage_alias_def)
  with p1 show ?thesis
    using n progress_trans by (auto simp: enrich_person_def s1_def[symmetric] Let_def)
qed

lemma cache_person_true:
  assumes "resolver_inv s" and "cache_person_id (rs_cache s) org_id email = Some i"
  shows "get_person_id_by_email (rs_db s) org_id email = Some i"
proof -
  have "cache_lookup (rs_cache s) (Key_person org_id email) = Some (Val_id i)"
    using assms(2) by (simp add: cache_person_id_def id_of_Some)
  then show ?thesis using assms(1) cache_sound_lookup by (fastforce simp: resolver_inv_def)
qed

lemma cache_company_true:
  assumes "resolver_inv s" and "cache_company_id (rs_cache s) org_id key = Some i"
  shows "get_company_id_by_domain (rs_db s) org_id key = Some i"
proof -
  have "cache_lookup (rs_cache s) (Key_company org_id key) = Some (Val_id i)"
    using assms(2) by (simp add: cache_company_id_def id_of_Some)
  then show ?thesis using assms(1) cache_sound_lookup by (fastforce simp: resolver_inv_def)
qed

lemma find_person_sound:
  assumes r: "rival_ok e" and inv: "resolver_inv s" and run: "find_person e cfg org_id email name s = (got, s')"
  shows "progress s s'" and "got = Some i \<Longrightarrow> get_person_id_by_email (rs_db s') org_id email = Some i"
proof -
  have "progress s s' \<and> (\<forall>i. got = Some i \<longrightarrow> get_person_id_by_email (rs_db s') org_id email = Some i)"
  proof (cases "cache_person_id (rs_cache s) org_id email")
    case (Some j)
    then show ?thesis using cache_person_true[OF inv Some] inv run by (auto simp: find_person_def)
  next
    case c: None
    obtain got1 s1 where g: "(case get_person_id_by_email (rs_db s) org_id email of
        Some i \<Rightarrow> (Some i, s) | None \<Rightarrow> insert_person e cfg org_id email name s) = (got1, s1)" by fastforce
    have p: "progress s s1" and k: "got1 = Some j \<Longrightarrow> get_person_id_by_email (rs_db s1) org_id email = Some j" for j
      using g inv insert_person_sound[OF r inv] by (auto split: option.splits)
    have "progress s (stage_rs (stage_person org_id email j) s1)" if "got1 = Some j" for j
      using progress_trans[OF p] progress_stage[OF progress_inv[OF p], of "Key_person org_id email" "Val_id j"] k[OF that]
      by (simp add: stage_person_def)
    then show ?thesis using p k run by (auto simp: find_person_def c g stage_rs_def split: option.splits)
  qed
  then show "progress s s'" and "got = Some i \<Longrightarrow> get_person_id_by_email (rs_db s') org_id email = Some i" by blast+
qed

lemma find_company_sound:
  assumes r: "rival_ok e" and inv: "resolver_inv s" and run: "find_company e cfg org_id key s = (got, s')"
  shows "progress s s'" and "got = Some i \<Longrightarrow> get_company_id_by_domain (rs_db s') org_id key = Some i"
proof -
  have "progress s s' \<and> (\<forall>i. got = Some i \<longrightarrow> get_company_id_by_domain (rs_db s') org_id key = Some i)"
  proof (cases "cache_company_id (rs_cache s) org_id key")
    case (Some j)
    then show ?thesis using cache_company_true[OF inv Some] inv run by (auto simp: find_company_def)
  next
    case c: None
    obtain got1 s1 where g: "(case get_company_id_by_domain (rs_db s) org_id key of
        Some i \<Rightarrow> (Some i, s) | None \<Rightarrow> insert_company e cfg org_id key s) = (got1, s1)" by fastforce
    have p: "progress s s1" and k: "got1 = Some j \<Longrightarrow> get_company_id_by_domain (rs_db s1) org_id key = Some j" for j
      using g inv insert_company_sound[OF r inv] by (auto split: option.splits)
    have "progress s (stage_rs (stage_company org_id key j) s1)" if "got1 = Some j" for j
      using progress_trans[OF p] progress_stage[OF progress_inv[OF p], of "Key_company org_id key" "Val_id j"] k[OF that]
      by (simp add: stage_company_def)
    then show ?thesis using p k run by (auto simp: find_company_def c g stage_rs_def split: option.splits)
  qed
  then show "progress s s'" and "got = Some i \<Longrightarrow> get_company_id_by_domain (rs_db s') org_id key = Some i" by blast+
qed

lemma get_or_create_person_sound:
  assumes r: "rival_ok e" and inv: "resolver_inv s" and run: "get_or_create_person e cfg org_id email name s = (got, s')"
  shows "progress s s' \<and> (got = Some i \<longrightarrow> get_person_id_by_email (rs_db s') org_id email = Some i)"
proof -
  obtain got1 s1 where f: "find_person e cfg org_id email (clean_display_name name) s = (got1, s1)" by fastforce
  note fp = find_person_sound[OF r inv f]
  show ?thesis
  proof (cases got1)
    case None
    then show ?thesis using run f fp(1) by (simp add: get_or_create_person_def Let_def)
  next
    case (Some j)
    have e: "progress s1 (enrich_person cfg org_id j (clean_display_name name) s1)"
      by (rule enrich_person_progress[OF progress_inv[OF fp(1)] fp(2)[OF Some]])
    then show ?thesis
      using run f fp Some progress_trans[OF fp(1) e] progress_lookup(1)[OF e] by (auto simp: get_or_create_person_def Let_def)
  qed
qed

lemma record_observed_host_progress:
  assumes inv: "resolver_inv s" and i: "get_company_id_by_domain (rs_db s) org_id key = Some i"
  shows "progress s (record_observed_host cfg org_id i host s)"
proof -
  let ?r = "\<lparr>cd_org_id = org_id, cd_company_id = i, cd_domain = host, cd_source = Some (rf_source cfg)\<rparr>"
  have "company_fk_ok (rs_db s) org_id i" using inv i domain_fk by (auto simp: resolver_inv_def)
  then show ?thesis
    using inv record_and_stage[OF inv safe_add_domain add_domain_exists[of s ?r i]]
    by (simp add: record_observed_host_def stage_company_host_def)
qed

lemma get_or_create_company_sound:
  assumes r: "rival_ok e" and inv: "resolver_inv s" and run: "get_or_create_company e cfg org_id key host s = (got, s')"
  shows "progress s s' \<and> (got = Some i \<longrightarrow> get_company_id_by_domain (rs_db s') org_id key = Some i)"
proof -
  obtain got1 s1 where f: "find_company e cfg org_id key s = (got1, s1)" by fastforce
  note fp = find_company_sound[OF r inv f]
  show ?thesis
  proof (cases got1)
    case None
    then show ?thesis using run f fp(1) by (simp add: get_or_create_company_def)
  next
    case (Some j)
    have e: "progress s1 (if host \<noteq> key then record_observed_host cfg org_id j host s1 else s1)"
      using record_observed_host_progress[OF progress_inv[OF fp(1)] fp(2)[OF Some]] progress_inv[OF fp(1)] by simp
    then show ?thesis
      using run f fp Some progress_trans[OF fp(1) e] progress_lookup(2)[OF e] by (auto simp: get_or_create_company_def)
  qed
qed

lemma observe_company_sound:
  assumes r: "rival_ok e" and inv: "resolver_inv s" and run: "observe_company e cfg org_id email s = (got, s')"
  shows "progress s s' \<and> (got = Some (Some c) \<longrightarrow> company_fk_ok (rs_db s') org_id c)"
proof (cases "s' = s \<and> got = Some None")
  case True
  then show ?thesis using inv by simp
next
  case False
  then obtain host got1 where "get_or_create_company e cfg org_id (fold_to_registrable_domain (re_psl e) host) host s = (got1, s')"
    and "got = map_option Some got1"
    using run by (auto simp: observe_company_def Let_def split: option.splits if_splits prod.splits)
  from get_or_create_company_sound[OF r inv this(1), of c] this(2) show ?thesis
    using domain_fk progress_inv[of s s'] by (fastforce simp: resolver_inv_def)
qed

lemma observe_company_key:
  assumes r: "rival_ok e" and inv: "resolver_inv s" and run: "observe_company e cfg org_id email s = (Some (Some c), s')"
  shows "\<exists>key. get_company_id_by_domain (rs_db s') org_id key = Some c"
proof -
  obtain host where "get_or_create_company e cfg org_id (fold_to_registrable_domain (re_psl e) host) host s = (Some c, s')"
    using run by (auto simp: observe_company_def Let_def split: option.splits if_splits prod.splits)
  from get_or_create_company_sound[OF r inv this, of c] show ?thesis by blast
qed

lemma observe_seen_progress:
  assumes inv: "resolver_inv s" and i: "get_person_id_by_email (rs_db s) org_id email = Some i"
  shows "progress s (observe_seen org_id i t s)"
proof (cases t)
  case None
  then show ?thesis using inv by (simp add: observe_seen_def)
next
  case (Some u)
  have wf: "entity_wf (rs_db s)" using inv by (simp add: resolver_inv_def)
  let ?s = "s\<lparr>rs_db := extend_seen_window org_id i u (rs_db s)\<rparr>"
  have w: "progress s ?s" by (rule progress_write[OF inv extend_safe(1,2)[OF wf]])
  let ?v = "case cache_lookup (rs_cache s) (Key_seen org_id i) of Some (Val_window low high) \<Rightarrow> Val_window (min low u) (max high u)
    | _ \<Rightarrow> Val_window u u"
  have st: "stage_rs (stage_seen_window org_id i u) ?s = stage_rs (stage (Key_seen org_id i) ?v) ?s"
    by (auto simp: stage_rs_def stage_seen_window_def split: option.splits cache_value.splits)
  have "holds (rs_db s) (Key_seen org_id i) x" if "cache_lookup (rs_cache s) (Key_seen org_id i) = Some x" for x
    using inv that cache_sound_lookup by (fastforce simp: resolver_inv_def)
  then have "holds (rs_db ?s) (Key_seen org_id i) ?v"
    using extend_safe(3)[OF wf email_fk[OF wf i], of u] extend_safe(4)[OF wf]
    by (auto simp del: holds.simps split: option.splits cache_value.splits)
  then have "progress ?s (stage_rs (stage (Key_seen org_id i) ?v) ?s)" by (rule progress_stage[OF progress_inv[OF w]])
  then show ?thesis using progress_trans[OF w] Some inv st by (simp add: observe_seen_def)
qed

lemma link_person_company_progress:
  assumes inv: "resolver_inv s" and "person_fk_ok (rs_db s) org_id i" and "company_fk_ok (rs_db s) org_id c"
  shows "progress s (link_person_company org_id i c s)"
  using record_and_stage[OF inv safe_link_person link_person_exists[OF assms(2,3)]] inv
  by (simp add: link_person_company_def stage_person_company_link_def)

lemma resolve_participant_sound:
  assumes r: "rival_ok e" and inv: "resolver_inv s"
    and run: "resolve_participant e cfg org_id raw name seen allow s = (got, s')"
  shows "progress s s' \<and> (got = Some (Some i) \<longrightarrow> get_person_id_by_email (rs_db s') org_id (normalize_email raw) = Some i)"
proof -
  let ?n = "normalize_email raw"
  obtain c s1 where oc: "observe_company e cfg org_id ?n s = (c, s1)" by fastforce
  note p1 = observe_company_sound[OF r inv oc]
  have inv1: "resolver_inv s1" using p1 progress_inv by blast
  obtain g s2 where gp: "get_or_create_person e cfg org_id ?n name s1 = (g, s2)" by fastforce
  note p2 = get_or_create_person_sound[OF r inv1 gp]
  have p12: "progress s s2" using p1 p2 progress_trans by blast
  have last: "progress s2 (case co of None \<Rightarrow> observe_seen org_id j seen s2
        | Some x \<Rightarrow> link_person_company org_id j x (observe_seen org_id j seen s2))"
    if g: "g = Some j" and c: "c = Some co" for j co
  proof -
    have j: "get_person_id_by_email (rs_db s2) org_id ?n = Some j" using p2 g by blast
    have s3: "progress s2 (observe_seen org_id j seen s2)" (is "progress s2 ?s3")
      using observe_seen_progress[OF progress_inv[OF p12] j] .
    have wf: "entity_wf (rs_db ?s3)" using progress_inv[OF s3] by (simp add: resolver_inv_def)
    have fk: "person_fk_ok (rs_db ?s3) org_id j" using email_fk[OF wf progress_lookup(1)[OF s3 j]] .
    show ?thesis
    proof (cases co)
      case None
      then show ?thesis using s3 by simp
    next
      case (Some x)
      obtain d where d: "get_company_id_by_domain (rs_db s1) org_id d = Some x"
        using observe_company_key[OF r inv, of cfg org_id ?n x s1] oc c Some by blast
      have "company_fk_ok (rs_db ?s3) org_id x"
        using domain_fk[OF wf progress_lookup(2)[OF s3 progress_lookup(2)[OF conjunct1[OF p2[of j]] d]]] .
      from progress_trans[OF s3 link_person_company_progress[OF progress_inv[OF s3] fk this]] Some show ?thesis by simp
    qed
  qed
  show ?thesis
  proof (cases "py_rsplit1 CHR ''@'' ?n")
    case None
    then show ?thesis using run inv by (auto simp: resolve_participant_def)
  next
    case (Some ld)
    show ?thesis
    proof (cases "fst ld = [] \<or> snd ld = [] \<or> c = None \<or> \<not> allow \<or> is_role_address ?n \<or> g = None")
      case True
      then show ?thesis
        using run inv p1 p12 Some oc gp
        by (auto simp: resolve_participant_def Let_def split: prod.splits option.splits if_splits)
    next
      case False
      then obtain co j where c: "c = Some co" and g: "g = Some j" by (cases c; cases g) auto
      have run': "got = Some (Some j)" "s' = (case co of None \<Rightarrow> observe_seen org_id j seen s2
          | Some x \<Rightarrow> link_person_company org_id j x (observe_seen org_id j seen s2))"
        using run Some oc gp False c g by (auto simp: resolve_participant_def Let_def split: prod.splits)
      have j: "get_person_id_by_email (rs_db s2) org_id ?n = Some j" using p2 g by blast
      show ?thesis
        using run' last[OF g c] progress_trans[OF p12 last[OF g c]] progress_lookup(1)[OF last[OF g c] j] by auto
    qed
  qed
qed

section \<open>The memo is transparent\<close>

definition tables :: "resolver \<Rightarrow> entity_db \<times> nat" where
  "tables s = (rs_db s, rs_draws s)"

definition outcome :: "'a \<times> resolver \<Rightarrow> 'a \<times> entity_db \<times> nat" where
  "outcome x = (fst x, tables (snd x))"

lemma tables_simps [simp]:
  "tables (stage_rs g s) = tables s"
  "tables (s\<lparr>rs_cache := c\<rparr>) = tables s"
  "tables (snd (nested f s)) = ((case f (rs_db s) of Some db \<Rightarrow> db | None \<Rightarrow> rs_db s), rs_draws s)"
  by (simp_all add: tables_def stage_rs_def nested_result split: option.split)

lemma tables_eqD: "tables s = tables t \<Longrightarrow> rs_db s = rs_db t" "tables s = tables t \<Longrightarrow> rs_draws s = rs_draws t"
  by (simp_all add: tables_def)

lemma insert_person_cong:
  "tables s = tables t \<Longrightarrow> outcome (insert_person e cfg org_id email name s) = outcome (insert_person e cfg org_id email name t)"
  by (auto simp: insert_person_def outcome_def tables_def draw_id_def rival_def Let_def case_prod_beta nested_result
      split: option.splits)

lemma insert_company_cong:
  "tables s = tables t \<Longrightarrow> outcome (insert_company e cfg org_id key s) = outcome (insert_company e cfg org_id key t)"
  by (auto simp: insert_company_def outcome_def tables_def draw_id_def rival_def Let_def case_prod_beta nested_result
      split: option.splits)

text \<open>What each operation does to the tables, whatever true memo it consults.\<close>

lemma find_person_outcome:
  assumes "resolver_inv s"
  shows "outcome (find_person e cfg org_id email name s) =
    (case get_person_id_by_email (rs_db s) org_id email of
       Some i \<Rightarrow> (Some i, tables s) | None \<Rightarrow> outcome (insert_person e cfg org_id email name s))"
  using cache_person_true[OF assms, of org_id email]
  by (auto simp: find_person_def outcome_def split: option.splits prod.splits)

lemma find_company_outcome:
  assumes "resolver_inv s"
  shows "outcome (find_company e cfg org_id key s) =
    (case get_company_id_by_domain (rs_db s) org_id key of
       Some i \<Rightarrow> (Some i, tables s) | None \<Rightarrow> outcome (insert_company e cfg org_id key s))"
  using cache_company_true[OF assms, of org_id key]
  by (auto simp: find_company_def outcome_def split: option.splits prod.splits)

lemma memo_holds:
  assumes "resolver_inv s"
  shows "has_person_name (rs_cache s) org_id i \<Longrightarrow> holds (rs_db s) (Key_named org_id i) Val_true"
    and "has_alias (rs_cache s) org_id i a \<Longrightarrow> holds (rs_db s) (Key_alias org_id i a) Val_true"
    and "has_company_host (rs_cache s) org_id c h \<Longrightarrow> holds (rs_db s) (Key_host org_id c h) Val_true"
    and "has_person_company_link (rs_cache s) org_id i c \<Longrightarrow> holds (rs_db s) (Key_link org_id i c) Val_true"
  using assms cache_sound_lookup
  unfolding resolver_inv_def has_person_name_def has_alias_def has_company_host_def has_person_company_link_def by blast+

lemma enrich_person_tables:
  assumes "resolver_inv s" and "get_person_id_by_email (rs_db s) org_id email = Some i"
  shows "tables (enrich_person cfg org_id i name s) =
    (case name of
       None \<Rightarrow> rs_db s
     | Some n \<Rightarrow> if n = [] then rs_db s
         else (let db = backfill_display_name org_id i n (rs_db s)
               in case add_alias \<lparr>pa_org_id = org_id, pa_person_id = i, pa_alias = n, pa_source = Some (rf_source cfg)\<rparr> db of
                    Some db' \<Rightarrow> db' | None \<Rightarrow> db), rs_draws s)"
proof (cases "name = None \<or> name = Some []")
  case True
  then show ?thesis by (auto simp: enrich_person_def tables_def)
next
  case False
  then obtain n where n: "name = Some n" "n \<noteq> []" by auto
  let ?r = "\<lparr>pa_org_id = org_id, pa_person_id = i, pa_alias = n, pa_source = Some (rf_source cfg)\<rparr>"
  define s1 where "s1 = (if has_person_name (rs_cache s) org_id i then s
    else stage_rs (stage_person_name org_id i) (s\<lparr>rs_db := backfill_display_name org_id i n (rs_db s)\<rparr>))"
  have wf: "entity_wf (rs_db s)" using assms(1) by (simp add: resolver_inv_def)
  have t1: "tables s1 = (backfill_display_name org_id i n (rs_db s), rs_draws s)"
    using backfill_safe(4)[OF wf n(2)] memo_holds(1)[OF assms(1)] by (auto simp: s1_def tables_def stage_rs_def)
  have al: "add_alias ?r (rs_db s1) = None" if "has_alias (rs_cache s1) org_id i n"
  proof -
    have "has_alias (rs_cache s) org_id i n"
      using that by (auto simp: s1_def has_alias_def stage_rs_def stage_person_name_def stage_def cache_lookup_def
          split: if_splits option.splits)
    then have "holds (rs_db s1) (Key_alias org_id i n) Val_true"
      using memo_holds(2)[OF assms(1)] t1 by (simp add: tables_def backfill_display_name_def)
    then show ?thesis by (auto simp: add_alias_def)
  qed
  have db: "rs_db s1 = backfill_display_name org_id i n (rs_db s)" "rs_draws s1 = rs_draws s" using t1 by (simp_all add: tables_def)
  have "tables (enrich_person cfg org_id i name s) =
      (case add_alias ?r (rs_db s1) of Some db' \<Rightarrow> db' | None \<Rightarrow> rs_db s1, rs_draws s1)"
    using al n by (auto simp: enrich_person_def s1_def[symmetric] Let_def tables_def[of s1])
  then show ?thesis using n by (simp add: db Let_def split: option.split)
qed

lemma record_observed_host_tables:
  assumes "resolver_inv s"
  shows "tables (record_observed_host cfg org_id c host s) =
    (case add_domain \<lparr>cd_org_id = org_id, cd_company_id = c, cd_domain = host, cd_source = Some (rf_source cfg)\<rparr> (rs_db s) of
       Some db \<Rightarrow> db | None \<Rightarrow> rs_db s, rs_draws s)"
  using memo_holds(3)[OF assms, of org_id c host]
  by (auto simp: record_observed_host_def tables_def[of s] add_domain_def)

lemma link_person_company_tables:
  assumes "resolver_inv s"
  shows "tables (link_person_company org_id i c s) =
    (case link_person \<lparr>pc_org_id = org_id, pc_person_id = i, pc_company_id = c\<rparr> (rs_db s) of
       Some db \<Rightarrow> db | None \<Rightarrow> rs_db s, rs_draws s)"
  using memo_holds(4)[OF assms, of org_id i c]
  by (auto simp: link_person_company_def tables_def[of s] link_person_def)

lemma observe_seen_tables:
  assumes "resolver_inv s"
  shows "tables (observe_seen org_id i seen s) =
    (case seen of None \<Rightarrow> rs_db s | Some t \<Rightarrow> extend_seen_window org_id i t (rs_db s), rs_draws s)"
proof (cases seen)
  case None
  then show ?thesis by (simp add: observe_seen_def tables_def)
next
  case (Some t)
  have wf: "entity_wf (rs_db s)" using assms by (simp add: resolver_inv_def)
  have "extend_seen_window org_id i t (rs_db s) = rs_db s" if cov: "seen_window_covers (rs_cache s) org_id i t"
  proof -
    obtain low high where w: "cache_lookup (rs_cache s) (Key_seen org_id i) = Some (Val_window low high)" "low \<le> t" "t \<le> high"
      using cov by (auto simp: seen_window_covers_def split: option.splits cache_value.splits)
    then have "holds (rs_db s) (Key_seen org_id i) (Val_window low high)"
      using assms cache_sound_lookup unfolding resolver_inv_def by blast
    from extend_safe(5)[OF wf this w(2,3)] show ?thesis .
  qed
  then show ?thesis using Some by (simp add: observe_seen_def tables_def stage_rs_def)
qed

lemma outcome_eq: "outcome x = outcome y \<longleftrightarrow> fst x = fst y \<and> tables (snd x) = tables (snd y)"
  by (simp add: outcome_def)

lemma get_or_create_person_cong:
  assumes r: "rival_ok e" and inv: "resolver_inv s" "resolver_inv t" and eq: "tables s = tables t"
  shows "outcome (get_or_create_person e cfg org_id email name s) = outcome (get_or_create_person e cfg org_id email name t)"
proof -
  let ?n = "clean_display_name name"
  obtain g s1 where s1: "find_person e cfg org_id email ?n s = (g, s1)" by fastforce
  obtain h t1 where t1: "find_person e cfg org_id email ?n t = (h, t1)" by fastforce
  have "outcome (find_person e cfg org_id email ?n s) = outcome (find_person e cfg org_id email ?n t)"
    using eq insert_person_cong[OF eq] by (simp add: find_person_outcome inv tables_eqD[OF eq] split: option.split)
  then have eq1: "g = h" "tables s1 = tables t1" using s1 t1 by (simp_all add: outcome_eq)
  note p = find_person_sound[OF r inv(1) s1] and q = find_person_sound[OF r inv(2) t1]
  show ?thesis
  proof (cases g)
    case None
    then show ?thesis using s1 t1 eq1 by (simp add: get_or_create_person_def Let_def outcome_eq)
  next
    case (Some i)
    have "tables (enrich_person cfg org_id i ?n s1) = tables (enrich_person cfg org_id i ?n t1)"
      unfolding enrich_person_tables[OF progress_inv[OF p(1)] p(2)[OF Some]]
        enrich_person_tables[OF progress_inv[OF q(1)] q(2)[OF Some[unfolded eq1(1)]]] tables_eqD[OF eq1(2)] ..
    then show ?thesis
      using s1 t1 eq1(2) Some Some[unfolded eq1(1)] by (simp add: get_or_create_person_def Let_def outcome_eq)
  qed
qed

lemma get_or_create_company_cong:
  assumes r: "rival_ok e" and inv: "resolver_inv s" "resolver_inv t" and eq: "tables s = tables t"
  shows "outcome (get_or_create_company e cfg org_id key host s) = outcome (get_or_create_company e cfg org_id key host t)"
proof -
  obtain g s1 where s1: "find_company e cfg org_id key s = (g, s1)" by fastforce
  obtain h t1 where t1: "find_company e cfg org_id key t = (h, t1)" by fastforce
  have "outcome (find_company e cfg org_id key s) = outcome (find_company e cfg org_id key t)"
    using eq insert_company_cong[OF eq] by (simp add: find_company_outcome inv tables_eqD[OF eq] split: option.split)
  then have eq1: "g = h" "tables s1 = tables t1" using s1 t1 by (simp_all add: outcome_eq)
  have "resolver_inv s1" "resolver_inv t1"
    using find_company_sound(1)[OF r inv(1) s1] find_company_sound(1)[OF r inv(2) t1] progress_inv by blast+
  then show ?thesis
    using s1 t1 eq1 tables_eqD[OF eq1(2)]
    by (auto simp: get_or_create_company_def outcome_eq record_observed_host_tables split: option.splits)
qed

lemma observe_company_cong:
  assumes r: "rival_ok e" and inv: "resolver_inv s" "resolver_inv t" and eq: "tables s = tables t"
  shows "outcome (observe_company e cfg org_id email s) = outcome (observe_company e cfg org_id email t)"
  using get_or_create_company_cong[OF r inv eq] eq
  by (auto simp: observe_company_def outcome_eq Let_def case_prod_beta split: option.split)

text \<open>
  C24: the memo is transparent. From the same tables, with any memo whose entries are true (an empty one, for example), the
  resolver returns the same person, draws the same ids and leaves the same tables: what the memo skips is only work without effect.
\<close>

theorem memo_transparent:
  assumes r: "rival_ok e" and inv: "resolver_inv s" "resolver_inv t" and eq: "rs_db s = rs_db t" "rs_draws s = rs_draws t"
  shows "fst (resolve_participant e cfg org_id raw name seen allow s) = fst (resolve_participant e cfg org_id raw name seen allow t)
    \<and> rs_db (snd (resolve_participant e cfg org_id raw name seen allow s)) = rs_db (snd (resolve_participant e cfg org_id raw name seen allow t))
    \<and> rs_draws (snd (resolve_participant e cfg org_id raw name seen allow s)) = rs_draws (snd (resolve_participant e cfg org_id raw name seen allow t))"
proof -
  let ?n = "normalize_email raw"
  have eqt: "tables s = tables t" using eq by (simp add: tables_def)
  obtain c s1 where s1: "observe_company e cfg org_id ?n s = (c, s1)" by fastforce
  obtain d t1 where t1: "observe_company e cfg org_id ?n t = (d, t1)" by fastforce
  have eq1: "c = d" "tables s1 = tables t1" using observe_company_cong[OF r inv eqt, of cfg org_id ?n] s1 t1 by (simp_all add: outcome_eq)
  have inv1: "resolver_inv s1" "resolver_inv t1"
    using observe_company_sound[OF r inv(1) s1] observe_company_sound[OF r inv(2) t1] progress_inv by blast+
  obtain g s2 where s2: "get_or_create_person e cfg org_id ?n name s1 = (g, s2)" by fastforce
  obtain h t2 where t2: "get_or_create_person e cfg org_id ?n name t1 = (h, t2)" by fastforce
  have eq2: "g = h" "tables s2 = tables t2"
    using get_or_create_person_cong[OF r inv1 eq1(2), of cfg org_id ?n name] s2 t2 by (simp_all add: outcome_eq)
  note ps = get_or_create_person_sound[OF r inv1(1) s2] and pt = get_or_create_person_sound[OF r inv1(2) t2]
  have inv2: "resolver_inv s2" "resolver_inv t2" using ps pt progress_inv by blast+
  have last: "tables (observe_seen org_id i seen s2) = tables (observe_seen org_id i seen t2)"
    "tables (link_person_company org_id i x (observe_seen org_id i seen s2))
      = tables (link_person_company org_id i x (observe_seen org_id i seen t2))" if "g = Some i" for i x
  proof -
    have j: "get_person_id_by_email (rs_db s2) org_id ?n = Some i" "get_person_id_by_email (rs_db t2) org_id ?n = Some i"
      using ps pt that eq2 by blast+
    have inv3: "resolver_inv (observe_seen org_id i seen s2)" "resolver_inv (observe_seen org_id i seen t2)"
      using observe_seen_progress[OF inv2(1) j(1)] observe_seen_progress[OF inv2(2) j(2)] progress_inv by blast+
    show e3: "tables (observe_seen org_id i seen s2) = tables (observe_seen org_id i seen t2)"
      unfolding observe_seen_tables[OF inv2(1)] observe_seen_tables[OF inv2(2)] tables_eqD[OF eq2(2)] ..
    show "tables (link_person_company org_id i x (observe_seen org_id i seen s2))
      = tables (link_person_company org_id i x (observe_seen org_id i seen t2))"
      unfolding link_person_company_tables[OF inv3(1)] link_person_company_tables[OF inv3(2)] tables_eqD[OF e3] ..
  qed
  have "outcome (resolve_participant e cfg org_id raw name seen allow s) = outcome (resolve_participant e cfg org_id raw name seen allow t)"
    using s1 t1 s2 t2 eq1 eq2 eqt last
    by (auto simp: resolve_participant_def outcome_eq Let_def split: option.splits prod.splits)
  then show ?thesis by (simp add: outcome_eq tables_def)
qed

section \<open>Stable identities\<close>

text \<open>The same address in later mails: any sequence of resolutions, each possibly with other sessions at work.\<close>

inductive resolves :: "resolver_env \<Rightarrow> resolver_config \<Rightarrow> uuid \<Rightarrow> resolver \<Rightarrow> resolver \<Rightarrow> bool"
  for e :: resolver_env and cfg :: resolver_config and org_id :: uuid
where
  none: "resolves e cfg org_id s s"
| one: "resolves e cfg org_id s s1 \<Longrightarrow> resolves e cfg org_id s (snd (resolve_participant e cfg org_id raw name seen allow s1))"

lemma resolves_progress:
  assumes "resolves e cfg org_id s s'" and "rival_ok e" and "resolver_inv s"
  shows "progress s s'"
  using assms(1,3)
proof induction
  case (none s)
  then show ?case by simp
next
  case (one s s1 raw name seen allow)
  note IH = one.IH[OF one.prems]
  have "resolve_participant e cfg org_id raw name seen allow s1
      = (fst (resolve_participant e cfg org_id raw name seen allow s1), snd (resolve_participant e cfg org_id raw name seen allow s1))"
    by simp
  from resolve_participant_sound[OF assms(2) progress_inv[OF IH] this] IH show ?case using progress_trans by blast
qed

text \<open>
  An identity is stable. Once an address resolved to a person, every later resolution of any spelling of it (the same
  after trimming and lower-casing) that returns a person returns the same one, whatever was resolved in
  between and whatever other sessions inserted; and the person it names exists in that organization.
\<close>

theorem resolved_identity_stable:
  assumes r: "rival_ok e" and inv: "resolver_inv s"
    and first: "resolve_participant e cfg org_id raw name seen allow s = (Some (Some i), s1)"
    and later: "resolves e cfg org_id s1 s2" "normalize_email raw' = normalize_email raw"
    and again: "resolve_participant e cfg org_id raw' name' seen' allow' s2 = (Some (Some j), s3)"
  shows "j = i \<and> person_fk_ok (rs_db s3) org_id i"
proof -
  have p1: "progress s s1" "get_person_id_by_email (rs_db s1) org_id (normalize_email raw) = Some i"
    using resolve_participant_sound[OF r inv first] by blast+
  have p2: "progress s1 s2" by (rule resolves_progress[OF later(1) r progress_inv[OF p1(1)]])
  have p3: "progress s2 s3" "get_person_id_by_email (rs_db s3) org_id (normalize_email raw') = Some j"
    using resolve_participant_sound[OF r progress_inv[OF p2] again] by blast+
  have "get_person_id_by_email (rs_db s3) org_id (normalize_email raw) = Some i"
    using progress_lookup(1)[OF p3(1) progress_lookup(1)[OF p2 p1(2)]] .
  moreover have "entity_wf (rs_db s3)" using progress_inv[OF p3(1)] by (simp add: resolver_inv_def)
  ultimately show ?thesis using p3(2) later(2) email_fk by auto
qed

text \<open>
  The graph stays well-formed under races. A resolution keeps the constraints (one person per address, one company per
  domain, keys that exist), leaves no person without an address and no company without a domain even when its insert loses a race and is
  rolled back, keeps every fact and leaves a memo that is true.
\<close>

theorem resolution_keeps_graph:
  assumes "rival_ok e" and "resolver_inv s"
  shows "resolver_inv (snd (resolve_participant e cfg org_id raw name seen allow s))
    \<and> keeps_facts (rs_db s) (rs_db (snd (resolve_participant e cfg org_id raw name seen allow s)))"
  using resolve_participant_sound[OF assms, of cfg org_id raw name seen allow
      "fst (resolve_participant e cfg org_id raw name seen allow s)" "snd (resolve_participant e cfg org_id raw name seen allow s)"]
  by (simp add: progress_def)

lemma insert_company_people:
  "(\<And>k db. people (re_rival e k db) = people db) \<Longrightarrow> people (rs_db (snd (insert_company e cfg org_id key s))) = people (rs_db s)"
  by (auto simp: insert_company_def draw_id_def rival_def Let_def case_prod_beta nested_result insert_with_domain_def
      companies_insert_def add_domain_def split: option.split)

lemma observe_company_people:
  assumes "\<And>k db. people (re_rival e k db) = people db"
  shows "people (rs_db (snd (observe_company e cfg org_id email s))) = people (rs_db s)"
proof -
  have f: "people (rs_db (snd (find_company e cfg org_id key s))) = people (rs_db s)" for key
    using insert_company_people[OF assms, of cfg org_id key s]
    by (auto simp: find_company_def stage_rs_def split: option.splits prod.splits)
  have h: "people (rs_db (record_observed_host cfg org_id c host t)) = people (rs_db t)" for c host t
    by (auto simp: record_observed_host_def stage_rs_def nested_result add_domain_def split: option.split)
  show ?thesis
    using f h by (auto simp: observe_company_def get_or_create_company_def Let_def split: option.splits prod.splits)
      (metis f h snd_conv)+
qed

text \<open>
  Automation is not a person. For a role or automation mailbox, or where the caller does not allow a person, the resolver
  returns no person and the people table is untouched; at most the company of the domain is observed.
\<close>

theorem role_address_mints_nobody:
  assumes "is_role_address (normalize_email raw) \<or> \<not> allow" and "\<And>k db. people (re_rival e k db) = people db"
  shows "(\<forall>i. fst (resolve_participant e cfg org_id raw name seen allow s) \<noteq> Some (Some i))
    \<and> people (rs_db (snd (resolve_participant e cfg org_id raw name seen allow s))) = people (rs_db s)"
  using assms(1) observe_company_people[OF assms(2), of cfg org_id "normalize_email raw" s]
  by (auto simp: resolve_participant_def Let_def split: option.splits prod.splits)

section \<open>A concrete mailbox\<close>

definition demo_resolver_env :: resolver_env where
  "demo_resolver_env = \<lparr>re_psl = (\<lambda>d. d), re_ids = (\<lambda>n. 100 + n), re_now = 0, re_rival = (\<lambda>_ db. db)\<rparr>"

definition demo_resolver_config :: resolver_config where
  "demo_resolver_config = new_resolver_config demo_resolver_env ''me@acme.io'' ''imap''"

definition demo_resolver :: resolver where
  "demo_resolver = \<lparr>rs_db = \<lparr>people = [], person_emails = [], person_aliases = [], companies = [], company_domains = [],
     person_companies = []\<rparr>, rs_cache = new_cache, rs_draws = 0\<rparr>"

definition demo_resolve :: "string \<Rightarrow> resolver \<Rightarrow> uuid option option \<times> resolver" where
  "demo_resolve raw = resolve_participant demo_resolver_env demo_resolver_config 7 raw None (Some 5) True"

lemma demo_rival_ok: "rival_ok demo_resolver_env"
  by (simp add: rival_ok_def demo_resolver_env_def)

lemma demo_resolver_inv: "resolver_inv demo_resolver"
  by (simp add: resolver_inv_def demo_resolver_def entity_wf_def cache_sound_new)

lemma demo_resolves_twice:
  "(let r = demo_resolve ''B@gmx.de'' demo_resolver in fst r = Some (Some 100) \<and> fst (demo_resolve ''<b@GMX.de> '' (snd r)) = Some (Some 100))"
  by code_simp

definition demo_resolved :: resolver where
  "demo_resolved = snd (demo_resolve ''B@gmx.de'' demo_resolver)"

lemma demo_first: "resolve_participant demo_resolver_env demo_resolver_config 7 ''B@gmx.de'' None (Some 5) True demo_resolver
    = (Some (Some 100), demo_resolved)"
  and demo_again: "fst (resolve_participant demo_resolver_env demo_resolver_config 7 ''<b@GMX.de> '' None (Some 5) True demo_resolved)
    = Some (Some 100)"
  using demo_resolves_twice by (simp_all add: demo_resolve_def demo_resolved_def Let_def prod_eq_iff)

lemma demo_resolved_inv: "resolver_inv demo_resolved"
  using resolve_participant_sound[OF demo_rival_ok demo_resolver_inv demo_first, of 100] progress_inv by blast

theorem resolved_identity_stable_witness:
  "person_fk_ok (rs_db (snd (demo_resolve ''<b@GMX.de> '' demo_resolved))) 7 100"
proof -
  have n: "normalize_email ''<b@GMX.de> '' = normalize_email ''B@gmx.de''" by code_simp
  have again: "resolve_participant demo_resolver_env demo_resolver_config 7 ''<b@GMX.de> '' None (Some 5) True demo_resolved
      = (Some (Some 100), snd (demo_resolve ''<b@GMX.de> '' demo_resolved))"
    using demo_again by (simp add: demo_resolve_def prod_eq_iff)
  from resolved_identity_stable[OF demo_rival_ok demo_resolver_inv demo_first resolves.none n again] show ?thesis by simp
qed

theorem memo_transparent_witness:
  "fst (demo_resolve ''<b@GMX.de> '' (demo_resolved\<lparr>rs_cache := new_cache\<rparr>)) = Some (Some 100)"
proof -
  have "resolver_inv (demo_resolved\<lparr>rs_cache := new_cache\<rparr>)"
    using demo_resolved_inv by (simp add: resolver_inv_def cache_sound_new)
  from memo_transparent[OF demo_rival_ok demo_resolved_inv this, of demo_resolver_config 7 "''<b@GMX.de> ''" None "Some 5" True]
    demo_again show ?thesis by (simp add: demo_resolve_def)
qed

theorem resolution_keeps_graph_witness:
  "resolver_inv (snd (resolve_participant demo_resolver_env demo_resolver_config 7 ''x@y.z'' None None True demo_resolver))"
  using resolution_keeps_graph[OF demo_rival_ok demo_resolver_inv, of demo_resolver_config 7 "''x@y.z''" None None True] by simp

theorem role_address_mints_nobody_witness:
  "people (rs_db (snd (resolve_participant demo_resolver_env demo_resolver_config 7 ''noreply@y.z'' None None False demo_resolved)))
    = people (rs_db demo_resolved)"
  using role_address_mints_nobody[of "''noreply@y.z''" False demo_resolver_env demo_resolver_config 7 None None demo_resolved]
  by (simp add: demo_resolver_env_def)

end
