(* ===== verification/Fetch_Planner.thy ===== *)
theory Fetch_Planner
  imports Py_Strings
begin

text \<open>
  The pure helpers of the incremental mail fetch: byte-bounded batching and the contiguous cursor advance of
  \<open>connectors/imap/sync/fetch_planner.py\<close>, the UID sequence sets of \<open>connectors/imap/fetch_session.py\<close> and the
  ingest policy of \<open>connectors/imap/folder_policy.py\<close>.
\<close>

type_synonym uid = nat

section \<open>Batching by bytes\<close>

text \<open>The loop keeps the batches emitted so far, the open batch and its charge.\<close>

fun batch_loop :: "uid list \<Rightarrow> (uid \<rightharpoonup> int) \<Rightarrow> int \<Rightarrow> uid list list \<Rightarrow> uid list \<Rightarrow> int \<Rightarrow> uid list list" where
  "batch_loop [] sizes batch_bytes batches current running =
     (if current \<noteq> [] then batches @ [current] else batches)"
| "batch_loop (uid # uids) sizes batch_bytes batches current running =
     (let size = (case sizes uid of None \<Rightarrow> batch_bytes | Some s \<Rightarrow> s)
      in if current \<noteq> [] \<and> running + size > batch_bytes
         then batch_loop uids sizes batch_bytes (batches @ [current]) [uid] size
         else batch_loop uids sizes batch_bytes batches (current @ [uid]) (running + size))"

definition batch_by_bytes :: "uid list \<Rightarrow> (uid \<rightharpoonup> int) \<Rightarrow> int \<Rightarrow> uid list list" where
  "batch_by_bytes uids sizes batch_bytes = batch_loop uids sizes batch_bytes [] [] 0"

definition charge :: "(uid \<rightharpoonup> int) \<Rightarrow> int \<Rightarrow> uid \<Rightarrow> int" where
  "charge sizes batch_bytes u = (case sizes u of None \<Rightarrow> batch_bytes | Some s \<Rightarrow> s)"

text \<open>A batch is within the bound, or it is a single message that alone exceeds it.\<close>

definition batch_ok :: "(uid \<rightharpoonup> int) \<Rightarrow> int \<Rightarrow> uid list \<Rightarrow> bool" where
  "batch_ok sizes n b \<longleftrightarrow> b \<noteq> [] \<and> (length b = 1 \<or> sum_list (map (charge sizes n) b) \<le> n)"

lemma batch_loop_concat:
  "concat (batch_loop uids sizes n bs cur r) = concat bs @ cur @ uids"
  by (induction uids sizes n bs cur r rule: batch_loop.induct) (auto simp: Let_def)

lemma batch_loop_ok:
  assumes "\<forall>b \<in> set bs. batch_ok sizes n b" and "cur = [] \<and> r = 0 \<or> batch_ok sizes n cur"
    and "r = sum_list (map (charge sizes n) cur)"
  shows "\<forall>b \<in> set (batch_loop uids sizes n bs cur r). batch_ok sizes n b"
  using assms
proof (induction uids sizes n bs cur r rule: batch_loop.induct)
  case (2 u us sizes n bs cur r)
  let ?s = "charge sizes n u"
  have s: "(case sizes u of None \<Rightarrow> n | Some s \<Rightarrow> s) = ?s" by (simp add: charge_def)
  show ?case
  proof (cases "cur \<noteq> [] \<and> r + ?s > n")
    case True
    have "\<forall>b \<in> set (batch_loop us sizes n (bs @ [cur]) [u] ?s). batch_ok sizes n b"
      by (rule "2.IH"(1)[unfolded s]) (use True "2.prems" in \<open>auto simp: batch_ok_def\<close>)
    with True show ?thesis by (simp add: Let_def s)
  next
    case False
    have "\<forall>b \<in> set (batch_loop us sizes n bs (cur @ [u]) (r + ?s)). batch_ok sizes n b"
      by (rule "2.IH"(2)[unfolded s]) (use False "2.prems" in \<open>auto simp: batch_ok_def\<close>)
    with False show ?thesis by (auto simp: Let_def s)
  qed
qed auto

text \<open>
  Batching loses, repeats and reorders nothing: the batches put end to end are the requested UIDs; every
  batch is non-empty and stays within the byte bound unless it is one message that alone exceeds it.
\<close>

theorem batches_partition_uids:
  "concat (batch_by_bytes uids sizes n) = uids
   \<and> (\<forall>b \<in> set (batch_by_bytes uids sizes n).
        b \<noteq> [] \<and> (length b = 1 \<or> sum_list (map (charge sizes n) b) \<le> n))"
  using batch_loop_concat[of uids sizes n "[]" "[]" 0] batch_loop_ok[of "[]" sizes n "[]" 0 uids]
  by (simp add: batch_by_bytes_def batch_ok_def)

theorem batches_partition_uids_witness:
  "concat (batch_by_bytes [4, 7, 8] [4 \<mapsto> 3, 7 \<mapsto> 9] 10) = [4, 7, 8]
   \<and> batch_by_bytes [4, 7, 8] [4 \<mapsto> 3, 7 \<mapsto> 9] 10 = [[4], [7], [8]]"
  using batches_partition_uids[of "[4, 7, 8]" "[4 \<mapsto> 3, 7 \<mapsto> 9]" 10]
  by (simp add: batch_by_bytes_def Let_def)

section \<open>The contiguous advance\<close>

fun advance_loop :: "uid list \<Rightarrow> uid set \<Rightarrow> uid \<Rightarrow> uid \<Rightarrow> uid" where
  "advance_loop [] seen fl advanced = advanced"
| "advance_loop (uid # uids) seen fl advanced =
     (if uid \<le> fl then advance_loop uids seen fl advanced
      else if uid \<notin> seen then advanced
      else advance_loop uids seen fl uid)"

definition highest_contiguous_uid :: "uid list \<Rightarrow> uid set \<Rightarrow> uid \<Rightarrow> uid" where
  "highest_contiguous_uid candidates accounted fl = advance_loop candidates accounted fl fl"

text \<open>The loop returns the last element of the longest accounted prefix of the candidates above the floor.\<close>

lemma advance_loop_last:
  "advance_loop uids seen fl a = last (a # takeWhile (\<lambda>u. u \<in> seen) (filter (\<lambda>u. fl < u) uids))"
  by (induction uids seen fl a rule: advance_loop.induct) auto

lemma sorted_hd_le: "sorted xs \<Longrightarrow> v \<in> set xs \<Longrightarrow> hd xs \<le> (v :: uid)"
  by (cases xs) auto

lemma sorted_le_last: "sorted xs \<Longrightarrow> v \<in> set xs \<Longrightarrow> v \<le> (last xs :: uid)"
  by (induction xs) auto

lemma highest_contiguous_split:
  fixes fl :: uid
  assumes "sorted candidates"
  obtains T D where "filter (\<lambda>u. fl < u) candidates = T @ D" "set T \<subseteq> accounted"
    "highest_contiguous_uid candidates accounted fl = last (fl # T)"
    "D = [] \<or> hd D \<notin> accounted" "\<forall>t \<in> set T. \<forall>d \<in> set D. t < d" "\<forall>t \<in> set T. t \<le> last (fl # T)"
proof -
  let ?L = "filter (\<lambda>u. fl < u) candidates"
  let ?T = "takeWhile (\<lambda>u. u \<in> accounted) ?L" and ?D = "dropWhile (\<lambda>u. u \<in> accounted) ?L"
  have L: "?L = ?T @ ?D" by simp
  have srt: "sorted (?T @ ?D)" using assms by (simp add: sorted_wrt_filter)
  have hd: "?D = [] \<or> hd ?D \<notin> accounted" using hd_dropWhile by blast
  have T: "set ?T \<subseteq> accounted" by (auto dest: set_takeWhileD)
  have "t < d" if t: "t \<in> set ?T" and d: "d \<in> set ?D" for t d
  proof -
    have "?D \<noteq> []" using d by (metis empty_iff list.set(1))
    then have "hd ?D \<in> set ?D" by (rule hd_in_set)
    then have "t \<le> hd ?D" using srt t unfolding sorted_append by blast
    moreover have "t \<noteq> hd ?D" using t T hd \<open>?D \<noteq> []\<close> by blast
    moreover have "hd ?D \<le> d"
      using srt d sorted_hd_le[of ?D] unfolding sorted_append by blast
    ultimately show ?thesis by linarith
  qed
  moreover have "\<forall>t \<in> set ?T. t \<le> last (fl # ?T)"
  proof
    fix t assume t: "t \<in> set ?T"
    have "sorted ?T" using srt unfolding sorted_append by blast
    then have "t \<le> last ?T" using t by (rule sorted_le_last)
    moreover have "?T \<noteq> []" using t by (metis empty_iff list.set(1))
    ultimately show "t \<le> last (fl # ?T)" by simp
  qed
  moreover have "highest_contiguous_uid candidates accounted fl = last (fl # ?T)"
    by (simp only: highest_contiguous_uid_def advance_loop_last)
  ultimately show thesis by (intro that[of ?T ?D] L T hd) blast+
qed

lemma highest_contiguous_sound:
  assumes "sorted candidates"
  shows "fl \<le> highest_contiguous_uid candidates accounted fl"
    and "u \<in> set candidates \<Longrightarrow> fl < u \<Longrightarrow> u \<le> highest_contiguous_uid candidates accounted fl \<Longrightarrow> u \<in> accounted"
proof -
  obtain T D where f: "filter (\<lambda>u. fl < u) candidates = T @ D" "set T \<subseteq> accounted"
    "highest_contiguous_uid candidates accounted fl = last (fl # T)" "\<forall>t \<in> set T. \<forall>d \<in> set D. t < d"
    using highest_contiguous_split[OF assms] by metis
  have gt: "fl < t" if "t \<in> set T \<union> set D" for t
    using that f(1) by (metis (mono_tags, lifting) mem_Collect_eq set_append set_filter)
  show "fl \<le> highest_contiguous_uid candidates accounted fl"
    unfolding f(3) using gt[of "last T"] by (cases "T = []") (auto intro: less_imp_le)
  assume u: "u \<in> set candidates" "fl < u" "u \<le> highest_contiguous_uid candidates accounted fl"
  then have "u \<in> set T \<union> set D" using f(1) by (metis (mono_tags, lifting) mem_Collect_eq set_append set_filter)
  moreover have "u \<notin> set D"
  proof
    assume d: "u \<in> set D"
    show False
    proof (cases "T = []")
      case True
      with u f(3) show False by simp
    next
      case False
      then have "last T < u" using f(4) d by simp
      with u(3) False f(3) show False by simp
    qed
  qed
  ultimately show "u \<in> accounted" using f(2) by blast
qed

lemma highest_contiguous_member:
  assumes "sorted candidates"
  shows "highest_contiguous_uid candidates accounted fl = fl
    \<or> highest_contiguous_uid candidates accounted fl \<in> set candidates \<inter> accounted"
proof -
  obtain T D where f: "filter (\<lambda>u. fl < u) candidates = T @ D" "set T \<subseteq> accounted"
    "highest_contiguous_uid candidates accounted fl = last (fl # T)"
    using highest_contiguous_split[OF assms] by metis
  have "T = [] \<or> last T \<in> set candidates"
    using f(1) by (metis (mono_tags, lifting) Un_iff last_in_set mem_Collect_eq set_append set_filter)
  moreover have "T = [] \<or> last T \<in> accounted" using f(2) last_in_set by blast
  ultimately show ?thesis using f(3) by (cases "T = []") auto
qed

text \<open>
  The cursor advance is the furthest safe one. For candidates in ascending order the result is
  the floor or an accounted candidate, every candidate it passes is accounted, and it is maximal: either it reaches
  the last candidate, or the next candidate above it is not accounted.
\<close>

theorem advance_is_furthest_safe:
  assumes "sorted candidates"
  shows "(let r = highest_contiguous_uid candidates accounted fl in
     fl \<le> r \<and> (r = fl \<or> r \<in> set candidates \<inter> accounted)
     \<and> (\<forall>u \<in> set candidates. fl < u \<and> u \<le> r \<longrightarrow> u \<in> accounted)
     \<and> ((\<forall>u \<in> set candidates. u \<le> r)
        \<or> (\<exists>u \<in> set candidates. r < u \<and> u \<notin> accounted \<and> (\<forall>v \<in> set candidates. v \<le> r \<or> u \<le> v))))"
proof -
  obtain T D where f: "filter (\<lambda>u. fl < u) candidates = T @ D" "set T \<subseteq> accounted"
    "highest_contiguous_uid candidates accounted fl = last (fl # T)" "D = [] \<or> hd D \<notin> accounted"
    "\<forall>t \<in> set T. \<forall>d \<in> set D. t < d" "\<forall>t \<in> set T. t \<le> last (fl # T)"
    using highest_contiguous_split[OF assms] by metis
  let ?r = "highest_contiguous_uid candidates accounted fl"
  have mem: "u \<in> set T \<union> set D \<longleftrightarrow> u \<in> set candidates \<and> fl < u" for u
    using f(1) by (metis (mono_tags, lifting) mem_Collect_eq set_append set_filter)
  have r: "?r = fl \<or> ?r \<in> set candidates \<inter> accounted" by (rule highest_contiguous_member[OF assms])
  have below: "u \<le> ?r" if "u \<in> set candidates" "u \<notin> set D" for u
    using that mem[of u] f(3,6) highest_contiguous_sound(1)[OF assms]
    by (metis Un_iff leI le_trans less_imp_le)
  have "(\<forall>u \<in> set candidates. u \<le> ?r)
        \<or> (\<exists>u \<in> set candidates. ?r < u \<and> u \<notin> accounted \<and> (\<forall>v \<in> set candidates. v \<le> ?r \<or> u \<le> v))"
  proof (cases "D = []")
    case True
    then show ?thesis using below by simp
  next
    case False
    have "sorted D" using assms f(1) by (metis sorted_append sorted_wrt_filter)
    then have "hd D \<le> v" if "v \<in> set D" for v using that by (rule sorted_hd_le)
    moreover have "?r < hd D"
      using f(3,5) mem[of "hd D"] False by (cases "T = []") auto
    ultimately show ?thesis using f(4) False mem[of "hd D"] below by (intro disjI2 bexI[of _ "hd D"]) auto
  qed
  with r show ?thesis
    using highest_contiguous_sound[OF assms] unfolding Let_def by blast
qed

theorem advance_is_furthest_safe_witness:
  "highest_contiguous_uid [3, 5, 6, 9] {3, 5, 9} 2 = 5 \<and> 2 \<le> highest_contiguous_uid [3, 5, 6, 9] {3, 5, 9} 2"
proof (rule conjI)
  have "sorted [3, 5, 6, 9 :: uid]" by simp
  from advance_is_furthest_safe[OF this, of "{3, 5, 9}" 2, unfolded Let_def]
  show "2 \<le> highest_contiguous_uid [3, 5, 6, 9] {3, 5, 9} 2" by (rule conjunct1)
qed (simp add: highest_contiguous_uid_def)

section \<open>UID sequence sets\<close>

text \<open>\<open>str(n)\<close> for a non-negative integer, and \<open>sep.join\<close>.\<close>

fun str_nat :: "nat \<Rightarrow> string" where
  "str_nat n = (if n < 10 then [char_of (48 + n)] else str_nat (n div 10) @ [char_of (48 + n mod 10)])"

declare str_nat.simps [simp del]

fun py_join :: "string \<Rightarrow> string list \<Rightarrow> string" where
  "py_join sep [] = []"
| "py_join sep [x] = x"
| "py_join sep (x # y # xs) = x @ sep @ py_join sep (y # xs)"

text \<open>\<open>_imap_quote\<close>: backslashes are escaped first, then quotes, and both to a backslash and themselves.\<close>

definition imap_quote :: "string \<Rightarrow> string" where
  "imap_quote name =
     ''\"'' @ concat (map (\<lambda>c. if c = CHR 0x5C \<or> c = CHR 0x22 then [CHR 0x5C, c] else [c]) name) @ ''\"''"

fun compress_loop :: "uid \<Rightarrow> uid \<Rightarrow> uid list \<Rightarrow> (uid \<times> uid) list" where
  "compress_loop start previous [] = [(start, previous)]"
| "compress_loop start previous (uid # uids) =
     (if uid = previous + 1 then compress_loop start uid uids
      else (start, previous) # compress_loop uid uid uids)"

definition uid_atom :: "uid \<times> uid \<Rightarrow> string" where
  "uid_atom r = (case r of (start, previous) \<Rightarrow>
     if start = previous then str_nat start else str_nat start @ '':'' @ str_nat previous)"

text \<open>The source reads \<open>uids[0]\<close>; its only caller never passes the empty list.\<close>

definition uid_ranges :: "uid list \<Rightarrow> (uid \<times> uid) list" where
  "uid_ranges uids = (case uids of [] \<Rightarrow> [] | u # us \<Rightarrow> compress_loop u u us)"

definition compress_uid_ranges :: "uid list \<Rightarrow> string list" where
  "compress_uid_ranges uids = map uid_atom (uid_ranges uids)"

fun chunk_loop :: "string list \<Rightarrow> nat \<Rightarrow> string list \<Rightarrow> string list \<Rightarrow> nat \<Rightarrow> string list" where
  "chunk_loop [] max_chars chunks current len =
     (if current \<noteq> [] then chunks @ [py_join '','' current] else chunks)"
| "chunk_loop (atom # atoms) max_chars chunks current len =
     (if current \<noteq> [] \<and> len + length atom + 1 > max_chars
      then chunk_loop atoms max_chars (chunks @ [py_join '','' current]) [atom] (length atom + 1)
      else chunk_loop atoms max_chars chunks (current @ [atom]) (len + length atom + 1))"

definition chunk_uid_set :: "uid list \<Rightarrow> nat \<Rightarrow> string list" where
  "chunk_uid_set uids max_chars =
     (if uids = [] then []
      else chunk_loop (compress_uid_ranges (sort (remdups uids))) max_chars [] [] 0)"

definition MAX_UID_SET_CHARS :: nat where
  "MAX_UID_SET_CHARS = 7000"

lemma compress_loop_ranges:
  assumes "start \<le> previous" and "sorted_wrt (<) (previous # uids)"
  shows "(\<Union>(a, b) \<in> set (compress_loop start previous uids). {a..b}) = {start..previous} \<union> set uids"
  using assms
proof (induction start previous uids rule: compress_loop.induct)
  case (2 start previous u us)
  show ?case
  proof (cases "u = previous + 1")
    case True
    have "(\<Union>(a, b) \<in> set (compress_loop start u us). {a..b}) = {start..u} \<union> set us"
      by (rule "2.IH"(1)[OF True]) (use "2.prems" True in auto)
    moreover have "{start..u} = insert u {start..previous}" using True "2.prems"(1) by auto
    ultimately show ?thesis using True by simp
  next
    case False
    have "(\<Union>(a, b) \<in> set (compress_loop u u us). {a..b}) = {u..u} \<union> set us"
      by (rule "2.IH"(2)[OF False]) (use "2.prems" in auto)
    then show ?thesis using False by auto
  qed
qed simp

lemma uid_ranges_exact:
  "(\<Union>(a, b) \<in> set (uid_ranges (sort (remdups uids))). {a..b}) = set uids"
proof (cases "sort (remdups uids)")
  case Nil
  then have "set uids = {}" by (metis list.set(1) set_remdups set_sort)
  then show ?thesis using Nil by (simp add: uid_ranges_def)
next
  case (Cons u us)
  have "sorted_wrt (<) (u # us)"
    unfolding Cons[symmetric] strict_sorted_iff by simp
  then have "(\<Union>(a, b) \<in> set (compress_loop u u us). {a..b}) = set (u # us)"
    using compress_loop_ranges[of u u us] by simp
  then show ?thesis unfolding uid_ranges_def Cons by (metis Cons list.simps(5) set_remdups set_sort)
qed

text \<open>A joined group of atoms is one shorter than the sum the loop keeps.\<close>

lemma length_join: "g \<noteq> [] \<Longrightarrow> Suc (length (py_join '','' g)) = sum_list (map (\<lambda>a. length a + 1) g)"
  by (induction "'',''" g rule: py_join.induct) auto

definition group_ok :: "nat \<Rightarrow> string list \<Rightarrow> bool" where
  "group_ok n g \<longleftrightarrow> g \<noteq> [] \<and> (length g = 1 \<or> length (py_join '','' g) < n)"

lemma chunk_loop_groups:
  assumes "cur = [] \<or> group_ok n cur" and "len = sum_list (map (\<lambda>a. length a + 1) cur)"
  shows "\<exists>gs. chunk_loop atoms n chunks cur len = chunks @ map (py_join '','') gs
     \<and> concat gs = cur @ atoms \<and> (\<forall>g \<in> set gs. group_ok n g)"
  using assms
proof (induction atoms n chunks cur len rule: chunk_loop.induct)
  case (1 n chunks cur len)
  then show ?case by (cases "cur = []") (auto intro: exI[of _ "[]"] exI[of _ "[cur]"])
next
  case (2 a as n chunks cur len)
  show ?case
  proof (cases "cur \<noteq> [] \<and> len + length a + 1 > n")
    case True
    have "\<exists>gs. chunk_loop as n (chunks @ [py_join '','' cur]) [a] (length a + 1)
        = (chunks @ [py_join '','' cur]) @ map (py_join '','') gs \<and> concat gs = [a] @ as \<and> (\<forall>g \<in> set gs. group_ok n g)"
      by (rule "2.IH"(1)[OF True]) (simp_all add: group_ok_def)
    then obtain gs where gs: "chunk_loop as n (chunks @ [py_join '','' cur]) [a] (length a + 1)
        = (chunks @ [py_join '','' cur]) @ map (py_join '','') gs" "concat gs = [a] @ as" "\<forall>g \<in> set gs. group_ok n g"
      by blast
    then show ?thesis using True "2.prems"(1) by (intro exI[of _ "cur # gs"]) auto
  next
    case False
    have "group_ok n (cur @ [a])"
      using False "2.prems" length_join[of "cur @ [a]"] by (auto simp: group_ok_def)
    then have "\<exists>gs. chunk_loop as n chunks (cur @ [a]) (len + length a + 1) = chunks @ map (py_join '','') gs
        \<and> concat gs = (cur @ [a]) @ as \<and> (\<forall>g \<in> set gs. group_ok n g)"
      by (intro "2.IH"(2)[OF False]) (use "2.prems"(2) in auto)
    then show ?thesis unfolding chunk_loop.simps using False by auto
  qed
qed

text \<open>
  C32: the UID sets sent to the server name exactly the requested messages. The chunks are the comma-joined groups
  of a list of ranges that together cover the requested UIDs and nothing else, in order, and every chunk
  stays below the command-line bound unless it is one single range.
\<close>

theorem uid_chunks_exact:
  "\<exists>ranges groups. (\<Union>(a, b) \<in> set ranges. {a..b}) = set uids
     \<and> concat groups = map uid_atom ranges
     \<and> chunk_uid_set uids n = map (py_join '','') groups
     \<and> (\<forall>g \<in> set groups. g \<noteq> [] \<and> (length g = 1 \<or> length (py_join '','' g) < n))"
proof (cases "uids = []")
  case True
  then show ?thesis by (intro exI[of _ "[]"]) (simp add: chunk_uid_set_def)
next
  case False
  let ?rs = "uid_ranges (sort (remdups uids))"
  obtain gs where "chunk_loop (map uid_atom ?rs) n [] [] 0 = map (py_join '','') gs"
    "concat gs = map uid_atom ?rs" "\<forall>g \<in> set gs. group_ok n g"
    using chunk_loop_groups[of "[]" n 0 "map uid_atom ?rs" "[]"] by auto
  then show ?thesis
    using False uid_ranges_exact[of uids]
    by (intro exI[of _ ?rs] exI[of _ gs]) (simp add: chunk_uid_set_def compress_uid_ranges_def group_ok_def)
qed

theorem uid_chunks_exact_witness:
  "chunk_uid_set [9, 5, 6, 7, 5] 7 = [''5:7,9'']
   \<and> (\<exists>ranges. (\<Union>(a, b) \<in> set ranges. {a..b}) = set [9, 5, 6, 7, 5 :: uid])"
proof
  show "chunk_uid_set [9, 5, 6, 7, 5] 7 = [''5:7,9'']" by code_simp
  show "\<exists>ranges. (\<Union>(a, b) \<in> set ranges. {a..b}) = set [9, 5, 6, 7, 5 :: uid]"
    using uid_chunks_exact[of "[9, 5, 6, 7, 5]" 7] by blast
qed

section \<open>The folder ingest policy\<close>

definition BLOCKLIST_SPECIAL_USE :: "string list" where
  "BLOCKLIST_SPECIAL_USE = [CHR 0x5C # ''trash'', CHR 0x5C # ''junk'', CHR 0x5C # ''drafts'']"

definition BLOCKLIST_SEGMENT_NAMES :: "string list" where
  "BLOCKLIST_SEGMENT_NAMES =
     [''trash'', ''deleted'', ''deleted items'', ''deleted messages'', ''junk'', ''spam'', ''drafts'']"

definition is_blocklist_special_use :: "string list \<Rightarrow> bool" where
  "is_blocklist_special_use flags \<longleftrightarrow>
     list_ex (\<lambda>flag. List.member BLOCKLIST_SPECIAL_USE (py_lower (py_strip flag))) flags"

definition segment_split :: "string \<Rightarrow> string list" where
  "segment_split name = split_where (\<lambda>c. c = CHR ''.'' \<or> c = CHR ''/'') name"

definition is_excluded_folder :: "string \<Rightarrow> string list \<Rightarrow> bool" where
  "is_excluded_folder name special_use_flags =
     (if is_blocklist_special_use special_use_flags then True
      else list_ex (\<lambda>segment. List.member BLOCKLIST_SEGMENT_NAMES (py_lower (py_strip segment))) (segment_split name))"

lemma split_where_append_sep:
  "P c \<Longrightarrow> split_where P (s @ c # t) = split_where P s @ split_where P t"
proof (induction s)
  case (Cons x s)
  then show ?case by (cases "split_where P s") auto
qed simp

text \<open>
  The ingest policy is closed under the folder hierarchy: a folder is excluded by name exactly when one of the two
  parts around any separator is, so everything below (or above) an excluded segment is excluded and nothing else
  changes; and a special-use flag excludes a folder whatever its name.
\<close>

theorem excluded_folder_hierarchy:
  assumes "c = CHR ''.'' \<or> c = CHR ''/''"
  shows "(is_excluded_folder (parent @ c # child) [] \<longleftrightarrow> is_excluded_folder parent [] \<or> is_excluded_folder child [])
     \<and> (is_blocklist_special_use flags \<longrightarrow> is_excluded_folder name flags)
     \<and> (\<not> is_blocklist_special_use flags \<longrightarrow> is_excluded_folder name flags = is_excluded_folder name [])"
proof -
  have "segment_split (parent @ c # child) = segment_split parent @ segment_split child"
    unfolding segment_split_def by (rule split_where_append_sep) (use assms in blast)
  moreover have "\<not> is_blocklist_special_use []" by (simp add: is_blocklist_special_use_def)
  ultimately show ?thesis by (simp add: is_excluded_folder_def)
qed

theorem excluded_folder_hierarchy_witness:
  "is_excluded_folder ''INBOX.Trash.Ciela'' [] \<and> \<not> is_excluded_folder ''INBOX.Spam Reports'' []"
proof -
  have "is_excluded_folder ''Trash.Ciela'' []" "\<not> is_excluded_folder ''Spam Reports'' []" "\<not> is_excluded_folder ''INBOX'' []"
    by code_simp+
  then show ?thesis
    using excluded_folder_hierarchy[of "CHR ''.''" "''INBOX''" "''Trash.Ciela''"]
      excluded_folder_hierarchy[of "CHR ''.''" "''INBOX''" "''Spam Reports''"] by simp
qed

end
