(* ===== verification/Connector_Tables.thy ===== *)
theory Connector_Tables
  imports Audit_Trail Fetch_Planner
begin

text \<open>
  The Connect domain's data: the enumerations and exceptions of \<open>connectors/enums.py\<close> and
  \<open>connectors/exceptions.py\<close>, one record per table of \<open>connectors/models\<close> and \<open>connectors/imap/models\<close>, and the
  statements of \<open>connectors/repositories\<close> and \<open>connectors/imap/repositories\<close> as functions on the tables, with
  the unique constraints and the cascades the schema declares.
\<close>

section \<open>Enumerations and exceptions\<close>

datatype connector_type = imap

datatype auth_method = app_password

datatype connection_status = conn_configured | conn_connected | conn_error

datatype override_type = override_grant | override_deny

datatype sync_status = sync_idle | sync_running | sync_error

datatype run_status = run_running | run_succeeded | run_failed | run_abandoned

fun connector_type_value :: "connector_type \<Rightarrow> string" where
  "connector_type_value imap = ''imap''"

fun override_type_value :: "override_type \<Rightarrow> string" where
  "override_type_value override_grant = ''grant''"
| "override_type_value override_deny = ''deny''"

fun run_status_value :: "run_status \<Rightarrow> string" where
  "run_status_value run_running = ''running''"
| "run_status_value run_succeeded = ''succeeded''"
| "run_status_value run_failed = ''failed''"
| "run_status_value run_abandoned = ''abandoned''"

text \<open>\<open>ConnectorIntegrityError\<close> is the database's refusal of a statement that no service handles (a 500).\<close>

datatype connector_error =
    UnknownConnectorError string
  | ConnectorConsentRequiredError string
  | ConnectionNotFoundError string
  | ConnectorNotEntitledError string
  | ConnectorAccessDeniedError string
  | DuplicateConnectionError string
  | SyncAlreadyRunningError string
  | ConnectorDisabledError string
  | ConnectorConfigurationError string
  | ConnectorSecretError string
  | ConnectorIntegrityError

fun connector_http_status :: "connector_error \<Rightarrow> nat" where
  "connector_http_status (UnknownConnectorError _) = 400"
| "connector_http_status (ConnectorConsentRequiredError _) = 400"
| "connector_http_status (ConnectionNotFoundError _) = 404"
| "connector_http_status (ConnectorNotEntitledError _) = 403"
| "connector_http_status (ConnectorAccessDeniedError _) = 403"
| "connector_http_status (DuplicateConnectionError _) = 409"
| "connector_http_status (SyncAlreadyRunningError _) = 409"
| "connector_http_status (ConnectorDisabledError _) = 409"
| "connector_http_status (ConnectorConfigurationError _) = 503"
| "connector_http_status (ConnectorSecretError _) = 400"
| "connector_http_status ConnectorIntegrityError = 500"

section \<open>Tables\<close>

record connection =
  cn_id :: uuid
  cn_org_id :: uuid
  cn_connector_type :: connector_type
  cn_owner_user_id :: "uuid option"
  cn_display_name :: string
  cn_auth_method :: auth_method
  cn_username :: string
  cn_config :: "(string \<times> json) list"
  cn_secret_ciphertext :: string
  cn_secret_key_version :: int
  cn_status :: connection_status
  cn_last_checked_at :: "datetime option"
  cn_last_error :: "string option"
  cn_disabled_at :: "datetime option"
  cn_sync_status :: sync_status
  cn_sync_run_id :: "uuid option"
  cn_sync_started_at :: "datetime option"
  cn_sync_heartbeat_at :: "datetime option"
  cn_last_synced_at :: "datetime option"
  cn_synced_count :: int
  cn_total_count :: "int option"
  cn_last_sync_error :: "string option"
  cn_created_at :: datetime

record sync_cursor =
  sc_org_id :: uuid
  sc_connection_id :: uuid
  sc_folder :: string
  sc_uidvalidity :: "nat option"
  sc_last_seen_uid :: uid
  sc_failed_uids :: "uid list"

record sync_run =
  sr_id :: uuid
  sr_org_id :: uuid
  sr_connection_id :: uuid
  sr_run_id :: uuid
  sr_status :: run_status
  sr_started_at :: datetime
  sr_finished_at :: "datetime option"
  sr_messages_seen :: int
  sr_messages_stored :: int
  sr_messages_skipped :: int
  sr_messages_failed :: int
  sr_last_error :: "string option"

record consent =
  cs_id :: uuid
  cs_org_id :: uuid
  cs_user_id :: uuid
  cs_connector_type :: connector_type
  cs_scope :: string
  cs_method :: auth_method
  cs_granted_at :: datetime
  cs_withdrawn_at :: "datetime option"
  cs_ui_proof :: "(string \<times> json) list"

record entitlement =
  en_id :: uuid
  en_org_id :: uuid
  en_connector_type :: connector_type
  en_enabled :: bool
  en_set_by_platform_admin_id :: "uuid option"
  en_granted_at :: datetime
  en_revoked_at :: "datetime option"

record policy =
  po_org_id :: uuid
  po_connector_type :: connector_type
  po_org_wide_enabled :: bool
  po_set_by_user_id :: "uuid option"

record policy_override =
  ov_org_id :: uuid
  ov_user_id :: uuid
  ov_connector_type :: connector_type
  ov_override_type :: override_type
  ov_set_by_user_id :: "uuid option"

record connector_db =
  connections :: "connection list"
  sync_cursors :: "sync_cursor list"
  sync_runs :: "sync_run list"
  consents :: "consent list"
  entitlements :: "entitlement list"
  policies :: "policy list"
  overrides :: "policy_override list"

section \<open>Connections\<close>

text \<open>
  A flush of a new connection: the partial unique indexes compare shared connections of one organization and the
  connections of one owner; \<open>Inl True\<close> is their refusal, \<open>Inl False\<close> that of a foreign key.
\<close>

definition same_identity :: "connection \<Rightarrow> connection \<Rightarrow> bool" where
  "same_identity c d \<longleftrightarrow> cn_org_id c = cn_org_id d \<and> cn_owner_user_id c = cn_owner_user_id d
     \<and> cn_connector_type c = cn_connector_type d \<and> cn_username c = cn_username d"

definition connection_fk_ok :: "identity_db \<Rightarrow> connection \<Rightarrow> bool" where
  "connection_fk_ok idb c \<longleftrightarrow> (\<exists>g \<in> set (organizations idb). o_id g = cn_org_id c)
     \<and> (case cn_owner_user_id c of
          None \<Rightarrow> True
        | Some v \<Rightarrow> \<exists>u \<in> set (users idb). u_id u = v \<and> u_org_id u = cn_org_id c)"

definition connections_insert :: "identity_db \<Rightarrow> connection \<Rightarrow> connector_db \<Rightarrow> bool + connector_db" where
  "connections_insert idb c db =
     (if \<exists>d \<in> set (connections db). same_identity c d then Inl True
      else if \<not> connection_fk_ok idb c then Inl False
      else Inr (db\<lparr>connections := connections db @ [c]\<rparr>))"

definition connections_get_in_org :: "connector_db \<Rightarrow> uuid \<Rightarrow> uuid \<Rightarrow> connection option" where
  "connections_get_in_org db connection_id org_id =
     select_one (\<lambda>c. cn_id c = connection_id \<and> cn_org_id c = org_id) (connections db)"

definition connections_is_disabled :: "connector_db \<Rightarrow> uuid \<Rightarrow> uuid \<Rightarrow> bool" where
  "connections_is_disabled db org_id connection_id =
     (case select_one (\<lambda>c. cn_id c = connection_id \<and> cn_org_id c = org_id) (connections db) of
        None \<Rightarrow> False
      | Some c \<Rightarrow> cn_disabled_at c \<noteq> None)"

definition connections_list_for_org :: "connector_db \<Rightarrow> uuid \<Rightarrow> connection list" where
  "connections_list_for_org db org_id =
     order_desc (\<lambda>c. (cn_created_at c, cn_id c)) (select_where (\<lambda>c. cn_org_id c = org_id) (connections db))"

definition connections_get_shared_in_org :: "connector_db \<Rightarrow> uuid \<Rightarrow> uuid \<Rightarrow> connection option" where
  "connections_get_shared_in_org db connection_id org_id =
     select_one (\<lambda>c. cn_id c = connection_id \<and> cn_org_id c = org_id \<and> cn_owner_user_id c = None) (connections db)"

definition connections_list_shared_for_org :: "connector_db \<Rightarrow> uuid \<Rightarrow> connection list" where
  "connections_list_shared_for_org db org_id =
     order_desc (\<lambda>c. (cn_created_at c, cn_id c))
       (select_where (\<lambda>c. cn_org_id c = org_id \<and> cn_owner_user_id c = None) (connections db))"

definition connections_exists :: "connector_db \<Rightarrow> uuid \<Rightarrow> connector_type \<Rightarrow> string \<Rightarrow> bool" where
  "connections_exists db org_id ctype username \<longleftrightarrow>
     select_where (\<lambda>c. cn_org_id c = org_id \<and> cn_owner_user_id c = None \<and> cn_connector_type c = ctype
       \<and> cn_username c = username) (connections db) \<noteq> []"

definition connections_get_for_owner :: "connector_db \<Rightarrow> uuid \<Rightarrow> uuid \<Rightarrow> uuid \<Rightarrow> connection option" where
  "connections_get_for_owner db connection_id org_id owner =
     select_one (\<lambda>c. cn_id c = connection_id \<and> cn_org_id c = org_id \<and> cn_owner_user_id c = Some owner)
       (connections db)"

definition connections_list_for_owner :: "connector_db \<Rightarrow> uuid \<Rightarrow> uuid \<Rightarrow> connection list" where
  "connections_list_for_owner db org_id owner =
     order_desc (\<lambda>c. (cn_created_at c, cn_id c))
       (select_where (\<lambda>c. cn_org_id c = org_id \<and> cn_owner_user_id c = Some owner) (connections db))"

definition connections_exists_for_owner :: "connector_db \<Rightarrow> uuid \<Rightarrow> uuid \<Rightarrow> connector_type \<Rightarrow> string \<Rightarrow> bool" where
  "connections_exists_for_owner db org_id owner ctype username \<longleftrightarrow>
     select_where (\<lambda>c. cn_org_id c = org_id \<and> cn_owner_user_id c = Some owner \<and> cn_connector_type c = ctype
       \<and> cn_username c = username) (connections db) \<noteq> []"

text \<open>The flush of a loaded connection whose attributes changed.\<close>

definition connections_save :: "connection \<Rightarrow> connector_db \<Rightarrow> connector_db" where
  "connections_save c db = db\<lparr>connections := update_where (\<lambda>x. cn_id x = cn_id c) (\<lambda>_. c) (connections db)\<rparr>"

text \<open>Deleting a connection cascades to its cursors and runs.\<close>

definition connections_delete :: "connection \<Rightarrow> connector_db \<Rightarrow> connector_db" where
  "connections_delete c db = db\<lparr>
     connections := delete_where (\<lambda>x. cn_id x = cn_id c \<and> cn_org_id x = cn_org_id c) (connections db),
     sync_cursors := delete_where (\<lambda>x. sc_connection_id x = cn_id c \<and> sc_org_id x = cn_org_id c) (sync_cursors db),
     sync_runs := delete_where (\<lambda>x. sr_connection_id x = cn_id c \<and> sr_org_id x = cn_org_id c) (sync_runs db)\<rparr>"

subsection \<open>The claim and the fenced writes\<close>

text \<open>\<open>sync_heartbeat_at < now() - stale\<close> is unknown, hence false, for a null heartbeat.\<close>

definition claimable :: "datetime \<Rightarrow> uuid \<Rightarrow> uuid \<Rightarrow> int \<Rightarrow> connection \<Rightarrow> bool" where
  "claimable now org_id connection_id stale_seconds c \<longleftrightarrow>
     cn_id c = connection_id \<and> cn_org_id c = org_id \<and> cn_disabled_at c = None
     \<and> (cn_sync_status c \<noteq> sync_running
        \<or> (case cn_sync_heartbeat_at c of
             None \<Rightarrow> False
           | Some h \<Rightarrow> h < now - stale_seconds * usec_per_sec))"

definition claim_row :: "datetime \<Rightarrow> uuid \<Rightarrow> connection \<Rightarrow> connection" where
  "claim_row now run_id c = c\<lparr>cn_sync_status := sync_running, cn_sync_run_id := Some run_id,
     cn_sync_started_at := Some now, cn_sync_heartbeat_at := Some now, cn_synced_count := 0,
     cn_total_count := None, cn_last_sync_error := None\<rparr>"

definition claim_for_sync :: "datetime \<Rightarrow> uuid \<Rightarrow> uuid \<Rightarrow> uuid \<Rightarrow> int \<Rightarrow> connector_db \<Rightarrow> bool \<times> connector_db" where
  "claim_for_sync now org_id connection_id run_id stale_seconds db =
     (rowcount (claimable now org_id connection_id stale_seconds) (connections db) = 1,
      db\<lparr>connections := update_where (claimable now org_id connection_id stale_seconds) (claim_row now run_id)
           (connections db)\<rparr>)"

definition fenced :: "uuid \<Rightarrow> uuid \<Rightarrow> uuid \<Rightarrow> connection \<Rightarrow> bool" where
  "fenced org_id connection_id run_id c \<longleftrightarrow>
     cn_id c = connection_id \<and> cn_org_id c = org_id \<and> cn_sync_run_id c = Some run_id"

definition fenced_update ::
  "uuid \<Rightarrow> uuid \<Rightarrow> uuid \<Rightarrow> (connection \<Rightarrow> connection) \<Rightarrow> connector_db \<Rightarrow> bool \<times> connector_db" where
  "fenced_update org_id connection_id run_id f db =
     (rowcount (fenced org_id connection_id run_id) (connections db) > 0,
      db\<lparr>connections := update_where (fenced org_id connection_id run_id) f (connections db)\<rparr>)"

definition heartbeat :: "datetime \<Rightarrow> uuid \<Rightarrow> uuid \<Rightarrow> uuid \<Rightarrow> connector_db \<Rightarrow> bool \<times> connector_db" where
  "heartbeat now org_id connection_id run_id db =
     fenced_update org_id connection_id run_id (\<lambda>c. c\<lparr>cn_sync_heartbeat_at := Some now\<rparr>) db"

definition set_total :: "uuid \<Rightarrow> uuid \<Rightarrow> uuid \<Rightarrow> int \<Rightarrow> connector_db \<Rightarrow> bool \<times> connector_db" where
  "set_total org_id connection_id run_id n db =
     fenced_update org_id connection_id run_id (\<lambda>c. c\<lparr>cn_total_count := Some n\<rparr>) db"

definition set_synced_count :: "datetime \<Rightarrow> uuid \<Rightarrow> uuid \<Rightarrow> uuid \<Rightarrow> int \<Rightarrow> connector_db \<Rightarrow> bool \<times> connector_db" where
  "set_synced_count now org_id connection_id run_id n db =
     fenced_update org_id connection_id run_id
       (\<lambda>c. c\<lparr>cn_synced_count := n, cn_sync_heartbeat_at := Some now\<rparr>) db"

definition finalize_sync ::
  "datetime \<Rightarrow> uuid \<Rightarrow> uuid \<Rightarrow> uuid \<Rightarrow> sync_status \<Rightarrow> string option \<Rightarrow> connector_db \<Rightarrow> bool \<times> connector_db" where
  "finalize_sync now org_id connection_id run_id status err db =
     fenced_update org_id connection_id run_id
       (\<lambda>c. (c\<lparr>cn_sync_status := status, cn_last_sync_error := err, cn_sync_heartbeat_at := Some now\<rparr>)
            \<lparr>cn_last_synced_at := (if status = sync_idle then Some now else cn_last_synced_at c)\<rparr>) db"

section \<open>Cursors\<close>

text \<open>\<open>FolderSyncState\<close> per folder; the identity is unique, so the last row of the dict comprehension is the only one.\<close>

record folder_sync_state =
  fs_uidvalidity :: "nat option"
  fs_last_seen_uid :: uid
  fs_failed_uids :: "uid list"

definition cursor_at :: "uuid \<Rightarrow> uuid \<Rightarrow> string \<Rightarrow> sync_cursor \<Rightarrow> bool" where
  "cursor_at org_id connection_id folder c \<longleftrightarrow>
     sc_org_id c = org_id \<and> sc_connection_id c = connection_id \<and> sc_folder c = folder"

definition cursors_list_for_connection :: "connector_db \<Rightarrow> uuid \<Rightarrow> uuid \<Rightarrow> (string \<rightharpoonup> folder_sync_state)" where
  "cursors_list_for_connection db org_id connection_id =
     (\<lambda>folder. map_option (\<lambda>c. \<lparr>fs_uidvalidity = sc_uidvalidity c, fs_last_seen_uid = sc_last_seen_uid c,
                               fs_failed_uids = sc_failed_uids c\<rparr>)
        (select_one (cursor_at org_id connection_id folder) (sync_cursors db)))"

definition cursors_upsert ::
  "uuid \<Rightarrow> uuid \<Rightarrow> string \<Rightarrow> nat \<Rightarrow> uid \<Rightarrow> uid list \<Rightarrow> connector_db \<Rightarrow> connector_db" where
  "cursors_upsert org_id connection_id folder uidvalidity last_seen_uid failed_uids db =
     (if rowcount (cursor_at org_id connection_id folder) (sync_cursors db) = 0
      then db\<lparr>sync_cursors := sync_cursors db @
             [\<lparr>sc_org_id = org_id, sc_connection_id = connection_id, sc_folder = folder,
               sc_uidvalidity = Some uidvalidity, sc_last_seen_uid = last_seen_uid, sc_failed_uids = failed_uids\<rparr>]\<rparr>
      else db\<lparr>sync_cursors := update_where (cursor_at org_id connection_id folder)
             (\<lambda>c. c\<lparr>sc_uidvalidity := Some uidvalidity, sc_last_seen_uid := last_seen_uid,
                    sc_failed_uids := failed_uids\<rparr>) (sync_cursors db)\<rparr>)"

section \<open>The run ledger\<close>

definition start_run :: "datetime \<Rightarrow> uuid \<Rightarrow> uuid \<Rightarrow> uuid \<Rightarrow> uuid \<Rightarrow> connector_db \<Rightarrow> connector_db" where
  "start_run now i org_id connection_id run_id db =
     db\<lparr>sync_runs := sync_runs db @
       [\<lparr>sr_id = i, sr_org_id = org_id, sr_connection_id = connection_id, sr_run_id = run_id, sr_status = run_running,
         sr_started_at = now, sr_finished_at = None, sr_messages_seen = 0, sr_messages_stored = 0,
         sr_messages_skipped = 0, sr_messages_failed = 0, sr_last_error = None\<rparr>]\<rparr>"

record counts =
  ct_seen :: int
  ct_stored :: int
  ct_skipped :: int
  ct_failed :: int

definition runs_finalize ::
  "datetime \<Rightarrow> uuid \<Rightarrow> uuid \<Rightarrow> run_status \<Rightarrow> counts \<Rightarrow> string option \<Rightarrow> connector_db \<Rightarrow> connector_db" where
  "runs_finalize now org_id run_id status ct err db =
     db\<lparr>sync_runs := update_where (\<lambda>r. sr_org_id r = org_id \<and> sr_run_id r = run_id)
       (\<lambda>r. r\<lparr>sr_status := status, sr_finished_at := Some now, sr_messages_seen := ct_seen ct,
              sr_messages_stored := ct_stored ct, sr_messages_skipped := ct_skipped ct,
              sr_messages_failed := ct_failed ct, sr_last_error := err\<rparr>) (sync_runs db)\<rparr>"

definition mark_stale_running_abandoned :: "datetime \<Rightarrow> uuid \<Rightarrow> uuid \<Rightarrow> uuid \<Rightarrow> connector_db \<Rightarrow> connector_db" where
  "mark_stale_running_abandoned now org_id connection_id keep_run_id db =
     db\<lparr>sync_runs := update_where
       (\<lambda>r. sr_org_id r = org_id \<and> sr_connection_id r = connection_id \<and> sr_status r = run_running
            \<and> sr_run_id r \<noteq> keep_run_id)
       (\<lambda>r. r\<lparr>sr_status := run_abandoned, sr_finished_at := Some now\<rparr>) (sync_runs db)\<rparr>"

definition runs_list_for_connection :: "connector_db \<Rightarrow> uuid \<Rightarrow> uuid \<Rightarrow> nat \<Rightarrow> sync_run list" where
  "runs_list_for_connection db org_id connection_id limit =
     take limit (order_desc (\<lambda>r. (sr_started_at r, sr_id r))
       (select_where (\<lambda>r. sr_org_id r = org_id \<and> sr_connection_id r = connection_id) (sync_runs db)))"

section \<open>Consents, entitlements, policies and overrides\<close>

definition active_consent :: "uuid \<Rightarrow> uuid \<Rightarrow> connector_type \<Rightarrow> consent \<Rightarrow> bool" where
  "active_consent org_id user_id ctype c \<longleftrightarrow> cs_org_id c = org_id \<and> cs_user_id c = user_id
     \<and> cs_connector_type c = ctype \<and> cs_withdrawn_at c = None"

text \<open>
  Consents and overrides reference \<open>(org_id, user_id)\<close> of \<open>users\<close>, entitlements and policies their organization;
  a write that refers to a missing row is refused (\<open>None\<close>).
\<close>

definition user_fk_ok :: "identity_db \<Rightarrow> uuid \<Rightarrow> uuid \<Rightarrow> bool" where
  "user_fk_ok idb org_id user_id \<longleftrightarrow> (\<exists>u \<in> set (users idb). u_id u = user_id \<and> u_org_id u = org_id)"

definition org_fk_ok :: "identity_db \<Rightarrow> uuid \<Rightarrow> bool" where
  "org_fk_ok idb org_id \<longleftrightarrow> (\<exists>g \<in> set (organizations idb). o_id g = org_id)"

definition consents_insert :: "identity_db \<Rightarrow> consent \<Rightarrow> connector_db \<Rightarrow> connector_db option" where
  "consents_insert idb c db =
     (if user_fk_ok idb (cs_org_id c) (cs_user_id c) then Some (db\<lparr>consents := consents db @ [c]\<rparr>) else None)"

definition consents_get_active :: "connector_db \<Rightarrow> uuid \<Rightarrow> uuid \<Rightarrow> connector_type \<Rightarrow> consent option" where
  "consents_get_active db org_id user_id ctype =
     (case order_desc cs_granted_at (select_where (active_consent org_id user_id ctype) (consents db)) of
        [] \<Rightarrow> None
      | c # _ \<Rightarrow> Some c)"

definition consents_withdraw_active ::
  "datetime \<Rightarrow> uuid \<Rightarrow> uuid \<Rightarrow> connector_type \<Rightarrow> connector_db \<Rightarrow> nat \<times> connector_db" where
  "consents_withdraw_active now org_id user_id ctype db =
     (rowcount (active_consent org_id user_id ctype) (consents db),
      db\<lparr>consents := update_where (active_consent org_id user_id ctype)
           (\<lambda>c. c\<lparr>cs_withdrawn_at := Some now\<rparr>) (consents db)\<rparr>)"

definition entitlements_get :: "connector_db \<Rightarrow> uuid \<Rightarrow> connector_type \<Rightarrow> entitlement option" where
  "entitlements_get db org_id ctype =
     select_one (\<lambda>r. en_org_id r = org_id \<and> en_connector_type r = ctype) (entitlements db)"

definition entitlements_list_for_org :: "connector_db \<Rightarrow> uuid \<Rightarrow> entitlement list" where
  "entitlements_list_for_org db org_id = select_where (\<lambda>r. en_org_id r = org_id) (entitlements db)"

definition is_entitled :: "connector_db \<Rightarrow> uuid \<Rightarrow> connector_type \<Rightarrow> bool" where
  "is_entitled db org_id ctype =
     (case entitlements_get db org_id ctype of None \<Rightarrow> False | Some r \<Rightarrow> en_enabled r)"

definition entitlements_upsert ::
  "identity_db \<Rightarrow> datetime \<Rightarrow> uuid \<Rightarrow> uuid \<Rightarrow> connector_type \<Rightarrow> bool \<Rightarrow> uuid option \<Rightarrow> connector_db
    \<Rightarrow> (entitlement \<times> connector_db) option" where
  "entitlements_upsert idb now i org_id ctype enabled admin db =
     (let found = entitlements_get db org_id ctype;
          base = (case found of
              Some r \<Rightarrow> r
            | None \<Rightarrow> \<lparr>en_id = i, en_org_id = org_id, en_connector_type = ctype, en_enabled = True,
                       en_set_by_platform_admin_id = None, en_granted_at = now, en_revoked_at = None\<rparr>);
          row = (if enabled
                 then base\<lparr>en_enabled := True, en_set_by_platform_admin_id := admin, en_granted_at := now,
                           en_revoked_at := None\<rparr>
                 else base\<lparr>en_enabled := False, en_set_by_platform_admin_id := admin, en_revoked_at := Some now\<rparr>)
      in if \<not> org_fk_ok idb org_id then None else Some (row,
          db\<lparr>entitlements :=
               (case found of
                  None \<Rightarrow> entitlements db @ [row]
                | Some _ \<Rightarrow> update_where (\<lambda>r. en_org_id r = org_id \<and> en_connector_type r = ctype) (\<lambda>_. row)
                             (entitlements db))\<rparr>))"

definition policies_get :: "connector_db \<Rightarrow> uuid \<Rightarrow> connector_type \<Rightarrow> policy option" where
  "policies_get db org_id ctype =
     select_one (\<lambda>r. po_org_id r = org_id \<and> po_connector_type r = ctype) (policies db)"

definition policies_list_for_org :: "connector_db \<Rightarrow> uuid \<Rightarrow> policy list" where
  "policies_list_for_org db org_id = select_where (\<lambda>r. po_org_id r = org_id) (policies db)"

definition is_org_wide_enabled :: "connector_db \<Rightarrow> uuid \<Rightarrow> connector_type \<Rightarrow> bool" where
  "is_org_wide_enabled db org_id ctype =
     (case policies_get db org_id ctype of None \<Rightarrow> False | Some r \<Rightarrow> po_org_wide_enabled r)"

definition policies_upsert ::
  "identity_db \<Rightarrow> uuid \<Rightarrow> connector_type \<Rightarrow> bool \<Rightarrow> uuid option \<Rightarrow> connector_db \<Rightarrow> connector_db option" where
  "policies_upsert idb org_id ctype org_wide_enabled set_by db =
     (let row = \<lparr>po_org_id = org_id, po_connector_type = ctype, po_org_wide_enabled = org_wide_enabled,
                 po_set_by_user_id = set_by\<rparr>
      in if \<not> org_fk_ok idb org_id then None else Some (db\<lparr>policies :=
           (case policies_get db org_id ctype of
              None \<Rightarrow> policies db @ [row]
            | Some _ \<Rightarrow> update_where (\<lambda>r. po_org_id r = org_id \<and> po_connector_type r = ctype) (\<lambda>_. row)
                         (policies db))\<rparr>))"

definition overrides_get :: "connector_db \<Rightarrow> uuid \<Rightarrow> uuid \<Rightarrow> connector_type \<Rightarrow> policy_override option" where
  "overrides_get db org_id user_id ctype =
     select_one (\<lambda>r. ov_org_id r = org_id \<and> ov_user_id r = user_id \<and> ov_connector_type r = ctype) (overrides db)"

definition get_override_type :: "connector_db \<Rightarrow> uuid \<Rightarrow> uuid \<Rightarrow> connector_type \<Rightarrow> override_type option" where
  "get_override_type db org_id user_id ctype = map_option ov_override_type (overrides_get db org_id user_id ctype)"

definition overrides_list_for_type :: "connector_db \<Rightarrow> uuid \<Rightarrow> connector_type \<Rightarrow> policy_override list" where
  "overrides_list_for_type db org_id ctype =
     sort_key ov_user_id (select_where (\<lambda>r. ov_org_id r = org_id \<and> ov_connector_type r = ctype) (overrides db))"

definition overrides_upsert ::
  "identity_db \<Rightarrow> uuid \<Rightarrow> uuid \<Rightarrow> connector_type \<Rightarrow> override_type \<Rightarrow> uuid option \<Rightarrow> connector_db
    \<Rightarrow> connector_db option" where
  "overrides_upsert idb org_id user_id ctype otype set_by db =
     (let row = \<lparr>ov_org_id = org_id, ov_user_id = user_id, ov_connector_type = ctype, ov_override_type = otype,
                 ov_set_by_user_id = set_by\<rparr>
      in if \<not> user_fk_ok idb org_id user_id then None else Some (db\<lparr>overrides :=
           (case overrides_get db org_id user_id ctype of
              None \<Rightarrow> overrides db @ [row]
            | Some _ \<Rightarrow> update_where (\<lambda>r. ov_org_id r = org_id \<and> ov_user_id r = user_id \<and> ov_connector_type r = ctype)
                         (\<lambda>_. row) (overrides db))\<rparr>))"

definition overrides_delete :: "uuid \<Rightarrow> uuid \<Rightarrow> connector_type \<Rightarrow> connector_db \<Rightarrow> connector_db" where
  "overrides_delete org_id user_id ctype db =
     db\<lparr>overrides := delete_where
       (\<lambda>r. ov_org_id r = org_id \<and> ov_user_id r = user_id \<and> ov_connector_type r = ctype) (overrides db)\<rparr>"

end
