(* ===== verification/Mail_Tables.thy ===== *)
theory Mail_Tables
  imports Entity_Graph Connector_Tables
begin

text \<open>
  The stored mail and who may read it: what the parser delivers (\<open>connectors/imap/parsing/models.py\<close>,
  \<open>connectors/extraction/extraction_result.py\<close>), the tables of \<open>connectors/imap/models/email.py\<close> and \<open>access/models\<close> with their
  constraints, the statements of \<open>connectors/imap/repositories\<close> and \<open>access/repositories\<close>, and the reader's row-level policy.
  Column lengths are not modelled.
\<close>

section \<open>Parsed mail\<close>

datatype recipient_kind = kind_to | kind_cc | kind_bcc | kind_reply_to | kind_sender

record parsed_recipient =
  pr_kind :: recipient_kind
  pr_address :: string
  pr_name :: "string option"

record parsed_attachment =
  pt_filename :: "string option"
  pt_content_type :: string
  pt_size_bytes :: nat
  pt_content_hash :: string
  pt_is_inline :: bool
  pt_content_id :: "string option"
  pt_payload :: string

record parsed_email =
  pd_dedup_key :: string
  pd_message_id :: "string option"
  pd_in_reply_to :: "string option"
  pd_references :: "string list"
  pd_from_name :: "string option"
  pd_from_address :: "string option"
  pd_subject :: "string option"
  pd_sent_at :: "datetime option"
  pd_received_at :: "datetime option"
  pd_body_text :: string
  pd_recipients :: "parsed_recipient list"
  pd_attachments :: "parsed_attachment list"
  pd_direction :: "string option"
  pd_is_automated :: bool
  pd_is_automated_origin :: bool
  pd_is_reply :: bool
  pd_has_attachments :: bool
  pd_word_count :: nat
  pd_language :: "string option"
  pd_headers :: "(string \<times> string list) list"
  pd_parse_status :: string

record extraction_result =
  xr_text :: "string option"
  xr_status :: string
  xr_detail :: "string option"
  xr_extractor_name :: "string option"
  xr_extractor_version :: "string option"
  xr_structured :: "json option"

definition STATUS_PENDING :: string where
  "STATUS_PENDING = ''pending''"

section \<open>Tables\<close>

datatype visibility = scope_org | scope_restricted

record email_message =
  em_id :: uuid
  em_org_id :: uuid
  em_connection_id :: uuid
  em_visibility_scope :: visibility
  em_origin_scope :: visibility
  em_container_id :: uuid
  em_dedup_key :: string
  em_message_id :: "string option"
  em_in_reply_to :: "string option"
  em_references :: "string list option"
  em_from_name :: "string option"
  em_from_address :: "string option"
  em_from_person_id :: "uuid option"
  em_subject :: "string option"
  em_sent_at :: "datetime option"
  em_received_at :: "datetime option"
  em_body_text :: string
  em_direction :: "string option"
  em_is_automated :: bool
  em_is_reply :: bool
  em_has_attachments :: bool
  em_word_count :: nat
  em_language :: "string option"
  em_headers :: "(string \<times> string list) list"
  em_size_bytes :: nat
  em_parse_status :: string

record email_recipient =
  er_org_id :: uuid
  er_email_id :: uuid
  er_visibility_scope :: visibility
  er_origin_scope :: visibility
  er_container_id :: uuid
  er_kind :: recipient_kind
  er_name :: "string option"
  er_address :: string
  er_person_id :: "uuid option"

record email_attachment =
  ea_id :: uuid
  ea_org_id :: uuid
  ea_email_id :: uuid
  ea_visibility_scope :: visibility
  ea_origin_scope :: visibility
  ea_container_id :: uuid
  ea_filename :: "string option"
  ea_content_type :: string
  ea_size_bytes :: nat
  ea_content_hash :: string
  ea_is_inline :: bool
  ea_content_id :: "string option"
  ea_extracted_text :: "string option"
  ea_extraction_status :: string
  ea_extraction_detail :: "string option"
  ea_extractor_name :: "string option"
  ea_extractor_version :: "string option"
  ea_extracted_data :: "json option"
  ea_created_at :: datetime

datatype grant_object = obj_email_message | obj_mailbox

datatype provenance = prov_recipient | prov_sender | prov_owner

record acl_grant =
  ag_org_id :: uuid
  ag_person_id :: uuid
  ag_object_type :: grant_object
  ag_object_id :: uuid
  ag_connection_id :: "uuid option"
  ag_provenance :: provenance
  ag_granted_at :: datetime
  ag_revoked_at :: "datetime option"

datatype identity_type = id_auth | id_email

record source_identity =
  si_org_id :: uuid
  si_person_id :: uuid
  si_source_type :: identity_type
  si_external_id :: string
  si_verified :: bool

record visibility_promotion =
  vp_id :: uuid
  vp_org_id :: uuid
  vp_object_type :: grant_object
  vp_object_id :: uuid
  vp_from_scope :: visibility
  vp_to_scope :: visibility
  vp_approved_by_user_id :: uuid
  vp_audit_log_id :: uuid

record mail_db =
  md_entities :: entity_db
  email_messages :: "email_message list"
  email_recipients :: "email_recipient list"
  email_attachments :: "email_attachment list"
  acl_grants :: "acl_grant list"
  source_identities :: "source_identity list"
  promotions :: "visibility_promotion list"

section \<open>Email statements\<close>

text \<open>
  A new message meets the primary key, the dedup constraint \<open>uq_email_message_dedup\<close> and the foreign keys on the
  connection (whether it still exists is an argument) and on the sender's person.
\<close>

datatype insert_outcome = Inserted mail_db | Refused_dedup | Refused_other

definition same_dedup :: "uuid \<Rightarrow> uuid \<Rightarrow> string \<Rightarrow> email_message \<Rightarrow> bool" where
  "same_dedup org_id connection_id key m \<longleftrightarrow>
     em_org_id m = org_id \<and> em_connection_id m = connection_id \<and> em_dedup_key m = key"

definition opt_person_fk_ok :: "mail_db \<Rightarrow> uuid \<Rightarrow> uuid option \<Rightarrow> bool" where
  "opt_person_fk_ok db org_id p = (case p of None \<Rightarrow> True | Some i \<Rightarrow> person_fk_ok (md_entities db) org_id i)"

definition messages_insert :: "bool \<Rightarrow> email_message \<Rightarrow> mail_db \<Rightarrow> insert_outcome" where
  "messages_insert connection_exists m db =
     (if \<exists>x \<in> set (email_messages db). em_id x = em_id m then Refused_other
      else if \<exists>x \<in> set (email_messages db). same_dedup (em_org_id m) (em_connection_id m) (em_dedup_key m) x then Refused_dedup
      else if \<not> connection_exists \<or> \<not> opt_person_fk_ok db (em_org_id m) (em_from_person_id m) then Refused_other
      else Inserted (db\<lparr>email_messages := email_messages db @ [m]\<rparr>))"

definition get_message_id_by_dedup :: "mail_db \<Rightarrow> uuid \<Rightarrow> uuid \<Rightarrow> string \<Rightarrow> uuid option" where
  "get_message_id_by_dedup db org_id connection_id key =
     map_option em_id (select_one (same_dedup org_id connection_id key) (email_messages db))"

definition messages_get_in_org :: "mail_db \<Rightarrow> uuid \<Rightarrow> uuid \<Rightarrow> email_message option" where
  "messages_get_in_org db email_id org_id =
     select_one (\<lambda>m. em_id m = email_id \<and> em_org_id m = org_id) (email_messages db)"

text \<open>\<open>ORDER BY received_at DESC NULLS LAST, id DESC LIMIT\<close>.\<close>

definition messages_list_for_org :: "mail_db \<Rightarrow> uuid \<Rightarrow> nat \<Rightarrow> email_message list" where
  "messages_list_for_org db org_id limit =
     take limit (order_desc (\<lambda>m. (em_received_at m \<noteq> None, case em_received_at m of None \<Rightarrow> 0 | Some t \<Rightarrow> t, em_id m))
       (select_where (\<lambda>m. em_org_id m = org_id) (email_messages db)))"

definition message_fk_ok :: "mail_db \<Rightarrow> uuid \<Rightarrow> uuid \<Rightarrow> bool" where
  "message_fk_ok db org_id email_id \<longleftrightarrow> (\<exists>m \<in> set (email_messages db). em_id m = email_id \<and> em_org_id m = org_id)"

definition add_recipient :: "email_recipient \<Rightarrow> mail_db \<Rightarrow> mail_db option" where
  "add_recipient r db =
     (if (\<exists>x \<in> set (email_recipients db). er_email_id x = er_email_id r \<and> er_kind x = er_kind r \<and> er_address x = er_address r)
         \<or> \<not> message_fk_ok db (er_org_id r) (er_email_id r) \<or> \<not> opt_person_fk_ok db (er_org_id r) (er_person_id r)
      then None else Some (db\<lparr>email_recipients := email_recipients db @ [r]\<rparr>))"

definition add_attachment :: "email_attachment \<Rightarrow> mail_db \<Rightarrow> mail_db option" where
  "add_attachment a db =
     (if (\<exists>x \<in> set (email_attachments db). ea_id x = ea_id a) \<or> \<not> message_fk_ok db (ea_org_id a) (ea_email_id a)
      then None else Some (db\<lparr>email_attachments := email_attachments db @ [a]\<rparr>))"

definition get_prior_extraction :: "mail_db \<Rightarrow> uuid \<Rightarrow> string \<Rightarrow> string \<Rightarrow> email_attachment option" where
  "get_prior_extraction db org_id content_hash content_type =
     (case order_desc (\<lambda>a. (ea_created_at a, ea_id a))
             (select_where (\<lambda>a. ea_org_id a = org_id \<and> ea_content_hash a = content_hash
                \<and> ea_content_type a = content_type \<and> ea_extraction_status a \<noteq> STATUS_PENDING) (email_attachments db)) of
        [] \<Rightarrow> None
      | a # _ \<Rightarrow> Some a)"

section \<open>Grants and identities\<close>

definition live_grant :: "uuid \<Rightarrow> grant_object \<Rightarrow> uuid \<Rightarrow> acl_grant \<Rightarrow> bool" where
  "live_grant org_id otype object_id g \<longleftrightarrow>
     ag_org_id g = org_id \<and> ag_object_type g = otype \<and> ag_object_id g = object_id \<and> ag_revoked_at g = None"

text \<open>\<open>ON CONFLICT DO NOTHING\<close> covers the live partial unique index, not the foreign keys.\<close>

definition insert_live_grant ::
  "datetime \<Rightarrow> bool \<Rightarrow> uuid \<Rightarrow> uuid \<Rightarrow> grant_object \<Rightarrow> uuid \<Rightarrow> provenance \<Rightarrow> uuid option \<Rightarrow> mail_db \<Rightarrow> mail_db option" where
  "insert_live_grant now connection_exists org_id person_id otype object_id prov connection_id db =
     (if \<exists>g \<in> set (acl_grants db). live_grant org_id otype object_id g \<and> ag_person_id g = person_id then Some db
      else if \<not> person_fk_ok (md_entities db) org_id person_id \<or> (connection_id \<noteq> None \<and> \<not> connection_exists) then None
      else Some (db\<lparr>acl_grants := acl_grants db @
             [\<lparr>ag_org_id = org_id, ag_person_id = person_id, ag_object_type = otype, ag_object_id = object_id,
               ag_connection_id = connection_id, ag_provenance = prov, ag_granted_at = now, ag_revoked_at = None\<rparr>]\<rparr>))"

definition list_live_person_ids_for_object :: "mail_db \<Rightarrow> uuid \<Rightarrow> grant_object \<Rightarrow> uuid \<Rightarrow> uuid set" where
  "list_live_person_ids_for_object db org_id otype object_id =
     set (map ag_person_id (select_where (live_grant org_id otype object_id) (acl_grants db)))"

definition tombstone_grants ::
  "datetime \<Rightarrow> uuid \<Rightarrow> grant_object \<Rightarrow> uuid \<Rightarrow> uuid set \<Rightarrow> mail_db \<Rightarrow> nat \<times> mail_db" where
  "tombstone_grants now org_id otype object_id person_ids db =
     (if person_ids = {} then (0, db)
      else
        (let P = (\<lambda>g. live_grant org_id otype object_id g \<and> ag_person_id g \<in> person_ids)
         in (rowcount P (acl_grants db),
             db\<lparr>acl_grants := update_where P (\<lambda>g. g\<lparr>ag_revoked_at := Some now\<rparr>) (acl_grants db)\<rparr>)))"

definition tombstone_grants_for_person :: "datetime \<Rightarrow> uuid \<Rightarrow> uuid \<Rightarrow> mail_db \<Rightarrow> nat \<times> mail_db" where
  "tombstone_grants_for_person now org_id person_id db =
     (let P = (\<lambda>g. ag_org_id g = org_id \<and> ag_person_id g = person_id \<and> ag_revoked_at g = None)
      in (rowcount P (acl_grants db),
          db\<lparr>acl_grants := update_where P (\<lambda>g. g\<lparr>ag_revoked_at := Some now\<rparr>) (acl_grants db)\<rparr>))"

definition identity_add :: "source_identity \<Rightarrow> mail_db \<Rightarrow> mail_db option" where
  "identity_add r db =
     (if (\<exists>x \<in> set (source_identities db). si_org_id x = si_org_id r \<and> si_source_type x = si_source_type r
            \<and> si_external_id x = si_external_id r)
         \<or> \<not> person_fk_ok (md_entities db) (si_org_id r) (si_person_id r)
      then None else Some (db\<lparr>source_identities := source_identities db @ [r]\<rparr>))"

definition get_verified_person_id :: "mail_db \<Rightarrow> uuid \<Rightarrow> identity_type \<Rightarrow> string \<Rightarrow> uuid option" where
  "get_verified_person_id db org_id stype external_id =
     map_option si_person_id (select_one (\<lambda>r. si_org_id r = org_id \<and> si_source_type r = stype
       \<and> si_external_id r = external_id \<and> si_verified r) (source_identities db))"

definition get_verified_person_ids :: "mail_db \<Rightarrow> uuid \<Rightarrow> identity_type \<Rightarrow> string list \<Rightarrow> (string \<times> uuid) list" where
  "get_verified_person_ids db org_id stype external_ids =
     (if external_ids = [] then []
      else map (\<lambda>r. (si_external_id r, si_person_id r))
             (select_where (\<lambda>r. si_org_id r = org_id \<and> si_source_type r = stype
                \<and> si_external_id r \<in> set external_ids \<and> si_verified r) (source_identities db)))"

section \<open>Promotion statements and the reader's policy\<close>

definition get_email_message_for_promotion :: "mail_db \<Rightarrow> uuid \<Rightarrow> uuid \<Rightarrow> (uuid \<times> visibility) option" where
  "get_email_message_for_promotion db org_id message_id =
     map_option (\<lambda>m. (em_connection_id m, em_visibility_scope m))
       (select_one (\<lambda>m. em_org_id m = org_id \<and> em_id m = message_id) (email_messages db))"

definition get_connection_owner :: "connector_db \<Rightarrow> uuid \<Rightarrow> uuid \<Rightarrow> uuid option" where
  "get_connection_owner cdb org_id connection_id =
     (case select_one (\<lambda>c. cn_org_id c = org_id \<and> cn_id c = connection_id) (connections cdb) of
        None \<Rightarrow> None
      | Some c \<Rightarrow> cn_owner_user_id c)"

definition promote_email_message_to_org :: "uuid \<Rightarrow> uuid \<Rightarrow> mail_db \<Rightarrow> nat \<times> mail_db" where
  "promote_email_message_to_org org_id message_id db =
     (let P = (\<lambda>m. em_org_id m = org_id \<and> em_id m = message_id \<and> em_visibility_scope m \<noteq> scope_org);
          flipped = rowcount P (email_messages db);
          db1 = db\<lparr>email_messages := update_where P (\<lambda>m. m\<lparr>em_visibility_scope := scope_org\<rparr>) (email_messages db)\<rparr>
      in if flipped = 0 then (0, db1)
         else (flipped, db1\<lparr>
           email_recipients := update_where (\<lambda>r. er_org_id r = org_id \<and> er_email_id r = message_id)
             (\<lambda>r. r\<lparr>er_visibility_scope := scope_org\<rparr>) (email_recipients db1),
           email_attachments := update_where (\<lambda>a. ea_org_id a = org_id \<and> ea_email_id a = message_id)
             (\<lambda>a. a\<lparr>ea_visibility_scope := scope_org\<rparr>) (email_attachments db1)\<rparr>))"

text \<open>
  The reader role sees a content row of its organization when it is organization-wide or the session's person holds a live
  grant on the message. The lineage trigger rejects a restricted row shown to the organization without a promotion.
\<close>

definition reader_sees :: "mail_db \<Rightarrow> uuid \<Rightarrow> uuid option \<Rightarrow> uuid \<Rightarrow> visibility \<Rightarrow> uuid \<Rightarrow> bool" where
  "reader_sees db session_org person row_org scope message_id \<longleftrightarrow>
     row_org = session_org
     \<and> (scope = scope_org
        \<or> (\<exists>g \<in> set (acl_grants db). live_grant row_org obj_email_message message_id g \<and> Some (ag_person_id g) = person))"

definition lineage_guard :: "mail_db \<Rightarrow> uuid \<Rightarrow> visibility \<Rightarrow> visibility \<Rightarrow> uuid \<Rightarrow> bool" where
  "lineage_guard db org_id origin scope message_id \<longleftrightarrow>
     (origin = scope_restricted \<and> scope = scope_org \<longrightarrow>
        (\<exists>p \<in> set (promotions db). vp_org_id p = org_id \<and> vp_object_type p = obj_email_message \<and> vp_object_id p = message_id))"

end
