(* ===== verification/Grant_Writer.thy ===== *)
theory Grant_Writer
  imports Mail_Tables
begin

text \<open>
  The grants of an ingested message (\<open>access/services/grant_writer.py\<close>): which principals are derivable from the
  verified identities, the idempotent writing of their grants and the reconciliation that tombstones
  the others. Shown: after a reconciliation the live grants are exactly the derivable principals (unknown means denied), and
  the derivation is the maximum of the roles.
\<close>

section \<open>Python dictionaries\<close>

text \<open>A \<open>dict\<close> in insertion order: assignment keeps the place of a key that is there.\<close>

fun dict_set :: "'k \<Rightarrow> 'v \<Rightarrow> ('k \<times> 'v) list \<Rightarrow> ('k \<times> 'v) list" where
  "dict_set k v [] = [(k, v)]"
| "dict_set k v ((j, w) # d) = (if j = k then (k, v) # d else (j, w) # dict_set k v d)"

definition dict_setdefault :: "'k \<Rightarrow> 'v \<Rightarrow> ('k \<times> 'v) list \<Rightarrow> ('k \<times> 'v) list" where
  "dict_setdefault k v d = (case map_of d k of None \<Rightarrow> d @ [(k, v)] | Some _ \<Rightarrow> d)"

lemma map_of_dict_set [simp]: "map_of (dict_set k v d) = (map_of d)(k \<mapsto> v)"
  by (induction d) auto

lemma dict_set_keys [simp]: "fst ` set (dict_set k v d) = insert k (fst ` set d)"
  by (simp flip: dom_map_of_conv_image_fst)

lemma distinct_dict_set: "distinct (map fst d) \<Longrightarrow> distinct (map fst (dict_set k v d))"
  by (induction d) auto

lemma map_of_dict_setdefault: "map_of (dict_setdefault k v d) k' = (if k' = k \<and> map_of d k = None then Some v else map_of d k')"
  by (auto simp: dict_setdefault_def map_add_def split: option.splits)

lemma dict_setdefault_keys [simp]: "fst ` set (dict_setdefault k v d) = insert k (fst ` set d)"
  by (auto simp: dict_setdefault_def map_of_eq_None_iff image_iff split: option.splits dest!: map_of_SomeD) force

section \<open>The derivation\<close>

fun PROVENANCE_RANK :: "provenance \<Rightarrow> nat" where
  "PROVENANCE_RANK prov_recipient = 0"
| "PROVENANCE_RANK prov_sender = 1"
| "PROVENANCE_RANK prov_owner = 2"

fun recipient_roles :: "string list \<Rightarrow> (string \<times> provenance) list \<Rightarrow> (string \<times> provenance) list" where
  "recipient_roles [] roles = roles"
| "recipient_roles (a # as) roles =
     (let normalized = normalize_email a
      in recipient_roles as (if normalized \<noteq> [] then dict_setdefault normalized prov_recipient roles else roles))"

definition address_roles :: "string option \<Rightarrow> string list \<Rightarrow> (string \<times> provenance) list" where
  "address_roles sender_address recipient_addresses =
     (let roles = recipient_roles recipient_addresses []
      in case sender_address of
           None \<Rightarrow> roles
         | Some a \<Rightarrow>
           if a = [] then roles
           else (let n = normalize_email a in if n \<noteq> [] then dict_set n prov_sender roles else roles))"

fun merge_principals ::
  "(string \<rightharpoonup> provenance) \<Rightarrow> (string \<times> uuid) list \<Rightarrow> (uuid \<times> provenance) list \<Rightarrow> (uuid \<times> provenance) list" where
  "merge_principals roles [] principals = principals"
| "merge_principals roles ((normalized, person_id) # rs) principals =
     (case roles normalized of
        None \<Rightarrow> merge_principals roles rs principals
      | Some role \<Rightarrow>
        merge_principals roles rs
          (case map_of principals person_id of
             None \<Rightarrow> dict_set person_id role principals
           | Some held \<Rightarrow> if PROVENANCE_RANK role > PROVENANCE_RANK held then dict_set person_id role principals else principals))"

definition derive_email_principal_roles ::
  "(uuid \<Rightarrow> string) \<Rightarrow> mail_db \<Rightarrow> uuid \<Rightarrow> uuid option \<Rightarrow> string option \<Rightarrow> string list \<Rightarrow> (uuid \<times> provenance) list" where
  "derive_email_principal_roles str_of db org_id owner_user_id sender_address recipient_addresses =
     (let roles = address_roles sender_address recipient_addresses;
          resolved = get_verified_person_ids db org_id id_email (map fst roles);
          principals = merge_principals (map_of roles) resolved []
      in case owner_user_id of
           None \<Rightarrow> principals
         | Some u \<Rightarrow>
           (case get_verified_person_id db org_id id_auth (str_of u) of
              None \<Rightarrow> principals
            | Some p \<Rightarrow> dict_set p prov_owner principals))"

section \<open>Writing and reconciling\<close>

record grant_env =
  ge_now :: datetime
  ge_str_of :: "uuid \<Rightarrow> string"
  ge_connection_exists :: bool

fun write_grants ::
  "grant_env \<Rightarrow> uuid \<Rightarrow> uuid \<Rightarrow> uuid \<Rightarrow> (uuid \<times> provenance) list \<Rightarrow> mail_db \<Rightarrow> mail_db option" where
  "write_grants ge org_id message_id connection_id [] db = Some db"
| "write_grants ge org_id message_id connection_id ((p, prov) # ps) db =
     (case insert_live_grant (ge_now ge) (ge_connection_exists ge) org_id p obj_email_message message_id prov (Some connection_id) db of
        None \<Rightarrow> None
      | Some db' \<Rightarrow> write_grants ge org_id message_id connection_id ps db')"

text \<open>The principals granted and the tables, or \<open>None\<close> for the \<open>IntegrityError\<close> of a foreign key.\<close>

definition write_email_grants ::
  "grant_env \<Rightarrow> uuid \<Rightarrow> uuid \<Rightarrow> uuid \<Rightarrow> uuid option \<Rightarrow> string option \<Rightarrow> string list \<Rightarrow> mail_db \<Rightarrow> (uuid set \<times> mail_db) option" where
  "write_email_grants ge org_id message_id connection_id owner sender recipients db =
     (let principals = derive_email_principal_roles (ge_str_of ge) db org_id owner sender recipients
      in case write_grants ge org_id message_id connection_id principals db of
           None \<Rightarrow> None
         | Some db' \<Rightarrow> Some (set (map fst principals), db'))"

definition reconcile_email_message_grants ::
  "grant_env \<Rightarrow> uuid \<Rightarrow> uuid \<Rightarrow> uuid \<Rightarrow> uuid option \<Rightarrow> string option \<Rightarrow> string list \<Rightarrow> mail_db \<Rightarrow> (nat \<times> mail_db) option" where
  "reconcile_email_message_grants ge org_id message_id connection_id owner sender recipients db =
     (case write_email_grants ge org_id message_id connection_id owner sender recipients db of
        None \<Rightarrow> None
      | Some (derivable, db1) \<Rightarrow>
        (let live = list_live_person_ids_for_object db1 org_id obj_email_message message_id
         in Some (tombstone_grants (ge_now ge) org_id obj_email_message message_id (live - derivable) db1)))"

section \<open>Who is derivable\<close>

definition verified_email :: "mail_db \<Rightarrow> uuid \<Rightarrow> string \<Rightarrow> uuid \<Rightarrow> bool" where
  "verified_email db org_id a p \<longleftrightarrow> (\<exists>r \<in> set (source_identities db). si_org_id r = org_id \<and> si_source_type r = id_email
     \<and> si_external_id r = a \<and> si_verified r \<and> si_person_id r = p)"

lemma recipient_roles_keys:
  "fst ` set (recipient_roles as roles) = fst ` set roles \<union> {n. n \<noteq> [] \<and> n \<in> normalize_email ` set as}"
  by (induction as roles rule: recipient_roles.induct) (auto simp: Let_def)

lemma address_roles_keys:
  "fst ` set (address_roles sender as) =
     {n. n \<noteq> [] \<and> (n \<in> normalize_email ` set as \<or> (\<exists>a. sender = Some a \<and> a \<noteq> [] \<and> n = normalize_email a))}"
  by (auto simp: address_roles_def Let_def recipient_roles_keys split: option.splits)

lemma merge_principals_keys:
  "fst ` set (merge_principals roles rs ps) = fst ` set ps \<union> {p. \<exists>a. (a, p) \<in> set rs \<and> roles a \<noteq> None}"
proof (induction roles rs ps rule: merge_principals.induct)
  case (2 roles a p rs ps)
  have held: "p \<in> fst ` set ps" if "map_of ps p = Some h" for h
    using that by (metis image_eqI fst_conv map_of_SomeD)
  show ?case
    using 2 held by (auto split: option.splits if_splits)
qed simp

lemma verified_ids:
  "(a, p) \<in> set (get_verified_person_ids db org_id id_email as) \<longleftrightarrow> a \<in> set as \<and> verified_email db org_id a p"
  by (auto simp: get_verified_person_ids_def verified_email_def select_where_def)

text \<open>
  The derivable principals: the persons behind a verified email identity of a (non-empty, normalized) recipient or sender address,
  and the person verified behind the owner's login. Nobody else.
\<close>

lemma derivable_iff:
  "p \<in> fst ` set (derive_email_principal_roles str_of db org_id owner sender as) \<longleftrightarrow>
     (\<exists>n. n \<noteq> [] \<and> (n \<in> normalize_email ` set as \<or> (\<exists>a. sender = Some a \<and> a \<noteq> [] \<and> n = normalize_email a))
        \<and> verified_email db org_id n p)
     \<or> (\<exists>u. owner = Some u \<and> get_verified_person_id db org_id id_auth (str_of u) = Some p)"
proof -
  let ?roles = "address_roles sender as"
  let ?m = "merge_principals (map_of ?roles) (get_verified_person_ids db org_id id_email (map fst ?roles)) []"
  have "p \<in> fst ` set ?m \<longleftrightarrow> (\<exists>n \<in> fst ` set ?roles. verified_email db org_id n p)"
    by (auto simp: merge_principals_keys verified_ids map_of_eq_None_iff)
  also have "\<dots> \<longleftrightarrow> (\<exists>n. n \<noteq> [] \<and> (n \<in> normalize_email ` set as \<or> (\<exists>a. sender = Some a \<and> a \<noteq> [] \<and> n = normalize_email a))
        \<and> verified_email db org_id n p)"
    by (auto simp: address_roles_keys)
  finally have m: "p \<in> fst ` set ?m \<longleftrightarrow> (\<exists>n. n \<noteq> [] \<and> (n \<in> normalize_email ` set as
      \<or> (\<exists>a. sender = Some a \<and> a \<noteq> [] \<and> n = normalize_email a)) \<and> verified_email db org_id n p)" .
  have "p \<in> fst ` set (derive_email_principal_roles str_of db org_id owner sender as) \<longleftrightarrow> p \<in> fst ` set ?m
      \<or> (\<exists>u. owner = Some u \<and> get_verified_person_id db org_id id_auth (str_of u) = Some p)"
  proof (cases owner)
    case None
    then show ?thesis by (simp add: derive_email_principal_roles_def Let_def)
  next
    case (Some u)
    then show ?thesis
      by (cases "get_verified_person_id db org_id id_auth (str_of u)")
        (simp add: derive_email_principal_roles_def Let_def; blast)+
  qed
  then show ?thesis unfolding m .
qed

section \<open>What the writes do\<close>

text \<open>Only the grant table changes.\<close>

definition only_grants :: "mail_db \<Rightarrow> mail_db \<Rightarrow> bool" where
  "only_grants db db' \<longleftrightarrow> db' = db\<lparr>acl_grants := acl_grants db'\<rparr>"

lemma only_grants_refl [simp]: "only_grants db db"
  by (simp add: only_grants_def)

lemma only_grants_trans: "only_grants a b \<Longrightarrow> only_grants b c \<Longrightarrow> only_grants a c"
  by (cases a; cases b; cases c) (simp add: only_grants_def)

lemma only_grants_same:
  assumes "only_grants db db'"
  shows "md_entities db' = md_entities db" "email_messages db' = email_messages db" "email_recipients db' = email_recipients db"
    "email_attachments db' = email_attachments db" "source_identities db' = source_identities db" "promotions db' = promotions db"
  using assms by (cases db; cases db'; simp add: only_grants_def)+

lemma live_ids_iff:
  "p \<in> list_live_person_ids_for_object db org_id otype oid \<longleftrightarrow>
     (\<exists>g \<in> set (acl_grants db). live_grant org_id otype oid g \<and> ag_person_id g = p)"
  by (auto simp: list_live_person_ids_for_object_def select_where_def)

lemma insert_live_grant_sound:
  assumes "insert_live_grant now ce org_id p otype oid prov c db = Some db'"
  shows "only_grants db db'" and "list_live_person_ids_for_object db' org_id otype oid = insert p (list_live_person_ids_for_object db org_id otype oid)"
    and "(org', otype', oid') \<noteq> (org_id, otype, oid) \<Longrightarrow>
      list_live_person_ids_for_object db' org' otype' oid' = list_live_person_ids_for_object db org' otype' oid'"
    and "set (acl_grants db) \<subseteq> set (acl_grants db')"
proof -
  let ?g = "\<lparr>ag_org_id = org_id, ag_person_id = p, ag_object_type = otype, ag_object_id = oid,
     ag_connection_id = c, ag_provenance = prov, ag_granted_at = now, ag_revoked_at = None\<rparr>"
  have d: "(\<exists>g \<in> set (acl_grants db). live_grant org_id otype oid g \<and> ag_person_id g = p) \<and> db' = db
      \<or> db' = db\<lparr>acl_grants := acl_grants db @ [?g]\<rparr>"
    using assms by (auto simp: insert_live_grant_def split: if_splits)
  show "only_grants db db'" "set (acl_grants db) \<subseteq> set (acl_grants db')" using d by (auto simp: only_grants_def)
  have g: "live_grant o' t' i' ?g \<longleftrightarrow> (o', t', i') = (org_id, otype, oid)" for o' t' i' by (auto simp: live_grant_def)
  show "list_live_person_ids_for_object db' org_id otype oid = insert p (list_live_person_ids_for_object db org_id otype oid)"
    using d
  proof
    assume "(\<exists>g \<in> set (acl_grants db). live_grant org_id otype oid g \<and> ag_person_id g = p) \<and> db' = db"
    then show ?thesis using live_ids_iff[of p db org_id otype oid] by (simp add: insert_absorb)
  next
    assume "db' = db\<lparr>acl_grants := acl_grants db @ [?g]\<rparr>"
    then show ?thesis by (simp add: list_live_person_ids_for_object_def select_where_def g)
  qed
  show "list_live_person_ids_for_object db' org' otype' oid' = list_live_person_ids_for_object db org' otype' oid'"
    if "(org', otype', oid') \<noteq> (org_id, otype, oid)"
    using d that by (auto simp: list_live_person_ids_for_object_def select_where_def g)
qed

lemma write_grants_sound:
  assumes "write_grants ge org_id mid cid ps db = Some db'"
  shows "only_grants db db' \<and> list_live_person_ids_for_object db' org_id obj_email_message mid
      = list_live_person_ids_for_object db org_id obj_email_message mid \<union> fst ` set ps
    \<and> set (acl_grants db) \<subseteq> set (acl_grants db')
    \<and> ((org', oid') \<noteq> (org_id, mid) \<longrightarrow>
        list_live_person_ids_for_object db' org' obj_email_message oid' = list_live_person_ids_for_object db org' obj_email_message oid')"
  using assms
proof (induction ge org_id mid cid ps db rule: write_grants.induct)
  case (2 ge org_id mid cid p prov ps db)
  then obtain db1 where d: "insert_live_grant (ge_now ge) (ge_connection_exists ge) org_id p obj_email_message mid prov (Some cid) db = Some db1"
    and w: "write_grants ge org_id mid cid ps db1 = Some db'" by (auto split: option.splits)
  note i = insert_live_grant_sound[OF d]
  from "2.IH"[OF d w] i only_grants_trans[OF i(1)] i(3)[of org' obj_email_message oid'] show ?case by auto
qed simp

lemma tombstone_live:
  "only_grants db (snd (tombstone_grants now org_id otype oid ps db))"
  "list_live_person_ids_for_object (snd (tombstone_grants now org_id otype oid ps db)) org_id otype oid
     = list_live_person_ids_for_object db org_id otype oid - ps"
  "(org', otype', oid') \<noteq> (org_id, otype, oid) \<Longrightarrow>
     list_live_person_ids_for_object (snd (tombstone_grants now org_id otype oid ps db)) org' otype' oid'
     = list_live_person_ids_for_object db org' otype' oid'"
proof -
  let ?P = "\<lambda>g. live_grant org_id otype oid g \<and> ag_person_id g \<in> ps"
  let ?db' = "snd (tombstone_grants now org_id otype oid ps db)"
  have d: "acl_grants ?db' = update_where ?P (\<lambda>g. g\<lparr>ag_revoked_at := Some now\<rparr>) (acl_grants db)"
    by (simp add: tombstone_grants_def Let_def update_where_def)
  show "only_grants db ?db'" by (simp add: tombstone_grants_def Let_def only_grants_def)
  have dead: "\<not> live_grant o' t' i' (g\<lparr>ag_revoked_at := Some now\<rparr>)" for o' t' i' g by (simp add: live_grant_def)
  show "list_live_person_ids_for_object ?db' org_id otype oid = list_live_person_ids_for_object db org_id otype oid - ps"
    unfolding list_live_person_ids_for_object_def select_where_def d set_map set_filter set_update_where
    using dead by auto
  show "list_live_person_ids_for_object ?db' org' otype' oid' = list_live_person_ids_for_object db org' otype' oid'"
    if n: "(org', otype', oid') \<noteq> (org_id, otype, oid)"
  proof -
    have "\<not> live_grant org' otype' oid' g" if "?P g" for g using that n by (auto simp: live_grant_def)
    then show ?thesis
      unfolding list_live_person_ids_for_object_def select_where_def d set_map set_filter set_update_where
      using dead by blast
  qed
qed

lemma write_email_grants_sound:
  assumes "write_email_grants ge org_id mid cid owner sender as db = Some (ps, db')"
  shows "only_grants db db'" and "ps = fst ` set (derive_email_principal_roles (ge_str_of ge) db org_id owner sender as)"
    and "list_live_person_ids_for_object db' org_id obj_email_message mid = list_live_person_ids_for_object db org_id obj_email_message mid \<union> ps"
    and "(org', oid') \<noteq> (org_id, mid) \<Longrightarrow>
        list_live_person_ids_for_object db' org' obj_email_message oid' = list_live_person_ids_for_object db org' obj_email_message oid'"
  using assms write_grants_sound[of ge org_id mid cid _ db db' org' oid']
  by (auto simp: write_email_grants_def Let_def split: option.splits)

lemma reconcile_sound:
  assumes "reconcile_email_message_grants ge org_id mid cid owner sender as db = Some (n, db')"
  shows "only_grants db db'"
    and "list_live_person_ids_for_object db' org_id obj_email_message mid
      = fst ` set (derive_email_principal_roles (ge_str_of ge) db org_id owner sender as)"
    and "(org', oid') \<noteq> (org_id, mid) \<Longrightarrow>
        list_live_person_ids_for_object db' org' obj_email_message oid' = list_live_person_ids_for_object db org' obj_email_message oid'"
proof -
  obtain ps db1 where w: "write_email_grants ge org_id mid cid owner sender as db = Some (ps, db1)"
    and t: "db' = snd (tombstone_grants (ge_now ge) org_id obj_email_message mid
      (list_live_person_ids_for_object db1 org_id obj_email_message mid - ps) db1)"
    using assms by (auto simp: reconcile_email_message_grants_def Let_def split: option.splits)
  note ws = write_email_grants_sound[OF w]
  show "only_grants db db'" using ws(1) tombstone_live(1) only_grants_trans unfolding t by blast
  show "list_live_person_ids_for_object db' org_id obj_email_message mid
      = fst ` set (derive_email_principal_roles (ge_str_of ge) db org_id owner sender as)"
    unfolding t tombstone_live(2) using ws(2,3) by blast
  show "(org', oid') \<noteq> (org_id, mid) \<Longrightarrow>
        list_live_person_ids_for_object db' org' obj_email_message oid' = list_live_person_ids_for_object db org' obj_email_message oid'"
    unfolding t using tombstone_live(3) ws(4) by (metis prod.inject)
qed

text \<open>
  C19: unknown means denied. After a message's grants were reconciled, a restricted message is readable in its organization by
  exactly the persons behind a verified email identity of its sender or one of its recipients, and the
  person verified behind the owner's login; a session with no bound person reads nothing restricted, and no other message's readers change.
\<close>

theorem reconciled_readers_exact:
  assumes "reconcile_email_message_grants ge org_id mid cid owner sender as db = Some (n, db')"
  shows "(reader_sees db' org_id person org_id scope_restricted mid \<longleftrightarrow>
    (\<exists>p. person = Some p \<and>
      ((\<exists>a. verified_email db org_id a p \<and> a \<noteq> [] \<and> (a \<in> normalize_email ` set as \<or> (\<exists>s. sender = Some s \<and> s \<noteq> [] \<and> a = normalize_email s)))
       \<or> (\<exists>u. owner = Some u \<and> get_verified_person_id db org_id id_auth (ge_str_of ge u) = Some p))))
    \<and> (oid \<noteq> mid \<longrightarrow> reader_sees db' org_id person org_id scope_restricted oid = reader_sees db org_id person org_id scope_restricted oid)"
proof -
  have see: "reader_sees d org_id person org_id scope_restricted i \<longleftrightarrow>
      (\<exists>p. person = Some p \<and> p \<in> list_live_person_ids_for_object d org_id obj_email_message i)" for d i
    by (auto simp: reader_sees_def live_ids_iff)
  show ?thesis
    unfolding see reconcile_sound(2)[OF assms] derivable_iff using reconcile_sound(3)[OF assms, of org_id oid] by blast
qed

definition demo_mail_db :: mail_db where
  "demo_mail_db = \<lparr>md_entities = (rs_db demo_resolver)\<lparr>people := [\<lparr>pe_id = 100, pe_org_id = 7, pe_display_name = None,
       pe_is_internal = False, pe_first_seen_at = None, pe_last_seen_at = None, pe_created_at = 0\<rparr>]\<rparr>,
     email_messages = [], email_recipients = [], email_attachments = [], acl_grants = [],
     source_identities = [\<lparr>si_org_id = 7, si_person_id = 100, si_source_type = id_email, si_external_id = ''b'', si_verified = True\<rparr>],
     promotions = []\<rparr>"

definition demo_grant_env :: grant_env where
  "demo_grant_env = \<lparr>ge_now = 50, ge_str_of = (\<lambda>_. ''u''), ge_connection_exists = True\<rparr>"

theorem reconciled_readers_exact_witness:
  "\<exists>n db'. reconcile_email_message_grants demo_grant_env 7 9 3 None None [''b''] demo_mail_db = Some (n, db')
     \<and> reader_sees db' 7 (Some 100) 7 scope_restricted 9 \<and> \<not> reader_sees db' 7 None 7 scope_restricted 9"
proof -
  have norm: "normalize_email ''b'' = ''b''" by code_simp
  have "reconcile_email_message_grants demo_grant_env 7 9 3 None None [''b''] demo_mail_db \<noteq> None"
    by (simp add: reconcile_email_message_grants_def write_email_grants_def derive_email_principal_roles_def address_roles_def norm
        dict_setdefault_def get_verified_person_ids_def select_where_def demo_mail_db_def insert_live_grant_def person_fk_ok_def
        demo_grant_env_def Let_def)
  then obtain n db' where r: "reconcile_email_message_grants demo_grant_env 7 9 3 None None [''b''] demo_mail_db = Some (n, db')"
    by auto
  have "verified_email demo_mail_db 7 ''b'' 100" by (simp add: verified_email_def demo_mail_db_def)
  with reconciled_readers_exact[OF r, of "Some 100"] reconciled_readers_exact[OF r, of None] r norm show ?thesis by auto
qed

end
