(* ===== verification/Sync_Runner.thy ===== *)
theory Sync_Runner
  imports Connector_Tables Tokens
begin

text \<open>
  The incremental sync: the held IMAP session's replies (\<open>connectors/imap/fetch_session.py\<close>), the fetcher
  (\<open>connectors/imap/sync/imap_fetcher.py\<close>), the background runner (\<open>connectors/sync/connector_sync_runner.py\<close>) and the
  service that claims a connection and starts it (\<open>connectors/sync/sync_service.py\<close>). The IMAP server is a
  parameter (record \<open>imap_server\<close>); the ingest of one message is an argument of the runner, as it is a collaborator in the code.
\<close>

section \<open>The server's replies\<close>

text \<open>A call to the server replies or raises (connection lost, protocol error).\<close>

datatype 'a reply = Raises | Replies 'a

record fetched_message =
  fm_uid :: uid
  fm_raw_bytes :: string
  fm_internal_date :: "datetime option"

text \<open>
  What \<open>imaplib\<close> returns. \<open>im_list\<close>: the \<open>flags\<close> and \<open>name\<close> groups \<open>_LIST_RE\<close> matches in each item, \<open>None\<close> for
  an item it does not match, and \<open>None\<close> for a reply that is not \<open>OK\<close>; \<open>im_select\<close>: the \<open>UIDVALIDITY\<close> of
  a folder that could be selected; \<open>im_search\<close>: the UIDs of a \<open>UID SEARCH UID min:*\<close>; \<open>im_sizes\<close>, \<open>im_fetch\<close>: the
  items of a \<open>UID FETCH\<close> of one sequence set, \<open>None\<close> where not \<open>OK\<close>.
\<close>

record imap_server =
  im_list :: "(string \<times> string) option list option reply"
  im_select :: "string \<Rightarrow> int option reply"
  im_search :: "string \<Rightarrow> nat \<Rightarrow> uid list reply"
  im_sizes :: "string \<Rightarrow> string \<Rightarrow> (uid \<times> int) list option reply"
  im_fetch :: "string \<Rightarrow> string \<Rightarrow> fetched_message list option reply"

definition contains :: "string \<Rightarrow> string \<Rightarrow> bool" where
  "contains s t \<longleftrightarrow> list_ex (\<lambda>n. take (length t) (drop n s) = t) [0..<Suc (length s)]"

definition flags_skip :: "string \<Rightarrow> bool" where
  "flags_skip flags =
     (let lowered = py_lower flags
      in contains lowered (CHR 0x5C # ''noselect'')
         \<or> list_ex (\<lambda>attr. contains lowered attr) [CHR 0x5C # ''trash'', CHR 0x5C # ''junk'', CHR 0x5C # ''drafts''])"

definition parse_list_item :: "(string \<times> string) option \<Rightarrow> string option" where
  "parse_list_item item =
     (case item of None \<Rightarrow> None | Some (flags, name) \<Rightarrow> if flags_skip flags then None else Some name)"

definition blocking_list_folders :: "imap_server \<Rightarrow> string list reply" where
  "blocking_list_folders srv =
     (case im_list srv of
        Raises \<Rightarrow> Raises
      | Replies None \<Rightarrow> Replies []
      | Replies (Some data) \<Rightarrow>
          Replies (filter (\<lambda>name. \<not> is_excluded_folder name []) (List.map_filter parse_list_item data)))"

definition blocking_select :: "imap_server \<Rightarrow> string \<Rightarrow> nat option reply" where
  "blocking_select srv folder =
     (case im_select srv folder of
        Raises \<Rightarrow> Raises
      | Replies None \<Rightarrow> Replies None
      | Replies (Some v) \<Rightarrow> Replies (if v \<le> 0 then None else Some (nat v)))"

definition blocking_search :: "imap_server \<Rightarrow> string \<Rightarrow> nat \<Rightarrow> uid list reply" where
  "blocking_search srv folder min_uid =
     (case im_search srv folder min_uid of
        Raises \<Rightarrow> Raises
      | Replies us \<Rightarrow> Replies (sort (filter (\<lambda>u. min_uid \<le> u) us)))"

fun sizes_of_chunks :: "imap_server \<Rightarrow> string \<Rightarrow> string list \<Rightarrow> (uid \<rightharpoonup> int) \<Rightarrow> (uid \<rightharpoonup> int) reply" where
  "sizes_of_chunks srv folder [] sizes = Replies sizes"
| "sizes_of_chunks srv folder (s # ss) sizes =
     (case im_sizes srv folder s of
        Raises \<Rightarrow> Raises
      | Replies None \<Rightarrow> sizes_of_chunks srv folder ss sizes
      | Replies (Some items) \<Rightarrow> sizes_of_chunks srv folder ss (foldl (\<lambda>m (u, n). m(u \<mapsto> n)) sizes items))"

definition blocking_sizes :: "imap_server \<Rightarrow> string \<Rightarrow> uid list \<Rightarrow> (uid \<rightharpoonup> int) reply" where
  "blocking_sizes srv folder uids = sizes_of_chunks srv folder (chunk_uid_set uids MAX_UID_SET_CHARS) Map.empty"

fun fetch_chunks :: "imap_server \<Rightarrow> string \<Rightarrow> string list \<Rightarrow> fetched_message list \<Rightarrow> fetched_message list reply" where
  "fetch_chunks srv folder [] out = Replies out"
| "fetch_chunks srv folder (s # ss) out =
     (case im_fetch srv folder s of
        Raises \<Rightarrow> Raises
      | Replies None \<Rightarrow> fetch_chunks srv folder ss out
      | Replies (Some items) \<Rightarrow> fetch_chunks srv folder ss (out @ items))"

definition blocking_fetch :: "imap_server \<Rightarrow> string \<Rightarrow> uid list \<Rightarrow> fetched_message list reply" where
  "blocking_fetch srv folder uids = fetch_chunks srv folder (chunk_uid_set uids MAX_UID_SET_CHARS) []"

section \<open>The incremental fetcher\<close>

record folder_cursor =
  fc_uidvalidity :: "nat option"
  fc_last_seen_uid :: uid

record fetch_batch =
  fb_folder :: string
  fb_uidvalidity :: nat
  fb_messages :: "fetched_message list"
  fb_requested_uids :: "uid list"

definition DEFAULT_BATCH_BYTES :: int where
  "DEFAULT_BATCH_BYTES = 10 * 1024 * 1024"

definition min_uid :: "(string \<rightharpoonup> folder_cursor) \<Rightarrow> string \<Rightarrow> nat \<Rightarrow> uid" where
  "min_uid cursors folder uidvalidity =
     (case cursors folder of
        None \<Rightarrow> 1
      | Some c \<Rightarrow> if fc_uidvalidity c \<noteq> Some uidvalidity then 1 else fc_last_seen_uid c + 1)"

fun count_folders :: "imap_server \<Rightarrow> (string \<rightharpoonup> folder_cursor) \<Rightarrow> string list \<Rightarrow> int \<Rightarrow> int reply" where
  "count_folders srv cursors [] n = Replies n"
| "count_folders srv cursors (f # fs) n =
     (case blocking_select srv f of
        Raises \<Rightarrow> Raises
      | Replies None \<Rightarrow> count_folders srv cursors fs n
      | Replies (Some v) \<Rightarrow>
        (case blocking_search srv f (min_uid cursors f v) of
           Raises \<Rightarrow> Raises
         | Replies us \<Rightarrow> count_folders srv cursors fs (n + int (length us))))"

definition count_pending :: "imap_server \<Rightarrow> (string \<rightharpoonup> folder_cursor) \<Rightarrow> int reply" where
  "count_pending srv cursors =
     (case blocking_list_folders srv of Raises \<Rightarrow> Raises | Replies fs \<Rightarrow> count_folders srv cursors fs 0)"

text \<open>
  The generator: the batches it yields, in order, and whether it then raises. A batch whose fetch raises is not yielded.
\<close>

fun yield_batches :: "imap_server \<Rightarrow> string \<Rightarrow> nat \<Rightarrow> uid list list \<Rightarrow> fetch_batch list \<times> bool" where
  "yield_batches srv folder v [] = ([], False)"
| "yield_batches srv folder v (b # bs) =
     (case blocking_fetch srv folder b of
        Raises \<Rightarrow> ([], True)
      | Replies ms \<Rightarrow>
        (let (rest, raised) = yield_batches srv folder v bs
         in (\<lparr>fb_folder = folder, fb_uidvalidity = v, fb_messages = ms, fb_requested_uids = b\<rparr> # rest, raised)))"

definition fetch_folder ::
  "imap_server \<Rightarrow> (string \<rightharpoonup> folder_cursor) \<Rightarrow> string \<Rightarrow> fetch_batch list \<times> bool" where
  "fetch_folder srv cursors folder =
     (case blocking_select srv folder of
        Raises \<Rightarrow> ([], True)
      | Replies None \<Rightarrow> ([], False)
      | Replies (Some v) \<Rightarrow>
        (case blocking_search srv folder (min_uid cursors folder v) of
           Raises \<Rightarrow> ([], True)
         | Replies uids \<Rightarrow>
           if uids = [] then ([], False)
           else
             (case blocking_sizes srv folder uids of
                Raises \<Rightarrow> ([], True)
              | Replies sizes \<Rightarrow> yield_batches srv folder v (batch_by_bytes uids sizes DEFAULT_BATCH_BYTES))))"

fun fetch_folders :: "imap_server \<Rightarrow> (string \<rightharpoonup> folder_cursor) \<Rightarrow> string list \<Rightarrow> fetch_batch list \<times> bool" where
  "fetch_folders srv cursors [] = ([], False)"
| "fetch_folders srv cursors (f # fs) =
     (let (bs, raised) = fetch_folder srv cursors f
      in if raised then (bs, True)
         else (let (rest, r) = fetch_folders srv cursors fs in (bs @ rest, r)))"

definition fetch_incremental :: "imap_server \<Rightarrow> (string \<rightharpoonup> folder_cursor) \<Rightarrow> fetch_batch list \<times> bool" where
  "fetch_incremental srv cursors =
     (case blocking_list_folders srv of Raises \<Rightarrow> ([], True) | Replies fs \<Rightarrow> fetch_folders srv cursors fs)"

section \<open>The folder tracker\<close>

record folder_tracker =
  tr_uidvalidity :: nat
  tr_floor :: uid
  tr_candidates :: "uid list"
  tr_accounted :: "uid set"
  tr_failed :: "uid set"

definition new_tracker :: "nat \<Rightarrow> uid \<Rightarrow> folder_tracker" where
  "new_tracker v fl = \<lparr>tr_uidvalidity = v, tr_floor = fl, tr_candidates = [], tr_accounted = {}, tr_failed = {}\<rparr>"

definition tracker_from_state :: "folder_sync_state \<Rightarrow> folder_tracker" where
  "tracker_from_state st =
     (new_tracker (case fs_uidvalidity st of None \<Rightarrow> 0 | Some v \<Rightarrow> v) (fs_last_seen_uid st))
       \<lparr>tr_failed := set (fs_failed_uids st)\<rparr>"

definition note_requested :: "uid list \<Rightarrow> folder_tracker \<Rightarrow> folder_tracker" where
  "note_requested uids t = t\<lparr>tr_candidates := tr_candidates t @ uids\<rparr>"

definition account :: "uid \<Rightarrow> folder_tracker \<Rightarrow> folder_tracker" where
  "account u t = t\<lparr>tr_accounted := insert u (tr_accounted t), tr_failed := tr_failed t - {u}\<rparr>"

definition fail :: "uid \<Rightarrow> folder_tracker \<Rightarrow> folder_tracker" where
  "fail u t = t\<lparr>tr_failed := insert u (tr_failed t)\<rparr>"

section \<open>The runner\<close>

definition STALE_SECONDS :: int where
  "STALE_SECONDS = 300"

definition MAX_FAILED_UIDS :: nat where
  "MAX_FAILED_UIDS = 1000"

definition zero_counts :: counts where
  "zero_counts = \<lparr>ct_seen = 0, ct_stored = 0, ct_skipped = 0, ct_failed = 0\<rparr>"

datatype ingest_outcome = STORED | SKIPPED | FAILED

text \<open>
  The runner's collaborator: \<open>ig_email\<close> is \<open>EmailIngestService.ingest_email\<close> inside the message's savepoint, with the state after
  the savepoint was released or, on a raise, rolled back; a raised dedup violation is told apart from every other
  exception. \<open>ig_commit\<close> is what the commit of the session's transaction does to the state.
\<close>

datatype ingest_result = Ingested bool | DedupCollision | IngestRaised

record 'm ingest =
  ig_email :: "string \<Rightarrow> datetime option \<Rightarrow> 'm \<Rightarrow> ingest_result \<times> 'm"
  ig_commit :: "'m \<Rightarrow> 'm"

definition ingest_one :: "'m ingest \<Rightarrow> fetched_message \<Rightarrow> 'm \<Rightarrow> ingest_outcome \<times> 'm" where
  "ingest_one ingest message m =
     (case ig_email ingest (fm_raw_bytes message) (fm_internal_date message) m of
        (Ingested stored, m') \<Rightarrow> (if stored then STORED else SKIPPED, m')
      | (DedupCollision, m') \<Rightarrow> (SKIPPED, m')
      | (IngestRaised, m') \<Rightarrow> (FAILED, m'))"

fun ingest_messages ::
  "'m ingest \<Rightarrow> fetched_message list \<Rightarrow> folder_tracker \<times> counts \<times> 'm \<Rightarrow> folder_tracker \<times> counts \<times> 'm" where
  "ingest_messages ingest [] s = s"
| "ingest_messages ingest (msg # msgs) (t, ct, m) =
     (let ct1 = ct\<lparr>ct_seen := ct_seen ct + 1\<rparr>;
          (outcome, m') = ingest_one ingest msg m
      in ingest_messages ingest msgs
           (case outcome of
              STORED \<Rightarrow> (account (fm_uid msg) t, ct1\<lparr>ct_stored := ct_stored ct1 + 1\<rparr>, m')
            | SKIPPED \<Rightarrow> (account (fm_uid msg) t, ct1\<lparr>ct_skipped := ct_skipped ct1 + 1\<rparr>, m')
            | FAILED \<Rightarrow> (fail (fm_uid msg) t, ct1\<lparr>ct_failed := ct_failed ct1 + 1\<rparr>, m')))"

type_synonym trackers = "string \<rightharpoonup> folder_tracker"

text \<open>The tracker of the batch's generation: a new folder or a changed \<open>UIDVALIDITY\<close> starts afresh.\<close>

definition tracker_for :: "trackers \<Rightarrow> fetch_batch \<Rightarrow> folder_tracker" where
  "tracker_for trackers batch =
     (case trackers (fb_folder batch) of
        None \<Rightarrow> new_tracker (fb_uidvalidity batch) 0
      | Some t \<Rightarrow> if tr_uidvalidity t \<noteq> fb_uidvalidity batch then new_tracker (fb_uidvalidity batch) 0 else t)"

text \<open>
  One batch: \<open>None\<close> when the claim is lost (the caller rolls the batch back), else the committed
  tables and mail with the runner's new trackers and counts.
\<close>

definition ingest_batch ::
  "'m ingest \<Rightarrow> datetime \<Rightarrow> uuid \<Rightarrow> uuid \<Rightarrow> uuid \<Rightarrow> fetch_batch \<Rightarrow> trackers \<times> counts \<Rightarrow> connector_db \<times> 'm
    \<Rightarrow> ((trackers \<times> counts) \<times> connector_db \<times> 'm) option" where
  "ingest_batch ingest now org_id connection_id run_id batch local store =
     (case local of (trackers, ct) \<Rightarrow> case store of (db, m) \<Rightarrow>
        (let t0 = note_requested (fb_requested_uids batch) (tracker_for trackers batch);
             (t1, ct1, m1) = ingest_messages ingest (fb_messages batch) (t0, ct, m);
             advance = highest_contiguous_uid (tr_candidates t1) (tr_accounted t1) (tr_floor t1);
             failed_signal = take MAX_FAILED_UIDS (sorted_list_of_set (tr_failed t1));
             db1 = cursors_upsert org_id connection_id (fb_folder batch) (fb_uidvalidity batch) advance failed_signal db;
             (kept, db2) = set_synced_count now org_id connection_id run_id (ct_seen ct1) db1
         in if \<not> kept then None
            else Some ((trackers(fb_folder batch \<mapsto>
                          t1\<lparr>tr_floor := advance, tr_candidates := filter (\<lambda>u. advance < u) (tr_candidates t1)\<rparr>), ct1),
                       db2, ig_commit ingest m1)))"

text \<open>
  The run as a whole. Between two of its transactions other sessions may commit: \<open>others k\<close> is what they did to the
  connector tables before the run's \<open>k\<close>-th transaction, \<open>clk k\<close> the time of that transaction.
\<close>

datatype loop_end = Drained | Disabled | Stolen

fun sync_loop ::
  "'m ingest \<Rightarrow> (nat \<Rightarrow> datetime) \<Rightarrow> (nat \<Rightarrow> connector_db \<Rightarrow> connector_db) \<Rightarrow> uuid \<Rightarrow> uuid \<Rightarrow> uuid \<Rightarrow> nat
    \<Rightarrow> fetch_batch list \<Rightarrow> trackers \<times> counts \<Rightarrow> connector_db \<times> 'm
    \<Rightarrow> loop_end \<times> (trackers \<times> counts) \<times> connector_db \<times> 'm" where
  "sync_loop ingest clk others org_id connection_id run_id k [] local store = (Drained, local, store)"
| "sync_loop ingest clk others org_id connection_id run_id k (b # bs) local store =
     (let store1 = (others k (fst store), snd store)
      in if connections_is_disabled (fst store1) org_id connection_id then (Disabled, local, store1)
         else (case ingest_batch ingest (clk k) org_id connection_id run_id b local store1 of
                 None \<Rightarrow> (Stolen, local, store1)
               | Some (local', store') \<Rightarrow>
                   sync_loop ingest clk others org_id connection_id run_id (Suc k) bs local' store'))"

definition finalize_run ::
  "env \<Rightarrow> rat \<Rightarrow> uuid \<Rightarrow> uuid \<Rightarrow> uuid \<Rightarrow> bool \<Rightarrow> string option \<Rightarrow> counts \<Rightarrow> connector_db \<times> world
    \<Rightarrow> connector_db \<times> world" where
  "finalize_run e duration org_id connection_id run_id ok err ct s =
     (case s of (db, w) \<Rightarrow>
        (let status = (if ok then sync_idle else sync_error);
             (won, db1) = finalize_sync (now_utc e) org_id connection_id run_id status err db
         in if \<not> won then (db, w)
            else
              (let run_status = (if ok then run_succeeded else run_failed);
                   db2 = runs_finalize (now_utc e) org_id run_id run_status ct err db1
               in (db2, record_event e (uuids e 0)
                     ((audit_event_of SYNC_FINISHED actor_system)
                        \<lparr>ae_org_id := Some org_id, ae_entity_type := Some ''connector_connection'',
                         ae_entity_id := Some connection_id,
                         ae_details := [(''run_id'', JId run_id), (''status'', JStr (run_status_value run_status)),
                           (''messages_seen'', JInt (ct_seen ct)), (''messages_stored'', JInt (ct_stored ct)),
                           (''messages_skipped'', JInt (ct_skipped ct)), (''messages_failed'', JInt (ct_failed ct)),
                           (''duration_seconds'', JNum duration)]\<rparr>) w))))"

text \<open>What building the connector gives: an exception (credential, registry), a connector without sync, or a server.\<close>

datatype built = BuildRaises | NoSync | Server imap_server

definition fetch_cursors :: "(string \<rightharpoonup> folder_sync_state) \<Rightarrow> (string \<rightharpoonup> folder_cursor)" where
  "fetch_cursors stored = (\<lambda>f. map_option (\<lambda>st. \<lparr>fc_uidvalidity = fs_uidvalidity st, fc_last_seen_uid = fs_last_seen_uid st\<rparr>) (stored f))"

definition initial_trackers :: "(string \<rightharpoonup> folder_sync_state) \<Rightarrow> trackers" where
  "initial_trackers stored = (\<lambda>f. map_option tracker_from_state (stored f))"

text \<open>\<open>_sync\<close>: the state it leaves and whether it raised; a raise leaves what was committed before.\<close>

definition sync_body ::
  "'m ingest \<Rightarrow> (connection \<Rightarrow> built) \<Rightarrow> env \<Rightarrow> rat \<Rightarrow> (nat \<Rightarrow> datetime) \<Rightarrow> (nat \<Rightarrow> connector_db \<Rightarrow> connector_db)
    \<Rightarrow> uuid \<Rightarrow> uuid \<Rightarrow> uuid \<Rightarrow> connector_db \<times> 'm \<times> world \<Rightarrow> bool \<times> connector_db \<times> 'm \<times> world" where
  "sync_body ingest build e duration clk others org_id connection_id run_id s =
     (case s of (db, m, w) \<Rightarrow>
        (case connections_get_in_org db connection_id org_id of
           None \<Rightarrow> (False, db, m, w)
         | Some c \<Rightarrow>
           (case build c of
              BuildRaises \<Rightarrow> (True, db, m, w)
            | NoSync \<Rightarrow>
                (let (db', w') = finalize_run e duration org_id connection_id run_id False
                                   (Some ''This connector does not support sync.'') zero_counts (db, w)
                 in (False, db', m, w'))
            | Server srv \<Rightarrow>
              (let stored = cursors_list_for_connection db org_id connection_id;
                   cursors = fetch_cursors stored
               in case count_pending srv cursors of
                    Raises \<Rightarrow> (True, db, m, w)
                  | Replies n \<Rightarrow>
                    (let db0 = others 0 db; (owned, db1) = set_total org_id connection_id run_id n db0
                     in if \<not> owned then (False, db0, m, w)
                        else
                          (let (batches, raised) = fetch_incremental srv cursors;
                               (how, local, db2, m2) =
                                 sync_loop ingest clk others org_id connection_id run_id 1 batches
                                   (initial_trackers stored, zero_counts) (db1, m)
                           in case how of
                                Stolen \<Rightarrow> (False, db2, m2, w)
                              | Disabled \<Rightarrow>
                                  (let (db3, w3) = finalize_run e duration org_id connection_id run_id True None
                                                     (snd local) (db2, w)
                                   in (False, db3, m2, w3))
                              | Drained \<Rightarrow>
                                  if raised then (True, db2, m2, w)
                                  else
                                    (let db3 = others (Suc (length batches)) db2;
                                         (db4, w4) = finalize_run e duration org_id connection_id run_id True None
                                                       (snd local) (db3, w)
                                     in (False, db4, m2, w4))))))))"

definition run_sync ::
  "'m ingest \<Rightarrow> (connection \<Rightarrow> built) \<Rightarrow> env \<Rightarrow> rat \<Rightarrow> (nat \<Rightarrow> datetime) \<Rightarrow> (nat \<Rightarrow> connector_db \<Rightarrow> connector_db)
    \<Rightarrow> uuid \<Rightarrow> uuid \<Rightarrow> uuid \<Rightarrow> connector_db \<times> 'm \<times> world \<Rightarrow> connector_db \<times> 'm \<times> world" where
  "run_sync ingest build e duration clk others org_id connection_id run_id s =
     (case sync_body ingest build e duration clk others org_id connection_id run_id s of
        (False, s') \<Rightarrow> s'
      | (True, db, m, w) \<Rightarrow>
          (let (db', w') = finalize_run e duration org_id connection_id run_id False
                             (Some ''Sync failed unexpectedly.'') zero_counts (db, w)
           in (db', m, w')))"

section \<open>Starting a sync\<close>

record cworld =
  cw_world :: world
  cw_db :: connector_db

type_synonym 'a chandler = "cworld \<Rightarrow> (connector_error + 'a) \<times> cworld"

definition actor_type_of :: "subject_type \<Rightarrow> audit_actor_type" where
  "actor_type_of s = (case s of subject_user \<Rightarrow> actor_user | subject_platform_admin \<Rightarrow> actor_platform_admin)"

definition load_connection_scoped :: "connector_db \<Rightarrow> uuid \<Rightarrow> uuid \<Rightarrow> uuid option \<Rightarrow> connection option" where
  "load_connection_scoped db org_id connection_id owner =
     (case owner of
        None \<Rightarrow> connections_get_shared_in_org db connection_id org_id
      | Some u \<Rightarrow> connections_get_for_owner db connection_id org_id u)"

abbreviation connection_not_found :: connector_error where
  "connection_not_found \<equiv> ConnectionNotFoundError ''Connection not found.''"

abbreviation not_entitled_error :: connector_error where
  "not_entitled_error \<equiv> ConnectorNotEntitledError ''This connector is not included in your company's plan.''"

text \<open>The claim is committed before the runner is spawned; the value is the run the spawned task executes.\<close>

definition start_sync ::
  "env \<Rightarrow> uuid \<Rightarrow> uuid \<Rightarrow> principal option \<Rightarrow> uuid option \<Rightarrow> (uuid \<times> connection option) chandler" where
  "start_sync e org_id connection_id actor owner w =
     (case load_connection_scoped (cw_db w) org_id connection_id owner of
        None \<Rightarrow> (Inl connection_not_found, w)
      | Some c \<Rightarrow>
        if \<not> is_entitled (cw_db w) org_id (cn_connector_type c) then (Inl not_entitled_error, w)
        else if cn_disabled_at c \<noteq> None
        then (Inl (ConnectorDisabledError ''This connection is disabled - enable it before syncing.''), w)
        else
          (let run_id = uuids e 0;
               (claimed, db1) = claim_for_sync (now_utc e) org_id connection_id run_id STALE_SECONDS (cw_db w)
           in if \<not> claimed
              then (Inl (SyncAlreadyRunningError ''A sync is already running for this connection.''), w)
              else
                (let db2 = start_run (now_utc e) (uuids e 1) org_id connection_id run_id db1;
                     db3 = mark_stale_running_abandoned (now_utc e) org_id connection_id run_id db2
                 in (Inr (run_id, load_connection_scoped db3 org_id connection_id owner),
                     \<lparr>cw_world = record_event e (uuids e 2)
                        ((audit_event_of SYNC_STARTED
                            (case actor of None \<Rightarrow> actor_system | Some p \<Rightarrow> actor_type_of (p_subject_type p)))
                           \<lparr>ae_actor_id := map_option p_subject_id actor, ae_org_id := Some org_id,
                            ae_entity_type := Some ''connector_connection'', ae_entity_id := Some connection_id,
                            ae_details := [(''run_id'', JId run_id)]\<rparr>) (cw_world w),
                      cw_db = db3\<rparr>))))"

definition get_sync_status :: "connector_db \<Rightarrow> uuid \<Rightarrow> uuid \<Rightarrow> uuid option \<Rightarrow> connector_error + connection" where
  "get_sync_status db org_id connection_id owner =
     (case load_connection_scoped db org_id connection_id owner of
        None \<Rightarrow> Inl connection_not_found
      | Some c \<Rightarrow> Inr c)"

end
