(* ===== verification/Sync_Safety.thy ===== *)
theory Sync_Safety
  imports Sync_Runner
begin

text \<open>
  What the sync guarantees. The contract of the ingest of one message is the locale \<open>email_ingest\<close>; runs, the mailbox
  and other sessions interleave in the step relation \<open>sync_step\<close>. Shown: the stored cursor never passes a message of the
  mailbox that is not in the store (nothing is lost, whatever fails, is stolen or is retried), and a run that lost its
  claim commits nothing.
\<close>

section \<open>The contract of the ingest\<close>

text \<open>
  \<open>present\<close> says that the store holds the message with these bytes. A message reported stored or skipped, or refused by the dedup
  constraint, is in the store; what is in the store stays there.
\<close>

locale email_ingest =
  fixes ingest :: "'m ingest" and present :: "'m \<Rightarrow> string \<Rightarrow> bool" and ok :: "'m \<Rightarrow> bool"
  assumes ingest_present: "ok m \<Longrightarrow> ig_email ingest raw d m = (r, m') \<Longrightarrow> r \<noteq> IngestRaised \<Longrightarrow> present m' raw"
    and ingest_keeps: "ok m \<Longrightarrow> ig_email ingest raw d m = (r, m') \<Longrightarrow> present m raw' \<Longrightarrow> present m' raw'"
    and ingest_ok: "ok m \<Longrightarrow> ig_email ingest raw d m = (r, m') \<Longrightarrow> ok m'"
    and commit_keeps: "present m raw \<Longrightarrow> present (ig_commit ingest m) raw"
    and commit_ok: "ok m \<Longrightarrow> ok (ig_commit ingest m)"
begin

lemma ingest_one_sound:
  assumes "ok m" and "ingest_one ingest msg m = (r, m')"
  shows "ok m'" and "present m raw \<Longrightarrow> present m' raw" and "r \<noteq> FAILED \<Longrightarrow> present m' (fm_raw_bytes msg)"
proof -
  obtain x where x: "ig_email ingest (fm_raw_bytes msg) (fm_internal_date msg) m = (x, m')"
    and r: "r \<noteq> FAILED \<Longrightarrow> x \<noteq> IngestRaised"
    using assms(2) by (auto simp: ingest_one_def split: prod.splits ingest_result.splits if_splits)
  show "ok m'" by (rule ingest_ok[OF assms(1) x])
  show "present m raw \<Longrightarrow> present m' raw" by (rule ingest_keeps[OF assms(1) x])
  show "r \<noteq> FAILED \<Longrightarrow> present m' (fm_raw_bytes msg)" using ingest_present[OF assms(1) x] r by blast
qed

text \<open>Every message a batch accounts for is in the store afterwards; the tracker's plan is untouched.\<close>

lemma ingest_messages_sound:
  assumes "ok m" and "ingest_messages ingest msgs (t, ct, m) = (t', ct', m')"
  shows "ok m'" and "present m raw \<Longrightarrow> present m' raw"
    and "tr_candidates t' = tr_candidates t" and "tr_floor t' = tr_floor t" and "tr_uidvalidity t' = tr_uidvalidity t"
    and "u \<in> tr_accounted t' \<Longrightarrow> u \<in> tr_accounted t \<or> (\<exists>msg \<in> set msgs. fm_uid msg = u \<and> present m' (fm_raw_bytes msg))"
proof -
  have "ok m' \<and> (\<forall>raw. present m raw \<longrightarrow> present m' raw) \<and> tr_candidates t' = tr_candidates t
      \<and> tr_floor t' = tr_floor t \<and> tr_uidvalidity t' = tr_uidvalidity t
      \<and> (\<forall>u \<in> tr_accounted t'. u \<in> tr_accounted t \<or> (\<exists>msg \<in> set msgs. fm_uid msg = u \<and> present m' (fm_raw_bytes msg)))"
    using assms
  proof (induction msgs arbitrary: t ct m)
    case (Cons msg msgs)
    obtain r m1 where one: "ingest_one ingest msg m = (r, m1)" by (meson surj_pair)
    note s = ingest_one_sound[OF Cons.prems(1) one]
    obtain t1 ct1 where rec: "ingest_messages ingest msgs (t1, ct1, m1) = (t', ct', m')"
      and t1: "t1 = (if r = FAILED then fail (fm_uid msg) t else account (fm_uid msg) t)"
      using Cons.prems(2) one by (cases r) (auto simp: Let_def)
    from Cons.IH[OF s(1) rec] s t1 show ?case
      by (auto simp: account_def fail_def split: if_splits)
  qed simp
  then show "ok m'" "present m raw \<Longrightarrow> present m' raw" "tr_candidates t' = tr_candidates t" "tr_floor t' = tr_floor t"
    "tr_uidvalidity t' = tr_uidvalidity t"
    "u \<in> tr_accounted t' \<Longrightarrow> u \<in> tr_accounted t \<or> (\<exists>msg \<in> set msgs. fm_uid msg = u \<and> present m' (fm_raw_bytes msg))"
    by blast+
qed

end

section \<open>Runs, the mailbox and other sessions\<close>

text \<open>
  The mailbox of one connection: per folder and generation (\<open>UIDVALIDITY\<close>) the UIDs of the messages it holds, and the next
  UID it will assign. A run keeps what it loaded, its trackers, the folders it has listed and the rest of
  the current folder's plan.
\<close>

record mailbox =
  mb_uids :: "string \<Rightarrow> nat \<Rightarrow> uid set"
  mb_next :: "string \<Rightarrow> nat \<Rightarrow> uid"

record run_local =
  rl_cursors :: "string \<rightharpoonup> folder_cursor"
  rl_trackers :: trackers
  rl_counts :: counts
  rl_listed :: "string set"
  rl_plan :: "(string \<times> nat \<times> uid list list) option"

record 'm sync_system =
  sy_db :: connector_db
  sy_mail :: 'm
  sy_mailbox :: mailbox
  sy_runs :: "uuid \<rightharpoonup> run_local"

definition load_run :: "uuid \<Rightarrow> uuid \<Rightarrow> connector_db \<Rightarrow> run_local" where
  "load_run org_id connection_id db =
     (let stored = cursors_list_for_connection db org_id connection_id
      in \<lparr>rl_cursors = fetch_cursors stored, rl_trackers = initial_trackers stored, rl_counts = zero_counts,
          rl_listed = {}, rl_plan = None\<rparr>)"

definition batch_of :: "string \<Rightarrow> nat \<Rightarrow> uid list \<Rightarrow> fetched_message list \<Rightarrow> fetch_batch" where
  "batch_of folder v b msgs =
     \<lparr>fb_folder = folder, fb_uidvalidity = v, fb_messages = msgs, fb_requested_uids = b\<rparr>"

text \<open>
  The steps. \<open>content f v u\<close> is the message with UID \<open>u\<close>: the server may return any part of what is requested and more, but
  what it returns under a UID is that message. A listing sees every UID the folder holds from the
  requested one on; UIDs are assigned in ascending order. Other sessions may write the tables, as long as they
  set no cursor of this connection, and may ingest other mail.
\<close>

inductive sync_step ::
  "'m ingest \<Rightarrow> (string \<Rightarrow> nat \<Rightarrow> uid \<Rightarrow> string) \<Rightarrow> uuid \<Rightarrow> uuid \<Rightarrow> 'm sync_system \<Rightarrow> 'm sync_system \<Rightarrow> bool"
  for ingest :: "'m ingest" and content :: "string \<Rightarrow> nat \<Rightarrow> uid \<Rightarrow> string" and org_id connection_id :: uuid
where
  other_session: "(\<And>f st. cursors_list_for_connection db' org_id connection_id f = Some st \<Longrightarrow>
      cursors_list_for_connection (sy_db s) org_id connection_id f = Some st) \<Longrightarrow>
    sync_step ingest content org_id connection_id s (s\<lparr>sy_db := db'\<rparr>)"
| other_ingest: "ig_email ingest raw d (sy_mail s) = (res, m') \<Longrightarrow>
    sync_step ingest content org_id connection_id s (s\<lparr>sy_mail := m'\<rparr>)"
| load: "sync_step ingest content org_id connection_id s
      (s\<lparr>sy_runs := (sy_runs s)(r \<mapsto> load_run org_id connection_id (sy_db s))\<rparr>)"
| list_folder: "sy_runs s r = Some l \<Longrightarrow> rl_plan l = None \<Longrightarrow> folder \<notin> rl_listed l \<Longrightarrow>
    blocking_select srv folder = Replies (Some v) \<Longrightarrow>
    blocking_search srv folder (min_uid (rl_cursors l) folder v) = Replies uids \<Longrightarrow>
    set uids = {u \<in> mb_uids (sy_mailbox s) folder v. min_uid (rl_cursors l) folder v \<le> u} \<Longrightarrow>
    sync_step ingest content org_id connection_id s
      (s\<lparr>sy_runs := (sy_runs s)(r \<mapsto> l\<lparr>rl_listed := insert folder (rl_listed l),
          rl_plan := Some (folder, v, batch_by_bytes uids sizes DEFAULT_BATCH_BYTES)\<rparr>)\<rparr>)"
| batch: "sy_runs s r = Some l \<Longrightarrow> rl_plan l = Some (folder, v, b # bs) \<Longrightarrow>
    (\<And>msg. msg \<in> set msgs \<Longrightarrow> fm_raw_bytes msg = content folder v (fm_uid msg)) \<Longrightarrow>
    ingest_batch ingest now org_id connection_id r (batch_of folder v b msgs) (rl_trackers l, rl_counts l)
      (sy_db s, sy_mail s) = Some ((trackers', counts'), db', m') \<Longrightarrow>
    sync_step ingest content org_id connection_id s
      (s\<lparr>sy_db := db', sy_mail := m',
         sy_runs := (sy_runs s)(r \<mapsto> l\<lparr>rl_trackers := trackers', rl_counts := counts',
           rl_plan := Some (folder, v, bs)\<rparr>)\<rparr>)"
| folder_done: "sy_runs s r = Some l \<Longrightarrow> rl_plan l = Some (folder, v, []) \<Longrightarrow>
    sync_step ingest content org_id connection_id s (s\<lparr>sy_runs := (sy_runs s)(r \<mapsto> l\<lparr>rl_plan := None\<rparr>)\<rparr>)"
| run_ends: "sync_step ingest content org_id connection_id s (s\<lparr>sy_runs := (sy_runs s)(r := None)\<rparr>)"
| deliver: "mb_next (sy_mailbox s) folder v \<le> u \<Longrightarrow>
    sync_step ingest content org_id connection_id s
      (s\<lparr>sy_mailbox := (sy_mailbox s)
          \<lparr>mb_uids := (\<lambda>f w. if f = folder \<and> w = v then insert u (mb_uids (sy_mailbox s) f w) else mb_uids (sy_mailbox s) f w),
           mb_next := (\<lambda>f w. if f = folder \<and> w = v then Suc u else mb_next (sy_mailbox s) f w)\<rparr>\<rparr>)"
| expunge: "sync_step ingest content org_id connection_id s
      (s\<lparr>sy_mailbox := (sy_mailbox s)
          \<lparr>mb_uids := (\<lambda>f w. if f = folder \<and> w = v then mb_uids (sy_mailbox s) f w - {u} else mb_uids (sy_mailbox s) f w)\<rparr>\<rparr>)"

section \<open>The invariant\<close>

text \<open>\<open>covered\<close>: every message of the folder up to \<open>l\<close> is in the store, and new mail will get a UID above \<open>l\<close>.\<close>

definition covered ::
  "('m \<Rightarrow> string \<Rightarrow> bool) \<Rightarrow> (string \<Rightarrow> nat \<Rightarrow> uid \<Rightarrow> string) \<Rightarrow> 'm \<Rightarrow> mailbox \<Rightarrow> string \<Rightarrow> nat \<Rightarrow> uid \<Rightarrow> bool" where
  "covered present content m mb folder v l \<longleftrightarrow>
     l < mb_next mb folder v \<and> (\<forall>u \<in> mb_uids mb folder v. u \<le> l \<longrightarrow> present m (content folder v u))"

definition cursors_inv ::
  "('m \<Rightarrow> string \<Rightarrow> bool) \<Rightarrow> (string \<Rightarrow> nat \<Rightarrow> uid \<Rightarrow> string) \<Rightarrow> 'm \<Rightarrow> mailbox \<Rightarrow> (string \<rightharpoonup> folder_cursor) \<Rightarrow> bool" where
  "cursors_inv present content m mb cs \<longleftrightarrow>
     (\<forall>f c v. cs f = Some c \<and> fc_uidvalidity c = Some v \<longrightarrow> covered present content m mb f v (fc_last_seen_uid c))"

definition tracker_inv ::
  "('m \<Rightarrow> string \<Rightarrow> bool) \<Rightarrow> (string \<Rightarrow> nat \<Rightarrow> uid \<Rightarrow> string) \<Rightarrow> 'm \<Rightarrow> mailbox \<Rightarrow> string \<Rightarrow> folder_tracker \<Rightarrow> bool" where
  "tracker_inv present content m mb f t \<longleftrightarrow>
     (0 < tr_uidvalidity t \<longrightarrow> covered present content m mb f (tr_uidvalidity t) (tr_floor t))
     \<and> (\<forall>u \<in> tr_accounted t. present m (content f (tr_uidvalidity t) u))"

text \<open>A plan together with the tracker's candidates holds every message above the floor that was there when it was made.\<close>

definition plan_inv :: "mailbox \<Rightarrow> string \<Rightarrow> nat \<Rightarrow> uid list list \<Rightarrow> folder_tracker \<Rightarrow> bool" where
  "plan_inv mb f v bs t \<longleftrightarrow>
     (let todo = tr_candidates t @ concat bs
      in sorted todo \<and> (\<forall>c \<in> set todo. c < mb_next mb f v)
         \<and> (\<forall>u \<in> mb_uids mb f v. tr_floor t < u \<longrightarrow> u \<in> set todo \<or> (\<forall>c \<in> set todo. c < u)))"

text \<open>Before a folder is listed its tracker is the loaded cursor.\<close>

definition fresh_tracker :: "folder_cursor option \<Rightarrow> folder_tracker option \<Rightarrow> bool" where
  "fresh_tracker c t \<longleftrightarrow>
     (case c of
        None \<Rightarrow> t = None
      | Some k \<Rightarrow> (\<exists>x. t = Some x \<and> tr_uidvalidity x = (case fc_uidvalidity k of None \<Rightarrow> 0 | Some v \<Rightarrow> v)
                     \<and> tr_floor x = fc_last_seen_uid k \<and> tr_candidates x = []))"

definition run_inv ::
  "('m \<Rightarrow> string \<Rightarrow> bool) \<Rightarrow> (string \<Rightarrow> nat \<Rightarrow> uid \<Rightarrow> string) \<Rightarrow> 'm \<Rightarrow> mailbox \<Rightarrow> run_local \<Rightarrow> bool" where
  "run_inv present content m mb l \<longleftrightarrow>
     cursors_inv present content m mb (rl_cursors l)
     \<and> (\<forall>f t. rl_trackers l f = Some t \<longrightarrow> tracker_inv present content m mb f t)
     \<and> (\<forall>f. f \<notin> rl_listed l \<longrightarrow> fresh_tracker (rl_cursors l f) (rl_trackers l f))
     \<and> (case rl_plan l of
          None \<Rightarrow> True
        | Some (f, v, bs) \<Rightarrow> 0 < v \<and> f \<in> rl_listed l
            \<and> plan_inv mb f v bs (tracker_for (rl_trackers l) (batch_of f v [] [])))"

definition mailbox_inv :: "mailbox \<Rightarrow> bool" where
  "mailbox_inv mb \<longleftrightarrow> (\<forall>f v. 0 < mb_next mb f v \<and> (\<forall>u \<in> mb_uids mb f v. 0 < u \<and> u < mb_next mb f v))"

definition sync_inv ::
  "('m \<Rightarrow> string \<Rightarrow> bool) \<Rightarrow> ('m \<Rightarrow> bool) \<Rightarrow> (string \<Rightarrow> nat \<Rightarrow> uid \<Rightarrow> string) \<Rightarrow> uuid \<Rightarrow> uuid \<Rightarrow> 'm sync_system \<Rightarrow> bool" where
  "sync_inv present ok content org_id connection_id s \<longleftrightarrow>
     ok (sy_mail s) \<and> mailbox_inv (sy_mailbox s)
     \<and> cursors_inv present content (sy_mail s) (sy_mailbox s)
         (fetch_cursors (cursors_list_for_connection (sy_db s) org_id connection_id))
     \<and> (\<forall>r l. sy_runs s r = Some l \<longrightarrow> run_inv present content (sy_mail s) (sy_mailbox s) l)"

subsection \<open>Monotonicity\<close>

lemma covered_mail:
  "covered present content m mb f v l \<Longrightarrow> (\<And>raw. present m raw \<Longrightarrow> present m' raw) \<Longrightarrow>
     covered present content m' mb f v l"
  by (auto simp: covered_def)

lemma run_inv_mail:
  assumes "run_inv present content m mb l" and "\<And>raw. present m raw \<Longrightarrow> present m' raw"
  shows "run_inv present content m' mb l"
  using assms(1) covered_mail[of present content m mb _ _ _ m'] assms(2)
  unfolding run_inv_def cursors_inv_def tracker_inv_def by blast

text \<open>The mailbox may lose messages and get new ones above every UID assigned before.\<close>

definition mailbox_grows :: "mailbox \<Rightarrow> mailbox \<Rightarrow> bool" where
  "mailbox_grows mb mb' \<longleftrightarrow> (\<forall>f v. mb_next mb f v \<le> mb_next mb' f v
     \<and> (\<forall>u \<in> mb_uids mb' f v. u \<in> mb_uids mb f v \<or> mb_next mb f v \<le> u))"

lemma covered_grows: "covered present content m mb f v l \<Longrightarrow> mailbox_grows mb mb' \<Longrightarrow> covered present content m mb' f v l"
  unfolding covered_def mailbox_grows_def by (meson leD le_less_trans order.strict_trans2)

lemma plan_grows: "plan_inv mb f v bs t \<Longrightarrow> mailbox_grows mb mb' \<Longrightarrow> plan_inv mb' f v bs t"
  unfolding plan_inv_def mailbox_grows_def Let_def by (meson order.strict_trans2)

lemma run_inv_grows:
  assumes "run_inv present content m mb l" and "mailbox_grows mb mb'"
  shows "run_inv present content m mb' l"
  using assms covered_grows plan_grows
  unfolding run_inv_def cursors_inv_def tracker_inv_def by (fastforce split: option.splits)

lemma cursors_inv_grows:
  "cursors_inv present content m mb cs \<Longrightarrow> mailbox_grows mb mb' \<Longrightarrow> cursors_inv present content m mb' cs"
  by (auto simp: cursors_inv_def intro: covered_grows)

lemma cursors_inv_mail:
  "cursors_inv present content m mb cs \<Longrightarrow> (\<And>raw. present m raw \<Longrightarrow> present m' raw) \<Longrightarrow>
     cursors_inv present content m' mb cs"
  by (auto simp: cursors_inv_def covered_def)

lemma cursors_inv_stored:
  "cursors_inv present content m mb (fetch_cursors cs) \<longleftrightarrow>
     (\<forall>f st v. cs f = Some st \<and> fs_uidvalidity st = Some v \<longrightarrow> covered present content m mb f v (fs_last_seen_uid st))"
  by (auto simp: cursors_inv_def fetch_cursors_def) (metis folder_cursor.select_convs)

subsection \<open>One batch\<close>

text \<open>A tracker's generation is the batch's, and it is covered up to its floor.\<close>

lemma tracker_for_batch_of: "tracker_for trackers (batch_of f v b msgs) = tracker_for trackers (batch_of f v [] [])"
  by (simp add: tracker_for_def batch_of_def split: option.split)

lemma tracker_for_uidvalidity: "tr_uidvalidity (tracker_for trackers (batch_of f v b msgs)) = v"
  by (auto simp: tracker_for_def batch_of_def new_tracker_def split: option.splits)

lemma covered_zero: "mailbox_inv mb \<Longrightarrow> covered present content m mb f v 0"
  by (auto simp: mailbox_inv_def covered_def)

lemma tracker_for_inv:
  assumes "\<forall>f t. trackers f = Some t \<longrightarrow> tracker_inv present content m mb f t" and "mailbox_inv mb"
  shows "tracker_inv present content m mb f (tracker_for trackers (batch_of f v b msgs))"
  using assms covered_zero[OF assms(2)]
  by (auto simp: tracker_for_def batch_of_def new_tracker_def tracker_inv_def split: option.splits)

text \<open>
  The advance after a batch stays below every message that is not in the store, and what is left of the
  plan still holds every message above it.
\<close>

lemma advance_covered:
  assumes cov: "covered present content m mb f v (tr_floor t)" and plan: "plan_inv mb f v (b # bs) t"
    and cand: "tr_candidates t1 = tr_candidates t @ b" and fl: "tr_floor t1 = tr_floor t"
    and acc: "\<And>u. u \<in> tr_accounted t1 \<Longrightarrow> present m (content f v u)"
    and a: "a = highest_contiguous_uid (tr_candidates t1) (tr_accounted t1) (tr_floor t1)"
  shows "covered present content m mb f v a"
    and "plan_inv mb f v bs (t1\<lparr>tr_floor := a, tr_candidates := filter (\<lambda>u. a < u) (tr_candidates t1)\<rparr>)"
proof -
  let ?todo = "tr_candidates t1 @ concat bs"
  have todo: "tr_candidates t @ concat (b # bs) = ?todo" by (simp add: cand)
  have srt: "sorted ?todo" and lim: "\<forall>c \<in> set ?todo. c < mb_next mb f v"
    and all: "\<forall>u \<in> mb_uids mb f v. tr_floor t < u \<longrightarrow> u \<in> set ?todo \<or> (\<forall>c \<in> set ?todo. c < u)"
    using plan unfolding plan_inv_def Let_def todo by blast+
  have sc: "sorted (tr_candidates t1)" and le: "\<forall>x \<in> set (tr_candidates t1). \<forall>y \<in> set (concat bs). x \<le> y"
    using srt by (auto simp: sorted_append)
  have sound: "tr_floor t \<le> a" "\<And>u. u \<in> set (tr_candidates t1) \<Longrightarrow> tr_floor t < u \<Longrightarrow> u \<le> a \<Longrightarrow> u \<in> tr_accounted t1"
    using highest_contiguous_sound[OF sc] unfolding a fl by blast+
  have mem: "a = tr_floor t \<or> a \<in> set (tr_candidates t1) \<inter> tr_accounted t1"
    using highest_contiguous_member[OF sc, of "tr_accounted t1" "tr_floor t1"] by (simp add: a fl)
  have "present m (content f v u)" if u: "u \<in> mb_uids mb f v" "u \<le> a" for u
  proof (cases "u \<le> tr_floor t")
    case True
    then show ?thesis using cov u by (auto simp: covered_def)
  next
    case False
    then have "a \<in> set (tr_candidates t1)" "a \<in> tr_accounted t1" using mem u(2) by auto
    then have "u \<in> set ?todo" using all u False by (metis UnCI leD not_le_imp_less set_append)
    then have "u \<in> tr_accounted t1"
      using sound(2)[of u] False u(2) le \<open>a \<in> set (tr_candidates t1)\<close> \<open>a \<in> tr_accounted t1\<close>
      by (metis Un_iff dual_order.antisym leI set_append)
    then show ?thesis by (rule acc)
  qed
  moreover have "a < mb_next mb f v" using mem lim cov by (auto simp: covered_def)
  ultimately show "covered present content m mb f v a" by (simp add: covered_def)
  have "sorted (filter (\<lambda>u. a < u) (tr_candidates t1) @ concat bs)"
    using srt by (auto simp: sorted_append sorted_wrt_filter)
  then show "plan_inv mb f v bs (t1\<lparr>tr_floor := a, tr_candidates := filter (\<lambda>u. a < u) (tr_candidates t1)\<rparr>)"
    using lim all sound(1) by (fastforce simp: plan_inv_def)
qed

text \<open>The cursor table after the upsert; the fenced writes do not touch it.\<close>

lemma cursors_upsert_lookup:
  "cursors_list_for_connection (cursors_upsert org_id connection_id f v a failed db) org_id connection_id g
   = (if g = f then Some \<lparr>fs_uidvalidity = Some v, fs_last_seen_uid = a, fs_failed_uids = failed\<rparr>
      else cursors_list_for_connection db org_id connection_id g)"
proof (cases "rowcount (cursor_at org_id connection_id f) (sync_cursors db) = 0")
  case True
  then have "select_one (cursor_at org_id connection_id f) (sync_cursors db) = None"
    by (simp add: rowcount_0_iff select_one_None_iff)
  with True show ?thesis
    by (auto simp: cursors_upsert_def cursors_list_for_connection_def select_one_append cursor_at_def split: option.splits)
next
  case False
  then have "select_one (cursor_at org_id connection_id f) (sync_cursors db) \<noteq> None"
    by (simp add: rowcount_0_iff select_one_None_iff)
  then obtain c where c: "select_one (cursor_at org_id connection_id f) (sync_cursors db) = Some c" by blast
  let ?f = "\<lambda>c. c\<lparr>sc_uidvalidity := Some v, sc_last_seen_uid := a, sc_failed_uids := failed\<rparr>"
  have "select_one (cursor_at org_id connection_id g) (update_where (cursor_at org_id connection_id f) ?f (sync_cursors db))
      = map_option (\<lambda>r. if cursor_at org_id connection_id f r then ?f r else r)
          (select_one (cursor_at org_id connection_id g) (sync_cursors db))"
    by (rule select_update_where) (simp add: cursor_at_def)
  then show ?thesis
    using False c select_one_SomeD(2)[OF c] select_one_SomeD(2)[of "cursor_at org_id connection_id g" "sync_cursors db"]
    by (cases "g = f")
      (auto simp: cursors_upsert_def cursors_list_for_connection_def cursor_at_def option.map_comp o_def
        cong: map_option_cong split: option.splits if_splits intro!: map_option_cong)
qed

lemma fenced_update_cursors [simp]:
  "cursors_list_for_connection (snd (fenced_update org_id connection_id run_id f db)) o' c'
   = cursors_list_for_connection db o' c'"
  by (simp add: fenced_update_def cursors_list_for_connection_def)

context email_ingest
begin

text \<open>A committed batch: what it does to the mail, the cursors and the folder's tracker.\<close>

lemma ingest_batch_sound:
  assumes ok: "ok m" and v: "0 < v" and mb: "mailbox_inv mb"
    and tr: "\<forall>f t. trackers f = Some t \<longrightarrow> tracker_inv present content m mb f t"
    and plan: "plan_inv mb f v (b # bs) (tracker_for trackers (batch_of f v [] []))"
    and msgs: "\<And>msg. msg \<in> set msgs \<Longrightarrow> fm_raw_bytes msg = content f v (fm_uid msg)"
    and run: "ingest_batch ingest now org_id connection_id r (batch_of f v b msgs) (trackers, ct) (db, m)
      = Some ((trackers', ct'), db', m')"
  obtains a failed t' where "ok m'" "\<And>raw. present m raw \<Longrightarrow> present m' raw"
    "cursors_list_for_connection db' org_id connection_id = (cursors_list_for_connection db org_id connection_id)
       (f \<mapsto> \<lparr>fs_uidvalidity = Some v, fs_last_seen_uid = a, fs_failed_uids = failed\<rparr>)"
    "covered present content m' mb f v a" "trackers' = trackers(f \<mapsto> t')" "tr_uidvalidity t' = v"
    "tracker_inv present content m' mb f t'" "plan_inv mb f v bs t'"
proof -
  let ?t = "tracker_for trackers (batch_of f v [] [])"
  obtain t1 ct1 m1 where im: "ingest_messages ingest msgs (note_requested b ?t, ct, m) = (t1, ct1, m1)"
    by (rule prod_cases3)
  define a where "a = highest_contiguous_uid (tr_candidates t1) (tr_accounted t1) (tr_floor t1)"
  let ?t' = "t1\<lparr>tr_floor := a, tr_candidates := filter (\<lambda>u. a < u) (tr_candidates t1)\<rparr>"
  let ?failed = "take MAX_FAILED_UIDS (sorted_list_of_set (tr_failed t1))"
  note s = ingest_messages_sound[OF ok im]
  have out: "m' = ig_commit ingest m1" "trackers' = trackers(f \<mapsto> ?t')" "ct' = ct1"
    "db' = snd (set_synced_count now org_id connection_id r (ct_seen ct1)
             (cursors_upsert org_id connection_id f v a ?failed db))"
    using run im by (auto simp: ingest_batch_def tracker_for_batch_of[of _ f v b] a_def Let_def
        split: prod.splits if_splits) (auto simp: batch_of_def)
  have ti: "tracker_inv present content m mb f ?t" by (rule tracker_for_inv[OF tr mb])
  have uv: "tr_uidvalidity t1 = v" using s(5) by (simp add: note_requested_def tracker_for_uidvalidity)
  have keep: "present m raw \<Longrightarrow> present m' raw" for raw using s(2) commit_keeps by (simp add: out(1))
  have acc: "present m' (content f v u)" if "u \<in> tr_accounted t1" for u
    using s(6)[OF that] keep ti msgs commit_keeps
    by (auto simp: note_requested_def tracker_inv_def tracker_for_uidvalidity out(1))
  have cov: "covered present content m' mb f v (tr_floor ?t)"
    using ti v keep by (auto simp: tracker_inv_def tracker_for_uidvalidity covered_def)
  have adv: "covered present content m' mb f v a" "plan_inv mb f v bs ?t'"
    by (rule advance_covered[OF cov plan _ _ acc a_def]; use s(3,4) in \<open>simp add: note_requested_def\<close>)+
  show thesis
  proof (rule that[of a ?failed ?t'])
    show "cursors_list_for_connection db' org_id connection_id = (cursors_list_for_connection db org_id connection_id)
       (f \<mapsto> \<lparr>fs_uidvalidity = Some v, fs_last_seen_uid = a, fs_failed_uids = ?failed\<rparr>)"
      by (rule ext) (simp add: out(4) set_synced_count_def cursors_upsert_lookup)
    show "tracker_inv present content m' mb f ?t'"
      using adv(1) acc by (simp add: tracker_inv_def uv)
    show "ok m'" using s(1) commit_ok by (simp add: out(1))
  qed (use keep adv uv out in auto)
qed

lemma batch_keeps_run:
  assumes l: "run_inv present content m mb l" and mb: "mailbox_inv mb" and ok: "ok m"
    and plan: "rl_plan l = Some (f, v, b # bs)"
    and msgs: "\<And>msg. msg \<in> set msgs \<Longrightarrow> fm_raw_bytes msg = content f v (fm_uid msg)"
    and run: "ingest_batch ingest now org_id connection_id r (batch_of f v b msgs) (rl_trackers l, rl_counts l) (db, m)
      = Some ((trackers', ct'), db', m')"
    and cur: "cursors_inv present content m mb (fetch_cursors (cursors_list_for_connection db org_id connection_id))"
  shows "ok m'" and "present m raw \<Longrightarrow> present m' raw"
    and "cursors_inv present content m' mb (fetch_cursors (cursors_list_for_connection db' org_id connection_id))"
    and "run_inv present content m' mb (l\<lparr>rl_trackers := trackers', rl_counts := ct', rl_plan := Some (f, v, bs)\<rparr>)"
proof -
  have v: "0 < v" "f \<in> rl_listed l" "plan_inv mb f v (b # bs) (tracker_for (rl_trackers l) (batch_of f v [] []))"
    and tr: "\<forall>f t. rl_trackers l f = Some t \<longrightarrow> tracker_inv present content m mb f t"
    using l plan by (auto simp: run_inv_def)
  obtain a failed t' where s: "ok m'" "\<And>raw. present m raw \<Longrightarrow> present m' raw"
    "cursors_list_for_connection db' org_id connection_id = (cursors_list_for_connection db org_id connection_id)
       (f \<mapsto> \<lparr>fs_uidvalidity = Some v, fs_last_seen_uid = a, fs_failed_uids = failed\<rparr>)"
    "covered present content m' mb f v a" "trackers' = (rl_trackers l)(f \<mapsto> t')" "tr_uidvalidity t' = v"
    "tracker_inv present content m' mb f t'" "plan_inv mb f v bs t'"
    using ingest_batch_sound[OF ok v(1) mb tr v(3) msgs run] by metis
  show "ok m'" and "present m raw \<Longrightarrow> present m' raw" by (fact s(1), fact s(2))
  show "cursors_inv present content m' mb (fetch_cursors (cursors_list_for_connection db' org_id connection_id))"
    using cursors_inv_mail[OF cur s(2)] s(4) by (auto simp: s(3) cursors_inv_def fetch_cursors_def)
  have "run_inv present content m' mb l" by (rule run_inv_mail[OF l s(2)])
  moreover have "tracker_for trackers' (batch_of f v [] []) = t'"
    by (simp add: tracker_for_def batch_of_def s(5,6))
  ultimately show "run_inv present content m' mb (l\<lparr>rl_trackers := trackers', rl_counts := ct', rl_plan := Some (f, v, bs)\<rparr>)"
    using v s(5,7,8) by (auto simp: run_inv_def)
qed

end

subsection \<open>Listing a folder\<close>

lemma min_uid_floor:
  assumes "fresh_tracker (cs f) (trackers f)" and "0 < v"
  shows "min_uid cs f v = Suc (tr_floor (tracker_for trackers (batch_of f v [] [])))"
    and "tr_candidates (tracker_for trackers (batch_of f v [] [])) = []"
  using assms by (auto simp: fresh_tracker_def min_uid_def tracker_for_def batch_of_def new_tracker_def split: option.splits)

lemma listing_plan:
  assumes "fresh_tracker (cs f) (trackers f)" and "0 < v" and "mailbox_inv mb" and "sorted uids"
    and "set uids = {u \<in> mb_uids mb f v. min_uid cs f v \<le> u}"
  shows "plan_inv mb f v (batch_by_bytes uids sizes n) (tracker_for trackers (batch_of f v [] []))"
  using assms(3-5) min_uid_floor[of cs f trackers, OF assms(1,2)]
  by (auto simp: plan_inv_def batch_by_bytes_def batch_loop_concat mailbox_inv_def)

lemma blocking_search_sorted: "blocking_search srv f n = Replies uids \<Longrightarrow> sorted uids"
  by (auto simp: blocking_search_def split: reply.splits)

lemma blocking_select_pos: "blocking_select srv f = Replies (Some v) \<Longrightarrow> 0 < v"
  by (auto simp: blocking_select_def split: reply.splits option.splits if_splits)

lemma load_run_inv:
  assumes "cursors_inv present content m mb (fetch_cursors (cursors_list_for_connection db org_id connection_id))"
  shows "run_inv present content m mb (load_run org_id connection_id db)"
  using assms assms[unfolded cursors_inv_stored]
  by (auto simp: run_inv_def load_run_def Let_def tracker_inv_def fresh_tracker_def fetch_cursors_def
      initial_trackers_def tracker_from_state_def new_tracker_def split: option.splits)

lemma list_keeps_run:
  assumes l: "run_inv present content m mb l" and mb: "mailbox_inv mb" and f: "f \<notin> rl_listed l"
    and sel: "blocking_select srv f = Replies (Some v)"
    and srch: "blocking_search srv f (min_uid (rl_cursors l) f v) = Replies uids"
    and uids: "set uids = {u \<in> mb_uids mb f v. min_uid (rl_cursors l) f v \<le> u}"
  shows "run_inv present content m mb
    (l\<lparr>rl_listed := insert f (rl_listed l), rl_plan := Some (f, v, batch_by_bytes uids sizes n)\<rparr>)"
proof -
  have "fresh_tracker (rl_cursors l f) (rl_trackers l f)" using l f by (simp add: run_inv_def)
  from listing_plan[of "rl_cursors l" f "rl_trackers l", OF this blocking_select_pos[OF sel] mb
      blocking_search_sorted[OF srch] uids]
  show ?thesis using l blocking_select_pos[OF sel] by (simp add: run_inv_def)
qed

section \<open>Every step keeps the invariant\<close>

lemma sync_inv_mailbox:
  assumes "sync_inv present ok content org_id connection_id s" and "mailbox_grows (sy_mailbox s) mb" and "mailbox_inv mb"
  shows "sync_inv present ok content org_id connection_id (s\<lparr>sy_mailbox := mb\<rparr>)"
  using assms by (auto simp: sync_inv_def intro: cursors_inv_grows run_inv_grows)

lemma sync_inv_run:
  assumes "sync_inv present ok content org_id connection_id s"
    and "\<And>l. x = Some l \<Longrightarrow> run_inv present content (sy_mail s) (sy_mailbox s) l"
  shows "sync_inv present ok content org_id connection_id (s\<lparr>sy_runs := (sy_runs s)(r := x)\<rparr>)"
  using assms by (simp add: sync_inv_def)

lemma sync_inv_mail:
  assumes "sync_inv present ok content org_id connection_id s" and "ok m'"
    and "\<And>raw. present (sy_mail s) raw \<Longrightarrow> present m' raw"
    and "cursors_inv present content m' (sy_mailbox s) (fetch_cursors (cursors_list_for_connection db' org_id connection_id))"
  shows "sync_inv present ok content org_id connection_id (s\<lparr>sy_db := db', sy_mail := m'\<rparr>)"
  using assms by (auto simp: sync_inv_def intro: run_inv_mail)

context email_ingest
begin

theorem sync_step_keeps:
  assumes "sync_step ingest content org_id connection_id s s'" and inv: "sync_inv present ok content org_id connection_id s"
  shows "sync_inv present ok content org_id connection_id s'"
  using assms
proof (cases rule: sync_step.cases)
  case (other_session db')
  then show ?thesis using inv by (simp add: sync_inv_def cursors_inv_stored)
next
  case (other_ingest raw d res m')
  have ok: "ok (sy_mail s)" using inv by (simp add: sync_inv_def)
  have keep: "present (sy_mail s) raw' \<Longrightarrow> present m' raw'" for raw' by (rule ingest_keeps[OF ok other_ingest(2)])
  have "sync_inv present ok content org_id connection_id (s\<lparr>sy_db := sy_db s, sy_mail := m'\<rparr>)"
    by (rule sync_inv_mail[OF inv ingest_ok[OF ok other_ingest(2)] keep])
      (use inv keep in \<open>auto simp: sync_inv_def intro: cursors_inv_mail\<close>)
  with other_ingest(1) show ?thesis by simp
next
  case (load r)
  have "run_inv present content (sy_mail s) (sy_mailbox s) (load_run org_id connection_id (sy_db s))"
    by (rule load_run_inv) (use inv in \<open>simp add: sync_inv_def\<close>)
  then show ?thesis unfolding load(1) by (intro sync_inv_run[OF inv]) simp
next
  case (list_folder r l folder srv v uids sizes)
  then show ?thesis
    using inv by (auto simp: sync_inv_def intro: list_keeps_run)
next
  case (batch r l folder v b bs msgs now trackers' counts' db' m')
  have l: "run_inv present content (sy_mail s) (sy_mailbox s) l" and mb: "mailbox_inv (sy_mailbox s)" and ok: "ok (sy_mail s)"
    and cur: "cursors_inv present content (sy_mail s) (sy_mailbox s)
      (fetch_cursors (cursors_list_for_connection (sy_db s) org_id connection_id))"
    using inv batch(2) by (auto simp: sync_inv_def)
  note k = batch_keeps_run[OF l mb ok batch(3,4,5) cur]
  have "sync_inv present ok content org_id connection_id (s\<lparr>sy_db := db', sy_mail := m'\<rparr>)"
    by (rule sync_inv_mail[OF inv k(1) k(2) k(3)])
  from sync_inv_run[OF this, of "Some (l\<lparr>rl_trackers := trackers', rl_counts := counts', rl_plan := Some (folder, v, bs)\<rparr>)" r] k(4)
  show ?thesis using batch(1) by simp
next
  case (folder_done r l folder v)
  have "run_inv present content (sy_mail s) (sy_mailbox s) l" using inv folder_done(2) by (simp add: sync_inv_def)
  then show ?thesis unfolding folder_done(1) by (intro sync_inv_run[OF inv]) (auto simp: run_inv_def)
next
  case (run_ends r)
  then show ?thesis unfolding run_ends by (intro sync_inv_run[OF inv]) simp
next
  case (deliver folder v u)
  have mb: "mailbox_inv (sy_mailbox s)" using inv by (simp add: sync_inv_def)
  show ?thesis
    unfolding deliver(1) using deliver(2) mb
    by (intro sync_inv_mailbox[OF inv]) (auto simp: mailbox_grows_def mailbox_inv_def less_Suc_eq intro: less_le_trans)
next
  case (expunge folder v u)
  have mb: "mailbox_inv (sy_mailbox s)" using inv by (simp add: sync_inv_def)
  show ?thesis
    unfolding expunge(1) using mb
    by (intro sync_inv_mailbox[OF inv]) (auto simp: mailbox_grows_def mailbox_inv_def)
qed

theorem sync_steps_keep:
  assumes "(sync_step ingest content org_id connection_id)\<^sup>*\<^sup>* s s'"
    and "sync_inv present ok content org_id connection_id s"
  shows "sync_inv present ok content org_id connection_id s'"
  using assms by (induction rule: rtranclp_induct) (auto intro: sync_step_keeps)

end

section \<open>A whole run\<close>

text \<open>
  What the run relies on of the server: \<open>LIST\<close> names a folder once, a \<open>SEARCH\<close> finds the messages the folder holds, and a message
  fetched under a UID is the one with that UID. What it relies on of other sessions: they do not set a cursor of this connection.
\<close>

definition serves :: "(string \<Rightarrow> nat \<Rightarrow> uid \<Rightarrow> string) \<Rightarrow> mailbox \<Rightarrow> imap_server \<Rightarrow> bool" where
  "serves content mb srv \<longleftrightarrow>
     (\<forall>fs. blocking_list_folders srv = Replies fs \<longrightarrow> distinct fs)
     \<and> (\<forall>f v n us. blocking_select srv f = Replies (Some v) \<and> im_search srv f n = Replies us \<longrightarrow>
          {u \<in> set us. n \<le> u} = {u \<in> mb_uids mb f v. n \<le> u})
     \<and> (\<forall>f v q ms msg. blocking_select srv f = Replies (Some v) \<and> im_fetch srv f q = Replies (Some ms) \<and> msg \<in> set ms \<longrightarrow>
          fm_raw_bytes msg = content f v (fm_uid msg))"

definition keeps_cursors :: "uuid \<Rightarrow> uuid \<Rightarrow> (nat \<Rightarrow> connector_db \<Rightarrow> connector_db) \<Rightarrow> bool" where
  "keeps_cursors org_id connection_id others \<longleftrightarrow>
     (\<forall>k db f st. cursors_list_for_connection (others k db) org_id connection_id f = Some st \<longrightarrow>
        cursors_list_for_connection db org_id connection_id f = Some st)"

lemma others_cursors:
  assumes "keeps_cursors org_id connection_id others"
    and "cursors_inv present content m mb (fetch_cursors (cursors_list_for_connection db org_id connection_id))"
  shows "cursors_inv present content m mb (fetch_cursors (cursors_list_for_connection (others k db) org_id connection_id))"
  using assms unfolding cursors_inv_stored keeps_cursors_def by blast

lemma fetch_chunks_mem:
  assumes "fetch_chunks srv f qs out = Replies ms" and "msg \<in> set ms"
  shows "msg \<in> set out \<or> (\<exists>q items. im_fetch srv f q = Replies (Some items) \<and> msg \<in> set items)"
  using assms by (induction qs arbitrary: out) (fastforce split: reply.splits option.splits)+

lemma serves_fetch:
  assumes "serves content mb srv" and "blocking_select srv f = Replies (Some v)"
    and "blocking_fetch srv f b = Replies ms" and "msg \<in> set ms"
  shows "fm_raw_bytes msg = content f v (fm_uid msg)"
  using assms fetch_chunks_mem[of srv f _ "[]" ms msg] unfolding serves_def blocking_fetch_def by fastforce

lemma serves_search:
  assumes "serves content mb srv" and "blocking_select srv f = Replies (Some v)" and "blocking_search srv f n = Replies uids"
  shows "set uids = {u \<in> mb_uids mb f v. n \<le> u}"
  using assms unfolding serves_def blocking_search_def by (fastforce split: reply.splits)

lemma sync_loop_append:
  "sync_loop ingest clk others org_id connection_id r k (xs @ ys) local store =
     (case sync_loop ingest clk others org_id connection_id r k xs local store of
        (Drained, local', store') \<Rightarrow> sync_loop ingest clk others org_id connection_id r (k + length xs) ys local' store'
      | res \<Rightarrow> res)"
proof (induction xs arbitrary: k local store)
  case (Cons b xs)
  show ?case by (simp add: Let_def Cons.IH split: option.split prod.split loop_end.split)
qed simp

lemma run_inv_same_plan:
  "run_inv present content m mb l \<Longrightarrow> rl_plan l = Some (f, v, ps) \<Longrightarrow>
     \<exists>ps'. run_inv present content m mb (l\<lparr>rl_plan := Some (f, v, ps')\<rparr>)"
  by (rule exI[of _ ps]) (cases l, simp)

context email_ingest
begin

text \<open>The batches of one folder, from any point of its plan.\<close>

lemma loop_plan:
  assumes srv: "serves content mb srv" "blocking_select srv f = Replies (Some v)" and mb: "mailbox_inv mb"
    and others: "keeps_cursors org_id connection_id others"
    and "ok m" and "run_inv present content m mb l" and "rl_plan l = Some (f, v, ps)"
    and "cursors_inv present content m mb (fetch_cursors (cursors_list_for_connection db org_id connection_id))"
    and "yield_batches srv f v ps = (bs, raised)"
    and "sync_loop ingest clk others org_id connection_id r k bs (rl_trackers l, rl_counts l) (db, m)
      = (how, (trackers', ct'), db', m')"
  shows "ok m' \<and> cursors_inv present content m' mb (fetch_cursors (cursors_list_for_connection db' org_id connection_id))
    \<and> (how = Drained \<longrightarrow> (\<exists>ps'. run_inv present content m' mb
          (l\<lparr>rl_trackers := trackers', rl_counts := ct', rl_plan := Some (f, v, ps')\<rparr>)))"
  using assms(5-)
proof (induction ps arbitrary: l db m bs k)
  case Nil
  then show ?case by (auto intro: run_inv_same_plan)
next
  case (Cons b ps)
  let ?db = "others k db"
  have cur: "cursors_inv present content m mb (fetch_cursors (cursors_list_for_connection ?db org_id connection_id))"
    by (rule others_cursors[OF others Cons.prems(4)])
  show ?case
  proof (cases "blocking_fetch srv f b")
    case Raises
    then show ?thesis using Cons.prems by (auto intro: run_inv_same_plan)
  next
    case (Replies ms)
    obtain rest where rest: "yield_batches srv f v ps = (rest, raised)" and bs: "bs = batch_of f v b ms # rest"
      using Cons.prems(5) Replies by (auto simp: batch_of_def split: prod.splits)
    have msgs: "\<And>msg. msg \<in> set ms \<Longrightarrow> fm_raw_bytes msg = content f v (fm_uid msg)"
      using serves_fetch[OF srv Replies] .
    show ?thesis
    proof (cases "connections_is_disabled ?db org_id connection_id
        \<or> ingest_batch ingest (clk k) org_id connection_id r (batch_of f v b ms) (rl_trackers l, rl_counts l) (?db, m) = None")
      case True
      then show ?thesis using Cons.prems(1,6) cur bs by (auto simp: Let_def split: if_splits)
    next
      case False
      then obtain t1 ct1 db1 m1 where
        ib: "ingest_batch ingest (clk k) org_id connection_id r (batch_of f v b ms) (rl_trackers l, rl_counts l) (?db, m)
          = Some ((t1, ct1), db1, m1)" by fastforce
      let ?l = "l\<lparr>rl_trackers := t1, rl_counts := ct1, rl_plan := Some (f, v, ps)\<rparr>"
      note k = batch_keeps_run[OF Cons.prems(2) mb Cons.prems(1,3) msgs ib cur]
      have "sync_loop ingest clk others org_id connection_id r (Suc k) rest (rl_trackers ?l, rl_counts ?l) (db1, m1)
          = (how, (trackers', ct'), db', m')"
        using Cons.prems(6) False ib bs by (simp add: Let_def)
      from Cons.IH[OF k(1) k(4) _ k(3) rest this] show ?thesis by simp
    qed
  qed
qed

lemma loop_folders:
  assumes srv: "serves content mb srv" and mb: "mailbox_inv mb" and others: "keeps_cursors org_id connection_id others"
    and "ok m" and "run_inv present content m mb l" and "distinct fs" and "set fs \<inter> rl_listed l = {}"
    and "cursors_inv present content m mb (fetch_cursors (cursors_list_for_connection db org_id connection_id))"
    and "fetch_folders srv (rl_cursors l) fs = (bs, raised)"
    and "sync_loop ingest clk others org_id connection_id r k bs (rl_trackers l, rl_counts l) (db, m)
      = (how, (trackers', ct'), db', m')"
  shows "ok m' \<and> cursors_inv present content m' mb (fetch_cursors (cursors_list_for_connection db' org_id connection_id))"
  using assms(4-)
proof (induction fs arbitrary: l db m bs k)
  case Nil
  then show ?case by auto
next
  case (Cons f fs)
  obtain bs1 raised1 where ff: "fetch_folder srv (rl_cursors l) f = (bs1, raised1)" by fastforce
  obtain bs2 where bs: "bs = bs1 @ bs2" and rest: "raised1 \<and> bs2 = [] \<or> \<not> raised1 \<and> fetch_folders srv (rl_cursors l) fs = (bs2, raised)"
    using Cons.prems(6) ff by (auto simp: Let_def split: if_splits prod.splits)
  have skip: ?case if "bs1 = []"
  proof (cases raised1)
    case True
    then show ?thesis using Cons.prems bs rest that by simp
  next
    case False
    then show ?thesis using Cons.IH[of m l db bs2 k] Cons.prems bs rest that by simp
  qed
  show ?case
  proof (cases "\<exists>v uids sizes. blocking_select srv f = Replies (Some v) \<and> blocking_search srv f (min_uid (rl_cursors l) f v) = Replies uids
      \<and> yield_batches srv f v (batch_by_bytes uids sizes DEFAULT_BATCH_BYTES) = (bs1, raised1)")
    case False
    then have "bs1 = []" using ff by (auto simp: fetch_folder_def split: reply.splits option.splits if_splits)
    then show ?thesis by (rule skip)
  next
    case True
    then obtain v uids sizes where sel: "blocking_select srv f = Replies (Some v)"
      and se: "blocking_search srv f (min_uid (rl_cursors l) f v) = Replies uids"
      and yb: "yield_batches srv f v (batch_by_bytes uids sizes DEFAULT_BATCH_BYTES) = (bs1, raised1)" by blast
    let ?l = "l\<lparr>rl_listed := insert f (rl_listed l), rl_plan := Some (f, v, batch_by_bytes uids sizes DEFAULT_BATCH_BYTES)\<rparr>"
    have l: "run_inv present content m mb ?l"
      by (rule list_keeps_run[OF Cons.prems(2) mb _ sel se serves_search[OF srv sel se]]) (use Cons.prems(4) in simp)
    obtain how1 t1 ct1 db1 m1 where
      lp: "sync_loop ingest clk others org_id connection_id r k bs1 (rl_trackers ?l, rl_counts ?l) (db, m)
        = (how1, (t1, ct1), db1, m1)" by (metis surj_pair)
    have k: "ok m1" "cursors_inv present content m1 mb (fetch_cursors (cursors_list_for_connection db1 org_id connection_id))"
      "how1 = Drained \<Longrightarrow> \<exists>ps'. run_inv present content m1 mb (?l\<lparr>rl_trackers := t1, rl_counts := ct1, rl_plan := Some (f, v, ps')\<rparr>)"
      using loop_plan[OF srv sel mb others Cons.prems(1) l _ Cons.prems(5) yb lp] by auto
    show ?thesis
    proof (cases "how1 = Drained \<and> \<not> raised1")
      case False
      then show ?thesis
        using Cons.prems(7) lp k rest by (auto simp: bs sync_loop_append split: loop_end.splits)
    next
      case True
      then obtain ps' where l1: "run_inv present content m1 mb (?l\<lparr>rl_trackers := t1, rl_counts := ct1, rl_plan := Some (f, v, ps')\<rparr>)"
        using k(3) by blast
      have "sync_loop ingest clk others org_id connection_id r (k + length bs1) bs2 (t1, ct1) (db1, m1)
          = (how, (trackers', ct'), db', m')"
        using Cons.prems(7) lp True by (simp add: bs sync_loop_append)
      then show ?thesis
        using Cons.IH[OF k(1) l1, of db1 bs2 "k + length bs1"] Cons.prems(3,4) k(2) rest True by simp
    qed
  qed
qed

end

lemma set_total_cursors [simp]:
  "cursors_list_for_connection (snd (set_total org_id connection_id r n db)) o' c' = cursors_list_for_connection db o' c'"
  by (simp add: set_total_def)

lemma finalize_run_cursors [simp]:
  "cursors_list_for_connection (fst (finalize_run e d org_id connection_id r okk err ct (db, w))) o' c'
   = cursors_list_for_connection db o' c'"
  by (simp add: finalize_run_def finalize_sync_def fenced_update_def runs_finalize_def cursors_list_for_connection_def Let_def)

context email_ingest
begin

lemma sync_body_sound:
  assumes srv: "\<And>c srv. build c = Server srv \<Longrightarrow> serves content mb srv" and mb: "mailbox_inv mb"
    and others: "keeps_cursors org_id connection_id others" and ok: "ok m"
    and cur: "cursors_inv present content m mb (fetch_cursors (cursors_list_for_connection db org_id connection_id))"
    and run: "sync_body ingest build e d clk others org_id connection_id r (db, m, w) = (raised, db', m', w')"
  shows "ok m' \<and> cursors_inv present content m' mb (fetch_cursors (cursors_list_for_connection db' org_id connection_id))"
proof (cases "\<exists>c srv n. connections_get_in_org db connection_id org_id = Some c \<and> build c = Server srv
    \<and> count_pending srv (fetch_cursors (cursors_list_for_connection db org_id connection_id)) = Replies n
    \<and> fst (set_total org_id connection_id r n (others 0 db))")
  case False
  then show ?thesis
    using run ok cur others_cursors[OF others cur, of 0]
    by (auto simp: sync_body_def Let_def case_prod_beta split: option.splits built.splits reply.splits if_splits)
next
  case True
  then obtain c srv n where c: "connections_get_in_org db connection_id org_id = Some c" "build c = Server srv"
    "count_pending srv (fetch_cursors (cursors_list_for_connection db org_id connection_id)) = Replies n"
    "fst (set_total org_id connection_id r n (others 0 db))" by blast
  let ?l = "load_run org_id connection_id db"
  let ?db1 = "snd (set_total org_id connection_id r n (others 0 db))"
  obtain fs where fs: "blocking_list_folders srv = Replies fs" using c(3) by (auto simp: count_pending_def split: reply.splits)
  obtain bs rz where fi: "fetch_incremental srv (rl_cursors ?l) = (bs, rz)" by fastforce
  obtain how tr ct db2 m2 where lp: "sync_loop ingest clk others org_id connection_id r 1 bs (rl_trackers ?l, rl_counts ?l) (?db1, m)
      = (how, (tr, ct), db2, m2)" by (metis surj_pair)
  have "distinct fs" using srv[OF c(2)] fs by (simp add: serves_def)
  then have k: "ok m2" "cursors_inv present content m2 mb (fetch_cursors (cursors_list_for_connection db2 org_id connection_id))"
    using loop_folders[OF srv[OF c(2)] mb others ok load_run_inv[OF cur] _ _ _ _ lp, of fs rz] fi fs
      others_cursors[OF others cur, of 0] by (simp_all add: fetch_incremental_def load_run_def Let_def)
  have "sync_body ingest build e d clk others org_id connection_id r (db, m, w) =
      (case how of
         Stolen \<Rightarrow> (False, db2, m2, w)
       | Disabled \<Rightarrow> (let (db3, w3) = finalize_run e d org_id connection_id r True None ct (db2, w) in (False, db3, m2, w3))
       | Drained \<Rightarrow> if rz then (True, db2, m2, w)
           else (let (db3, w3) = finalize_run e d org_id connection_id r True None ct (others (Suc (length bs)) db2, w)
                 in (False, db3, m2, w3)))"
    using c fi lp by (simp add: sync_body_def load_run_def Let_def case_prod_beta split: loop_end.split)
  then have db': "m' = m2 \<and> (\<exists>j dj. (dj = db2 \<or> dj = others j db2) \<and> cursors_list_for_connection db' org_id connection_id
      = cursors_list_for_connection dj org_id connection_id)"
    using run by (auto simp: Let_def case_prod_beta split: loop_end.splits if_splits)
  then show ?thesis using k others_cursors[OF others k(2)] by auto
qed

lemma run_sync_sound:
  assumes srv: "\<And>c srv. build c = Server srv \<Longrightarrow> serves content mb srv" and mb: "mailbox_inv mb"
    and others: "keeps_cursors org_id connection_id others" and ok: "ok m"
    and cur: "cursors_inv present content m mb (fetch_cursors (cursors_list_for_connection db org_id connection_id))"
    and run: "run_sync ingest build e d clk others org_id connection_id r (db, m, w) = (db', m', w')"
  shows "ok m' \<and> cursors_inv present content m' mb (fetch_cursors (cursors_list_for_connection db' org_id connection_id))"
proof -
  obtain raised db1 m1 w1 where b: "sync_body ingest build e d clk others org_id connection_id r (db, m, w) = (raised, db1, m1, w1)"
    by (metis surj_pair)
  from sync_body_sound[OF srv mb others ok cur b] run b show ?thesis
    by (auto simp: run_sync_def Let_def case_prod_beta split: bool.splits)
qed

end

section \<open>Claims and fencing\<close>

lemma no_fence_update:
  assumes "\<forall>c \<in> set (connections db). \<not> fenced org_id connection_id r c"
  shows "fenced_update org_id connection_id r f db = (False, db)"
proof -
  have "filter (fenced org_id connection_id r) (connections db) = []" using assms by (simp add: filter_empty_conv)
  then show ?thesis using assms by (simp add: fenced_update_def rowcount_def update_where_id)
qed

lemma cursors_upsert_connections [simp]: "connections (cursors_upsert o' c f v a xs db) = connections db"
  by (simp add: cursors_upsert_def)

text \<open>A start that succeeds made exactly one row of the connection its own.\<close>

lemma start_sync_claims:
  assumes "start_sync e org_id connection_id actor owner w = (Inr (r, c), w')"
  shows "rowcount (claimable (now_utc e) org_id connection_id STALE_SECONDS) (connections (cw_db w)) = 1"
    and "connections (cw_db w') = update_where (claimable (now_utc e) org_id connection_id STALE_SECONDS)
      (claim_row (now_utc e) r) (connections (cw_db w))"
    and "entitlements (cw_db w') = entitlements (cw_db w)"
    and "\<exists>c0. load_connection_scoped (cw_db w) org_id connection_id owner = Some c0
      \<and> is_entitled (cw_db w) org_id (cn_connector_type c0)"
  using assms
  by (auto simp: start_sync_def claim_for_sync_def start_run_def mark_stale_running_abandoned_def Let_def
      split: option.splits if_splits)

lemma claimed_row:
  assumes start: "start_sync e org_id connection_id actor owner w = (Inr (r, c), w')"
    and ids: "distinct (map cn_id (connections (cw_db w)))"
    and row: "x \<in> set (connections (cw_db w'))" "cn_id x = connection_id" "cn_org_id x = org_id"
  shows "\<exists>y \<in> set (connections (cw_db w)). x = claim_row (now_utc e) r y
    \<and> claimable (now_utc e) org_id connection_id STALE_SECONDS y"
proof -
  let ?P = "claimable (now_utc e) org_id connection_id STALE_SECONDS"
  note s = start_sync_claims[OF start]
  obtain y where y: "y \<in> set (connections (cw_db w))" "?P y" using s(1) by (metis One_nat_def less_numeral_extra(1) rowcount_0_iff zero_neq_one)
  have "x = claim_row (now_utc e) r y \<or> x \<in> set (connections (cw_db w)) \<and> \<not> ?P x"
    using row(1) ids y unfolding s(2) set_update_where
    by (auto simp: claimable_def dest: key_inj[OF ids])
  moreover have "x = y" if "x \<in> set (connections (cw_db w))"
    using key_inj[OF ids that y(1)] row(2) y(2) by (simp add: claimable_def)
  ultimately show ?thesis using y by blast
qed

text \<open>
  Starting a sync fences every earlier run of the connection. After a start that succeeds, a run with another id can
  neither commit a batch nor set the total nor finalize: its batch reports the lost claim (and is rolled back), and
  finalizing leaves the tables and the audit log as they are.
\<close>

theorem superseded_run_commits_nothing:
  assumes start: "start_sync e org_id connection_id actor owner w = (Inr (r, c), w')"
    and ids: "distinct (map cn_id (connections (cw_db w)))" and "r' \<noteq> r"
  shows "ingest_batch ingest now org_id connection_id r' batch local (cw_db w', m) = None
    \<and> set_total org_id connection_id r' n (cw_db w') = (False, cw_db w')
    \<and> finalize_run e' d org_id connection_id r' ok err ct (cw_db w', aw) = (cw_db w', aw)"
proof -
  have nf: "\<forall>x \<in> set (connections (cw_db w')). \<not> fenced org_id connection_id r' x"
    using claimed_row[OF start ids] \<open>r' \<noteq> r\<close> by (fastforce simp: fenced_def claim_row_def)
  then have "fenced_update org_id connection_id r' f (cursors_upsert org_id connection_id a b u xs (cw_db w'))
      = (False, cursors_upsert org_id connection_id a b u xs (cw_db w'))" for f a b u xs
    by (intro no_fence_update) simp
  then show ?thesis
    using no_fence_update[OF nf]
    by (simp add: ingest_batch_def set_synced_count_def set_total_def finalize_run_def finalize_sync_def
        Let_def case_prod_beta split: prod.split)
qed

definition demo_connection :: connection where
  "demo_connection = \<lparr>cn_id = 3, cn_org_id = 7, cn_connector_type = imap, cn_owner_user_id = Some 5,
     cn_display_name = ''Work'', cn_auth_method = app_password, cn_username = ''a@x'', cn_config = [], cn_secret_ciphertext = ''c'', cn_secret_key_version = 1,
     cn_status = conn_connected, cn_last_checked_at = None, cn_last_error = None, cn_disabled_at = None,
     cn_sync_status = sync_idle, cn_sync_run_id = None, cn_sync_started_at = None, cn_sync_heartbeat_at = None,
     cn_last_synced_at = None, cn_synced_count = 0, cn_total_count = None, cn_last_sync_error = None, cn_created_at = 0\<rparr>"

definition demo_connector_db :: connector_db where
  "demo_connector_db = \<lparr>connections = [demo_connection], sync_cursors = [], sync_runs = [], consents = [],
     entitlements = [\<lparr>en_id = 1, en_org_id = 7, en_connector_type = imap, en_enabled = True,
       en_set_by_platform_admin_id = None, en_granted_at = 0, en_revoked_at = None\<rparr>], policies = [], overrides = []\<rparr>"

definition demo_cworld :: cworld where
  "demo_cworld = \<lparr>cw_world = \<lparr>w_db = demo_db, w_independent = [], w_limiter = new_rate_limiter demo_policy demo_policy,
     w_denylist = new_denylist 900\<rparr>, cw_db = demo_connector_db\<rparr>"

lemma demo_start:
  "\<exists>c w'. start_sync (demo_env 50) 7 3 (Some demo_principal) (Some 5) demo_cworld = (Inr (1000, c), w')"
  "distinct (map cn_id (connections (cw_db demo_cworld)))"
  by (simp_all add: start_sync_def load_connection_scoped_def connections_get_for_owner_def demo_cworld_def
      demo_connector_db_def demo_connection_def is_entitled_def entitlements_get_def claim_for_sync_def claimable_def
      demo_env_def Let_def)

theorem superseded_run_commits_nothing_witness:
  "\<exists>c w'. start_sync (demo_env 50) 7 3 (Some demo_principal) (Some 5) demo_cworld = (Inr (1000, c), w')
     \<and> set_total 7 3 8 2 (cw_db w') = (False, cw_db w')"
proof -
  obtain c w' where s: "start_sync (demo_env 50) 7 3 (Some demo_principal) (Some 5) demo_cworld = (Inr (1000, c), w')"
    using demo_start(1) by blast
  have "set_total 7 3 8 2 (cw_db w') = (False, cw_db w')"
    by (rule superseded_run_commits_nothing[OF s demo_start(2), THEN conjunct2, THEN conjunct1]) simp
  with s show ?thesis by blast
qed

text \<open>
  At most one live run. While the heartbeat of a claimed run is not older than the stale window of 300 seconds, a
  second start on the same connection is refused with \<open>SyncAlreadyRunningError\<close> and changes nothing.
\<close>

theorem second_start_refused:
  assumes start: "start_sync e org_id connection_id actor owner w = (Inr (r, c), w')"
    and ids: "distinct (map cn_id (connections (cw_db w)))"
    and fresh: "now_utc e' \<le> now_utc e + 300 * 1000000"
  shows "start_sync e' org_id connection_id actor' owner w'
    = (Inl (SyncAlreadyRunningError ''A sync is already running for this connection.''), w')"
proof -
  let ?P = "claimable (now_utc e) org_id connection_id STALE_SECONDS"
  note s = start_sync_claims[OF start]
  obtain c0 where c0: "load_connection_scoped (cw_db w) org_id connection_id owner = Some c0"
    "is_entitled (cw_db w) org_id (cn_connector_type c0)" using s(4) by blast
  let ?c = "if ?P c0 then claim_row (now_utc e) r c0 else c0"
  have found: "load_connection_scoped (cw_db w') org_id connection_id owner = Some ?c"
    using c0(1)
    by (cases owner) (auto simp: load_connection_scoped_def connections_get_shared_in_org_def connections_get_for_owner_def
        s(2) select_update_where claim_row_def)
  then have "?c \<in> set (connections (cw_db w'))" "cn_id ?c = connection_id" "cn_org_id ?c = org_id"
    by (cases owner; auto simp: load_connection_scoped_def connections_get_shared_in_org_def
        connections_get_for_owner_def dest: select_one_SomeD)+
  from claimed_row[OF start ids this] have live: "cn_disabled_at ?c = None"
    by (auto simp: claim_row_def claimable_def split: if_splits)
  have "\<not> claimable (now_utc e') org_id connection_id STALE_SECONDS x" if "x \<in> set (connections (cw_db w'))" for x
    using claimed_row[OF start ids that] fresh
    by (fastforce simp: claimable_def claim_row_def STALE_SECONDS_def)
  then have "rowcount (claimable (now_utc e') org_id connection_id STALE_SECONDS) (connections (cw_db w')) = 0"
    by (simp add: rowcount_0_iff)
  moreover have "is_entitled (cw_db w') org_id (cn_connector_type ?c)"
    using c0(2) s(3) by (simp add: is_entitled_def entitlements_get_def claim_row_def)
  ultimately show ?thesis
    using found live by (simp add: start_sync_def claim_for_sync_def Let_def del: if_split)
qed

theorem second_start_refused_witness:
  "\<exists>c w'. start_sync (demo_env 50) 7 3 (Some demo_principal) (Some 5) demo_cworld = (Inr (1000, c), w')
     \<and> \<not> is_ok (fst (start_sync (demo_env 60) 7 3 None (Some 5) w'))"
proof -
  obtain c w' where s: "start_sync (demo_env 50) 7 3 (Some demo_principal) (Some 5) demo_cworld = (Inr (1000, c), w')"
    using demo_start(1) by blast
  have "now_utc (demo_env 60) \<le> now_utc (demo_env 50) + 300 * 1000000" by (simp add: demo_env_def)
  from second_start_refused[OF s demo_start(2) this, of None] s show ?thesis by simp
qed

end
