(* ===== verification/Email_Ingest.thy ===== *)
theory Email_Ingest
  imports Grant_Writer Sync_Safety
begin

text \<open>
  The ingest of one email (\<open>connectors/imap/services/email_ingest_service.py\<close>): parse, look up the dedup key, resolve the
  participants, store the message with its recipients and attachments, write the grants. The MIME parse and the text
  extraction are arguments. The interpretation \<open>mi\<close> shows that it meets the contract of the sync
  (\<open>email_ingest\<close>), so that no mail is lost by the runner with this ingest.
\<close>

section \<open>The service\<close>

text \<open>The strict parse returns a mail, overflows the stack on pathological nesting, or raises something else.\<close>

datatype strict_result = Parsed parsed_email | Recursion_error | Parse_raises

record ingest_env =
  ie_resolver :: resolver_env
  ie_grants :: grant_env
  ie_strict_parse :: "string \<Rightarrow> string \<Rightarrow> datetime option \<Rightarrow> strict_result"
  ie_sha256 :: "string \<Rightarrow> string"
  ie_extract_text :: "parsed_attachment \<Rightarrow> extraction_result"
  ie_rival :: "nat \<Rightarrow> mail_db \<Rightarrow> mail_db"

record ingest_service =
  is_org_id :: uuid
  is_connection_id :: uuid
  is_owner_user_id :: "uuid option"
  is_mailbox :: string
  is_resolver :: resolver_config

definition new_ingest_service :: "ingest_env \<Rightarrow> connection \<Rightarrow> ingest_service" where
  "new_ingest_service e c = \<lparr>is_org_id = cn_org_id c, is_connection_id = cn_id c, is_owner_user_id = cn_owner_user_id c,
     is_mailbox = cn_username c,
     is_resolver = new_resolver_config (ie_resolver e) (cn_username c) (connector_type_value (cn_connector_type c))\<rparr>"

record mail_state =
  ms_db :: mail_db
  ms_cache :: resolution_cache
  ms_draws :: nat

definition degraded_parse :: "ingest_env \<Rightarrow> string \<Rightarrow> datetime option \<Rightarrow> parsed_email" where
  "degraded_parse e raw_bytes internal_date =
     \<lparr>pd_dedup_key = ''sha256:'' @ ie_sha256 e raw_bytes, pd_message_id = None, pd_in_reply_to = None, pd_references = [],
      pd_from_name = None, pd_from_address = None, pd_subject = None, pd_sent_at = None, pd_received_at = internal_date,
      pd_body_text = [], pd_recipients = [], pd_attachments = [], pd_direction = None, pd_is_automated = False,
      pd_is_automated_origin = False, pd_is_reply = False, pd_has_attachments = False, pd_word_count = 0, pd_language = None,
      pd_headers = [], pd_parse_status = ''failed''\<rparr>"

definition parse_email :: "ingest_env \<Rightarrow> string \<Rightarrow> string \<Rightarrow> datetime option \<Rightarrow> parsed_email option" where
  "parse_email e raw_bytes mailbox_address internal_date =
     (case ie_strict_parse e raw_bytes mailbox_address internal_date of
        Parsed p \<Rightarrow> Some p
      | Recursion_error \<Rightarrow> Some (degraded_parse e raw_bytes internal_date)
      | Parse_raises \<Rightarrow> None)"

text \<open>The resolver works on the session's tables and memo.\<close>

definition resolver_of :: "mail_state \<Rightarrow> resolver" where
  "resolver_of m = \<lparr>rs_db = md_entities (ms_db m), rs_cache = ms_cache m, rs_draws = ms_draws m\<rparr>"

definition with_resolver :: "resolver \<Rightarrow> mail_state \<Rightarrow> mail_state" where
  "with_resolver s m = m\<lparr>ms_db := (ms_db m)\<lparr>md_entities := rs_db s\<rparr>, ms_cache := rs_cache s, ms_draws := rs_draws s\<rparr>"

definition resolve_in ::
  "ingest_env \<Rightarrow> ingest_service \<Rightarrow> string \<Rightarrow> string option \<Rightarrow> datetime option \<Rightarrow> bool \<Rightarrow> mail_state
    \<Rightarrow> uuid option option \<times> mail_state" where
  "resolve_in e svc address name seen_at allow_person m =
     (let (got, s) = resolve_participant (ie_resolver e) (is_resolver svc) (is_org_id svc) address name seen_at allow_person (resolver_of m)
      in (got, with_resolver s m))"

definition build_message :: "ingest_service \<Rightarrow> uuid \<Rightarrow> parsed_email \<Rightarrow> uuid option \<Rightarrow> nat \<Rightarrow> email_message" where
  "build_message svc i p from_person_id size_bytes =
     \<lparr>em_id = i, em_org_id = is_org_id svc, em_connection_id = is_connection_id svc,
      em_visibility_scope = scope_restricted, em_origin_scope = scope_restricted, em_container_id = is_connection_id svc,
      em_dedup_key = pd_dedup_key p, em_message_id = pd_message_id p, em_in_reply_to = pd_in_reply_to p,
      em_references = (if pd_references p = [] then None else Some (pd_references p)),
      em_from_name = pd_from_name p, em_from_address = pd_from_address p, em_from_person_id = from_person_id,
      em_subject = pd_subject p, em_sent_at = pd_sent_at p, em_received_at = pd_received_at p, em_body_text = pd_body_text p,
      em_direction = pd_direction p, em_is_automated = pd_is_automated p, em_is_reply = pd_is_reply p,
      em_has_attachments = pd_has_attachments p, em_word_count = pd_word_count p, em_language = pd_language p,
      em_headers = pd_headers p, em_size_bytes = size_bytes, em_parse_status = pd_parse_status p\<rparr>"

text \<open>\<open>None\<close> is an exception: the resolver's or a constraint's.\<close>

fun store_recipients ::
  "ingest_env \<Rightarrow> ingest_service \<Rightarrow> uuid \<Rightarrow> datetime option \<Rightarrow> parsed_recipient list \<Rightarrow> mail_state \<Rightarrow> bool \<times> mail_state" where
  "store_recipients e svc email_id received_at [] m = (True, m)"
| "store_recipients e svc email_id received_at (r # rs) m =
     (case resolve_in e svc (pr_address r) (pr_name r) received_at (pr_kind r \<notin> {kind_reply_to, kind_sender}) m of
        (None, m1) \<Rightarrow> (False, m1)
      | (Some person_id, m1) \<Rightarrow>
        (case add_recipient \<lparr>er_org_id = is_org_id svc, er_email_id = email_id, er_visibility_scope = scope_restricted,
                er_origin_scope = scope_restricted, er_container_id = is_connection_id svc, er_kind = pr_kind r,
                er_name = pr_name r, er_address = pr_address r, er_person_id = person_id\<rparr> (ms_db m1) of
           None \<Rightarrow> (False, m1)
         | Some db \<Rightarrow> store_recipients e svc email_id received_at rs (m1\<lparr>ms_db := db\<rparr>)))"

definition reuse_or_extract :: "ingest_env \<Rightarrow> ingest_service \<Rightarrow> parsed_attachment \<Rightarrow> mail_db \<Rightarrow> extraction_result" where
  "reuse_or_extract e svc a db =
     (case get_prior_extraction db (is_org_id svc) (pt_content_hash a) (pt_content_type a) of
        Some x \<Rightarrow> \<lparr>xr_text = ea_extracted_text x, xr_status = ea_extraction_status x, xr_detail = ea_extraction_detail x,
                   xr_extractor_name = ea_extractor_name x, xr_extractor_version = ea_extractor_version x,
                   xr_structured = ea_extracted_data x\<rparr>
      | None \<Rightarrow> ie_extract_text e a)"

fun store_attachments :: "ingest_env \<Rightarrow> ingest_service \<Rightarrow> uuid \<Rightarrow> parsed_attachment list \<Rightarrow> mail_state \<Rightarrow> bool \<times> mail_state" where
  "store_attachments e svc email_id [] m = (True, m)"
| "store_attachments e svc email_id (a # as) m =
     (let x = reuse_or_extract e svc a (ms_db m)
      in case add_attachment \<lparr>ea_id = re_ids (ie_resolver e) (ms_draws m), ea_org_id = is_org_id svc, ea_email_id = email_id,
                ea_visibility_scope = scope_restricted, ea_origin_scope = scope_restricted,
                ea_container_id = is_connection_id svc, ea_filename = pt_filename a, ea_content_type = pt_content_type a,
                ea_size_bytes = pt_size_bytes a, ea_content_hash = pt_content_hash a, ea_is_inline = pt_is_inline a,
                ea_content_id = pt_content_id a, ea_extracted_text = xr_text x, ea_extraction_status = xr_status x,
                ea_extraction_detail = xr_detail x, ea_extractor_name = xr_extractor_name x,
                ea_extractor_version = xr_extractor_version x, ea_extracted_data = xr_structured x,
                ea_created_at = re_now (ie_resolver e)\<rparr> (ms_db m) of
           None \<Rightarrow> (False, m)
         | Some db \<Rightarrow> store_attachments e svc email_id as (m\<lparr>ms_db := db, ms_draws := ms_draws m + 1\<rparr>))"

definition reconcile_in :: "ingest_env \<Rightarrow> ingest_service \<Rightarrow> uuid \<Rightarrow> parsed_email \<Rightarrow> mail_state \<Rightarrow> ingest_result \<times> mail_state" where
  "reconcile_in e svc message_id p m =
     (case reconcile_email_message_grants (ie_grants e) (is_org_id svc) message_id (is_connection_id svc) (is_owner_user_id svc)
             (pd_from_address p) (map pr_address (pd_recipients p)) (ms_db m) of
        None \<Rightarrow> (IngestRaised, m)
      | Some (_, db) \<Rightarrow> (Ingested False, m\<lparr>ms_db := db\<rparr>))"

definition resolve_sender ::
  "ingest_env \<Rightarrow> ingest_service \<Rightarrow> parsed_email \<Rightarrow> mail_state \<Rightarrow> uuid option option \<times> mail_state" where
  "resolve_sender e svc p m =
     (case pd_from_address p of
        None \<Rightarrow> (Some None, m)
      | Some a \<Rightarrow> if a = [] then (Some None, m)
                   else resolve_in e svc a (pd_from_name p) (pd_received_at p) (\<not> pd_is_automated_origin p) m)"

definition store_children :: "ingest_env \<Rightarrow> ingest_service \<Rightarrow> uuid \<Rightarrow> parsed_email \<Rightarrow> mail_state \<Rightarrow> ingest_result \<times> mail_state" where
  "store_children e svc i p m1 =
     (case store_recipients e svc i (pd_received_at p) (pd_recipients p) m1 of
        (False, m2) \<Rightarrow> (IngestRaised, m2)
      | (True, m2) \<Rightarrow>
        (case store_attachments e svc i (pd_attachments p) m2 of
           (False, m3) \<Rightarrow> (IngestRaised, m3)
         | (True, m3) \<Rightarrow>
           (case write_email_grants (ie_grants e) (is_org_id svc) i (is_connection_id svc) (is_owner_user_id svc)
                   (pd_from_address p) (map pr_address (pd_recipients p)) (ms_db m3) of
              None \<Rightarrow> (IngestRaised, m3)
            | Some (_, db) \<Rightarrow> (Ingested True, m3\<lparr>ms_db := db\<rparr>))))"

text \<open>
  The insert has a savepoint of its own, in which nothing is staged: what opening it and then releasing it, or rolling it
  back, does to the memo. Other sessions may commit before the insert.
\<close>

definition savepoint_released :: "mail_state \<Rightarrow> mail_state" where
  "savepoint_released m = m\<lparr>ms_cache := track_savepoint_close (promote_staged (track_savepoint_open (ms_cache m)))\<rparr>"

definition savepoint_rolled_back :: "mail_state \<Rightarrow> mail_state" where
  "savepoint_rolled_back m = m\<lparr>ms_cache := track_savepoint_close (discard_staged (track_savepoint_open (ms_cache m)))\<rparr>"

definition before_insert :: "ingest_env \<Rightarrow> mail_state \<Rightarrow> mail_state" where
  "before_insert e m = m\<lparr>ms_db := ie_rival e (ms_draws m) (ms_db m), ms_draws := ms_draws m + 1\<rparr>"

definition store_message ::
  "ingest_env \<Rightarrow> ingest_service \<Rightarrow> string \<Rightarrow> parsed_email \<Rightarrow> uuid option \<Rightarrow> mail_state \<Rightarrow> ingest_result \<times> mail_state" where
  "store_message e svc raw_bytes p from_person_id m0 =
     (let i = re_ids (ie_resolver e) (ms_draws m0); m = before_insert e m0
      in case messages_insert (ge_connection_exists (ie_grants e))
                (build_message svc i p from_person_id (length raw_bytes)) (ms_db m) of
           Refused_other \<Rightarrow> (IngestRaised, savepoint_rolled_back m)
         | Refused_dedup \<Rightarrow>
           (let m' = savepoint_rolled_back m
            in case get_message_id_by_dedup (ms_db m') (is_org_id svc) (is_connection_id svc) (pd_dedup_key p) of
                 None \<Rightarrow> (Ingested False, m')
               | Some racing_id \<Rightarrow> reconcile_in e svc racing_id p m')
         | Inserted db \<Rightarrow> store_children e svc i p (savepoint_released (m\<lparr>ms_db := db\<rparr>)))"

definition ingest_email ::
  "ingest_env \<Rightarrow> ingest_service \<Rightarrow> string \<Rightarrow> datetime option \<Rightarrow> mail_state \<Rightarrow> ingest_result \<times> mail_state" where
  "ingest_email e svc raw_bytes internal_date m =
     (case parse_email e raw_bytes (is_mailbox svc) internal_date of
        None \<Rightarrow> (IngestRaised, m)
      | Some p \<Rightarrow>
        (case get_message_id_by_dedup (ms_db m) (is_org_id svc) (is_connection_id svc) (pd_dedup_key p) of
           Some existing_id \<Rightarrow> reconcile_in e svc existing_id p m
         | None \<Rightarrow>
           (case resolve_sender e svc p m of
              (None, m1) \<Rightarrow> (IngestRaised, m1)
            | (Some from_person_id, m1) \<Rightarrow> store_message e svc raw_bytes p from_person_id m1)))"

section \<open>The service inside the runner's session\<close>

text \<open>
  The message's savepoint: released on return, rolled back with the staged part of the memo on a raise. Rows that other
  sessions committed meanwhile are not carried over a rollback; the step relation of the sync adds them as steps of their own.
\<close>

definition ingest_in_savepoint ::
  "ingest_env \<Rightarrow> ingest_service \<Rightarrow> string \<Rightarrow> datetime option \<Rightarrow> mail_state \<Rightarrow> ingest_result \<times> mail_state" where
  "ingest_in_savepoint e svc raw_bytes internal_date m =
     (case ingest_email e svc raw_bytes internal_date (m\<lparr>ms_cache := track_savepoint_open (ms_cache m)\<rparr>) of
        (Ingested stored, m') \<Rightarrow> (Ingested stored, m'\<lparr>ms_cache := track_savepoint_close (promote_staged (ms_cache m'))\<rparr>)
      | (r, m') \<Rightarrow> (r, m'\<lparr>ms_db := ms_db m, ms_cache := track_savepoint_close (discard_staged (ms_cache m'))\<rparr>))"

definition mail_ingest :: "ingest_env \<Rightarrow> ingest_service \<Rightarrow> mail_state ingest" where
  "mail_ingest e svc = \<lparr>ig_email = ingest_in_savepoint e svc, ig_commit = (\<lambda>m. m\<lparr>ms_cache := promote_staged (ms_cache m)\<rparr>)\<rparr>"

section \<open>The contract\<close>

definition ingest_env_ok :: "ingest_env \<Rightarrow> bool" where
  "ingest_env_ok e \<longleftrightarrow> rival_ok (ie_resolver e)
     \<and> (\<forall>k db. md_entities (ie_rival e k db) = md_entities db \<and> set (email_messages db) \<subseteq> set (email_messages (ie_rival e k db)))"

definition ingest_ok :: "ingest_env \<Rightarrow> mail_state \<Rightarrow> bool" where
  "ingest_ok e m \<longleftrightarrow> ingest_env_ok e \<and> resolver_inv (resolver_of m) \<and> rc_depth (ms_cache m) = 0"

definition message_stored :: "ingest_service \<Rightarrow> mail_db \<Rightarrow> string \<Rightarrow> bool" where
  "message_stored svc db key \<longleftrightarrow> (\<exists>x \<in> set (email_messages db). same_dedup (is_org_id svc) (is_connection_id svc) key x)"

text \<open>The mail is in the store: a message of this connection has the dedup key that parsing these bytes gives.\<close>

definition stored_email :: "ingest_env \<Rightarrow> ingest_service \<Rightarrow> mail_state \<Rightarrow> string \<Rightarrow> bool" where
  "stored_email e svc m raw \<longleftrightarrow>
     (\<exists>d p. parse_email e raw (is_mailbox svc) d = Some p \<and> message_stored svc (ms_db m) (pd_dedup_key p))"

definition mail_grows :: "mail_state \<Rightarrow> mail_state \<Rightarrow> bool" where
  "mail_grows m m' \<longleftrightarrow> progress (resolver_of m) (resolver_of m')
     \<and> set (email_messages (ms_db m)) \<subseteq> set (email_messages (ms_db m'))"

lemma mail_grows_refl: "resolver_inv (resolver_of m) \<Longrightarrow> mail_grows m m"
  by (simp add: mail_grows_def)

lemma mail_grows_trans: "mail_grows a b \<Longrightarrow> mail_grows b c \<Longrightarrow> mail_grows a c"
  by (auto simp: mail_grows_def intro: progress_trans)

lemma mail_grows_inv: "mail_grows m m' \<Longrightarrow> resolver_inv (resolver_of m')"
  by (auto simp: mail_grows_def progress_inv)

lemma mail_grows_stored: "mail_grows m m' \<Longrightarrow> message_stored svc (ms_db m) key \<Longrightarrow> message_stored svc (ms_db m') key"
  by (auto simp: mail_grows_def message_stored_def)

text \<open>Statements on the mail tables leave the entity graph alone.\<close>

lemma mail_grows_tables:
  assumes "resolver_inv (resolver_of m)" and "md_entities db = md_entities (ms_db m)"
    and "set (email_messages (ms_db m)) \<subseteq> set (email_messages db)"
  shows "mail_grows m (m\<lparr>ms_db := db, ms_draws := n\<rparr>)"
  using assms by (simp add: mail_grows_def resolver_of_def progress_def resolver_inv_def)

lemma mail_grows_db:
  assumes "resolver_inv (resolver_of m)" and "md_entities db = md_entities (ms_db m)"
    and "set (email_messages (ms_db m)) \<subseteq> set (email_messages db)"
  shows "mail_grows m (m\<lparr>ms_db := db\<rparr>)"
  using assms by (simp add: mail_grows_def resolver_of_def progress_def resolver_inv_def)

lemma mail_grows_cache:
  assumes "resolver_inv (resolver_of m)"
  shows "mail_grows m (savepoint_released m)" and "mail_grows m (savepoint_rolled_back m)"
  using progress_nested[OF assms, of Some] progress_nested[OF assms, of "\<lambda>_. None"]
  by (simp_all add: mail_grows_def nested_def resolver_of_def safe_statement_def savepoint_released_def savepoint_rolled_back_def Let_def)

lemma resolve_in_grows:
  assumes "ingest_env_ok e" and "resolver_inv (resolver_of m)" and "resolve_in e svc a n t ap m = (got, m')"
  shows "mail_grows m m'"
proof -
  obtain s where s: "resolve_participant (ie_resolver e) (is_resolver svc) (is_org_id svc) a n t ap (resolver_of m) = (got, s)"
    and m': "m' = with_resolver s m"
    using assms(3) by (auto simp: resolve_in_def Let_def split: prod.splits)
  have "progress (resolver_of m) s"
    using resolve_participant_sound[OF _ assms(2) s] assms(1) by (simp add: ingest_env_ok_def)
  moreover have "resolver_of m' = s" by (simp add: m' with_resolver_def resolver_of_def)
  ultimately show ?thesis by (simp add: mail_grows_def m' with_resolver_def)
qed

lemma add_recipient_keeps: "add_recipient r db = Some db' \<Longrightarrow> md_entities db' = md_entities db \<and> email_messages db' = email_messages db"
  by (auto simp: add_recipient_def split: if_splits)

lemma add_attachment_keeps: "add_attachment r db = Some db' \<Longrightarrow> md_entities db' = md_entities db \<and> email_messages db' = email_messages db"
  by (auto simp: add_attachment_def split: if_splits)

lemma store_recipients_grows:
  assumes "ingest_env_ok e" and "resolver_inv (resolver_of m)" and "store_recipients e svc i t rs m = (b, m')"
  shows "mail_grows m m'"
  using assms(2,3)
proof (induction rs arbitrary: m)
  case Nil
  then show ?case by (simp add: mail_grows_refl)
next
  case (Cons r rs)
  obtain got m1 where g: "resolve_in e svc (pr_address r) (pr_name r) t (pr_kind r \<notin> {kind_reply_to, kind_sender}) m = (got, m1)"
    by fastforce
  have m1: "mail_grows m m1" by (rule resolve_in_grows[OF assms(1) Cons.prems(1) g])
  show ?case
  proof (cases "m' = m1")
    case True
    with m1 show ?thesis by simp
  next
    case False
    then obtain x db where a: "add_recipient x (ms_db m1) = Some db"
      and rest: "store_recipients e svc i t rs (m1\<lparr>ms_db := db\<rparr>) = (b, m')"
      using Cons.prems(2) g by (auto split: option.splits prod.splits)
    have m2: "mail_grows m1 (m1\<lparr>ms_db := db\<rparr>)"
      by (rule mail_grows_db[OF mail_grows_inv[OF m1]]) (use add_recipient_keeps[OF a] in auto)
    from Cons.IH[OF mail_grows_inv[OF m2] rest] m1 m2 show ?thesis using mail_grows_trans by blast
  qed
qed

lemma store_attachments_grows:
  assumes "resolver_inv (resolver_of m)" and "store_attachments e svc i as m = (b, m')"
  shows "mail_grows m m'"
  using assms
proof (induction as arbitrary: m)
  case Nil
  then show ?case by (simp add: mail_grows_refl)
next
  case (Cons a as)
  show ?case
  proof (cases "m' = m")
    case True
    with Cons.prems(1) show ?thesis by (simp add: mail_grows_refl)
  next
    case False
    then obtain x db where a: "add_attachment x (ms_db m) = Some db"
      and rest: "store_attachments e svc i as (m\<lparr>ms_db := db, ms_draws := ms_draws m + 1\<rparr>) = (b, m')"
      using Cons.prems(2) by (auto simp: Let_def split: option.splits)
    have m1: "mail_grows m (m\<lparr>ms_db := db, ms_draws := ms_draws m + 1\<rparr>)"
      by (rule mail_grows_tables[OF Cons.prems(1)]) (use add_attachment_keeps[OF a] in auto)
    from Cons.IH[OF mail_grows_inv[OF m1] rest] m1 show ?thesis using mail_grows_trans by blast
  qed
qed

lemma reconcile_in_grows:
  assumes "resolver_inv (resolver_of m)" and "reconcile_in e svc i p m = (r, m')"
  shows "mail_grows m m'"
proof (cases "m' = m")
  case True
  with assms(1) show ?thesis by (simp add: mail_grows_refl)
next
  case False
  then obtain n db where db: "m' = m\<lparr>ms_db := db\<rparr>" and
    "reconcile_email_message_grants (ie_grants e) (is_org_id svc) i (is_connection_id svc) (is_owner_user_id svc)
      (pd_from_address p) (map pr_address (pd_recipients p)) (ms_db m) = Some (n, db)"
    using assms(2) by (auto simp: reconcile_in_def split: option.splits)
  from reconcile_sound(1)[OF this(2)] show ?thesis
    unfolding db by (intro mail_grows_db[OF assms(1)]) (simp_all add: only_grants_same)
qed

lemma resolve_sender_grows:
  assumes "ingest_env_ok e" and "resolver_inv (resolver_of m)" and "resolve_sender e svc p m = (got, m')"
  shows "mail_grows m m'"
  using assms resolve_in_grows[OF assms(1,2)] mail_grows_refl
  by (auto simp: resolve_sender_def split: option.splits if_splits)

text \<open>A dedup refusal means the message is there; an inserted message stays.\<close>

lemma messages_insert_dedup:
  assumes "messages_insert ce m db = Refused_dedup"
  shows "\<exists>x \<in> set (email_messages db). same_dedup (em_org_id m) (em_connection_id m) (em_dedup_key m) x"
  using assms by (auto simp: messages_insert_def split: if_splits)

lemma messages_insert_inserted:
  assumes "messages_insert ce m db = Inserted db'"
  shows "db' = db\<lparr>email_messages := email_messages db @ [m]\<rparr>"
  using assms by (auto simp: messages_insert_def split: if_splits)

lemma store_children_grows:
  assumes env: "ingest_env_ok e" and inv: "resolver_inv (resolver_of m1)" and run: "store_children e svc i p m1 = (r, m')"
  shows "mail_grows m1 m'"
proof -
  obtain b2 m2 where r: "store_recipients e svc i (pd_received_at p) (pd_recipients p) m1 = (b2, m2)" by fastforce
  have g3: "mail_grows m1 m2" by (rule store_recipients_grows[OF env inv r])
  obtain b3 m3 where a: "store_attachments e svc i (pd_attachments p) m2 = (b3, m3)" by fastforce
  have g4: "mail_grows m1 m3" using mail_grows_trans[OF g3 store_attachments_grows[OF mail_grows_inv[OF g3] a]] .
  have "mail_grows m1 (m3\<lparr>ms_db := db'\<rparr>)"
    if "write_email_grants ge o' i' c' ow se as (ms_db m3) = Some (ps, db')" for ge o' i' c' ow se as ps db'
    by (rule mail_grows_trans[OF g4 mail_grows_db[OF mail_grows_inv[OF g4]]])
      (simp_all add: only_grants_same[OF write_email_grants_sound(1)[OF that]])
  then show ?thesis using run r a g3 g4 by (auto simp: store_children_def split: bool.splits option.splits)
qed

lemma store_message_sound:
  assumes env: "ingest_env_ok e" and inv: "resolver_inv (resolver_of m0)" and run: "store_message e svc raw p fp m0 = (r, m')"
  shows "mail_grows m0 m' \<and> (r \<noteq> IngestRaised \<longrightarrow> message_stored svc (ms_db m') (pd_dedup_key p))"
proof -
  define i where "i = re_ids (ie_resolver e) (ms_draws m0)"
  define m where "m = before_insert e m0"
  let ?msg = "build_message svc i p fp (length raw)"
  have g0: "mail_grows m0 m"
    unfolding m_def before_insert_def by (rule mail_grows_tables[OF inv]) (use env in \<open>auto simp: ingest_env_ok_def\<close>)
  have g1: "mail_grows m0 (savepoint_rolled_back m)" by (rule mail_grows_trans[OF g0 mail_grows_cache(2)[OF mail_grows_inv[OF g0]]])
  have key: "em_org_id ?msg = is_org_id svc" "em_connection_id ?msg = is_connection_id svc" "em_dedup_key ?msg = pd_dedup_key p"
    by (simp_all add: build_message_def)
  note run' = run[unfolded store_message_def Let_def i_def[symmetric] m_def[symmetric]]
  show ?thesis
  proof (cases "messages_insert (ge_connection_exists (ie_grants e)) ?msg (ms_db m)")
    case Refused_other
    then show ?thesis using run' g1 by auto
  next
    case Refused_dedup
    have st: "message_stored svc (ms_db (savepoint_rolled_back m)) (pd_dedup_key p)"
      using messages_insert_dedup[OF Refused_dedup] by (simp add: message_stored_def key savepoint_rolled_back_def)
    have g2: "mail_grows (savepoint_rolled_back m) m'"
      using run' Refused_dedup mail_grows_refl[OF mail_grows_inv[OF g1]] reconcile_in_grows[OF mail_grows_inv[OF g1]]
      by (auto split: option.splits)
    show ?thesis using mail_grows_trans[OF g1 g2] mail_grows_stored[OF g2 st] by blast
  next
    case (Inserted db)
    note db = messages_insert_inserted[OF Inserted]
    have g: "mail_grows m (m\<lparr>ms_db := db\<rparr>)" by (rule mail_grows_db[OF mail_grows_inv[OF g0]]) (auto simp: db)
    let ?m1 = "savepoint_released (m\<lparr>ms_db := db\<rparr>)"
    have g2: "mail_grows m0 ?m1"
      using mail_grows_trans[OF g0 mail_grows_trans[OF g mail_grows_cache(1)[OF mail_grows_inv[OF g]]]] .
    have st: "message_stored svc (ms_db ?m1) (pd_dedup_key p)"
      by (simp add: message_stored_def db same_dedup_def key savepoint_released_def)
    have "mail_grows ?m1 m'" using run' Inserted store_children_grows[OF env mail_grows_inv[OF g2]] by simp
    then show ?thesis using mail_grows_trans[OF g2] mail_grows_stored[OF _ st] by blast
  qed
qed

lemma ingest_email_sound:
  assumes env: "ingest_env_ok e" and inv: "resolver_inv (resolver_of m)" and run: "ingest_email e svc raw d m = (r, m')"
  shows "mail_grows m m' \<and> (r \<noteq> IngestRaised \<longrightarrow>
    (\<exists>p. parse_email e raw (is_mailbox svc) d = Some p \<and> message_stored svc (ms_db m') (pd_dedup_key p)))"
proof (cases "parse_email e raw (is_mailbox svc) d")
  case None
  then show ?thesis using run mail_grows_refl[OF inv] by (auto simp: ingest_email_def)
next
  case (Some p)
  show ?thesis
  proof (cases "get_message_id_by_dedup (ms_db m) (is_org_id svc) (is_connection_id svc) (pd_dedup_key p)")
    case (Some i)
    then have st: "message_stored svc (ms_db m) (pd_dedup_key p)"
      by (auto simp: get_message_id_by_dedup_def message_stored_def dest: select_one_SomeD)
    have "mail_grows m m'"
      using run Some \<open>parse_email e raw (is_mailbox svc) d = Some p\<close> reconcile_in_grows[OF inv] by (simp add: ingest_email_def)
    with st mail_grows_stored \<open>parse_email e raw (is_mailbox svc) d = Some p\<close> show ?thesis by blast
  next
    case None
    obtain fp m1 where s: "resolve_sender e svc p m = (fp, m1)" by fastforce
    have g: "mail_grows m m1" by (rule resolve_sender_grows[OF env inv s])
    show ?thesis
    proof (cases fp)
      case n: None
      then show ?thesis using run Some None s g by (auto simp: ingest_email_def)
    next
      case f: (Some fpid)
      then have "store_message e svc raw p fpid m1 = (r, m')" using run Some None s by (simp add: ingest_email_def)
      from store_message_sound[OF env mail_grows_inv[OF g] this] g Some show ?thesis using mail_grows_trans by blast
    qed
  qed
qed

section \<open>The service meets the contract\<close>

text \<open>The dedup violation never leaves the service: it is mapped to a skip inside.\<close>

lemma ingest_email_no_collision: "ingest_email e svc raw d m \<noteq> (DedupCollision, m')"
proof -
  have rc: "reconcile_in e svc i p m1 \<noteq> (DedupCollision, m')" for i p m1 by (simp add: reconcile_in_def split: option.splits)
  have ch: "store_children e svc i p m1 \<noteq> (DedupCollision, m')" for i p m1
    by (auto simp: store_children_def split: option.splits bool.splits prod.splits)
  have st: "store_message e svc raw p f m1 \<noteq> (DedupCollision, m')" for p f m1
    using rc ch by (auto simp: store_message_def Let_def split: insert_outcome.splits option.splits)
  show ?thesis using rc st by (auto simp: ingest_email_def split: option.splits prod.splits)
qed

lemma ingest_in_savepoint_sound:
  assumes ok: "ingest_ok e m" and run: "ingest_in_savepoint e svc raw d m = (r, m')"
  shows "ingest_ok e m'" and "set (email_messages (ms_db m)) \<subseteq> set (email_messages (ms_db m'))"
    and "r \<noteq> IngestRaised \<Longrightarrow> stored_email e svc m' raw"
proof -
  let ?m = "m\<lparr>ms_cache := track_savepoint_open (ms_cache m)\<rparr>"
  have env: "ingest_env_ok e" and inv: "resolver_inv (resolver_of m)" and depth: "rc_depth (ms_cache m) = 0"
    using ok by (simp_all add: ingest_ok_def)
  have inv': "resolver_inv (resolver_of ?m)" using inv by (simp add: resolver_inv_def resolver_of_def)
  obtain r1 m1 where i: "ingest_email e svc raw d ?m = (r1, m1)" by fastforce
  note s = ingest_email_sound[OF env inv' i]
  have p: "progress (resolver_of ?m) (resolver_of m1)" "set (email_messages (ms_db m)) \<subseteq> set (email_messages (ms_db m1))"
    using s by (simp_all add: mail_grows_def)
  have d1: "rc_depth (ms_cache m1) = Suc 0"
    using p(1) depth by (simp add: progress_def staged_above_def resolver_of_def track_savepoint_open_def)
  have sound1: "cache_sound (holds (md_entities (ms_db m1))) (ms_cache m1)" "entity_wf (md_entities (ms_db m1))"
    using progress_inv[OF p(1)] by (simp_all add: resolver_inv_def resolver_of_def)
  have rolled: "cache_sound (holds (md_entities (ms_db m))) (track_savepoint_close (discard_staged (ms_cache m1)))"
    using rollback_sound[of "holds (md_entities (ms_db m))" "ms_cache m" "ms_cache m1"] inv p(1) depth
    by (simp add: resolver_inv_def resolver_of_def progress_def track_savepoint_open_def)
  have dc: "rc_depth (track_savepoint_close (discard_staged (ms_cache m1))) = 0"
    "rc_depth (track_savepoint_close (promote_staged (ms_cache m1))) = 0"
    using d1 by (simp_all add: track_savepoint_close_def discard_staged_def promote_staged_def)
  show "ingest_ok e m'"
    using run i env inv sound1 rolled dc
    by (auto simp: ingest_in_savepoint_def ingest_ok_def resolver_inv_def resolver_of_def cache_sound_promote
        split: ingest_result.splits)
  show "set (email_messages (ms_db m)) \<subseteq> set (email_messages (ms_db m'))"
    using run i p(2) by (auto simp: ingest_in_savepoint_def split: ingest_result.splits)
  assume r: "r \<noteq> IngestRaised"
  show "stored_email e svc m' raw"
  proof (cases r1)
    case (Ingested b)
    then show ?thesis using run i s by (fastforce simp: ingest_in_savepoint_def stored_email_def)
  next
    case DedupCollision
    then show ?thesis using ingest_email_no_collision i by blast
  next
    case IngestRaised
    then show ?thesis using run i r by (auto simp: ingest_in_savepoint_def)
  qed
qed

lemma rc_depth_promote: "rc_depth (promote_staged c) = rc_depth c"
  by (simp add: promote_staged_def)

interpretation mi: email_ingest "mail_ingest e svc" "stored_email e svc" "ingest_ok e" for e svc
proof
  fix m m' raw raw' d r
  show "ingest_ok e m \<Longrightarrow> ig_email (mail_ingest e svc) raw d m = (r, m') \<Longrightarrow> r \<noteq> IngestRaised \<Longrightarrow> stored_email e svc m' raw"
    using ingest_in_savepoint_sound(3) by (simp add: mail_ingest_def)
  show "ingest_ok e m \<Longrightarrow> ig_email (mail_ingest e svc) raw d m = (r, m') \<Longrightarrow> stored_email e svc m raw' \<Longrightarrow> stored_email e svc m' raw'"
    using ingest_in_savepoint_sound(2) by (fastforce simp: mail_ingest_def stored_email_def message_stored_def)
  show "ingest_ok e m \<Longrightarrow> ig_email (mail_ingest e svc) raw d m = (r, m') \<Longrightarrow> ingest_ok e m'"
    using ingest_in_savepoint_sound(1) by (simp add: mail_ingest_def)
  show "stored_email e svc m raw \<Longrightarrow> stored_email e svc (ig_commit (mail_ingest e svc) m) raw"
    by (simp add: mail_ingest_def stored_email_def)
  show "ingest_ok e m \<Longrightarrow> ingest_ok e (ig_commit (mail_ingest e svc) m)"
    by (auto simp: mail_ingest_def ingest_ok_def resolver_inv_def resolver_of_def cache_sound_promote rc_depth_promote)
qed

end
