(* ===== verification/Mail_Sync.thy ===== *)
theory Mail_Sync
  imports Email_Ingest
begin

text \<open>
  The sync runner together with the email ingest: what the contract \<open>email_ingest\<close>, met by the ingest service
  (interpretation \<open>mi\<close>), gives for whole runs and for any interleaving of runs, mail delivery and other sessions.
\<close>

definition demo_content :: "string \<Rightarrow> nat \<Rightarrow> uid \<Rightarrow> string" where
  "demo_content f v u = ''hello''"

definition demo_mailbox :: mailbox where
  "demo_mailbox = \<lparr>mb_uids = (\<lambda>f v. {1}), mb_next = (\<lambda>f v. 2)\<rparr>"

definition demo_server :: imap_server where
  "demo_server = \<lparr>im_list = Replies (Some [Some ([], ''INBOX'')]), im_select = (\<lambda>_. Replies (Some 9)),
     im_search = (\<lambda>f n. Replies [1]), im_sizes = (\<lambda>f q. Replies (Some [(1, 5)])),
     im_fetch = (\<lambda>f q. Replies (Some [\<lparr>fm_uid = 1, fm_raw_bytes = ''hello'', fm_internal_date = Some 7\<rparr>]))\<rparr>"

definition demo_ingest_env :: ingest_env where
  "demo_ingest_env = \<lparr>ie_resolver = demo_resolver_env, ie_grants = demo_grant_env, ie_strict_parse = (\<lambda>raw mb d. Recursion_error),
     ie_sha256 = (\<lambda>raw. raw), ie_extract_text = (\<lambda>a. \<lparr>xr_text = None, xr_status = ''skipped'', xr_detail = None,
       xr_extractor_name = None, xr_extractor_version = None, xr_structured = None\<rparr>), ie_rival = (\<lambda>_ db. db)\<rparr>"

definition demo_ingest_service :: ingest_service where
  "demo_ingest_service = new_ingest_service demo_ingest_env demo_connection"

definition demo_mail_state :: mail_state where
  "demo_mail_state = \<lparr>ms_db = demo_mail_db\<lparr>md_entities := rs_db demo_resolver\<rparr>, ms_cache = new_cache, ms_draws = 0\<rparr>"

lemma demo_serves: "serves demo_content demo_mailbox demo_server"
  by (auto simp: serves_def blocking_list_folders_def demo_server_def demo_content_def demo_mailbox_def
      List.map_filter_def split: option.splits)

lemma demo_mailbox_inv: "mailbox_inv demo_mailbox"
  by (simp add: mailbox_inv_def demo_mailbox_def)

lemma demo_ingest_ok: "ingest_ok demo_ingest_env demo_mail_state"
  using demo_rival_ok demo_resolver_inv
  by (simp add: ingest_ok_def ingest_env_ok_def demo_ingest_env_def demo_mail_state_def resolver_inv_def resolver_of_def
      cache_sound_new demo_resolver_def) (simp add: new_cache_def)

lemma no_cursors: "cursors_list_for_connection demo_connector_db org_id connection_id f = None"
  by (simp add: cursors_list_for_connection_def demo_connector_db_def)

section \<open>Whole runs\<close>

text \<open>
  C21: a sync run never moves a folder's cursor past a message it did not store. Let the cursors of a connection be covered:
  every message of the mailbox at or below a stored cursor is in the store. Whatever the server answers within its protocol,
  wherever it fails, whichever messages fail to ingest, and whatever other sessions do between the transactions short of setting
  these cursors, after the run the cursors are covered again and the mail store is well-formed, so the next run may start.
\<close>

theorem run_sync_keeps_cursors_covered:
  assumes "\<And>c srv. build c = Server srv \<Longrightarrow> serves content mb srv" and "mailbox_inv mb"
    and "keeps_cursors org_id connection_id others" and "ingest_ok e m"
    and "cursors_inv (stored_email e svc) content m mb (fetch_cursors (cursors_list_for_connection db org_id connection_id))"
    and "run_sync (mail_ingest e svc) build re d clk others org_id connection_id r (db, m, w) = (db', m', w')"
  shows "ingest_ok e m' \<and>
    cursors_inv (stored_email e svc) content m' mb (fetch_cursors (cursors_list_for_connection db' org_id connection_id))"
  using assms by (rule mi.run_sync_sound)

theorem run_sync_keeps_cursors_covered_witness:
  "\<exists>db' m' w'. run_sync (mail_ingest demo_ingest_env demo_ingest_service) (\<lambda>_. Server demo_server) (demo_env 50) 0 (\<lambda>_. 50)
       (\<lambda>_ db. db) 7 3 1000 (demo_connector_db, demo_mail_state, cw_world demo_cworld) = (db', m', w')
     \<and> cursors_inv (stored_email demo_ingest_env demo_ingest_service) demo_content m' demo_mailbox
         (fetch_cursors (cursors_list_for_connection db' 7 3))"
proof -
  obtain db' m' w' where run: "run_sync (mail_ingest demo_ingest_env demo_ingest_service) (\<lambda>_. Server demo_server) (demo_env 50) 0
      (\<lambda>_. 50) (\<lambda>_ db. db) 7 3 1000 (demo_connector_db, demo_mail_state, cw_world demo_cworld) = (db', m', w')"
    by (metis surj_pair)
  have "cursors_inv (stored_email demo_ingest_env demo_ingest_service) demo_content m' demo_mailbox
      (fetch_cursors (cursors_list_for_connection db' 7 3))"
    by (rule run_sync_keeps_cursors_covered[OF _ demo_mailbox_inv _ demo_ingest_ok _ run, THEN conjunct2])
      (auto simp: demo_serves keeps_cursors_def cursors_inv_def fetch_cursors_def no_cursors)
  with run show ?thesis by blast
qed

section \<open>Interleaved runs\<close>

text \<open>
  C1: never lose mail. Start with a connection that has no cursors and no run in progress. Let any number of runs load,
  list folders and commit batches in any interleaving with each other, with the delivery and the expunging of mail, with
  other sessions' writes and ingests. Whenever a message of the mailbox is at or below the cursor of its folder and
  generation, so that no later run will ask for it again, it is in the store.
\<close>

theorem never_lose_mail:
  assumes "(sync_step (mail_ingest e svc) content org_id connection_id)\<^sup>*\<^sup>* s s'"
    and "ingest_ok e (sy_mail s)" and "mailbox_inv (sy_mailbox s)" and "sy_runs s = Map.empty"
    and "\<And>f. cursors_list_for_connection (sy_db s) org_id connection_id f = None"
    and "cursors_list_for_connection (sy_db s') org_id connection_id f = Some st"
    and "fs_uidvalidity st = Some v" and "u \<in> mb_uids (sy_mailbox s') f v" and "u \<le> fs_last_seen_uid st"
  shows "stored_email e svc (sy_mail s') (content f v u)"
proof -
  have "sync_inv (stored_email e svc) (ingest_ok e) content org_id connection_id s"
    using assms(2-5) by (simp add: sync_inv_def cursors_inv_def fetch_cursors_def)
  from mi.sync_steps_keep[OF assms(1) this] assms(6-9) show ?thesis
    unfolding sync_inv_def cursors_inv_stored covered_def by blast
qed

definition demo_claimed_db :: connector_db where
  "demo_claimed_db = demo_connector_db\<lparr>connections := [demo_connection\<lparr>cn_sync_run_id := Some 1000, cn_sync_status := sync_running\<rparr>]\<rparr>"

definition demo_system :: "mail_state sync_system" where
  "demo_system = \<lparr>sy_db = demo_claimed_db, sy_mail = demo_mail_state, sy_mailbox = demo_mailbox, sy_runs = Map.empty\<rparr>"

definition demo_message :: fetched_message where
  "demo_message = \<lparr>fm_uid = 1, fm_raw_bytes = ''hello'', fm_internal_date = Some 7\<rparr>"

definition demo_batch :: "((trackers \<times> counts) \<times> connector_db \<times> mail_state) option" where
  "demo_batch = ingest_batch (mail_ingest demo_ingest_env demo_ingest_service) 50 7 3 1000
     (batch_of ''INBOX'' 9 [1] [demo_message]) (Map.empty, zero_counts) (demo_claimed_db, demo_mail_state)"

lemma demo_batch_commits:
  "(case demo_batch of
      None \<Rightarrow> False
    | Some (_, db, _) \<Rightarrow> (case cursors_list_for_connection db 7 3 ''INBOX'' of
          None \<Rightarrow> False
        | Some st \<Rightarrow> fs_uidvalidity st = Some 9 \<and> fs_last_seen_uid st = 1))"
  by code_simp

text \<open>A run that loads, lists \<open>INBOX\<close> and commits its only batch.\<close>

lemma demo_run_steps:
  assumes "demo_batch = Some ((trackers', counts'), db', m')"
  obtains s' where "(sync_step (mail_ingest demo_ingest_env demo_ingest_service) demo_content 7 3)\<^sup>*\<^sup>* demo_system s'"
    and "sy_db s' = db'" and "sy_mail s' = m'" and "sy_mailbox s' = demo_mailbox"
proof -
  let ?step = "sync_step (mail_ingest demo_ingest_env demo_ingest_service) demo_content 7 3"
  let ?l0 = "load_run 7 3 demo_claimed_db"
  let ?l1 = "?l0\<lparr>rl_listed := {''INBOX''}, rl_plan := Some (''INBOX'', 9, [[1]])\<rparr>"
  let ?l2 = "?l1\<lparr>rl_trackers := trackers', rl_counts := counts', rl_plan := Some (''INBOX'', 9, [])\<rparr>"
  let ?s1 = "demo_system\<lparr>sy_runs := [1000 \<mapsto> ?l0]\<rparr>"
  let ?s2 = "demo_system\<lparr>sy_runs := [1000 \<mapsto> ?l1]\<rparr>"
  let ?s3 = "demo_system\<lparr>sy_db := db', sy_mail := m', sy_runs := [1000 \<mapsto> ?l2]\<rparr>"
  have l0: "rl_trackers ?l0 = Map.empty" "rl_counts ?l0 = zero_counts" "rl_cursors ?l0 = Map.empty"
    "rl_plan ?l0 = None" "rl_listed ?l0 = {}"
    by (auto simp: load_run_def initial_trackers_def fetch_cursors_def demo_claimed_db_def demo_connector_db_def
        cursors_list_for_connection_def Let_def)
  have 1: "?step demo_system ?s1"
    using sync_step.load[where s = demo_system and r = 1000 and connection_id = 3 and org_id = 7] by (simp add: demo_system_def)
  have one: "{u. u = Suc 0 \<and> Suc 0 \<le> u} = {Suc 0}" by auto
  have 2: "?step ?s1 ?s2"
    using sync_step.list_folder[where s = ?s1 and r = 1000 and l = ?l0 and folder = "''INBOX''" and srv = demo_server and v = 9
        and uids = "[1]" and sizes = "[1 \<mapsto> 5]" and org_id = 7 and connection_id = 3] l0
    by (simp add: demo_system_def demo_mailbox_def demo_server_def blocking_select_def blocking_search_def min_uid_def
        batch_by_bytes_def DEFAULT_BATCH_BYTES_def Let_def one)
  have 3: "?step ?s2 ?s3"
    using sync_step.batch[where s = ?s2 and r = 1000 and l = ?l1 and folder = "''INBOX''" and v = 9 and b = "[1]" and bs = "[]"
        and msgs = "[demo_message]" and now = 50 and org_id = 7 and connection_id = 3] l0 assms
    by (simp add: demo_system_def demo_batch_def demo_message_def demo_content_def)
  show ?thesis
    by (rule that[of ?s3]) (use 1 2 3 in \<open>auto simp: demo_system_def intro: rtranclp.rtrancl_into_rtrancl\<close>)
qed

theorem never_lose_mail_witness:
  "\<exists>s'. (sync_step (mail_ingest demo_ingest_env demo_ingest_service) demo_content 7 3)\<^sup>*\<^sup>* demo_system s'
     \<and> stored_email demo_ingest_env demo_ingest_service (sy_mail s') ''hello''"
proof -
  obtain tr ct db' m' st where b: "demo_batch = Some ((tr, ct), db', m')"
    and st: "cursors_list_for_connection db' 7 3 ''INBOX'' = Some st" "fs_uidvalidity st = Some 9" "fs_last_seen_uid st = 1"
    using demo_batch_commits by (auto split: option.splits)
  obtain s' where r: "(sync_step (mail_ingest demo_ingest_env demo_ingest_service) demo_content 7 3)\<^sup>*\<^sup>* demo_system s'"
    and s': "sy_db s' = db'" "sy_mail s' = m'" "sy_mailbox s' = demo_mailbox"
    using demo_run_steps[OF b] by blast
  have "stored_email demo_ingest_env demo_ingest_service (sy_mail s') (demo_content ''INBOX'' 9 1)"
    by (rule never_lose_mail[OF r _ _ _ _ _ st(2)])
      (use st s' demo_ingest_ok demo_mailbox_inv in \<open>auto simp: demo_system_def demo_claimed_db_def demo_mailbox_def
        demo_connector_db_def cursors_list_for_connection_def\<close>)
  with r show ?thesis by (auto simp: demo_content_def)
qed

end
