(* ===== verification/Connector_Service.thy ===== *)
theory Connector_Service
  imports Mail_Sync
begin

text \<open>
  Managing connections: the permission rule (\<open>connectors/services/connector_authz.py\<close>), consent, entitlement and governance, the
  administrator's plane (\<open>connector_service.py\<close>) and the user's own plane (\<open>me_connector_service.py\<close>). A handler maps the
  state to a result and the state after the request; an error leaves the state before it, since the unit of work
  rolls back. The cipher and the verification of a stored connection against its server are arguments.
\<close>

section \<open>State and requests\<close>

record mworld =
  mw_connect :: cworld
  mw_mail :: mail_db

type_synonym 'a mhandler = "mworld \<Rightarrow> (connector_error + 'a) \<times> mworld"

abbreviation mw_db :: "mworld \<Rightarrow> connector_db" where
  "mw_db w \<equiv> cw_db (mw_connect w)"

abbreviation mw_identity :: "mworld \<Rightarrow> identity_db" where
  "mw_identity w \<equiv> w_db (cw_world (mw_connect w))"

definition set_connectors :: "connector_db \<Rightarrow> mworld \<Rightarrow> mworld" where
  "set_connectors db w = w\<lparr>mw_connect := (mw_connect w)\<lparr>cw_db := db\<rparr>\<rparr>"

definition audit_event_in :: "env \<Rightarrow> uuid \<Rightarrow> audit_event \<Rightarrow> mworld \<Rightarrow> mworld" where
  "audit_event_in e i ev w = w\<lparr>mw_connect := (mw_connect w)\<lparr>cw_world := record_event e i ev (cw_world (mw_connect w))\<rparr>\<rparr>"

record create_connection_request =
  cq_connector_type :: connector_type
  cq_display_name :: string
  cq_host :: string
  cq_port :: int
  cq_use_ssl :: bool
  cq_username :: string
  cq_password :: string

record self_connect_request =
  sq_connection :: create_connection_request
  sq_accepted :: bool
  sq_scope :: string
  sq_consent_version :: string

record connection_check =
  ck_ok :: bool
  ck_message :: string

text \<open>\<open>ce_verify\<close> is decrypting the credential, building the connector and \<open>verify_connection\<close>; it may raise.\<close>

record connector_env =
  ce_encrypt :: "string \<Rightarrow> string"
  ce_key_version :: int
  ce_verify :: "connection \<Rightarrow> connection_check reply"

section \<open>Permission\<close>

datatype denial_reason = not_entitled | admin_denied | org_disabled

record access_decision =
  ad_allowed :: bool
  ad_denial_reason :: "denial_reason option"

definition resolve_connector_access :: "bool \<Rightarrow> override_type option \<Rightarrow> bool \<Rightarrow> access_decision" where
  "resolve_connector_access entitled override org_wide_enabled =
     (if \<not> entitled then \<lparr>ad_allowed = False, ad_denial_reason = Some not_entitled\<rparr>
      else if override = Some override_deny then \<lparr>ad_allowed = False, ad_denial_reason = Some admin_denied\<rparr>
      else if override = Some override_grant then \<lparr>ad_allowed = True, ad_denial_reason = None\<rparr>
      else if org_wide_enabled then \<lparr>ad_allowed = True, ad_denial_reason = None\<rparr>
      else \<lparr>ad_allowed = False, ad_denial_reason = Some org_disabled\<rparr>)"

fun DENIAL_MESSAGE :: "denial_reason \<Rightarrow> string" where
  "DENIAL_MESSAGE not_entitled = ''This connector is not included in your company's plan.''"
| "DENIAL_MESSAGE admin_denied = ''Your administrator hasn't enabled this for you.''"
| "DENIAL_MESSAGE org_disabled = ''Your administrator hasn't enabled this for you.''"

definition reason_for :: "access_decision \<Rightarrow> string option" where
  "reason_for d = (if ad_allowed d then None else map_option DENIAL_MESSAGE (ad_denial_reason d))"

definition denied_error :: "access_decision \<Rightarrow> connector_error" where
  "denied_error d =
     (let message = (case reason_for d of None \<Rightarrow> ''You can't connect this connector.'' | Some m \<Rightarrow> m)
      in if ad_denial_reason d = Some not_entitled then ConnectorNotEntitledError message
         else ConnectorAccessDeniedError message)"

definition resolve_access :: "connector_db \<Rightarrow> uuid \<Rightarrow> uuid \<Rightarrow> connector_type \<Rightarrow> access_decision" where
  "resolve_access db org_id user_id ctype =
     resolve_connector_access (is_entitled db org_id ctype) (get_override_type db org_id user_id ctype)
       (is_org_wide_enabled db org_id ctype)"

section \<open>Consent and entitlement\<close>

definition consent_record ::
  "env \<Rightarrow> nat \<Rightarrow> uuid \<Rightarrow> connector_type \<Rightarrow> string \<Rightarrow> auth_method \<Rightarrow> string \<Rightarrow> principal \<Rightarrow> consent mhandler" where
  "consent_record e k org_id ctype scope method consent_version actor w =
     (let c = \<lparr>cs_id = uuids e k, cs_org_id = org_id, cs_user_id = p_subject_id actor, cs_connector_type = ctype,
               cs_scope = scope, cs_method = method, cs_granted_at = now_utc e, cs_withdrawn_at = None,
               cs_ui_proof = [(''consent_version'', JStr consent_version), (''accepted'', JBool True)]\<rparr>
      in case consents_insert (mw_identity w) c (mw_db w) of
           None \<Rightarrow> (Inl ConnectorIntegrityError, w)
         | Some db \<Rightarrow>
           (Inr c, audit_event_in e (uuids e (k + 1))
              ((audit_event_of CONNECTOR_CONSENTED (actor_type_of (p_subject_type actor)))
                 \<lparr>ae_actor_id := Some (p_subject_id actor), ae_org_id := Some org_id,
                  ae_entity_type := Some ''connector_consent'', ae_entity_id := Some (cs_id c),
                  ae_details := [(''connector_type'', JStr (connector_type_value ctype)), (''scope'', JStr scope),
                    (''method'', JStr ''app_password'')]\<rparr>) (set_connectors db w)))"

definition consent_withdraw :: "env \<Rightarrow> nat \<Rightarrow> uuid \<Rightarrow> connector_type \<Rightarrow> principal \<Rightarrow> mworld \<Rightarrow> mworld" where
  "consent_withdraw e k org_id ctype actor w =
     (let (withdrawn, db) = consents_withdraw_active (now_utc e) org_id (p_subject_id actor) ctype (mw_db w);
          w1 = set_connectors db w
      in if withdrawn > 0
         then audit_event_in e (uuids e k)
                ((audit_event_of CONNECTOR_CONSENT_WITHDRAWN (actor_type_of (p_subject_type actor)))
                   \<lparr>ae_actor_id := Some (p_subject_id actor), ae_org_id := Some org_id,
                    ae_entity_type := Some ''connector_consent'',
                    ae_details := [(''connector_type'', JStr (connector_type_value ctype))]\<rparr>) w1
         else w1)"

definition set_entitlement :: "env \<Rightarrow> uuid \<Rightarrow> connector_type \<Rightarrow> bool \<Rightarrow> principal \<Rightarrow> entitlement mhandler" where
  "set_entitlement e org_id ctype enabled actor w =
     (case entitlements_upsert (mw_identity w) (now_utc e) (uuids e 0) org_id ctype enabled (Some (p_subject_id actor)) (mw_db w) of
        None \<Rightarrow> (Inl ConnectorIntegrityError, w)
      | Some (row, db) \<Rightarrow>
        (Inr row, audit_event_in e (uuids e 1)
           ((audit_event_of (if enabled then ENTITLEMENT_GRANTED else ENTITLEMENT_REVOKED) actor_platform_admin)
              \<lparr>ae_actor_id := Some (p_subject_id actor), ae_org_id := Some org_id,
               ae_entity_type := Some ''connector_entitlement'', ae_entity_id := Some (en_id row),
               ae_details := [(''connector_type'', JStr (connector_type_value ctype)), (''enabled'', JBool enabled)]\<rparr>)
           (set_connectors db w)))"

section \<open>Governance\<close>

record override_response =
  or_user_id :: uuid
  or_connector_type :: connector_type
  or_override_type :: override_type

record connection_metadata =
  cm_id :: uuid
  cm_connector_type :: connector_type
  cm_owner_user_id :: "uuid option"
  cm_status :: connection_status
  cm_is_enabled :: bool
  cm_sync_status :: sync_status
  cm_synced_count :: int
  cm_total_count :: "int option"
  cm_last_synced_at :: "datetime option"
  cm_last_error :: "string option"

record governance_response =
  gr_connector_type :: connector_type
  gr_entitled :: bool
  gr_org_wide_enabled :: bool
  gr_overrides :: "override_response list"
  gr_connections :: "connection_metadata list"

definition override_response_of :: "policy_override \<Rightarrow> override_response" where
  "override_response_of x = \<lparr>or_user_id = ov_user_id x, or_connector_type = ov_connector_type x, or_override_type = ov_override_type x\<rparr>"

definition metadata_of :: "connection \<Rightarrow> connection_metadata" where
  "metadata_of c = \<lparr>cm_id = cn_id c, cm_connector_type = cn_connector_type c, cm_owner_user_id = cn_owner_user_id c,
     cm_status = cn_status c, cm_is_enabled = (cn_disabled_at c = None), cm_sync_status = cn_sync_status c,
     cm_synced_count = cn_synced_count c, cm_total_count = cn_total_count c, cm_last_synced_at = cn_last_synced_at c,
     cm_last_error = cn_last_error c\<rparr>"

definition build_governance ::
  "connector_type \<Rightarrow> bool \<Rightarrow> policy option \<Rightarrow> policy_override list \<Rightarrow> connection list \<Rightarrow> governance_response" where
  "build_governance ctype entitled policy os cs =
     \<lparr>gr_connector_type = ctype, gr_entitled = entitled,
      gr_org_wide_enabled = (case policy of None \<Rightarrow> False | Some p \<Rightarrow> po_org_wide_enabled p),
      gr_overrides = map override_response_of os, gr_connections = map metadata_of cs\<rparr>"

definition get_governance :: "connector_db \<Rightarrow> uuid \<Rightarrow> connector_type \<Rightarrow> governance_response" where
  "get_governance db org_id ctype =
     build_governance ctype (is_entitled db org_id ctype) (policies_get db org_id ctype) (overrides_list_for_type db org_id ctype)
       (filter (\<lambda>c. cn_connector_type c = ctype) (connections_list_for_org db org_id))"

definition record_policy_change :: "env \<Rightarrow> uuid \<Rightarrow> principal \<Rightarrow> (string \<times> json) list \<Rightarrow> mworld \<Rightarrow> mworld" where
  "record_policy_change e org_id actor details w =
     audit_event_in e (uuids e 0)
       ((audit_event_of CONNECTOR_POLICY_CHANGED (actor_type_of (p_subject_type actor)))
          \<lparr>ae_actor_id := Some (p_subject_id actor), ae_org_id := Some org_id,
           ae_entity_type := Some ''connector_policy'', ae_details := details\<rparr>) w"

definition set_org_wide :: "env \<Rightarrow> uuid \<Rightarrow> connector_type \<Rightarrow> bool \<Rightarrow> principal \<Rightarrow> governance_response mhandler" where
  "set_org_wide e org_id ctype org_wide_enabled actor w =
     (if org_wide_enabled \<and> \<not> is_entitled (mw_db w) org_id ctype then (Inl not_entitled_error, w)
      else
        (case policies_upsert (mw_identity w) org_id ctype org_wide_enabled (Some (p_subject_id actor)) (mw_db w) of
           None \<Rightarrow> (Inl ConnectorIntegrityError, w)
         | Some db \<Rightarrow>
           (let w1 = record_policy_change e org_id actor
                       [(''connector_type'', JStr (connector_type_value ctype)), (''org_wide_enabled'', JBool org_wide_enabled)]
                       (set_connectors db w)
            in (Inr (get_governance (mw_db w1) org_id ctype), w1))))"

definition set_override ::
  "env \<Rightarrow> uuid \<Rightarrow> uuid \<Rightarrow> connector_type \<Rightarrow> override_type \<Rightarrow> principal \<Rightarrow> governance_response mhandler" where
  "set_override e org_id user_id ctype otype actor w =
     (if otype = override_grant \<and> \<not> is_entitled (mw_db w) org_id ctype then (Inl not_entitled_error, w)
      else
        (case overrides_upsert (mw_identity w) org_id user_id ctype otype (Some (p_subject_id actor)) (mw_db w) of
           None \<Rightarrow> (Inl ConnectorIntegrityError, w)
         | Some db \<Rightarrow>
           (let w1 = record_policy_change e org_id actor
                       [(''connector_type'', JStr (connector_type_value ctype)), (''user_id'', JId user_id),
                        (''override_type'', JStr (override_type_value otype))] (set_connectors db w)
            in (Inr (get_governance (mw_db w1) org_id ctype), w1))))"

definition clear_override :: "env \<Rightarrow> uuid \<Rightarrow> uuid \<Rightarrow> connector_type \<Rightarrow> principal \<Rightarrow> governance_response mhandler" where
  "clear_override e org_id user_id ctype actor w =
     (let w1 = record_policy_change e org_id actor
                 [(''connector_type'', JStr (connector_type_value ctype)), (''user_id'', JId user_id),
                  (''override_type'', JStr ''cleared'')] (set_connectors (overrides_delete org_id user_id ctype (mw_db w)) w)
      in (Inr (get_governance (mw_db w1) org_id ctype), w1))"

section \<open>The administrator's plane\<close>

definition connection_event ::
  "audit_action \<Rightarrow> principal \<Rightarrow> connection \<Rightarrow> (string \<times> json) list \<Rightarrow> audit_event" where
  "connection_event action actor c details =
     (audit_event_of action (actor_type_of (p_subject_type actor)))
       \<lparr>ae_actor_id := Some (p_subject_id actor), ae_org_id := Some (cn_org_id c),
        ae_entity_type := Some ''connector_connection'', ae_entity_id := Some (cn_id c), ae_details := details\<rparr>"

definition new_connection ::
  "connector_env \<Rightarrow> env \<Rightarrow> uuid \<Rightarrow> create_connection_request \<Rightarrow> uuid option \<Rightarrow> connection" where
  "new_connection ce e org_id q owner =
     \<lparr>cn_id = uuids e 0, cn_org_id = org_id, cn_connector_type = cq_connector_type q, cn_owner_user_id = owner,
      cn_display_name = cq_display_name q, cn_auth_method = app_password, cn_username = cq_username q,
      cn_config = [(''host'', JStr (cq_host q)), (''port'', JInt (cq_port q)), (''use_ssl'', JBool (cq_use_ssl q))],
      cn_secret_ciphertext = ce_encrypt ce (cq_password q), cn_secret_key_version = ce_key_version ce,
      cn_status = conn_configured, cn_last_checked_at = None, cn_last_error = None, cn_disabled_at = None,
      cn_sync_status = sync_idle, cn_sync_run_id = None, cn_sync_started_at = None, cn_sync_heartbeat_at = None,
      cn_last_synced_at = None, cn_synced_count = 0, cn_total_count = None, cn_last_sync_error = None,
      cn_created_at = now_utc e\<rparr>"

abbreviation duplicate_error :: connector_error where
  "duplicate_error \<equiv> DuplicateConnectionError ''A connection for this mailbox already exists.''"

definition create_connection ::
  "connector_env \<Rightarrow> env \<Rightarrow> uuid \<Rightarrow> create_connection_request \<Rightarrow> principal \<Rightarrow> uuid option \<Rightarrow> audit_action \<Rightarrow> connection mhandler" where
  "create_connection ce e org_id q actor owner action w =
     (if \<not> is_entitled (mw_db w) org_id (cq_connector_type q) then (Inl not_entitled_error, w)
      else if (case owner of
                 None \<Rightarrow> connections_exists (mw_db w) org_id (cq_connector_type q) (cq_username q)
               | Some u \<Rightarrow> connections_exists_for_owner (mw_db w) org_id u (cq_connector_type q) (cq_username q))
      then (Inl duplicate_error, w)
      else
        (let c = new_connection ce e org_id q owner
         in case connections_insert (mw_identity w) c (mw_db w) of
              Inl identity \<Rightarrow> (Inl (if identity then duplicate_error else ConnectorIntegrityError), w)
            | Inr db \<Rightarrow>
              (Inr c, audit_event_in e (uuids e 1)
                 (connection_event action actor c
                    [(''connector_type'', JStr (connector_type_value (cn_connector_type c))), (''host'', JStr (cq_host q))])
                 (set_connectors db w))))"

definition list_connections :: "connector_db \<Rightarrow> uuid \<Rightarrow> connection list" where
  "list_connections db org_id = connections_list_shared_for_org db org_id"

definition load_or_404 :: "connector_db \<Rightarrow> uuid \<Rightarrow> uuid \<Rightarrow> uuid option \<Rightarrow> connector_error + connection" where
  "load_or_404 db org_id connection_id owner =
     (case load_connection_scoped db org_id connection_id owner of
        None \<Rightarrow> Inl connection_not_found
      | Some c \<Rightarrow> Inr c)"

definition get_connection :: "connector_db \<Rightarrow> uuid \<Rightarrow> uuid \<Rightarrow> connector_error + connection" where
  "get_connection db org_id connection_id = load_or_404 db org_id connection_id None"

text \<open>
  What the database does when a connection is deleted, beyond the connector tables: its messages go, with them their
  recipients and attachments, and the grants that came from it (all \<open>ON DELETE CASCADE\<close>).
\<close>

definition of_connection :: "connection \<Rightarrow> email_message \<Rightarrow> bool" where
  "of_connection c m \<longleftrightarrow> em_org_id m = cn_org_id c \<and> em_connection_id m = cn_id c"

definition cascade_mail :: "connection \<Rightarrow> mail_db \<Rightarrow> mail_db" where
  "cascade_mail c db =
     (let gone = (\<lambda>org_id i. \<exists>m \<in> set (email_messages db). of_connection c m \<and> em_org_id m = org_id \<and> em_id m = i)
      in db\<lparr>email_messages := delete_where (of_connection c) (email_messages db),
            email_recipients := delete_where (\<lambda>r. gone (er_org_id r) (er_email_id r)) (email_recipients db),
            email_attachments := delete_where (\<lambda>a. gone (ea_org_id a) (ea_email_id a)) (email_attachments db),
            acl_grants := delete_where (\<lambda>g. ag_org_id g = cn_org_id c \<and> ag_connection_id g = Some (cn_id c)) (acl_grants db)\<rparr>)"

definition delete_row :: "connection \<Rightarrow> mworld \<Rightarrow> mworld" where
  "delete_row c w = (set_connectors (connections_delete c (mw_db w)) w)\<lparr>mw_mail := cascade_mail c (mw_mail w)\<rparr>"

definition json_get :: "string \<Rightarrow> (string \<times> json) list \<Rightarrow> json" where
  "json_get k d = (case map_of d k of None \<Rightarrow> JNull | Some v \<Rightarrow> v)"

definition delete_connection :: "env \<Rightarrow> uuid \<Rightarrow> uuid \<Rightarrow> principal \<Rightarrow> unit mhandler" where
  "delete_connection e org_id connection_id actor w =
     (case get_connection (mw_db w) org_id connection_id of
        Inl err \<Rightarrow> (Inl err, w)
      | Inr c \<Rightarrow>
        (Inr (), delete_row c (audit_event_in e (uuids e 0)
           (connection_event CONNECTOR_DELETED actor c
              [(''connector_type'', JStr (connector_type_value (cn_connector_type c))), (''host'', json_get ''host'' (cn_config c))]) w)))"

definition disable_connection :: "env \<Rightarrow> uuid \<Rightarrow> uuid \<Rightarrow> principal \<Rightarrow> connection mhandler" where
  "disable_connection e org_id connection_id actor w =
     (case get_connection (mw_db w) org_id connection_id of
        Inl err \<Rightarrow> (Inl err, w)
      | Inr c \<Rightarrow>
        if cn_disabled_at c = None
        then (let c' = c\<lparr>cn_disabled_at := Some (now_utc e)\<rparr>
              in (Inr c', audit_event_in e (uuids e 0) (connection_event CONNECTOR_DISABLED actor c' [])
                    (set_connectors (connections_save c' (mw_db w)) w)))
        else (Inr c, w))"

definition enable_connection :: "env \<Rightarrow> uuid \<Rightarrow> uuid \<Rightarrow> principal \<Rightarrow> connection mhandler" where
  "enable_connection e org_id connection_id actor w =
     (case get_connection (mw_db w) org_id connection_id of
        Inl err \<Rightarrow> (Inl err, w)
      | Inr c \<Rightarrow>
        if cn_disabled_at c \<noteq> None
        then (let c' = c\<lparr>cn_disabled_at := None\<rparr>
              in (Inr c', audit_event_in e (uuids e 0) (connection_event CONNECTOR_ENABLED actor c' [])
                    (set_connectors (connections_save c' (mw_db w)) w)))
        else (Inr c, w))"

definition verify_stored :: "connector_env \<Rightarrow> connection \<Rightarrow> connection_check" where
  "verify_stored ce c =
     (case ce_verify ce c of
        Raises \<Rightarrow> \<lparr>ck_ok = False, ck_message = ''The connection test failed unexpectedly.''\<rparr>
      | Replies ck \<Rightarrow> ck)"

definition stamp_check :: "env \<Rightarrow> connection_check \<Rightarrow> connection \<Rightarrow> connection" where
  "stamp_check e ck c = c\<lparr>cn_status := (if ck_ok ck then conn_connected else conn_error),
     cn_last_checked_at := Some (now_utc e), cn_last_error := (if ck_ok ck then None else Some (ck_message ck))\<rparr>"

text \<open>
  The test ends its transaction before the network round trip, so other sessions may commit meanwhile (\<open>others\<close>); the flush then
  writes the three columns of the row by its key, and raises when the row is gone.
\<close>

definition test_connection ::
  "connector_env \<Rightarrow> env \<Rightarrow> (mworld \<Rightarrow> mworld) \<Rightarrow> uuid \<Rightarrow> uuid \<Rightarrow> uuid option \<Rightarrow> connection mhandler" where
  "test_connection ce e others org_id connection_id owner w =
     (case load_or_404 (mw_db w) org_id connection_id owner of
        Inl err \<Rightarrow> (Inl err, w)
      | Inr c \<Rightarrow>
        if \<not> is_entitled (mw_db w) org_id (cn_connector_type c) then (Inl not_entitled_error, w)
        else
          (let ck = verify_stored ce c; w1 = others w
           in if rowcount (\<lambda>x. cn_id x = cn_id c) (connections (mw_db w1)) = 0 then (Inl ConnectorIntegrityError, w1)
              else (Inr (stamp_check e ck c),
                    set_connectors ((mw_db w1)\<lparr>connections := update_where (\<lambda>x. cn_id x = cn_id c) (stamp_check e ck)
                      (connections (mw_db w1))\<rparr>) w1)))"

section \<open>The user's own plane\<close>

definition list_allowed_types :: "connector_db \<Rightarrow> uuid \<Rightarrow> uuid \<Rightarrow> (connector_type \<times> bool \<times> string option) list" where
  "list_allowed_types db org_id user_id =
     map (\<lambda>t. let d = resolve_access db org_id user_id t in (t, ad_allowed d, reason_for d)) [imap]"

definition list_my_connections :: "connector_db \<Rightarrow> uuid \<Rightarrow> uuid \<Rightarrow> connection list" where
  "list_my_connections db org_id user_id = connections_list_for_owner db org_id user_id"

definition get_my_connection :: "connector_db \<Rightarrow> uuid \<Rightarrow> uuid \<Rightarrow> uuid \<Rightarrow> connector_error + connection" where
  "get_my_connection db org_id user_id connection_id =
     (case connections_get_for_owner db connection_id org_id user_id of
        None \<Rightarrow> Inl connection_not_found
      | Some c \<Rightarrow> Inr c)"

definition self_connect :: "connector_env \<Rightarrow> env \<Rightarrow> uuid \<Rightarrow> self_connect_request \<Rightarrow> principal \<Rightarrow> connection mhandler" where
  "self_connect ce e org_id q actor w =
     (let user_id = p_subject_id actor; ctype = cq_connector_type (sq_connection q);
          decision = resolve_access (mw_db w) org_id user_id ctype
      in if \<not> ad_allowed decision then (Inl (denied_error decision), w)
         else if \<not> sq_accepted q
         then (Inl (ConnectorConsentRequiredError ''Consent is required to connect a mailbox.''), w)
         else
           (case create_connection ce e org_id (sq_connection q) actor (Some user_id) CONNECTOR_CONNECTED w of
              (Inl err, _) \<Rightarrow> (Inl err, w)
            | (Inr c, w1) \<Rightarrow>
              (case consent_record e 2 org_id ctype (sq_scope q) app_password (sq_consent_version q) actor w1 of
                 (Inl err, _) \<Rightarrow> (Inl err, w)
               | (Inr _, w2) \<Rightarrow> (Inr c, w2))))"

definition require_current_access :: "connector_db \<Rightarrow> uuid \<Rightarrow> uuid \<Rightarrow> connector_type \<Rightarrow> connector_error option" where
  "require_current_access db org_id user_id ctype =
     (let d = resolve_access db org_id user_id ctype in if ad_allowed d then None else Some (denied_error d))"

definition test_my_connection ::
  "connector_env \<Rightarrow> env \<Rightarrow> (mworld \<Rightarrow> mworld) \<Rightarrow> uuid \<Rightarrow> uuid \<Rightarrow> uuid \<Rightarrow> connection mhandler" where
  "test_my_connection ce e others org_id user_id connection_id w =
     (case get_my_connection (mw_db w) org_id user_id connection_id of
        Inl err \<Rightarrow> (Inl err, w)
      | Inr c \<Rightarrow>
        (case require_current_access (mw_db w) org_id user_id (cn_connector_type c) of
           Some err \<Rightarrow> (Inl err, w)
         | None \<Rightarrow> test_connection ce e others org_id connection_id (Some user_id) w))"

definition on_connect :: "'a chandler \<Rightarrow> 'a mhandler" where
  "on_connect f w = (let (r, c) = f (mw_connect w) in (r, w\<lparr>mw_connect := c\<rparr>))"

definition sync_my_connection ::
  "env \<Rightarrow> uuid \<Rightarrow> uuid \<Rightarrow> uuid \<Rightarrow> principal \<Rightarrow> (uuid \<times> connection option) mhandler" where
  "sync_my_connection e org_id user_id connection_id actor w =
     (case get_my_connection (mw_db w) org_id user_id connection_id of
        Inl err \<Rightarrow> (Inl err, w)
      | Inr c \<Rightarrow>
        (case require_current_access (mw_db w) org_id user_id (cn_connector_type c) of
           Some err \<Rightarrow> (Inl err, w)
         | None \<Rightarrow> on_connect (start_sync e org_id connection_id (Some actor) (Some user_id)) w))"

definition get_my_sync_status :: "connector_db \<Rightarrow> uuid \<Rightarrow> uuid \<Rightarrow> uuid \<Rightarrow> connector_error + connection" where
  "get_my_sync_status db org_id user_id connection_id = get_sync_status db org_id connection_id (Some user_id)"

definition disconnect_my_connection :: "env \<Rightarrow> uuid \<Rightarrow> uuid \<Rightarrow> uuid \<Rightarrow> principal \<Rightarrow> unit mhandler" where
  "disconnect_my_connection e org_id user_id connection_id actor w =
     (case get_my_connection (mw_db w) org_id user_id connection_id of
        Inl err \<Rightarrow> (Inl err, w)
      | Inr c \<Rightarrow>
        (let others_of_type = filter (\<lambda>x. cn_connector_type x = cn_connector_type c \<and> cn_id x \<noteq> connection_id)
               (connections_list_for_owner (mw_db w) org_id user_id);
             w1 = (if others_of_type = [] then consent_withdraw e 0 org_id (cn_connector_type c) actor w else w);
             w2 = audit_event_in e (uuids e 1)
                    ((audit_event_of CONNECTOR_DISCONNECTED (actor_type_of (p_subject_type actor)))
                       \<lparr>ae_actor_id := Some (p_subject_id actor), ae_org_id := Some org_id,
                        ae_entity_type := Some ''connector_connection'', ae_entity_id := Some (cn_id c),
                        ae_details := [(''connector_type'', JStr (connector_type_value (cn_connector_type c)))]\<rparr>) w1
         in (Inr (), delete_row c w2)))"

end
