(* ===== verification/Connector_Safety.thy ===== *)
theory Connector_Safety
  imports Connector_Service
begin

text \<open>
  What the connector services guarantee: who may connect a mailbox, that every mailbox a user connected has a
  consent in force, that revoking an entitlement closes every path at once, that the planes of administrators and
  users are separate, and that disconnecting erases the mailbox's mail and nothing else.
\<close>

section \<open>Frame lemmas\<close>

lemma mw_set [simp]:
  "mw_db (set_connectors db w) = db" "mw_mail (set_connectors db w) = mw_mail w"
  "cw_world (mw_connect (set_connectors db w)) = cw_world (mw_connect w)"
  by (simp_all add: set_connectors_def)

lemma mw_audit [simp]:
  "mw_db (audit_event_in e i ev w) = mw_db w" "mw_mail (audit_event_in e i ev w) = mw_mail w"
  "users (mw_identity (audit_event_in e i ev w)) = users (mw_identity w)"
  "organizations (mw_identity (audit_event_in e i ev w)) = organizations (mw_identity w)"
  by (simp_all add: audit_event_in_def record_event_def audit_insert_def)

lemma fk_audit [simp]:
  "user_fk_ok (mw_identity (audit_event_in e i ev w)) org_id u = user_fk_ok (mw_identity w) org_id u"
  "user_fk_ok (mw_identity (set_connectors db w)) org_id u = user_fk_ok (mw_identity w) org_id u"
  by (simp_all add: user_fk_ok_def)

lemma mw_policy_change [simp]:
  "mw_db (record_policy_change e org_id actor d w) = mw_db w" "mw_mail (record_policy_change e org_id actor d w) = mw_mail w"
  by (simp_all add: record_policy_change_def)

lemma mw_delete_row [simp]:
  "mw_db (delete_row c w) = connections_delete c (mw_db w)" "mw_mail (delete_row c w) = cascade_mail c (mw_mail w)"
  by (simp_all add: delete_row_def)

lemma mw_withdraw [simp]:
  "mw_db (consent_withdraw e k org_id ctype actor w)
    = snd (consents_withdraw_active (now_utc e) org_id (p_subject_id actor) ctype (mw_db w))"
  "mw_mail (consent_withdraw e k org_id ctype actor w) = mw_mail w"
  by (simp_all add: consent_withdraw_def Let_def consents_withdraw_active_def)

lemma mw_on_connect: "on_connect f w = (r, w') \<longleftrightarrow> f (mw_connect w) = (r, mw_connect w') \<and> mw_mail w' = mw_mail w"
  by (cases w; cases w') (auto simp: on_connect_def split: prod.splits)

lemma delete_connections [simp]:
  "connections (connections_delete c db) = delete_where (\<lambda>x. cn_id x = cn_id c \<and> cn_org_id x = cn_org_id c) (connections db)"
  "consents (connections_delete c db) = consents db"
  by (simp_all add: connections_delete_def)

section \<open>Who may connect\<close>

lemma access_allowed_iff:
  "ad_allowed (resolve_access db org_id user_id ctype) \<longleftrightarrow> is_entitled db org_id ctype
     \<and> (get_override_type db org_id user_id ctype = Some override_grant
        \<or> get_override_type db org_id user_id ctype = None \<and> is_org_wide_enabled db org_id ctype)"
  by (cases "get_override_type db org_id user_id ctype")
    (auto simp: resolve_access_def resolve_connector_access_def split: override_type.splits intro: override_type.exhaust)

lemma denied_http: "\<not> ad_allowed (resolve_access db org_id user_id ctype) \<Longrightarrow>
    denied_error (resolve_access db org_id user_id ctype)
      = (if is_entitled db org_id ctype then ConnectorAccessDeniedError ''Your administrator hasn't enabled this for you.''
         else not_entitled_error)"
  by (auto simp: resolve_access_def resolve_connector_access_def denied_error_def reason_for_def split: if_splits)

lemma exists_for_owner_iff:
  "connections_exists_for_owner db org_id u ctype name \<longleftrightarrow>
     (\<exists>c \<in> set (connections db). cn_org_id c = org_id \<and> cn_owner_user_id c = Some u \<and> cn_connector_type c = ctype \<and> cn_username c = name)"
  by (auto simp: connections_exists_for_owner_def select_where_def filter_empty_conv)

lemma insert_owned:
  assumes "\<not> connections_exists_for_owner db org_id u (cq_connector_type q) (cq_username q)"
  shows "connections_insert idb (new_connection ce e org_id q (Some u)) db
    = (if org_fk_ok idb org_id \<and> user_fk_ok idb org_id u
       then Inr (db\<lparr>connections := connections db @ [new_connection ce e org_id q (Some u)]\<rparr>) else Inl False)"
  using assms
  by (auto simp: connections_insert_def exists_for_owner_iff same_identity_def new_connection_def connection_fk_ok_def
      org_fk_ok_def user_fk_ok_def)

lemma consent_record_ok:
  assumes "user_fk_ok (mw_identity w) org_id (p_subject_id actor)"
  obtains k w' where "consent_record e n org_id t scope method version actor w = (Inr k, w')"
    and "active_consent org_id (p_subject_id actor) t k" and "mw_db w' = (mw_db w)\<lparr>consents := consents (mw_db w) @ [k]\<rparr>"
    and "mw_mail w' = mw_mail w"
  using assms by (simp add: consent_record_def consents_insert_def active_consent_def Let_def)

text \<open>
  Self-connect decides by one table. It succeeds exactly when the company is entitled to the connector, the user's
  override grants it or there is no override and the organization-wide policy is on, consent was given, the user has no
  connection to this mailbox yet and exists in the organization; otherwise the first failing test names the
  error, and the state is the one before.
  On success exactly one connection, owned by the caller, with the encrypted credential, and exactly one consent in force are added.
\<close>

theorem self_connect_outcome:
  fixes q :: self_connect_request and actor :: principal
  defines "u \<equiv> p_subject_id actor" and "t \<equiv> cq_connector_type (sq_connection q)"
  assumes run: "self_connect ce e org_id q actor w = (r, w')"
  shows "(case r of
      Inl err \<Rightarrow> w' = w \<and> err =
        (if \<not> is_entitled (mw_db w) org_id t then not_entitled_error
         else if \<not> (get_override_type (mw_db w) org_id u t = Some override_grant
                  \<or> get_override_type (mw_db w) org_id u t = None \<and> is_org_wide_enabled (mw_db w) org_id t)
         then ConnectorAccessDeniedError ''Your administrator hasn't enabled this for you.''
         else if \<not> sq_accepted q then ConnectorConsentRequiredError ''Consent is required to connect a mailbox.''
         else if connections_exists_for_owner (mw_db w) org_id u t (cq_username (sq_connection q)) then duplicate_error
         else ConnectorIntegrityError)
    | Inr c \<Rightarrow> is_entitled (mw_db w) org_id t
        \<and> (get_override_type (mw_db w) org_id u t = Some override_grant
           \<or> get_override_type (mw_db w) org_id u t = None \<and> is_org_wide_enabled (mw_db w) org_id t)
        \<and> sq_accepted q \<and> \<not> connections_exists_for_owner (mw_db w) org_id u t (cq_username (sq_connection q))
        \<and> connections (mw_db w') = connections (mw_db w) @ [c]
        \<and> cn_owner_user_id c = Some u \<and> cn_org_id c = org_id \<and> cn_connector_type c = t
        \<and> cn_secret_ciphertext c = ce_encrypt ce (cq_password (sq_connection q))
        \<and> (\<exists>k. active_consent org_id u t k \<and> consents (mw_db w') = consents (mw_db w) @ [k]))
    \<and> (is_ok r \<longleftrightarrow> ad_allowed (resolve_access (mw_db w) org_id u t) \<and> sq_accepted q
        \<and> \<not> connections_exists_for_owner (mw_db w) org_id u t (cq_username (sq_connection q))
        \<and> org_fk_ok (mw_identity w) org_id \<and> user_fk_ok (mw_identity w) org_id u)"
proof -
  let ?d = "resolve_access (mw_db w) org_id u t" and ?dup = "connections_exists_for_owner (mw_db w) org_id u t (cq_username (sq_connection q))"
  have run': "self_connect ce e org_id q actor w = (r, w')" by (rule run)
  consider (denied) "\<not> ad_allowed ?d" | (consent) "ad_allowed ?d" "\<not> sq_accepted q"
    | (dup) "ad_allowed ?d" "sq_accepted q" ?dup | (go) "ad_allowed ?d" "sq_accepted q" "\<not> ?dup" by blast
  then show ?thesis
  proof cases
    case denied
    then have "r = Inl (denied_error ?d)" "w' = w" using run' by (auto simp: self_connect_def u_def t_def Let_def)
    then show ?thesis using denied denied_http[OF denied] by (auto simp: access_allowed_iff)
  next
    case consent
    then have "r = Inl (ConnectorConsentRequiredError ''Consent is required to connect a mailbox.'')" "w' = w"
      using run' by (auto simp: self_connect_def u_def t_def Let_def)
    then show ?thesis using consent by (auto simp: access_allowed_iff)
  next
    case dup
    then have "r = Inl duplicate_error" "w' = w"
      using run' by (auto simp: self_connect_def create_connection_def u_def t_def Let_def access_allowed_iff)
    then show ?thesis using dup by (auto simp: access_allowed_iff)
  next
    case go
    have ent: "is_entitled (mw_db w) org_id t" using go(1) by (simp add: access_allowed_iff)
    note ins = insert_owned[OF go(3)[unfolded t_def], of "mw_identity w" ce e]
    show ?thesis
    proof (cases "org_fk_ok (mw_identity w) org_id \<and> user_fk_ok (mw_identity w) org_id u")
      case True
      let ?c = "new_connection ce e org_id (sq_connection q) (Some u)"
      obtain w1 where cr: "create_connection ce e org_id (sq_connection q) actor (Some u) CONNECTOR_CONNECTED w = (Inr ?c, w1)"
        and w1: "mw_db w1 = (mw_db w)\<lparr>connections := connections (mw_db w) @ [?c]\<rparr>" "user_fk_ok (mw_identity w1) org_id u"
        using True go ent ins by (simp add: create_connection_def t_def Let_def)
      obtain k w2 where k: "consent_record e 2 org_id t (sq_scope q) app_password (sq_consent_version q) actor w1 = (Inr k, w2)"
        "active_consent org_id u t k" "mw_db w2 = (mw_db w1)\<lparr>consents := consents (mw_db w1) @ [k]\<rparr>"
        using consent_record_ok[OF w1(2)[unfolded u_def], of e 2 t] unfolding u_def by metis
      have "r = Inr ?c" "w' = w2" using run' go cr k(1) by (auto simp: self_connect_def u_def t_def Let_def)
      then show ?thesis using True go ent k(2,3) w1(1) by (auto simp: access_allowed_iff new_connection_def t_def)
    next
      case False
      then have "r = Inl ConnectorIntegrityError" "w' = w"
        using run' go ent ins by (auto simp: self_connect_def create_connection_def u_def t_def Let_def)
      then show ?thesis using go False by (auto simp: access_allowed_iff)
    qed
  qed
qed

section \<open>No connected mailbox without consent\<close>

definition owned_consented :: "connector_db \<Rightarrow> bool" where
  "owned_consented db \<longleftrightarrow> (\<forall>c \<in> set (connections db). \<forall>u. cn_owner_user_id c = Some u \<longrightarrow>
     (\<exists>k \<in> set (consents db). active_consent (cn_org_id c) u (cn_connector_type c) k))"

definition conn_key :: "connection \<Rightarrow> uuid \<times> uuid option \<times> connector_type" where
  "conn_key c = (cn_org_id c, cn_owner_user_id c, cn_connector_type c)"

lemma consented_mono:
  assumes "owned_consented db" and "conn_key ` set (connections db') \<subseteq> conn_key ` set (connections db)"
    and "set (consents db) \<subseteq> set (consents db')"
  shows "owned_consented db'"
  unfolding owned_consented_def
proof (intro ballI allI impI)
  fix c u
  assume "c \<in> set (connections db')" "cn_owner_user_id c = Some u"
  moreover obtain d where "d \<in> set (connections db)" "conn_key d = conn_key c"
    using assms(2) calculation(1) by (metis image_iff imageI subsetD)
  ultimately show "\<exists>k \<in> set (consents db'). active_consent (cn_org_id c) u (cn_connector_type c) k"
    using assms(1,3) unfolding owned_consented_def conn_key_def by (metis prod.inject subsetD)
qed

text \<open>Steps that rewrite connection rows keep the key columns.\<close>

lemma key_update_where:
  assumes "\<And>x. P x \<Longrightarrow> conn_key (f x) = conn_key x"
  shows "conn_key ` set (update_where P f xs) = conn_key ` set xs"
  using assms by (induction xs) (auto simp: update_where_def)

lemma key_fenced_update:
  assumes "\<And>x. conn_key (f x) = conn_key x"
  shows "conn_key ` set (connections (snd (fenced_update org_id cid r f db))) = conn_key ` set (connections db)"
  using assms by (simp add: fenced_update_def key_update_where)

lemma consents_fenced_update [simp]: "consents (snd (fenced_update org_id cid r f db)) = consents db"
  by (simp add: fenced_update_def)

definition same_keys :: "connector_db \<Rightarrow> connector_db \<Rightarrow> bool" where
  "same_keys db db' \<longleftrightarrow> conn_key ` set (connections db') \<subseteq> conn_key ` set (connections db) \<and> consents db' = consents db"

lemma same_keys_consented: "same_keys db db' \<Longrightarrow> owned_consented db \<Longrightarrow> owned_consented db'"
  using consented_mono[of db db'] by (simp add: same_keys_def)

lemma same_keys_refl [simp]: "same_keys db db"
  by (simp add: same_keys_def)

lemma same_keys_trans: "same_keys a b \<Longrightarrow> same_keys b c \<Longrightarrow> same_keys a c"
  unfolding same_keys_def by (metis subset_trans)

lemma same_keys_claim: "same_keys db (snd (claim_for_sync now org_id cid r stale db))"
  by (simp add: same_keys_def claim_for_sync_def) (subst key_update_where; simp add: conn_key_def claim_row_def)

lemma same_keys_fenced:
  "(\<And>x. conn_key (f x) = conn_key x) \<Longrightarrow> same_keys db (snd (fenced_update org_id cid r f db))"
  by (simp add: same_keys_def key_fenced_update)

lemma same_keys_runner:
  "same_keys db (snd (heartbeat now org_id cid r db))" "same_keys db (snd (set_total org_id cid r n db))"
  "same_keys db (snd (set_synced_count now org_id cid r m db))" "same_keys db (snd (finalize_sync now org_id cid r st err db))"
  "same_keys db (cursors_upsert org_id cid folder v a xs db)" "same_keys db (runs_finalize now org_id r rst ct err db)"
  "same_keys db (start_run now i org_id cid r db)" "same_keys db (mark_stale_running_abandoned now org_id cid r db)"
  by (simp_all add: heartbeat_def set_total_def set_synced_count_def finalize_sync_def same_keys_fenced conn_key_def)
    (simp_all add: same_keys_def cursors_upsert_def runs_finalize_def start_run_def mark_stale_running_abandoned_def)

lemma same_keys_batch:
  "ingest_batch ig now org_id cid r batch local (db, m) = Some (l', db', m') \<Longrightarrow> same_keys db db'"
  using same_keys_trans[OF same_keys_runner(5) same_keys_runner(3)]
  by (auto simp: ingest_batch_def Let_def case_prod_beta split: prod.splits if_splits)

lemma same_keys_finalize:
  "finalize_run e d org_id cid r ok err ct (db, aw) = (db', aw') \<Longrightarrow> same_keys db db'"
  using same_keys_trans[OF same_keys_runner(4) same_keys_runner(6)]
  by (auto simp: finalize_run_def Let_def case_prod_beta split: prod.splits if_splits)

lemma same_keys_start: "start_sync e org_id cid actor owner w = (r, w') \<Longrightarrow> same_keys (cw_db w) (cw_db w')"
  using same_keys_trans[OF same_keys_trans[OF same_keys_claim same_keys_runner(7)] same_keys_runner(8)]
  by (auto simp: start_sync_def Let_def case_prod_beta split: prod.splits if_splits option.splits)

lemma load_scoped_mem:
  "load_connection_scoped db org_id cid owner = Some c \<Longrightarrow>
     c \<in> set (connections db) \<and> cn_id c = cid \<and> cn_org_id c = org_id \<and> cn_owner_user_id c = owner"
  by (cases owner) (auto simp: load_connection_scoped_def connections_get_shared_in_org_def connections_get_for_owner_def
      dest: select_one_SomeD)

lemma get_connection_mem: "get_connection db org_id cid = Inr c \<Longrightarrow>
    c \<in> set (connections db) \<and> cn_id c = cid \<and> cn_org_id c = org_id \<and> cn_owner_user_id c = None"
  by (auto simp: get_connection_def load_or_404_def split: option.splits dest: load_scoped_mem)

lemma get_my_connection_mem: "get_my_connection db org_id u cid = Inr c \<Longrightarrow>
    c \<in> set (connections db) \<and> cn_id c = cid \<and> cn_org_id c = org_id \<and> cn_owner_user_id c = Some u"
  by (auto simp: get_my_connection_def connections_get_for_owner_def split: option.splits dest: select_one_SomeD)

lemma same_keys_save:
  assumes "c \<in> set (connections db)" and "conn_key c' = conn_key c"
  shows "same_keys db (connections_save c' db)"
  using assms by (auto simp: same_keys_def connections_save_def set_update_where)

lemma create_connection_Inr:
  assumes "create_connection ce e org_id q actor owner a w = (Inr c, w')"
  shows "connections (mw_db w') = connections (mw_db w) @ [c]" and "consents (mw_db w') = consents (mw_db w)"
    and "c = new_connection ce e org_id q owner"
  using assms by (auto simp: create_connection_def connections_insert_def Let_def split: if_splits sum.splits option.splits)

lemma create_connection_Inl: "create_connection ce e org_id q actor owner a w = (Inl err, w') \<Longrightarrow> w' = w"
  by (auto simp: create_connection_def Let_def split: if_splits sum.splits option.splits)

lemma consent_record_Inr:
  assumes "consent_record e n org_id t scope method version actor w = (Inr k, w')"
  shows "mw_db w' = (mw_db w)\<lparr>consents := consents (mw_db w) @ [k]\<rparr>" and "active_consent org_id (p_subject_id actor) t k"
  using assms by (auto simp: consent_record_def consents_insert_def active_consent_def Let_def split: if_splits)

lemma self_connect_keeps:
  assumes "owned_consented (mw_db w)" and run: "self_connect ce e org_id q actor w = (r, w')"
  shows "owned_consented (mw_db w')"
proof (cases r)
  case (Inl err)
  then have "w' = w" using run by (auto simp: self_connect_def Let_def split: if_splits sum.splits prod.splits)
  with assms(1) show ?thesis by simp
next
  case (Inr c)
  let ?t = "cq_connector_type (sq_connection q)"
  obtain w1 k where cr: "create_connection ce e org_id (sq_connection q) actor (Some (p_subject_id actor)) CONNECTOR_CONNECTED w = (Inr c, w1)"
    and k: "consent_record e 2 org_id ?t (sq_scope q) app_password (sq_consent_version q) actor w1 = (Inr k, w')"
    using run Inr by (auto simp: self_connect_def Let_def split: if_splits sum.splits prod.splits)
  show ?thesis
    using assms(1) create_connection_Inr[OF cr] consent_record_Inr[OF k]
    by (fastforce simp: owned_consented_def new_connection_def)
qed

lemma disconnect_keeps:
  assumes inv: "owned_consented (mw_db w)"
    and run: "disconnect_my_connection e org_id (p_subject_id actor) cid actor w = (r, w')"
  shows "owned_consented (mw_db w')"
proof (cases "get_my_connection (mw_db w) org_id (p_subject_id actor) cid")
  case (Inl err)
  then show ?thesis using run inv by (simp add: disconnect_my_connection_def)
next
  case (Inr c)
  note c = get_my_connection_mem[OF Inr]
  show ?thesis
  proof (cases "filter (\<lambda>x. cn_connector_type x = cn_connector_type c \<and> cn_id x \<noteq> cid)
      (connections_list_for_owner (mw_db w) org_id (p_subject_id actor)) = []")
    case False
    then have "mw_db w' = connections_delete c (mw_db w)"
      using run Inr by (auto simp: disconnect_my_connection_def Let_def)
    then show ?thesis using inv by (auto simp: owned_consented_def delete_where_def)
  next
    case True
    then have db: "mw_db w' = connections_delete c (snd (consents_withdraw_active (now_utc e) org_id (p_subject_id actor) (cn_connector_type c) (mw_db w)))"
      using run Inr by (auto simp: disconnect_my_connection_def Let_def)
    have none: "cn_id x = cid" if "x \<in> set (connections (mw_db w))" "cn_org_id x = org_id" "cn_owner_user_id x = Some (p_subject_id actor)"
      "cn_connector_type x = cn_connector_type c" for x
      using True that by (auto simp: filter_empty_conv connections_list_for_owner_def select_where_def)
    show ?thesis
      unfolding owned_consented_def
    proof (intro ballI allI impI)
      fix x u
      assume x: "x \<in> set (connections (mw_db w'))" "cn_owner_user_id x = Some u"
      then have x0: "x \<in> set (connections (mw_db w))" "\<not> (cn_id x = cid \<and> cn_org_id x = org_id)"
        using db c by (auto simp: delete_where_def consents_withdraw_active_def)
      then obtain k where k: "k \<in> set (consents (mw_db w))" "active_consent (cn_org_id x) u (cn_connector_type x) k"
        using inv x(2) by (auto simp: owned_consented_def)
      have "\<not> active_consent org_id (p_subject_id actor) (cn_connector_type c) k"
        using none[of x] x0 x(2) k(2) by (auto simp: active_consent_def)
      then show "\<exists>k \<in> set (consents (mw_db w')). active_consent (cn_org_id x) u (cn_connector_type x) k"
        using k db by (auto simp: consents_withdraw_active_def set_update_where)
    qed
  qed
qed

text \<open>
  Everything that writes the connector tables: the requests of both planes and of the platform, with the routes' arguments, and the
  transactions of background runs. The second transaction of a connection test is a step of its own, decided on what the first one
  loaded from an earlier state \<open>w0\<close>.
\<close>

inductive connect_step :: "connector_env \<Rightarrow> mworld \<Rightarrow> mworld \<Rightarrow> bool" for ce :: connector_env where
  user_connects: "self_connect ce e org_id q actor w = (r, w') \<Longrightarrow> connect_step ce w w'"
| user_disconnects: "disconnect_my_connection e org_id (p_subject_id actor) cid actor w = (r, w') \<Longrightarrow> connect_step ce w w'"
| user_syncs: "sync_my_connection e org_id (p_subject_id actor) cid actor w = (r, w') \<Longrightarrow> connect_step ce w w'"
| admin_creates: "create_connection ce e org_id q actor None CONNECTOR_CREATED w = (r, w') \<Longrightarrow> connect_step ce w w'"
| admin_deletes: "delete_connection e org_id cid actor w = (r, w') \<Longrightarrow> connect_step ce w w'"
| admin_disables: "disable_connection e org_id cid actor w = (r, w') \<Longrightarrow> connect_step ce w w'"
| admin_enables: "enable_connection e org_id cid actor w = (r, w') \<Longrightarrow> connect_step ce w w'"
| admin_syncs: "on_connect (start_sync e org_id cid actor None) w = (r, w') \<Longrightarrow> connect_step ce w w'"
| test_ends: "test_connection ce e (\<lambda>_. w) org_id cid owner w0 = (Inr c, w') \<Longrightarrow> connect_step ce w w'"
| platform_entitles: "set_entitlement e org_id t enabled actor w = (r, w') \<Longrightarrow> connect_step ce w w'"
| admin_sets_policy: "set_org_wide e org_id t on actor w = (r, w') \<Longrightarrow> connect_step ce w w'"
| admin_overrides: "set_override e org_id u t otype actor w = (r, w') \<Longrightarrow> connect_step ce w w'"
| admin_clears: "clear_override e org_id u t actor w = (r, w') \<Longrightarrow> connect_step ce w w'"
| run_beats: "heartbeat now org_id cid rid (mw_db w) = (b, db') \<Longrightarrow> connect_step ce w (set_connectors db' w)"
| run_counts: "set_total org_id cid rid n (mw_db w) = (b, db') \<Longrightarrow> connect_step ce w (set_connectors db' w)"
| run_commits: "ingest_batch (mail_ingest ie svc) now org_id cid rid batch local (mw_db w, m) = Some (l', db', m') \<Longrightarrow>
    connect_step ce w ((set_connectors db' w)\<lparr>mw_mail := ms_db m'\<rparr>)"
| run_ends: "finalize_run e d org_id cid rid ok err ct (mw_db w, cw_world (mw_connect w)) = (db', aw) \<Longrightarrow>
    connect_step ce w (w\<lparr>mw_connect := \<lparr>cw_world = aw, cw_db = db'\<rparr>\<rparr>)"

lemma same_keys_governance:
  "set_entitlement e org_id t enabled actor w = (r, w') \<Longrightarrow> same_keys (mw_db w) (mw_db w')"
  "set_org_wide e org_id t on actor w = (g, w') \<Longrightarrow> same_keys (mw_db w) (mw_db w')"
  "set_override e org_id u t otype actor w = (g, w') \<Longrightarrow> same_keys (mw_db w) (mw_db w')"
  "clear_override e org_id u t actor w = (g, w') \<Longrightarrow> same_keys (mw_db w) (mw_db w')"
  by (auto simp: set_entitlement_def entitlements_upsert_def set_org_wide_def policies_upsert_def set_override_def
      overrides_upsert_def clear_override_def overrides_delete_def same_keys_def Let_def split: if_splits option.splits)

lemma same_keys_disable:
  "disable_connection e org_id cid actor w = (r, w') \<Longrightarrow> same_keys (mw_db w) (mw_db w')"
  "enable_connection e org_id cid actor w = (r, w') \<Longrightarrow> same_keys (mw_db w) (mw_db w')"
  by (auto simp: disable_connection_def enable_connection_def Let_def conn_key_def
      split: sum.splits if_splits dest!: get_connection_mem intro!: same_keys_save)

lemma same_keys_test:
  assumes "test_connection ce e (\<lambda>_. w) org_id cid owner w0 = (Inr c, w')"
  shows "same_keys (mw_db w) (mw_db w')"
proof -
  have "conn_key (stamp_check e ck x) = conn_key x" for ck x by (simp add: conn_key_def stamp_check_def)
  then show ?thesis
    using assms by (auto simp: test_connection_def same_keys_def set_update_where Let_def split: sum.splits if_splits)
qed

lemma same_keys_sync:
  "sync_my_connection e org_id u cid actor w = (r, w') \<Longrightarrow> same_keys (mw_db w) (mw_db w')"
  "on_connect (start_sync e org_id cid a owner) w = (r', w') \<Longrightarrow> same_keys (mw_db w) (mw_db w')"
  by (auto simp: sync_my_connection_def mw_on_connect split: sum.splits option.splits dest: same_keys_start)

lemma delete_connection_keeps:
  "owned_consented (mw_db w) \<Longrightarrow> delete_connection e org_id cid actor w = (r, w') \<Longrightarrow> owned_consented (mw_db w')"
  by (auto simp: delete_connection_def owned_consented_def delete_where_def split: sum.splits)

lemma create_shared_keeps:
  assumes "owned_consented (mw_db w)" and "create_connection ce e org_id q actor None a w = (r, w')"
  shows "owned_consented (mw_db w')"
proof (cases r)
  case (Inl err)
  then show ?thesis using assms create_connection_Inl by blast
next
  case (Inr c)
  then show ?thesis
    using assms create_connection_Inr[of ce e org_id q actor None a w c w'] by (auto simp: owned_consented_def new_connection_def)
qed

lemma connect_step_keeps: "connect_step ce w w' \<Longrightarrow> owned_consented (mw_db w) \<Longrightarrow> owned_consented (mw_db w')"
proof (induction rule: connect_step.induct)
  case (run_beats now org_id cid rid w b db')
  then show ?case using same_keys_consented[OF same_keys_runner(1)] by (metis mw_set(1) snd_conv)
next
  case (run_counts org_id cid rid n w b db')
  then show ?case using same_keys_consented[OF same_keys_runner(2)] by (metis mw_set(1) snd_conv)
next
  case (run_commits ie svc now org_id cid rid batch local w m l' db' m')
  then show ?case using same_keys_consented[OF same_keys_batch] by (simp add: set_connectors_def)
next
  case (run_ends e d org_id cid rid ok err ct w db' aw)
  then show ?case using same_keys_consented[OF same_keys_finalize] by simp
qed (blast intro: self_connect_keeps disconnect_keeps delete_connection_keeps create_shared_keeps same_keys_consented
  same_keys_governance same_keys_disable same_keys_test same_keys_sync)+


section \<open>The entitlement is the ceiling\<close>

lemma entitlements_upsert_get:
  assumes "entitlements_upsert idb now i org_id t enabled admin db = Some (row, db')"
  shows "entitlements_get db' org_id t = Some row" and "en_enabled row = enabled" and "connections db' = connections db"
proof -
  let ?P = "\<lambda>r. en_org_id r = org_id \<and> en_connector_type r = t"
  have row: "?P row" "en_enabled row = enabled"
    using assms by (auto simp: entitlements_upsert_def entitlements_get_def Let_def split: if_splits option.splits dest: select_one_SomeD)
  then show "en_enabled row = enabled" by simp
  show "connections db' = connections db" using assms by (auto simp: entitlements_upsert_def Let_def split: if_splits)
  have db': "entitlements db' = (case select_one ?P (entitlements db) of None \<Rightarrow> entitlements db @ [row]
      | Some _ \<Rightarrow> update_where ?P (\<lambda>_. row) (entitlements db))"
    using assms by (auto simp: entitlements_upsert_def entitlements_get_def Let_def split: if_splits)
  show "entitlements_get db' org_id t = Some row"
  proof (cases "select_one ?P (entitlements db)")
    case None
    then show ?thesis using db' row by (simp add: entitlements_get_def select_one_append)
  next
    case (Some r)
    have "select_one ?P (update_where ?P (\<lambda>_. row) xs) = Some row" if "select_one ?P xs = Some r" for xs
      using that row by (induction xs) (auto split: if_splits)
    with Some show ?thesis using db' by (simp add: entitlements_get_def)
  qed
qed

lemma entitlement_after_set:
  assumes "set_entitlement e org_id t enabled actor w = (Inr row, w')"
  shows "is_entitled (mw_db w') org_id t = enabled"
proof -
  have "entitlements_upsert (mw_identity w) (now_utc e) (uuids e 0) org_id t enabled (Some (p_subject_id actor)) (mw_db w) = Some (row, mw_db w')"
    using assms by (auto simp: set_entitlement_def split: option.splits)
  from entitlements_upsert_get[OF this] show ?thesis by (simp add: is_entitled_def)
qed

lemma not_entitled_denied:
  "\<not> is_entitled db org_id t \<Longrightarrow> denied_error (resolve_access db org_id u t) = not_entitled_error"
  "\<not> is_entitled db org_id t \<Longrightarrow> \<not> ad_allowed (resolve_access db org_id u t)"
  by (simp_all add: resolve_access_def resolve_connector_access_def denied_error_def reason_for_def)

lemma not_entitled_sync:
  assumes "\<not> is_entitled (mw_db w) org_id t" and "load_connection_scoped (mw_db w) org_id cid owner = Some c" and "cn_connector_type c = t"
  shows "on_connect (start_sync e org_id cid a owner) w = (Inl not_entitled_error, w)"
    and "test_connection ce e others org_id cid owner w = (Inl not_entitled_error, w)"
  using assms by (simp_all add: on_connect_def start_sync_def test_connection_def load_or_404_def)

text \<open>
  Revoking a company's entitlement closes every path at once, whatever the policies and overrides say. After the platform
  switched a connector type off for an organization, connecting (by a user or an administrator), switching the policy on and granting
  an override are all refused with the 403 of a missing entitlement, and so are syncing and testing any
  connection of the type that is already there; each refusal leaves the state as it is.
\<close>

theorem revoked_entitlement_closes_connector:
  assumes "set_entitlement e org_id t False actor w = (Inr row, w')"
  shows "(cq_connector_type (sq_connection q) = t \<longrightarrow> self_connect ce e1 org_id q user w' = (Inl not_entitled_error, w'))
    \<and> (cq_connector_type cq = t \<longrightarrow> create_connection ce e1 org_id cq user owner a w' = (Inl not_entitled_error, w'))
    \<and> set_org_wide e1 org_id t True user w' = (Inl not_entitled_error, w')
    \<and> set_override e1 org_id v t override_grant user w' = (Inl not_entitled_error, w')
    \<and> (load_connection_scoped (mw_db w') org_id cid owner = Some c \<and> cn_connector_type c = t \<longrightarrow>
         on_connect (start_sync e1 org_id cid (Some user) owner) w' = (Inl not_entitled_error, w')
         \<and> test_connection ce e1 others org_id cid owner w' = (Inl not_entitled_error, w'))"
  using entitlement_after_set[OF assms] not_entitled_denied[of "mw_db w'" org_id t] not_entitled_sync[of w' org_id t]
  by (auto simp: self_connect_def create_connection_def set_org_wide_def set_override_def Let_def)

section \<open>Separate planes\<close>

lemma load_scoped_none:
  assumes "distinct (map cn_id (connections db))" and "c \<in> set (connections db)" and "cn_owner_user_id c \<noteq> owner"
  shows "load_connection_scoped db org_id (cn_id c) owner = None"
proof (rule ccontr)
  assume "load_connection_scoped db org_id (cn_id c) owner \<noteq> None"
  then obtain d where "d \<in> set (connections db)" "cn_id d = cn_id c" "cn_owner_user_id d = owner"
    using load_scoped_mem by blast
  with assms show False by (metis distinct_map inj_onD)
qed

lemma get_my_connection_scoped: "get_my_connection db org_id u cid = load_or_404 db org_id cid (Some u)"
  by (simp add: get_my_connection_def load_or_404_def load_connection_scoped_def)

text \<open>
  A connection is out of reach of every other plane. An administrator addressing a connection that a user owns, and a user
  addressing a connection of somebody else or of the organization, get the same 404 as for a connection that does not exist, from every
  operation, and nothing changes.
\<close>

theorem connection_planes_isolated:
  assumes "distinct (map cn_id (connections (mw_db w)))" and "c \<in> set (connections (mw_db w))"
  shows "(cn_owner_user_id c \<noteq> None \<longrightarrow>
      get_connection (mw_db w) org_id (cn_id c) = Inl connection_not_found
      \<and> delete_connection e org_id (cn_id c) actor w = (Inl connection_not_found, w)
      \<and> disable_connection e org_id (cn_id c) actor w = (Inl connection_not_found, w)
      \<and> enable_connection e org_id (cn_id c) actor w = (Inl connection_not_found, w)
      \<and> test_connection ce e others org_id (cn_id c) None w = (Inl connection_not_found, w)
      \<and> on_connect (start_sync e org_id (cn_id c) (Some actor) None) w = (Inl connection_not_found, w))
    \<and> (cn_owner_user_id c \<noteq> Some u \<longrightarrow>
      get_my_connection (mw_db w) org_id u (cn_id c) = Inl connection_not_found
      \<and> disconnect_my_connection e org_id u (cn_id c) actor w = (Inl connection_not_found, w)
      \<and> sync_my_connection e org_id u (cn_id c) actor w = (Inl connection_not_found, w)
      \<and> test_my_connection ce e others org_id u (cn_id c) w = (Inl connection_not_found, w)
      \<and> get_my_sync_status (mw_db w) org_id u (cn_id c) = Inl connection_not_found)"
  using load_scoped_none[OF assms]
  by (simp add: get_connection_def delete_connection_def disable_connection_def enable_connection_def test_connection_def
      load_or_404_def on_connect_def start_sync_def get_my_connection_scoped disconnect_my_connection_def sync_my_connection_def
      test_my_connection_def get_my_sync_status_def get_sync_status_def)

section \<open>Disconnecting erases\<close>

text \<open>The foreign keys of recipients and attachments on their message, and the message's primary key.\<close>

definition mail_fk :: "mail_db \<Rightarrow> bool" where
  "mail_fk db \<longleftrightarrow> distinct (map em_id (email_messages db))
     \<and> (\<forall>r \<in> set (email_recipients db). message_fk_ok db (er_org_id r) (er_email_id r))
     \<and> (\<forall>a \<in> set (email_attachments db). message_fk_ok db (ea_org_id a) (ea_email_id a))"

definition recipients_of :: "email_message \<Rightarrow> mail_db \<Rightarrow> email_recipient list" where
  "recipients_of m db = filter (\<lambda>r. er_org_id r = em_org_id m \<and> er_email_id r = em_id m) (email_recipients db)"

definition attachments_of :: "email_message \<Rightarrow> mail_db \<Rightarrow> email_attachment list" where
  "attachments_of m db = filter (\<lambda>a. ea_org_id a = em_org_id m \<and> ea_email_id a = em_id m) (email_attachments db)"

lemma cascade_mail_messages [simp]: "email_messages (cascade_mail c db) = filter (\<lambda>m. \<not> of_connection c m) (email_messages db)"
  by (simp add: cascade_mail_def Let_def delete_where_def)

lemma cascade_mail_keeps_fk: "mail_fk db \<Longrightarrow> mail_fk (cascade_mail c db)"
  unfolding mail_fk_def message_fk_ok_def
  by (auto simp: cascade_mail_def Let_def delete_where_def distinct_map_filter) blast+

lemma cascade_mail_keeps_others:
  assumes fk: "mail_fk db" and m: "m \<in> set (email_messages db)" "\<not> of_connection c m"
  shows "recipients_of m (cascade_mail c db) = recipients_of m db" and "attachments_of m (cascade_mail c db) = attachments_of m db"
proof -
  have "x = m" if "x \<in> set (email_messages db)" "em_id x = em_id m" for x
    using key_inj[of em_id "email_messages db" x m] fk m(1) that by (simp add: mail_fk_def)
  then have "\<not> (\<exists>x \<in> set (email_messages db). of_connection c x \<and> em_org_id x = em_org_id m \<and> em_id x = em_id m)"
    using m(2) by blast
  then show "recipients_of m (cascade_mail c db) = recipients_of m db" "attachments_of m (cascade_mail c db) = attachments_of m db"
    by (auto simp: recipients_of_def attachments_of_def cascade_mail_def Let_def delete_where_def intro!: filter_cong)
qed

lemma cascade_mail_erases:
  assumes "m \<in> set (email_messages db)" and "of_connection c m"
  shows "recipients_of m (cascade_mail c db) = []" and "attachments_of m (cascade_mail c db) = []"
  using assms by (auto simp: recipients_of_def attachments_of_def cascade_mail_def Let_def delete_where_def filter_empty_conv)

lemma disconnect_effect:
  assumes "disconnect_my_connection e org_id u cid actor w = (Inr (), w')"
  obtains c where "c \<in> set (connections (mw_db w))" "cn_id c = cid" "cn_org_id c = org_id" "cn_owner_user_id c = Some u"
    and "mw_mail w' = cascade_mail c (mw_mail w)"
    and "connections (mw_db w') = delete_where (\<lambda>x. cn_id x = cid \<and> cn_org_id x = org_id) (connections (mw_db w))"
    and "sync_cursors (mw_db w') = delete_where (\<lambda>x. sc_connection_id x = cid \<and> sc_org_id x = org_id) (sync_cursors (mw_db w))"
proof -
  obtain c where c: "get_my_connection (mw_db w) org_id u cid = Inr c"
    using assms by (auto simp: disconnect_my_connection_def split: sum.splits)
  note m = get_my_connection_mem[OF c]
  show ?thesis
    by (rule that[of c]) (use assms c m in \<open>auto simp: disconnect_my_connection_def connections_delete_def
      consents_withdraw_active_def Let_def\<close>)
qed


section \<open>A concrete tenant\<close>

definition demo_tenant :: identity_db where
  "demo_tenant = \<lparr>organizations = [\<lparr>o_id = 7, o_name = ''Acme'', o_slug = ''acme'', o_status = org_active, o_legal_hold = False,
       o_created_at = 0\<rparr>], users = [\<lparr>u_id = 5, u_org_id = 7, u_email = ''a@x'', u_full_name = ''A'', u_password_hash = ''$pw'',
       u_role = member, u_is_active = True, u_created_at = 0\<rparr>], platform_admins = [], refresh_tokens = [],
     support_grants = [], audit_log = []\<rparr>"

definition demo_mworld :: mworld where
  "demo_mworld = \<lparr>mw_connect = demo_cworld\<lparr>cw_world := (cw_world demo_cworld)\<lparr>w_db := demo_tenant\<rparr>,
       cw_db := demo_connector_db\<lparr>connections := [],
         policies := [\<lparr>po_org_id = 7, po_connector_type = imap, po_org_wide_enabled = True, po_set_by_user_id = None\<rparr>]\<rparr>\<rparr>,
     mw_mail = demo_mail_db\<rparr>"

definition demo_self_connect :: self_connect_request where
  "demo_self_connect = \<lparr>sq_connection = \<lparr>cq_connector_type = imap, cq_display_name = ''Work'', cq_host = ''mx'', cq_port = 993,
       cq_use_ssl = True, cq_username = ''a@x'', cq_password = ''pw''\<rparr>, sq_accepted = True, sq_scope = ''mailbox:read'',
     sq_consent_version = ''v1''\<rparr>"

definition demo_cenv :: connector_env where
  "demo_cenv = \<lparr>ce_encrypt = rev, ce_key_version = 1, ce_verify = (\<lambda>_. Raises)\<rparr>"

lemma demo_self_connect_ok:
  obtains c w' where "self_connect demo_cenv (demo_env 50) 7 demo_self_connect demo_principal demo_mworld = (Inr c, w')"
    and "cn_id c = 1000" "cn_org_id c = 7" "cn_owner_user_id c = Some 5" "connections (mw_db w') = [c]" "mw_mail w' = demo_mail_db"
    and "cn_connector_type c = imap" "is_entitled (mw_db w') 7 imap" "org_fk_ok (mw_identity w') 7"
  by (simp add: self_connect_def create_connection_def consent_record_def consents_insert_def resolve_access_def
      resolve_connector_access_def is_entitled_def entitlements_get_def get_override_type_def overrides_get_def
      is_org_wide_enabled_def policies_get_def connections_exists_for_owner_def connections_insert_def connection_fk_ok_def
      new_connection_def user_fk_ok_def org_fk_ok_def demo_mworld_def demo_cworld_def demo_connector_db_def demo_tenant_def
      demo_self_connect_def demo_cenv_def demo_principal_def demo_env_def select_where_def set_connectors_def audit_event_in_def
      record_event_def audit_insert_def Let_def)

theorem self_connect_outcome_witness:
  "\<exists>c w'. self_connect demo_cenv (demo_env 50) 7 demo_self_connect demo_principal demo_mworld = (Inr c, w')
     \<and> cn_owner_user_id c = Some 5 \<and> cn_secret_ciphertext c = ''wp''"
proof -
  obtain c w' where r: "self_connect demo_cenv (demo_env 50) 7 demo_self_connect demo_principal demo_mworld = (Inr c, w')"
    by (rule demo_self_connect_ok) blast
  have "cn_owner_user_id c = Some (p_subject_id demo_principal)"
    "cn_secret_ciphertext c = ce_encrypt demo_cenv (cq_password (sq_connection demo_self_connect))"
    using self_connect_outcome[OF r] by auto
  with r show ?thesis by (auto simp: demo_principal_def demo_cenv_def demo_self_connect_def)
qed


theorem revoked_entitlement_closes_connector_witness:
  "\<exists>row w'. set_entitlement (demo_env 60) 7 imap False demo_principal demo_mworld = (Inr row, w')
     \<and> self_connect demo_cenv (demo_env 70) 7 demo_self_connect demo_principal w' = (Inl not_entitled_error, w')"
proof -
  obtain row w' where r: "set_entitlement (demo_env 60) 7 imap False demo_principal demo_mworld = (Inr row, w')"
    by (simp add: set_entitlement_def entitlements_upsert_def org_fk_ok_def demo_mworld_def demo_cworld_def demo_tenant_def Let_def)
  from revoked_entitlement_closes_connector[OF r, of demo_self_connect demo_cenv "demo_env 70" demo_principal] r
  show ?thesis by (auto simp: demo_self_connect_def)
qed

theorem connection_planes_isolated_witness:
  "\<exists>c w'. self_connect demo_cenv (demo_env 50) 7 demo_self_connect demo_principal demo_mworld = (Inr c, w')
     \<and> delete_connection (demo_env 60) 7 1000 demo_principal w' = (Inl connection_not_found, w')"
proof -
  obtain c w' where r: "self_connect demo_cenv (demo_env 50) 7 demo_self_connect demo_principal demo_mworld = (Inr c, w')"
    and c: "cn_id c = 1000" "cn_owner_user_id c = Some 5" "connections (mw_db w') = [c]"
    by (rule demo_self_connect_ok) blast
  have "distinct (map cn_id (connections (mw_db w')))" "c \<in> set (connections (mw_db w'))" using c(3) by simp_all
  from connection_planes_isolated[OF this, of 7 "demo_env 60" demo_principal] c r show ?thesis by auto
qed


end
