(* ===== verification/Visibility.thy ===== *)
theory Visibility
  imports Connector_Safety
begin

text \<open>
  Who sees stored mail: the owner-approved widening of a restricted message to the organization
  (\<open>access/services/promotion_service.py\<close>), the person-scoped reader session (\<open>access/dependencies.py\<close>), the projection served to
  readers other than the owner (\<open>access/services/email_projection.py\<close>) and the retrieval telemetry (\<open>decision_telemetry.py\<close>).
  Shown: the exact conditions and effect of a promotion, and that along every execution of ingest, grant maintenance, promotion
  and disconnect a restricted message is visible beyond its grants only after a recorded, audited promotion.
\<close>

section \<open>Promotion\<close>

datatype access_error =
    ContentObjectNotFoundError
  | PromotionNotAllowedError string
  | AccessIntegrityError

fun promotion_http_status :: "access_error \<Rightarrow> nat" where
  "promotion_http_status ContentObjectNotFoundError = 404"
| "promotion_http_status (PromotionNotAllowedError _) = 403"
| "promotion_http_status AccessIntegrityError = 500"

definition promotion_event :: "uuid \<Rightarrow> uuid \<Rightarrow> string option \<Rightarrow> uuid \<Rightarrow> audit_event" where
  "promotion_event org_id approver email message_id =
     (audit_event_of VISIBILITY_PROMOTED actor_user)
       \<lparr>ae_actor_id := Some approver, ae_actor_email := email, ae_org_id := Some org_id, ae_entity_type := Some ''email_message'',
        ae_entity_id := Some message_id, ae_details := [(''from_scope'', JStr ''restricted''), (''to_scope'', JStr ''org'')]\<rparr>"

text \<open>The flush of the promotion row meets the foreign keys on the approver and on the audit row just written.\<close>

definition promotions_add :: "identity_db \<Rightarrow> visibility_promotion \<Rightarrow> mail_db \<Rightarrow> mail_db option" where
  "promotions_add idb p db =
     (if user_fk_ok idb (vp_org_id p) (vp_approved_by_user_id p) \<and> (\<exists>a \<in> set (audit_log idb). al_id a = vp_audit_log_id p)
      then Some (db\<lparr>promotions := promotions db @ [p]\<rparr>) else None)"

text \<open>The trigger \<open>access_visibility_lineage_guard\<close> on the rows an update writes.\<close>

definition guarded :: "mail_db \<Rightarrow> bool" where
  "guarded db \<longleftrightarrow>
     (\<forall>m \<in> set (email_messages db). lineage_guard db (em_org_id m) (em_origin_scope m) (em_visibility_scope m) (em_id m))
     \<and> (\<forall>r \<in> set (email_recipients db). lineage_guard db (er_org_id r) (er_origin_scope r) (er_visibility_scope r) (er_email_id r))
     \<and> (\<forall>a \<in> set (email_attachments db). lineage_guard db (ea_org_id a) (ea_origin_scope a) (ea_visibility_scope a) (ea_email_id a))"

abbreviation already_visible :: access_error where
  "already_visible \<equiv> PromotionNotAllowedError ''message is already org-visible''"

definition promote_email_message ::
  "env \<Rightarrow> uuid \<Rightarrow> uuid \<Rightarrow> string option \<Rightarrow> uuid \<Rightarrow> mworld \<Rightarrow> (access_error + uuid) \<times> mworld" where
  "promote_email_message e org_id approver_user_id approver_email message_id w =
     (case get_email_message_for_promotion (mw_mail w) org_id message_id of
        None \<Rightarrow> (Inl ContentObjectNotFoundError, w)
      | Some (connection_id, scope) \<Rightarrow>
        if scope = scope_org then (Inl already_visible, w)
        else if get_connection_owner (mw_db w) org_id connection_id \<noteq> Some approver_user_id
        then (Inl (PromotionNotAllowedError ''only the source connection's owner may widen''), w)
        else
          (let w1 = audit_event_in e (uuids e 0) (promotion_event org_id approver_user_id approver_email message_id) w;
               p = \<lparr>vp_id = uuids e 1, vp_org_id = org_id, vp_object_type = obj_email_message, vp_object_id = message_id,
                    vp_from_scope = scope_restricted, vp_to_scope = scope_org, vp_approved_by_user_id = approver_user_id,
                    vp_audit_log_id = uuids e 0\<rparr>
           in case promotions_add (mw_identity w1) p (mw_mail w1) of
                None \<Rightarrow> (Inl AccessIntegrityError, w)
              | Some db \<Rightarrow>
                (let (flipped, db') = promote_email_message_to_org org_id message_id db
                 in if flipped = 0 then (Inl already_visible, w)
                    else (Inr (vp_id p), w1\<lparr>mw_mail := db'\<rparr>))))"

section \<open>Reading\<close>

definition resolve_bound_person_id :: "(uuid \<Rightarrow> string) \<Rightarrow> mail_db \<Rightarrow> uuid \<Rightarrow> uuid \<Rightarrow> uuid option" where
  "resolve_bound_person_id str_uuid db org_id user_id = get_verified_person_id db org_id id_auth (str_uuid user_id)"

text \<open>The scope a person-scoped session carries: the organization and the bound person.\<close>

definition get_person_scoped_session :: "(uuid \<Rightarrow> string) \<Rightarrow> mail_db \<Rightarrow> principal \<Rightarrow> (uuid \<times> uuid option) option" where
  "get_person_scoped_session str_uuid db p =
     (case p_org_id p of
        None \<Rightarrow> None
      | Some org_id \<Rightarrow> Some (org_id, resolve_bound_person_id str_uuid db org_id (p_subject_id p)))"

definition RECIPIENT_VISIBLE_HEADERS :: "string list" where
  "RECIPIENT_VISIBLE_HEADERS = [''Message-ID'', ''In-Reply-To'', ''References'', ''Date'', ''Subject'', ''From'', ''To'', ''Cc'',
     ''Reply-To'', ''Sender'']"

record projected_email =
  pj_message_id :: "string option"
  pj_from_name :: "string option"
  pj_from_address :: "string option"
  pj_subject :: "string option"
  pj_sent_at :: "datetime option"
  pj_body_text :: string
  pj_recipients :: "(recipient_kind \<times> string option \<times> string) list"
  pj_headers :: "(string \<times> string list) list"

definition project_email_for_non_owner :: "email_message \<Rightarrow> email_recipient list \<Rightarrow> projected_email" where
  "project_email_for_non_owner m rs =
     \<lparr>pj_message_id = em_message_id m, pj_from_name = em_from_name m, pj_from_address = em_from_address m, pj_subject = em_subject m,
      pj_sent_at = em_sent_at m, pj_body_text = em_body_text m,
      pj_recipients = map (\<lambda>r. (er_kind r, er_name r, er_address r)) (filter (\<lambda>r. er_kind r \<noteq> kind_bcc) rs),
      pj_headers = filter (\<lambda>(name, value). name \<in> set RECIPIENT_VISIBLE_HEADERS) (em_headers m)\<rparr>"

section \<open>Retrieval telemetry\<close>

definition REDUCED_COVERAGE_THRESHOLD :: rat where
  "REDUCED_COVERAGE_THRESHOLD = 1 / 2"

definition is_coverage_reduced :: "int \<Rightarrow> int \<Rightarrow> bool" where
  "is_coverage_reduced candidate_count allowed_count =
     (if candidate_count \<le> 0 then False
      else rat_of_int allowed_count / rat_of_int candidate_count < REDUCED_COVERAGE_THRESHOLD)"

definition record_retrieval_decision ::
  "env \<Rightarrow> uuid \<Rightarrow> uuid option \<Rightarrow> uuid option \<Rightarrow> int \<Rightarrow> int \<Rightarrow> uuid list \<Rightarrow> world \<Rightarrow> bool \<times> world" where
  "record_retrieval_decision e org_id user_id person_id candidate_count allowed_count denied_object_ids w =
     (let reduced = is_coverage_reduced candidate_count allowed_count
      in (reduced, record_event e (uuids e 0)
            ((audit_event_of ACCESS_RETRIEVAL_DECISION (if user_id \<noteq> None then actor_user else actor_system))
               \<lparr>ae_actor_id := user_id, ae_org_id := Some org_id, ae_entity_type := Some ''retrieval'',
                ae_details := [(''person_id'', case person_id of None \<Rightarrow> JNull | Some p \<Rightarrow> JId p),
                  (''candidate_count'', JInt candidate_count), (''allowed_count'', JInt allowed_count),
                  (''denied_count'', JInt (candidate_count - allowed_count)),
                  (''denied_object_ids'', JList (map JId denied_object_ids)), (''reduced_coverage'', JBool reduced)]\<rparr>) w))"

section \<open>The outcome of a promotion\<close>

lemma promote_to_org_flipped:
  assumes "promote_email_message_to_org org_id mid db = (n, db')" and "n \<noteq> 0"
  shows "email_messages db' = update_where (\<lambda>m. em_org_id m = org_id \<and> em_id m = mid) (\<lambda>m. m\<lparr>em_visibility_scope := scope_org\<rparr>) (email_messages db)"
    and "email_recipients db' = update_where (\<lambda>r. er_org_id r = org_id \<and> er_email_id r = mid) (\<lambda>r. r\<lparr>er_visibility_scope := scope_org\<rparr>) (email_recipients db)"
    and "email_attachments db' = update_where (\<lambda>a. ea_org_id a = org_id \<and> ea_email_id a = mid) (\<lambda>a. a\<lparr>ea_visibility_scope := scope_org\<rparr>) (email_attachments db)"
    and "promotions db' = promotions db" and "acl_grants db' = acl_grants db" and "source_identities db' = source_identities db"
    and "md_entities db' = md_entities db"
  using assms by (auto simp: promote_email_message_to_org_def Let_def update_where_def split: if_splits)

lemma promotable:
  assumes "get_email_message_for_promotion db org_id mid = Some (cid, scope)" and "scope \<noteq> scope_org"
    and "email_messages db' = email_messages db"
  shows "fst (promote_email_message_to_org org_id mid db') \<noteq> 0"
proof -
  obtain m where "m \<in> set (email_messages db)" "em_org_id m = org_id \<and> em_id m = mid" "em_visibility_scope m = scope"
    using assms(1) by (auto simp: get_email_message_for_promotion_def dest: select_one_SomeD)
  then have "rowcount (\<lambda>m. em_org_id m = org_id \<and> em_id m = mid \<and> em_visibility_scope m \<noteq> scope_org) (email_messages db) \<noteq> 0"
    using assms(2) by (auto simp: rowcount_0_iff)
  then show ?thesis using assms(3) by (simp add: promote_email_message_to_org_def Let_def split: if_splits)
qed

definition promotion_row :: "env \<Rightarrow> uuid \<Rightarrow> uuid \<Rightarrow> uuid \<Rightarrow> visibility_promotion" where
  "promotion_row e org_id u mid = \<lparr>vp_id = uuids e 1, vp_org_id = org_id, vp_object_type = obj_email_message, vp_object_id = mid,
     vp_from_scope = scope_restricted, vp_to_scope = scope_org, vp_approved_by_user_id = u, vp_audit_log_id = uuids e 0\<rparr>"

lemma audit_log_audit [simp]:
  "audit_log (mw_identity (audit_event_in e i ev w)) = audit_log (mw_identity w) @ [build_row e i ev]"
  by (simp add: audit_event_in_def record_event_def audit_insert_def)

lemma promote_cases:
  assumes "promote_email_message e org_id u email mid w = (r, w')"
  shows "(case get_email_message_for_promotion (mw_mail w) org_id mid of
      None \<Rightarrow> r = Inl ContentObjectNotFoundError \<and> w' = w
    | Some (cid, scope) \<Rightarrow>
      if scope = scope_org then r = Inl already_visible \<and> w' = w
      else if get_connection_owner (mw_db w) org_id cid \<noteq> Some u
      then r = Inl (PromotionNotAllowedError ''only the source connection's owner may widen'') \<and> w' = w
      else if \<not> user_fk_ok (mw_identity w) org_id u then r = Inl AccessIntegrityError \<and> w' = w
      else r = Inr (uuids e 1) \<and> mw_connect w' = mw_connect (audit_event_in e (uuids e 0) (promotion_event org_id u email mid) w)
        \<and> mw_mail w' = snd (promote_email_message_to_org org_id mid ((mw_mail w)\<lparr>promotions := promotions (mw_mail w) @ [promotion_row e org_id u mid]\<rparr>)))"
proof (cases "get_email_message_for_promotion (mw_mail w) org_id mid")
  case None
  then show ?thesis using assms by (simp add: promote_email_message_def)
next
  case (Some cs)
  obtain cid scope where cs: "cs = (cid, scope)" by (cases cs)
  let ?db = "(mw_mail w)\<lparr>promotions := promotions (mw_mail w) @ [promotion_row e org_id u mid]\<rparr>"
  let ?w1 = "audit_event_in e (uuids e 0) (promotion_event org_id u email mid) w"
  have add: "promotions_add (mw_identity ?w1) (promotion_row e org_id u mid) (mw_mail ?w1)
      = (if user_fk_ok (mw_identity w) org_id u then Some ?db else None)"
    by (simp add: promotions_add_def promotion_row_def build_row_def)
  have fl: "scope \<noteq> scope_org \<Longrightarrow> fst (promote_email_message_to_org org_id mid ?db) \<noteq> 0"
    using promotable[OF Some[unfolded cs], of ?db] by simp
  show ?thesis
    using assms Some cs add fl
    by (auto simp: promote_email_message_def promotion_row_def Let_def case_prod_beta split: if_splits)
qed

text \<open>
  C22: only the owner widens, and exactly one message. A promotion succeeds exactly when the message exists in the organization, is
  restricted, and its mailbox is owned by the approver (who is a user of the organization): never for a shared mailbox and never for an
  administrator as such. Then that message and its recipients and attachments, and no other row, become visible to the
  organization, grants and identities are untouched, and one promotion row is recorded that points to one audit row naming approver
  and message. Otherwise the documented error is raised and nothing changes.
\<close>

theorem promotion_outcome:
  assumes "promote_email_message e org_id u email mid w = (r, w')"
  shows "(is_ok r \<longleftrightarrow> (\<exists>cid. get_email_message_for_promotion (mw_mail w) org_id mid = Some (cid, scope_restricted)
        \<and> get_connection_owner (mw_db w) org_id cid = Some u) \<and> user_fk_ok (mw_identity w) org_id u)
    \<and> (\<not> is_ok r \<longrightarrow> w' = w)
    \<and> (get_email_message_for_promotion (mw_mail w) org_id mid = None \<longrightarrow> r = Inl ContentObjectNotFoundError)
    \<and> (is_ok r \<longrightarrow>
        email_messages (mw_mail w') = map (\<lambda>m. if em_org_id m = org_id \<and> em_id m = mid then m\<lparr>em_visibility_scope := scope_org\<rparr> else m) (email_messages (mw_mail w))
      \<and> email_recipients (mw_mail w') = map (\<lambda>x. if er_org_id x = org_id \<and> er_email_id x = mid then x\<lparr>er_visibility_scope := scope_org\<rparr> else x) (email_recipients (mw_mail w))
      \<and> email_attachments (mw_mail w') = map (\<lambda>x. if ea_org_id x = org_id \<and> ea_email_id x = mid then x\<lparr>ea_visibility_scope := scope_org\<rparr> else x) (email_attachments (mw_mail w))
      \<and> acl_grants (mw_mail w') = acl_grants (mw_mail w) \<and> source_identities (mw_mail w') = source_identities (mw_mail w)
      \<and> mw_db w' = mw_db w
      \<and> (\<exists>p a. promotions (mw_mail w') = promotions (mw_mail w) @ [p] \<and> audit_log (mw_identity w') = audit_log (mw_identity w) @ [a]
          \<and> vp_object_id p = mid \<and> vp_approved_by_user_id p = u \<and> vp_audit_log_id p = al_id a
          \<and> al_action a = ''access.visibility_promoted'' \<and> al_actor_id a = Some u \<and> al_entity_id a = Some mid))"
proof (cases "get_email_message_for_promotion (mw_mail w) org_id mid")
  case None
  then show ?thesis using promote_cases[OF assms] by auto
next
  case (Some cs)
  obtain cid scope where cs: "cs = (cid, scope)" by (cases cs)
  let ?go = "scope = scope_restricted \<and> get_connection_owner (mw_db w) org_id cid = Some u \<and> user_fk_ok (mw_identity w) org_id u"
  have sc: "scope \<noteq> scope_org \<longleftrightarrow> scope = scope_restricted" by (cases scope) auto
  show ?thesis
  proof (cases ?go)
    case False
    then show ?thesis using promote_cases[OF assms] Some cs sc by (auto split: if_splits)
  next
    case True
    let ?db = "(mw_mail w)\<lparr>promotions := promotions (mw_mail w) @ [promotion_row e org_id u mid]\<rparr>"
    have r: "r = Inr (uuids e 1)" "mw_connect w' = mw_connect (audit_event_in e (uuids e 0) (promotion_event org_id u email mid) w)"
      "mw_mail w' = snd (promote_email_message_to_org org_id mid ?db)"
      using promote_cases[OF assms] Some cs True by auto
    have "fst (promote_email_message_to_org org_id mid ?db) \<noteq> 0" using promotable[OF Some[unfolded cs], of ?db] True by simp
    note eff = promote_to_org_flipped[OF prod.collapse[symmetric] this, folded r(3)]
    have a: "audit_log (mw_identity w') = audit_log (mw_identity w) @ [build_row e (uuids e 0) (promotion_event org_id u email mid)]"
      using audit_log_audit[of e "uuids e 0" _ w] by (simp add: r(2))
    have p: "promotions (mw_mail w') = promotions (mw_mail w) @ [promotion_row e org_id u mid]" using eff(4) by simp
    have d: "mw_db w' = mw_db w" by (simp add: r(2))
    show ?thesis
      using True Some cs r(1) eff a p d
      by (auto simp: update_where_def promotion_row_def build_row_def promotion_event_def audit_event_of_def)
  qed
qed

section \<open>Lineage\<close>

definition promoted :: "mail_db \<Rightarrow> uuid \<Rightarrow> uuid \<Rightarrow> bool" where
  "promoted db org_id mid \<longleftrightarrow> (\<exists>p \<in> set (promotions db). vp_org_id p = org_id \<and> vp_object_type p = obj_email_message \<and> vp_object_id p = mid)"

text \<open>Every content row was born restricted, and is visible to the organization only with a promotion of its message.\<close>

definition lineage_ok :: "mail_db \<Rightarrow> bool" where
  "lineage_ok db \<longleftrightarrow>
     (\<forall>m \<in> set (email_messages db). em_origin_scope m = scope_restricted \<and> (em_visibility_scope m = scope_org \<longrightarrow> promoted db (em_org_id m) (em_id m)))
     \<and> (\<forall>r \<in> set (email_recipients db). er_origin_scope r = scope_restricted \<and> (er_visibility_scope r = scope_org \<longrightarrow> promoted db (er_org_id r) (er_email_id r)))
     \<and> (\<forall>a \<in> set (email_attachments db). ea_origin_scope a = scope_restricted \<and> (ea_visibility_scope a = scope_org \<longrightarrow> promoted db (ea_org_id a) (ea_email_id a)))"

definition lineage_kept :: "mail_db \<Rightarrow> mail_db \<Rightarrow> bool" where
  "lineage_kept db db' \<longleftrightarrow> (lineage_ok db \<longrightarrow> lineage_ok db') \<and> promotions db' = promotions db"

lemma lineage_kept_refl [simp]: "lineage_kept db db"
  by (simp add: lineage_kept_def)

lemma lineage_kept_trans: "lineage_kept a b \<Longrightarrow> lineage_kept b c \<Longrightarrow> lineage_kept a c"
  by (simp add: lineage_kept_def)

lemma lineage_kept_frame:
  assumes "email_messages db' = email_messages db" "email_recipients db' = email_recipients db"
    "email_attachments db' = email_attachments db" "promotions db' = promotions db"
  shows "lineage_kept db db'"
  using assms by (simp add: lineage_kept_def lineage_ok_def promoted_def)

lemma lineage_kept_grants: "only_grants db db' \<Longrightarrow> lineage_kept db db'"
  by (rule lineage_kept_frame) (rule only_grants_same, assumption)+

text \<open>The guard of the database holds in particular.\<close>

lemma lineage_ok_guarded: "lineage_ok db \<Longrightarrow> guarded db"
  by (auto simp: lineage_ok_def guarded_def lineage_guard_def promoted_def)

lemma add_recipient_lineage:
  "add_recipient r db = Some db' \<Longrightarrow> er_visibility_scope r = scope_restricted \<Longrightarrow> er_origin_scope r = scope_restricted \<Longrightarrow> lineage_kept db db'"
  by (auto simp: add_recipient_def lineage_kept_def lineage_ok_def promoted_def split: if_splits)

lemma add_attachment_lineage:
  "add_attachment a db = Some db' \<Longrightarrow> ea_visibility_scope a = scope_restricted \<Longrightarrow> ea_origin_scope a = scope_restricted \<Longrightarrow> lineage_kept db db'"
  by (auto simp: add_attachment_def lineage_kept_def lineage_ok_def promoted_def split: if_splits)

lemma messages_insert_lineage:
  "messages_insert b m db = Inserted db' \<Longrightarrow> em_visibility_scope m = scope_restricted \<Longrightarrow> em_origin_scope m = scope_restricted \<Longrightarrow> lineage_kept db db'"
  by (auto simp: messages_insert_def lineage_kept_def lineage_ok_def promoted_def split: if_splits)

lemma resolve_in_lineage: "resolve_in e svc a n t ap m = (got, m') \<Longrightarrow> lineage_kept (ms_db m) (ms_db m')"
  by (auto simp: resolve_in_def with_resolver_def Let_def intro!: lineage_kept_frame split: prod.splits)

lemma store_recipients_lineage: "store_recipients e svc i t rs m = (b, m') \<Longrightarrow> lineage_kept (ms_db m) (ms_db m')"
proof (induction rs arbitrary: m)
  case (Cons r rs)
  obtain got m1 where g: "resolve_in e svc (pr_address r) (pr_name r) t (pr_kind r \<notin> {kind_reply_to, kind_sender}) m = (got, m1)"
    by fastforce
  note m1 = resolve_in_lineage[OF g]
  show ?case
  proof (cases "m' = m1")
    case False
    then obtain x db where a: "add_recipient x (ms_db m1) = Some db" "er_visibility_scope x = scope_restricted" "er_origin_scope x = scope_restricted"
      and rest: "store_recipients e svc i t rs (m1\<lparr>ms_db := db\<rparr>) = (b, m')"
      using Cons.prems g by (auto split: option.splits prod.splits)
    from Cons.IH[OF rest] add_recipient_lineage[OF a] m1 show ?thesis using lineage_kept_trans by simp
  qed (use m1 in simp)
qed simp

lemma store_attachments_lineage: "store_attachments e svc i as m = (b, m') \<Longrightarrow> lineage_kept (ms_db m) (ms_db m')"
proof (induction as arbitrary: m)
  case (Cons a as)
  show ?case
  proof (cases "m' = m")
    case False
    then obtain x db where a: "add_attachment x (ms_db m) = Some db" "ea_visibility_scope x = scope_restricted" "ea_origin_scope x = scope_restricted"
      and rest: "store_attachments e svc i as (m\<lparr>ms_db := db, ms_draws := ms_draws m + 1\<rparr>) = (b, m')"
      using Cons.prems by (auto simp: Let_def split: option.splits)
    from Cons.IH[OF rest] add_attachment_lineage[OF a] show ?thesis using lineage_kept_trans by simp
  qed simp
qed simp

lemma reconcile_in_lineage: "reconcile_in e svc i p m = (r, m') \<Longrightarrow> lineage_kept (ms_db m) (ms_db m')"
  by (auto simp: reconcile_in_def split: option.splits intro!: lineage_kept_grants intro: reconcile_sound(1))

lemma store_children_lineage:
  assumes "store_children e svc i p m = (r, m')"
  shows "lineage_kept (ms_db m) (ms_db m')"
proof -
  obtain b2 m2 where 2: "store_recipients e svc i (pd_received_at p) (pd_recipients p) m = (b2, m2)" by fastforce
  obtain b3 m3 where 3: "store_attachments e svc i (pd_attachments p) m2 = (b3, m3)" by fastforce
  have l3: "lineage_kept (ms_db m) (ms_db m3)"
    using store_recipients_lineage[OF 2] store_attachments_lineage[OF 3] lineage_kept_trans by blast
  have "m' = m2 \<or> m' = m3 \<or> (\<exists>ps db. m' = m3\<lparr>ms_db := db\<rparr> \<and> write_email_grants (ie_grants e) (is_org_id svc) i (is_connection_id svc)
      (is_owner_user_id svc) (pd_from_address p) (map pr_address (pd_recipients p)) (ms_db m3) = Some (ps, db))"
    using assms 2 3 by (auto simp: store_children_def split: option.splits bool.splits)
  then show ?thesis
    using store_recipients_lineage[OF 2] l3 lineage_kept_trans[OF l3] write_email_grants_sound(1) lineage_kept_grants by fastforce
qed

definition rival_lineage :: "ingest_env \<Rightarrow> bool" where
  "rival_lineage e \<longleftrightarrow> (\<forall>k db. lineage_kept db (ie_rival e k db))"

lemma store_message_lineage:
  assumes "rival_lineage e" and "store_message e svc raw p f m0 = (r, m')"
  shows "lineage_kept (ms_db m0) (ms_db m')"
proof -
  let ?m = "before_insert e m0" and ?i = "re_ids (ie_resolver e) (ms_draws m0)"
  have b: "lineage_kept (ms_db m0) (ms_db ?m)" using assms(1) by (simp add: rival_lineage_def before_insert_def)
  show ?thesis
  proof (cases "messages_insert (ge_connection_exists (ie_grants e)) (build_message svc ?i p f (length raw)) (ms_db ?m)")
    case (Inserted db)
    then have "lineage_kept (ms_db ?m) db" by (rule messages_insert_lineage) (simp_all add: build_message_def)
    moreover have "lineage_kept db (ms_db m')"
      using assms(2) Inserted store_children_lineage[of e svc ?i p "savepoint_released (?m\<lparr>ms_db := db\<rparr>)" r m']
      by (simp add: store_message_def Let_def savepoint_released_def)
    ultimately show ?thesis using b lineage_kept_trans by blast
  next
    case Refused_dedup
    then have "lineage_kept (ms_db ?m) (ms_db m')"
      using assms(2) reconcile_in_lineage[of e svc _ p "savepoint_rolled_back ?m" r m']
      by (auto simp: store_message_def Let_def savepoint_rolled_back_def split: option.splits)
    with b show ?thesis using lineage_kept_trans by blast
  next
    case Refused_other
    then have "ms_db m' = ms_db ?m" using assms(2) by (auto simp: store_message_def Let_def savepoint_rolled_back_def)
    with b show ?thesis by simp
  qed
qed

lemma ingest_email_lineage:
  assumes "rival_lineage e" and "ingest_email e svc raw d m = (r, m')"
  shows "lineage_kept (ms_db m) (ms_db m')"
proof (cases "parse_email e raw (is_mailbox svc) d")
  case None
  then show ?thesis using assms(2) by (simp add: ingest_email_def)
next
  case p: (Some p)
  show ?thesis
  proof (cases "get_message_id_by_dedup (ms_db m) (is_org_id svc) (is_connection_id svc) (pd_dedup_key p)")
    case (Some i)
    then show ?thesis using assms(2) p reconcile_in_lineage by (simp add: ingest_email_def)
  next
    case None
    obtain fp m1 where s: "resolve_sender e svc p m = (fp, m1)" by fastforce
    have g: "lineage_kept (ms_db m) (ms_db m1)"
      using s resolve_in_lineage by (auto simp: resolve_sender_def split: option.splits if_splits)
    have "m' = m1 \<or> (\<exists>f. store_message e svc raw p f m1 = (r, m'))"
      using assms(2) p None s by (auto simp: ingest_email_def split: option.splits)
    with g show ?thesis using store_message_lineage[OF assms(1)] lineage_kept_trans by blast
  qed
qed

lemma ingest_lineage: "rival_lineage e \<Longrightarrow> ingest_in_savepoint e svc raw d m = (r, m') \<Longrightarrow> lineage_kept (ms_db m) (ms_db m')"
  using ingest_email_lineage[of e svc raw d "m\<lparr>ms_cache := track_savepoint_open (ms_cache m)\<rparr>"]
  by (auto simp: ingest_in_savepoint_def split: prod.splits ingest_result.splits)

lemma cascade_lineage: "lineage_kept db (cascade_mail c db)"
  by (auto simp: lineage_kept_def lineage_ok_def promoted_def cascade_mail_def Let_def delete_where_def)

text \<open>A promotion stands on an audit row that names its approver and its message.\<close>

definition audited :: "identity_db \<Rightarrow> visibility_promotion \<Rightarrow> bool" where
  "audited idb p \<longleftrightarrow> (\<exists>a \<in> set (audit_log idb). al_id a = vp_audit_log_id p \<and> al_action a = ''access.visibility_promoted''
     \<and> al_actor_id a = Some (vp_approved_by_user_id p) \<and> al_entity_id a = Some (vp_object_id p) \<and> al_org_id a = Some (vp_org_id p))"

definition visibility_inv :: "mworld \<Rightarrow> bool" where
  "visibility_inv w \<longleftrightarrow> lineage_ok (mw_mail w) \<and> (\<forall>p \<in> set (promotions (mw_mail w)). audited (mw_identity w) p)"

lemma audited_mono: "audited idb p \<Longrightarrow> set (audit_log idb) \<subseteq> set (audit_log idb') \<Longrightarrow> audited idb' p"
  by (auto simp: audited_def)

lemma visibility_inv_kept:
  assumes "visibility_inv w" and "lineage_kept (mw_mail w) (mw_mail w')" and "set (audit_log (mw_identity w)) \<subseteq> set (audit_log (mw_identity w'))"
  shows "visibility_inv w'"
  using assms audited_mono by (auto simp: visibility_inv_def lineage_kept_def)

inductive mail_step :: "ingest_env \<Rightarrow> mworld \<Rightarrow> mworld \<Rightarrow> bool" for ie :: ingest_env where
  ingest: "ingest_in_savepoint ie svc raw d \<lparr>ms_db = mw_mail w, ms_cache = cache, ms_draws = n\<rparr> = (r, m') \<Longrightarrow>
    mail_step ie w (w\<lparr>mw_mail := ms_db m'\<rparr>)"
| revoke_grants: "tombstone_grants_for_person now org_id person (mw_mail w) = (k, db') \<Longrightarrow> mail_step ie w (w\<lparr>mw_mail := db'\<rparr>)"
| bind_identity: "identity_add si (mw_mail w) = Some db' \<Longrightarrow> mail_step ie w (w\<lparr>mw_mail := db'\<rparr>)"
| promote: "promote_email_message e org_id u email mid w = (r, w') \<Longrightarrow> mail_step ie w w'"
| disconnect: "disconnect_my_connection e org_id u cid actor w = (r, w') \<Longrightarrow> mail_step ie w w'"
| delete: "delete_connection e org_id cid actor w = (r, w') \<Longrightarrow> mail_step ie w w'"

lemma promote_Inl: "promote_email_message e org_id u email mid w = (Inl err, w') \<Longrightarrow> w' = w"
  using promote_cases[of e org_id u email mid w "Inl err" w'] by (auto split: option.splits if_splits)

lemma promote_Inr:
  assumes run: "promote_email_message e org_id u email mid w = (Inr i, w')"
  shows "email_messages (mw_mail w') = update_where (\<lambda>m. em_org_id m = org_id \<and> em_id m = mid) (\<lambda>m. m\<lparr>em_visibility_scope := scope_org\<rparr>) (email_messages (mw_mail w))"
    and "email_recipients (mw_mail w') = update_where (\<lambda>r. er_org_id r = org_id \<and> er_email_id r = mid) (\<lambda>r. r\<lparr>er_visibility_scope := scope_org\<rparr>) (email_recipients (mw_mail w))"
    and "email_attachments (mw_mail w') = update_where (\<lambda>a. ea_org_id a = org_id \<and> ea_email_id a = mid) (\<lambda>a. a\<lparr>ea_visibility_scope := scope_org\<rparr>) (email_attachments (mw_mail w))"
    and "promotions (mw_mail w') = promotions (mw_mail w) @ [promotion_row e org_id u mid]" and "acl_grants (mw_mail w') = acl_grants (mw_mail w)"
    and "audit_log (mw_identity w') = audit_log (mw_identity w) @ [build_row e (uuids e 0) (promotion_event org_id u email mid)]"
proof -
  let ?db = "(mw_mail w)\<lparr>promotions := promotions (mw_mail w) @ [promotion_row e org_id u mid]\<rparr>"
  obtain cid scope where g: "get_email_message_for_promotion (mw_mail w) org_id mid = Some (cid, scope)" "scope \<noteq> scope_org"
    and c: "mw_connect w' = mw_connect (audit_event_in e (uuids e 0) (promotion_event org_id u email mid) w)"
    and m: "mw_mail w' = snd (promote_email_message_to_org org_id mid ?db)"
    using promote_cases[OF run] by (auto split: option.splits if_splits)
  have "fst (promote_email_message_to_org org_id mid ?db) \<noteq> 0" using promotable[OF g] by simp
  note eff = promote_to_org_flipped[OF prod.collapse[symmetric] this, folded m]
  show "email_messages (mw_mail w') = update_where (\<lambda>m. em_org_id m = org_id \<and> em_id m = mid) (\<lambda>m. m\<lparr>em_visibility_scope := scope_org\<rparr>) (email_messages (mw_mail w))"
    "email_recipients (mw_mail w') = update_where (\<lambda>r. er_org_id r = org_id \<and> er_email_id r = mid) (\<lambda>r. r\<lparr>er_visibility_scope := scope_org\<rparr>) (email_recipients (mw_mail w))"
    "email_attachments (mw_mail w') = update_where (\<lambda>a. ea_org_id a = org_id \<and> ea_email_id a = mid) (\<lambda>a. a\<lparr>ea_visibility_scope := scope_org\<rparr>) (email_attachments (mw_mail w))"
    "promotions (mw_mail w') = promotions (mw_mail w) @ [promotion_row e org_id u mid]" "acl_grants (mw_mail w') = acl_grants (mw_mail w)"
    using eff by simp_all
  show "audit_log (mw_identity w') = audit_log (mw_identity w) @ [build_row e (uuids e 0) (promotion_event org_id u email mid)]"
    using audit_log_audit[of e "uuids e 0" _ w] by (simp add: c)
qed

lemma promote_keeps:
  assumes inv: "visibility_inv w" and run: "promote_email_message e org_id u email mid w = (r, w')"
  shows "visibility_inv w'"
proof (cases r)
  case (Inl err)
  then show ?thesis using inv run promote_Inl by blast
next
  case (Inr i)
  note eff = promote_Inr[OF run[unfolded Inr]]
  have old: "promoted (mw_mail w) o' m' \<Longrightarrow> promoted (mw_mail w') o' m'" and new: "promoted (mw_mail w') org_id mid" for o' m'
    by (auto simp: promoted_def eff(4) promotion_row_def)
  have "lineage_ok (mw_mail w')"
    using inv old new unfolding visibility_inv_def lineage_ok_def eff(1-3) set_update_where by (auto simp: image_iff)
  moreover have "audited (mw_identity w') (promotion_row e org_id u mid)"
    by (simp add: eff(6) audited_def promotion_row_def build_row_def promotion_event_def audit_event_of_def)
  moreover have "audited (mw_identity w) p \<Longrightarrow> audited (mw_identity w') p" for p
    by (rule audited_mono) (auto simp: eff(6))
  ultimately show ?thesis using inv by (auto simp: visibility_inv_def eff(4))
qed

lemma disconnect_frame:
  assumes "disconnect_my_connection e org_id u cid actor w = (r, w')"
  shows "lineage_kept (mw_mail w) (mw_mail w')" and "set (audit_log (mw_identity w)) \<subseteq> set (audit_log (mw_identity w'))"
  using assms
  by (auto simp: disconnect_my_connection_def delete_row_def consent_withdraw_def cascade_lineage Let_def case_prod_beta
      split: sum.splits if_splits)

lemma delete_frame:
  assumes "delete_connection e org_id cid actor w = (r, w')"
  shows "lineage_kept (mw_mail w) (mw_mail w')" and "set (audit_log (mw_identity w)) \<subseteq> set (audit_log (mw_identity w'))"
  using assms by (auto simp: delete_connection_def delete_row_def cascade_lineage split: sum.splits)

lemma mail_step_keeps:
  assumes "rival_lineage ie" and "mail_step ie w w'" and "visibility_inv w"
  shows "visibility_inv w'"
  using assms(2,3)
proof (induction rule: mail_step.induct)
  case (ingest svc raw d w cache n r m')
  show ?case by (rule visibility_inv_kept[OF ingest(2)]) (use ingest_lineage[OF assms(1) ingest(1)] in simp_all)
next
  case (revoke_grants now org_id person w k db')
  show ?case
    by (rule visibility_inv_kept[OF revoke_grants(2)]) (use revoke_grants(1) in \<open>auto simp: tombstone_grants_for_person_def Let_def intro!: lineage_kept_frame\<close>)
next
  case (bind_identity si w db')
  show ?case
    by (rule visibility_inv_kept[OF bind_identity(2)])
      (use bind_identity(1) in \<open>auto simp: identity_add_def intro!: lineage_kept_frame split: if_splits\<close>)
next
  case (promote e org_id u email mid w r w')
  then show ?case using promote_keeps by blast
next
  case (disconnect e org_id u cid actor w r w')
  then show ?case using visibility_inv_kept disconnect_frame by blast
next
  case (delete e org_id cid actor w r w')
  then show ?case using visibility_inv_kept delete_frame by blast
qed

text \<open>
  C2: restricted by birth, wider only by promotion. Start with an empty mail store and let mail be ingested, grants be written and
  revoked, identities be bound, messages be promoted and mailboxes be disconnected, in any order. Whenever a session reads a stored message
  without holding a live grant on it, the message has a promotion, and the promotion's audit row is on the trail with the
  approver and the message.
\<close>

theorem widening_has_audited_lineage:
  assumes "(mail_step ie)\<^sup>*\<^sup>* w0 w" and "rival_lineage ie"
    and "email_messages (mw_mail w0) = []" "email_recipients (mw_mail w0) = []" "email_attachments (mw_mail w0) = []" "promotions (mw_mail w0) = []"
    and "m \<in> set (email_messages (mw_mail w))" and "reader_sees (mw_mail w) org_id person (em_org_id m) (em_visibility_scope m) (em_id m)"
    and "\<And>p. person = Some p \<Longrightarrow> p \<notin> list_live_person_ids_for_object (mw_mail w) org_id obj_email_message (em_id m)"
  shows "\<exists>p \<in> set (promotions (mw_mail w)). vp_org_id p = em_org_id m \<and> vp_object_id p = em_id m
    \<and> (\<exists>a \<in> set (audit_log (mw_identity w)). al_id a = vp_audit_log_id p \<and> al_action a = ''access.visibility_promoted''
        \<and> al_actor_id a = Some (vp_approved_by_user_id p) \<and> al_entity_id a = Some (em_id m) \<and> al_org_id a = Some (em_org_id m))"
proof -
  have "visibility_inv w0" using assms(3-6) by (simp add: visibility_inv_def lineage_ok_def)
  with assms(1) have inv: "visibility_inv w"
    by (induction rule: rtranclp_induct) (auto intro: mail_step_keeps[OF assms(2)])
  have "em_visibility_scope m = scope_org"
    using assms(8,9) by (auto simp: reader_sees_def live_ids_iff)
  then obtain p where p: "p \<in> set (promotions (mw_mail w))" "vp_org_id p = em_org_id m" "vp_object_id p = em_id m"
    using inv assms(7) by (auto simp: visibility_inv_def lineage_ok_def promoted_def)
  with inv have "audited (mw_identity w) p" by (simp add: visibility_inv_def)
  with p show ?thesis unfolding audited_def by (intro bexI[of _ p]) auto
qed

section \<open>A promotion in a concrete tenant\<close>

definition demo_store :: mworld where
  "demo_store = \<lparr>mw_connect = \<lparr>cw_world = (cw_world demo_cworld)\<lparr>w_db := demo_tenant\<rparr>, cw_db = demo_connector_db\<rparr>,
     mw_mail = ms_db demo_mail_state\<rparr>"

lemma demo_ingested:
  obtains m' x where "ingest_in_savepoint demo_ingest_env demo_ingest_service ''hello'' (Some 7) demo_mail_state = (Ingested True, m')"
    and "email_messages (ms_db m') = [x]" "em_id x = 100" "em_org_id x = 7" "em_connection_id x = 3" "em_visibility_scope x = scope_restricted"
    and "acl_grants (ms_db m') = []"
  by (simp add: ingest_in_savepoint_def ingest_email_def parse_email_def degraded_parse_def get_message_id_by_dedup_def resolve_sender_def
      store_message_def build_message_def before_insert_def messages_insert_def store_children_def write_email_grants_def derive_email_principal_roles_def
      address_roles_def get_verified_person_ids_def get_verified_person_id_def opt_person_fk_ok_def savepoint_released_def
      demo_ingest_env_def demo_ingest_service_def new_ingest_service_def demo_mail_state_def demo_mail_db_def demo_resolver_env_def
      demo_grant_env_def demo_connection_def Let_def)

lemma demo_promoted:
  obtains w1 w2 x where "mail_step demo_ingest_env demo_store w1" and "promote_email_message (demo_env 80) 7 5 None 100 w1 = (Inr 1001, w2)"
    and "email_messages (mw_mail w1) = [x]" "em_id x = 100" "em_org_id x = 7" "acl_grants (mw_mail w1) = []"
proof (rule demo_ingested)
  fix m' x
  assume i: "ingest_in_savepoint demo_ingest_env demo_ingest_service ''hello'' (Some 7) demo_mail_state = (Ingested True, m')"
    and x: "email_messages (ms_db m') = [x]" "em_id x = 100" "em_org_id x = 7" "em_connection_id x = 3" "em_visibility_scope x = scope_restricted"
    and g: "acl_grants (ms_db m') = []"
  let ?w1 = "demo_store\<lparr>mw_mail := ms_db m'\<rparr>"
  have s: "mail_step demo_ingest_env demo_store ?w1"
    using mail_step.ingest[where w = demo_store and cache = new_cache and n = 0] i
    by (simp add: demo_store_def demo_mail_state_def)
  obtain r w2 where p: "promote_email_message (demo_env 80) 7 5 None 100 ?w1 = (r, w2)" by fastforce
  have get: "get_email_message_for_promotion (mw_mail ?w1) 7 100 = Some (3, scope_restricted)"
    using x by (simp add: get_email_message_for_promotion_def)
  have "get_connection_owner (mw_db ?w1) 7 3 = Some 5" "user_fk_ok (mw_identity ?w1) 7 5"
    by (simp_all add: get_connection_owner_def user_fk_ok_def demo_store_def demo_connector_db_def demo_connection_def demo_tenant_def)
  then have "r = Inr 1001" using promote_cases[OF p, unfolded get] by (simp add: demo_env_def)
  with s p x(1-3) g show thesis by (intro that[of ?w1 w2 x]) simp_all
qed

theorem promotion_outcome_witness:
  "\<exists>w w'. promote_email_message (demo_env 80) 7 5 None 100 w = (Inr 1001, w')
     \<and> (\<exists>p. promotions (mw_mail w') = promotions (mw_mail w) @ [p] \<and> vp_object_id p = 100 \<and> vp_approved_by_user_id p = 5)"
proof (rule demo_promoted)
  fix w1 w2 x
  assume p: "promote_email_message (demo_env 80) 7 5 None 100 w1 = (Inr 1001, w2)"
  from promotion_outcome[OF p] have "\<exists>p. promotions (mw_mail w2) = promotions (mw_mail w1) @ [p] \<and> vp_object_id p = 100 \<and> vp_approved_by_user_id p = 5"
    by auto
  with p show ?thesis by blast
qed

theorem widening_has_audited_lineage_witness:
  "\<exists>w. (mail_step demo_ingest_env)\<^sup>*\<^sup>* demo_store w \<and> (\<exists>p \<in> set (promotions (mw_mail w)). vp_object_id p = 100)"
proof (rule demo_promoted)
  fix w1 w2 x
  assume s: "mail_step demo_ingest_env demo_store w1" and p: "promote_email_message (demo_env 80) 7 5 None 100 w1 = (Inr 1001, w2)"
    and x: "email_messages (mw_mail w1) = [x]" "em_id x = 100" "em_org_id x = 7" and g: "acl_grants (mw_mail w1) = []"
  let ?x = "x\<lparr>em_visibility_scope := scope_org\<rparr>"
  have r: "(mail_step demo_ingest_env)\<^sup>*\<^sup>* demo_store w2" using s mail_step.promote[OF p] by (meson converse_rtranclp_into_rtranclp r_into_rtranclp)
  have st: "email_messages (mw_mail w2) = [?x]" "acl_grants (mw_mail w2) = []"
    using promote_Inr(1,5)[OF p] x g by simp_all
  have e: "email_messages (mw_mail demo_store) = []" "email_recipients (mw_mail demo_store) = []" "email_attachments (mw_mail demo_store) = []"
    "promotions (mw_mail demo_store) = []"
    by (simp_all add: demo_store_def demo_mail_state_def demo_mail_db_def)
  have riv: "rival_lineage demo_ingest_env" by (simp add: rival_lineage_def demo_ingest_env_def)
  have "reader_sees (mw_mail w2) 7 None (em_org_id ?x) (em_visibility_scope ?x) (em_id ?x)" using x by (simp add: reader_sees_def)
  from widening_has_audited_lineage[OF r riv e _ this] st x r show ?thesis by auto
qed

end
