(* ===== verification/Erasure.thy ===== *)
theory Erasure
  imports Org_Support Visibility
begin

text \<open>
  The erasure of an organization (\<open>identity/services/erasure_service.py\<close>) over the registry of erasure hooks
  (\<open>common/erasure_hooks.py\<close>) and the three hooks of the feature modules (\<open>access/repositories/access_erasure_repository.py\<close>,
  \<open>connectors/repositories/connector_erasure_repository.py\<close>, \<open>entities/repositories/entity_erasure_repository.py\<close>). What the service relies
  on of a hook is the locale \<open>erasure_hook\<close>; the three hooks are interpretations of it, the registry of \<open>main.py\<close> one of
  \<open>erasure_registry\<close>.
\<close>

section \<open>State\<close>

text \<open>The provenance of learned facts is the one table no other component of the model touches.\<close>

record fact_provenance =
  fp_org_id :: uuid
  fp_fact_id :: uuid
  fp_source_object_type :: string
  fp_source_object_id :: uuid
  fp_quarantined :: bool

record eworld =
  ew_main :: mworld
  ew_facts :: "fact_provenance list"

definition on_main :: "(mworld \<Rightarrow> mworld) \<Rightarrow> eworld \<Rightarrow> eworld" where
  "on_main f w = w\<lparr>ew_main := f (ew_main w)\<rparr>"

definition on_mail :: "(mail_db \<Rightarrow> mail_db) \<Rightarrow> eworld \<Rightarrow> eworld" where
  "on_mail f = on_main (\<lambda>m. m\<lparr>mw_mail := f (mw_mail m)\<rparr>)"

definition on_connectors :: "(connector_db \<Rightarrow> connector_db) \<Rightarrow> eworld \<Rightarrow> eworld" where
  "on_connectors f = on_main (\<lambda>m. set_connectors (f (mw_db m)) m)"

definition set_identity :: "identity_db \<Rightarrow> eworld \<Rightarrow> eworld" where
  "set_identity db = on_main (\<lambda>m. m\<lparr>mw_connect := (mw_connect m)\<lparr>cw_world := (cw_world (mw_connect m))\<lparr>w_db := db\<rparr>\<rparr>\<rparr>)"

abbreviation ew_mail :: "eworld \<Rightarrow> mail_db" where
  "ew_mail w \<equiv> mw_mail (ew_main w)"

abbreviation ew_db :: "eworld \<Rightarrow> connector_db" where
  "ew_db w \<equiv> mw_db (ew_main w)"

abbreviation ew_identity :: "eworld \<Rightarrow> identity_db" where
  "ew_identity w \<equiv> mw_identity (ew_main w)"

abbreviation ew_entities :: "eworld \<Rightarrow> entity_db" where
  "ew_entities w \<equiv> md_entities (ew_mail w)"

section \<open>The hooks\<close>

type_synonym hook = "uuid \<Rightarrow> eworld \<Rightarrow> (string \<times> nat) list \<times> eworld"

definition erase_access_data_for_org :: hook where
  "erase_access_data_for_org org_id w =
     ([(''acl_grant'', rowcount (\<lambda>g. ag_org_id g = org_id) (acl_grants (ew_mail w))),
       (''fact_provenance'', rowcount (\<lambda>f. fp_org_id f = org_id) (ew_facts w)),
       (''visibility_promotion'', rowcount (\<lambda>p. vp_org_id p = org_id) (promotions (ew_mail w))),
       (''principal_source_identity'', rowcount (\<lambda>s. si_org_id s = org_id) (source_identities (ew_mail w)))],
      on_mail (\<lambda>db. db\<lparr>acl_grants := delete_where (\<lambda>g. ag_org_id g = org_id) (acl_grants db),
          promotions := delete_where (\<lambda>p. vp_org_id p = org_id) (promotions db),
          source_identities := delete_where (\<lambda>s. si_org_id s = org_id) (source_identities db)\<rparr>)
        (w\<lparr>ew_facts := delete_where (\<lambda>f. fp_org_id f = org_id) (ew_facts w)\<rparr>))"

text \<open>Deleting the connections of the organization cascades to the grants that came from them.\<close>

definition erase_connector_data_for_org :: hook where
  "erase_connector_data_for_org org_id w =
     ([(''email_recipient'', rowcount (\<lambda>x. er_org_id x = org_id) (email_recipients (ew_mail w))),
       (''email_attachment'', rowcount (\<lambda>x. ea_org_id x = org_id) (email_attachments (ew_mail w))),
       (''email_message'', rowcount (\<lambda>x. em_org_id x = org_id) (email_messages (ew_mail w))),
       (''connector_sync_cursor'', rowcount (\<lambda>x. sc_org_id x = org_id) (sync_cursors (ew_db w))),
       (''connector_sync_run'', rowcount (\<lambda>x. sr_org_id x = org_id) (sync_runs (ew_db w))),
       (''connector_connection'', rowcount (\<lambda>x. cn_org_id x = org_id) (connections (ew_db w))),
       (''connector_consent'', rowcount (\<lambda>x. cs_org_id x = org_id) (consents (ew_db w))),
       (''connector_policy_override'', rowcount (\<lambda>x. ov_org_id x = org_id) (overrides (ew_db w))),
       (''connector_policy'', rowcount (\<lambda>x. po_org_id x = org_id) (policies (ew_db w))),
       (''connector_entitlement'', rowcount (\<lambda>x. en_org_id x = org_id) (entitlements (ew_db w)))],
      on_mail (\<lambda>db. db\<lparr>email_recipients := delete_where (\<lambda>x. er_org_id x = org_id) (email_recipients db),
          email_attachments := delete_where (\<lambda>x. ea_org_id x = org_id) (email_attachments db),
          email_messages := delete_where (\<lambda>x. em_org_id x = org_id) (email_messages db),
          acl_grants := delete_where (\<lambda>g. ag_org_id g = org_id \<and> ag_connection_id g \<noteq> None) (acl_grants db)\<rparr>)
       (on_connectors (\<lambda>db. db\<lparr>sync_cursors := delete_where (\<lambda>x. sc_org_id x = org_id) (sync_cursors db),
          sync_runs := delete_where (\<lambda>x. sr_org_id x = org_id) (sync_runs db),
          connections := delete_where (\<lambda>x. cn_org_id x = org_id) (connections db),
          consents := delete_where (\<lambda>x. cs_org_id x = org_id) (consents db),
          overrides := delete_where (\<lambda>x. ov_org_id x = org_id) (overrides db),
          policies := delete_where (\<lambda>x. po_org_id x = org_id) (policies db),
          entitlements := delete_where (\<lambda>x. en_org_id x = org_id) (entitlements db)\<rparr>) w))"

text \<open>Deleting the persons of the organization cascades to their grants and identities and clears the person of its mail rows.\<close>

definition erase_entity_graph_for_org :: hook where
  "erase_entity_graph_for_org org_id w =
     ([(''person_company'', rowcount (\<lambda>x. pc_org_id x = org_id) (person_companies (ew_entities w))),
       (''company_domain'', rowcount (\<lambda>x. cd_org_id x = org_id) (company_domains (ew_entities w))),
       (''person_alias'', rowcount (\<lambda>x. pa_org_id x = org_id) (person_aliases (ew_entities w))),
       (''person_email'', rowcount (\<lambda>x. pm_org_id x = org_id) (person_emails (ew_entities w))),
       (''company'', rowcount (\<lambda>x. co_org_id x = org_id) (companies (ew_entities w))),
       (''person'', rowcount (\<lambda>x. pe_org_id x = org_id) (people (ew_entities w)))],
      on_mail (\<lambda>db. db\<lparr>md_entities := (md_entities db)\<lparr>
            person_companies := delete_where (\<lambda>x. pc_org_id x = org_id) (person_companies (md_entities db)),
            company_domains := delete_where (\<lambda>x. cd_org_id x = org_id) (company_domains (md_entities db)),
            person_aliases := delete_where (\<lambda>x. pa_org_id x = org_id) (person_aliases (md_entities db)),
            person_emails := delete_where (\<lambda>x. pm_org_id x = org_id) (person_emails (md_entities db)),
            companies := delete_where (\<lambda>x. co_org_id x = org_id) (companies (md_entities db)),
            people := delete_where (\<lambda>x. pe_org_id x = org_id) (people (md_entities db))\<rparr>,
          acl_grants := delete_where (\<lambda>g. ag_org_id g = org_id) (acl_grants db),
          source_identities := delete_where (\<lambda>s. si_org_id s = org_id) (source_identities db),
          email_messages := update_where (\<lambda>x. em_org_id x = org_id) (\<lambda>x. x\<lparr>em_from_person_id := None\<rparr>) (email_messages db),
          email_recipients := update_where (\<lambda>x. er_org_id x = org_id) (\<lambda>x. x\<lparr>er_person_id := None\<rparr>) (email_recipients db)\<rparr>) w)"

section \<open>The registry\<close>

definition REQUIRED_ERASURE_HOOKS :: "string list" where
  "REQUIRED_ERASURE_HOOKS = [''access'', ''connectors'', ''entities'']"

definition register_erasure_hook :: "string \<Rightarrow> hook \<Rightarrow> (string \<times> hook) list \<Rightarrow> (string \<times> hook) list" where
  "register_erasure_hook name h hooks = dict_set name h hooks"

definition registered_hooks :: "(string \<times> hook) list" where
  "registered_hooks = register_erasure_hook ''entities'' erase_entity_graph_for_org
     (register_erasure_hook ''connectors'' erase_connector_data_for_org
       (register_erasure_hook ''access'' erase_access_data_for_org []))"

definition dict_update :: "(string \<times> nat) list \<Rightarrow> (string \<times> nat) list \<Rightarrow> (string \<times> nat) list" where
  "dict_update d e = foldl (\<lambda>acc (k, v). dict_set k v acc) d e"

fun run_hooks :: "uuid \<Rightarrow> (string \<times> hook) list \<Rightarrow> (string \<times> nat) list \<times> eworld \<Rightarrow> (string \<times> nat) list \<times> eworld" where
  "run_hooks org_id [] s = s"
| "run_hooks org_id ((name, h) # hs) (report, w) =
     (let (counts, w') = h org_id w in run_hooks org_id hs (dict_update report counts, w'))"

section \<open>The service\<close>

record erasure_request =
  eq_reason :: string
  eq_confirm_slug :: string
  eq_password :: string

record erasure_certificate =
  ec_org_id :: uuid
  ec_org_slug :: string
  ec_org_name :: string
  ec_status :: organization_status
  ec_erased_at :: datetime
  ec_erased_by_admin_id :: uuid
  ec_users_erased :: nat
  ec_tokens_deleted :: nat
  ec_support_decider_emails_scrubbed :: nat
  ec_erased_rows_by_table :: "(string \<times> nat) list"
  ec_audit_log_retained :: bool

text \<open>
  Deleting the users of the organization: a promotion's approver is referenced without a cascade, so a promotion that is still there
  refuses the statement; connections they own, consents and overrides go with them.
\<close>

definition delete_users :: "uuid \<Rightarrow> eworld \<Rightarrow> (nat \<times> eworld) option" where
  "delete_users org_id w =
     (if \<exists>p \<in> set (promotions (ew_mail w)). vp_org_id p = org_id then None
      else
        (let (n, idb) = users_delete_all_in_org org_id (ew_identity w);
             owned = filter (\<lambda>c. cn_org_id c = org_id \<and> cn_owner_user_id c \<noteq> None) (connections (ew_db w));
             w1 = on_main (fold delete_row owned) (set_identity idb w)
         in Some (n, on_connectors (\<lambda>db. db\<lparr>consents := delete_where (\<lambda>x. cs_org_id x = org_id) (consents db),
              overrides := delete_where (\<lambda>x. ov_org_id x = org_id) (overrides db)\<rparr>) w1)))"

definition erased_event :: "uuid \<Rightarrow> erasure_request \<Rightarrow> principal \<Rightarrow> nat \<Rightarrow> nat \<Rightarrow> nat \<Rightarrow> (string \<times> nat) list \<Rightarrow> audit_event" where
  "erased_event org_id q actor n tokens scrubbed report = (audit_event_of ORG_ERASED actor_platform_admin)
     \<lparr>ae_actor_id := Some (p_subject_id actor), ae_org_id := Some org_id,
      ae_entity_type := Some ''organization'', ae_entity_id := Some org_id,
      ae_details := [(''users_erased'', JInt (int n)), (''tokens_deleted'', JInt (int tokens)),
        (''support_decider_emails_scrubbed'', JInt (int scrubbed)),
        (''erased_rows_by_table'', JObj (map (\<lambda>(t, k). (t, JInt (int k))) report)),
        (''audit_log_retained'', JBool True), (''reason'', JStr (eq_reason q))]\<rparr>"

definition erase_organization ::
  "'tok crypto \<Rightarrow> env \<Rightarrow> (string \<times> hook) list \<Rightarrow> uuid \<Rightarrow> erasure_request \<Rightarrow> principal \<Rightarrow> eworld
    \<Rightarrow> (identity_error + erasure_certificate) \<times> eworld" where
  "erase_organization cr e hooks org_id q actor w =
     (let missing = filter (\<lambda>n. n \<notin> set (map fst hooks)) REQUIRED_ERASURE_HOOKS
      in if missing \<noteq> [] then (Inl (ErasureNotConfiguredError missing), w)
         else
           (case organizations_get_for_update (ew_identity w) org_id of
              None \<Rightarrow> (Inl (OrganizationNotFoundError ''Organization not found.''), w)
            | Some org \<Rightarrow>
              if eq_confirm_slug q \<noteq> o_slug org
              then (Inl (ErasureConfirmationError ''Confirmation does not match the organization's slug.''), w)
              else
                (let admin = platform_admins_get_by_id (ew_identity w) (p_subject_id actor);
                     eligible = (case admin of None \<Rightarrow> False | Some a \<Rightarrow> pa_is_active a);
                     password_hash = (case admin of
                         Some a \<Rightarrow> if eligible then pa_password_hash a else DUMMY_PASSWORD_HASH cr
                       | None \<Rightarrow> DUMMY_PASSWORD_HASH cr);
                     password_ok = verify_password cr (eq_password q) password_hash
                 in if \<not> eligible \<or> \<not> password_ok
                    then (Inl (PasswordConfirmationError ''Password confirmation failed.''), w)
                    else if o_legal_hold org
                    then (Inl (LegalHoldError ''Cannot erase an organization under legal hold. Clear the hold first.''), w)
                    else
                      (let (tokens, db1) = refresh_tokens_delete_for_org_users org_id (ew_identity w);
                           (scrubbed, db2) = support_grants_scrub_decider_emails org_id db1;
                           (report, w1) = run_hooks org_id hooks ([], set_identity db2 w)
                       in case delete_users org_id w1 of
                            None \<Rightarrow> (Inl IntegrityError, w)
                          | Some (n, w2) \<Rightarrow>
                            (let w3 = set_identity (organizations_save (org\<lparr>o_status := org_offboarded\<rparr>) (ew_identity w2)) w2;
                                 w4 = on_main (audit_event_in e (uuids e 0) (erased_event org_id q actor n tokens scrubbed report)) w3
                             in (Inr \<lparr>ec_org_id = org_id, ec_org_slug = o_slug org, ec_org_name = o_name org,
                                   ec_status = org_offboarded, ec_erased_at = now_utc e,
                                   ec_erased_by_admin_id = p_subject_id actor, ec_users_erased = n, ec_tokens_deleted = tokens,
                                   ec_support_decider_emails_scrubbed = scrubbed, ec_erased_rows_by_table = report,
                                   ec_audit_log_retained = True\<rparr>, w4))))))"

record compliance_export =
  cx_organization :: organization_detail
  cx_audit :: "audit_row list"
  cx_generated_at :: datetime

definition MAX_EXPORT_ENTRIES :: nat where
  "MAX_EXPORT_ENTRIES = 1000"

definition export_compliance :: "env \<Rightarrow> uuid \<Rightarrow> eworld \<Rightarrow> identity_error + compliance_export" where
  "export_compliance e org_id w =
     (case get_with_user_count (ew_identity w) org_id of
        None \<Rightarrow> Inl (OrganizationNotFoundError ''Organization not found.'')
      | Some (org, n) \<Rightarrow>
        Inr \<lparr>cx_organization = to_detail org n,
             cx_audit = list_for_org (cw_world (mw_connect (ew_main w))) org_id MAX_EXPORT_ENTRIES 0, cx_generated_at = now_utc e\<rparr>)"

section \<open>What a hook promises\<close>

text \<open>The rows of one organization, table by table, and the number of them per module.\<close>

definition mail_view :: "uuid \<Rightarrow> mail_db \<Rightarrow> email_message list \<times> email_recipient list \<times> email_attachment list
    \<times> acl_grant list \<times> source_identity list \<times> visibility_promotion list" where
  "mail_view org_id db = (filter (\<lambda>x. em_org_id x = org_id) (email_messages db), filter (\<lambda>x. er_org_id x = org_id) (email_recipients db),
     filter (\<lambda>x. ea_org_id x = org_id) (email_attachments db), filter (\<lambda>x. ag_org_id x = org_id) (acl_grants db),
     filter (\<lambda>x. si_org_id x = org_id) (source_identities db), filter (\<lambda>x. vp_org_id x = org_id) (promotions db))"

definition entity_view :: "uuid \<Rightarrow> entity_db \<Rightarrow> person list \<times> person_email list \<times> person_alias list \<times> company list
    \<times> company_domain list \<times> person_company list" where
  "entity_view org_id db = (filter (\<lambda>x. pe_org_id x = org_id) (people db), filter (\<lambda>x. pm_org_id x = org_id) (person_emails db),
     filter (\<lambda>x. pa_org_id x = org_id) (person_aliases db), filter (\<lambda>x. co_org_id x = org_id) (companies db),
     filter (\<lambda>x. cd_org_id x = org_id) (company_domains db), filter (\<lambda>x. pc_org_id x = org_id) (person_companies db))"

definition connector_view :: "uuid \<Rightarrow> connector_db \<Rightarrow> connection list \<times> sync_cursor list \<times> sync_run list \<times> consent list
    \<times> entitlement list \<times> policy list \<times> policy_override list" where
  "connector_view org_id db = (filter (\<lambda>x. cn_org_id x = org_id) (connections db), filter (\<lambda>x. sc_org_id x = org_id) (sync_cursors db),
     filter (\<lambda>x. sr_org_id x = org_id) (sync_runs db), filter (\<lambda>x. cs_org_id x = org_id) (consents db),
     filter (\<lambda>x. en_org_id x = org_id) (entitlements db), filter (\<lambda>x. po_org_id x = org_id) (policies db),
     filter (\<lambda>x. ov_org_id x = org_id) (overrides db))"

definition tenant_view where
  "tenant_view org_id w = (mail_view org_id (ew_mail w), entity_view org_id (ew_entities w), connector_view org_id (ew_db w),
     filter (\<lambda>x. fp_org_id x = org_id) (ew_facts w))"

definition module_rows :: "string \<Rightarrow> uuid \<Rightarrow> eworld \<Rightarrow> nat" where
  "module_rows name org_id w =
     (case mail_view org_id (ew_mail w) of (ms, rs, as, gs, ss, ps) \<Rightarrow>
        if name = ''access'' then length gs + length (filter (\<lambda>x. fp_org_id x = org_id) (ew_facts w)) + length ps + length ss
        else if name = ''connectors''
        then (case connector_view org_id (ew_db w) of (cs, us, ns, ks, es, os, vs) \<Rightarrow>
                length rs + length as + length ms + length us + length ns + length cs + length ks + length vs + length os + length es)
        else if name = ''entities''
        then (case entity_view org_id (ew_entities w) of (pe, pm, pa, co, cd, pc) \<Rightarrow>
                length pc + length cd + length pa + length pm + length co + length pe)
        else 0)"

locale erasure_hook =
  fixes name :: string and h :: hook
  assumes erases: "module_rows name org_id (snd (h org_id w)) = 0"
    and shrinks: "module_rows k org_id (snd (h org_id w)) \<le> module_rows k org_id w"
    and spares: "other \<noteq> org_id \<Longrightarrow> tenant_view other (snd (h org_id w)) = tenant_view other w"
    and reports: "sum_list (map snd (fst (h org_id w))) = module_rows name org_id w"
    and identity: "cw_world (mw_connect (ew_main (snd (h org_id w)))) = cw_world (mw_connect (ew_main w))"

locale erasure_registry =
  fixes hooks :: "(string \<times> hook) list"
  assumes lawful: "(name, h) \<in> set hooks \<Longrightarrow> erasure_hook name h"
    and complete: "set REQUIRED_ERASURE_HOOKS \<subseteq> set (map fst hooks)"

context erasure_registry
begin

lemma run_hooks_sound:
  assumes "set hs \<subseteq> set hooks" and "run_hooks org_id hs (report, w) = (report', w')"
  shows "module_rows k org_id w' \<le> module_rows k org_id w \<and> (k \<in> set (map fst hs) \<longrightarrow> module_rows k org_id w' = 0)
    \<and> (other \<noteq> org_id \<longrightarrow> tenant_view other w' = tenant_view other w)
    \<and> cw_world (mw_connect (ew_main w')) = cw_world (mw_connect (ew_main w))"
  using assms
proof (induction hs arbitrary: report w)
  case (Cons nh hs)
  obtain n h where nh: "nh = (n, h)" by (cases nh)
  have law: "erasure_hook n h" using Cons.prems(1) nh by (intro lawful) simp
  let ?w1 = "snd (h org_id w)"
  have rest: "run_hooks org_id hs (dict_update report (fst (h org_id w)), ?w1) = (report', w')"
    using Cons.prems(2) nh by (simp add: case_prod_beta Let_def)
  have IH: "module_rows k org_id w' \<le> module_rows k org_id ?w1 \<and> (k \<in> set (map fst hs) \<longrightarrow> module_rows k org_id w' = 0)
      \<and> (other \<noteq> org_id \<longrightarrow> tenant_view other w' = tenant_view other ?w1)
      \<and> cw_world (mw_connect (ew_main w')) = cw_world (mw_connect (ew_main ?w1))"
    using Cons.prems(1) by (intro Cons.IH[OF _ rest]) simp
  have "module_rows n org_id w' = 0" if "k = n"
    using IH erasure_hook.erases[OF law, of org_id w] that by simp
  then show ?case
    using IH erasure_hook.shrinks[OF law, of k org_id w] erasure_hook.spares[OF law, of other org_id w]
      erasure_hook.identity[OF law, of org_id w] nh by auto
qed simp

text \<open>With every required module registered nothing of the organization survives the hooks, and nothing else is touched.\<close>

lemma hooks_erase_everything:
  assumes "run_hooks org_id hooks (report, w) = (report', w')"
  shows "k \<in> set REQUIRED_ERASURE_HOOKS \<Longrightarrow> module_rows k org_id w' = 0"
    and "other \<noteq> org_id \<Longrightarrow> tenant_view other w' = tenant_view other w"
    and "cw_world (mw_connect (ew_main w')) = cw_world (mw_connect (ew_main w))"
  using run_hooks_sound[OF order_refl assms, of k other] complete by auto

end

section \<open>The hooks keep their promise\<close>

lemma length_filter_update_where:
  "(\<And>x. P x \<Longrightarrow> Q (f x) = Q x) \<Longrightarrow> length (filter Q (update_where P f t)) = length (filter Q t)"
  by (induction t) auto

lemma length_filter_delete_where: "length (filter Q (delete_where P t)) \<le> length (filter Q t)"
  by (induction t) (auto simp: delete_where_def)

lemma filter_other_org:
  "other \<noteq> org_id \<Longrightarrow> filter (\<lambda>x. f x = other) (delete_where (\<lambda>x. f x = org_id) t) = filter (\<lambda>x. f x = other) t"
  "other \<noteq> org_id \<Longrightarrow> filter (\<lambda>x. f x = other) (delete_where (\<lambda>x. f x = org_id \<and> P x) t) = filter (\<lambda>x. f x = other) t"
  by (induction t) (auto simp: delete_where_def)

lemma filter_other_org_update:
  "other \<noteq> org_id \<Longrightarrow> (\<And>x. f (g x) = f x) \<Longrightarrow>
    filter (\<lambda>x. f x = other) (update_where (\<lambda>x. f x = org_id) g t) = filter (\<lambda>x. f x = other) t"
  by (induction t) auto

lemma ew_on [simp]:
  "ew_mail (on_mail f w) = f (ew_mail w)" "ew_db (on_mail f w) = ew_db w" "ew_facts (on_mail f w) = ew_facts w"
  "ew_mail (on_connectors g w) = ew_mail w" "ew_db (on_connectors g w) = g (ew_db w)" "ew_facts (on_connectors g w) = ew_facts w"
  "cw_world (mw_connect (ew_main (on_mail f w))) = cw_world (mw_connect (ew_main w))"
  "cw_world (mw_connect (ew_main (on_connectors g w))) = cw_world (mw_connect (ew_main w))"
  by (simp_all add: on_mail_def on_connectors_def on_main_def)

lemmas views = tenant_view_def module_rows_def mail_view_def connector_view_def entity_view_def rowcount_def

interpretation access: erasure_hook "''access''" erase_access_data_for_org
  by unfold_locales (auto simp: erase_access_data_for_org_def views filter_other_org
    intro!: add_mono length_filter_delete_where)

interpretation connectors: erasure_hook "''connectors''" erase_connector_data_for_org
  by unfold_locales (auto simp: erase_connector_data_for_org_def views filter_other_org
    intro!: add_mono length_filter_delete_where)

interpretation entities: erasure_hook "''entities''" erase_entity_graph_for_org
  by unfold_locales (auto simp: erase_entity_graph_for_org_def views filter_other_org filter_other_org_update
    length_filter_update_where intro!: add_mono length_filter_delete_where)

lemma registered_hooks_eq: "registered_hooks = [(''access'', erase_access_data_for_org),
    (''connectors'', erase_connector_data_for_org), (''entities'', erase_entity_graph_for_org)]"
  by (simp add: registered_hooks_def register_erasure_hook_def)

interpretation app: erasure_registry registered_hooks
  using access.erasure_hook_axioms connectors.erasure_hook_axioms entities.erasure_hook_axioms
  by (intro erasure_registry.intro) (auto simp: registered_hooks_eq REQUIRED_ERASURE_HOOKS_def)

section \<open>The certificate\<close>

lemma dict_set_new: "k \<notin> fst ` set d \<Longrightarrow> dict_set k v d = d @ [(k, v)]"
  by (induction d) auto

lemma dict_update_append: "distinct (map fst (d @ e)) \<Longrightarrow> dict_update d e = d @ e"
proof (induction e arbitrary: d)
  case (Cons kv e)
  obtain k v where kv: "kv = (k, v)" by (cases kv)
  with Cons.prems have new: "k \<notin> fst ` set d" by auto
  have "dict_update d (kv # e) = dict_update (dict_set k v d) e" by (simp add: dict_update_def kv)
  also have "\<dots> = dict_update (d @ [(k, v)]) e" by (simp only: dict_set_new[OF new])
  also have "\<dots> = d @ kv # e" using Cons.IH[of "d @ [(k, v)]"] Cons.prems kv by simp
  finally show ?case .
qed (simp add: dict_update_def)

lemma module_rows_frame:
  "module_rows ''connectors'' org_id (snd (erase_access_data_for_org org_id w)) = module_rows ''connectors'' org_id w"
  "module_rows ''entities'' org_id (snd (erase_access_data_for_org org_id w)) = module_rows ''entities'' org_id w"
  "module_rows ''entities'' org_id (snd (erase_connector_data_for_org org_id w)) = module_rows ''entities'' org_id w"
  by (simp_all add: erase_access_data_for_org_def erase_connector_data_for_org_def module_rows_def mail_view_def
      connector_view_def entity_view_def)

lemma hook_keys:
  "map fst (fst (erase_access_data_for_org org_id w)) = [''acl_grant'', ''fact_provenance'', ''visibility_promotion'', ''principal_source_identity'']"
  "map fst (fst (erase_connector_data_for_org org_id w)) = [''email_recipient'', ''email_attachment'', ''email_message'',
     ''connector_sync_cursor'', ''connector_sync_run'', ''connector_connection'', ''connector_consent'', ''connector_policy_override'',
     ''connector_policy'', ''connector_entitlement'']"
  "map fst (fst (erase_entity_graph_for_org org_id w)) = [''person_company'', ''company_domain'', ''person_alias'', ''person_email'',
     ''company'', ''person'']"
  by (simp_all add: erase_access_data_for_org_def erase_connector_data_for_org_def erase_entity_graph_for_org_def)

lemma report_counts_rows:
  assumes "run_hooks org_id registered_hooks ([], w) = (report, w')"
  shows "sum_list (map snd report) = (\<Sum>k \<leftarrow> REQUIRED_ERASURE_HOOKS. module_rows k org_id w)"
proof -
  let ?w1 = "snd (erase_access_data_for_org org_id w)"
  let ?w2 = "snd (erase_connector_data_for_org org_id ?w1)"
  let ?r1 = "fst (erase_access_data_for_org org_id w)" and ?r2 = "fst (erase_connector_data_for_org org_id ?w1)"
  let ?r3 = "fst (erase_entity_graph_for_org org_id ?w2)"
  have r: "report = dict_update (dict_update (dict_update [] ?r1) ?r2) ?r3"
    using assms by (simp add: registered_hooks_eq case_prod_beta Let_def)
  have d1: "distinct (map fst ([] @ ?r1))" unfolding map_append hook_keys by simp
  have d2: "distinct (map fst (?r1 @ ?r2))" unfolding map_append hook_keys by simp
  have d3: "distinct (map fst ((?r1 @ ?r2) @ ?r3))" unfolding map_append hook_keys by simp
  have "report = (?r1 @ ?r2) @ ?r3"
    unfolding r dict_update_append[OF d1] append_Nil dict_update_append[OF d2] dict_update_append[OF d3] ..
  then show ?thesis
    by (simp add: access.reports connectors.reports entities.reports module_rows_frame REQUIRED_ERASURE_HOOKS_def)
qed

section \<open>The erasure as a whole\<close>

lemma delete_where_none: "filter P t = [] \<Longrightarrow> delete_where P t = t"
  by (induction t) (auto simp: delete_where_def split: if_splits)

lemma delete_users_after_hooks:
  assumes "module_rows ''access'' org_id w = 0" and "module_rows ''connectors'' org_id w = 0"
  shows "delete_users org_id w = Some (rowcount (\<lambda>u. u_org_id u = org_id) (users (ew_identity w)),
     set_identity (snd (users_delete_all_in_org org_id (ew_identity w))) w)"
proof -
  have e: "filter (\<lambda>x. vp_org_id x = org_id) (promotions (ew_mail w)) = []" "filter (\<lambda>x. cn_org_id x = org_id) (connections (ew_db w)) = []"
    "filter (\<lambda>x. cs_org_id x = org_id) (consents (ew_db w)) = []" "filter (\<lambda>x. ov_org_id x = org_id) (overrides (ew_db w)) = []"
    using assms by (simp_all add: views)
  have owned: "filter (\<lambda>c. cn_org_id c = org_id \<and> cn_owner_user_id c \<noteq> None) (connections (ew_db w)) = []"
    using e(2) by (auto simp: filter_empty_conv)
  have "\<not> (\<exists>p \<in> set (promotions (ew_mail w)). vp_org_id p = org_id)" using e(1) by (auto simp: filter_empty_conv)
  then show ?thesis
    unfolding delete_users_def owned
    by (simp add: users_delete_all_in_org_def on_connectors_def on_main_def set_identity_def set_connectors_def delete_where_none[OF e(3)]
        delete_where_none[OF e(4)])
qed

lemma ew_set_identity [simp]:
  "ew_mail (set_identity db w) = ew_mail w" "ew_db (set_identity db w) = ew_db w" "ew_facts (set_identity db w) = ew_facts w"
  "ew_identity (set_identity db w) = db"
  "w_denylist (cw_world (mw_connect (ew_main (set_identity db w)))) = w_denylist (cw_world (mw_connect (ew_main w)))"
  by (simp_all add: set_identity_def on_main_def)

lemma views_set_identity [simp]:
  "module_rows k org_id (set_identity db w) = module_rows k org_id w" "tenant_view other (set_identity db w) = tenant_view other w"
  unfolding module_rows_def tenant_view_def ew_set_identity by (rule refl)+

lemma ew_audit [simp]:
  "ew_mail (on_main (audit_event_in e i ev) w) = ew_mail w" "ew_db (on_main (audit_event_in e i ev) w) = ew_db w"
  "ew_facts (on_main (audit_event_in e i ev) w) = ew_facts w"
  "ew_identity (on_main (audit_event_in e i ev) w) = audit_insert (build_row e i ev) (ew_identity w)"
  "w_denylist (cw_world (mw_connect (ew_main (on_main (audit_event_in e i ev) w)))) = w_denylist (cw_world (mw_connect (ew_main w)))"
  by (simp_all add: on_main_def audit_event_in_def record_event_def)

lemma views_audit [simp]:
  "module_rows k org_id (on_main (audit_event_in e i ev) w) = module_rows k org_id w"
  "tenant_view other (on_main (audit_event_in e i ev) w) = tenant_view other w"
  unfolding module_rows_def tenant_view_def ew_audit by (rule refl)+

text \<open>The rows of the identity tables between the guards and the audit row.\<close>

definition scrubbed_identity :: "uuid \<Rightarrow> organization \<Rightarrow> identity_db \<Rightarrow> identity_db" where
  "scrubbed_identity org_id org db = organizations_save (org\<lparr>o_status := org_offboarded\<rparr>)
     (snd (users_delete_all_in_org org_id (snd (support_grants_scrub_decider_emails org_id
       (snd (refresh_tokens_delete_for_org_users org_id db))))))"

definition erasure_allowed :: "'tok crypto \<Rightarrow> organization \<Rightarrow> erasure_request \<Rightarrow> principal \<Rightarrow> eworld \<Rightarrow> bool" where
  "erasure_allowed cr org q actor w \<longleftrightarrow> eq_confirm_slug q = o_slug org \<and> \<not> o_legal_hold org
     \<and> (case platform_admins_get_by_id (ew_identity w) (p_subject_id actor) of
          None \<Rightarrow> False
        | Some a \<Rightarrow> pa_is_active a \<and> verify_password cr (eq_password q) (pa_password_hash a))"

lemma no_hook_missing: "filter (\<lambda>n. n \<notin> set (map fst registered_hooks)) REQUIRED_ERASURE_HOOKS = []"
  by (simp add: registered_hooks_eq REQUIRED_ERASURE_HOOKS_def)

lemma erase_refuses:
  assumes "\<not> (\<exists>org. organizations_get_for_update (ew_identity w) org_id = Some org \<and> erasure_allowed cr org q actor w)"
  shows "\<exists>err. erase_organization cr e registered_hooks org_id q actor w = (Inl err, w)"
  using assms unfolding erase_organization_def no_hook_missing erasure_allowed_def
  by (auto simp: Let_def split: option.splits)

lemma erase_runs:
  assumes org: "organizations_get_for_update (ew_identity w) org_id = Some org" and ok: "erasure_allowed cr org q actor w"
  obtains report w1 c w' where
    "run_hooks org_id registered_hooks ([], set_identity (snd (support_grants_scrub_decider_emails org_id
       (snd (refresh_tokens_delete_for_org_users org_id (ew_identity w))))) w) = (report, w1)"
    "erase_organization cr e registered_hooks org_id q actor w = (Inr c, w')"
    "ec_erased_rows_by_table c = report" "ec_org_id c = org_id" "ec_status c = org_offboarded"
    "ec_users_erased c = rowcount (\<lambda>u. u_org_id u = org_id) (users (ew_identity w))"
    "\<exists>row. al_action row = action_value ORG_ERASED \<and> al_org_id row = Some org_id \<and> al_actor_id row = Some (p_subject_id actor)
       \<and> ew_identity w' = audit_insert row (scrubbed_identity org_id org (ew_identity w))"
    "\<And>k. module_rows k org_id w' = module_rows k org_id w1" "\<And>other. tenant_view other w' = tenant_view other w1"
    "w_denylist (cw_world (mw_connect (ew_main w'))) = w_denylist (cw_world (mw_connect (ew_main w)))"
proof -
  let ?db1 = "snd (refresh_tokens_delete_for_org_users org_id (ew_identity w))"
  let ?db2 = "snd (support_grants_scrub_decider_emails org_id ?db1)"
  obtain report w1 where run: "run_hooks org_id registered_hooks ([], set_identity ?db2 w) = (report, w1)" by fastforce
  note hooks = app.hooks_erase_everything[OF run]
  have idb: "ew_identity w1 = ?db2" using hooks(3) by simp
  have us: "users ?db2 = users (ew_identity w)"
    by (simp add: support_grants_scrub_decider_emails_def refresh_tokens_delete_for_org_users_def Let_def)
  have del: "delete_users org_id w1 = Some (rowcount (\<lambda>u. u_org_id u = org_id) (users (ew_identity w)),
      set_identity (snd (users_delete_all_in_org org_id ?db2)) w1)"
    using delete_users_after_hooks[of org_id w1] hooks(1) idb us by (simp add: REQUIRED_ERASURE_HOOKS_def)
  obtain a where a: "platform_admins_get_by_id (ew_identity w) (p_subject_id actor) = Some a" "pa_is_active a"
    "verify_password cr (eq_password q) (pa_password_hash a)" "eq_confirm_slug q = o_slug org" "\<not> o_legal_hold org"
    using ok by (auto simp: erasure_allowed_def split: option.splits)
  let ?w2 = "set_identity (snd (users_delete_all_in_org org_id ?db2)) w1"
  obtain c n t k where er: "erase_organization cr e registered_hooks org_id q actor w =
      (Inr c, on_main (audit_event_in e (uuids e 0) (erased_event org_id q actor n t k report))
         (set_identity (scrubbed_identity org_id org (ew_identity w)) ?w2))"
    and c: "ec_erased_rows_by_table c = report" "ec_org_id c = org_id" "ec_status c = org_offboarded"
      "ec_users_erased c = rowcount (\<lambda>u. u_org_id u = org_id) (users (ew_identity w))"
    unfolding erase_organization_def no_hook_missing
    using org a run del by (fastforce simp: Let_def case_prod_beta scrubbed_identity_def)
  have row: "\<exists>row. al_action row = action_value ORG_ERASED \<and> al_org_id row = Some org_id \<and> al_actor_id row = Some (p_subject_id actor)
      \<and> audit_insert (build_row e (uuids e 0) (erased_event org_id q actor n t k report)) db = audit_insert row db" for db
    by (rule exI[of _ "build_row e (uuids e 0) (erased_event org_id q actor n t k report)"])
      (simp add: build_row_def erased_event_def audit_event_of_def)
  show thesis
    by (rule that[OF run er c]) (use row in \<open>simp_all add: hooks(3)\<close>)
qed

lemma scrubbed_identity_tables:
  "users (scrubbed_identity org_id org db) = delete_where (\<lambda>u. u_org_id u = org_id) (users db)"
  "refresh_tokens (scrubbed_identity org_id org db) = delete_where (owned_by_org_user db org_id) (refresh_tokens db)"
  "support_grants (scrubbed_identity org_id org db) =
     update_where (\<lambda>g. sg_org_id g = org_id \<and> sg_decided_by_email g \<noteq> None) (\<lambda>g. g\<lparr>sg_decided_by_email := None\<rparr>) (support_grants db)"
  "organizations (scrubbed_identity org_id org db) =
     update_where (\<lambda>x. o_id x = o_id org) (\<lambda>_. org\<lparr>o_status := org_offboarded\<rparr>) (organizations db)"
  "audit_log (scrubbed_identity org_id org db) = audit_log db" "platform_admins (scrubbed_identity org_id org db) = platform_admins db"
  by (simp_all add: scrubbed_identity_def organizations_save_def users_delete_all_in_org_def support_grants_scrub_decider_emails_def
      refresh_tokens_delete_for_org_users_def Let_def)

lemma decider_emails_gone:
  assumes "g \<in> set (update_where (\<lambda>g. sg_org_id g = org_id \<and> sg_decided_by_email g \<noteq> None) (\<lambda>g. g\<lparr>sg_decided_by_email := None\<rparr>) t)"
    and "sg_org_id g = org_id"
  shows "sg_decided_by_email g = None"
proof -
  from assms(1) obtain h where "h \<in> set t"
    and "g = (if sg_org_id h = org_id \<and> sg_decided_by_email h \<noteq> None then h\<lparr>sg_decided_by_email := None\<rparr> else h)"
    by (auto simp: update_where_def)
  with assms(2) show ?thesis by (cases "sg_org_id h = org_id \<and> sg_decided_by_email h \<noteq> None") auto
qed

lemma saved_rows:
  "r \<in> set (update_where (\<lambda>x. k x = i) (\<lambda>_. v) t) \<Longrightarrow> k r = i \<Longrightarrow> f r = f v"
  by (auto simp: update_where_def split: if_splits)

text \<open>A successful erasure has passed the guards.\<close>

lemma erase_Inr:
  assumes "erase_organization cr e registered_hooks org_id q actor w = (Inr c, w')"
  obtains org where "organizations_get_for_update (ew_identity w) org_id = Some org" "erasure_allowed cr org q actor w"
proof (cases "\<exists>org. organizations_get_for_update (ew_identity w) org_id = Some org \<and> erasure_allowed cr org q actor w")
  case True
  with that show thesis by blast
next
  case False
  from erase_refuses[OF this, of e] assms show thesis by auto
qed

text \<open>
  C6: A successful erasure with the hooks of the application leaves nothing of the organization behind: no row of the access, connector
  and entity modules, no user, no refresh token of a user it had, no decider address on its support grants. The organization is
  offboarded, the certificate counts exactly the rows that were there, and the one audit row of the deletion names the administrator.
\<close>

theorem erasure_complete:
  assumes "erase_organization cr e registered_hooks org_id q actor w = (Inr c, w')"
  shows "(\<forall>k \<in> set REQUIRED_ERASURE_HOOKS. module_rows k org_id w' = 0)
    \<and> (\<forall>u \<in> set (users (ew_identity w')). u_org_id u \<noteq> org_id)
    \<and> (\<forall>t \<in> set (refresh_tokens (ew_identity w')). \<not> owned_by_org_user (ew_identity w) org_id t)
    \<and> (\<forall>g \<in> set (support_grants (ew_identity w')). sg_org_id g = org_id \<longrightarrow> sg_decided_by_email g = None)
    \<and> (\<forall>r \<in> set (organizations (ew_identity w')). o_id r = org_id \<longrightarrow> o_status r = org_offboarded)
    \<and> sum_list (map snd (ec_erased_rows_by_table c)) = (\<Sum>k \<leftarrow> REQUIRED_ERASURE_HOOKS. module_rows k org_id w)
    \<and> ec_users_erased c = rowcount (\<lambda>u. u_org_id u = org_id) (users (ew_identity w))
    \<and> (\<exists>row. audit_log (ew_identity w') = audit_log (ew_identity w) @ [row] \<and> al_action row = action_value ORG_ERASED
         \<and> al_org_id row = Some org_id \<and> al_actor_id row = Some (p_subject_id actor))"
proof -
  obtain org where org: "organizations_get_for_update (ew_identity w) org_id = Some org" "erasure_allowed cr org q actor w"
    by (rule erase_Inr[OF assms])
  obtain report w1 row where run: "run_hooks org_id registered_hooks ([], set_identity (snd (support_grants_scrub_decider_emails org_id
       (snd (refresh_tokens_delete_for_org_users org_id (ew_identity w))))) w) = (report, w1)"
    and c: "ec_erased_rows_by_table c = report" "ec_users_erased c = rowcount (\<lambda>u. u_org_id u = org_id) (users (ew_identity w))"
    and row: "al_action row = action_value ORG_ERASED" "al_org_id row = Some org_id" "al_actor_id row = Some (p_subject_id actor)"
    and idb: "ew_identity w' = audit_insert row (scrubbed_identity org_id org (ew_identity w))"
    and rows: "\<And>k. module_rows k org_id w' = module_rows k org_id w1"
    by (rule erase_runs[OF org, of e]) (use assms in auto)
  have id: "o_id org = org_id" using org(1) by (auto simp: organizations_get_for_update_def dest: select_one_SomeD)
  have t: "users (ew_identity w') = delete_where (\<lambda>u. u_org_id u = org_id) (users (ew_identity w))"
    "refresh_tokens (ew_identity w') = delete_where (owned_by_org_user (ew_identity w) org_id) (refresh_tokens (ew_identity w))"
    "support_grants (ew_identity w') = update_where (\<lambda>g. sg_org_id g = org_id \<and> sg_decided_by_email g \<noteq> None)
       (\<lambda>g. g\<lparr>sg_decided_by_email := None\<rparr>) (support_grants (ew_identity w))"
    "organizations (ew_identity w') = update_where (\<lambda>x. o_id x = org_id) (\<lambda>_. org\<lparr>o_status := org_offboarded\<rparr>) (organizations (ew_identity w))"
    "audit_log (ew_identity w') = audit_log (ew_identity w) @ [row]"
    unfolding idb by (simp_all add: audit_insert_def scrubbed_identity_tables id)
  show ?thesis
    using app.hooks_erase_everything(1)[OF run] report_counts_rows[OF run] c row
    by (simp add: rows t delete_where_def decider_emails_gone saved_rows[where f = o_status])
qed

text \<open>
  An erasure succeeds exactly when every required hook is registered, the organization exists, its slug is typed, it is not under
  legal hold, and the password is that of the acting platform admin, who is active. Every other request is refused and changes nothing;
  that includes a process that registered only some of the hooks.
\<close>

theorem erasure_guarded:
  "let r = erase_organization cr e (filter (\<lambda>h. fst h \<in> N) registered_hooks) org_id q actor w
   in if set REQUIRED_ERASURE_HOOKS \<subseteq> N
        \<and> (\<exists>org admin. organizations_get_for_update (ew_identity w) org_id = Some org \<and> eq_confirm_slug q = o_slug org \<and> \<not> o_legal_hold org
             \<and> platform_admins_get_by_id (ew_identity w) (p_subject_id actor) = Some admin \<and> pa_is_active admin
             \<and> verify_password cr (eq_password q) (pa_password_hash admin))
      then \<exists>c. fst r = Inr c else (\<exists>err. fst r = Inl err) \<and> snd r = w"
proof (cases "set REQUIRED_ERASURE_HOOKS \<subseteq> N")
  case False
  let ?hooks = "filter (\<lambda>h. fst h \<in> N) registered_hooks"
  from False obtain n where "n \<in> set REQUIRED_ERASURE_HOOKS" "n \<notin> set (map fst ?hooks)" by auto
  then have "filter (\<lambda>n. n \<notin> set (map fst ?hooks)) REQUIRED_ERASURE_HOOKS \<noteq> []" by (metis (mono_tags, lifting) filter_empty_conv)
  with False show ?thesis by (simp add: erase_organization_def Let_def del: set_map)
next
  case True
  then have h: "filter (\<lambda>h. fst h \<in> N) registered_hooks = registered_hooks"
    by (simp add: registered_hooks_eq REQUIRED_ERASURE_HOOKS_def)
  have g: "(\<exists>org admin. organizations_get_for_update (ew_identity w) org_id = Some org \<and> eq_confirm_slug q = o_slug org \<and> \<not> o_legal_hold org
      \<and> platform_admins_get_by_id (ew_identity w) (p_subject_id actor) = Some admin \<and> pa_is_active admin
      \<and> verify_password cr (eq_password q) (pa_password_hash admin))
    \<longleftrightarrow> (\<exists>org. organizations_get_for_update (ew_identity w) org_id = Some org \<and> erasure_allowed cr org q actor w)"
    by (auto simp: erasure_allowed_def split: option.splits)
  show ?thesis unfolding h g Let_def
    using True erase_refuses[of w org_id cr q actor e] erase_runs[of w org_id _ cr q actor e] by (fastforce split: if_splits)
qed


section \<open>A concrete erasure\<close>

definition demo_eworld :: eworld where
  "demo_eworld = \<lparr>ew_main = demo_mworld\<lparr>mw_connect := (mw_connect demo_mworld)\<lparr>cw_world := (cw_world demo_cworld)\<lparr>w_db :=
       demo_tenant\<lparr>platform_admins := [\<lparr>pa_id = 1, pa_email = ''p@x'', pa_full_name = ''P'', pa_password_hash = ''$pw'', pa_is_active = True\<rparr>]\<rparr>\<rparr>\<rparr>\<rparr>,
     ew_facts = [\<lparr>fp_org_id = 7, fp_fact_id = 1, fp_source_object_type = ''email_message'', fp_source_object_id = 2, fp_quarantined = False\<rparr>]\<rparr>"

definition demo_erasure :: "(identity_error + erasure_certificate) \<times> eworld" where
  "demo_erasure = erase_organization demo_crypto (demo_env 60) registered_hooks 7
     \<lparr>eq_reason = ''contract ended'', eq_confirm_slug = ''acme'', eq_password = ''pw''\<rparr>
     \<lparr>p_subject_id = 1, p_org_id = None, p_role = ''platform_admin'', p_subject_type = subject_platform_admin\<rparr> demo_eworld"

lemma demo_erasure_ok:
  obtains c w' where "demo_erasure = (Inr c, w')"
proof -
  have org: "organizations_get_for_update (ew_identity demo_eworld) 7 = Some \<lparr>o_id = 7, o_name = ''Acme'', o_slug = ''acme'', o_status = org_active,
       o_legal_hold = False, o_created_at = 0\<rparr>" (is "_ = Some ?org")
    by (simp add: organizations_get_for_update_def demo_eworld_def demo_tenant_def)
  have allowed: "erasure_allowed demo_crypto ?org \<lparr>eq_reason = ''contract ended'', eq_confirm_slug = ''acme'', eq_password = ''pw''\<rparr>
     \<lparr>p_subject_id = 1, p_org_id = None, p_role = ''platform_admin'', p_subject_type = subject_platform_admin\<rparr> demo_eworld"
    by (simp add: erasure_allowed_def platform_admins_get_by_id_def demo_eworld_def demo_tenant_def verify_password_def demo_crypto_def)
  show thesis by (rule erase_runs[OF org allowed, of "demo_env 60"]) (rule that, simp only: demo_erasure_def)
qed

theorem erasure_complete_witness:
  "\<exists>c w'. demo_erasure = (Inr c, w') \<and> module_rows ''entities'' 7 demo_eworld = 1 \<and> module_rows ''entities'' 7 w' = 0
     \<and> ec_users_erased c = 1"
proof (rule demo_erasure_ok)
  fix c w'
  assume e: "demo_erasure = (Inr c, w')"
  have "module_rows ''entities'' 7 demo_eworld = 1" "rowcount (\<lambda>u. u_org_id u = 7) (users (ew_identity demo_eworld)) = 1"
    by (simp_all add: module_rows_def mail_view_def entity_view_def demo_eworld_def demo_mworld_def demo_mail_db_def demo_resolver_def demo_tenant_def
        rowcount_def)
  moreover note fin = erasure_complete[OF e[unfolded demo_erasure_def]]
  have "\<forall>k \<in> set REQUIRED_ERASURE_HOOKS. module_rows k 7 w' = 0" using fin by (rule conjunct1)
  then have "module_rows ''entities'' 7 w' = 0" by (simp add: REQUIRED_ERASURE_HOOKS_def)
  moreover have "ec_users_erased c = rowcount (\<lambda>u. u_org_id u = 7) (users (ew_identity demo_eworld))" using fin by (elim conjE)
  ultimately show ?thesis using e by (intro exI[of _ c] exI[of _ w'] conjI) (simp_all only:)
qed


end
