(* ===== verification/Py_Regex.thy ===== *)
theory Py_Regex
  imports Py_Strings
begin

text \<open>
  The part of Python's \<open>re\<close> the backend's patterns use: a backtracking matcher over a position in a text (the characters before it,
  last one first, and the characters after it), alternatives in the order Python tries them, and the left-to-right scan of
  \<open>Pattern.sub\<close>.
\<close>

section \<open>Patterns\<close>

type_synonym pos = "string \<times> string"

text \<open>
  \<open>Rep P m n\<close> is the greedy \<open>[P]{m,n}\<close> (\<open>n = None\<close>: no upper bound), \<open>Lazy\<close> the non-greedy star of a pattern that consumes one
  character, \<open>WordB\<close> is \<open>\b\<close>, \<open>NotBehind P\<close> is \<open>(?<![P])\<close> and \<open>NotAhead r\<close> is \<open>(?!r)\<close>.
\<close>

datatype rx =
    Eps
  | Cls "char \<Rightarrow> bool"
  | Seq rx rx
  | Alt rx rx
  | Rep "char \<Rightarrow> bool" nat "nat option"
  | Lazy rx
  | WordB
  | NotBehind "char \<Rightarrow> bool"
  | NotAhead rx

definition word_char :: "char \<Rightarrow> bool" where
  "word_char c = (let n = (of_char c :: nat) in
     (48 \<le> n \<and> n \<le> 57) \<or> (65 \<le> n \<and> n \<le> 90) \<or> n = 95 \<or> (97 \<le> n \<and> n \<le> 122)
     \<or> n \<in> {170, 178, 179, 181, 185, 186, 188, 189, 190} \<or> (192 \<le> n \<and> n \<noteq> 215 \<and> n \<noteq> 247))"

definition head_is :: "(char \<Rightarrow> bool) \<Rightarrow> string \<Rightarrow> bool" where
  "head_is P s = (case s of [] \<Rightarrow> False | c # _ \<Rightarrow> P c)"

definition at_boundary :: "pos \<Rightarrow> bool" where
  "at_boundary s = (head_is word_char (fst s) \<noteq> head_is word_char (snd s))"

definition advance_by :: "nat \<Rightarrow> pos \<Rightarrow> pos" where
  "advance_by k s = (rev (take k (snd s)) @ fst s, drop k (snd s))"

fun lazy_alts :: "(pos \<Rightarrow> pos list) \<Rightarrow> nat \<Rightarrow> pos \<Rightarrow> pos list" where
  "lazy_alts f 0 s = [s]"
| "lazy_alts f (Suc n) s = s # concat (map (lazy_alts f n) (f s))"

text \<open>All ways to match at a position, best first.\<close>

fun alts :: "rx \<Rightarrow> pos \<Rightarrow> pos list" where
  "alts Eps s = [s]"
| "alts (Cls P) s = (if head_is P (snd s) then [advance_by 1 s] else [])"
| "alts (Seq r q) s = concat (map (alts q) (alts r s))"
| "alts (Alt r q) s = alts r s @ alts q s"
| "alts (Rep P m n) s =
     (let k = length (takeWhile P (snd s)); top = (case n of None \<Rightarrow> k | Some u \<Rightarrow> min k u)
      in map (\<lambda>i. advance_by i s) (rev [m..<Suc top]))"
| "alts (Lazy r) s = lazy_alts (alts r) (length (snd s)) s"
| "alts WordB s = (if at_boundary s then [s] else [])"
| "alts (NotBehind P) s = (if head_is P (fst s) then [] else [s])"
| "alts (NotAhead r) s = (if alts r s = [] then [s] else [])"

primrec Lit :: "string \<Rightarrow> rx" where
  "Lit [] = Eps"
| "Lit (c # s) = Seq (Cls (\<lambda>x. x = c)) (Lit s)"

text \<open>A literal under \<open>re.IGNORECASE\<close>.\<close>

primrec LitI :: "string \<Rightarrow> rx" where
  "LitI [] = Eps"
| "LitI (c # s) = Seq (Cls (\<lambda>x. lower_char x = lower_char c)) (LitI s)"

definition Opt :: "rx \<Rightarrow> rx" where
  "Opt r = Alt r Eps"

fun AnyOf :: "rx list \<Rightarrow> rx" where
  "AnyOf [] = NotAhead Eps"
| "AnyOf [r] = r"
| "AnyOf (r # rs) = Alt r (AnyOf rs)"

definition match_at :: "rx \<Rightarrow> pos \<Rightarrow> pos option" where
  "match_at r s = (case alts r s of [] \<Rightarrow> None | s' # _ \<Rightarrow> Some s')"

text \<open>The text between two positions of one text.\<close>

definition between :: "pos \<Rightarrow> pos \<Rightarrow> string" where
  "between s s' = take (length (snd s) - length (snd s')) (snd s)"

section \<open>Substitution\<close>

text \<open>
  A piece of the result: a source text with what replaces it and whether that counts as a replacement. The scan asks \<open>f\<close> for the
  pieces of a match at the current position; where there is none one character is copied. The patterns of the backend never
  match the empty string (a match that consumes nothing is passed over).
\<close>

record piece =
  pc_source :: string
  pc_out :: string
  pc_counted :: bool

definition kept :: "string \<Rightarrow> piece" where
  "kept s = \<lparr>pc_source = s, pc_out = s, pc_counted = False\<rparr>"

definition progress_at :: "(pos \<Rightarrow> (piece list \<times> pos) option) \<Rightarrow> pos \<Rightarrow> (piece list \<times> pos) option" where
  "progress_at f s = (case f s of None \<Rightarrow> None | Some (ps, s') \<Rightarrow> if length (snd s') < length (snd s) then Some (ps, s') else None)"

function scan :: "(pos \<Rightarrow> (piece list \<times> pos) option) \<Rightarrow> pos \<Rightarrow> piece list" where
  "scan f s =
     (case progress_at f s of
        Some (ps, s') \<Rightarrow> ps @ scan f s'
      | None \<Rightarrow> (case snd s of [] \<Rightarrow> [] | c # _ \<Rightarrow> kept [c] # scan f (advance_by 1 s)))"
  by pat_completeness auto
termination by (relation "measure (\<lambda>(f, s). length (snd s))") (auto simp: advance_by_def progress_at_def split: option.splits if_splits)

declare scan.simps [simp del]

definition rendered :: "piece list \<Rightarrow> string \<times> nat" where
  "rendered ps = (concat (map pc_out ps), length (filter pc_counted ps))"

text \<open>\<open>pattern.subn(placeholder, text)\<close>.\<close>

definition whole_match :: "rx \<Rightarrow> string \<Rightarrow> pos \<Rightarrow> (piece list \<times> pos) option" where
  "whole_match r rep s =
     (case match_at r s of None \<Rightarrow> None | Some s' \<Rightarrow> Some ([\<lparr>pc_source = between s s', pc_out = rep, pc_counted = True\<rparr>], s'))"

definition subn :: "rx \<Rightarrow> string \<Rightarrow> string \<Rightarrow> string \<times> nat" where
  "subn r rep text = rendered (scan (whole_match r rep) ([], text))"

section \<open>What a match is\<close>

text \<open>A match moves forward in the same text.\<close>

definition moves :: "pos \<Rightarrow> pos \<Rightarrow> bool" where
  "moves s s' \<longleftrightarrow> (\<exists>w. snd s = w @ snd s' \<and> fst s' = rev w @ fst s)"

lemma moves_refl [simp]: "moves s s"
  by (simp add: moves_def)

lemma moves_trans: "moves s s' \<Longrightarrow> moves s' s'' \<Longrightarrow> moves s s''"
  by (force simp: moves_def)

lemma moves_advance: "moves s (advance_by k s)"
  by (auto simp: moves_def advance_by_def intro: exI[of _ "take k (snd s)"])

lemma moves_between: "moves s s' \<Longrightarrow> snd s = between s s' @ snd s'" "moves s s' \<Longrightarrow> fst s' = rev (between s s') @ fst s"
  by (auto simp: moves_def between_def)

lemma lazy_alts_moves:
  assumes "\<And>s s'. s' \<in> set (f s) \<Longrightarrow> moves s s'"
  shows "s' \<in> set (lazy_alts f n s) \<Longrightarrow> moves s s'"
  by (induction n arbitrary: s) (auto intro: moves_trans assms)

lemma alts_moves: "s' \<in> set (alts r s) \<Longrightarrow> moves s s'"
proof (induction r arbitrary: s s')
  case (Lazy r)
  show ?case using lazy_alts_moves[of "alts r", OF Lazy.IH] Lazy.prems by simp
next
  case (Seq r q)
  from Seq.prems obtain s1 where "s1 \<in> set (alts r s)" "s' \<in> set (alts q s1)" by auto
  with Seq.IH show ?case using moves_trans by blast
qed (auto split: if_splits intro: moves_advance simp: Let_def)

lemma match_at_in: "match_at r s = Some s' \<Longrightarrow> s' \<in> set (alts r s)"
  by (auto simp: match_at_def split: list.splits)

lemma match_at_None: "match_at r s = None \<longleftrightarrow> alts r s = []"
  by (simp add: match_at_def split: list.splits)

lemma match_at_moves: "match_at r s = Some s' \<Longrightarrow> moves s s'"
  using match_at_in alts_moves by blast

section \<open>What a scan does\<close>

text \<open>The contract of a matcher: its pieces are the text it consumed.\<close>

definition faithful :: "(pos \<Rightarrow> (piece list \<times> pos) option) \<Rightarrow> bool" where
  "faithful f \<longleftrightarrow> (\<forall>s ps s'. f s = Some (ps, s') \<longrightarrow> moves s s' \<and> concat (map pc_source ps) = between s s')"

lemma whole_match_faithful: "faithful (whole_match r rep)"
  by (auto simp: faithful_def whole_match_def match_at_moves split: option.splits)

lemma progress_at_Some: "progress_at f s = Some (ps, s') \<longleftrightarrow> f s = Some (ps, s') \<and> length (snd s') < length (snd s)"
  by (auto simp: progress_at_def split: option.splits)

lemma scan_match: "progress_at f s = Some (ps, s') \<Longrightarrow> scan f s = ps @ scan f s'"
  and scan_skip: "progress_at f s = None \<Longrightarrow> snd s = c # a \<Longrightarrow> scan f s = kept [c] # scan f (c # fst s, a)"
  and scan_end: "progress_at f s = None \<Longrightarrow> snd s = [] \<Longrightarrow> scan f s = []"
  by (subst scan.simps, simp add: advance_by_def)+

text \<open>Induction along a scan.\<close>

lemma scan_induct [case_names match skip stop]:
  assumes "\<And>s ps s'. progress_at f s = Some (ps, s') \<Longrightarrow> P s' \<Longrightarrow> P s"
    and "\<And>b c a. progress_at f (b, c # a) = None \<Longrightarrow> P (c # b, a) \<Longrightarrow> P (b, c # a)"
    and "\<And>b. progress_at f (b, []) = None \<Longrightarrow> P (b, [])"
  shows "P s"
proof (induction "length (snd s)" arbitrary: s rule: less_induct)
  case less
  show ?case
  proof (cases "progress_at f s")
    case (Some r)
    obtain ps s' where r: "r = (ps, s')" by (cases r)
    with Some have "length (snd s') < length (snd s)" by (auto simp: progress_at_def split: option.splits if_splits)
    with assms(1)[OF Some[unfolded r]] less show ?thesis by blast
  next
    case None
    obtain b a where s: "s = (b, a)" by (cases s)
    show ?thesis using None assms(2,3) less unfolding s by (cases a) auto
  qed
qed

lemma progress_at_faithful: "faithful f \<Longrightarrow> progress_at f s = Some (ps, s') \<Longrightarrow> moves s s' \<and> concat (map pc_source ps) = between s s'"
  unfolding progress_at_Some faithful_def by blast

lemma scan_source: "faithful f \<Longrightarrow> concat (map pc_source (scan f s)) = snd s"
proof (induction s rule: scan_induct[where f = f])
  case (match s ps s')
  with progress_at_faithful[OF match(3,1)] show ?case using moves_between(1)[of s s'] by (simp add: scan_match)
next
  case (skip b c a)
  then show ?case by (simp add: scan_skip kept_def)
qed (simp add: scan_end)

lemma scan_pieces: "p \<in> set (scan f s) \<Longrightarrow> (\<exists>c. p = kept [c]) \<or> (\<exists>s' ps s''. f s' = Some (ps, s'') \<and> p \<in> set ps)"
proof (induction s rule: scan_induct[where f = f])
  case (match s ps s')
  from match(1) have "f s = Some (ps, s')" by (simp add: progress_at_Some)
  moreover from match(3) have "p \<in> set ps \<or> p \<in> set (scan f s')" by (simp add: scan_match[OF match(1)])
  ultimately show ?case using match(2) by blast
next
  case (skip b c a)
  then show ?case by (auto simp: scan_skip)
qed (simp add: scan_end)

text \<open>A text in which nothing matches is left alone.\<close>

lemma uncounted_kept:
  assumes "\<And>p. p \<in> set ps \<Longrightarrow> \<not> pc_counted p \<Longrightarrow> pc_out p = pc_source p" and "snd (rendered ps) = 0"
  shows "fst (rendered ps) = concat (map pc_source ps)"
  using assms by (induction ps) (auto simp: rendered_def split: if_splits)

end
