(* ===== verification/Extraction_Core.thy ===== *)
theory Extraction_Core
  imports Mail_Tables
begin

text \<open>
  What every attachment extractor builds on: the status vocabulary (\<open>connectors/extraction/extraction_result.py\<close>), the sanitization
  and the charset chain of stored text (\<open>text_sanitize.py\<close>), the table serialization (\<open>common.py\<close>) and the byte sniffer
  (\<open>sniff.py\<close>). Bytes and texts are strings of code points up to 255, so the lone surrogates the sanitization also strips do not
  occur. The codecs of the standard library, the charset detector and the HTML and RTF flatteners are arguments: they return a value
  or raise (\<open>Inl\<close> the class name of the exception).
\<close>

section \<open>Statuses and results\<close>

type_synonym 'a fallible = "string + 'a"

definition bindE :: "'a fallible \<Rightarrow> ('a \<Rightarrow> 'b fallible) \<Rightarrow> 'b fallible" where
  "bindE r f = (case r of Inl e \<Rightarrow> Inl e | Inr x \<Rightarrow> f x)"

lemma bindE_simps [simp]: "bindE (Inl e) f = Inl e" "bindE (Inr x) f = f x"
  by (simp_all add: bindE_def)

lemma bindE_Inr: "bindE r f = Inr y \<longleftrightarrow> (\<exists>x. r = Inr x \<and> f x = Inr y)"
  by (cases r) simp_all

definition STATUS_EXTRACTED :: string where
  "STATUS_EXTRACTED = ''extracted''"

definition STATUS_TRUNCATED :: string where
  "STATUS_TRUNCATED = ''truncated''"

definition STATUS_EMPTY :: string where
  "STATUS_EMPTY = ''empty''"

definition STATUS_CORRUPT :: string where
  "STATUS_CORRUPT = ''corrupt''"

definition STATUS_ENCRYPTED :: string where
  "STATUS_ENCRYPTED = ''encrypted''"

definition STATUS_SCANNED_PENDING_OCR :: string where
  "STATUS_SCANNED_PENDING_OCR = ''scanned_pending_ocr''"

definition STATUS_EXTRACTED_PARTIAL_SCANNED :: string where
  "STATUS_EXTRACTED_PARTIAL_SCANNED = ''extracted_partial_scanned''"

definition STATUS_UNSUPPORTED_FORMAT :: string where
  "STATUS_UNSUPPORTED_FORMAT = ''unsupported_format''"

definition STATUS_SKIPPED_OVERSIZE :: string where
  "STATUS_SKIPPED_OVERSIZE = ''skipped_oversize''"

definition STATUS_SKIPPED_NONDOCUMENT :: string where
  "STATUS_SKIPPED_NONDOCUMENT = ''skipped_nondocument''"

lemmas status_defs = STATUS_PENDING_def STATUS_EXTRACTED_def STATUS_TRUNCATED_def STATUS_EMPTY_def STATUS_CORRUPT_def STATUS_ENCRYPTED_def
  STATUS_SCANNED_PENDING_OCR_def STATUS_EXTRACTED_PARTIAL_SCANNED_def STATUS_UNSUPPORTED_FORMAT_def STATUS_SKIPPED_OVERSIZE_def
  STATUS_SKIPPED_NONDOCUMENT_def

definition EXTRACTION_STATUSES :: "string list" where
  "EXTRACTION_STATUSES = [STATUS_PENDING, STATUS_EXTRACTED, STATUS_TRUNCATED, STATUS_EMPTY, STATUS_CORRUPT, STATUS_ENCRYPTED,
     STATUS_SCANNED_PENDING_OCR, STATUS_EXTRACTED_PARTIAL_SCANNED, STATUS_UNSUPPORTED_FORMAT, STATUS_SKIPPED_OVERSIZE,
     STATUS_SKIPPED_NONDOCUMENT]"

definition TEXT_BEARING_STATUSES :: "string list" where
  "TEXT_BEARING_STATUSES = [STATUS_EXTRACTED, STATUS_TRUNCATED, STATUS_EXTRACTED_PARTIAL_SCANNED]"

text \<open>The constructor with the defaults of the data class.\<close>

definition extraction :: "string option \<Rightarrow> string \<Rightarrow> string option \<Rightarrow> (string \<times> string) option \<Rightarrow> extraction_result" where
  "extraction t status detail provenance = \<lparr>xr_text = t, xr_status = status, xr_detail = detail,
     xr_extractor_name = map_option fst provenance, xr_extractor_version = map_option snd provenance, xr_structured = None\<rparr>"

definition MAX_EXTRACTED_CHARS :: nat where
  "MAX_EXTRACTED_CHARS = 2000000"

section \<open>Decimal numerals\<close>

fun show_nat :: "nat \<Rightarrow> string" where
  "show_nat n = (if n < 10 then [char_of (48 + n)] else show_nat (n div 10) @ [char_of (48 + n mod 10)])"

declare show_nat.simps [simp del]

section \<open>Stored text\<close>

abbreviation LF :: char where
  "LF \<equiv> CHR 0x0A"

abbreviation CR :: char where
  "CR \<equiv> CHR 0x0D"

definition unstorable :: "char \<Rightarrow> bool" where
  "unstorable c = (let n = (of_char c :: nat) in n \<le> 8 \<or> n = 11 \<or> n = 12 \<or> (14 \<le> n \<and> n \<le> 31))"

fun replace_crlf :: "string \<Rightarrow> string" where
  "replace_crlf (a # b # s) = (if a = CR \<and> b = LF then LF # replace_crlf s else a # replace_crlf (b # s))"
| "replace_crlf s = s"

definition sanitize_body_text :: "string \<Rightarrow> string" where
  "sanitize_body_text text =
     py_strip (filter (\<lambda>c. \<not> unstorable c) (map (\<lambda>c. if c = CR then LF else c) (replace_crlf text)))"

section \<open>The charset chain\<close>

text \<open>A strict decode: the text, a decode error at an offset, an unknown charset, or another exception of the codec.\<close>

datatype codec_result = Decoded string | Decode_error nat | Lookup_error | Codec_raises string

record codecs =
  cd_decode :: "string \<Rightarrow> string \<Rightarrow> codec_result"
  cd_decode_replace :: "string \<Rightarrow> string \<Rightarrow> codec_result"
  cd_detect :: "string list \<Rightarrow> string \<Rightarrow> string option"
  cd_encode :: "string \<Rightarrow> string \<Rightarrow> string option"
  cd_html_to_text :: "string \<Rightarrow> string fallible"
  cd_rtf_to_text :: "string \<Rightarrow> string fallible"
  cd_version :: "string \<Rightarrow> string option"

definition package_version :: "codecs \<Rightarrow> string \<Rightarrow> string" where
  "package_version cd package = (case cd_version cd package of Some v \<Rightarrow> v | None \<Rightarrow> ''unknown'')"

definition CHARSET_FALLBACKS :: "string list" where
  "CHARSET_FALLBACKS = [''cp1252'', ''windows-1251'']"

definition DETECTION_CANDIDATES :: "string list" where
  "DETECTION_CANDIDATES = [''utf_8'', ''cp1252'', ''cp1251'']"

definition DETECTION_MIN_NON_ASCII :: nat where
  "DETECTION_MIN_NON_ASCII = 16"

definition decode_by_coherence :: "codecs \<Rightarrow> string \<Rightarrow> string option" where
  "decode_by_coherence cd payload =
     (if length (filter (\<lambda>c. \<not> (of_char c :: nat) < 128) payload) < DETECTION_MIN_NON_ASCII then None
      else cd_detect cd DETECTION_CANDIDATES payload)"

text \<open>The last link: the declared charset with replacement characters, UTF-8 where that charset is unknown.\<close>

definition decode_replacing :: "codecs \<Rightarrow> string \<Rightarrow> string \<Rightarrow> string fallible" where
  "decode_replacing cd charset payload =
     (case cd_decode_replace cd charset payload of
        Decoded t \<Rightarrow> Inr t
      | Lookup_error \<Rightarrow>
        (case cd_decode_replace cd ''utf-8'' payload of
           Decoded t \<Rightarrow> Inr t | Lookup_error \<Rightarrow> Inl ''LookupError'' | Decode_error _ \<Rightarrow> Inl ''UnicodeDecodeError'' | Codec_raises e \<Rightarrow> Inl e)
      | Decode_error _ \<Rightarrow> Inl ''UnicodeDecodeError''
      | Codec_raises e \<Rightarrow> Inl e)"

fun try_fallbacks :: "codecs \<Rightarrow> string \<Rightarrow> string list \<Rightarrow> string \<Rightarrow> string fallible" where
  "try_fallbacks cd charset [] payload = decode_replacing cd charset payload"
| "try_fallbacks cd charset (c # cs) payload =
     (case cd_decode cd c payload of
        Decoded t \<Rightarrow> Inr t
      | Codec_raises e \<Rightarrow> Inl e
      | _ \<Rightarrow> try_fallbacks cd charset cs payload)"

definition decode_charset_chain :: "codecs \<Rightarrow> string \<Rightarrow> string option \<Rightarrow> string fallible" where
  "decode_charset_chain cd payload declared_charset =
     (let charset = (case declared_charset of None \<Rightarrow> ''utf-8'' | Some c \<Rightarrow> if c = [] then ''utf-8'' else c)
      in case cd_decode cd charset payload of
           Decoded t \<Rightarrow> Inr t
         | Codec_raises e \<Rightarrow> Inl e
         | _ \<Rightarrow> (case decode_by_coherence cd payload of Some t \<Rightarrow> Inr t | None \<Rightarrow> try_fallbacks cd charset CHARSET_FALLBACKS payload))"

text \<open>Repair of a text that was decoded under a wrong single-byte code page, whole or line by line.\<close>

definition redecode_if_single_byte :: "codecs \<Rightarrow> string \<Rightarrow> string option fallible" where
  "redecode_if_single_byte cd text =
     (case (case cd_encode cd ''cp1252'' text of Some raw \<Rightarrow> Some raw | None \<Rightarrow> cd_encode cd ''latin-1'' text) of
        None \<Rightarrow> Inr None
      | Some raw \<Rightarrow> (case decode_charset_chain cd raw None of Inl e \<Rightarrow> Inl e | Inr t \<Rightarrow> Inr (Some t)))"

fun repair_lines :: "codecs \<Rightarrow> string list \<Rightarrow> string list fallible" where
  "repair_lines cd [] = Inr []"
| "repair_lines cd (line # ls) =
     (case redecode_if_single_byte cd line of
        Inl e \<Rightarrow> Inl e
      | Inr fixed \<Rightarrow> (case repair_lines cd ls of Inl e \<Rightarrow> Inl e | Inr rs \<Rightarrow> Inr ((case fixed of None \<Rightarrow> line | Some f \<Rightarrow> f) # rs)))"

fun join_with :: "string \<Rightarrow> string list \<Rightarrow> string" where
  "join_with sep [] = []"
| "join_with sep [s] = s"
| "join_with sep (s # t # ss) = s @ sep @ join_with sep (t # ss)"

definition redecode_single_byte_text :: "codecs \<Rightarrow> string \<Rightarrow> string fallible" where
  "redecode_single_byte_text cd text =
     (case redecode_if_single_byte cd text of
        Inl e \<Rightarrow> Inl e
      | Inr (Some repaired) \<Rightarrow> Inr repaired
      | Inr None \<Rightarrow> map_sum id (join_with [LF]) (repair_lines cd (split_where (\<lambda>c. c = LF) text)))"

section \<open>Tables\<close>

definition serialize_row :: "string option list \<Rightarrow> string" where
  "serialize_row row = join_with '' | '' (map (\<lambda>cell. py_strip (map (\<lambda>c. if c = LF then CHR '' '' else c) (case cell of None \<Rightarrow> [] | Some s \<Rightarrow> s))) row)"

definition serialize_table :: "string option list list \<Rightarrow> string" where
  "serialize_table table =
     (let lines = map serialize_row table
      in if \<not> (\<exists>line \<in> set lines. py_strip_chars line '' |'' \<noteq> []) then [] else join_with [LF] lines)"

section \<open>Sniffing\<close>

definition KIND_PDF :: string where
  "KIND_PDF = ''pdf''"

definition KIND_ZIP :: string where
  "KIND_ZIP = ''zip''"

definition KIND_OLE :: string where
  "KIND_OLE = ''ole''"

definition KIND_TNEF :: string where
  "KIND_TNEF = ''tnef''"

definition KIND_TEXT :: string where
  "KIND_TEXT = ''text''"

definition KIND_UNKNOWN :: string where
  "KIND_UNKNOWN = ''unknown''"

lemmas kind_defs = KIND_PDF_def KIND_ZIP_def KIND_OLE_def KIND_TNEF_def KIND_TEXT_def KIND_UNKNOWN_def

definition TEXT_PROBE_BYTES :: nat where
  "TEXT_PROBE_BYTES = 4096"

definition TEXT_PRINTABLE_RATIO :: rat where
  "TEXT_PRINTABLE_RATIO = 9 / 10"

definition ZIP_MAGIC :: string where
  "ZIP_MAGIC = ''PK'' @ [CHR 0x03, CHR 0x04]"

definition OLE_MAGIC :: string where
  "OLE_MAGIC = [CHR 0xD0, CHR 0xCF, CHR 0x11, CHR 0xE0, CHR 0xA1, CHR 0xB1, CHR 0x1A, CHR 0xE1]"

definition TNEF_MAGIC :: string where
  "TNEF_MAGIC = [CHR 0x78, CHR 0x9F, CHR 0x3E, CHR 0x22]"

definition UTF8_BOM :: string where
  "UTF8_BOM = [CHR 0xEF, CHR 0xBB, CHR 0xBF]"

definition ASCII_WHITESPACE :: string where
  "ASCII_WHITESPACE = [CHR '' '', CHR 0x09, CR, LF, CHR 0x0B, CHR 0x0C]"

text \<open>\<open>str.isprintable\<close> on one character.\<close>

definition py_isprintable :: "char \<Rightarrow> bool" where
  "py_isprintable c = (let n = (of_char c :: nat) in (32 \<le> n \<and> n \<le> 126) \<or> (161 \<le> n \<and> n \<noteq> 173))"

definition TEXT_WHITESPACE :: string where
  "TEXT_WHITESPACE = [CHR 0x09, LF, CR, CHR 0x0B, CHR 0x0C]"

definition printable_ratio :: "string \<Rightarrow> rat" where
  "printable_ratio text = (if text = [] then 0
     else of_nat (length (filter (\<lambda>c. py_isprintable c \<or> c \<in> set TEXT_WHITESPACE) text)) / of_nat (length text))"

definition remove_prefix :: "string \<Rightarrow> string \<Rightarrow> string" where
  "remove_prefix p s = (if prefix p s then drop (length p) s else s)"

definition looks_like_pdf :: "string \<Rightarrow> bool" where
  "looks_like_pdf data =
     prefix ''%PDF-'' (dropWhile (\<lambda>c. c \<in> set ASCII_WHITESPACE) (remove_prefix UTF8_BOM (take TEXT_PROBE_BYTES data)))"

text \<open>A decode error in the last three bytes of a probe that was cut off is the cut's, not the text's.\<close>

definition strict_probe_decode :: "codecs \<Rightarrow> string \<Rightarrow> nat \<Rightarrow> string option fallible" where
  "strict_probe_decode cd probe total_length =
     (let cp1252 = (case cd_decode cd ''cp1252'' probe of
                      Decoded t \<Rightarrow> Inr (Some t) | Decode_error _ \<Rightarrow> Inr None | Lookup_error \<Rightarrow> Inl ''LookupError'' | Codec_raises e \<Rightarrow> Inl e)
      in case cd_decode cd ''utf-8'' probe of
           Decoded t \<Rightarrow> Inr (Some t)
         | Lookup_error \<Rightarrow> Inl ''LookupError''
         | Codec_raises e \<Rightarrow> Inl e
         | Decode_error start \<Rightarrow>
           if total_length > length probe \<and> int start \<ge> int (length probe) - 3
           then (case cd_decode cd ''utf-8'' (take start probe) of
                   Decoded t \<Rightarrow> Inr (Some t) | Decode_error _ \<Rightarrow> cp1252 | Lookup_error \<Rightarrow> Inl ''LookupError'' | Codec_raises e \<Rightarrow> Inl e)
           else cp1252)"

definition decodes_as_text :: "codecs \<Rightarrow> string \<Rightarrow> nat \<Rightarrow> bool fallible" where
  "decodes_as_text cd probe total_length =
     (if probe = [] then Inr False
      else (case strict_probe_decode cd probe total_length of
              Inl e \<Rightarrow> Inl e
            | Inr None \<Rightarrow> Inr False
            | Inr (Some decoded) \<Rightarrow> Inr (decoded \<noteq> [] \<and> printable_ratio decoded \<ge> TEXT_PRINTABLE_RATIO)))"

definition detect_payload_kind :: "codecs \<Rightarrow> string \<Rightarrow> string fallible" where
  "detect_payload_kind cd data =
     (if prefix ZIP_MAGIC data then Inr KIND_ZIP
      else if prefix OLE_MAGIC data then Inr KIND_OLE
      else if prefix TNEF_MAGIC data then Inr KIND_TNEF
      else if looks_like_pdf data then Inr KIND_PDF
      else (case decodes_as_text cd (take TEXT_PROBE_BYTES data) (length data) of
              Inl e \<Rightarrow> Inl e | Inr b \<Rightarrow> Inr (if b then KIND_TEXT else KIND_UNKNOWN)))"

section \<open>What a result promises\<close>

definition storable_text :: "string \<Rightarrow> bool" where
  "storable_text t \<longleftrightarrow> list_all (\<lambda>c. \<not> unstorable c \<and> c \<noteq> CR) t"

text \<open>
  A result bears a text exactly under the statuses that promise one; that text is not empty and can be stored.
\<close>

definition result_ok :: "extraction_result \<Rightarrow> bool" where
  "result_ok x \<longleftrightarrow> xr_status x \<in> set EXTRACTION_STATUSES \<and> (xr_text x \<noteq> None \<longleftrightarrow> xr_status x \<in> set TEXT_BEARING_STATUSES)
     \<and> (\<forall>t. xr_text x = Some t \<longrightarrow> t \<noteq> [] \<and> storable_text t)"

definition capped :: "extraction_result \<Rightarrow> bool" where
  "capped x \<longleftrightarrow> (\<forall>t. xr_text x = Some t \<longrightarrow> length t \<le> MAX_EXTRACTED_CHARS)"

lemma storable_sanitized: "storable_text (sanitize_body_text t)"
proof -
  have "\<not> unstorable c \<and> c \<noteq> CR" if "c \<in> set (sanitize_body_text t)" for c
  proof -
    have "c \<in> set (filter (\<lambda>c. \<not> unstorable c) (map (\<lambda>c. if c = CR then LF else c) (replace_crlf t)))"
      using that set_strip_where unfolding sanitize_body_text_def py_strip_def by blast
    then show ?thesis by (auto split: if_splits)
  qed
  then show ?thesis by (simp add: storable_text_def list_all_iff)
qed

lemma storable_take: "storable_text t \<Longrightarrow> storable_text (take n t)"
  by (auto simp: storable_text_def list_all_iff dest: in_set_takeD)

lemma result_ok_none: "status \<in> set EXTRACTION_STATUSES \<Longrightarrow> status \<notin> set TEXT_BEARING_STATUSES \<Longrightarrow> result_ok (extraction None status d p)"
  by (simp add: result_ok_def extraction_def)

lemma capped_none [simp]: "capped (extraction None status d p)"
  by (simp add: capped_def extraction_def)

lemma result_ok_text: "status \<in> set TEXT_BEARING_STATUSES \<Longrightarrow> t \<noteq> [] \<Longrightarrow> storable_text t \<Longrightarrow> result_ok (extraction (Some t) status d p)"
  by (auto simp: result_ok_def extraction_def TEXT_BEARING_STATUSES_def EXTRACTION_STATUSES_def)

lemma no_text_statuses:
  "STATUS_EMPTY \<in> set EXTRACTION_STATUSES" "STATUS_EMPTY \<notin> set TEXT_BEARING_STATUSES"
  "STATUS_CORRUPT \<in> set EXTRACTION_STATUSES" "STATUS_CORRUPT \<notin> set TEXT_BEARING_STATUSES"
  "STATUS_ENCRYPTED \<in> set EXTRACTION_STATUSES" "STATUS_ENCRYPTED \<notin> set TEXT_BEARING_STATUSES"
  "STATUS_SCANNED_PENDING_OCR \<in> set EXTRACTION_STATUSES" "STATUS_SCANNED_PENDING_OCR \<notin> set TEXT_BEARING_STATUSES"
  "STATUS_UNSUPPORTED_FORMAT \<in> set EXTRACTION_STATUSES" "STATUS_UNSUPPORTED_FORMAT \<notin> set TEXT_BEARING_STATUSES"
  "STATUS_SKIPPED_OVERSIZE \<in> set EXTRACTION_STATUSES" "STATUS_SKIPPED_OVERSIZE \<notin> set TEXT_BEARING_STATUSES"
  "STATUS_SKIPPED_NONDOCUMENT \<in> set EXTRACTION_STATUSES" "STATUS_SKIPPED_NONDOCUMENT \<notin> set TEXT_BEARING_STATUSES"
  by (simp_all add: EXTRACTION_STATUSES_def TEXT_BEARING_STATUSES_def status_defs)

lemma text_statuses:
  "STATUS_EXTRACTED \<in> set TEXT_BEARING_STATUSES" "STATUS_TRUNCATED \<in> set TEXT_BEARING_STATUSES"
  "STATUS_EXTRACTED_PARTIAL_SCANNED \<in> set TEXT_BEARING_STATUSES"
  by (simp_all add: TEXT_BEARING_STATUSES_def)

text \<open>Sanitizing twice is sanitizing once, so the stored form is canonical.\<close>

lemma replace_crlf_no_cr: "CR \<notin> set t \<Longrightarrow> replace_crlf t = t"
  by (induction t rule: replace_crlf.induct) auto

lemma sanitize_idem: "sanitize_body_text (sanitize_body_text t) = sanitize_body_text t"
proof -
  let ?s = "sanitize_body_text t"
  have s: "\<And>c. c \<in> set ?s \<Longrightarrow> \<not> unstorable c \<and> c \<noteq> CR" using storable_sanitized[of t] by (simp add: storable_text_def list_all_iff)
  then have "replace_crlf ?s = ?s" by (intro replace_crlf_no_cr) blast
  moreover have "map (\<lambda>c. if c = CR then LF else c) ?s = ?s" "filter (\<lambda>c. \<not> unstorable c) ?s = ?s"
    using s by (auto intro!: map_idI filter_True)
  ultimately have "sanitize_body_text ?s = py_strip ?s" unfolding sanitize_body_text_def[of ?s] by simp
  also have "\<dots> = ?s" unfolding sanitize_body_text_def py_strip_def by (rule strip_where_idem)
  finally show ?thesis .
qed

text \<open>A text with a visible character stays a text.\<close>

lemma replace_crlf_keeps: "c \<in> set t \<Longrightarrow> c \<noteq> CR \<Longrightarrow> c \<in> set (replace_crlf t)"
  by (induction t rule: replace_crlf.induct) auto

lemma dropWhile_keeps: "c \<in> set xs \<Longrightarrow> \<not> P c \<Longrightarrow> c \<in> set (dropWhile P xs)"
  by (induction xs) auto

lemma strip_where_ne: "c \<in> set t \<Longrightarrow> \<not> P c \<Longrightarrow> strip_where P t \<noteq> []"
  using dropWhile_keeps[of c "rev (dropWhile P t)" P] dropWhile_keeps[of c t P] by (auto simp: strip_where_def)

lemma sanitize_ne:
  assumes "c \<in> set t" and "\<not> unstorable c" and "\<not> py_isspace c" and "c \<noteq> CR"
  shows "sanitize_body_text t \<noteq> []"
proof -
  have "c \<in> set (filter (\<lambda>c. \<not> unstorable c) (map (\<lambda>c. if c = CR then LF else c) (replace_crlf t)))"
    using replace_crlf_keeps[OF assms(1,4)] assms(2,4) by (auto simp: image_iff intro!: bexI[of _ c])
  then show ?thesis using assms(3) strip_where_ne unfolding sanitize_body_text_def py_strip_def by blast
qed

lemma show_digit: "n < 10 \<Longrightarrow> show_nat n = [char_of (48 + n)]"
  by (simp add: show_nat.simps)

lemma take_cap_ne: "t \<noteq> [] \<Longrightarrow> take MAX_EXTRACTED_CHARS t \<noteq> []"
  by (simp add: MAX_EXTRACTED_CHARS_def)

end
