(* ===== verification/Mail_Headers.thy ===== *)
theory Mail_Headers
  imports Py_Regex Extraction_Core
begin

text \<open>
  The header primitives and the derived flags of the mail parser (\<open>connectors/imap/parsing/headers.py\<close>, \<open>flags.py\<close>). The header
  objects of the standard library's MIME parser are arguments: fetching one and taking its \<open>str()\<close> may each raise.
\<close>

section \<open>Headers as the MIME parser shows them\<close>

text \<open>\<open>hv_fallback\<close>: the replaced bytes or the \<open>repr()\<close> used where \<open>str()\<close> fails.\<close>

record header_value =
  hv_str :: "string fallible"
  hv_fallback :: string

record mime_header =
  hd_name :: string
  hd_value :: "header_value fallible"

text \<open>The subclasses of \<open>ValueError\<close> and \<open>LookupError\<close> in the standard library.\<close>

definition VALUE_ERRORS :: "string list" where
  "VALUE_ERRORS = [''ValueError'', ''UnicodeError'', ''UnicodeDecodeError'', ''UnicodeEncodeError'', ''UnicodeTranslateError'']"

definition LOOKUP_ERRORS :: "string list" where
  "LOOKUP_ERRORS = [''LookupError'', ''KeyError'', ''IndexError'']"

abbreviation NUL :: char where
  "NUL \<equiv> CHR 0x00"

definition ADDR_MAX :: nat where
  "ADDR_MAX = 320"

definition MSGID_MAX :: nat where
  "MSGID_MAX = 998"

definition CONTENT_TYPE_MAX :: nat where
  "CONTENT_TYPE_MAX = 255"

section \<open>Values\<close>

definition strip_nul :: "string \<Rightarrow> string" where
  "strip_nul s = filter (\<lambda>c. c \<noteq> NUL) s"

definition sanitize :: "string option \<Rightarrow> nat \<Rightarrow> string option" where
  "sanitize s limit = map_option (\<lambda>s. take limit (strip_nul s)) s"

definition safe_str :: "header_value \<Rightarrow> string fallible" where
  "safe_str v = (case hv_str v of Inr t \<Rightarrow> Inr (strip_nul t)
     | Inl e \<Rightarrow> if e \<in> set VALUE_ERRORS then Inr (strip_nul (hv_fallback v)) else Inl e)"

text \<open>\<open>Message.get\<close>: the first header of a name, in any case.\<close>

definition header_named :: "string \<Rightarrow> mime_header \<Rightarrow> bool" where
  "header_named name h = (py_lower (hd_name h) = py_lower name)"

definition message_get :: "mime_header list \<Rightarrow> string \<Rightarrow> header_value option fallible" where
  "message_get hs name = (case find (header_named name) hs of None \<Rightarrow> Inr None | Some h \<Rightarrow> map_sum id Some (hd_value h))"

definition safe_header :: "mime_header list \<Rightarrow> string \<Rightarrow> string option fallible" where
  "safe_header hs name =
     bindE (message_get hs name) (\<lambda>v. case v of None \<Rightarrow> Inr None | Some raw \<Rightarrow> map_sum id Some (safe_str raw))"

text \<open>The same over the raw view of the identity headers.\<close>

definition raw_header :: "mime_header list \<Rightarrow> string \<Rightarrow> string option fallible" where
  "raw_header hs name = safe_header hs name"

section \<open>Message identifiers\<close>

definition MSGID_RE :: rx where
  "MSGID_RE = Seq (Cls (\<lambda>c. c = CHR ''<'')) (Seq (Rep (\<lambda>c. c \<noteq> CHR ''>'') 1 None) (Cls (\<lambda>c. c = CHR ''>'')))"

definition re_findall :: "rx \<Rightarrow> string \<Rightarrow> string list" where
  "re_findall r text = map pc_source (filter pc_counted (scan (whole_match r []) ([], text)))"

definition clean_message_id :: "string option \<Rightarrow> string option" where
  "clean_message_id s =
     (case s of
        None \<Rightarrow> None
      | Some v \<Rightarrow>
        if v = [] then None
        else
          (let token = (case re_findall MSGID_RE v of [] \<Rightarrow> v | t # _ \<Rightarrow> t);
               core = filter (\<lambda>c. \<not> py_isspace c) (py_strip_chars (py_strip token) ''<>'')
           in if core = [] then None else Some core))"

definition split_references :: "string option \<Rightarrow> string list" where
  "split_references s =
     (case s of
        None \<Rightarrow> []
      | Some v \<Rightarrow>
        if v = [] then []
        else concat (map (\<lambda>tok. case clean_message_id (Some tok) of None \<Rightarrow> [] | Some t \<Rightarrow> [t]) (re_findall MSGID_RE v)))"

section \<open>The stored header set\<close>

text \<open>A dict from names to values in insertion order; a header that occurs once has one value.\<close>

type_synonym header_dict = "(string \<times> string list) list"

fun add_values :: "string \<Rightarrow> string list \<Rightarrow> header_dict \<Rightarrow> header_dict" where
  "add_values key vs [] = [(key, vs)]"
| "add_values key vs ((k, us) # d) = (if k = key then (k, us @ vs) # d else (k, us) # add_values key vs d)"

fun accumulate_headers :: "mime_header list \<Rightarrow> header_dict \<Rightarrow> header_dict fallible" where
  "accumulate_headers [] d = Inr d"
| "accumulate_headers (h # hs) d =
     bindE (hd_value h) (\<lambda>v. bindE (safe_str v) (\<lambda>s. accumulate_headers hs (add_values (hd_name h) [s] d)))"

definition build_headers :: "mime_header list \<Rightarrow> header_dict fallible" where
  "build_headers hs = accumulate_headers hs []"

definition RETAINED_HEADERS :: "(string \<times> string) list" where
  "RETAINED_HEADERS = [(''message-id'', ''Message-ID''), (''in-reply-to'', ''In-Reply-To''), (''references'', ''References''), (''date'', ''Date''),
     (''subject'', ''Subject''), (''from'', ''From''), (''to'', ''To''), (''cc'', ''Cc''), (''reply-to'', ''Reply-To''), (''sender'', ''Sender''),
     (''return-path'', ''Return-Path''), (''auto-submitted'', ''Auto-Submitted''), (''precedence'', ''Precedence''), (''list-id'', ''List-Id''),
     (''list-unsubscribe'', ''List-Unsubscribe''), (''list-post'', ''List-Post''), (''list-archive'', ''List-Archive''),
     (''content-type'', ''Content-Type''), (''content-language'', ''Content-Language''), (''importance'', ''Importance''),
     (''priority'', ''Priority''), (''x-priority'', ''X-Priority''), (''x-auto-response-suppress'', ''X-Auto-Response-Suppress'')]"

fun retain_headers :: "header_dict \<Rightarrow> header_dict \<Rightarrow> header_dict" where
  "retain_headers [] retained = retained"
| "retain_headers ((key, vs) # d) retained =
     (case map_of RETAINED_HEADERS (py_lower key) of
        None \<Rightarrow> retain_headers d retained
      | Some canonical \<Rightarrow> retain_headers d (add_values canonical vs retained))"

definition allowlist_headers :: "header_dict \<Rightarrow> header_dict" where
  "allowlist_headers headers = retain_headers headers []"

section \<open>Dates\<close>

text \<open>
  A parsed date: its instant and the ISO text of it in UTC, which raises where the shift leaves the range of years. A naive date
  counts as UTC.
\<close>

record parsed_date =
  dt_instant :: datetime
  dt_utc_text :: "string fallible"

type_synonym date_parser = "string \<Rightarrow> parsed_date fallible"

definition parse_date :: "date_parser \<Rightarrow> string option \<Rightarrow> parsed_date option fallible" where
  "parse_date parsedate s =
     (case s of
        None \<Rightarrow> Inr None
      | Some v \<Rightarrow>
        if v = [] then Inr None
        else (case parsedate v of Inr d \<Rightarrow> Inr (Some d) | Inl e \<Rightarrow> if e = ''TypeError'' \<or> e \<in> set VALUE_ERRORS then Inr None else Inl e))"

definition received_at_from_headers :: "date_parser \<Rightarrow> mime_header list \<Rightarrow> parsed_date option fallible" where
  "received_at_from_headers parsedate hs =
     bindE (message_get hs ''Received'') (\<lambda>top.
       bindE (case top of None \<Rightarrow> Inr [] | Some v \<Rightarrow> hv_str v) (\<lambda>top_received.
         bindE (case py_rsplit1 (CHR '';'') top_received of None \<Rightarrow> Inr None | Some (_, d) \<Rightarrow> parse_date parsedate (Some (py_strip d))) (\<lambda>received.
           case received of
             Some d \<Rightarrow> Inr (Some d)
           | None \<Rightarrow> bindE (safe_header hs ''Date'') (parse_date parsedate))))"

section \<open>Flags\<close>

definition REPLY_PREFIX :: rx where
  "REPLY_PREFIX =
     Seq (Rep py_isspace 0 None) (Seq (AnyOf [LitI ''re'', LitI ''aw'', LitI ''antw'', LitI ''sv'', LitI ''vs''])
       (Seq (Rep py_isspace 0 None)
         (Seq (Opt (Seq (Lit ''['') (Seq (Rep (\<lambda>c. (48::nat) \<le> of_char c \<and> of_char c \<le> (57::nat)) 1 None) (Lit '']''))))
           (Seq (Rep py_isspace 0 None) (Lit '':'')))))"

definition AUTOMATED_TOKENS :: "string list" where
  "AUTOMATED_TOKENS = [''noreply'', ''donotreply'', ''mailerdaemon'', ''postmaster'', ''bounce'', ''bounces'']"

definition AUTOMATED_TOKEN_SEQUENCES :: "string list list" where
  "AUTOMATED_TOKEN_SEQUENCES = [[''no'', ''reply''], [''do'', ''not'', ''reply''], [''mailer'', ''daemon'']]"

definition BULK_PRECEDENCE :: "string list" where
  "BULK_PRECEDENCE = [''bulk'', ''list'', ''junk'', ''auto_reply'']"

definition normalize_for_compare :: "string option \<Rightarrow> string option" where
  "normalize_for_compare address =
     (case address of
        None \<Rightarrow> None
      | Some a \<Rightarrow> (let cleaned = py_lower (py_strip a) in if a = [] \<or> cleaned = [] then None else Some cleaned))"

definition derive_direction :: "string option \<Rightarrow> string \<Rightarrow> string option" where
  "derive_direction from_address mailbox_address =
     (case (normalize_for_compare from_address, normalize_for_compare (Some mailbox_address)) of
        (Some sender, Some mailbox) \<Rightarrow> Some (if sender = mailbox then ''outbound'' else ''inbound'')
      | _ \<Rightarrow> None)"

definition is_reply_email :: "string option \<Rightarrow> string option \<Rightarrow> bool" where
  "is_reply_email in_reply_to subject =
     (if in_reply_to \<noteq> None \<and> in_reply_to \<noteq> Some [] then True
      else (case subject of None \<Rightarrow> False | Some s \<Rightarrow> s \<noteq> [] \<and> match_at REPLY_PREFIX ([], s) \<noteq> None))"

definition has_automated_token_sequence :: "string list \<Rightarrow> bool" where
  "has_automated_token_sequence tokens =
     (\<exists>size \<in> set [2, 3]. \<exists>start \<in> set [0..<length tokens + 1 - size]. take size (drop start tokens) \<in> set AUTOMATED_TOKEN_SEQUENCES)"

definition is_machine_sender_identity :: "string option \<Rightarrow> bool" where
  "is_machine_sender_identity from_address =
     (case normalize_for_compare from_address of
        None \<Rightarrow> False
      | Some normalized \<Rightarrow>
        (case py_rsplit1 (CHR ''@'') normalized of
           None \<Rightarrow> True
         | Some (localpart, _) \<Rightarrow>
           (let tokens = filter (\<lambda>t. t \<noteq> []) (split_where (\<lambda>c. c \<in> set ''-_.+'') localpart)
            in if \<exists>t \<in> set tokens. t \<in> set AUTOMATED_TOKENS then True else has_automated_token_sequence tokens)))"

definition first_header_value :: "header_dict \<Rightarrow> string \<Rightarrow> string option" where
  "first_header_value headers name =
     (case find (\<lambda>(k, _). py_lower k = name) headers of None \<Rightarrow> None | Some (_, vs) \<Rightarrow> (case vs of [] \<Rightarrow> None | v # _ \<Rightarrow> Some v))"

definition has_any_header :: "header_dict \<Rightarrow> string list \<Rightarrow> bool" where
  "has_any_header headers names = (\<exists>name \<in> set names. name \<in> set (map (\<lambda>(k, _). py_lower k) headers))"

definition auto_submitted_marks :: "header_dict \<Rightarrow> bool" where
  "auto_submitted_marks headers =
     (case first_header_value headers ''auto-submitted'' of None \<Rightarrow> False | Some v \<Rightarrow> v \<noteq> [] \<and> py_lower (py_strip v) \<noteq> ''no'')"

definition is_automated_sender :: "string option \<Rightarrow> header_dict \<Rightarrow> bool" where
  "is_automated_sender from_address headers =
     (if is_machine_sender_identity from_address then True
      else if auto_submitted_marks headers then True
      else if (case first_header_value headers ''precedence'' of None \<Rightarrow> False | Some v \<Rightarrow> v \<noteq> [] \<and> py_lower (py_strip v) \<in> set BULK_PRECEDENCE)
      then True
      else has_any_header headers [''list-id'', ''list-unsubscribe''])"

definition is_automated_origin :: "string option \<Rightarrow> header_dict \<Rightarrow> bool" where
  "is_automated_origin from_address headers =
     (if is_machine_sender_identity from_address then True else auto_submitted_marks headers)"

section \<open>What they guarantee\<close>

lemma strip_nul_no_nul [simp]: "NUL \<notin> set (strip_nul s)"
  by (simp add: strip_nul_def)

lemma sanitize_Some: "sanitize s n = Some t \<Longrightarrow> length t \<le> n \<and> NUL \<notin> set t"
  by (auto simp: sanitize_def strip_nul_def dest: in_set_takeD)

lemma safe_str_no_nul: "safe_str v = Inr t \<Longrightarrow> NUL \<notin> set t"
  by (auto simp: safe_str_def split: sum.splits if_splits)

lemma map_sum_Inr: "map_sum id f r = Inr y \<longleftrightarrow> (\<exists>x. r = Inr x \<and> y = f x)"
  by (cases r) auto

lemma safe_header_no_nul:
  assumes "safe_header hs name = Inr (Some t)"
  shows "NUL \<notin> set t"
proof -
  from assms obtain v where "message_get hs name = Inr (Some v)" "safe_str v = Inr t"
    unfolding safe_header_def bindE_Inr by (auto simp: map_sum_Inr split: option.splits)
  then show ?thesis by (simp add: safe_str_no_nul)
qed

text \<open>The gate on person-hood is the stricter of the two automation flags.\<close>

lemma automated_origin_is_automated: "is_automated_origin a h \<Longrightarrow> is_automated_sender a h"
  by (auto simp: is_automated_origin_def is_automated_sender_def split: if_splits)

lemma clean_message_id_shape:
  assumes "clean_message_id s = Some t"
  shows "t \<noteq> [] \<and> (\<forall>c \<in> set t. \<not> py_isspace c)"
  using assms by (auto simp: clean_message_id_def Let_def split: option.splits if_splits)

lemma add_values_keys: "fst ` set (add_values k vs d) = insert k (fst ` set d)"
  by (induction k vs d rule: add_values.induct) auto

lemma add_values_distinct: "distinct (map fst d) \<Longrightarrow> distinct (map fst (add_values k vs d))"
  using add_values_keys by (induction k vs d rule: add_values.induct) (auto simp: image_iff)

lemma add_values_lookup: "map_of (add_values k vs d) x = (if x = k then Some ((case map_of d k of None \<Rightarrow> [] | Some us \<Rightarrow> us) @ vs) else map_of d x)"
  by (induction k vs d rule: add_values.induct) auto

text \<open>The values of the headers that fold to one canonical name, in order.\<close>

definition values_for :: "string \<Rightarrow> header_dict \<Rightarrow> string list" where
  "values_for canonical headers = concat (map snd (filter (\<lambda>(k, _). map_of RETAINED_HEADERS (py_lower k) = Some canonical) headers))"

lemma retain_headers_values:
  "(case map_of (retain_headers d ret) n of None \<Rightarrow> [] | Some us \<Rightarrow> us) = (case map_of ret n of None \<Rightarrow> [] | Some us \<Rightarrow> us) @ values_for n d"
  by (induction d ret rule: retain_headers.induct) (auto simp: values_for_def add_values_lookup split: option.splits)

lemma retain_headers_keys: "fst ` set (retain_headers d ret) \<subseteq> fst ` set ret \<union> snd ` set RETAINED_HEADERS"
proof (induction d ret rule: retain_headers.induct)
  case (2 key vs d ret)
  show ?case
  proof (cases "map_of RETAINED_HEADERS (py_lower key)")
    case (Some canonical)
    then have "canonical \<in> snd ` set RETAINED_HEADERS" by (metis image_eqI map_of_SomeD snd_conv)
    with 2(2)[OF Some] Some show ?thesis by (auto simp: add_values_keys)
  qed (use 2 in auto)
qed simp

lemma retain_headers_distinct: "distinct (map fst ret) \<Longrightarrow> distinct (map fst (retain_headers d ret))"
  by (induction d ret rule: retain_headers.induct) (auto simp: add_values_distinct split: option.splits)

text \<open>
  Of a message's headers exactly the allowlist is stored: every stored key is one of the 23 canonical names and occurs once, so no
  Received, Authentication-Results, Authorization, X-API-Key or Bcc header is retained, and under a canonical name stand the values of
  all its spellings in the message, in order.
\<close>

theorem stored_headers_minimized:
  "fst ` set (allowlist_headers headers) \<subseteq> snd ` set RETAINED_HEADERS \<and> distinct (map fst (allowlist_headers headers))
    \<and> (case map_of (allowlist_headers headers) canonical of None \<Rightarrow> [] | Some vs \<Rightarrow> vs) = values_for canonical headers"
  using retain_headers_keys[of headers "[]"] retain_headers_distinct[of "[]" headers] retain_headers_values[of headers "[]" canonical]
  by (simp add: allowlist_headers_def)

end
