(* ===== verification/Pdf_Extract.thy ===== *)
theory Pdf_Extract
  imports Extraction_Core
begin

text \<open>
  The PDF extractor (\<open>connectors/extraction/pdf.py\<close>): an encryption probe, a bounded pass over the pages with pdfplumber, the
  scanned-document verdicts, and pypdf as rescue and as fallback. Both libraries are arguments: what they return for a payload, every
  access of which may raise. Areas are rationals here, floats in the code.
\<close>

section \<open>What the libraries show\<close>

record pdf_image =
  im_x0 :: rat
  im_x1 :: rat
  im_top :: rat
  im_bottom :: rat

record plumber_page =
  pg_text :: "string option fallible"
  pg_tables :: "string option list list list fallible"
  pg_width :: rat
  pg_height :: rat
  pg_images :: "pdf_image list fallible"
  pg_vector_objects :: "nat fallible"

record pypdf_page =
  yp_text :: "string option fallible"
  yp_images :: "nat fallible"

text \<open>\<open>rd_decrypts\<close>: whether the empty password opens the document.\<close>

record pypdf_reader =
  rd_is_encrypted :: "bool fallible"
  rd_decrypts :: "bool fallible"
  rd_pages :: "pypdf_page list fallible"

record pdf_lib =
  pdfplumber_open :: "string \<Rightarrow> plumber_page list fallible"
  pypdf_open :: "string \<Rightarrow> pypdf_reader fallible"

section \<open>Bounds\<close>

definition MAX_PDF_PAGES :: nat where
  "MAX_PDF_PAGES = 500"

definition SCAN_MIN_CHARS :: nat where
  "SCAN_MIN_CHARS = 20"

definition PAGE_COVERING_AREA_RATIO :: rat where
  "PAGE_COVERING_AREA_RATIO = 8 / 10"

definition VECTOR_CONTENT_MIN_OBJECTS :: nat where
  "VECTOR_CONTENT_MIN_OBJECTS = 25"

definition PYPDF_IMAGE_PROBE_PAGES :: nat where
  "PYPDF_IMAGE_PROBE_PAGES = 3"

section \<open>Signals\<close>

record page_signal =
  sg_content_chars :: nat
  sg_covering_image :: bool
  sg_any_image :: bool
  sg_vector_objects :: nat

definition is_image_only :: "page_signal \<Rightarrow> bool" where
  "is_image_only s = (sg_content_chars s < SCAN_MIN_CHARS \<and> sg_covering_image s)"

record plumber_document =
  dc_text :: string
  dc_pages :: "page_signal list"
  dc_bail_reason :: "string option"

definition looks_scanned :: "page_signal list \<Rightarrow> bool" where
  "looks_scanned pages =
     (if pages = [] then False
      else sum_list (map sg_content_chars pages) < SCAN_MIN_CHARS \<and> (\<exists>p \<in> set pages. sg_covering_image p))"

definition has_undrawn_content :: "page_signal list \<Rightarrow> bool" where
  "has_undrawn_content pages =
     (if \<exists>p \<in> set pages. sg_any_image p then True
      else sum_list (map sg_vector_objects pages) \<ge> VECTOR_CONTENT_MIN_OBJECTS)"

definition vector_object_count :: "plumber_page \<Rightarrow> nat" where
  "vector_object_count page = (case pg_vector_objects page of Inr n \<Rightarrow> n | Inl _ \<Rightarrow> 0)"

definition serialized_tables :: "plumber_page \<Rightarrow> string" where
  "serialized_tables page =
     (case pg_tables page of
        Inl _ \<Rightarrow> []
      | Inr tbls \<Rightarrow> join_with [LF] (filter (\<lambda>t. t \<noteq> []) (map serialize_table tbls)))"

definition has_page_covering_image :: "plumber_page \<Rightarrow> bool fallible" where
  "has_page_covering_image page =
     (let page_area = pg_width page * pg_height page
      in if page_area \<le> 0 then Inr False
         else bindE (pg_images page) (\<lambda>images. Inr (\<exists>i \<in> set images.
                (im_x1 i - im_x0 i) * (im_bottom i - im_top i) \<ge> PAGE_COVERING_AREA_RATIO * page_area)))"

section \<open>The two passes\<close>

definition page_bounded :: string where
  "page_bounded = ''page-bounded: stopped after '' @ show_nat MAX_PDF_PAGES @ '' pages''"

definition capped_from :: "nat \<Rightarrow> string" where
  "capped_from n = ''capped from '' @ show_nat n @ '' chars''"

definition page_marker :: "nat \<Rightarrow> string" where
  "page_marker number = ''[page '' @ show_nat number @ '']'' @ [LF]"

definition page_signal_of :: "plumber_page \<Rightarrow> nat \<Rightarrow> page_signal fallible" where
  "page_signal_of page content_chars =
     bindE (has_page_covering_image page) (\<lambda>covering. bindE (pg_images page) (\<lambda>images.
       Inr \<lparr>sg_content_chars = content_chars, sg_covering_image = covering, sg_any_image = (images \<noteq> []),
            sg_vector_objects = vector_object_count page\<rparr>))"

text \<open>The loop over the pages: chunks, signals and content characters so far; the reason of an early stop.\<close>

fun plumber_pages ::
  "nat \<Rightarrow> plumber_page list \<Rightarrow> string list \<Rightarrow> page_signal list \<Rightarrow> nat \<Rightarrow> nat
    \<Rightarrow> (string list \<times> page_signal list \<times> nat \<times> string option) fallible" where
  "plumber_pages number [] chunks pages content_chars materialized_chars = Inr (chunks, pages, content_chars, None)"
| "plumber_pages number (page # rest) chunks pages content_chars materialized_chars =
     (if number > MAX_PDF_PAGES then Inr (chunks, pages, content_chars, Some page_bounded)
      else bindE (pg_text page) (\<lambda>extracted.
        let page_text = (case extracted of None \<Rightarrow> [] | Some t \<Rightarrow> t);
            tbls = serialized_tables page;
            page_content_chars = length (py_strip page_text) + length tbls
        in bindE (page_signal_of page page_content_chars) (\<lambda>sig.
             let chunk0 = page_marker number @ page_text;
                 chunk = (if tbls \<noteq> [] then chunk0 @ [LF] @ tbls else chunk0);
                 materialized = materialized_chars + (length chunk + (if chunks \<noteq> [] then 2 else 0))
             in if materialized > MAX_EXTRACTED_CHARS
                then Inr (chunks @ [chunk], pages @ [sig], content_chars + page_content_chars, Some (capped_from materialized))
                else plumber_pages (number + 1) rest (chunks @ [chunk]) (pages @ [sig]) (content_chars + page_content_chars) materialized)))"

definition read_with_pdfplumber :: "pdf_lib \<Rightarrow> string \<Rightarrow> plumber_document fallible" where
  "read_with_pdfplumber lib payload =
     bindE (pdfplumber_open lib payload) (\<lambda>document.
       bindE (plumber_pages 1 document [] [] 0 0) (\<lambda>(chunks, pages, content_chars, bail_reason).
         Inr \<lparr>dc_text = (if content_chars \<noteq> 0 then join_with [LF, LF] chunks else []), dc_pages = pages, dc_bail_reason = bail_reason\<rparr>))"

fun pypdf_pages :: "nat \<Rightarrow> pypdf_page list \<Rightarrow> string list \<Rightarrow> nat \<Rightarrow> nat \<Rightarrow> (string list \<times> nat \<times> string option) fallible" where
  "pypdf_pages number [] chunks content_chars materialized_chars = Inr (chunks, content_chars, None)"
| "pypdf_pages number (page # rest) chunks content_chars materialized_chars =
     (if number > MAX_PDF_PAGES then Inr (chunks, content_chars, Some page_bounded)
      else bindE (yp_text page) (\<lambda>extracted.
        let page_text = (case extracted of None \<Rightarrow> [] | Some t \<Rightarrow> t);
            content = content_chars + length (py_strip page_text);
            chunk = page_marker number @ page_text;
            materialized = materialized_chars + (length chunk + (if chunks \<noteq> [] then 2 else 0))
        in if materialized > MAX_EXTRACTED_CHARS then Inr (chunks @ [chunk], content, Some (capped_from materialized))
           else pypdf_pages (number + 1) rest (chunks @ [chunk]) content materialized))"

definition pypdf_document_text :: "pypdf_reader \<Rightarrow> (string \<times> string option) fallible" where
  "pypdf_document_text reader =
     bindE (rd_pages reader) (\<lambda>pages.
       bindE (pypdf_pages 1 pages [] 0 0) (\<lambda>(chunks, content_chars, bail_reason).
         Inr (if content_chars \<noteq> 0 then join_with [LF, LF] chunks else [], bail_reason)))"

definition open_pypdf :: "pdf_lib \<Rightarrow> string \<Rightarrow> pypdf_reader fallible" where
  "open_pypdf lib payload =
     bindE (pypdf_open lib payload) (\<lambda>reader. bindE (rd_is_encrypted reader) (\<lambda>encrypted.
       if encrypted then bindE (rd_decrypts reader) (\<lambda>_. Inr reader) else Inr reader))"

definition any_page_image :: "pypdf_page list \<Rightarrow> bool fallible" where
  "any_page_image pages = foldr (\<lambda>p r. bindE (yp_images p) (\<lambda>n. if n > 0 then Inr True else r)) pages (Inr False)"

definition pypdf_probe_has_images :: "pypdf_reader \<Rightarrow> bool" where
  "pypdf_probe_has_images reader =
     (case bindE (rd_pages reader) (\<lambda>pages. any_page_image (take PYPDF_IMAGE_PROBE_PAGES pages)) of Inr b \<Rightarrow> b | Inl _ \<Rightarrow> False)"

section \<open>Verdicts\<close>

definition provenance_of :: "codecs \<Rightarrow> string \<Rightarrow> (string \<times> string) option" where
  "provenance_of cd package = Some (package, package_version cd package)"

definition text_result :: "codecs \<Rightarrow> string \<Rightarrow> string \<Rightarrow> string option \<Rightarrow> extraction_result" where
  "text_result cd text extractor bail_reason =
     (if bail_reason = None \<and> length text \<le> MAX_EXTRACTED_CHARS then extraction (Some text) STATUS_EXTRACTED None (provenance_of cd extractor)
      else extraction (Some (take MAX_EXTRACTED_CHARS text)) STATUS_TRUNCATED
             (Some (case bail_reason of Some r \<Rightarrow> r | None \<Rightarrow> capped_from (length text))) (provenance_of cd extractor))"

definition plumber_text_verdict :: "codecs \<Rightarrow> string \<Rightarrow> plumber_document \<Rightarrow> extraction_result" where
  "plumber_text_verdict cd text document =
     (let result = text_result cd text ''pdfplumber'' (dc_bail_reason document)
      in if xr_status result \<noteq> STATUS_EXTRACTED then result
         else
           (let image_only_pages = length (filter is_image_only (dc_pages document))
            in if image_only_pages = 0 then result
               else extraction (xr_text result) STATUS_EXTRACTED_PARTIAL_SCANNED
                      (Some (''image_only_pages='' @ show_nat image_only_pages @ '' pending OCR'')) (provenance_of cd ''pdfplumber'')))"

definition probe_encryption :: "codecs \<Rightarrow> pdf_lib \<Rightarrow> string \<Rightarrow> extraction_result option" where
  "probe_encryption cd lib payload =
     (case bindE (pypdf_open lib payload) (\<lambda>reader. bindE (rd_is_encrypted reader) (\<lambda>encrypted.
             if \<not> encrypted then Inr False else bindE (rd_decrypts reader) (\<lambda>opened. Inr (\<not> opened)))) of
        Inr True \<Rightarrow> Some (extraction None STATUS_ENCRYPTED (Some ''user password required'') (provenance_of cd ''pypdf''))
      | _ \<Rightarrow> None)"

definition pypdf_full_fallback :: "codecs \<Rightarrow> pdf_lib \<Rightarrow> string \<Rightarrow> string \<Rightarrow> extraction_result" where
  "pypdf_full_fallback cd lib payload plumber_error =
     (case bindE (open_pypdf lib payload) (\<lambda>reader. bindE (pypdf_document_text reader) (\<lambda>r. Inr (reader, r))) of
        Inl pypdf_error \<Rightarrow> extraction None STATUS_CORRUPT (Some (''pdfplumber:'' @ plumber_error @ '' pypdf:'' @ pypdf_error)) None
      | Inr (reader, document_text, bail_reason) \<Rightarrow>
        (let text = sanitize_body_text document_text
         in if text \<noteq> [] then text_result cd text ''pypdf'' bail_reason
            else extraction None (if pypdf_probe_has_images reader then STATUS_SCANNED_PENDING_OCR else STATUS_EMPTY)
                   (Some (''pdfplumber:'' @ plumber_error @ '' (pypdf parsed, no text)'')) (provenance_of cd ''pypdf'')))"

definition pypdf_text_rescue :: "codecs \<Rightarrow> pdf_lib \<Rightarrow> string \<Rightarrow> extraction_result option" where
  "pypdf_text_rescue cd lib payload =
     (case bindE (open_pypdf lib payload) pypdf_document_text of
        Inl _ \<Rightarrow> None
      | Inr (document_text, bail_reason) \<Rightarrow>
        (let text = sanitize_body_text document_text
         in if text = [] then None else Some (text_result cd text ''pypdf'' bail_reason)))"

definition extract_pdf_text :: "codecs \<Rightarrow> pdf_lib \<Rightarrow> string \<Rightarrow> extraction_result" where
  "extract_pdf_text cd lib payload =
     (case probe_encryption cd lib payload of
        Some locked \<Rightarrow> locked
      | None \<Rightarrow>
        (case read_with_pdfplumber lib payload of
           Inl plumber_error \<Rightarrow> pypdf_full_fallback cd lib payload plumber_error
         | Inr document \<Rightarrow>
           if looks_scanned (dc_pages document)
           then (case pypdf_text_rescue cd lib payload of
                   None \<Rightarrow> extraction None STATUS_SCANNED_PENDING_OCR (Some ''image-only pages, no text layer (both engines)'')
                             (provenance_of cd ''pdfplumber'')
                 | Some rescued \<Rightarrow>
                   if xr_status rescued = STATUS_TRUNCATED then rescued
                   else rescued\<lparr>xr_status := STATUS_EXTRACTED_PARTIAL_SCANNED,
                          xr_detail := Some ''pypdf rescued a text layer pdfplumber missed on image-backed pages''\<rparr>)
           else
             (let text = sanitize_body_text (dc_text document)
              in if text \<noteq> [] then plumber_text_verdict cd text document
                 else (case pypdf_text_rescue cd lib payload of
                         Some rescued \<Rightarrow> rescued
                       | None \<Rightarrow>
                         if has_undrawn_content (dc_pages document)
                         then extraction None STATUS_SCANNED_PENDING_OCR (Some ''no text layer; vector/image content present (rasterize for OCR)'')
                                (provenance_of cd ''pdfplumber'')
                         else extraction None STATUS_EMPTY None (provenance_of cd ''pdfplumber'')))))"

section \<open>What the extractor returns\<close>

lemma text_result_ok:
  assumes "t \<noteq> []" and "storable_text t"
  shows "result_ok (text_result cd t x b)" and "capped (text_result cd t x b)" and "xr_status (text_result cd t x b) \<in> {STATUS_EXTRACTED, STATUS_TRUNCATED}"
proof -
  have "take MAX_EXTRACTED_CHARS t \<noteq> []" using assms(1) by (simp add: MAX_EXTRACTED_CHARS_def)
  with assms show "result_ok (text_result cd t x b)" by (simp add: text_result_def result_ok_text storable_take text_statuses)
  show "capped (text_result cd t x b)" by (simp add: text_result_def capped_def extraction_def)
  show "xr_status (text_result cd t x b) \<in> {STATUS_EXTRACTED, STATUS_TRUNCATED}" by (simp add: text_result_def extraction_def)
qed

lemma restatus_ok:
  assumes "result_ok x" and "xr_text x \<noteq> None" and "status \<in> set TEXT_BEARING_STATUSES"
  shows "result_ok (extraction (xr_text x) status d p)" "result_ok (x\<lparr>xr_status := status, xr_detail := d\<rparr>)"
  using assms by (auto simp: result_ok_def extraction_def TEXT_BEARING_STATUSES_def EXTRACTION_STATUSES_def)

lemma capped_restatus: "capped (x\<lparr>xr_status := status, xr_detail := d\<rparr>) = capped x"
  by (simp add: capped_def)

lemma text_result_has_text: "xr_text (text_result cd t x b) \<noteq> None"
  by (simp add: text_result_def extraction_def)

lemma rescue_ok: "pypdf_text_rescue cd lib payload = Some x \<Longrightarrow> result_ok x \<and> capped x \<and> xr_text x \<noteq> None"
  by (auto simp: pypdf_text_rescue_def Let_def text_result_ok storable_sanitized text_result_has_text[simplified] split: sum.splits if_splits)

lemma plumber_verdict_ok:
  assumes "t \<noteq> []" and "storable_text t"
  shows "result_ok (plumber_text_verdict cd t d)" and "capped (plumber_text_verdict cd t d)"
  using text_result_ok[OF assms, of cd "''pdfplumber''" "dc_bail_reason d"] restatus_ok(1)[OF _ text_result_has_text text_statuses(3)]
  by (auto simp: plumber_text_verdict_def Let_def capped_def extraction_def)

lemma fallback_ok: "result_ok (pypdf_full_fallback cd lib payload e)" "capped (pypdf_full_fallback cd lib payload e)"
  by (auto simp: pypdf_full_fallback_def Let_def text_result_ok storable_sanitized no_text_statuses intro!: result_ok_none split: sum.splits)

lemma pdf_result_ok: "result_ok (extract_pdf_text cd lib payload)" "capped (extract_pdf_text cd lib payload)"
proof -
  have "result_ok (extract_pdf_text cd lib payload) \<and> capped (extract_pdf_text cd lib payload)"
  proof (cases "probe_encryption cd lib payload")
    case (Some x)
    then have "x = extraction None STATUS_ENCRYPTED (Some ''user password required'') (provenance_of cd ''pypdf'')"
      by (auto simp: probe_encryption_def split: sum.splits bool.splits)
    with Some show ?thesis by (simp add: extract_pdf_text_def result_ok_none no_text_statuses)
  next
    case None
    show ?thesis
    proof (cases "read_with_pdfplumber lib payload")
      case (Inl e)
      with None show ?thesis by (simp add: extract_pdf_text_def fallback_ok)
    next
      case (Inr d)
      note none = no_text_statuses result_ok_none
      show ?thesis
      proof (cases "pypdf_text_rescue cd lib payload")
        case no: None
        with None Inr show ?thesis
          by (simp add: extract_pdf_text_def Let_def none plumber_verdict_ok storable_sanitized)
      next
        case (Some x)
        note ok = rescue_ok[OF Some]
        then have "result_ok (x\<lparr>xr_status := STATUS_EXTRACTED_PARTIAL_SCANNED, xr_detail := det\<rparr>)" for det
          by (intro restatus_ok(2) text_statuses) simp_all
        with ok None Inr Some show ?thesis
          by (simp add: extract_pdf_text_def Let_def plumber_verdict_ok storable_sanitized capped_restatus)
      qed
    qed
  qed
  then show "result_ok (extract_pdf_text cd lib payload)" "capped (extract_pdf_text cd lib payload)" by simp_all
qed

lemma plumber_verdict_has_text: "xr_text (plumber_text_verdict cd t d) \<noteq> None"
  by (simp add: plumber_text_verdict_def Let_def extraction_def text_result_has_text[simplified])

text \<open>
  A text layer either engine can read is never lost: where the document is not locked, a text pypdf finds leads to a result with
  text, also when pdfplumber crashes, finds nothing or takes the document for a scan.
\<close>

theorem pypdf_text_not_lost:
  assumes "probe_encryption cd lib payload = None" and "open_pypdf lib payload = Inr reader" and "pypdf_document_text reader = Inr (d, b)"
    and "sanitize_body_text d \<noteq> []"
  shows "xr_text (extract_pdf_text cd lib payload) \<noteq> None"
proof -
  from assms(2-4) have rescue: "pypdf_text_rescue cd lib payload = Some (text_result cd (sanitize_body_text d) ''pypdf'' b)"
    by (simp add: pypdf_text_rescue_def Let_def)
  show ?thesis
  proof (cases "read_with_pdfplumber lib payload")
    case (Inl e)
    with assms show ?thesis by (simp add: extract_pdf_text_def pypdf_full_fallback_def Let_def text_result_has_text[simplified])
  next
    case (Inr doc)
    with assms(1) rescue show ?thesis
      by (simp add: extract_pdf_text_def Let_def text_result_has_text[simplified] plumber_verdict_has_text[simplified])
  qed
qed

definition demo_reader :: pypdf_reader where
  "demo_reader = \<lparr>rd_is_encrypted = Inr False, rd_decrypts = Inr False, rd_pages = Inr [\<lparr>yp_text = Inr (Some ''hello''), yp_images = Inr 0\<rparr>]\<rparr>"

definition demo_pdf :: pdf_lib where
  "demo_pdf = \<lparr>pdfplumber_open = \<lambda>_. Inl ''PSEOF'', pypdf_open = \<lambda>_. Inr demo_reader\<rparr>"

theorem pypdf_text_not_lost_witness:
  "\<exists>cd. read_with_pdfplumber demo_pdf ''x'' = Inl ''PSEOF'' \<and> xr_text (extract_pdf_text cd demo_pdf ''x'') \<noteq> None"
proof -
  fix cd :: codecs
  have s: "length (py_strip ''hello'') = 5" by code_simp
  have "open_pypdf demo_pdf ''x'' = Inr demo_reader" by (simp add: open_pypdf_def demo_pdf_def demo_reader_def)
  moreover have "pypdf_document_text demo_reader = Inr (page_marker 1 @ ''hello'', None)"
    by (simp add: pypdf_document_text_def demo_reader_def MAX_PDF_PAGES_def s page_marker_def show_digit MAX_EXTRACTED_CHARS_def)
  moreover have "sanitize_body_text (page_marker 1 @ ''hello'') \<noteq> []"
    by (rule sanitize_ne[where c = "CHR ''h''"]) (simp_all add: unstorable_def py_isspace_def)
  moreover have "probe_encryption cd demo_pdf ''x'' = None" by (simp add: probe_encryption_def demo_pdf_def demo_reader_def)
  ultimately have "xr_text (extract_pdf_text cd demo_pdf ''x'') \<noteq> None" using pypdf_text_not_lost by blast
  moreover have "read_with_pdfplumber demo_pdf ''x'' = Inl ''PSEOF''" by (simp add: read_with_pdfplumber_def demo_pdf_def)
  ultimately show ?thesis by blast
qed

end
