(* ===== verification/Office_Extract.thy ===== *)
theory Office_Extract
  imports Extraction_Core
begin

text \<open>
  The office formats: the pre-parse validation of an OOXML package (\<open>connectors/extraction/ooxml.py\<close>), the docx extractor
  (\<open>docx.py\<close>) and the xlsx extractor with its typed cell grid (\<open>xlsx.py\<close>). The zip reader, the XML parser, python-docx and openpyxl
  are arguments: what they show of a payload, or the class name of what they raise.
\<close>

section \<open>What the libraries show\<close>

record zip_member =
  zm_filename :: string
  zm_file_size :: nat

text \<open>The entries of \<open>[Content_Types].xml\<close> with their attributes.\<close>

datatype manifest_entry = Default_entry "string option" "string option" | Override_entry "string option" "string option"

text \<open>\<open>za_document_xml\<close>: the \<open>w:t\<close> texts of each \<open>w:p\<close> of \<open>word/document.xml\<close>.\<close>

record zip_archive =
  za_infolist :: "zip_member list"
  za_manifest :: "manifest_entry list fallible"
  za_document_xml :: "string option list list fallible"

text \<open>A body block of python-docx: a paragraph, or the rows of a table, each cell with the identity of its \<open>tc\<close> element.\<close>

datatype docx_block = Paragraph string | Table "(nat \<times> string) list list"

text \<open>
  A cell value under \<open>data_only\<close>: a finite float comes with its \<open>str()\<close> form, a date or time with its \<open>isoformat()\<close>, anything else
  with its \<open>str()\<close>.
\<close>

datatype cell_value = V_None | V_bool bool | V_int int | V_float rat string | V_nonfinite string | V_date string | V_other string

record xl_cell =
  xc_value :: cell_value
  xc_number_format :: "string option"

record worksheet =
  ws_title :: string
  ws_max_row :: "nat option"
  ws_max_column :: "nat option"
  ws_rows :: "xl_cell list fallible list"

record office_lib =
  zip_open :: "string \<Rightarrow> zip_archive fallible"
  docx_open :: "string \<Rightarrow> docx_block list fallible"
  xlsx_open :: "string \<Rightarrow> worksheet list fallible"
  get_column_letter :: "nat \<Rightarrow> string fallible"

section \<open>The package validation\<close>

definition MAX_ZIP_MEMBERS :: nat where
  "MAX_ZIP_MEMBERS = 4096"

definition MAX_CENTRAL_DIR_BYTES :: nat where
  "MAX_CENTRAL_DIR_BYTES = 2 * 1024 * 1024"

definition MAX_DECOMPRESSED_BYTES :: nat where
  "MAX_DECOMPRESSED_BYTES = 100 * 1024 * 1024"

definition MAX_XML_PARTS_BYTES :: nat where
  "MAX_XML_PARTS_BYTES = 10 * 1024 * 1024"

definition MAX_CONTENT_TYPES_BYTES :: nat where
  "MAX_CONTENT_TYPES_BYTES = 1 * 1024 * 1024"

definition EOCD_SIGNATURE :: string where
  "EOCD_SIGNATURE = ''PK'' @ [CHR 0x05, CHR 0x06]"

definition EOCD_MIN_BYTES :: nat where
  "EOCD_MIN_BYTES = 22"

definition EOCD_MAX_COMMENT :: nat where
  "EOCD_MAX_COMMENT = 65535"

definition CONTENT_TYPES_XML :: string where
  "CONTENT_TYPES_XML = ''[Content_Types].xml''"

definition XML_MEMBER_SUFFIXES :: "string list" where
  "XML_MEMBER_SUFFIXES = [''.xml'', ''.rels'']"

definition is_ole_container :: "string \<Rightarrow> bool" where
  "is_ole_container payload = prefix OLE_MAGIC payload"

definition py_rfind :: "string \<Rightarrow> string \<Rightarrow> nat option" where
  "py_rfind sub s = find (\<lambda>i. prefix sub (drop i s)) (rev [0..<Suc (length s)])"

text \<open>\<open>struct.unpack_from\<close> of an unsigned little-endian integer of \<open>k\<close> bytes.\<close>

fun unpack_le :: "nat \<Rightarrow> string \<Rightarrow> nat" where
  "unpack_le 0 s = 0"
| "unpack_le (Suc k) s = (case s of [] \<Rightarrow> 0 | c # cs \<Rightarrow> of_char c + 256 * unpack_le k cs)"

definition zip_directory_over_bound :: "string \<Rightarrow> bool" where
  "zip_directory_over_bound payload =
     (let tail = drop (length payload - (EOCD_MIN_BYTES + EOCD_MAX_COMMENT)) payload
      in case py_rfind EOCD_SIGNATURE tail of
           None \<Rightarrow> False
         | Some position \<Rightarrow>
           if length tail - position < EOCD_MIN_BYTES then False
           else unpack_le 2 (drop (position + 10) tail) > MAX_ZIP_MEMBERS \<or> unpack_le 4 (drop (position + 12) tail) > MAX_CENTRAL_DIR_BYTES)"

definition is_xml_content_type :: "string option \<Rightarrow> bool" where
  "is_xml_content_type content_type =
     (case content_type of
        None \<Rightarrow> False
      | Some t \<Rightarrow> t \<noteq> [] \<and> (let normalized = py_lower (py_strip t)
                            in suffix ''+xml'' normalized \<or> normalized \<in> {''application/xml'', ''text/xml''}))"

definition or_empty :: "string option \<Rightarrow> string" where
  "or_empty s = (case s of None \<Rightarrow> [] | Some t \<Rightarrow> t)"

definition member_extension :: "string \<Rightarrow> string" where
  "member_extension name = (case py_rsplit1 (CHR ''.'') name of None \<Rightarrow> [] | Some (_, ext) \<Rightarrow> py_lower ext)"

definition xml_extensions :: "manifest_entry list \<Rightarrow> string list" where
  "xml_extensions entries =
     concat (map (\<lambda>x. case x of Default_entry ext ct \<Rightarrow> if is_xml_content_type ct then [py_lower (or_empty ext)] else [] | Override_entry _ _ \<Rightarrow> []) entries)"

definition xml_overrides :: "manifest_entry list \<Rightarrow> string list" where
  "xml_overrides entries =
     concat (map (\<lambda>x. case x of Override_entry part ct \<Rightarrow>
       if is_xml_content_type ct then [dropWhile (\<lambda>c. c = CHR ''/'') (or_empty part)] else [] | Default_entry _ _ \<Rightarrow> []) entries)"

definition xml_typed_member_names :: "zip_archive \<Rightarrow> string list" where
  "xml_typed_member_names archive =
     (case za_manifest archive of
        Inl _ \<Rightarrow> []
      | Inr entries \<Rightarrow>
        remdups (xml_overrides entries
          @ filter (\<lambda>m. member_extension m \<in> set (xml_extensions entries)) (map zm_filename (za_infolist archive))))"

text \<open>The dict of declared sizes: a later member of a name replaces an earlier one.\<close>

definition declared_sizes :: "zip_archive \<Rightarrow> string \<Rightarrow> nat option" where
  "declared_sizes archive = map_of (rev (map (\<lambda>m. (zm_filename m, zm_file_size m)) (za_infolist archive)))"

definition declared_size :: "zip_archive \<Rightarrow> string \<Rightarrow> nat" where
  "declared_size archive name = (case declared_sizes archive name of None \<Rightarrow> 0 | Some n \<Rightarrow> n)"

definition xml_named :: "zip_archive \<Rightarrow> string list" where
  "xml_named archive =
     filter (\<lambda>n. \<exists>x \<in> set XML_MEMBER_SUFFIXES. suffix x (py_lower n)) (remdups (map zm_filename (za_infolist archive)))"

definition xml_parts_over_bound :: "zip_archive \<Rightarrow> bool" where
  "xml_parts_over_bound archive =
     (let named = xml_named archive; xml_named_total = sum_list (map (declared_size archive) named)
      in if xml_named_total > MAX_XML_PARTS_BYTES then True
         else if declared_size archive CONTENT_TYPES_XML > MAX_CONTENT_TYPES_BYTES then True
         else
           (let disguised = filter (\<lambda>n. n \<notin> set named) (xml_typed_member_names archive)
            in xml_named_total + sum_list (map (declared_size archive) disguised) > MAX_XML_PARTS_BYTES))"

definition corrupt_because :: "string \<Rightarrow> extraction_result" where
  "corrupt_because detail = extraction None STATUS_CORRUPT (Some detail) None"

definition validate_ooxml_package :: "office_lib \<Rightarrow> string \<Rightarrow> extraction_result option" where
  "validate_ooxml_package lib payload =
     (if zip_directory_over_bound payload then Some (corrupt_because ''zip-member-bound'')
      else case zip_open lib payload of
        Inl zip_error \<Rightarrow> Some (corrupt_because (''zipfile:'' @ zip_error))
      | Inr archive \<Rightarrow>
        if sum_list (map zm_file_size (za_infolist archive)) > MAX_DECOMPRESSED_BYTES then Some (corrupt_because ''zip-expansion-bound'')
        else if length (za_infolist archive) > MAX_ZIP_MEMBERS then Some (corrupt_because ''zip-member-bound'')
        else if xml_parts_over_bound archive then Some (corrupt_because ''xml-expansion-bound'')
        else None)"

section \<open>Documents\<close>

definition docx_text_result :: "string \<Rightarrow> string \<times> string \<Rightarrow> string option \<Rightarrow> extraction_result" where
  "docx_text_result text provenance detail =
     (if length text \<le> MAX_EXTRACTED_CHARS then extraction (Some text) STATUS_EXTRACTED detail (Some provenance)
      else extraction (Some (take MAX_EXTRACTED_CHARS text)) STATUS_TRUNCATED (Some (''capped from '' @ show_nat (length text) @ '' chars'')) (Some provenance))"

text \<open>One row: the elements seen so far, and a merged cell's text once.\<close>

fun row_once :: "nat list \<Rightarrow> (nat \<times> string) list \<Rightarrow> nat list \<times> string list" where
  "row_once seen [] = (seen, [])"
| "row_once seen ((tc, text) # cells) =
     (let (seen', texts) = row_once (tc # seen) cells in (seen', (if tc \<in> set seen then [] else text) # texts))"

fun rows_once :: "nat list \<Rightarrow> (nat \<times> string) list list \<Rightarrow> string list list" where
  "rows_once seen [] = []"
| "rows_once seen (row # rows) = (let (seen', texts) = row_once seen row in texts # rows_once seen' rows)"

definition table_rows_once :: "(nat \<times> string) list list \<Rightarrow> string list list" where
  "table_rows_once rows = rows_once [] rows"

definition render_docx_block :: "docx_block \<Rightarrow> string" where
  "render_docx_block block =
     (case block of Table rows \<Rightarrow> serialize_table (map (map Some) (table_rows_once rows)) | Paragraph text \<Rightarrow> text)"

definition read_with_python_docx :: "office_lib \<Rightarrow> string \<Rightarrow> string fallible" where
  "read_with_python_docx lib payload =
     bindE (docx_open lib payload) (\<lambda>blocks.
       Inr (join_with [LF] (filter (\<lambda>r. py_strip r \<noteq> []) (map render_docx_block blocks))))"

definition harvest_wordml_text :: "string option list list \<Rightarrow> string" where
  "harvest_wordml_text paragraphs =
     join_with [LF] (filter (\<lambda>line. py_strip line \<noteq> []) (map (\<lambda>nodes. concat (map or_empty nodes)) paragraphs))"

definition zip_xml_fallback :: "office_lib \<Rightarrow> string \<Rightarrow> string \<Rightarrow> extraction_result" where
  "zip_xml_fallback lib payload docx_error =
     (case bindE (zip_open lib payload) za_document_xml of
        Inl fallback_error \<Rightarrow> corrupt_because (''python-docx:'' @ docx_error @ '' xml-fallback:'' @ fallback_error)
      | Inr paragraphs \<Rightarrow>
        (let text = sanitize_body_text (harvest_wordml_text paragraphs)
         in if text = []
            then extraction None STATUS_EMPTY (Some (''python-docx:'' @ docx_error @ '' (xml fallback parsed, no text)'')) (Some (''docx-zip-xml'', ''1''))
            else docx_text_result text (''docx-zip-xml'', ''1'') (Some (''python-docx:'' @ docx_error @ '' (xml fallback)''))))"

definition extract_docx_text :: "codecs \<Rightarrow> office_lib \<Rightarrow> string \<Rightarrow> extraction_result" where
  "extract_docx_text cd lib payload =
     (if is_ole_container payload
      then extraction None STATUS_ENCRYPTED (Some ''ole-container (password-protected docx or mislabeled legacy .doc)'') None
      else case validate_ooxml_package lib payload of
        Some verdict \<Rightarrow> verdict
      | None \<Rightarrow>
        (case read_with_python_docx lib payload of
           Inl docx_error \<Rightarrow> zip_xml_fallback lib payload docx_error
         | Inr body_text \<Rightarrow>
           (let text = sanitize_body_text body_text; provenance = (''python-docx'', package_version cd ''python-docx'')
            in if text = [] then extraction None STATUS_EMPTY None (Some provenance) else docx_text_result text provenance None)))"

section \<open>Workbooks\<close>

definition GRID_FORMAT :: string where
  "GRID_FORMAT = ''xlsx-grid-v1''"

definition MAX_CELLS :: nat where
  "MAX_CELLS = 50000"

definition MAX_SCANNED_CELLS :: nat where
  "MAX_SCANNED_CELLS = 5000000"

definition MAX_STRUCTURED_BYTES :: nat where
  "MAX_STRUCTURED_BYTES = 8 * 1024 * 1024"

definition MAX_SHEETS :: nat where
  "MAX_SHEETS = 100"

definition RENDER_MAX_ROWS :: nat where
  "RENDER_MAX_ROWS = 200"

definition RENDER_MAX_COLS :: nat where
  "RENDER_MAX_COLS = 50"

definition DEFAULT_NUMBER_FORMAT :: string where
  "DEFAULT_NUMBER_FORMAT = ''General''"

text \<open>The typed cell; \<open>tc_shown\<close> is the \<open>str()\<close> form of its value.\<close>

record typed_cell_row =
  tc_ref :: string
  tc_type :: string
  tc_value :: json
  tc_shown :: string
  tc_nf :: "string option"

record sheet_grid =
  sg_name :: string
  sg_rows :: nat
  sg_cols :: nat
  sg_cells :: "typed_cell_row list"

record capture =
  cp_sheets :: "sheet_grid list"
  cp_render_blocks :: "string list"
  cp_cell_count :: nat
  cp_scanned :: nat
  cp_structured_bytes :: nat
  cp_truncated :: bool
  cp_any_cell :: bool

text \<open>The locals of the loop over one sheet; the render grid keeps the latest text of a row and column first.\<close>

record sheet_state =
  ss_cells :: "typed_cell_row list"
  ss_render_grid :: "((nat \<times> nat) \<times> string) list"
  ss_row_capped :: bool
  ss_max_row :: nat
  ss_max_col :: nat

definition show_int :: "int \<Rightarrow> string" where
  "show_int i = (if i < 0 then ''-'' @ show_nat (nat (- i)) else show_nat (nat i))"

definition typed_value :: "cell_value \<Rightarrow> (string \<times> json \<times> string) option" where
  "typed_value v =
     (case v of
        V_None \<Rightarrow> None
      | V_bool b \<Rightarrow> Some (''b'', JBool b, if b then ''True'' else ''False'')
      | V_nonfinite s \<Rightarrow> Some (''s'', JStr s, s)
      | V_int i \<Rightarrow> Some (''n'', JInt i, show_int i)
      | V_float q s \<Rightarrow> Some (''n'', JNum q, s)
      | V_date s \<Rightarrow> Some (''d'', JStr s, s)
      | V_other s \<Rightarrow> (let sanitized = sanitize_body_text s in if sanitized = [] then None else Some (''s'', JStr sanitized, sanitized)))"

definition cell_format :: "xl_cell \<Rightarrow> string option" where
  "cell_format cell =
     (case xc_number_format cell of None \<Rightarrow> None | Some nf \<Rightarrow> if nf = [] \<or> nf = DEFAULT_NUMBER_FORMAT then None else Some nf)"

definition typed_cell :: "office_lib \<Rightarrow> xl_cell \<Rightarrow> nat \<Rightarrow> nat \<Rightarrow> typed_cell_row option fallible" where
  "typed_cell lib cell column_index row_index =
     (case typed_value (xc_value cell) of
        None \<Rightarrow> Inr None
      | Some (type_code, json_value, shown) \<Rightarrow>
        bindE (get_column_letter lib column_index) (\<lambda>letter.
          Inr (Some \<lparr>tc_ref = letter @ show_nat row_index, tc_type = type_code, tc_value = json_value, tc_shown = shown, tc_nf = cell_format cell\<rparr>)))"

definition estimate_cell_bytes :: "typed_cell_row \<Rightarrow> nat" where
  "estimate_cell_bytes typed =
     24 + length (tc_ref typed) + length (tc_shown typed) + (case tc_nf typed of Some nf \<Rightarrow> length nf + 8 | None \<Rightarrow> 0)"

text \<open>Both forms of a value render as its \<open>str()\<close>: a string is its own.\<close>

definition add_to_render :: "sheet_state \<Rightarrow> nat \<Rightarrow> nat \<Rightarrow> string \<Rightarrow> sheet_state" where
  "add_to_render ss row_index column_index text_value =
     (if column_index > RENDER_MAX_COLS then ss
      else if row_index > RENDER_MAX_ROWS then ss\<lparr>ss_row_capped := True\<rparr>
      else ss\<lparr>ss_render_grid := ((row_index, column_index), text_value) # ss_render_grid ss,
              ss_max_row := max (ss_max_row ss) row_index, ss_max_col := max (ss_max_col ss) column_index\<rparr>)"

text \<open>The cells of one row; the flag says that a bound broke the loop.\<close>

fun capture_row :: "office_lib \<Rightarrow> nat \<Rightarrow> nat \<Rightarrow> xl_cell list \<Rightarrow> sheet_state \<Rightarrow> capture \<Rightarrow> (sheet_state \<times> capture \<times> bool) fallible" where
  "capture_row lib row_index column_index [] ss cap = Inr (ss, cap, False)"
| "capture_row lib row_index column_index (cell # cells) ss cap0 =
     (let cap = cap0\<lparr>cp_scanned := cp_scanned cap0 + 1\<rparr>
      in if cp_scanned cap > MAX_SCANNED_CELLS then Inr (ss, cap\<lparr>cp_truncated := True\<rparr>, True)
         else bindE (typed_cell lib cell column_index row_index) (\<lambda>t. case t of
           None \<Rightarrow> capture_row lib row_index (column_index + 1) cells ss cap
         | Some typed \<Rightarrow>
           (let seen = cap\<lparr>cp_any_cell := True\<rparr>; cell_bytes = estimate_cell_bytes typed
            in if cp_cell_count seen \<ge> MAX_CELLS \<or> cp_structured_bytes seen + cell_bytes > MAX_STRUCTURED_BYTES
               then Inr (ss, seen\<lparr>cp_truncated := True\<rparr>, True)
               else capture_row lib row_index (column_index + 1) cells
                      (add_to_render (ss\<lparr>ss_cells := ss_cells ss @ [typed]\<rparr>) row_index column_index (tc_shown typed))
                      (seen\<lparr>cp_cell_count := cp_cell_count seen + 1, cp_structured_bytes := cp_structured_bytes seen + cell_bytes\<rparr>))))"

fun capture_rows :: "office_lib \<Rightarrow> nat \<Rightarrow> xl_cell list fallible list \<Rightarrow> sheet_state \<Rightarrow> capture \<Rightarrow> (sheet_state \<times> capture) fallible" where
  "capture_rows lib row_index [] ss cap = Inr (ss, cap)"
| "capture_rows lib row_index (row # rows) ss cap =
     bindE row (\<lambda>cells. bindE (capture_row lib row_index 1 cells ss cap) (\<lambda>(ss1, cap1, broke).
       if broke then Inr (ss1, cap1\<lparr>cp_truncated := True\<rparr>) else capture_rows lib (row_index + 1) rows ss1 cap1))"

definition render_block :: "string \<Rightarrow> sheet_state \<Rightarrow> string" where
  "render_block sheet_name ss =
     (let marker = ''[sheet: '' @ sheet_name @ '']''
      in if ss_render_grid ss = [] then marker
         else
           (let grid = map (\<lambda>r. map (\<lambda>c. Some (case map_of (ss_render_grid ss) (r, c) of None \<Rightarrow> [] | Some t \<Rightarrow> t)) [1..<ss_max_col ss + 1])
                         [1..<ss_max_row ss + 1];
                table_text = serialize_table grid;
                block = (if table_text \<noteq> [] then marker @ [LF] @ table_text else marker)
            in if ss_row_capped ss then block @ [LF] @ ''[+more rows]'' else block))"

definition new_sheet_state :: sheet_state where
  "new_sheet_state = \<lparr>ss_cells = [], ss_render_grid = [], ss_row_capped = False, ss_max_row = 0, ss_max_col = 0\<rparr>"

definition capture_sheet :: "office_lib \<Rightarrow> worksheet \<Rightarrow> capture \<Rightarrow> capture fallible" where
  "capture_sheet lib ws cap =
     bindE (capture_rows lib 1 (ws_rows ws) new_sheet_state cap) (\<lambda>(ss, cap1).
       Inr (cap1\<lparr>cp_sheets := cp_sheets cap1 @ [\<lparr>sg_name = ws_title ws, sg_rows = (case ws_max_row ws of None \<Rightarrow> 0 | Some n \<Rightarrow> n),
                   sg_cols = (case ws_max_column ws of None \<Rightarrow> 0 | Some n \<Rightarrow> n), sg_cells = ss_cells ss\<rparr>],
                 cp_render_blocks := cp_render_blocks cap1 @ [render_block (ws_title ws) ss]\<rparr>))"

fun capture_sheets :: "office_lib \<Rightarrow> worksheet list \<Rightarrow> capture \<Rightarrow> capture fallible" where
  "capture_sheets lib [] cap = Inr cap"
| "capture_sheets lib (ws # wss) cap =
     (if cp_truncated cap \<and> cp_cell_count cap \<ge> MAX_CELLS then Inr cap
      else bindE (capture_sheet lib ws cap) (capture_sheets lib wss))"

definition new_capture :: capture where
  "new_capture = \<lparr>cp_sheets = [], cp_render_blocks = [], cp_cell_count = 0, cp_scanned = 0, cp_structured_bytes = 0, cp_truncated = False,
     cp_any_cell = False\<rparr>"

definition capture_workbook :: "office_lib \<Rightarrow> worksheet list \<Rightarrow> capture fallible" where
  "capture_workbook lib worksheets =
     (if length worksheets > MAX_SHEETS then capture_sheets lib (take MAX_SHEETS worksheets) (new_capture\<lparr>cp_truncated := True\<rparr>)
      else capture_sheets lib worksheets new_capture)"

definition cell_json :: "typed_cell_row \<Rightarrow> json" where
  "cell_json t = JObj ([(''ref'', JStr (tc_ref t)), (''t'', JStr (tc_type t)), (''v'', tc_value t)]
     @ (case tc_nf t of None \<Rightarrow> [] | Some nf \<Rightarrow> [(''nf'', JStr nf)]))"

definition sheet_json :: "sheet_grid \<Rightarrow> json" where
  "sheet_json s = JObj [(''name'', JStr (sg_name s)),
     (''dims'', JObj [(''rows'', JInt (int (sg_rows s))), (''cols'', JInt (int (sg_cols s)))]),
     (''cells'', JList (map cell_json (sg_cells s)))]"

definition structured_of :: "capture \<Rightarrow> json" where
  "structured_of cap = JObj [(''format'', JStr GRID_FORMAT), (''sheets'', JList (map sheet_json (cp_sheets cap))),
     (''truncated'', JBool (cp_truncated cap))]"

definition result_from_capture :: "codecs \<Rightarrow> capture \<Rightarrow> extraction_result" where
  "result_from_capture cd cap =
     (let structured = structured_of cap;
          detail0 = ''sheets='' @ show_nat (length (cp_sheets cap)) @ '' cells='' @ show_nat (cp_cell_count cap);
          detail = (if cp_truncated cap then detail0 @ '' structured-truncated'' else detail0);
          provenance = Some (''openpyxl'', package_version cd ''openpyxl'')
      in if \<not> cp_any_cell cap then (extraction None STATUS_EMPTY (Some detail) provenance)\<lparr>xr_structured := Some structured\<rparr>
         else
           (let text = sanitize_body_text (join_with [LF, LF] (cp_render_blocks cap))
            in if text = [] then (extraction None STATUS_EMPTY (Some detail) provenance)\<lparr>xr_structured := Some structured\<rparr>
               else if length text > MAX_EXTRACTED_CHARS
               then (extraction (Some (take MAX_EXTRACTED_CHARS text)) STATUS_TRUNCATED
                       (Some (detail @ '' text-capped from '' @ show_nat (length text) @ '' chars'')) provenance)\<lparr>xr_structured := Some structured\<rparr>
               else (extraction (Some text) STATUS_EXTRACTED (Some detail) provenance)\<lparr>xr_structured := Some structured\<rparr>))"

definition extract_xlsx_text :: "codecs \<Rightarrow> office_lib \<Rightarrow> string \<Rightarrow> extraction_result" where
  "extract_xlsx_text cd lib payload =
     (if is_ole_container payload then extraction None STATUS_ENCRYPTED (Some ''ole-container (password-protected xlsx)'') None
      else case validate_ooxml_package lib payload of
        Some verdict \<Rightarrow> verdict
      | None \<Rightarrow>
        (case xlsx_open lib payload of
           Inl load_error \<Rightarrow> corrupt_because (''openpyxl:'' @ load_error)
         | Inr workbook \<Rightarrow>
           (case capture_workbook lib workbook of
              Inl unexpected \<Rightarrow> corrupt_because (''unexpected:'' @ unexpected)
            | Inr cap \<Rightarrow> result_from_capture cd cap)))"

section \<open>What the extractors return\<close>

lemma corrupt_because_ok [simp]: "result_ok (corrupt_because d)" "capped (corrupt_because d)"
  by (simp_all add: corrupt_because_def result_ok_none no_text_statuses)

lemma docx_text_result_ok:
  assumes "t \<noteq> []" and "storable_text t"
  shows "result_ok (docx_text_result t p d)" and "capped (docx_text_result t p d)"
proof -
  show "result_ok (docx_text_result t p d)"
    using assms take_cap_ne[OF assms(1)] by (simp add: docx_text_result_def result_ok_text storable_take text_statuses)
  show "capped (docx_text_result t p d)" by (simp add: docx_text_result_def capped_def extraction_def)
qed

lemma validation_ok: "validate_ooxml_package lib payload = Some x \<Longrightarrow> result_ok x \<and> capped x"
  by (auto simp: validate_ooxml_package_def split: if_splits sum.splits)

lemma fallback_docx_ok: "result_ok (zip_xml_fallback lib payload e)" "capped (zip_xml_fallback lib payload e)"
  by (auto simp: zip_xml_fallback_def Let_def docx_text_result_ok storable_sanitized no_text_statuses intro!: result_ok_none split: sum.splits)

lemma docx_result_ok: "result_ok (extract_docx_text cd lib payload)" "capped (extract_docx_text cd lib payload)"
  by (auto simp: extract_docx_text_def Let_def docx_text_result_ok storable_sanitized no_text_statuses fallback_docx_ok dest: validation_ok
      intro!: result_ok_none split: option.splits sum.splits)

lemma result_ok_structured [simp]: "result_ok (x\<lparr>xr_structured := j\<rparr>) = result_ok x" "capped (x\<lparr>xr_structured := j\<rparr>) = capped x"
  by (simp_all add: result_ok_def capped_def)

lemma capture_result_ok: "result_ok (result_from_capture cd cap)" "capped (result_from_capture cd cap)"
proof -
  let ?t = "sanitize_body_text (join_with [LF, LF] (cp_render_blocks cap))"
  show "result_ok (result_from_capture cd cap)"
    using take_cap_ne[of ?t]
    by (simp add: result_from_capture_def Let_def result_ok_none result_ok_text no_text_statuses text_statuses storable_sanitized storable_take)
  show "capped (result_from_capture cd cap)" by (simp add: result_from_capture_def Let_def capped_def extraction_def)
qed

lemma xlsx_result_ok: "result_ok (extract_xlsx_text cd lib payload)" "capped (extract_xlsx_text cd lib payload)"
  by (auto simp: extract_xlsx_text_def capture_result_ok no_text_statuses dest: validation_ok intro!: result_ok_none split: option.splits sum.splits)

section \<open>Merged cells\<close>

text \<open>The reference: a cell's text stands where its element occurs first in the table, read row by row.\<close>

fun first_texts :: "nat set \<Rightarrow> (nat \<times> string) list \<Rightarrow> string list" where
  "first_texts seen [] = []"
| "first_texts seen ((tc, text) # cells) = (if tc \<in> seen then [] else text) # first_texts (insert tc seen) cells"

lemma row_once_first: "row_once seen row = (seen', texts) \<Longrightarrow> texts = first_texts (set seen) row \<and> set seen' = set seen \<union> fst ` set row"
proof (induction seen row arbitrary: seen' texts rule: row_once.induct)
  case (2 seen tc t cells)
  obtain seen1 ts where r: "row_once (tc # seen) cells = (seen1, ts)" by (cases "row_once (tc # seen) cells")
  from 2(1)[OF r] 2(2) r show ?case by auto
qed simp

lemma first_texts_append: "first_texts seen (xs @ ys) = first_texts seen xs @ first_texts (seen \<union> fst ` set xs) ys"
  by (induction seen xs rule: first_texts.induct) auto

lemma rows_once_first: "concat (rows_once seen rows) = first_texts (set seen) (concat rows)"
proof (induction rows arbitrary: seen)
  case (Cons row rows)
  obtain seen' texts where r: "row_once seen row = (seen', texts)" by (cases "row_once seen row")
  from row_once_first[OF r] Cons.IH[of seen'] show ?case by (simp add: r first_texts_append)
qed simp

section \<open>The grid\<close>

text \<open>The reference: all typed cells of a sheet, row by row.\<close>

fun row_cells :: "office_lib \<Rightarrow> nat \<Rightarrow> nat \<Rightarrow> xl_cell list \<Rightarrow> typed_cell_row list fallible" where
  "row_cells lib r c [] = Inr []"
| "row_cells lib r c (cell # cells) =
     bindE (typed_cell lib cell c r) (\<lambda>t. bindE (row_cells lib r (c + 1) cells) (\<lambda>ts. Inr (case t of None \<Rightarrow> ts | Some x \<Rightarrow> x # ts)))"

fun grid_cells :: "office_lib \<Rightarrow> nat \<Rightarrow> xl_cell list fallible list \<Rightarrow> typed_cell_row list fallible" where
  "grid_cells lib r [] = Inr []"
| "grid_cells lib r (row # rows) =
     bindE row (\<lambda>cells. bindE (row_cells lib r 1 cells) (\<lambda>ts. bindE (grid_cells lib (r + 1) rows) (\<lambda>us. Inr (ts @ us))))"

lemma add_to_render_cells [simp]: "ss_cells (add_to_render ss r c t) = ss_cells ss"
  by (simp add: add_to_render_def)

text \<open>What a loop over cells adds: the cells, their number and their size; it visits at most one cell past the bound, and breaks only truncated.\<close>

definition grown :: "sheet_state \<Rightarrow> capture \<Rightarrow> sheet_state \<Rightarrow> capture \<Rightarrow> typed_cell_row list \<Rightarrow> bool" where
  "grown ss cap ss' cap' ts \<longleftrightarrow> ss_cells ss' = ss_cells ss @ ts \<and> cp_cell_count cap' = cp_cell_count cap + length ts
     \<and> cp_structured_bytes cap' = cp_structured_bytes cap + sum_list (map estimate_cell_bytes ts)
     \<and> (cp_cell_count cap \<le> MAX_CELLS \<longrightarrow> cp_cell_count cap' \<le> MAX_CELLS)
     \<and> (cp_structured_bytes cap \<le> MAX_STRUCTURED_BYTES \<longrightarrow> cp_structured_bytes cap' \<le> MAX_STRUCTURED_BYTES)
     \<and> cp_sheets cap' = cp_sheets cap \<and> cp_render_blocks cap' = cp_render_blocks cap \<and> (cp_truncated cap \<longrightarrow> cp_truncated cap')
     \<and> (ts \<noteq> [] \<longrightarrow> cp_any_cell cap') \<and> (cp_any_cell cap \<longrightarrow> cp_any_cell cap')"

lemma grown_refl: "grown ss cap ss (cap\<lparr>cp_scanned := n, cp_any_cell := a\<rparr>) [] \<longleftrightarrow> (cp_any_cell cap \<longrightarrow> a)"
  and grown_stop: "grown ss cap ss (cap\<lparr>cp_scanned := n, cp_any_cell := a, cp_truncated := True\<rparr>) [] \<longleftrightarrow> (cp_any_cell cap \<longrightarrow> a)"
  and grown_scan: "grown ss cap ss (cap\<lparr>cp_scanned := n, cp_truncated := True\<rparr>) []" "grown ss cap ss (cap\<lparr>cp_scanned := n\<rparr>) []"
  by (auto simp: grown_def)

lemma grown_trans: "grown ss cap ss1 cap1 ts \<Longrightarrow> grown ss1 cap1 ss2 cap2 us \<Longrightarrow> grown ss cap ss2 cap2 (ts @ us)"
  unfolding grown_def by (elim conjE, intro conjI) (simp_all, blast?)

lemma grown_truncate: "grown ss cap ss1 cap1 ts \<Longrightarrow> grown ss cap ss1 (cap1\<lparr>cp_truncated := True\<rparr>) ts"
  unfolding grown_def by (elim conjE, intro conjI) (simp_all, blast?)

lemma capture_row_grown:
  assumes "capture_row lib r c cells ss cap = Inr (ss', cap', broke)"
  shows "\<exists>ts. grown ss cap ss' cap' ts \<and> (\<not> broke \<longrightarrow> row_cells lib r c cells = Inr ts \<and> cp_truncated cap' = cp_truncated cap)
    \<and> (broke \<longrightarrow> cp_truncated cap') \<and> cp_scanned cap' \<le> max MAX_SCANNED_CELLS (cp_scanned cap) + (if broke then 1 else 0)"
  using assms
proof (induction cells arbitrary: c ss cap ss' cap' broke)
  case (Nil c ss cap)
  then show ?case using grown_scan(2)[of ss cap "cp_scanned cap"] by auto
next
  case (Cons cell cells c ss cap0)
  define cap where "cap = cap0\<lparr>cp_scanned := cp_scanned cap0 + 1\<rparr>"
  note run = Cons.prems[unfolded capture_row.simps, folded cap_def, unfolded Let_def]
  show ?case
  proof (cases "cp_scanned cap > MAX_SCANNED_CELLS")
    case True
    with run have "ss' = ss" "cap' = cap\<lparr>cp_truncated := True\<rparr>" broke by auto
    then show ?thesis using grown_scan(1)[of ss cap0 "cp_scanned cap0 + 1"] by (auto simp: cap_def intro!: exI[of _ "[]"])
  next
    case within: False
    with run obtain t where t: "typed_cell lib cell c r = Inr t" by (auto simp: bindE_Inr)
    show ?thesis
    proof (cases t)
      case None
      with run within t have next_run: "capture_row lib r (c + 1) cells ss cap = Inr (ss', cap', broke)" by simp
      from Cons.IH[OF next_run] obtain ts
        where ts: "grown ss cap ss' cap' ts" "\<not> broke \<longrightarrow> row_cells lib r (c + 1) cells = Inr ts \<and> cp_truncated cap' = cp_truncated cap"
          "broke \<longrightarrow> cp_truncated cap'" "cp_scanned cap' \<le> max MAX_SCANNED_CELLS (cp_scanned cap) + (if broke then 1 else 0)" by blast
      moreover have "grown ss cap0 ss cap []" unfolding cap_def by (rule grown_scan)
      ultimately have "grown ss cap0 ss' cap' ts" using grown_trans[of ss cap0 ss cap "[]"] by simp
      with ts within show ?thesis by (auto simp: t None cap_def intro!: exI[of _ ts])
    next
      case (Some typed)
      define seen where "seen = cap\<lparr>cp_any_cell := True\<rparr>"
      let ?full = "cp_cell_count seen \<ge> MAX_CELLS \<or> cp_structured_bytes seen + estimate_cell_bytes typed > MAX_STRUCTURED_BYTES"
      show ?thesis
      proof (cases ?full)
        case True
        with run within t Some have "ss' = ss" "cap' = seen\<lparr>cp_truncated := True\<rparr>" broke by (auto simp: seen_def)
        moreover have "grown ss cap0 ss (seen\<lparr>cp_truncated := True\<rparr>) []"
          using grown_stop[where n = "cp_scanned cap0 + 1" and a = True and ss = ss and cap = cap0] by (simp add: seen_def cap_def)
        ultimately show ?thesis using within by (auto simp: seen_def intro!: exI[of _ "[]"])
      next
        case room: False
        let ?ss = "add_to_render (ss\<lparr>ss_cells := ss_cells ss @ [typed]\<rparr>) r c (tc_shown typed)"
        let ?cap = "seen\<lparr>cp_cell_count := cp_cell_count seen + 1, cp_structured_bytes := cp_structured_bytes seen + estimate_cell_bytes typed\<rparr>"
        from run within t Some room have next_run: "capture_row lib r (c + 1) cells ?ss ?cap = Inr (ss', cap', broke)" by (simp add: seen_def)
        from Cons.IH[OF next_run] obtain ts
          where ts: "grown ?ss ?cap ss' cap' ts" "\<not> broke \<longrightarrow> row_cells lib r (c + 1) cells = Inr ts \<and> cp_truncated cap' = cp_truncated ?cap"
            "broke \<longrightarrow> cp_truncated cap'" "cp_scanned cap' \<le> max MAX_SCANNED_CELLS (cp_scanned ?cap) + (if broke then 1 else 0)" by blast
        have "grown ss cap0 ?ss ?cap [typed]" using room by (simp add: grown_def seen_def cap_def)
        with ts(1) have "grown ss cap0 ss' cap' ([typed] @ ts)" by (rule grown_trans[rotated])
        with ts(2-4) within show ?thesis by (auto simp: t Some cap_def seen_def intro!: exI[of _ "typed # ts"])
      qed
    qed
  qed
qed

lemma capture_rows_grown:
  assumes "capture_rows lib r rows ss cap = Inr (ss', cap')"
  shows "\<exists>ts. grown ss cap ss' cap' ts \<and> (\<not> cp_truncated cap' \<longrightarrow> grid_cells lib r rows = Inr ts)
    \<and> cp_scanned cap' \<le> max MAX_SCANNED_CELLS (cp_scanned cap) + 1"
  using assms
proof (induction rows arbitrary: r ss cap ss' cap')
  case (Nil r ss cap)
  then show ?case using grown_scan(2)[of ss cap "cp_scanned cap"] by auto
next
  case (Cons row rows r ss cap)
  from Cons.prems obtain cells ss1 cap1 broke where row: "row = Inr cells" and one: "capture_row lib r 1 cells ss cap = Inr (ss1, cap1, broke)"
    and rest: "(if broke then Inr (ss1, cap1\<lparr>cp_truncated := True\<rparr>) else capture_rows lib (r + 1) rows ss1 cap1) = Inr (ss', cap')"
    by (auto simp: bindE_Inr)
  from capture_row_grown[OF one] obtain ts where ts: "grown ss cap ss1 cap1 ts"
    "\<not> broke \<longrightarrow> row_cells lib r 1 cells = Inr ts \<and> cp_truncated cap1 = cp_truncated cap"
    "cp_scanned cap1 \<le> max MAX_SCANNED_CELLS (cp_scanned cap) + (if broke then 1 else 0)" by blast
  show ?case
  proof (cases broke)
    case True
    with rest have "ss' = ss1" "cap' = cap1\<lparr>cp_truncated := True\<rparr>" by simp_all
    with grown_truncate[OF ts(1)] ts(3) True show ?thesis by (intro exI[of _ ts]) simp
  next
    case False
    with rest have go: "capture_rows lib (r + 1) rows ss1 cap1 = Inr (ss', cap')" by simp
    from Cons.IH[OF go] obtain us where us: "grown ss1 cap1 ss' cap' us" "\<not> cp_truncated cap' \<longrightarrow> grid_cells lib (r + 1) rows = Inr us"
      "cp_scanned cap' \<le> max MAX_SCANNED_CELLS (cp_scanned cap1) + 1" by blast
    from grown_trans[OF ts(1) us(1)] us(2,3) ts(2,3) False row show ?thesis by (auto intro!: exI[of _ "ts @ us"])
  qed
qed

definition capture_ok :: "capture \<Rightarrow> nat \<Rightarrow> bool" where
  "capture_ok cap n \<longleftrightarrow> cp_cell_count cap = (\<Sum>s \<leftarrow> cp_sheets cap. length (sg_cells s))
     \<and> cp_structured_bytes cap = (\<Sum>s \<leftarrow> cp_sheets cap. \<Sum>c \<leftarrow> sg_cells s. estimate_cell_bytes c)
     \<and> cp_cell_count cap \<le> MAX_CELLS \<and> cp_structured_bytes cap \<le> MAX_STRUCTURED_BYTES
     \<and> length (cp_sheets cap) = n \<and> cp_scanned cap \<le> MAX_SCANNED_CELLS + n
     \<and> (cp_any_cell cap \<longrightarrow> cp_render_blocks cap \<noteq> []) \<and> (\<forall>b \<in> set (cp_render_blocks cap). prefix ''[sheet: '' b)"

definition sheet_of :: "office_lib \<Rightarrow> worksheet \<Rightarrow> sheet_grid \<Rightarrow> bool" where
  "sheet_of lib ws s \<longleftrightarrow> grid_cells lib 1 (ws_rows ws) = Inr (sg_cells s) \<and> sg_name s = ws_title ws"

lemma render_block_marker: "prefix ''[sheet: '' (render_block name ss)"
  by (simp add: render_block_def Let_def)

lemma capture_sheet_step:
  assumes "capture_ok cap n" and "capture_sheet lib ws cap = Inr cap'"
  shows "capture_ok cap' (Suc n) \<and> (cp_truncated cap \<longrightarrow> cp_truncated cap')
    \<and> (\<exists>s. cp_sheets cap' = cp_sheets cap @ [s] \<and> (\<not> cp_truncated cap' \<longrightarrow> sheet_of lib ws s))"
proof -
  from assms(2) obtain ss cap1 where run: "capture_rows lib 1 (ws_rows ws) new_sheet_state cap = Inr (ss, cap1)"
    and cap': "cap' = cap1\<lparr>cp_sheets := cp_sheets cap1 @ [\<lparr>sg_name = ws_title ws, sg_rows = (case ws_max_row ws of None \<Rightarrow> 0 | Some n \<Rightarrow> n),
        sg_cols = (case ws_max_column ws of None \<Rightarrow> 0 | Some n \<Rightarrow> n), sg_cells = ss_cells ss\<rparr>],
      cp_render_blocks := cp_render_blocks cap1 @ [render_block (ws_title ws) ss]\<rparr>"
    by (auto simp: capture_sheet_def bindE_Inr)
  from capture_rows_grown[OF run] obtain ts where g: "grown new_sheet_state cap ss cap1 ts"
    and all: "\<not> cp_truncated cap1 \<longrightarrow> grid_cells lib 1 (ws_rows ws) = Inr ts"
    and sc: "cp_scanned cap1 \<le> max MAX_SCANNED_CELLS (cp_scanned cap) + 1" by blast
  from g have cells: "ss_cells ss = ts" by (simp add: grown_def new_sheet_state_def)
  have "capture_ok cap' (Suc n)"
    using g sc assms(1) unfolding capture_ok_def grown_def cap' by (auto simp: cells render_block_marker)
  moreover have "cp_truncated cap \<longrightarrow> cp_truncated cap'" using g unfolding grown_def cap' by simp
  moreover have "\<exists>s. cp_sheets cap' = cp_sheets cap @ [s] \<and> (\<not> cp_truncated cap' \<longrightarrow> sheet_of lib ws s)"
    using g all unfolding cap' grown_def by (simp add: sheet_of_def cells)
  ultimately show ?thesis by blast
qed

lemma capture_sheets_steps:
  assumes "capture_ok cap n" and "capture_sheets lib wss cap = Inr cap'"
  shows "(\<exists>m \<le> n + length wss. capture_ok cap' m) \<and> (cp_truncated cap \<longrightarrow> cp_truncated cap')
    \<and> (\<not> cp_truncated cap' \<longrightarrow> (\<exists>ss. cp_sheets cap' = cp_sheets cap @ ss \<and> list_all2 (sheet_of lib) wss ss))"
  using assms
proof (induction wss arbitrary: cap n)
  case (Cons ws wss)
  show ?case
  proof (cases "cp_truncated cap \<and> cp_cell_count cap \<ge> MAX_CELLS")
    case True
    with Cons.prems show ?thesis by (auto intro!: exI[of _ n])
  next
    case False
    with Cons.prems(2) obtain cap1 where one: "capture_sheet lib ws cap = Inr cap1" and rest: "capture_sheets lib wss cap1 = Inr cap'"
      by (auto simp: bindE_Inr split: if_splits)
    from capture_sheet_step[OF Cons.prems(1) one] obtain s where s: "capture_ok cap1 (Suc n)" "cp_truncated cap \<longrightarrow> cp_truncated cap1"
      "cp_sheets cap1 = cp_sheets cap @ [s]" "\<not> cp_truncated cap1 \<longrightarrow> sheet_of lib ws s" by blast
    from Cons.IH[OF s(1) rest] have ih: "\<exists>m \<le> Suc n + length wss. capture_ok cap' m" "cp_truncated cap1 \<longrightarrow> cp_truncated cap'"
      "\<not> cp_truncated cap' \<longrightarrow> (\<exists>ss. cp_sheets cap' = cp_sheets cap1 @ ss \<and> list_all2 (sheet_of lib) wss ss)" by blast+
    have "\<exists>ss. cp_sheets cap' = cp_sheets cap @ ss \<and> list_all2 (sheet_of lib) (ws # wss) ss" if ok: "\<not> cp_truncated cap'"
    proof -
      from ok ih(2,3) obtain ss where "cp_sheets cap' = cp_sheets cap1 @ ss" "list_all2 (sheet_of lib) wss ss" by blast
      with s(3,4) ih(2) ok show ?thesis by (intro exI[of _ "s # ss"]) simp
    qed
    with ih(1,2) s(2) show ?thesis by auto
  qed
qed auto

lemma new_capture_ok [simp]: "capture_ok new_capture 0" "capture_ok (new_capture\<lparr>cp_truncated := True\<rparr>) 0"
  by (simp_all add: capture_ok_def new_capture_def)

lemma capture_workbook_ok:
  assumes "capture_workbook lib wss = Inr cap"
  shows "\<exists>m \<le> MAX_SHEETS. capture_ok cap m"
proof (cases "length wss > MAX_SHEETS")
  case True
  then show ?thesis using assms capture_sheets_steps[OF new_capture_ok(2)] unfolding capture_workbook_def by fastforce
next
  case False
  with assms capture_sheets_steps[OF new_capture_ok(1), of lib wss cap] obtain m where "m \<le> length wss" "capture_ok cap m"
    by (auto simp: capture_workbook_def)
  with False show ?thesis using le_trans not_less by blast
qed

text \<open>
  The typed grid of a workbook stays within its bounds for every workbook openpyxl shows: at most 50,000 cells and 8 MiB of
  estimated size over all its sheets, at most 100 sheets, and at most 5,000,000 cells visited (and one more per sheet), however large
  the declared dimensions are.
\<close>

theorem workbook_capture_bounded:
  assumes "capture_workbook lib wss = Inr cap"
  shows "(\<Sum>s \<leftarrow> cp_sheets cap. length (sg_cells s)) \<le> 50000
    \<and> (\<Sum>s \<leftarrow> cp_sheets cap. \<Sum>c \<leftarrow> sg_cells s. estimate_cell_bytes c) \<le> 8388608
    \<and> length (cp_sheets cap) \<le> 100 \<and> cp_scanned cap \<le> 5000100"
  using capture_workbook_ok[OF assms]
  by (auto simp: capture_ok_def MAX_CELLS_def MAX_STRUCTURED_BYTES_def MAX_SHEETS_def MAX_SCANNED_CELLS_def)

text \<open>
  C34: Unless it is marked truncated the typed grid is lossless: it has one sheet per worksheet, in order and under its name, whose
  cells are all the non-empty cells of the worksheet, row by row, with their reference, type, value and number format.
\<close>

theorem workbook_capture_lossless:
  assumes "capture_workbook lib wss = Inr cap" and "\<not> cp_truncated cap"
  shows "list_all2 (\<lambda>ws s. grid_cells lib 1 (ws_rows ws) = Inr (sg_cells s) \<and> sg_name s = ws_title ws) wss (cp_sheets cap)"
proof (cases "length wss > MAX_SHEETS")
  case True
  with assms capture_sheets_steps[OF new_capture_ok(2), of lib "take MAX_SHEETS wss" cap] show ?thesis by (simp add: capture_workbook_def)
next
  case False
  with assms capture_sheets_steps[OF new_capture_ok(1), of lib wss cap] have "list_all2 (sheet_of lib) wss (cp_sheets cap)"
    by (auto simp: capture_workbook_def new_capture_def)
  then show ?thesis by (rule list_all2_mono) (simp add: sheet_of_def)
qed

section \<open>Cells without text\<close>

lemma join_with_head: "s \<noteq> [] \<Longrightarrow> join_with sep (s # ss) \<noteq> [] \<and> hd (join_with sep (s # ss)) = hd s"
  by (cases ss) auto

text \<open>
  The branch that reports a workbook with cells as \<open>empty\<close> because nothing rendered is never taken: the marker of a sheet is
  a text, so a workbook whose cells all lie outside the render window is \<open>extracted\<close> with its markers only.
\<close>

lemma any_cell_bears_text:
  assumes "capture_workbook lib wss = Inr cap" and "cp_any_cell cap"
  shows "xr_status (result_from_capture cd cap) \<in> {STATUS_EXTRACTED, STATUS_TRUNCATED}"
proof -
  from capture_workbook_ok[OF assms(1)] assms(2) have b: "cp_render_blocks cap \<noteq> []" "\<forall>b \<in> set (cp_render_blocks cap). prefix ''[sheet: '' b"
    by (auto simp: capture_ok_def)
  then obtain x bs where x: "cp_render_blocks cap = x # bs" "prefix ''[sheet: '' x" by (cases "cp_render_blocks cap") auto
  then have "x \<noteq> []" "hd x = CHR ''[''" by (auto simp: prefix_def)
  with join_with_head[of x "[LF, LF]" bs] x(1) have "CHR ''['' \<in> set (join_with [LF, LF] (cp_render_blocks cap))"
    by (metis list.set_sel(1))
  then have "sanitize_body_text (join_with [LF, LF] (cp_render_blocks cap)) \<noteq> []"
    by (rule sanitize_ne) (simp_all add: unstorable_def py_isspace_def)
  then show ?thesis using assms(2) by (simp add: result_from_capture_def Let_def extraction_def)
qed

section \<open>A concrete workbook\<close>

definition demo_office :: office_lib where
  "demo_office = \<lparr>zip_open = \<lambda>_. Inl ''BadZipFile'', docx_open = \<lambda>_. Inr [Paragraph ''hello''], xlsx_open = \<lambda>_. Inr [],
     get_column_letter = \<lambda>_. Inr ''A''\<rparr>"

definition one_cell_sheet :: "string \<Rightarrow> cell_value \<Rightarrow> worksheet" where
  "one_cell_sheet title v = \<lparr>ws_title = title, ws_max_row = Some 1, ws_max_column = None,
     ws_rows = [Inr [\<lparr>xc_value = v, xc_number_format = Some ''General''\<rparr>]]\<rparr>"

definition demo_cap :: capture where
  "demo_cap = \<lparr>cp_sheets = [\<lparr>sg_name = ''S'', sg_rows = 1, sg_cols = 0,
     sg_cells = [\<lparr>tc_ref = ''A1'', tc_type = ''n'', tc_value = JInt 7, tc_shown = ''7'', tc_nf = None\<rparr>]\<rparr>],
     cp_render_blocks = [''[sheet: S]'' @ [LF] @ ''7''], cp_cell_count = 1, cp_scanned = 1, cp_structured_bytes = 27, cp_truncated = False,
     cp_any_cell = True\<rparr>"

lemma show_digits: "show_nat (Suc 0) = ''1''" "show_int 7 = ''7''"
  by (simp_all add: show_digit show_int_def char_of_eq_iff take_bit_eq_mod)

lemmas demo_defs = capture_workbook_def capture_sheet_def new_capture_def new_sheet_state_def one_cell_sheet_def demo_office_def typed_cell_def
  typed_value_def cell_format_def estimate_cell_bytes_def add_to_render_def DEFAULT_NUMBER_FORMAT_def MAX_SHEETS_def MAX_CELLS_def
  MAX_SCANNED_CELLS_def MAX_STRUCTURED_BYTES_def RENDER_MAX_ROWS_def RENDER_MAX_COLS_def show_digits Let_def

lemma demo_capture: "capture_workbook demo_office [one_cell_sheet ''S'' (V_int 7)] = Inr demo_cap"
  by (simp add: demo_defs demo_cap_def render_block_def serialize_table_def serialize_row_def py_strip_def strip_where_def py_strip_chars_def
      py_isspace_def)

theorem workbook_capture_bounded_witness:
  "capture_workbook demo_office [one_cell_sheet ''S'' (V_int 7)] = Inr demo_cap \<and> length (cp_sheets demo_cap) \<le> 100"
  using workbook_capture_bounded[OF demo_capture] demo_capture by simp

theorem workbook_capture_lossless_witness:
  "capture_workbook demo_office [one_cell_sheet ''S'' (V_int 7)] = Inr demo_cap
    \<and> list_all2 (\<lambda>ws s. grid_cells demo_office 1 (ws_rows ws) = Inr (sg_cells s) \<and> sg_name s = ws_title ws) [one_cell_sheet ''S'' (V_int 7)]
        (cp_sheets demo_cap)"
  using workbook_capture_lossless[OF demo_capture] demo_capture by (simp add: demo_cap_def)

text \<open>
  A cell over the size bound ends the capture of its own sheet only: the next sheet's cells are captured again, so the grid keeps
  what comes after the bound was hit.
\<close>

lemma size_bound_resumes:
  assumes "length shown > MAX_STRUCTURED_BYTES"
  shows "\<exists>cap. capture_workbook demo_office [one_cell_sheet ''S'' (V_float 0 shown), one_cell_sheet ''T'' (V_bool True)] = Inr cap
    \<and> cp_truncated cap \<and> map (\<lambda>s. (sg_name s, length (sg_cells s))) (cp_sheets cap) = [(''S'', 0), (''T'', 1)]"
  using assms by (simp add: demo_defs)

end
