(* ===== verification/Tnef_Extract.thy ===== *)
theory Tnef_Extract
  imports Pdf_Extract Office_Extract
begin

text \<open>
  The TNEF extractor (\<open>connectors/extraction/tnef.py\<close>, \<open>tnef_rtf.py\<close>): the best body of a winmail.dat container and the text of its
  embedded files, each dispatched by its sniffed kind and isolated from the failures of the others. tnefparse is an argument: the
  properties of a container, every access of which may raise. The em dash of the section markers is the character 0x97 here
  (its code in cp1252), and the byte order mark in front of a text is not a character of the model.
\<close>

section \<open>What tnefparse shows\<close>

text \<open>Properties come as text or as undecoded bytes.\<close>

datatype tnef_text = TStr string | TBytes string

fun tnef_chars :: "tnef_text \<Rightarrow> string" where
  "tnef_chars (TStr s) = s"
| "tnef_chars (TBytes s) = s"

record tnef_attachment =
  ta_long_filename :: "tnef_text option fallible"
  ta_name :: "tnef_text option fallible"
  ta_data :: "string option fallible"

text \<open>\<open>tn_rtfbody_compressed\<close> is the property before decompression (\<open>_rtfbody\<close>).\<close>

record tnef_container =
  tn_rtfbody_compressed :: "string option fallible"
  tn_rtfbody :: "tnef_text fallible"
  tn_htmlbody :: "tnef_text option fallible"
  tn_body :: "tnef_text option fallible"
  tn_attachments :: "tnef_attachment list fallible"

type_synonym tnef_lib = "string \<Rightarrow> tnef_container fallible"

section \<open>Bounds\<close>

definition MAX_EMBEDDED_FILES :: nat where
  "MAX_EMBEDDED_FILES = 64"

definition MAX_BODY_SOURCE_BYTES :: nat where
  "MAX_BODY_SOURCE_BYTES = 16 * 1024 * 1024"

definition MAX_EMBEDDED_NAME_CHARS :: nat where
  "MAX_EMBEDDED_NAME_CHARS = 80"

definition MAX_COMPRESSED_RTF_BYTES :: nat where
  "MAX_COMPRESSED_RTF_BYTES = 8 * 1024 * 1024"

definition EMBEDDED_TEXT_MIN_PRINTABLE_RATIO :: rat where
  "EMBEDDED_TEXT_MIN_PRINTABLE_RATIO = 7 / 10"

definition HTML_TEXT_PREFIXES :: "string list" where
  "HTML_TEXT_PREFIXES = [''<html'', ''<!doctype'']"

definition RTF_TEXT_PREFIX :: string where
  "RTF_TEXT_PREFIX = ''{'' @ [CHR 0x5C] @ ''rtf''"

definition LEADING_TEXT_NOISE :: string where
  "LEADING_TEXT_NOISE = [CHR '' '', CHR 0x09, CR, LF, CHR 0x0B, CHR 0x0C]"

definition unsafe_name_char :: "char \<Rightarrow> bool" where
  "unsafe_name_char c = (let n = (of_char c :: nat) in n \<le> 31 \<or> (127 \<le> n \<and> n \<le> 159) \<or> c = CHR ''['' \<or> c = CHR '']'')"

section \<open>Bodies\<close>

definition compressed_rtf_over_bound :: "tnef_container \<Rightarrow> nat \<Rightarrow> bool" where
  "compressed_rtf_over_bound container max_compressed_bytes =
     (case tn_rtfbody_compressed container of Inr (Some p) \<Rightarrow> length p > max_compressed_bytes | _ \<Rightarrow> False)"

definition flatten_tnef_rtf_body :: "codecs \<Rightarrow> tnef_container \<Rightarrow> nat \<Rightarrow> string option fallible" where
  "flatten_tnef_rtf_body cd container max_compressed_bytes =
     bindE (tn_rtfbody_compressed container) (\<lambda>p. case p of
       None \<Rightarrow> Inr None
     | Some compressed \<Rightarrow>
       if compressed = [] then Inr None
       else if length compressed > max_compressed_bytes then Inl ''RtfBodyOverBoundError''
       else bindE (tn_rtfbody container) (\<lambda>rtf. bindE (cd_rtf_to_text cd (tnef_chars rtf)) (\<lambda>t. Inr (Some (py_strip t)))))"

text \<open>A body layer that fails is absent, so the next layer is tried.\<close>

definition or_absent :: "string fallible \<Rightarrow> string" where
  "or_absent r = (case r of Inr t \<Rightarrow> t | Inl _ \<Rightarrow> [])"

definition rtf_body_text :: "codecs \<Rightarrow> tnef_container \<Rightarrow> string" where
  "rtf_body_text cd container =
     or_absent (bindE (flatten_tnef_rtf_body cd container MAX_COMPRESSED_RTF_BYTES) (\<lambda>flattened. case flattened of
       None \<Rightarrow> Inr []
     | Some t \<Rightarrow> if t = [] then Inr [] else map_sum id sanitize_body_text (redecode_single_byte_text cd t)))"

definition decoded_source :: "codecs \<Rightarrow> tnef_text \<Rightarrow> string fallible" where
  "decoded_source cd source =
     (case source of TStr s \<Rightarrow> redecode_single_byte_text cd s | TBytes b \<Rightarrow> decode_charset_chain cd b None)"

definition html_body_text :: "codecs \<Rightarrow> tnef_container \<Rightarrow> string" where
  "html_body_text cd container =
     or_absent (bindE (tn_htmlbody container) (\<lambda>html. case html of
       None \<Rightarrow> Inr []
     | Some h \<Rightarrow>
       if tnef_chars h = [] \<or> length (tnef_chars h) > MAX_BODY_SOURCE_BYTES then Inr []
       else bindE (decoded_source cd h) (\<lambda>source. bindE (cd_html_to_text cd source) (\<lambda>flat.
              map_sum id sanitize_body_text (redecode_single_byte_text cd flat)))))"

definition plain_body_text :: "codecs \<Rightarrow> tnef_container \<Rightarrow> string" where
  "plain_body_text cd container =
     or_absent (bindE (tn_body container) (\<lambda>body. case body of
       None \<Rightarrow> Inr []
     | Some b \<Rightarrow>
       if tnef_chars b = [] \<or> length (tnef_chars b) > MAX_BODY_SOURCE_BYTES then Inr []
       else map_sum id sanitize_body_text (decoded_source cd b)))"

definition container_body_text :: "codecs \<Rightarrow> tnef_container \<Rightarrow> string \<times> string \<times> string option" where
  "container_body_text cd container =
     (let over = compressed_rtf_over_bound container MAX_COMPRESSED_RTF_BYTES;
          note' = (if over then Some ''rtf-body-over-bound'' else None);
          rtf_text = (if over then [] else rtf_body_text cd container);
          html_text = html_body_text cd container;
          plain_text = plain_body_text cd container
      in if rtf_text \<noteq> [] then (rtf_text, ''rtf'', None)
         else if html_text \<noteq> [] then (html_text, ''html'', note')
         else if plain_text \<noteq> [] then (plain_text, ''plain'', note')
         else ([], ''none'', note'))"

section \<open>Embedded files\<close>

definition flatten_embedded_markup :: "codecs \<Rightarrow> string \<Rightarrow> string fallible" where
  "flatten_embedded_markup cd decoded =
     (let head = py_lower (take 16 (dropWhile (\<lambda>c. c \<in> set LEADING_TEXT_NOISE) decoded))
      in if \<exists>p \<in> set HTML_TEXT_PREFIXES. prefix p head then bindE (cd_html_to_text cd decoded) (redecode_single_byte_text cd)
         else if prefix RTF_TEXT_PREFIX head then bindE (cd_rtf_to_text cd decoded) (redecode_single_byte_text cd)
         else Inr decoded)"

definition embedded_text_payload :: "codecs \<Rightarrow> string \<Rightarrow> (string option \<times> string) fallible" where
  "embedded_text_payload cd payload =
     bindE (decode_charset_chain cd payload None) (\<lambda>decoded.
       if printable_ratio decoded < EMBEDDED_TEXT_MIN_PRINTABLE_RATIO then Inr (None, ''binary content misclassified as text'')
       else bindE (flatten_embedded_markup cd decoded) (\<lambda>flat.
         let text = sanitize_body_text flat in Inr (if text = [] then (None, STATUS_EMPTY) else (Some text, STATUS_EXTRACTED))))"

definition dispatch_embedded :: "codecs \<Rightarrow> pdf_lib \<Rightarrow> office_lib \<Rightarrow> string \<Rightarrow> (string option \<times> string) fallible" where
  "dispatch_embedded cd pdf office payload =
     bindE (detect_payload_kind cd payload) (\<lambda>kind.
       if kind = KIND_PDF then (let inner = extract_pdf_text cd pdf payload in Inr (xr_text inner, xr_status inner))
       else if kind = KIND_ZIP
       then (let inner = extract_docx_text cd office payload
             in if xr_status inner = STATUS_CORRUPT then Inr (None, STATUS_UNSUPPORTED_FORMAT) else Inr (xr_text inner, xr_status inner))
       else if kind = KIND_TEXT then embedded_text_payload cd payload
       else Inr (None, ''skipped '' @ kind))"

definition truthy_name :: "tnef_text option \<Rightarrow> tnef_text option" where
  "truthy_name n = (case n of Some t \<Rightarrow> if tnef_chars t = [] then None else Some t | None \<Rightarrow> None)"

text \<open>\<open>long_filename() or name or ''\<close>: the second access is made only where the first gives nothing.\<close>

definition raw_embedded_name :: "tnef_attachment \<Rightarrow> tnef_text" where
  "raw_embedded_name attachment =
     (case ta_long_filename attachment of
        Inl _ \<Rightarrow> TStr []
      | Inr long \<Rightarrow>
        (case truthy_name long of
           Some t \<Rightarrow> t
         | None \<Rightarrow> (case ta_name attachment of Inl _ \<Rightarrow> TStr [] | Inr short \<Rightarrow> (case truthy_name short of Some t \<Rightarrow> t | None \<Rightarrow> TStr []))))"

definition codec_value :: "codec_result \<Rightarrow> string fallible" where
  "codec_value r = (case r of Decoded t \<Rightarrow> Inr t | Decode_error _ \<Rightarrow> Inl ''UnicodeDecodeError'' | Lookup_error \<Rightarrow> Inl ''LookupError'' | Codec_raises e \<Rightarrow> Inl e)"

definition safe_embedded_name :: "codecs \<Rightarrow> tnef_attachment \<Rightarrow> string fallible" where
  "safe_embedded_name cd attachment =
     bindE (case raw_embedded_name attachment of TStr s \<Rightarrow> Inr s | TBytes b \<Rightarrow> codec_value (cd_decode_replace cd ''utf-8'' b)) (\<lambda>raw_name.
       let safe = take MAX_EMBEDDED_NAME_CHARS (py_strip (filter (\<lambda>c. \<not> unsafe_name_char c) raw_name))
       in Inr (if safe = [] then ''unnamed'' else safe))"

definition embedded_marker :: "string \<Rightarrow> string \<Rightarrow> string" where
  "embedded_marker name status = ''[embedded: '' @ name @ '' '' @ [CHR 0x97] @ '' '' @ status @ '']''"

definition embedded_section :: "codecs \<Rightarrow> pdf_lib \<Rightarrow> office_lib \<Rightarrow> tnef_attachment \<Rightarrow> (string \<times> nat) fallible" where
  "embedded_section cd pdf office attachment =
     bindE (safe_embedded_name cd attachment) (\<lambda>name. Inr (
       case bindE (ta_data attachment) (\<lambda>payload. case payload of
              None \<Rightarrow> Inr None
            | Some p \<Rightarrow> if p = [] then Inr None else bindE (dispatch_embedded cd pdf office p) (\<lambda>r. Inr (Some r))) of
         Inl embedded_error \<Rightarrow> (embedded_marker name (''failed:'' @ embedded_error), 0)
       | Inr None \<Rightarrow> (embedded_marker name STATUS_EMPTY, 0)
       | Inr (Some (inner_text, marker_status)) \<Rightarrow>
         (case inner_text of
            Some t \<Rightarrow> if t = [] then (embedded_marker name marker_status, 0) else (''[embedded: '' @ name @ '']'' @ [LF] @ t, length t)
          | None \<Rightarrow> (embedded_marker name marker_status, 0))))"

fun embedded_sections ::
  "codecs \<Rightarrow> pdf_lib \<Rightarrow> office_lib \<Rightarrow> nat \<Rightarrow> nat \<Rightarrow> tnef_attachment list \<Rightarrow> string list \<Rightarrow> nat \<Rightarrow> nat
    \<Rightarrow> (string list \<times> nat \<times> string option) fallible" where
  "embedded_sections cd pdf office file_count index [] chunks content_chars materialized = Inr (chunks, content_chars, None)"
| "embedded_sections cd pdf office file_count index (attachment # rest) chunks content_chars materialized =
     (if index \<ge> MAX_EMBEDDED_FILES
      then Inr (chunks @ [''[+'' @ show_nat (file_count - MAX_EMBEDDED_FILES) @ '' more embedded files skipped]''], content_chars, None)
      else bindE (embedded_section cd pdf office attachment) (\<lambda>(section, section_content_chars).
        let materialized' = materialized + length section + (if chunks \<noteq> [] then 2 else 0)
        in if materialized' > MAX_EXTRACTED_CHARS
           then Inr (chunks @ [section], content_chars + section_content_chars, Some (capped_from materialized'))
           else embedded_sections cd pdf office file_count (index + 1) rest (chunks @ [section]) (content_chars + section_content_chars) materialized'))"

section \<open>The container\<close>

definition tnef_result :: "codecs \<Rightarrow> string option \<Rightarrow> string \<Rightarrow> string \<Rightarrow> extraction_result" where
  "tnef_result cd text status detail = extraction text status (Some detail) (provenance_of cd ''tnefparse'')"

definition tnef_verdict :: "codecs \<Rightarrow> string \<Rightarrow> string list \<times> nat \<times> string option \<Rightarrow> extraction_result" where
  "tnef_verdict cd detail loop =
     (let (chunks, content_chars, bail_reason) = loop; text = sanitize_body_text (join_with [LF, LF] chunks)
      in if content_chars = 0 then tnef_result cd None STATUS_EMPTY detail
         else if text = [] then tnef_result cd None STATUS_EMPTY detail
         else if bail_reason = None \<and> length text \<le> MAX_EXTRACTED_CHARS then tnef_result cd (Some text) STATUS_EXTRACTED detail
         else tnef_result cd (Some (take MAX_EXTRACTED_CHARS text)) STATUS_TRUNCATED
                (case bail_reason of Some r \<Rightarrow> r | None \<Rightarrow> capped_from (length text)))"

definition read_container :: "codecs \<Rightarrow> pdf_lib \<Rightarrow> office_lib \<Rightarrow> tnef_container \<Rightarrow> extraction_result fallible" where
  "read_container cd pdf office container =
     (let (body_text, body_kind, body_note) = container_body_text cd container
      in bindE (tn_attachments container) (\<lambda>embedded.
           let detail0 = ''body='' @ body_kind @ '' embedded_files='' @ show_nat (length embedded);
               detail = (case body_note of Some n \<Rightarrow> detail0 @ '' '' @ n | None \<Rightarrow> detail0);
               chunks = (if body_text \<noteq> [] then [body_text] else [])
           in bindE (embedded_sections cd pdf office (length embedded) 0 embedded chunks (length body_text) (length body_text)) (\<lambda>loop.
                Inr (tnef_verdict cd detail loop))))"

definition extract_tnef_text :: "codecs \<Rightarrow> pdf_lib \<Rightarrow> office_lib \<Rightarrow> tnef_lib \<Rightarrow> string \<Rightarrow> extraction_result" where
  "extract_tnef_text cd pdf office tnef payload =
     (case tnef payload of
        Inl tnef_error \<Rightarrow> corrupt_because (''tnefparse:'' @ tnef_error)
      | Inr container \<Rightarrow>
        (case read_container cd pdf office container of
           Inl unexpected \<Rightarrow> corrupt_because (''unexpected:'' @ unexpected)
         | Inr result \<Rightarrow> result))"

section \<open>What the extractor returns\<close>

lemma tnef_verdict_ok: "result_ok (tnef_verdict cd detail loop)" "capped (tnef_verdict cd detail loop)"
proof -
  obtain chunks n b where l: "loop = (chunks, n, b)" by (cases loop)
  let ?t = "sanitize_body_text (join_with [LF, LF] chunks)"
  show "result_ok (tnef_verdict cd detail loop)"
    using take_cap_ne[of ?t]
    by (simp add: l tnef_verdict_def tnef_result_def Let_def result_ok_none result_ok_text no_text_statuses text_statuses storable_sanitized storable_take)
  show "capped (tnef_verdict cd detail loop)"
    by (simp add: l tnef_verdict_def tnef_result_def Let_def capped_def extraction_def)
qed

lemma read_container_ok: "read_container cd pdf office c = Inr x \<Longrightarrow> result_ok x \<and> capped x"
  by (auto simp: read_container_def Let_def bindE_Inr tnef_verdict_ok split: prod.splits)

lemma tnef_result_ok: "result_ok (extract_tnef_text cd pdf office tnef payload)" "capped (extract_tnef_text cd pdf office tnef payload)"
  by (auto simp: extract_tnef_text_def dest: read_container_ok split: sum.splits)

text \<open>
  An embedded file's name cannot forge a section: it has no line break and no bracket, and at most 80 characters.
\<close>

lemma safe_name:
  assumes "safe_embedded_name cd a = Inr name"
  shows "name \<noteq> [] \<and> length name \<le> 80 \<and> (\<forall>c \<in> set name. \<not> unsafe_name_char c)"
proof -
  from assms obtain raw where name: "name = (let safe = take MAX_EMBEDDED_NAME_CHARS (py_strip (filter (\<lambda>c. \<not> unsafe_name_char c) raw))
      in if safe = [] then ''unnamed'' else safe)"
    by (auto simp: safe_embedded_name_def bindE_Inr Let_def)
  have "set (py_strip (filter (\<lambda>c. \<not> unsafe_name_char c) raw)) \<subseteq> {c. \<not> unsafe_name_char c}"
    unfolding py_strip_def using set_strip_where by fastforce
  then show ?thesis unfolding name Let_def
    by (auto simp: MAX_EMBEDDED_NAME_CHARS_def unsafe_name_char_def dest!: in_set_takeD)
qed

end
