(* ===== verification/Redact.thy ===== *)
theory Redact
  imports Py_Regex "HOL-Library.Code_Target_Nat"
begin

text \<open>
  The masking gate for secrets (\<open>connectors/extraction/redact.py\<close>): four detectors run over a text before it is stored, each
  replacing what it finds by a typed placeholder. Entropies are real numbers here, floats in the code.
\<close>

section \<open>Placeholders and the entropy gate\<close>

definition PLACEHOLDER_PREFIX :: string where
  "PLACEHOLDER_PREFIX = ''[REDACTED:''"

definition PLACEHOLDER :: "string \<Rightarrow> string" where
  "PLACEHOLDER kind = PLACEHOLDER_PREFIX @ kind @ '']''"

definition MIN_KEYED_VALUE_ENTROPY :: real where
  "MIN_KEYED_VALUE_ENTROPY = 3"

definition MIN_KEYED_VALUE_LEN :: nat where
  "MIN_KEYED_VALUE_LEN = 12"

definition MAX_REDACT_SCAN_CHARS :: nat where
  "MAX_REDACT_SCAN_CHARS = 2000000"

definition char_counts :: "string \<Rightarrow> nat list" where
  "char_counts value = map (count_list value) (remdups value)"

definition shannon_entropy :: "string \<Rightarrow> real" where
  "shannon_entropy value =
     (if value = [] then 0
      else - (\<Sum>n \<leftarrow> char_counts value. (real n / real (length value)) * log 2 (real n / real (length value))))"

definition looks_high_entropy :: "string \<Rightarrow> bool" where
  "looks_high_entropy value =
     (if length value < MIN_KEYED_VALUE_LEN then False else shannon_entropy value \<ge> MIN_KEYED_VALUE_ENTROPY)"

section \<open>Detectors\<close>

definition digit :: "char \<Rightarrow> bool" where
  "digit c = (let n = (of_char c :: nat) in 48 \<le> n \<and> n \<le> 57)"

definition upper :: "char \<Rightarrow> bool" where
  "upper c = (let n = (of_char c :: nat) in 65 \<le> n \<and> n \<le> 90)"

definition lower :: "char \<Rightarrow> bool" where
  "lower c = (let n = (of_char c :: nat) in 97 \<le> n \<and> n \<le> 122)"

definition alnum :: "char \<Rightarrow> bool" where
  "alnum c = (upper c \<or> lower c \<or> digit c)"

definition url_safe :: "char \<Rightarrow> bool" where
  "url_safe c = (alnum c \<or> c = CHR ''_'' \<or> c = CHR ''-'')"

definition aws_access_key :: rx where
  "aws_access_key = Seq WordB (Seq (AnyOf (map Lit [''AKIA'', ''ASIA'', ''AGPA'', ''AIDA'', ''AROA'', ''AIPA'', ''ANPA'', ''ANVA'', ''ASCA'']))
     (Seq (Rep (\<lambda>c. digit c \<or> upper c) 16 (Some 16)) WordB))"

definition openai_key :: rx where
  "openai_key = Seq WordB (Seq (Lit ''sk-'') (Seq (Opt (AnyOf (map Lit [''proj-'', ''ant-'', ''svcacct-'']))) (Seq (Rep url_safe 20 None) WordB)))"

definition google_api_key :: rx where
  "google_api_key = Seq WordB (Seq (Lit ''AIza'') (Seq (Rep url_safe 35 (Some 35)) WordB))"

definition github_token :: rx where
  "github_token = Alt
     (Seq WordB (Seq (AnyOf (map Lit [''ghp'', ''gho'', ''ghu'', ''ghs'', ''ghr''])) (Seq (Lit ''_'') (Seq (Rep alnum 20 None) WordB))))
     (Seq WordB (Seq (Lit ''github_pat_'') (Seq (Rep (\<lambda>c. alnum c \<or> c = CHR ''_'') 20 None) WordB)))"

definition slack_token :: rx where
  "slack_token = Seq WordB (Seq (Lit ''xox'') (Seq (Cls (\<lambda>c. c \<in> set ''baprs'')) (Seq (Lit ''-'')
     (Seq (Rep (\<lambda>c. alnum c \<or> c = CHR ''-'') 10 None) WordB))))"

definition stripe_key :: rx where
  "stripe_key = Seq WordB (Seq (AnyOf (map Lit [''sk'', ''rk''])) (Seq (Lit ''_live_'') (Seq (Rep alnum 20 None) WordB)))"

definition jwt_token :: rx where
  "jwt_token = Seq WordB (Seq (Lit ''eyJ'') (Seq (Rep url_safe 10 None) (Seq (Lit ''.'') (Seq (Rep url_safe 10 None)
     (Seq (Lit ''.'') (Rep url_safe 0 None))))))"

definition TOKEN_DETECTORS :: "(string \<times> rx) list" where
  "TOKEN_DETECTORS = [(''aws_access_key'', aws_access_key), (''openai_key'', openai_key), (''google_api_key'', google_api_key),
     (''github_token'', github_token), (''slack_token'', slack_token), (''stripe_key'', stripe_key), (''jwt_token'', jwt_token)]"

definition pem_marker :: "string \<Rightarrow> rx" where
  "pem_marker word = Seq (Lit (''-----'' @ word @ '' '')) (Seq (Opt (Seq (Rep (\<lambda>c. upper c \<or> digit c \<or> c = CHR '' '') 1 None) (Lit '' '')))
     (Lit ''PRIVATE KEY-----''))"

definition PEM_PRIVATE_KEY :: rx where
  "PEM_PRIVATE_KEY = Seq (pem_marker ''BEGIN'') (Seq (Lazy (Seq (NotAhead (pem_marker ''BEGIN'')) (Cls (\<lambda>_. True)))) (pem_marker ''END''))"

definition dash_or_underscore :: rx where
  "dash_or_underscore = Opt (Cls (\<lambda>c. c = CHR ''_'' \<or> c = CHR ''-''))"

definition SENSITIVE_KEY_NAME :: rx where
  "SENSITIVE_KEY_NAME = AnyOf [LitI ''password'', LitI ''passwd'', LitI ''pwd'', LitI ''secret'', LitI ''secret_key'',
     Seq (LitI ''api'') (Seq dash_or_underscore (LitI ''key'')), LitI ''apikey'',
     Seq (LitI ''access'') (Seq dash_or_underscore (LitI ''key'')), Seq (LitI ''auth'') (Seq dash_or_underscore (LitI ''token'')),
     Seq (LitI ''access'') (Seq dash_or_underscore (LitI ''token'')), Seq (LitI ''client'') (Seq dash_or_underscore (LitI ''secret'')),
     Seq (LitI ''private'') (Seq dash_or_underscore (LitI ''key'')), LitI ''token'']"

definition quote_char :: "char \<Rightarrow> bool" where
  "quote_char c = (c = CHR 0x22 \<or> c = CHR 0x27)"

definition keyed_lead :: rx where
  "keyed_lead = Seq (NotBehind alnum) (Seq SENSITIVE_KEY_NAME (Seq (Opt (Cls quote_char)) (Seq (Rep py_isspace 0 None)
     (Seq (Cls (\<lambda>c. c = CHR '':'' \<or> c = CHR ''='')) (Seq (Rep py_isspace 0 None) (Opt (Cls quote_char)))))))"

definition keyed_value :: rx where
  "keyed_value = Rep (\<lambda>c. \<not> (py_isspace c \<or> quote_char c \<or> c \<in> set '';,}'')) MIN_KEYED_VALUE_LEN None"

definition conn_char :: "char \<Rightarrow> bool" where
  "conn_char c = (\<not> (py_isspace c \<or> c \<in> set '':/@''))"

definition connstring_lead :: rx where
  "connstring_lead = Seq (Cls (\<lambda>c. upper c \<or> lower c)) (Seq (Rep (\<lambda>c. alnum c \<or> c \<in> set ''+.-'') 0 (Some 31)) (Seq (Lit ''://'')
     (Seq (Rep conn_char 1 (Some 256)) (Lit '':''))))"

definition connstring_value :: rx where
  "connstring_value = Rep conn_char MIN_KEYED_VALUE_LEN None"

definition connstring_host :: rx where
  "connstring_host = Seq (Lit ''@'') (Rep (\<lambda>c. \<not> (py_isspace c \<or> c \<in> set ''/@'')) 1 None)"

section \<open>Redaction\<close>

fun redact_each :: "(string \<times> rx) list \<Rightarrow> string \<Rightarrow> nat \<Rightarrow> string \<times> nat" where
  "redact_each [] text count = (text, count)"
| "redact_each ((kind, pattern) # ds) text count =
     (let (text', replaced) = subn pattern (PLACEHOLDER kind) text in redact_each ds text' (count + replaced))"

definition redact_tokens :: "string \<Rightarrow> string \<times> nat" where
  "redact_tokens text = redact_each TOKEN_DETECTORS text 0"

definition redact_pem :: "string \<Rightarrow> string \<times> nat" where
  "redact_pem text = subn PEM_PRIVATE_KEY (PLACEHOLDER ''private_key'') text"

text \<open>A value is left where it is a placeholder already or an ordinary word.\<close>

definition left_verbatim :: "string \<Rightarrow> bool" where
  "left_verbatim value = (prefix PLACEHOLDER_PREFIX value \<or> \<not> looks_high_entropy value)"

definition keyed_groups :: "pos \<Rightarrow> (pos \<times> pos) list" where
  "keyed_groups s = concat (map (\<lambda>s1. map (Pair s1) (alts keyed_value s1)) (alts keyed_lead s))"

definition keyed_match :: "pos \<Rightarrow> (piece list \<times> pos) option" where
  "keyed_match s =
     (case keyed_groups s of
        [] \<Rightarrow> None
      | (s1, s2) # _ \<Rightarrow>
        Some (if left_verbatim (between s1 s2) then [kept (between s s2)]
              else [kept (between s s1), \<lparr>pc_source = between s1 s2, pc_out = PLACEHOLDER ''credential'', pc_counted = True\<rparr>], s2))"

definition redact_keyed_values :: "string \<Rightarrow> string \<times> nat" where
  "redact_keyed_values text = rendered (scan keyed_match ([], text))"

definition connstring_groups :: "pos \<Rightarrow> (pos \<times> pos \<times> pos) list" where
  "connstring_groups s = concat (map (\<lambda>s1. concat (map (\<lambda>s2. map (\<lambda>s3. (s1, s2, s3)) (alts connstring_host s2)) (alts connstring_value s1)))
     (alts connstring_lead s))"

definition connstring_match :: "pos \<Rightarrow> (piece list \<times> pos) option" where
  "connstring_match s =
     (case connstring_groups s of
        [] \<Rightarrow> None
      | (s1, s2, s3) # _ \<Rightarrow>
        Some (if left_verbatim (between s1 s2) then [kept (between s s3)]
              else [kept (between s s1), \<lparr>pc_source = between s1 s2, pc_out = PLACEHOLDER ''connection_password'', pc_counted = True\<rparr>,
                    kept (between s2 s3)], s3))"

definition redact_connstring_passwords :: "string \<Rightarrow> string \<times> nat" where
  "redact_connstring_passwords text = rendered (scan connstring_match ([], text))"

definition redact_scan :: "string \<Rightarrow> string \<times> nat" where
  "redact_scan text =
     (let (text1, n1) = redact_pem text; (text2, n2) = redact_tokens text1; (text3, n3) = redact_keyed_values text2;
          (text4, n4) = redact_connstring_passwords text3
      in (text4, n1 + n2 + n3 + n4))"

definition redact_secrets :: "string \<Rightarrow> string \<times> nat" where
  "redact_secrets text =
     (if text = [] then (text, 0)
      else if length text > MAX_REDACT_SCAN_CHARS
      then (let (redacted_head, total) = redact_scan (take MAX_REDACT_SCAN_CHARS text)
            in (redacted_head @ drop MAX_REDACT_SCAN_CHARS text, total))
      else redact_scan text)"

section \<open>The entropy gate in integers\<close>

text \<open>
  With counts \<open>n\<close> of the characters of a value of length \<open>L\<close> the entropy is at least \<open>h\<close> bits exactly when
  \<open>2 ^ (h * L) * (\<Prod>n. n ^ n) \<le> L ^ L\<close>.
\<close>

lemma sum_char_counts: "sum_list (char_counts value) = length value"
proof -
  have "sum_list (char_counts value) = (\<Sum>c \<in> set value. count_list value c)"
    by (simp add: char_counts_def sum_list_distinct_conv_sum_set)
  then show ?thesis by (simp add: sum_count_set)
qed

lemma char_counts_pos: "n \<in> set (char_counts value) \<Longrightarrow> 0 < n"
  by (auto simp: char_counts_def count_list_0_iff intro!: gr0I)

lemma log_prod_pow: "(\<And>n. n \<in> set ns \<Longrightarrow> 0 < n) \<Longrightarrow> log 2 (real (\<Prod>n \<leftarrow> ns. n ^ n)) = (\<Sum>n \<leftarrow> ns. real n * log 2 (real n))"
proof (induction ns)
  case (Cons n ns)
  have "0 < (\<Prod>n \<leftarrow> ns. n ^ n)" using Cons.prems by (induction ns) auto
  with Cons show ?case by (simp add: log_mult log_nat_power)
qed simp

lemma entropy_scaled:
  assumes "value \<noteq> []"
  shows "real (length value) * shannon_entropy value = log 2 (real (length value) ^ length value) - log 2 (real (\<Prod>n \<leftarrow> char_counts value. n ^ n))"
proof -
  let ?L = "real (length value)"
  have L: "0 < ?L" using assms by simp
  have split: "(\<Sum>n \<leftarrow> ns. real n / ?L * log 2 (real n / ?L)) * ?L = (\<Sum>n \<leftarrow> ns. real n * log 2 (real n)) - real (sum_list ns) * log 2 ?L"
    if "\<And>n. n \<in> set ns \<Longrightarrow> 0 < n" for ns
    using that
  proof (induction ns)
    case (Cons n ns)
    then have n: "0 < real n" by simp
    have "real n / ?L * log 2 (real n / ?L) * ?L = real n * (log 2 (real n) - log 2 ?L)" using n L by (simp add: log_divide)
    with Cons show ?case by (simp add: distrib_right right_diff_distrib)
  qed simp
  have "?L * shannon_entropy value = - ((\<Sum>n \<leftarrow> char_counts value. real n * log 2 (real n)) - ?L * log 2 ?L)"
    using split[OF char_counts_pos] assms by (simp add: shannon_entropy_def sum_char_counts mult.commute)
  also have "\<dots> = log 2 (?L ^ length value) - log 2 (real (\<Prod>n \<leftarrow> char_counts value. n ^ n))"
    using L by (simp add: log_prod_pow[OF char_counts_pos] log_nat_power)
  finally show ?thesis .
qed

lemma entropy_integer:
  assumes "value \<noteq> []"
  shows "shannon_entropy value \<ge> real h \<longleftrightarrow> 2 ^ (h * length value) * (\<Prod>n \<leftarrow> char_counts value. n ^ n) \<le> length value ^ length value"
proof -
  let ?L = "length value" and ?P = "\<Prod>n \<leftarrow> char_counts value. n ^ n"
  have "0 < (\<Prod>n \<leftarrow> ns. n ^ n)" if "\<And>n. n \<in> set ns \<Longrightarrow> 0 < n" for ns :: "nat list" using that by (induction ns) auto
  from this[OF char_counts_pos] have P: "0 < ?P" .
  have "shannon_entropy value \<ge> real h \<longleftrightarrow> real ?L * real h \<le> real ?L * shannon_entropy value" using assms by simp
  also have "\<dots> \<longleftrightarrow> log 2 (2 ^ (h * ?L)) + log 2 (real ?P) \<le> log 2 (real ?L ^ ?L)"
    unfolding entropy_scaled[OF assms] by (simp add: log_nat_power mult.commute) linarith
  also have "\<dots> \<longleftrightarrow> log 2 (real (2 ^ (h * ?L) * ?P)) \<le> log 2 (real (?L ^ ?L))" using P by (simp add: log_mult)
  also have "\<dots> \<longleftrightarrow> 2 ^ (h * ?L) * ?P \<le> ?L ^ ?L" using P assms by (subst log_le_cancel_iff) (simp_all only: of_nat_le_iff, simp_all)
  finally show ?thesis .
qed

lemma looks_high_entropy_code [code]: "looks_high_entropy value \<longleftrightarrow> 12 \<le> length value \<and> 8 ^ length value * (\<Prod>n \<leftarrow> char_counts value. n ^ n) \<le> length value ^ length value"
proof (cases "12 \<le> length value")
  case True
  then have "value \<noteq> []" by auto
  with True entropy_integer[of "value" 3] show ?thesis
    by (simp add: looks_high_entropy_def MIN_KEYED_VALUE_LEN_def MIN_KEYED_VALUE_ENTROPY_def power_mult)
qed (simp add: looks_high_entropy_def MIN_KEYED_VALUE_LEN_def)

end
