(* ===== verification/Mail_Parser.thy ===== *)
theory Mail_Parser
  imports Mail_Headers Attachment_Extract Email_Ingest "HOL-Library.Char_ord" "HOL-Library.List_Lexorder"
begin

text \<open>
  The strict parse of one mail (\<open>connectors/imap/parsing/email_parser.py\<close>) and its content identity, the dedup key
  (\<open>dedup_key.py\<close>). The MIME parser, the address parser and the hash of the standard library are arguments: the parts of a message
  with every access that may raise. Errors carry the class name of the exception.
\<close>

section \<open>What the MIME parser shows\<close>

text \<open>\<open>mp_payload\<close> is the decoded payload where it is bytes, \<open>mp_content\<close> the \<open>str()\<close> of \<open>get_content()\<close>.\<close>

record mime_part =
  mp_headers :: "mime_header list"
  mp_content_type :: string
  mp_payload :: "string option fallible"
  mp_charset :: "string option fallible"
  mp_content :: "string fallible"
  mp_as_bytes :: "string fallible"
  mp_filename :: "string option fallible"
  mp_disposition :: "string option fallible"

record mime_message =
  mm_part :: mime_part
  mm_is_multipart :: bool
  mm_maintype :: string
  mm_get_body :: "string list \<Rightarrow> mime_part option fallible"
  mm_iter_attachments :: "mime_part list fallible"

record mail_lib =
  ml_message :: "string \<Rightarrow> mime_message fallible"
  ml_id_headers :: "string \<Rightarrow> mime_header list fallible"
  ml_getaddresses :: "string list \<Rightarrow> (string \<times> string) list fallible"
  ml_parsedate :: date_parser
  ml_sha256 :: "string \<Rightarrow> string"
  ml_codecs :: codecs
  ml_tnef :: tnef_lib

abbreviation message_headers :: "mime_message \<Rightarrow> mime_header list" where
  "message_headers m \<equiv> mp_headers (mm_part m)"

section \<open>Parts\<close>

definition RECIPIENT_HEADERS :: "(string \<times> recipient_kind) list" where
  "RECIPIENT_HEADERS = [(''to'', kind_to), (''cc'', kind_cc), (''bcc'', kind_bcc), (''reply-to'', kind_reply_to), (''sender'', kind_sender)]"

definition DECODE_ERRORS :: "string list" where
  "DECODE_ERRORS = LOOKUP_ERRORS @ VALUE_ERRORS"

definition decoded_content :: "mime_part \<Rightarrow> string fallible" where
  "decoded_content part = (case mp_content part of Inr t \<Rightarrow> Inr t | Inl e \<Rightarrow> if e \<in> set DECODE_ERRORS then Inr [] else Inl e)"

definition decode_text_part :: "mail_lib \<Rightarrow> mime_part \<Rightarrow> string fallible" where
  "decode_text_part lib part =
     bindE (mp_payload part) (\<lambda>payload. case payload of
       None \<Rightarrow> decoded_content part
     | Some p \<Rightarrow> bindE (mp_charset part) (\<lambda>charset. decode_charset_chain (ml_codecs lib) p charset))"

definition extract_body_text :: "mail_lib \<Rightarrow> mime_message \<Rightarrow> string fallible" where
  "extract_body_text lib message =
     bindE (mm_get_body message [''plain'', ''html'']) (\<lambda>body_part. case body_part of
       None \<Rightarrow> Inr []
     | Some part \<Rightarrow>
       bindE (decode_text_part lib part) (\<lambda>text.
         bindE (if mp_content_type part = ''text/html'' then cd_html_to_text (ml_codecs lib) text else Inr text) (\<lambda>flat.
           Inr (fst (redact_secrets (sanitize_body_text flat))))))"

definition attachment_bytes :: "mime_part \<Rightarrow> string fallible" where
  "attachment_bytes part =
     bindE (mp_payload part) (\<lambda>payload. case payload of
       Some p \<Rightarrow> Inr p
     | None \<Rightarrow> (case mp_as_bytes part of Inr b \<Rightarrow> Inr b | Inl e \<Rightarrow> if e \<in> set ([''KeyError'', ''TypeError''] @ VALUE_ERRORS) then Inr [] else Inl e))"

definition none_if_empty :: "string option \<Rightarrow> string option" where
  "none_if_empty s = (if s = Some [] then None else s)"

definition part_as_attachment :: "mail_lib \<Rightarrow> mime_part \<Rightarrow> parsed_attachment fallible" where
  "part_as_attachment lib part =
     bindE (attachment_bytes part) (\<lambda>payload.
       bindE (safe_header (mp_headers part) ''Content-ID'') (\<lambda>content_id.
         bindE (mp_filename part) (\<lambda>filename.
           bindE (mp_disposition part) (\<lambda>disposition.
             Inr \<lparr>pt_filename = none_if_empty (sanitize filename MSGID_MAX), pt_content_type = take CONTENT_TYPE_MAX (strip_nul (mp_content_type part)),
                  pt_size_bytes = length payload, pt_content_hash = ml_sha256 lib payload, pt_is_inline = (disposition = Some ''inline''),
                  pt_content_id = sanitize (clean_message_id content_id) MSGID_MAX, pt_payload = payload\<rparr>))))"

fun traverse :: "('a \<Rightarrow> 'b fallible) \<Rightarrow> 'a list \<Rightarrow> 'b list fallible" where
  "traverse f [] = Inr []"
| "traverse f (x # xs) = bindE (f x) (\<lambda>y. bindE (traverse f xs) (\<lambda>ys. Inr (y # ys)))"

definition extract_attachments :: "mail_lib \<Rightarrow> mime_message \<Rightarrow> parsed_attachment list fallible" where
  "extract_attachments lib message =
     (if \<not> mm_is_multipart message
      then if mm_maintype message = ''multipart'' then Inr []
           else bindE (mm_get_body message [''plain'', ''html'']) (\<lambda>body. case body of
             Some _ \<Rightarrow> Inr []
           | None \<Rightarrow> bindE (part_as_attachment lib (mm_part message)) (\<lambda>a. Inr [a]))
      else bindE (mm_iter_attachments message) (traverse (part_as_attachment lib)))"

section \<open>Addresses\<close>

text \<open>\<open>getaddresses([str(v) for v in message.get_all(name, [])])\<close>.\<close>

definition header_addresses :: "mail_lib \<Rightarrow> mime_header list \<Rightarrow> string \<Rightarrow> (string \<times> string) list fallible" where
  "header_addresses lib hs name =
     bindE (traverse hd_value (filter (header_named name) hs)) (\<lambda>vs. bindE (traverse hv_str vs) (ml_getaddresses lib))"

definition addr_spec_or_none :: "string option \<Rightarrow> string option" where
  "addr_spec_or_none address = (case address of None \<Rightarrow> None | Some a \<Rightarrow> if CHR ''@'' \<in> set a then Some a else None)"

definition first_address :: "mail_lib \<Rightarrow> mime_header list \<Rightarrow> string \<Rightarrow> (string option \<times> string option) fallible" where
  "first_address lib hs name =
     bindE (header_addresses lib hs name) (\<lambda>pairs. Inr (
       case find (\<lambda>(_, address). address \<noteq> []) pairs of
         None \<Rightarrow> (None, None)
       | Some (n, address) \<Rightarrow> (if n = [] then None else Some n, Some address)))"

fun add_recipients ::
  "recipient_kind \<Rightarrow> (string \<times> string) list \<Rightarrow> (recipient_kind \<times> string) list \<times> parsed_recipient list
    \<Rightarrow> (recipient_kind \<times> string) list \<times> parsed_recipient list" where
  "add_recipients kind [] acc = acc"
| "add_recipients kind ((name, address) # pairs) (seen_edges, recipients) =
     (if address = [] \<or> CHR ''@'' \<notin> set address then add_recipients kind pairs (seen_edges, recipients)
      else
        (let stored_address = take ADDR_MAX (strip_nul address); edge = (kind, py_lower stored_address)
         in if edge \<in> set seen_edges then add_recipients kind pairs (seen_edges, recipients)
            else add_recipients kind pairs (edge # seen_edges, recipients @
                   [\<lparr>pr_kind = kind, pr_address = stored_address, pr_name = none_if_empty (sanitize (Some name) ADDR_MAX)\<rparr>])))"

fun recipients_from ::
  "mail_lib \<Rightarrow> mime_header list \<Rightarrow> (string \<times> recipient_kind) list \<Rightarrow> (recipient_kind \<times> string) list \<times> parsed_recipient list
    \<Rightarrow> parsed_recipient list fallible" where
  "recipients_from lib hs [] acc = Inr (snd acc)"
| "recipients_from lib hs ((header_name, kind) # rest) acc =
     bindE (header_addresses lib hs header_name) (\<lambda>pairs. recipients_from lib hs rest (add_recipients kind pairs acc))"

definition extract_recipients :: "mail_lib \<Rightarrow> mime_header list \<Rightarrow> parsed_recipient list fallible" where
  "extract_recipients lib hs = recipients_from lib hs RECIPIENT_HEADERS ([], [])"

section \<open>The content identity\<close>

text \<open>UTF-8 of the characters of the model.\<close>

definition utf8_char :: "char \<Rightarrow> string" where
  "utf8_char c = (let n = (of_char c :: nat) in if n < 128 then [c] else [char_of (192 + n div 64), char_of (128 + n mod 64)])"

definition utf8_encode :: "string \<Rightarrow> string" where
  "utf8_encode s = concat (map utf8_char s)"

definition date_instant :: "mail_lib \<Rightarrow> mime_header list \<Rightarrow> string fallible" where
  "date_instant lib hs =
     bindE (safe_header hs ''Date'') (\<lambda>raw.
       bindE (parse_date (ml_parsedate lib) (Some (or_empty raw))) (\<lambda>parsed.
         case parsed of Some d \<Rightarrow> dt_utc_text d | None \<Rightarrow> Inr (or_empty raw)))"

definition tnef_flattened_body_component :: "mail_lib \<Rightarrow> tnef_container \<Rightarrow> string fallible" where
  "tnef_flattened_body_component lib interior =
     (case flatten_tnef_rtf_body (ml_codecs lib) interior MAX_COMPRESSED_RTF_BYTES of
        Inl e \<Rightarrow> if e = ''RtfBodyOverBoundError'' then Inr ''rtf-over-bound'' else Inl e
      | Inr None \<Rightarrow> Inr ''no-rtf''
      | Inr (Some flattened) \<Rightarrow> Inr (ml_sha256 lib (utf8_encode flattened)))"

definition embedded_digests :: "mail_lib \<Rightarrow> tnef_container \<Rightarrow> string list fallible" where
  "embedded_digests lib interior =
     bindE (tn_attachments interior) (\<lambda>embedded. bindE (traverse ta_data embedded) (\<lambda>payloads.
       Inr (sort (map (ml_sha256 lib) (filter (\<lambda>p. p \<noteq> []) (map or_empty payloads))))))"

definition tnef_interior_digest :: "mail_lib \<Rightarrow> string \<Rightarrow> string" where
  "tnef_interior_digest lib payload =
     (case bindE (ml_tnef lib payload) (\<lambda>interior. bindE (tnef_flattened_body_component lib interior) (\<lambda>body_component.
             bindE (embedded_digests lib interior) (\<lambda>parts. Inr (body_component, parts)))) of
        Inl _ \<Rightarrow> ''unparseable''
      | Inr (body_component, parts) \<Rightarrow>
        if parts = [] \<and> body_component = ''no-rtf'' then ''empty''
        else ml_sha256 lib (utf8_encode (join_with ''|'' (body_component # parts))))"

definition attachment_identity :: "mail_lib \<Rightarrow> parsed_attachment \<Rightarrow> string" where
  "attachment_identity lib attachment =
     (if pt_content_type attachment = ''application/ms-tnef'' then ''tnef:'' @ tnef_interior_digest lib (pt_payload attachment)
      else ml_sha256 lib (utf8_encode (or_empty (pt_filename attachment))) @ '':'' @ pt_content_hash attachment)"

definition recipient_pairs :: "string \<Rightarrow> (string \<times> string) list \<Rightarrow> string list" where
  "recipient_pairs kind pairs =
     map (\<lambda>(_, address). kind @ '':'' @ py_lower (py_strip address)) (filter (\<lambda>(_, address). address \<noteq> []) pairs)"

definition recipient_identity :: "mail_lib \<Rightarrow> mime_header list \<Rightarrow> string fallible" where
  "recipient_identity lib hs =
     bindE (header_addresses lib hs ''to'') (\<lambda>to_pairs. bindE (header_addresses lib hs ''cc'') (\<lambda>cc_pairs.
       Inr (join_with ''|'' (sort (recipient_pairs ''to'' to_pairs @ recipient_pairs ''cc'' cc_pairs)))))"

definition html_body_digest :: "mail_lib \<Rightarrow> mime_message \<Rightarrow> string fallible" where
  "html_body_digest lib message =
     bindE (mm_get_body message [''html'']) (\<lambda>html_part. case html_part of
       None \<Rightarrow> Inr []
     | Some part \<Rightarrow>
       bindE (decode_text_part lib part) (\<lambda>html.
         Inr (ml_sha256 lib (utf8_encode (map (\<lambda>c. if c = CR then LF else c) (replace_crlf html))))))"

text \<open>The fields of the identity; \<open>None\<close> where the raw bytes are the identity.\<close>

record identity_fields =
  id_message_id :: string
  id_from :: string
  id_subject :: string
  id_instant :: string
  id_envelope :: string
  id_body :: string
  id_html :: string
  id_attachments :: "string list"

definition dedup_fields ::
  "mail_lib \<Rightarrow> mime_message \<Rightarrow> string option \<Rightarrow> string \<Rightarrow> parsed_attachment list \<Rightarrow> identity_fields option fallible" where
  "dedup_fields lib message message_id body_text attachments =
     (case message_id of
        None \<Rightarrow> Inr None
      | Some mid \<Rightarrow>
        if NUL \<in> set mid \<or> length mid > MSGID_MAX then Inr None
        else bindE (html_body_digest lib message) (\<lambda>html_digest.
          if body_text = [] \<and> html_digest = [] \<and> attachments = [] then Inr None
          else bindE (safe_header (message_headers message) ''From'') (\<lambda>sender.
            bindE (safe_header (message_headers message) ''Subject'') (\<lambda>subject.
              bindE (date_instant lib (message_headers message)) (\<lambda>instant.
                bindE (recipient_identity lib (message_headers message)) (\<lambda>envelope.
                  Inr (Some \<lparr>id_message_id = mid, id_from = or_empty sender, id_subject = or_empty subject, id_instant = instant,
                    id_envelope = envelope, id_body = body_text, id_html = html_digest,
                    id_attachments = sort (map (attachment_identity lib) attachments)\<rparr>)))))))"

definition identity_text :: "identity_fields \<Rightarrow> string" where
  "identity_text f = join_with [NUL]
     ([id_message_id f, id_from f, id_subject f, id_instant f, id_envelope f, id_body f, id_html f] @ id_attachments f)"

definition compute_dedup_key ::
  "mail_lib \<Rightarrow> mime_message \<Rightarrow> string option \<Rightarrow> string \<Rightarrow> parsed_attachment list \<Rightarrow> string \<Rightarrow> string fallible" where
  "compute_dedup_key lib message message_id body_text attachments raw_bytes =
     bindE (dedup_fields lib message message_id body_text attachments) (\<lambda>f.
       Inr (''sha256:'' @ ml_sha256 lib (case f of None \<Rightarrow> raw_bytes | Some g \<Rightarrow> utf8_encode (identity_text g))))"

section \<open>The strict parse\<close>

definition count_words :: "string \<Rightarrow> nat" where
  "count_words text = length (filter (\<lambda>w. w \<noteq> []) (split_where py_isspace text))"

definition received_at :: "mail_lib \<Rightarrow> datetime option \<Rightarrow> mime_header list \<Rightarrow> datetime option fallible" where
  "received_at lib internal_date hs =
     (case internal_date of
        Some d \<Rightarrow> Inr (Some d)
      | None \<Rightarrow> bindE (received_at_from_headers (ml_parsedate lib) hs) (\<lambda>d. Inr (map_option dt_instant d)))"

definition parse_email_strict :: "mail_lib \<Rightarrow> string \<Rightarrow> string \<Rightarrow> datetime option \<Rightarrow> parsed_email fallible" where
  "parse_email_strict lib raw_bytes mailbox_address internal_date =
     bindE (ml_message lib raw_bytes) (\<lambda>message. let hs = message_headers message in
     bindE (ml_id_headers lib raw_bytes) (\<lambda>id_headers.
     bindE (raw_header id_headers ''Message-ID'') (\<lambda>raw_id. let message_id = clean_message_id raw_id in
     bindE (raw_header id_headers ''In-Reply-To'') (\<lambda>raw_reply. let in_reply_to = clean_message_id raw_reply in
     bindE (raw_header id_headers ''References'') (\<lambda>raw_refs.
     bindE (build_headers hs) (\<lambda>headers.
     bindE (first_address lib hs ''from'') (\<lambda>(from_name, from_address).
     bindE (safe_header hs ''Subject'') (\<lambda>subject.
     bindE (extract_body_text lib message) (\<lambda>body_text.
     bindE (extract_attachments lib message) (\<lambda>attachments.
     bindE (compute_dedup_key lib message message_id body_text attachments raw_bytes) (\<lambda>dedup_key.
     bindE (bindE (safe_header hs ''Date'') (parse_date (ml_parsedate lib))) (\<lambda>sent.
     bindE (received_at lib internal_date hs) (\<lambda>received.
     bindE (extract_recipients lib hs) (\<lambda>recipients.
       Inr \<lparr>pd_dedup_key = dedup_key, pd_message_id = sanitize message_id MSGID_MAX, pd_in_reply_to = sanitize in_reply_to MSGID_MAX,
            pd_references = split_references raw_refs, pd_from_name = sanitize from_name ADDR_MAX,
            pd_from_address = addr_spec_or_none (sanitize from_address ADDR_MAX), pd_subject = subject,
            pd_sent_at = map_option dt_instant sent, pd_received_at = received, pd_body_text = body_text, pd_recipients = recipients,
            pd_attachments = attachments, pd_direction = derive_direction from_address mailbox_address,
            pd_is_automated = is_automated_sender from_address headers, pd_is_automated_origin = is_automated_origin from_address headers,
            pd_is_reply = is_reply_email in_reply_to subject, pd_has_attachments = (attachments \<noteq> []), pd_word_count = count_words body_text,
            pd_language = None, pd_headers = allowlist_headers headers, pd_parse_status = ''parsed''\<rparr>))))))))))))))"

text \<open>The strict parse as the ingest takes it: a stack overflow is the one error it degrades.\<close>

definition strict_parse :: "mail_lib \<Rightarrow> string \<Rightarrow> string \<Rightarrow> datetime option \<Rightarrow> strict_result" where
  "strict_parse lib raw_bytes mailbox_address internal_date =
     (case parse_email_strict lib raw_bytes mailbox_address internal_date of
        Inr p \<Rightarrow> Parsed p
      | Inl e \<Rightarrow> if e = ''RecursionError'' then Recursion_error else Parse_raises)"

end
