(* ===== verification/Mail_At_Rest.thy ===== *)
theory Mail_At_Rest
  imports Mail_Identity Mail_Sync
begin

text \<open>
  The synchronization, the ingest, the parser and the extraction put together: the runner of \<open>Sync_Runner\<close> over the ingest
  service whose parser is \<open>strict_parse\<close> and whose extractor is \<open>extract_text\<close>, as \<open>email_ingest_service.py\<close> imports them. What it leaves in
  the store is free of provider tokens, and mails that differ are stored apart.
\<close>

definition deployed :: "mail_lib \<Rightarrow> extract_lib \<Rightarrow> ingest_env \<Rightarrow> bool" where
  "deployed lib xlib e \<longleftrightarrow> ie_strict_parse e = strict_parse lib \<and> ie_extract_text e = extract_text xlib"

section \<open>Masked text\<close>

text \<open>
  A text at rest: it fits its column, and no token pattern matches in it unless it is the redaction of a text longer than
  the scan (where only the head is scanned).
\<close>

definition text_at_rest :: "string \<Rightarrow> bool" where
  "text_at_rest t \<longleftrightarrow> storable_text t \<and>
     ((\<forall>(kind, r) \<in> set TOKEN_DETECTORS. \<not> occurs r t) \<or> (\<exists>s. MAX_REDACT_SCAN_CHARS < length s \<and> t = fst (redact_secrets s)))"

definition masked_store :: "mail_db \<Rightarrow> bool" where
  "masked_store db \<longleftrightarrow> (\<forall>x \<in> set (email_messages db). text_at_rest (em_body_text x))
     \<and> (\<forall>a \<in> set (email_attachments db). \<forall>t. ea_extracted_text a = Some t \<longrightarrow> text_at_rest t)"

lemma redacted_at_rest: "storable_text (fst (redact_secrets s)) \<Longrightarrow> text_at_rest (fst (redact_secrets s))"
  using redact_secrets_clean[of s] by (cases "MAX_REDACT_SCAN_CHARS < length s") (auto simp: text_at_rest_def)

lemma empty_at_rest: "text_at_rest []"
  using redacted_at_rest[of "[]"] by (simp add: redact_secrets_def storable_text_def)

lemma body_at_rest:
  assumes "extract_body_text lib m = Inr t"
  shows "text_at_rest t"
proof -
  from assms consider "t = []" | flat where "t = fst (redact_secrets (sanitize_body_text flat))"
    by (auto simp: extract_body_text_def bindE_Inr split: option.splits)
  then show ?thesis using body_storable[OF assms] by cases (auto simp: empty_at_rest intro: redacted_at_rest)
qed

lemma parsed_body_at_rest:
  assumes "deployed lib xlib e" and "parse_email e raw mailbox d = Some p"
  shows "text_at_rest (pd_body_text p)"
proof (cases "parse_email_strict lib raw mailbox d")
  case (Inr q)
  then obtain m where "extract_body_text lib m = Inr (pd_body_text q)"
    by (auto simp: parse_email_strict_def bindE_Inr Let_def split: prod.splits)
  with Inr assms show ?thesis by (auto simp: deployed_def parse_email_def strict_parse_def body_at_rest)
next
  case (Inl x)
  with assms show ?thesis by (auto simp: deployed_def parse_email_def strict_parse_def degraded_parse_def empty_at_rest split: if_splits)
qed

lemma extracted_at_rest:
  assumes "xr_text (extract_text xlib a) = Some t"
  shows "text_at_rest t"
proof -
  from assms obtain s where "t = fst (redact_secrets s)" by (auto simp: extract_text_def mask_text)
  moreover have "storable_text t"
    using dispatch_ok[of xlib a] assms by (auto simp: extract_text_def result_ok_def mask_text redaction_storable)
  ultimately show ?thesis by (auto intro: redacted_at_rest)
qed

section \<open>Every statement keeps the store masked\<close>

lemma masked_same:
  "email_messages db' = email_messages db \<Longrightarrow> email_attachments db' = email_attachments db \<Longrightarrow> masked_store db' = masked_store db"
  by (simp add: masked_store_def)

lemma resolve_in_masked: "resolve_in e svc a n t ap m = (got, m') \<Longrightarrow> masked_store (ms_db m') = masked_store (ms_db m)"
  by (auto simp: resolve_in_def with_resolver_def Let_def intro!: masked_same split: prod.splits)

lemma resolve_sender_masked: "resolve_sender e svc p m = (got, m') \<Longrightarrow> masked_store (ms_db m') = masked_store (ms_db m)"
  by (auto simp: resolve_sender_def dest: resolve_in_masked split: option.splits if_splits)

lemma store_recipients_masked:
  "store_recipients e svc i t rs m = (b, m') \<Longrightarrow> masked_store (ms_db m') = masked_store (ms_db m)"
proof (induction rs arbitrary: m)
  case (Cons r rs)
  obtain got m1 where g: "resolve_in e svc (pr_address r) (pr_name r) t (pr_kind r \<notin> {kind_reply_to, kind_sender}) m = (got, m1)"
    by fastforce
  have "masked_store db = masked_store (ms_db m1)" if "add_recipient x (ms_db m1) = Some db" for x db
    using that by (auto simp: add_recipient_def intro!: masked_same split: if_splits)
  with Cons g resolve_in_masked[OF g] show ?case by (fastforce split: option.splits)
qed simp

lemma order_desc_hd: "order_desc k t = x # xs \<Longrightarrow> x \<in> set t"
  by (metis list.set_intros(1) set_order_desc)

lemma reuse_or_extract_at_rest:
  assumes "deployed lib xlib e" and "masked_store db" and "xr_text (reuse_or_extract e svc a db) = Some t"
  shows "text_at_rest t"
proof (cases "get_prior_extraction db (is_org_id svc) (pt_content_hash a) (pt_content_type a)")
  case None
  with assms(1,3) show ?thesis by (simp add: reuse_or_extract_def deployed_def extracted_at_rest)
next
  case (Some x)
  then have "x \<in> set (email_attachments db)"
    by (auto simp: get_prior_extraction_def select_where_def split: list.splits dest!: order_desc_hd)
  with Some assms(2,3) show ?thesis by (auto simp: reuse_or_extract_def masked_store_def)
qed

lemma store_attachments_masked:
  assumes "deployed lib xlib e" and "masked_store (ms_db m)" and "store_attachments e svc i as m = (b, m')"
  shows "masked_store (ms_db m')"
  using assms(2,3)
proof (induction as arbitrary: m)
  case (Cons a as)
  show ?case
  proof (cases "m' = m")
    case False
    then obtain x db where x: "ea_extracted_text x = xr_text (reuse_or_extract e svc a (ms_db m))" and a: "add_attachment x (ms_db m) = Some db"
      and rest: "store_attachments e svc i as (m\<lparr>ms_db := db, ms_draws := ms_draws m + 1\<rparr>) = (b, m')"
      using Cons.prems(2) by (auto simp: Let_def split: option.splits intro: that[rotated])
    have "masked_store db"
      using a x Cons.prems(1) reuse_or_extract_at_rest[OF assms(1) Cons.prems(1)]
      by (auto simp: add_attachment_def masked_store_def split: if_splits)
    with Cons.IH[OF _ rest] show ?thesis by simp
  qed (use Cons.prems(1) in simp)
qed simp

lemma reconcile_in_masked:
  assumes "reconcile_in e svc i p m = (r, m')"
  shows "masked_store (ms_db m') = masked_store (ms_db m)"
  using assms
  by (auto simp: reconcile_in_def intro!: masked_same split: option.splits dest!: reconcile_sound(1) simp: only_grants_same)

lemma store_children_masked:
  assumes "deployed lib xlib e" and "masked_store (ms_db m)" and "store_children e svc i p m = (r, m')"
  shows "masked_store (ms_db m')"
proof -
  obtain b2 m2 where r: "store_recipients e svc i (pd_received_at p) (pd_recipients p) m = (b2, m2)" by fastforce
  obtain b3 m3 where a: "store_attachments e svc i (pd_attachments p) m2 = (b3, m3)" by fastforce
  have 2: "masked_store (ms_db m2)" using store_recipients_masked[OF r] assms(2) by simp
  have 3: "masked_store (ms_db m3)" by (rule store_attachments_masked[OF assms(1) 2 a])
  have "masked_store db'"
    if "write_email_grants ge o' i' c' ow se as (ms_db m3) = Some (ps, db')" for ge o' i' c' ow se as ps db'
    using 3 masked_same[OF only_grants_same(2,4)[OF write_email_grants_sound(1)[OF that]]] by simp
  with 2 3 assms(3) r a show ?thesis by (auto simp: store_children_def split: bool.splits option.splits)
qed

text \<open>What other sessions commit before an insert was masked by the same code.\<close>

definition rivals_masked :: "ingest_env \<Rightarrow> bool" where
  "rivals_masked e \<longleftrightarrow> (\<forall>k db. masked_store db \<longrightarrow> masked_store (ie_rival e k db))"

lemma store_message_masked:
  assumes "deployed lib xlib e" and "rivals_masked e" and "masked_store (ms_db m0)" and "text_at_rest (pd_body_text p)"
    and run: "store_message e svc raw p fp m0 = (r, m')"
  shows "masked_store (ms_db m')"
proof -
  define i where "i = re_ids (ie_resolver e) (ms_draws m0)"
  define m where "m = before_insert e m0"
  note run' = run[unfolded store_message_def Let_def i_def[symmetric] m_def[symmetric]]
  have m: "masked_store (ms_db m)" using assms(2,3) by (simp add: m_def before_insert_def rivals_masked_def)
  have undone: "masked_store (ms_db (savepoint_rolled_back m))" using m by (simp add: savepoint_rolled_back_def)
  show ?thesis
  proof (cases "messages_insert (ge_connection_exists (ie_grants e)) (build_message svc i p fp (length raw)) (ms_db m)")
    case Refused_other
    then show ?thesis using run' undone by auto
  next
    case Refused_dedup
    then show ?thesis using run' undone by (auto split: option.splits dest: reconcile_in_masked)
  next
    case (Inserted db)
    have "masked_store db"
      using m assms(4) by (auto simp: messages_insert_inserted[OF Inserted] masked_store_def build_message_def)
    then have "masked_store (ms_db (savepoint_released (m\<lparr>ms_db := db\<rparr>)))" by (simp add: savepoint_released_def)
    from store_children_masked[OF assms(1) this] run' Inserted show ?thesis by simp
  qed
qed

lemma ingest_email_masked:
  assumes "deployed lib xlib e" and "rivals_masked e" and "masked_store (ms_db m)" and run: "ingest_email e svc raw d m = (r, m')"
  shows "masked_store (ms_db m')"
proof (cases "parse_email e raw (is_mailbox svc) d")
  case (Some p)
  note body = parsed_body_at_rest[OF assms(1) Some]
  obtain fp m1 where s: "resolve_sender e svc p m = (fp, m1)" by fastforce
  have "masked_store (ms_db m1)" using resolve_sender_masked[OF s] assms(3) by simp
  with run Some s assms(3) store_message_masked[OF assms(1,2) _ body] show ?thesis
    by (auto simp: ingest_email_def split: option.splits dest: reconcile_in_masked)
qed (use assms in \<open>simp add: ingest_email_def\<close>)

definition masked_ok :: "mail_lib \<Rightarrow> extract_lib \<Rightarrow> ingest_env \<Rightarrow> mail_state \<Rightarrow> bool" where
  "masked_ok lib xlib e m \<longleftrightarrow> deployed lib xlib e \<and> rivals_masked e \<and> masked_store (ms_db m)"

lemma ingest_in_savepoint_masked:
  assumes "masked_ok lib xlib e m" and "ingest_in_savepoint e svc raw d m = (r, m')"
  shows "masked_ok lib xlib e m'"
proof -
  let ?m = "m\<lparr>ms_cache := track_savepoint_open (ms_cache m)\<rparr>"
  obtain r1 m1 where i: "ingest_email e svc raw d ?m = (r1, m1)" by fastforce
  have "masked_store (ms_db m1)" using ingest_email_masked[OF _ _ _ i, of lib xlib] assms(1) by (simp add: masked_ok_def)
  with i assms show ?thesis by (auto simp: ingest_in_savepoint_def masked_ok_def split: ingest_result.splits)
qed

text \<open>So the interface of the runner to its ingest can be read a second time, with the masked store as its invariant.\<close>

interpretation at_rest: email_ingest "mail_ingest e svc" "\<lambda>_ _. True" "masked_ok lib xlib e" for e svc lib xlib
proof
  fix m m' raw d r
  show "masked_ok lib xlib e m \<Longrightarrow> ig_email (mail_ingest e svc) raw d m = (r, m') \<Longrightarrow> masked_ok lib xlib e m'"
    using ingest_in_savepoint_masked by (simp add: mail_ingest_def)
  show "masked_ok lib xlib e m \<Longrightarrow> masked_ok lib xlib e (ig_commit (mail_ingest e svc) m)"
    by (simp add: mail_ingest_def masked_ok_def)
qed simp_all

lemma ingest_batch_masked:
  assumes "masked_ok lib xlib e m"
    and "ingest_batch (mail_ingest e svc) now org_id connection_id r b (trackers, ct) (db, m) = Some ((trackers', ct'), db', m')"
  shows "masked_ok lib xlib e m'"
proof -
  obtain t1 ct1 m1 where i: "ingest_messages (mail_ingest e svc) (fb_messages b)
      (note_requested (fb_requested_uids b) (tracker_for trackers b), ct, m) = (t1, ct1, m1)"
    by (metis prod_cases3)
  with assms(2) have "m' = ig_commit (mail_ingest e svc) m1"
    by (auto simp: ingest_batch_def Let_def split: prod.splits if_splits)
  with at_rest.commit_ok[OF at_rest.ingest_messages_sound(1)[OF assms(1) i]] show ?thesis by simp
qed

lemma sync_steps_masked:
  assumes "(sync_step (mail_ingest e svc) content org_id connection_id)\<^sup>*\<^sup>* s s'" and "masked_ok lib xlib e (sy_mail s)"
  shows "masked_ok lib xlib e (sy_mail s')"
  using assms
proof (induction rule: rtranclp_induct)
  case (step s1 s2)
  from step.hyps(2) step.IH[OF step.prems] show ?case
    by cases (auto dest: ingest_batch_masked at_rest.ingest_ok)
qed

section \<open>Keys in the store\<close>

lemma stored_under_identity:
  assumes "deployed lib xlib e" and "stored_email e svc m raw" and "strict_identity lib raw = Inr (Some f)"
    and "\<And>d. strict_parse lib raw (is_mailbox svc) d \<noteq> Recursion_error"
  shows "\<exists>x \<in> set (email_messages (ms_db m)). em_org_id x = is_org_id svc \<and> em_connection_id x = is_connection_id svc
    \<and> em_dedup_key x = ''sha256:'' @ ml_sha256 lib (utf8_encode (identity_text f))"
proof -
  from assms(2) obtain d p where p: "parse_email e raw (is_mailbox svc) d = Some p" "message_stored svc (ms_db m) (pd_dedup_key p)"
    by (auto simp: stored_email_def)
  have "parse_email_strict lib raw (is_mailbox svc) d = Inr p"
    using p(1) assms(1) assms(4)[of d] by (auto simp: parse_email_def deployed_def strict_parse_def split: sum.splits if_splits)
  from parse_email_strict_key[OF this] p(2) assms(3) show ?thesis by (auto simp: message_stored_def same_dedup_def)
qed

lemma distinct_identity_text:
  assumes "hex_digest (ml_sha256 lib)" and "printable_dates (ml_parsedate lib)"
    and "strict_identity lib raw1 = Inr (Some f1)" and "strict_identity lib raw2 = Inr (Some f2)" and "f1 \<noteq> f2"
  shows "utf8_encode (identity_text f1) \<noteq> utf8_encode (identity_text f2)"
  using strict_identity_ok[OF assms(1,2)] assms(3-5) identity_text_inj utf8_encode_inj by blast

section \<open>The guarantees\<close>

text \<open>
  C5: No secret at rest. However runs, deliveries and other sessions interleave, every body and every extracted attachment text in the
  store is storable and free of the seven token patterns, unless it comes from a text longer than the scan; this holds for texts that
  are parsed, extracted, or reused from an earlier copy of an attachment, on every error path of the ingest.
\<close>

theorem no_secret_at_rest:
  assumes "(sync_step (mail_ingest e svc) content org_id connection_id)\<^sup>*\<^sup>* s s'"
    and "deployed lib xlib e" and "rivals_masked e" and "masked_store (ms_db (sy_mail s))"
  shows "masked_store (ms_db (sy_mail s'))"
  using sync_steps_masked[OF assms(1), of lib xlib] assms(2-4) by (simp add: masked_ok_def)

text \<open>
  C8: Mails that differ are stored apart. Two messages of a synchronized mailbox whose identities differ in any keyed field, both at or below
  their folder's cursor, are two rows of the connection, each under the key of its own identity (unless the hash collides on exactly
  these two).
\<close>

theorem synced_mail_stored_apart:
  assumes "(sync_step (mail_ingest e svc) content org_id connection_id)\<^sup>*\<^sup>* s s'" and "deployed lib xlib e"
    and "ingest_ok e (sy_mail s)" and "mailbox_inv (sy_mailbox s)" and "sy_runs s = Map.empty"
    and "\<And>f. cursors_list_for_connection (sy_db s) org_id connection_id f = None"
    and "cursors_list_for_connection (sy_db s') org_id connection_id f1 = Some st1" and "fs_uidvalidity st1 = Some v1"
    and "u1 \<in> mb_uids (sy_mailbox s') f1 v1" and "u1 \<le> fs_last_seen_uid st1"
    and "cursors_list_for_connection (sy_db s') org_id connection_id f2 = Some st2" and "fs_uidvalidity st2 = Some v2"
    and "u2 \<in> mb_uids (sy_mailbox s') f2 v2" and "u2 \<le> fs_last_seen_uid st2"
    and "\<And>raw d. raw \<in> {content f1 v1 u1, content f2 v2 u2} \<Longrightarrow> strict_parse lib raw (is_mailbox svc) d \<noteq> Recursion_error"
    and "strict_identity lib (content f1 v1 u1) = Inr (Some i1)" and "strict_identity lib (content f2 v2 u2) = Inr (Some i2)" and "i1 \<noteq> i2"
    and "hex_digest (ml_sha256 lib)" and "printable_dates (ml_parsedate lib)"
    and "ml_sha256 lib (utf8_encode (identity_text i1)) = ml_sha256 lib (utf8_encode (identity_text i2))
      \<longrightarrow> utf8_encode (identity_text i1) = utf8_encode (identity_text i2)"
  shows "\<exists>x \<in> set (email_messages (ms_db (sy_mail s'))). \<exists>y \<in> set (email_messages (ms_db (sy_mail s'))).
    em_dedup_key x = ''sha256:'' @ ml_sha256 lib (utf8_encode (identity_text i1))
    \<and> em_dedup_key y = ''sha256:'' @ ml_sha256 lib (utf8_encode (identity_text i2)) \<and> em_dedup_key x \<noteq> em_dedup_key y
    \<and> em_org_id x = is_org_id svc \<and> em_org_id y = is_org_id svc
    \<and> em_connection_id x = is_connection_id svc \<and> em_connection_id y = is_connection_id svc"
proof -
  have "sync_inv (stored_email e svc) (ingest_ok e) content org_id connection_id s"
    using assms(3-6) by (simp add: sync_inv_def cursors_inv_def fetch_cursors_def)
  from mi.sync_steps_keep[OF assms(1) this] assms(7-14)
  have stored: "stored_email e svc (sy_mail s') (content f1 v1 u1)" "stored_email e svc (sy_mail s') (content f2 v2 u2)"
    unfolding sync_inv_def cursors_inv_stored covered_def by blast+
  from stored_under_identity[OF assms(2) stored(1) assms(16)] stored_under_identity[OF assms(2) stored(2) assms(17)] assms(15)
    distinct_identity_text[OF assms(19,20,16,17,18)] assms(21)
  show ?thesis by fastforce
qed

section \<open>A run over two messages\<close>

definition deployed_env :: ingest_env where
  "deployed_env = demo_ingest_env\<lparr>ie_strict_parse := strict_parse demo_lib_mail, ie_sha256 := hex_length, ie_extract_text := extract_text demo_lib\<rparr>"

lemma deployed_demo: "deployed demo_lib_mail demo_lib deployed_env" "rivals_masked deployed_env" "ingest_ok deployed_env demo_mail_state"
proof -
  show "deployed demo_lib_mail demo_lib deployed_env" by (simp add: deployed_def deployed_env_def)
  show "rivals_masked deployed_env" by (simp add: rivals_masked_def deployed_env_def demo_ingest_env_def)
  show "ingest_ok deployed_env demo_mail_state"
    using demo_ingest_ok by (simp add: ingest_ok_def ingest_env_ok_def deployed_env_def)
qed

lemma demo_mail_ingested:
  "map em_body_text (email_messages (ms_db (snd (ingest_in_savepoint deployed_env demo_ingest_service ''hi'' (Some 0) demo_mail_state))))
    = [''hi'']"
  by code_simp

theorem no_secret_at_rest_witness:
  "\<exists>s'. (sync_step (mail_ingest deployed_env demo_ingest_service) demo_content 7 3)\<^sup>*\<^sup>* demo_system s'
     \<and> map em_body_text (email_messages (ms_db (sy_mail s'))) = [''hi''] \<and> masked_store (ms_db (sy_mail s'))"
proof -
  let ?i = "ingest_in_savepoint deployed_env demo_ingest_service ''hi'' (Some 0) demo_mail_state"
  let ?s = "demo_system\<lparr>sy_mail := snd ?i\<rparr>"
  have "sync_step (mail_ingest deployed_env demo_ingest_service) demo_content 7 3 demo_system ?s"
    by (rule sync_step.other_ingest[where raw = "''hi''" and d = "Some 0" and res = "fst ?i"])
      (simp add: mail_ingest_def demo_system_def)
  then have steps: "(sync_step (mail_ingest deployed_env demo_ingest_service) demo_content 7 3)\<^sup>*\<^sup>* demo_system ?s" by blast
  have "masked_store (ms_db (sy_mail ?s))"
    by (rule no_secret_at_rest[OF steps deployed_demo(1,2)]) (simp add: demo_system_def demo_mail_state_def demo_mail_db_def masked_store_def)
  with steps demo_mail_ingested show ?thesis by (intro exI[of _ ?s]) simp
qed

definition pair_content :: "string \<Rightarrow> nat \<Rightarrow> uid \<Rightarrow> string" where
  "pair_content f v u = (if u = 1 then ''hi'' else ''bye'')"

definition pair_messages :: "fetched_message list" where
  "pair_messages = map (\<lambda>u. \<lparr>fm_uid = u, fm_raw_bytes = pair_content [] 0 u, fm_internal_date = Some 7\<rparr>) [1, 2]"

definition pair_system :: "mail_state sync_system" where
  "pair_system = demo_system\<lparr>sy_mailbox := \<lparr>mb_uids = (\<lambda>f v. {1, 2}), mb_next = (\<lambda>f v. 3)\<rparr>\<rparr>"

definition pair_server :: imap_server where
  "pair_server = demo_server\<lparr>im_search := (\<lambda>f n. Replies [1, 2])\<rparr>"

definition pair_batch :: "((trackers \<times> counts) \<times> connector_db \<times> mail_state) option" where
  "pair_batch = ingest_batch (mail_ingest deployed_env demo_ingest_service) 50 7 3 1000
     (batch_of ''INBOX'' 9 [1, 2] pair_messages) (Map.empty, zero_counts) (demo_claimed_db, demo_mail_state)"

lemma pair_batch_commits:
  "(case pair_batch of
      None \<Rightarrow> False
    | Some (_, db, _) \<Rightarrow> (case cursors_list_for_connection db 7 3 ''INBOX'' of
          None \<Rightarrow> False
        | Some st \<Rightarrow> fs_uidvalidity st = Some 9 \<and> fs_last_seen_uid st = 2))"
  by code_simp

lemma pair_run_steps:
  assumes "pair_batch = Some ((trackers', counts'), db', m')"
  obtains s' where "(sync_step (mail_ingest deployed_env demo_ingest_service) pair_content 7 3)\<^sup>*\<^sup>* pair_system s'"
    and "sy_db s' = db'" and "sy_mail s' = m'" and "sy_mailbox s' = sy_mailbox pair_system"
proof -
  let ?step = "sync_step (mail_ingest deployed_env demo_ingest_service) pair_content 7 3"
  let ?l0 = "load_run 7 3 demo_claimed_db"
  let ?l1 = "?l0\<lparr>rl_listed := {''INBOX''}, rl_plan := Some (''INBOX'', 9, [[1, 2]])\<rparr>"
  let ?l2 = "?l1\<lparr>rl_trackers := trackers', rl_counts := counts', rl_plan := Some (''INBOX'', 9, [])\<rparr>"
  let ?s1 = "pair_system\<lparr>sy_runs := [1000 \<mapsto> ?l0]\<rparr>"
  let ?s2 = "pair_system\<lparr>sy_runs := [1000 \<mapsto> ?l1]\<rparr>"
  let ?s3 = "pair_system\<lparr>sy_db := db', sy_mail := m', sy_runs := [1000 \<mapsto> ?l2]\<rparr>"
  have l0: "rl_trackers ?l0 = Map.empty" "rl_counts ?l0 = zero_counts" "rl_cursors ?l0 = Map.empty"
    "rl_plan ?l0 = None" "rl_listed ?l0 = {}"
    by (auto simp: load_run_def initial_trackers_def fetch_cursors_def demo_claimed_db_def demo_connector_db_def
        cursors_list_for_connection_def Let_def)
  have 1: "?step pair_system ?s1"
    using sync_step.load[where s = pair_system and r = 1000 and connection_id = 3 and org_id = 7] by (simp add: pair_system_def demo_system_def)
  have two: "{u. (u = Suc 0 \<or> u = 2) \<and> Suc 0 \<le> u} = {Suc 0, 2}" by auto
  have 2: "?step ?s1 ?s2"
    using sync_step.list_folder[where s = ?s1 and r = 1000 and l = ?l0 and folder = "''INBOX''" and srv = pair_server and v = 9
        and uids = "[1, 2]" and sizes = "[1 \<mapsto> 5, 2 \<mapsto> 5]" and org_id = 7 and connection_id = 3] l0
    by (simp add: pair_system_def demo_system_def pair_server_def demo_server_def blocking_select_def blocking_search_def min_uid_def
        batch_by_bytes_def DEFAULT_BATCH_BYTES_def Let_def two)
  have content: "\<And>msg. msg \<in> set pair_messages \<Longrightarrow> fm_raw_bytes msg = pair_content ''INBOX'' 9 (fm_uid msg)"
    by (auto simp: pair_messages_def pair_content_def)
  have 3: "?step ?s2 ?s3"
    using sync_step.batch[where s = ?s2 and r = 1000 and l = ?l1 and folder = "''INBOX''" and v = 9 and b = "[1, 2]" and bs = "[]"
        and msgs = pair_messages and now = 50 and org_id = 7 and connection_id = 3] l0 assms content
    by (simp add: pair_system_def demo_system_def pair_batch_def)
  show ?thesis
    by (rule that[of ?s3]) (use 1 2 3 in \<open>auto simp: pair_system_def demo_system_def intro: rtranclp.rtrancl_into_rtrancl\<close>)
qed

lemma pair_identities:
  "strict_identity demo_lib_mail ''hi'' = Inr (Some (demo_identity ''hi''))" "strict_identity demo_lib_mail ''bye'' = Inr (Some (demo_identity ''bye''))"
  unfolding demo_lib_mail_def by (rule demo_identity_of[OF demo_decode], rule demo_bodies, simp)+

lemma pair_parses: "raw \<in> {''hi'', ''bye''} \<Longrightarrow> strict_parse demo_lib_mail raw mailbox d \<noteq> Recursion_error"
  using demo_parses[OF demo_decode demo_bodies(1), of hex_length mailbox d] demo_parses[OF demo_decode demo_bodies(2), of hex_length mailbox d]
  by (auto simp: strict_parse_def demo_lib_mail_def)

lemma pair_hash:
  "ml_sha256 demo_lib_mail (utf8_encode (identity_text (demo_identity ''hi''))) \<noteq> ml_sha256 demo_lib_mail (utf8_encode (identity_text (demo_identity ''bye'')))"
  by (simp add: demo_lib_mail_def demo_mail_def hex_length_def demo_identity_def identity_text_def utf8_encode_def utf8_char_def replicate_eq_replicate)

theorem synced_mail_stored_apart_witness:
  "\<exists>s'. (sync_step (mail_ingest deployed_env demo_ingest_service) pair_content 7 3)\<^sup>*\<^sup>* pair_system s'
     \<and> (\<exists>x \<in> set (email_messages (ms_db (sy_mail s'))). \<exists>y \<in> set (email_messages (ms_db (sy_mail s'))). em_dedup_key x \<noteq> em_dedup_key y)"
proof -
  obtain tr ct db' m' st where b: "pair_batch = Some ((tr, ct), db', m')"
    and st: "cursors_list_for_connection db' 7 3 ''INBOX'' = Some st" "fs_uidvalidity st = Some 9" "fs_last_seen_uid st = 2"
    using pair_batch_commits by (auto split: option.splits)
  obtain s' where r: "(sync_step (mail_ingest deployed_env demo_ingest_service) pair_content 7 3)\<^sup>*\<^sup>* pair_system s'"
    and s': "sy_db s' = db'" "sy_mail s' = m'" "sy_mailbox s' = sy_mailbox pair_system"
    using pair_run_steps[OF b] by blast
  have 0: "ingest_ok deployed_env (sy_mail pair_system)" "mailbox_inv (sy_mailbox pair_system)" "sy_runs pair_system = Map.empty"
    "\<And>f. cursors_list_for_connection (sy_db pair_system) 7 3 f = None"
    using deployed_demo(3) by (auto simp: pair_system_def demo_system_def mailbox_inv_def demo_claimed_db_def demo_connector_db_def cursors_list_for_connection_def)
  have c: "cursors_list_for_connection (sy_db s') 7 3 ''INBOX'' = Some st" using st(1) s' by simp
  have u: "u \<in> mb_uids (sy_mailbox s') ''INBOX'' 9" "u \<le> fs_last_seen_uid st" if "u \<in> {1, 2}" for u
    using that st(3) s'(3) by (auto simp: pair_system_def)
  have "\<exists>x \<in> set (email_messages (ms_db (sy_mail s'))). \<exists>y \<in> set (email_messages (ms_db (sy_mail s'))).
    em_dedup_key x = ''sha256:'' @ ml_sha256 demo_lib_mail (utf8_encode (identity_text (demo_identity ''hi'')))
    \<and> em_dedup_key y = ''sha256:'' @ ml_sha256 demo_lib_mail (utf8_encode (identity_text (demo_identity ''bye''))) \<and> em_dedup_key x \<noteq> em_dedup_key y
    \<and> em_org_id x = is_org_id demo_ingest_service \<and> em_org_id y = is_org_id demo_ingest_service
    \<and> em_connection_id x = is_connection_id demo_ingest_service \<and> em_connection_id y = is_connection_id demo_ingest_service"
  proof (rule synced_mail_stored_apart[OF r deployed_demo(1) 0 c st(2) u(1,2) c st(2) u(1,2)])
    show "(1::nat) \<in> {1, 2}" "(1::nat) \<in> {1, 2}" "(2::nat) \<in> {1, 2}" "(2::nat) \<in> {1, 2}" by simp_all
    show "raw \<in> {pair_content ''INBOX'' 9 1, pair_content ''INBOX'' 9 2} \<Longrightarrow>
      strict_parse demo_lib_mail raw (is_mailbox demo_ingest_service) d \<noteq> Recursion_error" for raw d
      by (rule pair_parses) (simp add: pair_content_def)
    show "strict_identity demo_lib_mail (pair_content ''INBOX'' 9 1) = Inr (Some (demo_identity ''hi''))"
      "strict_identity demo_lib_mail (pair_content ''INBOX'' 9 2) = Inr (Some (demo_identity ''bye''))"
      using pair_identities by (simp_all add: pair_content_def)
    show "demo_identity ''hi'' \<noteq> demo_identity ''bye''" by (simp add: demo_identity_def)
    show "hex_digest (ml_sha256 demo_lib_mail)" by (auto simp: hex_digest_def demo_lib_mail_def demo_mail_def hex_length_def)
    show "printable_dates (ml_parsedate demo_lib_mail)" by (simp add: printable_dates_def demo_lib_mail_def demo_mail_def unparsed_def)
  qed (use pair_hash in simp)
  with r show ?thesis by blast
qed

end
