(* ===== verification/Py_Codec.thy ===== *)
theory Py_Codec
  imports Py_Strings
begin

text \<open>
  The codecs of the standard library that the backend applies to text it keeps: strict UTF-8, UTF-16-BE and base64 as
  \<open>binascii.a2b_base64\<close> reads it (Python 3.12). A text that may hold any character is the list of its code points; bytes are strings. \<open>None\<close> is
  the exception of the codec. Encoders that the backend does not call are here as the reference the decoders are measured by.
\<close>

type_synonym codepoints = "nat list"

abbreviation byte_of :: "nat \<Rightarrow> char" where
  "byte_of n \<equiv> char_of n"

abbreviation code :: "char \<Rightarrow> nat" where
  "code c \<equiv> of_char c"

definition is_surrogate :: "nat \<Rightarrow> bool" where
  "is_surrogate c \<longleftrightarrow> 0xD800 \<le> c \<and> c \<le> 0xDFFF"

definition is_scalar :: "nat \<Rightarrow> bool" where
  "is_scalar c \<longleftrightarrow> c < 0x110000 \<and> \<not> is_surrogate c"

text \<open>Running a partial encoder over a list; the first failure is the failure of all.\<close>

fun encode_all :: "('a \<Rightarrow> 'b list option) \<Rightarrow> 'a list \<Rightarrow> 'b list option" where
  "encode_all f [] = Some []"
| "encode_all f (x # xs) =
     (case f x of None \<Rightarrow> None | Some u \<Rightarrow> (case encode_all f xs of None \<Rightarrow> None | Some v \<Rightarrow> Some (u @ v)))"

definition push :: "'a \<Rightarrow> 'a list option \<Rightarrow> 'a list option" where
  "push x r = map_option ((#) x) r"

section \<open>UTF-8\<close>

definition utf8_point :: "nat \<Rightarrow> string option" where
  "utf8_point c =
     (if \<not> is_scalar c then None
      else if c < 0x80 then Some [byte_of c]
      else if c < 0x800 then Some [byte_of (0xC0 + c div 0x40), byte_of (0x80 + c mod 0x40)]
      else if c < 0x10000 then Some [byte_of (0xE0 + c div 0x1000), byte_of (0x80 + c div 0x40 mod 0x40), byte_of (0x80 + c mod 0x40)]
      else Some [byte_of (0xF0 + c div 0x40000), byte_of (0x80 + c div 0x1000 mod 0x40), byte_of (0x80 + c div 0x40 mod 0x40), byte_of (0x80 + c mod 0x40)])"

text \<open>\<open>str.encode("utf-8")\<close>.\<close>

definition utf8_of :: "codepoints \<Rightarrow> string option" where
  "utf8_of s = encode_all utf8_point s"

text \<open>The encoding of a text of the model's characters, which never fails.\<close>

definition utf8_bytes :: "string \<Rightarrow> string" where
  "utf8_bytes s = concat (map (\<lambda>c. case utf8_point (code c) of None \<Rightarrow> [] | Some w \<Rightarrow> w) s)"

definition tail_byte :: "char \<Rightarrow> bool" where
  "tail_byte b \<longleftrightarrow> 0x80 \<le> code b \<and> code b < 0xC0"

text \<open>\<open>bytes.decode("utf-8")\<close>: the shortest form only, no surrogates, nothing beyond U+10FFFF.\<close>

fun utf8_decode :: "string \<Rightarrow> codepoints option" where
  "utf8_decode [] = Some []"
| "utf8_decode (a # bs) =
     (if code a < 0x80 then push (code a) (utf8_decode bs)
      else if code a < 0xC0 then None
      else if code a < 0xE0 then
        (case bs of
           b # bs' \<Rightarrow>
             (let c = (code a - 0xC0) * 0x40 + (code b - 0x80)
              in if tail_byte b \<and> 0x80 \<le> c then push c (utf8_decode bs') else None)
         | _ \<Rightarrow> None)
      else if code a < 0xF0 then
        (case bs of
           b # b2 # bs' \<Rightarrow>
             (let c = (code a - 0xE0) * 0x1000 + (code b - 0x80) * 0x40 + (code b2 - 0x80)
              in if tail_byte b \<and> tail_byte b2 \<and> 0x800 \<le> c \<and> is_scalar c then push c (utf8_decode bs') else None)
         | _ \<Rightarrow> None)
      else
        (case bs of
           b # b2 # b3 # bs' \<Rightarrow>
             (let c = (code a - 0xF0) * 0x40000 + (code b - 0x80) * 0x1000 + (code b2 - 0x80) * 0x40 + (code b3 - 0x80)
              in if tail_byte b \<and> tail_byte b2 \<and> tail_byte b3 \<and> 0x10000 \<le> c \<and> is_scalar c then push c (utf8_decode bs') else None)
         | _ \<Rightarrow> None))"

lemma code_byte_of [simp]: "n < 256 \<Longrightarrow> code (byte_of n) = n"
  by simp

lemma tail_byte_of [simp]: "n < 0x40 \<Longrightarrow> tail_byte (byte_of (0x80 + n))"
  by (simp add: tail_byte_def)

text \<open>One sequence of two, three and four bytes from its base-64 digits.\<close>

lemma utf8_decode2:
  assumes "x < 0x20" and "2 \<le> x" and "y < 0x40"
  shows "utf8_decode (byte_of (0xC0 + x) # byte_of (0x80 + y) # rest) = push (x * 0x40 + y) (utf8_decode rest)"
  using assms by simp

lemma utf8_decode3:
  assumes "x < 0x10" and "y < 0x40" and "z < 0x40" and "0x800 \<le> x * 0x1000 + y * 0x40 + z" and "is_scalar (x * 0x1000 + y * 0x40 + z)"
  shows "utf8_decode (byte_of (0xE0 + x) # byte_of (0x80 + y) # byte_of (0x80 + z) # rest) = push (x * 0x1000 + y * 0x40 + z) (utf8_decode rest)"
  using assms by simp

lemma utf8_decode4:
  assumes "x < 0x8" and "y < 0x40" and "z < 0x40" and "v < 0x40" and "0x10000 \<le> x * 0x40000 + y * 0x1000 + z * 0x40 + v"
    and "is_scalar (x * 0x40000 + y * 0x1000 + z * 0x40 + v)"
  shows "utf8_decode (byte_of (0xF0 + x) # byte_of (0x80 + y) # byte_of (0x80 + z) # byte_of (0x80 + v) # rest)
    = push (x * 0x40000 + y * 0x1000 + z * 0x40 + v) (utf8_decode rest)"
  using assms by simp

lemma digits_base64:
  fixes c :: nat
  shows "c div 0x40 * 0x40 + c mod 0x40 = c" and "c div 0x1000 * 0x1000 + c div 0x40 mod 0x40 * 0x40 + c mod 0x40 = c"
    and "c div 0x40000 * 0x40000 + c div 0x1000 mod 0x40 * 0x1000 + c div 0x40 mod 0x40 * 0x40 + c mod 0x40 = c"
proof -
  have 1: "c div 0x1000 = c div 0x40 div 0x40" and 2: "c div 0x40000 = c div 0x1000 div 0x40" by (simp_all add: div_mult2_eq[symmetric])
  show a: "c div 0x40 * 0x40 + c mod 0x40 = c" by simp
  have b: "c div 0x1000 * 0x40 + c div 0x40 mod 0x40 = c div 0x40" unfolding 1 by (rule div_mult_mod_eq)
  have d: "c div 0x40000 * 0x40 + c div 0x1000 mod 0x40 = c div 0x1000" unfolding 2 by (rule div_mult_mod_eq)
  show "c div 0x1000 * 0x1000 + c div 0x40 mod 0x40 * 0x40 + c mod 0x40 = c" using a b by linarith
  then show "c div 0x40000 * 0x40000 + c div 0x1000 mod 0x40 * 0x1000 + c div 0x40 mod 0x40 * 0x40 + c mod 0x40 = c" using d by linarith
qed

lemma utf8_decode_point:
  assumes "utf8_point c = Some w"
  shows "utf8_decode (w @ rest) = push c (utf8_decode rest)"
proof -
  have sc: "is_scalar c" using assms by (auto simp: utf8_point_def split: if_splits)
  then have top: "c < 0x110000" by (simp add: is_scalar_def)
  consider (one) "c < 0x80" | (two) "0x80 \<le> c" "c < 0x800" | (three) "0x800 \<le> c" "c < 0x10000" | (four) "0x10000 \<le> c" by linarith
  then show ?thesis
  proof cases
    case one
    with assms sc show ?thesis by (auto simp: utf8_point_def)
  next
    case two
    have w: "w = [byte_of (0xC0 + c div 0x40), byte_of (0x80 + c mod 0x40)]" using assms sc two by (simp add: utf8_point_def)
    have "c div 0x40 < 0x20" and "2 \<le> c div 0x40" using two by linarith+
    from utf8_decode2[OF this, of "c mod 0x40" rest] show ?thesis unfolding w digits_base64 by simp
  next
    case three
    have w: "w = [byte_of (0xE0 + c div 0x1000), byte_of (0x80 + c div 0x40 mod 0x40), byte_of (0x80 + c mod 0x40)]"
      using assms sc three by (simp add: utf8_point_def)
    have "c div 0x1000 < 0x10" using three by linarith
    from utf8_decode3[OF this, of "c div 0x40 mod 0x40" "c mod 0x40" rest] three sc show ?thesis unfolding w digits_base64 by simp
  next
    case four
    have w: "w = [byte_of (0xF0 + c div 0x40000), byte_of (0x80 + c div 0x1000 mod 0x40), byte_of (0x80 + c div 0x40 mod 0x40), byte_of (0x80 + c mod 0x40)]"
      using assms sc four by (simp add: utf8_point_def)
    have "c div 0x40000 < 0x8" using top by linarith
    from utf8_decode4[OF this, of "c div 0x1000 mod 0x40" "c div 0x40 mod 0x40" "c mod 0x40" rest] four sc
    show ?thesis unfolding w digits_base64 by simp
  qed
qed

lemma utf8_roundtrip: "utf8_of s = Some bs \<Longrightarrow> utf8_decode bs = Some s"
proof (induction s arbitrary: bs)
  case (Cons c s)
  then obtain u v where uv: "utf8_point c = Some u" "utf8_of s = Some v" "bs = u @ v"
    by (auto simp: utf8_of_def split: option.splits)
  with Cons.IH utf8_decode_point[OF uv(1)] show ?case by (simp add: push_def)
qed (simp add: utf8_of_def)

lemma utf8_of_Some_iff: "(\<exists>bs. utf8_of s = Some bs) \<longleftrightarrow> list_all is_scalar s"
  by (induction s) (auto simp: utf8_of_def utf8_point_def split: option.splits)

lemma utf8_bytes_encodes: "utf8_of (map code s) = Some (utf8_bytes s)"
proof (induction s)
  case (Cons c s)
  have "code c < 256" using nat_of_char_less_256 by simp
  then have "is_scalar (code c)" unfolding is_scalar_def is_surrogate_def by linarith
  then have "utf8_point (code c) \<noteq> None" by (simp add: utf8_point_def)
  then obtain w where "utf8_point (code c) = Some w" by blast
  with Cons show ?case by (simp add: utf8_of_def utf8_bytes_def)
qed (simp add: utf8_of_def utf8_bytes_def)

section \<open>UTF-16-BE\<close>

definition unit_bytes :: "nat \<Rightarrow> string" where
  "unit_bytes u = [byte_of (u div 0x100), byte_of (u mod 0x100)]"

text \<open>The reference encoder of a scalar value.\<close>

definition utf16be_point :: "nat \<Rightarrow> string" where
  "utf16be_point c =
     (if c < 0x10000 then unit_bytes c
      else unit_bytes (0xD800 + (c - 0x10000) div 0x400) @ unit_bytes (0xDC00 + (c - 0x10000) mod 0x400))"

text \<open>\<open>bytes.decode("utf-16-be")\<close>: pairs of bytes, a high surrogate with its low one.\<close>

fun utf16be_decode :: "string \<Rightarrow> codepoints option" where
  "utf16be_decode [] = Some []"
| "utf16be_decode [_] = None"
| "utf16be_decode (a # b # bs) =
     (let u = code a * 0x100 + code b
      in if \<not> is_surrogate u then push u (utf16be_decode bs)
         else if 0xDC00 \<le> u then None
         else (case bs of
                 a2 # b2 # bs' \<Rightarrow>
                   (let u2 = code a2 * 0x100 + code b2
                    in if 0xDC00 \<le> u2 \<and> u2 \<le> 0xDFFF
                       then push (0x10000 + (u - 0xD800) * 0x400 + (u2 - 0xDC00)) (utf16be_decode bs') else None)
               | _ \<Rightarrow> None))"

lemma unit_bytes_decode:
  assumes "u < 0x10000"
  shows "code (byte_of (u div 0x100)) * 0x100 + code (byte_of (u mod 0x100)) = u"
proof -
  have "u div 0x100 < 0x100" using assms by linarith
  then show ?thesis by simp
qed

lemma utf16be_decode_unit:
  "u < 0x10000 \<Longrightarrow> \<not> is_surrogate u \<Longrightarrow> utf16be_decode (unit_bytes u @ rest) = push u (utf16be_decode rest)"
  using unit_bytes_decode[of u] by (simp add: unit_bytes_def Let_def)

lemma utf16be_decode_pair:
  assumes "0xD800 \<le> h" "h < 0xDC00" "0xDC00 \<le> l" "l \<le> 0xDFFF"
  shows "utf16be_decode (unit_bytes h @ unit_bytes l @ rest) = push (0x10000 + (h - 0xD800) * 0x400 + (l - 0xDC00)) (utf16be_decode rest)"
  using unit_bytes_decode[of h] unit_bytes_decode[of l] assms by (simp add: unit_bytes_def is_surrogate_def Let_def)

lemma utf16be_decode_point:
  assumes "is_scalar c"
  shows "utf16be_decode (utf16be_point c @ rest) = push c (utf16be_decode rest)"
proof (cases "c < 0x10000")
  case True
  with assms show ?thesis by (simp add: utf16be_point_def utf16be_decode_unit is_scalar_def)
next
  case False
  define d where "d = c - 0x10000"
  have d: "d < 0x100000" "c = 0x10000 + d" using False assms by (auto simp: d_def is_scalar_def)
  have "d div 0x400 < 0x400" using d(1) by linarith
  moreover have "d mod 0x400 < 0x400" by simp
  moreover have "d div 0x400 * 0x400 + d mod 0x400 = d" by simp
  ultimately have "utf16be_decode (unit_bytes (0xD800 + d div 0x400) @ unit_bytes (0xDC00 + d mod 0x400) @ rest) = push (0x10000 + d) (utf16be_decode rest)"
    using utf16be_decode_pair[of "0xD800 + d div 0x400" "0xDC00 + d mod 0x400" rest] by (simp add: add.assoc)
  with False d show ?thesis by (simp add: utf16be_point_def)
qed

lemma utf16be_roundtrip: "list_all is_scalar s \<Longrightarrow> utf16be_decode (concat (map utf16be_point s)) = Some s"
  by (induction s) (simp_all add: utf16be_decode_point push_def)

section \<open>Base64\<close>

definition b64_value :: "char \<Rightarrow> nat option" where
  "b64_value c =
     (let n = code c
      in if 65 \<le> n \<and> n \<le> 90 then Some (n - 65) else if 97 \<le> n \<and> n \<le> 122 then Some (n - 71)
         else if 48 \<le> n \<and> n \<le> 57 then Some (n + 4) else if n = 43 then Some 62 else if n = 47 then Some 63 else None)"

definition b64_char :: "nat \<Rightarrow> char" where
  "b64_char v = byte_of (if v < 26 then v + 65 else if v < 52 then v + 71 else if v < 62 then v - 4 else if v = 62 then 43 else 47)"

text \<open>
  The loop of \<open>a2b_base64\<close>: the position in the quad, the bits left over, the pads seen and whether padding has started. Outside strict mode
  characters beyond the alphabet are passed over; a complete padding ends the data.
\<close>

fun a2b_loop :: "bool \<Rightarrow> string \<Rightarrow> nat \<Rightarrow> nat \<Rightarrow> nat \<Rightarrow> bool \<Rightarrow> string \<Rightarrow> string option" where
  "a2b_loop strict [] quad_pos leftchar pads started out = (if quad_pos \<noteq> 0 then None else Some out)"
| "a2b_loop strict (c # cs) quad_pos leftchar pads started out =
     (if c = CHR ''='' then
        (if quad_pos < 2 then a2b_loop strict cs quad_pos leftchar pads True out
         else if quad_pos + (pads + 1) < 4 then a2b_loop strict cs quad_pos leftchar (pads + 1) True out
         else if strict \<and> cs \<noteq> [] then None else Some out)
      else (case b64_value c of
              None \<Rightarrow> if strict then None else a2b_loop strict cs quad_pos leftchar pads started out
            | Some v \<Rightarrow>
                if strict \<and> started then None
                else if quad_pos = 0 then a2b_loop strict cs 1 v 0 started out
                else if quad_pos = 1 then a2b_loop strict cs 2 (v mod 16) 0 started (out @ [byte_of (leftchar * 4 + v div 16)])
                else if quad_pos = 2 then a2b_loop strict cs 3 (v mod 4) 0 started (out @ [byte_of (leftchar * 16 + v div 4)])
                else a2b_loop strict cs 0 0 0 started (out @ [byte_of (leftchar * 64 + v)])))"

text \<open>\<open>base64.b64decode\<close> of a \<open>str\<close>: \<open>None\<close> is the \<open>ValueError\<close> (of which \<open>binascii.Error\<close> is one).\<close>

definition b64decode :: "bool \<Rightarrow> string \<Rightarrow> string option" where
  "b64decode validate s =
     (if \<not> py_isascii s then None
      else if validate \<and> (case s of [] \<Rightarrow> False | c # _ \<Rightarrow> c = CHR ''='') then None
      else a2b_loop validate s 0 0 0 False [])"

text \<open>The reference encoder, without its padding, and the padding that completes a quad.\<close>

fun b64_digits :: "string \<Rightarrow> string" where
  "b64_digits [] = []"
| "b64_digits [a] = [b64_char (code a div 4), b64_char (code a mod 4 * 16)]"
| "b64_digits [a, b] = [b64_char (code a div 4), b64_char (code a mod 4 * 16 + code b div 16), b64_char (code b mod 16 * 4)]"
| "b64_digits (a # b # c # bs) =
     [b64_char (code a div 4), b64_char (code a mod 4 * 16 + code b div 16), b64_char (code b mod 16 * 4 + code c div 64), b64_char (code c mod 64)]
     @ b64_digits bs"

definition pad_quad :: "string \<Rightarrow> string" where
  "pad_quad s = s @ replicate (nat (- int (length s) mod 4)) (CHR ''='')"

lemma code_b64_char:
  assumes "v < 64"
  shows "code (b64_char v) = (if v < 26 then v + 65 else if v < 52 then v + 71 else if v < 62 then v - 4 else if v = 62 then 43 else 47)"
  unfolding b64_char_def by (rule code_byte_of) (use assms in auto)

lemma b64_value_char [simp]: "v < 64 \<Longrightarrow> b64_value (b64_char v) = Some v"
  by (auto simp: b64_value_def code_b64_char Let_def)

lemma b64_char_ne [simp]: "v < 64 \<Longrightarrow> b64_char v \<noteq> CHR ''=''" "v < 64 \<Longrightarrow> b64_char v \<noteq> CHR ''-''" "v < 64 \<Longrightarrow> b64_char v \<noteq> CHR '',''"
  using code_b64_char[of v] by (auto split: if_splits)

lemma byte_digits:
  "code a div 4 < 64" "code a mod 4 * 16 + code b div 16 < 64" "code b mod 16 * 4 + code c div 64 < 64"
  "code a mod 4 * 16 < 64" "code b mod 16 * 4 < 64" "code c mod 64 < 64"
proof -
  have "code x < 256" for x :: char using nat_of_char_less_256 by simp
  then have "code a < 256" "code b < 256" "code c < 256" by blast+
  then show "code a div 4 < 64" "code a mod 4 * 16 + code b div 16 < 64" "code b mod 16 * 4 + code c div 64 < 64"
    "code a mod 4 * 16 < 64" "code b mod 16 * 4 < 64" "code c mod 64 < 64" by linarith+
qed

lemma byte_recombine:
  "code a div 4 * 4 + (code a mod 4 * 16 + code b div 16) div 16 = code a"
  "(code a mod 4 * 16 + code b div 16) mod 16 * 16 + (code b mod 16 * 4 + code c div 64) div 4 = code b"
  "(code b mod 16 * 4 + code c div 64) mod 4 * 64 + code c mod 64 = code c"
  "code a div 4 * 4 + code a mod 4 * 16 div 16 = code a"
  "(code a mod 4 * 16 + code b div 16) mod 16 * 16 + code b mod 16 * 4 div 4 = code b"
proof -
  have "code x < 256" for x :: char using nat_of_char_less_256 by simp
  then have lt: "code b div 16 < 16" "code c div 64 < 4" by (simp_all add: div_less_iff_less_mult)
  have q: "(m * k + r) div k = m" "(m * k + r) mod k = r" if "r < k" for m k r :: nat using that by simp_all
  show "code a div 4 * 4 + (code a mod 4 * 16 + code b div 16) div 16 = code a" unfolding q(1)[OF lt(1)] by (rule div_mult_mod_eq)
  show "(code a mod 4 * 16 + code b div 16) mod 16 * 16 + (code b mod 16 * 4 + code c div 64) div 4 = code b"
    unfolding q(2)[OF lt(1)] q(1)[OF lt(2)] by (rule div_mult_mod_eq)
  show "(code b mod 16 * 4 + code c div 64) mod 4 * 64 + code c mod 64 = code c" unfolding q(2)[OF lt(2)] by (rule div_mult_mod_eq)
  show "code a div 4 * 4 + code a mod 4 * 16 div 16 = code a" by simp
  show "(code a mod 4 * 16 + code b div 16) mod 16 * 16 + code b mod 16 * 4 div 4 = code b" unfolding q(2)[OF lt(1)] by simp
qed

text \<open>Reading one digit in each position of the quad.\<close>

lemma a2b_digit:
  assumes "v < 64"
  shows "a2b_loop strict (b64_char v # cs) 0 l p False out = a2b_loop strict cs 1 v 0 False out"
    and "a2b_loop strict (b64_char v # cs) 1 l p False out = a2b_loop strict cs 2 (v mod 16) 0 False (out @ [byte_of (l * 4 + v div 16)])"
    and "a2b_loop strict (b64_char v # cs) 2 l p False out = a2b_loop strict cs 3 (v mod 4) 0 False (out @ [byte_of (l * 16 + v div 4)])"
    and "a2b_loop strict (b64_char v # cs) 3 l p False out = a2b_loop strict cs 0 0 0 False (out @ [byte_of (l * 64 + v)])"
  using assms by simp_all

lemma length_b64_digits: "length (b64_digits bs) mod 4 = (if length bs mod 3 = 0 then 0 else length bs mod 3 + 1)"
proof (induction bs rule: b64_digits.induct)
  case (4 a b c bs)
  have "length (b64_digits (a # b # c # bs)) mod 4 = length (b64_digits bs) mod 4" by simp
  moreover have "length (a # b # c # bs) mod 3 = length bs mod 3" by simp
  ultimately show ?case using "4.IH" by presburger
qed simp_all

lemma pad_quad_append: "length u mod 4 = 0 \<Longrightarrow> pad_quad (u @ s) = u @ pad_quad s"
proof -
  assume "length u mod 4 = 0"
  then have "- int (length (u @ s)) mod 4 = - int (length s) mod 4" by (simp, presburger)
  then show ?thesis by (simp add: pad_quad_def del: length_append)
qed

lemma a2b_pads:
  "a2b_loop strict ''=='' 2 l 0 False out = Some out" "a2b_loop strict ''='' 3 l 0 False out = Some out"
  by simp_all

lemmas a2b_quad = a2b_digit(1)[OF byte_digits(1)] a2b_digit(2)[OF byte_digits(2)] a2b_digit(2)[OF byte_digits(4)]
  a2b_digit(3)[OF byte_digits(3)] a2b_digit(3)[OF byte_digits(5)] a2b_digit(4)[OF byte_digits(6)]
  a2b_pads append_Cons append_Nil append_assoc byte_recombine char_of_char

lemma a2b_loop_digits: "a2b_loop strict (pad_quad (b64_digits bs)) 0 0 0 False out = Some (out @ bs)"
proof (induction bs arbitrary: out rule: b64_digits.induct)
  case 1
  then show ?case by (simp add: pad_quad_def)
next
  case (2 a)
  have "pad_quad (b64_digits [a]) = b64_digits [a] @ ''==''" by (simp add: pad_quad_def numeral_2_eq_2)
  then show ?case by (simp only: b64_digits.simps a2b_quad)
next
  case (3 a b)
  have "pad_quad (b64_digits [a, b]) = b64_digits [a, b] @ ''=''" by (simp add: pad_quad_def)
  then show ?case by (simp only: b64_digits.simps a2b_quad)
next
  case (4 a b c bs)
  have "pad_quad (b64_digits (a # b # c # bs))
      = [b64_char (code a div 4), b64_char (code a mod 4 * 16 + code b div 16), b64_char (code b mod 16 * 4 + code c div 64), b64_char (code c mod 64)]
        @ pad_quad (b64_digits bs)"
    unfolding b64_digits.simps by (rule pad_quad_append) simp
  with "4.IH" show ?case by (simp only: a2b_quad)
qed

lemma b64_char_in_alphabet: "v < 64 \<Longrightarrow> b64_char v \<in> b64_char ` {..<64}"
  by simp

lemma b64_digits_alphabet: "set (b64_digits bs) \<subseteq> b64_char ` {..<64}"
  by (induction bs rule: b64_digits.induct)
    (simp_all only: b64_digits.simps set_append list.set insert_subset Un_subset_iff empty_subsetI b64_char_in_alphabet byte_digits simp_thms)

lemma b64_digits_chars: "c \<in> set (b64_digits bs) \<Longrightarrow> \<exists>v < 64. c = b64_char v"
  using b64_digits_alphabet[of bs] by blast

lemma b64_char_ascii: "v < 64 \<Longrightarrow> code (b64_char v) < 128"
  by (auto simp: code_b64_char)

lemma pad_quad_ascii: "py_isascii (pad_quad (b64_digits bs))"
  using b64_digits_chars[of _ bs] b64_char_ascii by (auto simp: py_isascii_def pad_quad_def list_all_iff)

theorem b64_roundtrip: "b64decode validate (pad_quad (b64_digits bs)) = Some bs"
proof -
  have "pad_quad (b64_digits bs) = [] \<or> (\<exists>v cs. v < 64 \<and> pad_quad (b64_digits bs) = b64_char v # cs)"
    using byte_digits(1) by (cases bs rule: b64_digits.cases) (auto simp: pad_quad_def)
  then show ?thesis using a2b_loop_digits[of validate bs "[]"] by (auto simp: b64decode_def pad_quad_ascii)
qed

end
