(* ===== verification/App_Settings.thy ===== *)
theory App_Settings
  imports Auth_Service Fetch_Planner Py_Codec
begin

text \<open>
  The configuration of a process (\<open>core/config.py\<close>) with the guard that refuses to start on it, what is built from it at start
  (\<open>identity/dependencies.py\<close>), the refresh cookie and the cross-site check (\<open>identity/routes/cookies.py\<close>) and the routes of the company
  domain's authentication (\<open>identity/routes/auth_routes.py\<close>) on top of the services of \<open>Auth_Service\<close>.
\<close>

section \<open>Settings\<close>

record app_settings = settings +
  app_env :: string
  app_name :: string
  app_version :: string
  postgres_user :: string
  postgres_password :: string
  postgres_db :: string
  postgres_host :: string
  postgres_port :: int
  app_db_user :: string
  oneai_app_password :: string
  global_db_user :: string
  oneai_global_password :: string
  reader_db_user :: string
  oneai_reader_password :: string
  default_org_id :: string
  connector_secret_key :: string
  connector_egress_guard_enabled :: bool
  login_throttle_ip_max_attempts :: int
  login_throttle_ip_window_seconds :: seconds
  login_throttle_account_max_attempts :: int
  login_throttle_account_window_seconds :: seconds
  login_throttle_base_lockout_seconds :: seconds
  login_throttle_max_lockout_seconds :: seconds
  refresh_cookie_name :: string
  refresh_cookie_secure :: bool
  refresh_cookie_samesite :: string
  refresh_cookie_path :: string
  cors_origins :: "string list"
  max_request_body_bytes :: nat

definition INSECURE_JWT_SECRET :: string where
  "INSECURE_JWT_SECRET = ''dev-only-insecure-secret-change-me-in-prod''"

definition INSECURE_POSTGRES_PASSWORD :: string where
  "INSECURE_POSTGRES_PASSWORD = ''oneai''"

definition INSECURE_ONEAI_APP_PASSWORD :: string where
  "INSECURE_ONEAI_APP_PASSWORD = ''dev-only-oneai-app-pw-change-me''"

definition INSECURE_ONEAI_GLOBAL_PASSWORD :: string where
  "INSECURE_ONEAI_GLOBAL_PASSWORD = ''dev-only-oneai-global-pw-change-me''"

definition INSECURE_ONEAI_READER_PASSWORD :: string where
  "INSECURE_ONEAI_READER_PASSWORD = ''dev-only-oneai-reader-pw-change-me''"

definition MIN_JWT_SECRET_BYTES :: nat where
  "MIN_JWT_SECRET_BYTES = 32"

text \<open>The settings of an empty environment.\<close>

definition default_settings :: app_settings where
  "default_settings = \<lparr>jwt_secret = INSECURE_JWT_SECRET, jwt_algorithm = ''HS256'', access_token_ttl_minutes = 15, refresh_token_ttl_days = 7,
     app_env = ''local'', app_name = ''One AI'', app_version = ''0.1.0'', postgres_user = ''oneai'',
     postgres_password = INSECURE_POSTGRES_PASSWORD, postgres_db = ''oneai'', postgres_host = ''db'', postgres_port = 5432,
     app_db_user = ''oneai_app'', oneai_app_password = INSECURE_ONEAI_APP_PASSWORD,
     global_db_user = ''oneai_global'', oneai_global_password = INSECURE_ONEAI_GLOBAL_PASSWORD,
     reader_db_user = ''oneai_reader'', oneai_reader_password = INSECURE_ONEAI_READER_PASSWORD,
     default_org_id = ''00000000-0000-0000-0000-000000000001'',
     connector_secret_key = ''dev-only-insecure-connector-secret-change-me'', connector_egress_guard_enabled = True,
     login_throttle_ip_max_attempts = 10, login_throttle_ip_window_seconds = 60,
     login_throttle_account_max_attempts = 5, login_throttle_account_window_seconds = 60,
     login_throttle_base_lockout_seconds = 60, login_throttle_max_lockout_seconds = 900,
     refresh_cookie_name = ''oneai_refresh'', refresh_cookie_secure = False, refresh_cookie_samesite = ''lax'', refresh_cookie_path = ''/auth'',
     cors_origins = [''http://localhost:5173'', ''http://localhost:8000''], max_request_body_bytes = 1048576\<rparr>"

definition str_int :: "int \<Rightarrow> string" where
  "str_int i = (if i < 0 then ''-'' @ str_nat (nat (- i)) else str_nat (nat i))"

definition role_url :: "string \<Rightarrow> string \<Rightarrow> app_settings \<Rightarrow> string" where
  "role_url user password s =
     ''postgresql+asyncpg://'' @ user @ '':'' @ password @ ''@'' @ postgres_host s @ '':'' @ str_int (postgres_port s) @ ''/'' @ postgres_db s"

definition database_url :: "app_settings \<Rightarrow> string" where
  "database_url s = role_url (postgres_user s) (postgres_password s) s"

definition tenant_database_url :: "app_settings \<Rightarrow> string" where
  "tenant_database_url s = role_url (app_db_user s) (oneai_app_password s) s"

definition global_database_url :: "app_settings \<Rightarrow> string" where
  "global_database_url s = role_url (global_db_user s) (oneai_global_password s) s"

definition reader_database_url :: "app_settings \<Rightarrow> string" where
  "reader_database_url s = role_url (reader_db_user s) (oneai_reader_password s) s"

definition is_production :: "app_settings \<Rightarrow> bool" where
  "is_production s \<longleftrightarrow> py_lower (app_env s) = ''production''"

definition requires_secure_secrets :: "app_settings \<Rightarrow> bool" where
  "requires_secure_secrets s \<longleftrightarrow> py_lower (app_env s) \<notin> {''local'', ''test''}"

section \<open>The boot guard\<close>

datatype config_error = InvalidSamesite string | SamesiteNoneWithoutSecure | InsecureSecrets string "string list"

definition utf8_length :: "string \<Rightarrow> nat" where
  "utf8_length s = length (utf8_bytes s)"

definition insecure_settings :: "app_settings \<Rightarrow> string list" where
  "insecure_settings s =
     (if jwt_secret s = INSECURE_JWT_SECRET then [''JWT_SECRET (dev default)'']
      else if utf8_length (jwt_secret s) < MIN_JWT_SECRET_BYTES then [''JWT_SECRET (blank or under 32 bytes)''] else [])
     @ (if postgres_password s = INSECURE_POSTGRES_PASSWORD then [''POSTGRES_PASSWORD (dev default)''] else [])
     @ (if oneai_app_password s = INSECURE_ONEAI_APP_PASSWORD then [''ONEAI_APP_PASSWORD (dev default)''] else [])
     @ (if oneai_global_password s = INSECURE_ONEAI_GLOBAL_PASSWORD then [''ONEAI_GLOBAL_PASSWORD (dev default)''] else [])
     @ (if oneai_reader_password s = INSECURE_ONEAI_READER_PASSWORD then [''ONEAI_READER_PASSWORD (dev default)''] else [])
     @ (if \<not> refresh_cookie_secure s then [''REFRESH_COOKIE_SECURE (must be true outside dev '' @ [CHR 0x97] @ '' the refresh cookie would otherwise be sent over plaintext)''] else [])"

definition forbid_insecure_defaults_outside_dev :: "app_settings \<Rightarrow> config_error + app_settings" where
  "forbid_insecure_defaults_outside_dev s0 =
     (let s = s0\<lparr>jwt_secret := py_strip (jwt_secret s0)\<rparr>; samesite = py_lower (py_strip (refresh_cookie_samesite s))
      in if samesite \<notin> {''lax'', ''strict'', ''none''} then Inl (InvalidSamesite (refresh_cookie_samesite s))
         else if samesite = ''none'' \<and> \<not> refresh_cookie_secure s then Inl SamesiteNoneWithoutSecure
         else if \<not> requires_secure_secrets s then Inr s
         else if insecure_settings s \<noteq> [] then Inl (InsecureSecrets (app_env s) (insecure_settings s))
         else Inr s)"

section \<open>What is built at start\<close>

definition build_login_rate_limiter :: "app_settings \<Rightarrow> rate_limiter" where
  "build_login_rate_limiter s = new_rate_limiter
     \<lparr>max_attempts = login_throttle_ip_max_attempts s, window_seconds = login_throttle_ip_window_seconds s,
      base_lockout_seconds = login_throttle_base_lockout_seconds s, max_lockout_seconds = login_throttle_max_lockout_seconds s\<rparr>
     \<lparr>max_attempts = login_throttle_account_max_attempts s, window_seconds = login_throttle_account_window_seconds s,
      base_lockout_seconds = login_throttle_base_lockout_seconds s, max_lockout_seconds = login_throttle_max_lockout_seconds s\<rparr>"

definition build_token_denylist :: "app_settings \<Rightarrow> token_denylist" where
  "build_token_denylist s = new_denylist (access_token_ttl_minutes s * 60)"

section \<open>Cookies and the cross-site check\<close>

text \<open>A request as the routes read it: headers by lower-case name, cookies by name, the address of the peer.\<close>

record http_request =
  rq_header :: "string \<rightharpoonup> string"
  rq_cookie :: "string \<rightharpoonup> string"
  rq_client_host :: "string option"

record cookie =
  co_key :: string
  co_value :: string
  co_max_age :: int
  co_httponly :: bool
  co_secure :: bool
  co_samesite :: string
  co_path :: string

definition FIRST_PARTY_FETCH_SITES :: "string list" where
  "FIRST_PARTY_FETCH_SITES = [''same-origin'', ''same-site'', ''none'']"

definition require_first_party_request :: "app_settings \<Rightarrow> http_request \<Rightarrow> identity_error + unit" where
  "require_first_party_request s req =
     (if (case rq_header req ''sec-fetch-site'' of None \<Rightarrow> False | Some site \<Rightarrow> List.member FIRST_PARTY_FETCH_SITES (py_lower (py_strip site)))
      then Inr ()
      else (case rq_header req ''origin'' of
              None \<Rightarrow> Inr ()
            | Some origin \<Rightarrow>
                if List.member (cors_origins s) origin then Inr ()
                else Inl (CrossSiteRequestRejectedError ''Cross-site request to a cookie-authenticated endpoint.'')))"

definition client_ip_from_request :: "http_request \<Rightarrow> string option" where
  "client_ip_from_request req = rq_client_host req"

definition normalized_samesite :: "string \<Rightarrow> string" where
  "normalized_samesite v = (let n = py_lower (py_strip v) in if n \<in> {''lax'', ''strict'', ''none''} then n else ''lax'')"

definition set_refresh_cookie :: "app_settings \<Rightarrow> string \<Rightarrow> cookie" where
  "set_refresh_cookie s raw = \<lparr>co_key = refresh_cookie_name s, co_value = raw, co_max_age = refresh_token_ttl_days s * 24 * 60 * 60,
     co_httponly = True, co_secure = refresh_cookie_secure s, co_samesite = normalized_samesite (refresh_cookie_samesite s),
     co_path = refresh_cookie_path s\<rparr>"

definition clear_refresh_cookie :: "app_settings \<Rightarrow> cookie" where
  "clear_refresh_cookie s = \<lparr>co_key = refresh_cookie_name s, co_value = [], co_max_age = 0,
     co_httponly = True, co_secure = refresh_cookie_secure s, co_samesite = normalized_samesite (refresh_cookie_samesite s),
     co_path = refresh_cookie_path s\<rparr>"

definition read_refresh_cookie :: "app_settings \<Rightarrow> http_request \<Rightarrow> string option" where
  "read_refresh_cookie s req = rq_cookie req (refresh_cookie_name s)"

section \<open>The authentication routes\<close>

record 'tok token_body =
  tb_access_token :: 'tok
  tb_refresh_token :: "string option"
  tb_user :: "authenticated_user option"

record 'tok auth_response =
  ar_body :: "'tok token_body option"
  ar_cookie :: cookie

definition refresh_token_from :: "app_settings \<Rightarrow> http_request \<Rightarrow> string option \<Rightarrow> string option" where
  "refresh_token_from s req payload =
     (case read_refresh_cookie s req of Some t \<Rightarrow> if t \<noteq> [] then Some t else payload | None \<Rightarrow> payload)"

definition pair_response :: "app_settings \<Rightarrow> 'tok token_pair_response \<Rightarrow> 'tok auth_response" where
  "pair_response s pair = \<lparr>
     ar_body = Some \<lparr>tb_access_token = tp_access_token pair, tb_refresh_token = None, tb_user = tp_user pair\<rparr>,
     ar_cookie = set_refresh_cookie s (tp_refresh_token pair)\<rparr>"

definition answer :: "('a \<Rightarrow> 'b) \<Rightarrow> (identity_error + 'a) \<times> world \<Rightarrow> (identity_error + 'b) \<times> world" where
  "answer f r = (case r of (Inl e, w) \<Rightarrow> (Inl e, w) | (Inr a, w) \<Rightarrow> (Inr (f a), w))"

definition login_route :: "'tok crypto \<Rightarrow> app_settings \<Rightarrow> env \<Rightarrow> http_request \<Rightarrow> string \<Rightarrow> string \<Rightarrow> 'tok auth_response handler" where
  "login_route cr s e req email password w =
     answer (pair_response s) (unit_of_work (auth_login cr (settings.truncate s) e email password (client_ip_from_request req)) w)"

definition refresh_route :: "'tok crypto \<Rightarrow> app_settings \<Rightarrow> env \<Rightarrow> http_request \<Rightarrow> string option \<Rightarrow> 'tok auth_response handler" where
  "refresh_route cr s e req payload w =
     (case require_first_party_request s req of
        Inl err \<Rightarrow> (Inl err, w)
      | Inr _ \<Rightarrow>
        (case refresh_token_from s req payload of
           None \<Rightarrow> (Inl (RefreshTokenInvalidError ''No refresh token presented.''), w)
         | Some token \<Rightarrow> answer (pair_response s) (unit_of_work (auth_refresh cr (settings.truncate s) e token) w)))"

definition logout_route :: "'tok crypto \<Rightarrow> app_settings \<Rightarrow> env \<Rightarrow> http_request \<Rightarrow> string option \<Rightarrow> 'tok auth_response handler" where
  "logout_route cr s e req payload w =
     (case require_first_party_request s req of
        Inl err \<Rightarrow> (Inl err, w)
      | Inr _ \<Rightarrow>
        (case refresh_token_from s req payload of
           None \<Rightarrow> (Inr \<lparr>ar_body = None, ar_cookie = clear_refresh_cookie s\<rparr>, w)
         | Some token \<Rightarrow>
             answer (\<lambda>_. \<lparr>ar_body = None, ar_cookie = clear_refresh_cookie s\<rparr>) (unit_of_work (logout cr e actor_user token) w)))"

definition read_current_user :: "'tok crypto \<Rightarrow> app_settings \<Rightarrow> env \<Rightarrow> 'tok option \<Rightarrow> world \<Rightarrow> identity_error + authenticated_user" where
  "read_current_user cr s e credentials w =
     (case get_current_principal cr (settings.truncate s) e (w_denylist w) credentials of
        Inl err \<Rightarrow> Inl err
      | Inr p \<Rightarrow> build_authenticated_user_by_id (w_db w) (p_subject_id p))"

section \<open>A process that started\<close>

lemma insecure_settings_Nil:
  "insecure_settings s = [] \<longleftrightarrow> jwt_secret s \<noteq> INSECURE_JWT_SECRET \<and> MIN_JWT_SECRET_BYTES \<le> utf8_length (jwt_secret s)
     \<and> postgres_password s \<noteq> INSECURE_POSTGRES_PASSWORD \<and> oneai_app_password s \<noteq> INSECURE_ONEAI_APP_PASSWORD
     \<and> oneai_global_password s \<noteq> INSECURE_ONEAI_GLOBAL_PASSWORD \<and> oneai_reader_password s \<noteq> INSECURE_ONEAI_READER_PASSWORD
     \<and> refresh_cookie_secure s"
  by (simp add: insecure_settings_def not_less)

lemma requires_secure_update [simp]: "requires_secure_secrets (s\<lparr>jwt_secret := x\<rparr>) = requires_secure_secrets s"
  by (simp add: requires_secure_secrets_def)

text \<open>
  C16: which configurations start. A process starts exactly when the cookie's SameSite is one of the three known values, is \<open>none\<close> only for a
  Secure cookie, and, in every environment but \<open>local\<close> and \<open>test\<close>, no secret is a development default, the signing key without surrounding
  blanks has 32 bytes or more and the cookie is Secure. It then runs on exactly the given settings with the signing key stripped.
\<close>

theorem starts_iff_hardened:
  "forbid_insecure_defaults_outside_dev s0 = Inr s \<longleftrightarrow>
     s = s0\<lparr>jwt_secret := py_strip (jwt_secret s0)\<rparr>
     \<and> py_lower (py_strip (refresh_cookie_samesite s0)) \<in> {''lax'', ''strict'', ''none''}
     \<and> (py_lower (py_strip (refresh_cookie_samesite s0)) = ''none'' \<longrightarrow> refresh_cookie_secure s0)
     \<and> (py_lower (app_env s0) \<in> {''local'', ''test''}
        \<or> (py_strip (jwt_secret s0) \<noteq> INSECURE_JWT_SECRET \<and> 32 \<le> utf8_length (py_strip (jwt_secret s0))
           \<and> postgres_password s0 \<noteq> INSECURE_POSTGRES_PASSWORD \<and> oneai_app_password s0 \<noteq> INSECURE_ONEAI_APP_PASSWORD
           \<and> oneai_global_password s0 \<noteq> INSECURE_ONEAI_GLOBAL_PASSWORD \<and> oneai_reader_password s0 \<noteq> INSECURE_ONEAI_READER_PASSWORD
           \<and> refresh_cookie_secure s0))"
proof -
  let ?t = "s0\<lparr>jwt_secret := py_strip (jwt_secret s0)\<rparr>"
  have f: "refresh_cookie_samesite ?t = refresh_cookie_samesite s0" "refresh_cookie_secure ?t = refresh_cookie_secure s0"
    "jwt_secret ?t = py_strip (jwt_secret s0)" "postgres_password ?t = postgres_password s0" "oneai_app_password ?t = oneai_app_password s0"
    "oneai_global_password ?t = oneai_global_password s0" "oneai_reader_password ?t = oneai_reader_password s0"
    by simp_all
  have "insecure_settings ?t = [] \<longleftrightarrow> py_strip (jwt_secret s0) \<noteq> INSECURE_JWT_SECRET \<and> 32 \<le> utf8_length (py_strip (jwt_secret s0))
     \<and> postgres_password s0 \<noteq> INSECURE_POSTGRES_PASSWORD \<and> oneai_app_password s0 \<noteq> INSECURE_ONEAI_APP_PASSWORD
     \<and> oneai_global_password s0 \<noteq> INSECURE_ONEAI_GLOBAL_PASSWORD \<and> oneai_reader_password s0 \<noteq> INSECURE_ONEAI_READER_PASSWORD
     \<and> refresh_cookie_secure s0"
    unfolding insecure_settings_Nil f MIN_JWT_SECRET_BYTES_def ..
  moreover have "requires_secure_secrets ?t \<longleftrightarrow> py_lower (app_env s0) \<notin> {''local'', ''test''}" by (simp add: requires_secure_secrets_def)
  ultimately show ?thesis
    unfolding forbid_insecure_defaults_outside_dev_def Let_def f by (auto simp del: insert_iff)
qed

theorem starts_iff_hardened_witness:
  "forbid_insecure_defaults_outside_dev (default_settings\<lparr>app_env := ''Staging''\<rparr>) \<noteq> Inr (default_settings\<lparr>app_env := ''Staging''\<rparr>)
   \<and> forbid_insecure_defaults_outside_dev default_settings = Inr default_settings"
proof
  have strip: "py_strip INSECURE_JWT_SECRET = INSECURE_JWT_SECRET"
    unfolding py_strip_def by (rule strip_where_id) (simp add: INSECURE_JWT_SECRET_def py_isspace_def)
  have lax: "py_lower (py_strip ''lax'') = ''lax''" "py_lower ''local'' = ''local''" "py_lower ''Staging'' = ''staging''" by code_simp+
  show "forbid_insecure_defaults_outside_dev (default_settings\<lparr>app_env := ''Staging''\<rparr>) \<noteq> Inr (default_settings\<lparr>app_env := ''Staging''\<rparr>)"
    unfolding starts_iff_hardened by (simp add: default_settings_def lax strip)
  show "forbid_insecure_defaults_outside_dev default_settings = Inr default_settings"
    unfolding starts_iff_hardened by (simp add: default_settings_def lax strip)
qed

section \<open>Sessions in a browser\<close>

lemma answer_Inr: "answer f r = (Inr b, w') \<longleftrightarrow> (\<exists>a. r = (Inr a, w') \<and> b = f a)"
  by (cases r; cases "fst r") (auto simp: answer_def)

lemma normalized_samesite_booted:
  "forbid_insecure_defaults_outside_dev s0 = Inr s \<Longrightarrow> normalized_samesite (refresh_cookie_samesite s) = py_lower (py_strip (refresh_cookie_samesite s0))"
  by (auto simp: forbid_insecure_defaults_outside_dev_def normalized_samesite_def Let_def split: if_splits)

lemma booted_cookie_secure:
  assumes "forbid_insecure_defaults_outside_dev s0 = Inr s"
    and "requires_secure_secrets s0 \<or> py_lower (py_strip (refresh_cookie_samesite s0)) = ''none''"
  shows "refresh_cookie_secure s"
proof -
  have "s = s0\<lparr>jwt_secret := py_strip (jwt_secret s0)\<rparr>" using assms(1)
    by (auto simp: forbid_insecure_defaults_outside_dev_def Let_def split: if_splits)
  with assms show ?thesis
    by (auto simp: forbid_insecure_defaults_outside_dev_def Let_def insecure_settings_Nil split: if_splits)
qed


definition demo_production :: app_settings where
  "demo_production = default_settings\<lparr>app_env := ''production'', jwt_secret := replicate 32 CHR ''k'', postgres_password := ''p1'',
     oneai_app_password := ''p2'', oneai_global_password := ''p3'', oneai_reader_password := ''p4'', refresh_cookie_secure := True,
     refresh_cookie_samesite := '' Strict''\<rparr>"

lemma demo_production_starts: "forbid_insecure_defaults_outside_dev demo_production = Inr demo_production"
proof -
  have 1: "py_strip (replicate 32 CHR ''k'') = replicate 32 CHR ''k''"
    unfolding py_strip_def by (rule strip_where_id) (simp add: py_isspace_def)
  have 2: "py_lower (py_strip '' Strict'') = ''strict''" by code_simp
  have 3: "utf8_length (replicate 32 CHR ''k'') = 32" by (simp add: utf8_length_def utf8_bytes_def utf8_point_def is_scalar_def is_surrogate_def)
  have 4: "replicate 32 CHR ''k'' \<noteq> INSECURE_JWT_SECRET"
  proof
    assume "replicate 32 CHR ''k'' = INSECURE_JWT_SECRET"
    then have "length (replicate 32 CHR ''k'') = length INSECURE_JWT_SECRET" by (rule arg_cong)
    then show False unfolding length_replicate by (simp add: INSECURE_JWT_SECRET_def)
  qed
  have "insecure_settings demo_production = []"
    unfolding insecure_settings_Nil
    by (simp add: demo_production_def default_settings_def 3 MIN_JWT_SECRET_BYTES_def 4 INSECURE_POSTGRES_PASSWORD_def
        INSECURE_ONEAI_APP_PASSWORD_def INSECURE_ONEAI_GLOBAL_PASSWORD_def INSECURE_ONEAI_READER_PASSWORD_def)
  moreover have "demo_production\<lparr>jwt_secret := py_strip (jwt_secret demo_production)\<rparr> = demo_production"
    by (simp add: demo_production_def default_settings_def 1)
  moreover have "py_lower (py_strip (refresh_cookie_samesite demo_production)) = ''strict''" by (simp add: demo_production_def 2)
  ultimately show ?thesis by (simp add: forbid_insecure_defaults_outside_dev_def Let_def)
qed

lemma demo_login: "\<exists>pair w'. unit_of_work (auth_login demo_crypto st (demo_env 50) ''a@x'' ''pw'' None) (demo_world demo_login_db demo_open_limiter) = (Inr pair, w')"
  unfolding unit_of_work_def auth_login_def demo_open_throttle
  by (simp add: users_get_by_email_def demo_world_def demo_login_db_def demo_user_def verify_password_def demo_crypto_def load_loginable_org_def
      organizations_get_by_id_def demo_org_def issue_pair_def new_refresh_token_def refresh_tokens_add_def)

definition demo_request :: "(string \<times> string) list \<Rightarrow> (string \<times> string) list \<Rightarrow> http_request" where
  "demo_request headers cookies = \<lparr>rq_header = map_of headers, rq_cookie = map_of cookies, rq_client_host = None\<rparr>"


lemma first_party_cases:
  "require_first_party_request s req =
     (if (\<exists>site. rq_header req ''sec-fetch-site'' = Some site \<and> py_lower (py_strip site) \<in> {''same-origin'', ''same-site'', ''none''})
         \<or> rq_header req ''origin'' = None \<or> the (rq_header req ''origin'') \<in> set (cors_origins s)
      then Inr () else Inl (CrossSiteRequestRejectedError ''Cross-site request to a cookie-authenticated endpoint.''))"
  by (auto simp: require_first_party_request_def FIRST_PARTY_FETCH_SITES_def List.member_iff split: option.splits)

lemma refused_refresh_stays: "unit_of_work (auth_refresh cr st e raw) w = (r, w') \<Longrightarrow> \<not> is_ok r \<Longrightarrow> w' = w"
  by (auto simp: unit_of_work_def auth_refresh_def split: prod.splits sum.splits option.splits if_splits)

text \<open>
  A forged request changes nothing. A browser's request that comes from another site (an \<open>Origin\<close> that is not configured, and no
  first-party \<open>Sec-Fetch-Site\<close>) is refused by both routes that act on the cookie, with the state as it was; and where a first-party
  request logs out with its cookie, the answer deletes that cookie, and no later refresh with it succeeds or changes anything.
\<close>

theorem cookie_routes_guarded:
  assumes "origin \<notin> set (cors_origins s)" and "rq_header forged ''origin'' = Some origin"
    and "rq_header forged ''sec-fetch-site'' = None \<or> rq_header forged ''sec-fetch-site'' = Some ''cross-site''"
    and "rq_header own ''sec-fetch-site'' = Some ''same-origin''" and "rq_cookie own (refresh_cookie_name s) = Some raw" and "raw \<noteq> []"
  shows "refresh_route cr s e forged payload w = (Inl (CrossSiteRequestRejectedError ''Cross-site request to a cookie-authenticated endpoint.''), w)
     \<and> logout_route cr s e forged payload w = (Inl (CrossSiteRequestRejectedError ''Cross-site request to a cookie-authenticated endpoint.''), w)
     \<and> (\<exists>w'. logout_route cr s e own payload w = (Inr \<lparr>ar_body = None, ar_cookie = (set_refresh_cookie s raw)\<lparr>co_value := [], co_max_age := 0\<rparr>\<rparr>, w')
          \<and> refresh_route cr s e' own payload' w' = (Inl refresh_invalid, w'))"
proof -
  have strip: "py_lower (py_strip ''cross-site'') = ''cross-site''" "py_lower (py_strip ''same-origin'') = ''same-origin''" by code_simp+
  have forged: "require_first_party_request s forged = Inl (CrossSiteRequestRejectedError ''Cross-site request to a cookie-authenticated endpoint.'')"
    using assms(1-3) by (auto simp: first_party_cases strip)
  have own: "require_first_party_request s own = Inr ()" "refresh_token_from s own p = Some raw" for p
    using assms(4-6) by (auto simp: first_party_cases strip refresh_token_from_def read_refresh_cookie_def)
  obtain w' where lo: "unit_of_work (logout cr e actor_user raw) w = (Inr (), w')" and db: "\<exists>r. w_db w' = audit_insert r (snd (revoke_refresh cr e raw (w_db w)))"
    by (auto simp: logout_def unit_of_work_def Let_def split_beta)
  from db have "fst (consume cr e' raw subject_user (w_db w')) = Inl refresh_invalid"
    using dead_after_revoke[of cr e raw "w_db w"] by (intro consume_fails_if_dead) auto
  then have f: "fst (unit_of_work (auth_refresh cr (settings.truncate s) e' raw) w') = Inl refresh_invalid"
    by (simp add: unit_of_work_def auth_refresh_def split_beta sum.case_eq_if)
  have "unit_of_work (auth_refresh cr (settings.truncate s) e' raw) w' = (Inl refresh_invalid, w')"
  proof (cases "unit_of_work (auth_refresh cr (settings.truncate s) e' raw) w'")
    case (Pair r w2)
    with refused_refresh_stays[OF Pair] f show ?thesis by simp
  qed
  with forged own lo show ?thesis
    by (simp add: refresh_route_def logout_route_def answer_def clear_refresh_cookie_def set_refresh_cookie_def)
qed

theorem cookie_routes_guarded_witness:
  "logout_route demo_crypto demo_production (demo_env 50) (demo_request [(''origin'', ''http://evil.example'')] [(''oneai_refresh'', ''raw'')]) None
     (demo_world demo_db demo_open_limiter)
   = (Inl (CrossSiteRequestRejectedError ''Cross-site request to a cookie-authenticated endpoint.''), demo_world demo_db demo_open_limiter)"
proof -
  let ?forged = "demo_request [(''origin'', ''http://evil.example'')] [(''oneai_refresh'', ''raw'')]"
  let ?own = "demo_request [(''sec-fetch-site'', ''same-origin'')] [(''oneai_refresh'', ''raw'')]"
  have "''http://evil.example'' \<notin> set (cors_origins demo_production)" by (simp add: demo_production_def default_settings_def)
  moreover have "rq_header ?forged ''origin'' = Some ''http://evil.example''"
    "rq_header ?forged ''sec-fetch-site'' = None \<or> rq_header ?forged ''sec-fetch-site'' = Some ''cross-site''"
    "rq_header ?own ''sec-fetch-site'' = Some ''same-origin''" "rq_cookie ?own (refresh_cookie_name demo_production) = Some ''raw''" "''raw'' \<noteq> []"
    by (simp_all add: demo_request_def demo_production_def default_settings_def)
  ultimately show ?thesis using cookie_routes_guarded by blast
qed

end
