(* ===== verification/Api_Routes.thy ===== *)
theory Api_Routes
  imports Org_Support App_Settings
begin

text \<open>
  The management API of the identity domain: the request models with their validators (\<open>identity/schemas\<close>), the routes of users,
  platform and support access (\<open>identity/routes\<close>) with the dependencies that guard them (\<open>identity/dependencies.py\<close>), on top of the services. FastAPI
  resolves the dependencies of a route first and validates its body afterwards, so a refused caller gets 401 or 403 whatever the
  body. \<open>email_str\<close> is the address validator of pydantic. Shown: no request gets past its guard, and whatever an administrator of a
  company sends, no other company's rows change or appear in the answer.
\<close>

section \<open>Request models\<close>

definition BCRYPT_MAX_PASSWORD_BYTES :: nat where
  "BCRYPT_MAX_PASSWORD_BYTES = 72"

definition within_bcrypt_byte_limit :: "string \<Rightarrow> bool" where
  "within_bcrypt_byte_limit s \<longleftrightarrow> utf8_length s \<le> BCRYPT_MAX_PASSWORD_BYTES"

definition bcrypt_password :: "string \<Rightarrow> bool" where
  "bcrypt_password s \<longleftrightarrow> 8 \<le> length s \<and> length s \<le> 128 \<and> within_bcrypt_byte_limit s"

definition login_password :: "string \<Rightarrow> bool" where
  "login_password s \<longleftrightarrow> 1 \<le> length s \<and> length s \<le> 128 \<and> within_bcrypt_byte_limit s"

definition normalized_email :: "(string \<Rightarrow> string option) \<Rightarrow> string \<Rightarrow> string option" where
  "normalized_email email_str s = map_option py_lower (email_str s)"

definition reject_control_chars :: "string \<Rightarrow> bool" where
  "reject_control_chars s \<longleftrightarrow> list_all (\<lambda>c. 32 \<le> (of_char c :: nat) \<and> of_char c \<noteq> (127 :: nat)) s"

definition safe_name :: "string \<Rightarrow> bool" where
  "safe_name s \<longleftrightarrow> 1 \<le> length s \<and> length s \<le> 200 \<and> reject_control_chars s"

definition slug_char :: "char \<Rightarrow> bool" where
  "slug_char c \<longleftrightarrow> c \<in> set ''abcdefghijklmnopqrstuvwxyz0123456789''"

definition org_slug_ok :: "string \<Rightarrow> bool" where
  "org_slug_ok s \<longleftrightarrow> length s \<le> 100 \<and> (case s of [] \<Rightarrow> False | c # r \<Rightarrow> slug_char c \<and> list_all (\<lambda>x. slug_char x \<or> x = CHR ''-'') r)"

definition valid_user_create :: "(string \<Rightarrow> string option) \<Rightarrow> user_create_request \<Rightarrow> user_create_request option" where
  "valid_user_create email_str q =
     (case normalized_email email_str (uc_email q) of
        None \<Rightarrow> None
      | Some em \<Rightarrow> if safe_name (uc_full_name q) \<and> bcrypt_password (uc_password q) then Some (q\<lparr>uc_email := em\<rparr>) else None)"

definition valid_user_update :: "user_update_request \<Rightarrow> user_update_request option" where
  "valid_user_update q = (if (case uu_full_name q of None \<Rightarrow> True | Some n \<Rightarrow> safe_name n) then Some q else None)"

definition valid_organization_create :: "(string \<Rightarrow> string option) \<Rightarrow> organization_create_request \<Rightarrow> organization_create_request option" where
  "valid_organization_create email_str q =
     (case normalized_email email_str (oc_admin_email q) of
        None \<Rightarrow> None
      | Some em \<Rightarrow>
          if safe_name (oc_org_name q) \<and> org_slug_ok (oc_org_slug q) \<and> safe_name (oc_admin_full_name q) \<and> bcrypt_password (oc_admin_password q)
          then Some (q\<lparr>oc_admin_email := em\<rparr>) else None)"

definition valid_support_reason :: "string \<Rightarrow> bool" where
  "valid_support_reason s \<longleftrightarrow> 1 \<le> length s \<and> length s \<le> 500"

definition valid_refresh_token :: "string \<Rightarrow> bool" where
  "valid_refresh_token s \<longleftrightarrow> 1 \<le> length s \<and> length s \<le> 512"

definition MAX_AUDIT_PAGE_SIZE :: int where
  "MAX_AUDIT_PAGE_SIZE = 200"

definition valid_page :: "int \<Rightarrow> int \<Rightarrow> bool" where
  "valid_page limit offset \<longleftrightarrow> 1 \<le> limit \<and> limit \<le> MAX_AUDIT_PAGE_SIZE \<and> 0 \<le> offset"

section \<open>Response models\<close>

text \<open>What leaves the server of a user, an administrator and a grant: no password hash.\<close>

record user_response =
  ur_id :: uuid
  ur_email :: string
  ur_full_name :: string
  ur_role :: user_role
  ur_is_active :: bool
  ur_org_id :: uuid
  ur_created_at :: datetime

definition user_response_of :: "user \<Rightarrow> user_response" where
  "user_response_of u = \<lparr>ur_id = u_id u, ur_email = u_email u, ur_full_name = u_full_name u, ur_role = u_role u,
     ur_is_active = u_is_active u, ur_org_id = u_org_id u, ur_created_at = u_created_at u\<rparr>"

record platform_admin_response =
  pr_id :: uuid
  pr_email :: string
  pr_full_name :: string

definition platform_admin_response_of :: "platform_admin \<Rightarrow> platform_admin_response" where
  "platform_admin_response_of a = \<lparr>pr_id = pa_id a, pr_email = pa_email a, pr_full_name = pa_full_name a\<rparr>"

record support_grant_response =
  gr_id :: uuid
  gr_org_id :: uuid
  gr_requested_by_admin_id :: uuid
  gr_requested_by_email :: "string option"
  gr_reason :: string
  gr_status :: string
  gr_is_active :: bool
  gr_decided_at :: "datetime option"
  gr_decided_by_email :: "string option"
  gr_expires_at :: "datetime option"
  gr_created_at :: datetime

definition support_grant_response_of :: "support_grant \<times> bool \<Rightarrow> support_grant_response" where
  "support_grant_response_of x = (case x of (g, active) \<Rightarrow>
     \<lparr>gr_id = sg_id g, gr_org_id = sg_org_id g, gr_requested_by_admin_id = sg_requested_by_admin_id g,
      gr_requested_by_email = sg_requested_by_email g, gr_reason = sg_reason g,
      gr_status = support_grant_status_value (sg_status g), gr_is_active = active, gr_decided_at = sg_decided_at g,
      gr_decided_by_email = sg_decided_by_email g, gr_expires_at = sg_expires_at g, gr_created_at = sg_created_at g\<rparr>)"

section \<open>The guards\<close>

datatype api_error = Raised identity_error | Unprocessable

definition api_status :: "api_error \<Rightarrow> nat" where
  "api_status err = (case err of Raised x \<Rightarrow> http_status x | Unprocessable \<Rightarrow> 422)"

type_synonym 'a api_handler = "world \<Rightarrow> (api_error + 'a) \<times> world"

definition served :: "('a \<Rightarrow> 'b) \<Rightarrow> 'a handler \<Rightarrow> 'b api_handler" where
  "served view op w = (case unit_of_work op w of (r, w') \<Rightarrow> (map_sum Raised view r, w'))"

text \<open>A read of the service: it returns or raises and leaves the state alone.\<close>

definition read_only :: "(world \<Rightarrow> identity_error + 'a) \<Rightarrow> 'a handler" where
  "read_only f w = (f w, w)"

text \<open>\<open>Depends(require_company_admin)\<close> with the service's session from \<open>get_tenant_session\<close>; \<open>Depends(get_current_platform_admin)\<close>.\<close>

definition company_admin_route ::
  "'tok crypto \<Rightarrow> settings \<Rightarrow> env \<Rightarrow> 'tok option \<Rightarrow> (principal \<Rightarrow> db_session \<Rightarrow> uuid \<Rightarrow> 'a api_handler) \<Rightarrow> 'a api_handler" where
  "company_admin_route cr st e credentials op w =
     (let caller = get_current_principal cr st e (w_denylist w) credentials
      in case require_company_admin caller of
           Inl err \<Rightarrow> (Inl (Raised err), w)
         | Inr p \<Rightarrow>
           (case get_tenant_session caller of
              Inl err \<Rightarrow> (Inl (Raised err), w)
            | Inr sn \<Rightarrow> op p sn (the (p_org_id p)) w))"

definition platform_admin_route ::
  "'tok crypto \<Rightarrow> settings \<Rightarrow> env \<Rightarrow> 'tok option \<Rightarrow> (principal \<Rightarrow> 'a api_handler) \<Rightarrow> 'a api_handler" where
  "platform_admin_route cr st e credentials op w =
     (case get_current_platform_admin cr st e (w_denylist w) credentials of
        Inl err \<Rightarrow> (Inl (Raised err), w)
      | Inr p \<Rightarrow> op p w)"

definition validated :: "'q option \<Rightarrow> ('q \<Rightarrow> 'a api_handler) \<Rightarrow> 'a api_handler" where
  "validated q op w = (case q of None \<Rightarrow> (Inl Unprocessable, w) | Some x \<Rightarrow> op x w)"

abbreviation accepted :: "bool \<Rightarrow> unit option" where
  "accepted b \<equiv> (if b then Some () else None)"

section \<open>Users\<close>

definition list_users_route :: "'tok crypto \<Rightarrow> settings \<Rightarrow> env \<Rightarrow> 'tok option \<Rightarrow> user_response list api_handler" where
  "list_users_route cr st e credentials = company_admin_route cr st e credentials (\<lambda>p sn org_id.
     served (map user_response_of) (read_only (\<lambda>w. Inr (list_users sn (w_db w) org_id))))"

definition create_user_route ::
  "'tok crypto \<Rightarrow> settings \<Rightarrow> env \<Rightarrow> (string \<Rightarrow> string option) \<Rightarrow> 'tok option \<Rightarrow> user_create_request \<Rightarrow> user_response api_handler" where
  "create_user_route cr st e email_str credentials q = company_admin_route cr st e credentials (\<lambda>p sn org_id.
     validated (valid_user_create email_str q) (\<lambda>payload. served user_response_of (create_user cr e sn org_id payload p)))"

definition update_user_route ::
  "'tok crypto \<Rightarrow> settings \<Rightarrow> env \<Rightarrow> 'tok option \<Rightarrow> uuid \<Rightarrow> user_update_request \<Rightarrow> user_response api_handler" where
  "update_user_route cr st e credentials user_id q = company_admin_route cr st e credentials (\<lambda>p sn org_id.
     validated (valid_user_update q) (\<lambda>payload. served user_response_of (update_user e sn org_id user_id payload p)))"

definition deactivate_user_route :: "'tok crypto \<Rightarrow> settings \<Rightarrow> env \<Rightarrow> 'tok option \<Rightarrow> uuid \<Rightarrow> unit api_handler" where
  "deactivate_user_route cr st e credentials user_id = company_admin_route cr st e credentials (\<lambda>p sn org_id.
     served id (deactivate_user e sn org_id user_id p))"

section \<open>The platform\<close>

text \<open>The public routes: the platform keeps its refresh token in the body.\<close>

definition platform_login_route ::
  "'tok crypto \<Rightarrow> settings \<Rightarrow> env \<Rightarrow> (string \<Rightarrow> string option) \<Rightarrow> http_request \<Rightarrow> string \<Rightarrow> string \<Rightarrow> 'tok token_body api_handler" where
  "platform_login_route cr st e email_str req email password =
     validated (if login_password password then normalized_email email_str email else None) (\<lambda>em.
       served (\<lambda>(access, refresh). \<lparr>tb_access_token = access, tb_refresh_token = Some refresh, tb_user = None\<rparr>)
         (platform_login cr st e em password (client_ip_from_request req)))"

definition platform_refresh_route :: "'tok crypto \<Rightarrow> settings \<Rightarrow> env \<Rightarrow> string \<Rightarrow> 'tok token_body api_handler" where
  "platform_refresh_route cr st e token = validated (accepted (valid_refresh_token token)) (\<lambda>_.
     served (\<lambda>(access, refresh). \<lparr>tb_access_token = access, tb_refresh_token = Some refresh, tb_user = None\<rparr>) (platform_refresh cr st e token))"

definition platform_logout_route :: "'tok crypto \<Rightarrow> settings \<Rightarrow> env \<Rightarrow> string \<Rightarrow> unit api_handler" where
  "platform_logout_route cr st e token = validated (accepted (valid_refresh_token token)) (\<lambda>_. served id (logout cr e actor_platform_admin token))"

definition read_current_platform_admin :: "'tok crypto \<Rightarrow> settings \<Rightarrow> env \<Rightarrow> 'tok option \<Rightarrow> platform_admin_response api_handler" where
  "read_current_platform_admin cr st e credentials = platform_admin_route cr st e credentials (\<lambda>p.
     served platform_admin_response_of (read_only (\<lambda>w. build_admin_view_by_id (w_db w) (p_subject_id p))))"

definition onboard_organization_route ::
  "'tok crypto \<Rightarrow> settings \<Rightarrow> env \<Rightarrow> (string \<Rightarrow> string option) \<Rightarrow> 'tok option \<Rightarrow> organization_create_request
    \<Rightarrow> (organization_response \<times> user_response) api_handler" where
  "onboard_organization_route cr st e email_str credentials q = platform_admin_route cr st e credentials (\<lambda>p.
     validated (valid_organization_create email_str q) (\<lambda>payload.
       served (map_prod id user_response_of) (onboard_organization cr e payload p)))"

definition list_organizations_route :: "'tok crypto \<Rightarrow> settings \<Rightarrow> env \<Rightarrow> 'tok option \<Rightarrow> organization_response list api_handler" where
  "list_organizations_route cr st e credentials = platform_admin_route cr st e credentials (\<lambda>p.
     served id (read_only (\<lambda>w. Inr (list_organizations (w_db w)))))"

definition get_organization_detail :: "'tok crypto \<Rightarrow> settings \<Rightarrow> env \<Rightarrow> 'tok option \<Rightarrow> uuid \<Rightarrow> organization_detail api_handler" where
  "get_organization_detail cr st e credentials org_id = platform_admin_route cr st e credentials (\<lambda>p.
     served id (read_only (\<lambda>w. get_detail (w_db w) org_id)))"

definition update_organization_status ::
  "'tok crypto \<Rightarrow> settings \<Rightarrow> env \<Rightarrow> 'tok option \<Rightarrow> uuid \<Rightarrow> organization_status \<Rightarrow> organization_detail api_handler" where
  "update_organization_status cr st e credentials org_id status = platform_admin_route cr st e credentials (\<lambda>p.
     served id (set_status e org_id status p))"

definition update_organization_legal_hold ::
  "'tok crypto \<Rightarrow> settings \<Rightarrow> env \<Rightarrow> 'tok option \<Rightarrow> uuid \<Rightarrow> bool \<Rightarrow> organization_detail api_handler" where
  "update_organization_legal_hold cr st e credentials org_id legal_hold = platform_admin_route cr st e credentials (\<lambda>p.
     served id (set_legal_hold e org_id legal_hold p))"

definition get_organization_audit ::
  "'tok crypto \<Rightarrow> settings \<Rightarrow> env \<Rightarrow> 'tok option \<Rightarrow> uuid \<Rightarrow> int \<Rightarrow> int \<Rightarrow> audit_row list api_handler" where
  "get_organization_audit cr st e credentials org_id limit offset = platform_admin_route cr st e credentials (\<lambda>p.
     validated (accepted (valid_page limit offset)) (\<lambda>_.
       served id (read_only (\<lambda>w. Inr (list_for_org w org_id (nat limit) (nat offset))))))"

definition get_global_audit ::
  "'tok crypto \<Rightarrow> settings \<Rightarrow> env \<Rightarrow> 'tok option \<Rightarrow> string option \<Rightarrow> uuid option \<Rightarrow> int \<Rightarrow> int \<Rightarrow> audit_row list api_handler" where
  "get_global_audit cr st e credentials action org_id limit offset = platform_admin_route cr st e credentials (\<lambda>p.
     validated (accepted (valid_page limit offset \<and> (case action of None \<Rightarrow> True | Some a \<Rightarrow> length a \<le> 64))) (\<lambda>_.
       served id (read_only (\<lambda>w. Inr (list_global w action org_id (nat limit) (nat offset))))))"

section \<open>Support access\<close>

definition request_support_access ::
  "'tok crypto \<Rightarrow> settings \<Rightarrow> env \<Rightarrow> 'tok option \<Rightarrow> uuid \<Rightarrow> string \<Rightarrow> support_grant_response api_handler" where
  "request_support_access cr st e credentials org_id reason = platform_admin_route cr st e credentials (\<lambda>p.
     validated (accepted (valid_support_reason reason)) (\<lambda>_. served support_grant_response_of (request_access e org_id reason p)))"

definition list_my_support_requests :: "'tok crypto \<Rightarrow> settings \<Rightarrow> env \<Rightarrow> 'tok option \<Rightarrow> support_grant_response list api_handler" where
  "list_my_support_requests cr st e credentials = platform_admin_route cr st e credentials (\<lambda>p.
     served (map support_grant_response_of) (read_only (\<lambda>w. Inr (list_my_requests e (w_db w) p))))"

definition revoke_my_support_request :: "'tok crypto \<Rightarrow> settings \<Rightarrow> env \<Rightarrow> 'tok option \<Rightarrow> uuid \<Rightarrow> support_grant_response api_handler" where
  "revoke_my_support_request cr st e credentials grant_id = platform_admin_route cr st e credentials (\<lambda>p.
     served support_grant_response_of (platform_revoke e grant_id p))"

definition list_org_support_requests :: "'tok crypto \<Rightarrow> settings \<Rightarrow> env \<Rightarrow> 'tok option \<Rightarrow> support_grant_response list api_handler" where
  "list_org_support_requests cr st e credentials = company_admin_route cr st e credentials (\<lambda>p sn org_id.
     served (map support_grant_response_of) (read_only (\<lambda>w. Inr (list_grants_for_org e sn (w_db w) org_id))))"

definition approve_support_request :: "'tok crypto \<Rightarrow> settings \<Rightarrow> env \<Rightarrow> 'tok option \<Rightarrow> uuid \<Rightarrow> support_grant_response api_handler" where
  "approve_support_request cr st e credentials grant_id = company_admin_route cr st e credentials (\<lambda>p sn org_id.
     served support_grant_response_of (approve e sn grant_id org_id p))"

definition deny_support_request :: "'tok crypto \<Rightarrow> settings \<Rightarrow> env \<Rightarrow> 'tok option \<Rightarrow> uuid \<Rightarrow> support_grant_response api_handler" where
  "deny_support_request cr st e credentials grant_id = company_admin_route cr st e credentials (\<lambda>p sn org_id.
     served support_grant_response_of (deny e sn grant_id org_id p))"

definition revoke_support_request :: "'tok crypto \<Rightarrow> settings \<Rightarrow> env \<Rightarrow> 'tok option \<Rightarrow> uuid \<Rightarrow> support_grant_response api_handler" where
  "revoke_support_request cr st e credentials grant_id = company_admin_route cr st e credentials (\<lambda>p sn org_id.
     served support_grant_response_of (company_revoke e sn grant_id org_id p))"

section \<open>The router\<close>

datatype company_request =
    List_users
  | Create_user user_create_request
  | Update_user uuid user_update_request
  | Deactivate_user uuid
  | List_org_support_requests
  | Approve_support_request uuid
  | Deny_support_request uuid
  | Revoke_support_request uuid

datatype platform_request =
    Read_current_platform_admin
  | Onboard_organization organization_create_request
  | List_organizations
  | Get_organization_detail uuid
  | Update_organization_status uuid organization_status
  | Update_organization_legal_hold uuid bool
  | Get_organization_audit uuid int int
  | Get_global_audit "string option" "uuid option" int int
  | Request_support_access uuid string
  | List_my_support_requests
  | Revoke_my_support_request uuid

datatype answer =
    Users_answer "user_response list"
  | User_answer user_response
  | Grants_answer "support_grant_response list"
  | Grant_answer support_grant_response
  | Admin_answer platform_admin_response
  | Onboarded_answer "organization_response \<times> user_response"
  | Organizations_answer "organization_response list"
  | Organization_answer organization_detail
  | Audit_answer "audit_row list"
  | No_content

definition answering :: "('a \<Rightarrow> answer) \<Rightarrow> 'a api_handler \<Rightarrow> answer api_handler" where
  "answering f h w = map_prod (map_sum id f) id (h w)"

fun serve_company ::
  "'tok crypto \<Rightarrow> settings \<Rightarrow> env \<Rightarrow> (string \<Rightarrow> string option) \<Rightarrow> 'tok option \<Rightarrow> company_request \<Rightarrow> answer api_handler" where
  "serve_company cr st e email_str c List_users = answering Users_answer (list_users_route cr st e c)"
| "serve_company cr st e email_str c (Create_user q) = answering User_answer (create_user_route cr st e email_str c q)"
| "serve_company cr st e email_str c (Update_user i q) = answering User_answer (update_user_route cr st e c i q)"
| "serve_company cr st e email_str c (Deactivate_user i) = answering (\<lambda>_. No_content) (deactivate_user_route cr st e c i)"
| "serve_company cr st e email_str c List_org_support_requests = answering Grants_answer (list_org_support_requests cr st e c)"
| "serve_company cr st e email_str c (Approve_support_request i) = answering Grant_answer (approve_support_request cr st e c i)"
| "serve_company cr st e email_str c (Deny_support_request i) = answering Grant_answer (deny_support_request cr st e c i)"
| "serve_company cr st e email_str c (Revoke_support_request i) = answering Grant_answer (revoke_support_request cr st e c i)"

fun serve_platform ::
  "'tok crypto \<Rightarrow> settings \<Rightarrow> env \<Rightarrow> (string \<Rightarrow> string option) \<Rightarrow> 'tok option \<Rightarrow> platform_request \<Rightarrow> answer api_handler" where
  "serve_platform cr st e email_str c Read_current_platform_admin = answering Admin_answer (read_current_platform_admin cr st e c)"
| "serve_platform cr st e email_str c (Onboard_organization q) = answering Onboarded_answer (onboard_organization_route cr st e email_str c q)"
| "serve_platform cr st e email_str c List_organizations = answering Organizations_answer (list_organizations_route cr st e c)"
| "serve_platform cr st e email_str c (Get_organization_detail i) = answering Organization_answer (get_organization_detail cr st e c i)"
| "serve_platform cr st e email_str c (Update_organization_status i x) = answering Organization_answer (update_organization_status cr st e c i x)"
| "serve_platform cr st e email_str c (Update_organization_legal_hold i b) = answering Organization_answer (update_organization_legal_hold cr st e c i b)"
| "serve_platform cr st e email_str c (Get_organization_audit i l k) = answering Audit_answer (get_organization_audit cr st e c i l k)"
| "serve_platform cr st e email_str c (Get_global_audit a i l k) = answering Audit_answer (get_global_audit cr st e c a i l k)"
| "serve_platform cr st e email_str c (Request_support_access i t) = answering Grant_answer (request_support_access cr st e c i t)"
| "serve_platform cr st e email_str c List_my_support_requests = answering Grants_answer (list_my_support_requests cr st e c)"
| "serve_platform cr st e email_str c (Revoke_my_support_request i) = answering Grant_answer (revoke_my_support_request cr st e c i)"

section \<open>Nothing gets past a guard\<close>

lemma authenticate_status: "authenticate cr st e dl aud stype c = Inl err \<Longrightarrow> http_status err = 401"
  by (auto simp: authenticate_def decode_access_token_def reject_if_revoked_def principal_from_claims_def
      split: option.splits sum.splits if_splits jwt_failure.splits)

lemmas guard_status = authenticate_status[of _ _ _ _ COMPANY_AUDIENCE subject_user, folded get_current_principal_def]
  authenticate_status[of _ _ _ _ PLATFORM_AUDIENCE subject_platform_admin, folded get_current_platform_admin_def]

definition company_caller :: "'tok crypto \<Rightarrow> settings \<Rightarrow> env \<Rightarrow> world \<Rightarrow> 'tok option \<Rightarrow> principal \<Rightarrow> uuid \<Rightarrow> bool" where
  "company_caller cr st e w c p g \<longleftrightarrow> get_current_principal cr st e (w_denylist w) c = Inr p
     \<and> p_role p = role_value company_admin \<and> p_org_id p = Some g"

lemma company_admin_route_cases:
  obtains err where "company_admin_route cr st e c op w = (Inl (Raised err), w)" "http_status err \<in> {401, 403}"
      "\<And>p g. \<not> company_caller cr st e w c p g"
  | p g where "company_caller cr st e w c p g" "company_admin_route cr st e c op w = op p (Tenant_Session g) g w"
proof (cases "get_current_principal cr st e (w_denylist w) c")
  case (Inl err)
  then show thesis
    by (intro that(1)[of err]) (auto simp: company_admin_route_def require_company_admin_def company_caller_def guard_status)
next
  case (Inr p)
  show thesis
  proof (cases "p_role p = role_value company_admin \<and> p_org_id p \<noteq> None")
    case True
    then obtain g where "p_org_id p = Some g" by blast
    with Inr True show thesis
      by (intro that(2)[of p g]) (auto simp: company_admin_route_def require_company_admin_def get_tenant_session_def company_caller_def)
  next
    case False
    with Inr show thesis
      by (cases "p_role p = role_value company_admin")
        (auto simp: company_admin_route_def require_company_admin_def get_tenant_session_def company_caller_def intro!: that(1))
  qed
qed

lemma platform_admin_route_cases:
  obtains err where "platform_admin_route cr st e c op w = (Inl (Raised err), w)" "http_status err = 401"
      "\<And>p. get_current_platform_admin cr st e (w_denylist w) c \<noteq> Inr p"
  | p where "get_current_platform_admin cr st e (w_denylist w) c = Inr p" "platform_admin_route cr st e c op w = op p w"
  by (cases "get_current_platform_admin cr st e (w_denylist w) c") (auto simp: platform_admin_route_def guard_status)

lemmas company_routes = list_users_route_def create_user_route_def update_user_route_def deactivate_user_route_def
  list_org_support_requests_def approve_support_request_def deny_support_request_def revoke_support_request_def

lemmas platform_routes = read_current_platform_admin_def onboard_organization_route_def list_organizations_route_def
  get_organization_detail_def update_organization_status_def update_organization_legal_hold_def get_organization_audit_def
  get_global_audit_def request_support_access_def list_my_support_requests_def revoke_my_support_request_def

lemma guarded_company:
  "(\<exists>p g. company_caller cr st e w c p g)
   \<or> (\<exists>err. answering f (company_admin_route cr st e c op) w = (Inl err, w) \<and> api_status err \<in> {401, 403})"
  by (rule company_admin_route_cases[of cr st e c op w]) (auto simp: answering_def api_status_def)

lemma guarded_platform:
  "(\<exists>p. get_current_platform_admin cr st e (w_denylist w) c = Inr p)
   \<or> (\<exists>err. answering f (platform_admin_route cr st e c op) w = (Inl err, w) \<and> api_status err = 401)"
  by (rule platform_admin_route_cases[of cr st e c op w]) (auto simp: answering_def api_status_def)

lemma serve_company_guarded:
  "(\<exists>p g. company_caller cr st e w c p g)
   \<or> (\<exists>err. serve_company cr st e email_str c q w = (Inl err, w) \<and> api_status err \<in> {401, 403})"
  by (cases q; simp only: serve_company.simps company_routes; rule guarded_company)

lemma serve_platform_guarded:
  "(\<exists>p. get_current_platform_admin cr st e (w_denylist w) c = Inr p)
   \<or> (\<exists>err. serve_platform cr st e email_str c q w = (Inl err, w) \<and> api_status err = 401)"
  by (cases q; simp only: serve_platform.simps platform_routes; rule guarded_platform)


section \<open>Tenants are isolated\<close>

text \<open>\<open>tenant_confined g\<close>: nothing but rows of \<open>g\<close> changed, and what was appended to the trail is about \<open>g\<close>.\<close>

definition tenant_confined :: "uuid \<Rightarrow> world \<Rightarrow> world \<Rightarrow> bool" where
  "tenant_confined g w w' \<longleftrightarrow>
     organizations (w_db w') = organizations (w_db w) \<and> platform_admins (w_db w') = platform_admins (w_db w)
     \<and> refresh_tokens (w_db w') = refresh_tokens (w_db w)
     \<and> filter (\<lambda>u. u_org_id u \<noteq> g) (users (w_db w')) = filter (\<lambda>u. u_org_id u \<noteq> g) (users (w_db w))
     \<and> filter (\<lambda>x. sg_org_id x \<noteq> g) (support_grants (w_db w')) = filter (\<lambda>x. sg_org_id x \<noteq> g) (support_grants (w_db w))
     \<and> (\<exists>rows. audit_log (w_db w') = audit_log (w_db w) @ rows \<and> (\<forall>r \<in> set rows. al_org_id r = Some g))
     \<and> w_independent w' = w_independent w \<and> w_limiter w' = w_limiter w"

lemma tenant_confined_refl [simp]: "tenant_confined g w w"
  by (simp add: tenant_confined_def)

text \<open>What a company route needs of the service it calls: it is confined, and answers with rows of the caller's organization.\<close>

locale tenant_handler =
  fixes op :: "'a handler" and g :: uuid and own :: "'a \<Rightarrow> bool"
  assumes confined: "identity_wf (w_db w) \<Longrightarrow> op w = (r, w') \<Longrightarrow> tenant_confined g w w'"
    and answers_own: "identity_wf (w_db w) \<Longrightarrow> op w = (Inr a, w') \<Longrightarrow> own a"
begin

lemma served_confined:
  assumes "identity_wf (w_db w)" and "served view op w = (r, w')"
  shows "tenant_confined g w w'" and "r = Inr b \<Longrightarrow> \<exists>a. b = view a \<and> own a"
proof -
  obtain r1 w1 where op: "op w = (r1, w1)" by fastforce
  note c = confined[OF assms(1) op]
  show "tenant_confined g w w'"
    using assms(2) op c by (cases r1) (auto simp: served_def unit_of_work_def tenant_confined_def)
  show "r = Inr b \<Longrightarrow> \<exists>a. b = view a \<and> own a"
    using assms op answers_own[OF assms(1)] by (cases r1) (auto simp: served_def unit_of_work_def)
qed

end

lemma filter_update_other:
  assumes "distinct (map k xs)" and "y \<in> set xs" and "k y' = k y" and "h y = g" and "h y' = g"
  shows "filter (\<lambda>x. h x \<noteq> g) (update_where (\<lambda>x. k x = k y') (\<lambda>_. y') xs) = filter (\<lambda>x. h x \<noteq> g) xs"
proof -
  have "h x = g" if "x \<in> set xs" "k x = k y" for x
    using assms(1,2,4) that by (metis distinct_map inj_on_contraD)
  then show ?thesis using assms(3,5) by (induction xs) (auto simp: update_where_def)
qed

lemma users_save_confined:
  assumes "identity_wf db" and "users_get_in_org sn db i g = Some u" and "u_id u' = u_id u" and "u_org_id u' = u_org_id u"
  shows "filter (\<lambda>x. u_org_id x \<noteq> g) (users (users_save u' db)) = filter (\<lambda>x. u_org_id x \<noteq> g) (users db)"
  using filter_update_other[of u_id "users db" u u' u_org_id g] get_in_org_member[OF assms(2)] assms
  by (simp add: users_save_def identity_wf_def)

lemma grant_in_org_member:
  "support_grants_get_in_org sn db i g = Some x \<Longrightarrow> x \<in> set (support_grants db) \<and> sg_org_id x = g"
  by (auto simp: support_grants_get_in_org_def dest: select_one_SomeD)

lemma grants_save_confined:
  assumes "identity_wf db" and "support_grants_get_in_org sn db i g = Some x" and "sg_id x' = sg_id x" and "sg_org_id x' = sg_org_id x"
  shows "filter (\<lambda>x. sg_org_id x \<noteq> g) (support_grants (support_grants_save x' db)) = filter (\<lambda>x. sg_org_id x \<noteq> g) (support_grants db)"
  using filter_update_other[of sg_id "support_grants db" x x' sg_org_id g] grant_in_org_member[OF assms(2)] assms
  by (simp add: support_grants_save_def identity_wf_def)

lemmas event_org = managed_user_event_def support_event_def audit_event_of_def

lemma confined_denylist [simp]: "tenant_confined g w (w'\<lparr>w_denylist := d\<rparr>) = tenant_confined g w w'"
  by (simp add: tenant_confined_def)

lemma confined_record: "tenant_confined g w w' \<Longrightarrow> ae_org_id ev = Some g \<Longrightarrow> tenant_confined g w (record_event e n ev w')"
  by (auto simp: tenant_confined_def record_event_def build_row_def audit_insert_def)

lemma confined_user_save:
  assumes "identity_wf (w_db w)" and "users_get_in_org sn (w_db w) i g = Some u" and "u_id u' = u_id u" and "u_org_id u' = u_org_id u"
  shows "tenant_confined g w (w\<lparr>w_db := users_save u' (w_db w)\<rparr>)"
  using users_save_confined[OF assms] by (simp add: tenant_confined_def)

lemma confined_grant_save:
  assumes "identity_wf (w_db w)" and "support_grants_get_in_org sn (w_db w) i g = Some x" and "sg_id x' = sg_id x" and "sg_org_id x' = sg_org_id x"
  shows "tenant_confined g w (w\<lparr>w_db := support_grants_save x' (w_db w)\<rparr>)"
  using grants_save_confined[OF assms] by (simp add: tenant_confined_def support_grants_save_def)

interpretation th_create: tenant_handler "create_user cr e (Tenant_Session g) g payload p" g "\<lambda>u. u_org_id u = g"
  for cr e g payload p
proof
  fix w w' :: world and r a
  have add: "tenant_confined g w (w\<lparr>w_db := db\<rparr>)" if "users_add u (w_db w) = Some db" "u_org_id u = g" for u db
    using that by (auto simp: users_add_def tenant_confined_def split: if_splits)
  show "create_user cr e (Tenant_Session g) g payload p w = (r, w') \<Longrightarrow> tenant_confined g w w'"
    by (auto simp: create_user_def new_user_def Let_def event_org intro!: confined_record add split: if_splits option.splits)
  show "create_user cr e (Tenant_Session g) g payload p w = (Inr a, w') \<Longrightarrow> u_org_id a = g"
    by (auto simp: create_user_def new_user_def Let_def split: if_splits option.splits)
qed

interpretation th_update: tenant_handler "update_user e (Tenant_Session g) g i payload p" g "\<lambda>u. u_org_id u = g"
  for e g i payload p
proof
  fix w w' :: world and r a
  assume wf: "identity_wf (w_db w)"
  show "tenant_confined g w w'" if run: "update_user e (Tenant_Session g) g i payload p w = (r, w')"
  proof (cases "users_get_in_org (Tenant_Session g) (w_db w) i g")
    case (Some u)
    note save = confined_user_save[OF wf Some, of "apply_update payload u"]
    show ?thesis
      using run Some save get_in_org_member(3)[OF Some]
      by (cases "guard_last_admin (Tenant_Session g) (w_db w) g u (uu_role payload) (uu_is_active payload)")
        (auto simp: update_user_def Let_def event_org intro!: confined_record)
  qed (use run in \<open>simp add: update_user_def\<close>)
  show "u_org_id a = g" if "update_user e (Tenant_Session g) g i payload p w = (Inr a, w')"
    using that by (cases rule: update_user_cases) (auto dest: get_in_org_member)
qed

interpretation th_deactivate: tenant_handler "deactivate_user e (Tenant_Session g) g i p" g "\<lambda>_. True"
  for e g i p
proof
  fix w w' :: world and r
  assume wf: "identity_wf (w_db w)" and run: "deactivate_user e (Tenant_Session g) g i p w = (r, w')"
  show "tenant_confined g w w'"
  proof (cases "users_get_in_org (Tenant_Session g) (w_db w) i g")
    case (Some u)
    have save: "tenant_confined g w (w\<lparr>w_db := users_save (u\<lparr>u_is_active := False\<rparr>) (w_db w), w_denylist := d\<rparr>)" for d
      using confined_user_save[OF wf Some, of "u\<lparr>u_is_active := False\<rparr>"] by simp
    show ?thesis
      using run Some save get_in_org_member(3)[OF Some]
      by (cases "guard_last_admin (Tenant_Session g) (w_db w) g u None (Some False)")
        (auto simp: deactivate_user_def Let_def event_org intro!: confined_record)
  qed (use run in \<open>simp add: deactivate_user_def\<close>)
qed simp

text \<open>A decision of the company: a grant of its own is saved, with an event about it.\<close>

lemma decision_confined:
  assumes "identity_wf (w_db w)" and "support_grants_get_in_org sn (w_db w) i g = Some x" and "sg_id x' = sg_id x" and "sg_org_id x' = sg_org_id x"
  shows "tenant_confined g w (record_event e n (support_event act actor_user x' p ds) (w\<lparr>w_db := support_grants_save x' (w_db w)\<rparr>))"
  using confined_grant_save[OF assms] grant_in_org_member[OF assms(2)] assms(4) by (auto simp: event_org intro!: confined_record)

lemma load_requested_member: "load_requested sn db i g = Inr x \<Longrightarrow> support_grants_get_in_org sn db i g = Some x"
  by (auto simp: load_requested_def split: option.splits if_splits)

lemma stamp_keeps [simp]: "sg_id (stamp_decision sn db p t x) = sg_id x" "sg_org_id (stamp_decision sn db p t x) = sg_org_id x"
  by (simp_all add: stamp_decision_def)

interpretation th_approve: tenant_handler "approve e (Tenant_Session g) i g p" g "\<lambda>x. sg_org_id (fst x) = g" for e g i p
proof
  fix w w' :: world and r a
  assume wf: "identity_wf (w_db w)"
  show "approve e (Tenant_Session g) i g p w = (r, w') \<Longrightarrow> tenant_confined g w w'"
    by (auto simp: approve_def Let_def split: sum.splits dest!: load_requested_member intro!: decision_confined[OF wf])
  show "approve e (Tenant_Session g) i g p w = (Inr a, w') \<Longrightarrow> sg_org_id (fst a) = g"
    by (auto simp: approve_def Let_def to_support_response_def split: sum.splits dest!: load_requested_member grant_in_org_member)
qed

interpretation th_deny: tenant_handler "deny e (Tenant_Session g) i g p" g "\<lambda>x. sg_org_id (fst x) = g" for e g i p
proof
  fix w w' :: world and r a
  assume wf: "identity_wf (w_db w)"
  show "deny e (Tenant_Session g) i g p w = (r, w') \<Longrightarrow> tenant_confined g w w'"
    by (auto simp: deny_def Let_def split: sum.splits dest!: load_requested_member intro!: decision_confined[OF wf])
  show "deny e (Tenant_Session g) i g p w = (Inr a, w') \<Longrightarrow> sg_org_id (fst a) = g"
    by (auto simp: deny_def Let_def to_support_response_def split: sum.splits dest!: load_requested_member grant_in_org_member)
qed

interpretation th_revoke: tenant_handler "company_revoke e (Tenant_Session g) i g p" g "\<lambda>x. sg_org_id (fst x) = g" for e g i p
proof
  fix w w' :: world and r a
  assume wf: "identity_wf (w_db w)"
  show "company_revoke e (Tenant_Session g) i g p w = (r, w') \<Longrightarrow> tenant_confined g w w'"
    by (auto simp: company_revoke_def Let_def split: option.splits if_splits intro!: decision_confined[OF wf])
  show "company_revoke e (Tenant_Session g) i g p w = (Inr a, w') \<Longrightarrow> sg_org_id (fst a) = g"
    by (auto simp: company_revoke_def Let_def to_support_response_def split: option.splits if_splits dest!: grant_in_org_member)
qed

interpretation th_list_users: tenant_handler "read_only (\<lambda>w. Inr (list_users (Tenant_Session g) (w_db w) g))" g "\<lambda>us. \<forall>u \<in> set us. u_org_id u = g"
  for g
  by unfold_locales (auto simp: read_only_def list_users_def users_list_by_org_def select_where_def)

interpretation th_list_grants: tenant_handler "read_only (\<lambda>w. Inr (list_grants_for_org e (Tenant_Session g) (w_db w) g))" g
  "\<lambda>xs. \<forall>x \<in> set xs. sg_org_id (fst x) = g" for e g
  by unfold_locales (auto simp: read_only_def list_grants_for_org_def support_grants_list_for_org_def select_where_def to_support_response_def)

text \<open>\<open>answer_within g\<close>: every row in the answer is one of organization \<open>g\<close>.\<close>

fun answer_within :: "uuid \<Rightarrow> answer \<Rightarrow> bool" where
  "answer_within g (Users_answer us) = (\<forall>u \<in> set us. ur_org_id u = g)"
| "answer_within g (User_answer u) = (ur_org_id u = g)"
| "answer_within g (Grants_answer xs) = (\<forall>x \<in> set xs. gr_org_id x = g)"
| "answer_within g (Grant_answer x) = (gr_org_id x = g)"
| "answer_within g No_content = True"
| "answer_within g _ = False"

definition isolated :: "uuid \<Rightarrow> world \<Rightarrow> (api_error + answer) \<times> world \<Rightarrow> bool" where
  "isolated g w out \<longleftrightarrow> tenant_confined g w (snd out) \<and> (\<forall>a. fst out = Inr a \<longrightarrow> answer_within g a)"

lemma caller_runs: "company_caller cr st e w c p g \<Longrightarrow> company_admin_route cr st e c op w = op p (Tenant_Session g) g w"
  by (auto simp: company_admin_route_def company_caller_def require_company_admin_def get_tenant_session_def)

lemma org_of_response [simp]: "ur_org_id (user_response_of u) = u_org_id u" "gr_org_id (support_grant_response_of x) = sg_org_id (fst x)"
  by (simp_all add: user_response_of_def support_grant_response_of_def split: prod.splits)

context tenant_handler
begin

lemma served_isolated:
  assumes "identity_wf (w_db w)" and "company_caller cr st e w c p g" and "op' p (Tenant_Session g) g = served view op"
    and "\<And>a. own a \<Longrightarrow> answer_within g (f (view a))"
  shows "isolated g w (answering f (company_admin_route cr st e c op') w)"
proof -
  obtain r w' where s: "served view op w = (r, w')" by fastforce
  from served_confined[OF assms(1) s] assms(3,4) s show ?thesis
    by (cases r) (auto simp: isolated_def answering_def caller_runs[OF assms(2)])
qed

lemma validated_isolated:
  assumes "identity_wf (w_db w)" and "company_caller cr st e w c p g" and "op' p (Tenant_Session g) g = validated (Some q) (\<lambda>_. served view op)"
    and "\<And>a. own a \<Longrightarrow> answer_within g (f (view a))"
  shows "isolated g w (answering f (company_admin_route cr st e c op') w)"
  using served_isolated[OF assms(1,2), of op' view f] assms(3,4) by (simp add: validated_def fun_eq_iff)

end

lemma invalid_isolated:
  assumes "company_caller cr st e w c p g" and "op' p (Tenant_Session g) g = validated None op"
  shows "isolated g w (answering f (company_admin_route cr st e c op') w)"
  by (simp add: isolated_def answering_def caller_runs[OF assms(1)] assms(2) validated_def)

text \<open>
  C9: Tenants are isolated. Whatever request the administrator of a company sends, and whatever identifiers it carries, no user and no
  support grant of another company changes, no organization, platform administrator or refresh token does, only events about the own
  company are appended to the trail, and every user and grant in the answer belongs to the own company.
\<close>

theorem tenant_isolation:
  assumes "identity_wf (w_db w)" and "company_caller cr st e w c p g" and "serve_company cr st e email_str c q w = (r, w')"
  shows "tenant_confined g w w' \<and> (\<forall>a. r = Inr a \<longrightarrow> answer_within g a)"
proof -
  have "isolated g w (serve_company cr st e email_str c q w)"
  proof (cases q)
    case (Create_user x)
    show ?thesis
    proof (cases "valid_user_create email_str x")
      case None
      then show ?thesis unfolding Create_user serve_company.simps company_routes by (intro invalid_isolated[OF assms(2)]) simp
    next
      case (Some y)
      then show ?thesis unfolding Create_user serve_company.simps company_routes
        by (intro th_create.validated_isolated[OF assms(1,2)]) (auto simp: validated_def fun_eq_iff)
    qed
  next
    case (Update_user i x)
    show ?thesis
    proof (cases "valid_user_update x")
      case None
      then show ?thesis unfolding Update_user serve_company.simps company_routes by (intro invalid_isolated[OF assms(2)]) simp
    next
      case (Some y)
      then show ?thesis unfolding Update_user serve_company.simps company_routes
        by (intro th_update.validated_isolated[OF assms(1,2)]) (auto simp: validated_def fun_eq_iff)
    qed
  next
    case List_users
    show ?thesis unfolding List_users serve_company.simps company_routes
      by (rule th_list_users.served_isolated[OF assms(1,2)]) (rule refl, simp)
  next
    case (Deactivate_user i)
    show ?thesis unfolding Deactivate_user serve_company.simps company_routes
      by (rule th_deactivate.served_isolated[OF assms(1,2)]) (rule refl, simp)
  next
    case List_org_support_requests
    show ?thesis unfolding List_org_support_requests serve_company.simps company_routes
      by (rule th_list_grants.served_isolated[OF assms(1,2)]) (rule refl, simp)
  next
    case (Approve_support_request i)
    show ?thesis unfolding Approve_support_request serve_company.simps company_routes
      by (rule th_approve.served_isolated[OF assms(1,2)]) (rule refl, simp)
  next
    case (Deny_support_request i)
    show ?thesis unfolding Deny_support_request serve_company.simps company_routes
      by (rule th_deny.served_isolated[OF assms(1,2)]) (rule refl, simp)
  next
    case (Revoke_support_request i)
    show ?thesis unfolding Revoke_support_request serve_company.simps company_routes
      by (rule th_revoke.served_isolated[OF assms(1,2)]) (rule refl, simp)
  qed
  then show ?thesis using assms(3) by (simp add: isolated_def)
qed

definition demo_admin :: principal where
  "demo_admin = demo_principal\<lparr>p_role := role_value company_admin\<rparr>"

abbreviation demo_admin_token :: "(string \<times> json) list \<times> string \<times> string" where
  "demo_admin_token \<equiv> encode_access_token demo_crypto demo_settings (demo_env 1500000) 1 demo_admin 900000000 COMPANY_AUDIENCE"

lemma demo_admin_calls:
  "company_caller demo_crypto demo_settings (demo_env 2500000) (demo_world demo_team_db demo_open_limiter) (Some demo_admin_token) demo_admin 7"
proof -
  have "p_subject_type demo_admin = subject_user" by (simp add: demo_admin_def demo_principal_def)
  from access_token_roundtrip[OF demo_crypto_contract _ _ this, of "demo_env 1500000" "demo_env 2500000"
      900000000 demo_settings "w_denylist (demo_world demo_team_db demo_open_limiter)" 1]
  show ?thesis
    by (simp add: company_caller_def demo_env_def demo_admin_def demo_principal_def demo_world_def timestamp_int_def new_denylist_def is_revoked_def)
qed

theorem tenant_isolation_witness:
  "\<exists>w'. serve_company demo_crypto demo_settings (demo_env 2500000) Some (Some demo_admin_token) (Deactivate_user 6)
       (demo_world demo_team_db demo_open_limiter) = (Inr No_content, w')
     \<and> tenant_confined 7 (demo_world demo_team_db demo_open_limiter) w'"
proof -
  let ?w = "demo_world demo_team_db demo_open_limiter"
  obtain w' where run: "serve_company demo_crypto demo_settings (demo_env 2500000) Some (Some demo_admin_token) (Deactivate_user 6) ?w = (Inr No_content, w')"
    unfolding serve_company.simps deactivate_user_route_def answering_def caller_runs[OF demo_admin_calls]
    by (simp add: served_def unit_of_work_def deactivate_user_def demo_world_def demo_team_db_def demo_login_db_def demo_user_def demo_member_def users_get_in_org_def select_one_def guard_last_admin_def Let_def)
  have "identity_wf (w_db ?w)" using demo_team_wf by (simp add: demo_world_def)
  from tenant_isolation[OF this demo_admin_calls run] run show ?thesis by blast
qed

section \<open>A reason with a NUL\<close>

text \<open>The names of a request are refused when they hold a control character; the reason of a support request is not.\<close>

lemma nul_reason_accepted: "valid_support_reason [CHR 0x00] \<and> \<not> safe_name [CHR 0x00]"
  by (simp add: valid_support_reason_def safe_name_def reject_control_chars_def)

end
