(* ===== verification/Imap_Client.thy ===== *)
theory Imap_Client
  imports Extraction_Core "HOL-Library.Word"
begin

unbundle bit_operations_syntax

text \<open>
  How the backend dials a mailbox: the egress guard against internal addresses (\<open>connectors/imap/egress_guard.py\<close>), the login check
  (\<open>client.py\<close>) and the opening of a fetch session (\<open>fetch_session.py\<close>). Addresses are words of 32 and 128 bits with the special-use
  blocks of the standard library's \<open>ipaddress\<close>. The resolver, the parser and printer of address literals and the answers of the
  mail server are arguments; what is done to the socket is a list of events.
\<close>

section \<open>Addresses\<close>

datatype ip_addr = V4 "32 word" | V6 "128 word"

definition in_net4 :: "32 word \<Rightarrow> 32 word \<times> nat \<Rightarrow> bool" where
  "in_net4 a net = (drop_bit (32 - snd net) a = drop_bit (32 - snd net) (fst net))"

definition in_net6 :: "128 word \<Rightarrow> 128 word \<times> nat \<Rightarrow> bool" where
  "in_net6 a net = (drop_bit (128 - snd net) a = drop_bit (128 - snd net) (fst net))"

definition PRIVATE4 :: "(32 word \<times> nat) list" where
  "PRIVATE4 = [(0x00000000, 8), (0x0A000000, 8), (0x7F000000, 8), (0xA9FE0000, 16), (0xAC100000, 12), (0xC0000000, 24), (0xC00000AA, 31),
     (0xC0000200, 24), (0xC0A80000, 16), (0xC6120000, 15), (0xC6336400, 24), (0xCB007100, 24), (0xF0000000, 4), (0xFFFFFFFF, 32)]"

definition PRIVATE4_EXCEPTIONS :: "(32 word \<times> nat) list" where
  "PRIVATE4_EXCEPTIONS = [(0xC0000009, 32), (0xC000000A, 32)]"

definition PRIVATE6 :: "(128 word \<times> nat) list" where
  "PRIVATE6 = [(1, 128), (0, 128), (push_bit 32 0xFFFF, 96), (push_bit 80 0x64FF9B0001, 48), (push_bit 112 0x0100, 64), (push_bit 112 0x2001, 23),
     (push_bit 96 0x20010DB8, 32), (push_bit 112 0x2002, 16), (push_bit 112 0xFC00, 7), (push_bit 112 0xFE80, 10)]"

definition PRIVATE6_EXCEPTIONS :: "(128 word \<times> nat) list" where
  "PRIVATE6_EXCEPTIONS = [(push_bit 96 0x20010001 + 1, 128), (push_bit 96 0x20010001 + 2, 128), (push_bit 96 0x20010003, 32),
     (push_bit 80 0x200100040112, 48), (push_bit 96 0x20010020, 28), (push_bit 96 0x20010030, 28)]"

definition RESERVED6 :: "(128 word \<times> nat) list" where
  "RESERVED6 = [(0, 8), (push_bit 112 0x0100, 8), (push_bit 112 0x0200, 7), (push_bit 112 0x0400, 6), (push_bit 112 0x0800, 5),
     (push_bit 112 0x1000, 4), (push_bit 112 0x4000, 3), (push_bit 112 0x6000, 3), (push_bit 112 0x8000, 3), (push_bit 112 0xA000, 3),
     (push_bit 112 0xC000, 3), (push_bit 112 0xE000, 4), (push_bit 112 0xF000, 5), (push_bit 112 0xF800, 6), (push_bit 112 0xFE00, 9)]"

definition is_private4 :: "32 word \<Rightarrow> bool" where
  "is_private4 a = (list_ex (in_net4 a) PRIVATE4 \<and> list_all (\<lambda>n. \<not> in_net4 a n) PRIVATE4_EXCEPTIONS)"

definition is_private6 :: "128 word \<Rightarrow> bool" where
  "is_private6 a = (list_ex (in_net6 a) PRIVATE6 \<and> list_all (\<lambda>n. \<not> in_net6 a n) PRIVATE6_EXCEPTIONS)"

definition disallowed4 :: "32 word \<Rightarrow> bool" where
  "disallowed4 a = (in_net4 a (0x7F000000, 8) \<or> is_private4 a \<or> in_net4 a (0xA9FE0000, 16) \<or> a = 0 \<or> in_net4 a (0xE0000000, 4)
     \<or> in_net4 a (0xF0000000, 4) \<or> \<not> (\<not> in_net4 a (0x64400000, 10) \<and> \<not> is_private4 a))"

definition disallowed6 :: "128 word \<Rightarrow> bool" where
  "disallowed6 a = (a = 1 \<or> is_private6 a \<or> in_net6 a (push_bit 112 0xFE80, 10) \<or> a = 0 \<or> in_net6 a (push_bit 112 0xFF00, 8)
     \<or> list_ex (in_net6 a) RESERVED6 \<or> \<not> \<not> is_private6 a)"

definition ipv4_mapped :: "128 word \<Rightarrow> 32 word option" where
  "ipv4_mapped a = (if drop_bit 32 a = 0xFFFF then Some (ucast a) else None)"

definition is_disallowed_ip :: "ip_addr \<Rightarrow> bool" where
  "is_disallowed_ip ip =
     (case ip of
        V4 a \<Rightarrow> disallowed4 a
      | V6 a \<Rightarrow> (case ipv4_mapped a of Some m \<Rightarrow> disallowed4 m | None \<Rightarrow> disallowed6 a))"

section \<open>The guard\<close>

text \<open>\<open>nl_getaddrinfo\<close>: the address literals of a host, \<open>None\<close> for a resolver error.\<close>

record net_lib =
  nl_getaddrinfo :: "string \<Rightarrow> nat \<Rightarrow> string list option"
  nl_ip_address :: "string \<Rightarrow> ip_addr option"
  nl_str :: "ip_addr \<Rightarrow> string"

text \<open>The addresses in the order of their first literal; \<open>None\<close> is the refusal.\<close>

fun resolve_each :: "net_lib \<Rightarrow> string list \<Rightarrow> string list \<Rightarrow> ip_addr list option" where
  "resolve_each nl seen [] = Some []"
| "resolve_each nl seen (l # ls) =
     (case nl_ip_address nl l of
        None \<Rightarrow> None
      | Some ip \<Rightarrow> if l \<in> set seen then resolve_each nl seen ls else map_option ((#) ip) (resolve_each nl (l # seen) ls))"

definition resolve_host :: "net_lib \<Rightarrow> string \<Rightarrow> nat \<Rightarrow> ip_addr list option" where
  "resolve_host nl host port =
     (case nl_getaddrinfo nl host port of
        None \<Rightarrow> None
      | Some literals \<Rightarrow> (case resolve_each nl [] literals of None \<Rightarrow> None | Some ips \<Rightarrow> if ips = [] then None else Some ips))"

definition validate_egress_target :: "net_lib \<Rightarrow> string \<Rightarrow> nat \<Rightarrow> string option" where
  "validate_egress_target nl host port =
     (case resolve_host nl host port of
        None \<Rightarrow> None
      | Some ips \<Rightarrow> if list_ex is_disallowed_ip ips then None else Some (nl_str nl (hd ips)))"

section \<open>Clients\<close>

record imap_params =
  ip_host :: string
  ip_port :: nat
  ip_use_ssl :: bool
  ip_username :: string

text \<open>What the calls on a client raise: \<open>IMAP4.error\<close>, \<open>OSError\<close>, anything else.\<close>

datatype imap_fault = Imap_fault | Os_fault | Other_fault

record imap_peer =
  pe_connect :: "imap_fault option"
  pe_wrap_tls :: "imap_fault option"
  pe_starttls :: "imap_fault option"
  pe_login :: "imap_fault option"
  pe_noop :: "imap_fault option"
  pe_logout :: "imap_fault option"

datatype dial = Dial_host string | Dial_ip string

datatype imap_event = Ev_connect dial nat | Ev_tls string | Ev_login string string | Ev_noop | Ev_logout | Ev_shutdown

datatype imap_exn = ImapAuthError | ImapConnectionError | ImapTlsUnavailableError | Imap_raises imap_fault

type_synonym imap_run = "imap_event list \<times> (imap_exn + unit)"

text \<open>The two openers: the events up to the open connection, and a fault; \<open>None\<close> for a refused target.\<close>

definition guarded_dial :: "bool \<Rightarrow> net_lib \<Rightarrow> imap_params \<Rightarrow> dial option" where
  "guarded_dial guard_enabled nl params =
     (if \<not> guard_enabled then Some (Dial_host (ip_host params))
      else map_option Dial_ip (validate_egress_target nl (ip_host params) (ip_port params)))"

definition open_guarded_imap4 :: "bool \<Rightarrow> net_lib \<Rightarrow> imap_peer \<Rightarrow> imap_params \<Rightarrow> (imap_event list \<times> imap_fault option) option" where
  "open_guarded_imap4 guard_enabled nl pe params =
     map_option (\<lambda>d. ([Ev_connect d (ip_port params)], pe_connect pe)) (guarded_dial guard_enabled nl params)"

definition open_guarded_imap4_ssl :: "bool \<Rightarrow> net_lib \<Rightarrow> imap_peer \<Rightarrow> imap_params \<Rightarrow> (imap_event list \<times> imap_fault option) option" where
  "open_guarded_imap4_ssl guard_enabled nl pe params =
     map_option (\<lambda>d. case pe_connect pe of
         Some f \<Rightarrow> ([Ev_connect d (ip_port params)], Some f)
       | None \<Rightarrow> (case pe_wrap_tls pe of
           Some f \<Rightarrow> ([Ev_connect d (ip_port params)], Some f)
         | None \<Rightarrow> ([Ev_connect d (ip_port params), Ev_tls (ip_host params)], None)))
       (guarded_dial guard_enabled nl params)"

definition upgrade_to_starttls :: "imap_peer \<Rightarrow> imap_params \<Rightarrow> imap_run" where
  "upgrade_to_starttls pe params =
     (case pe_starttls pe of
        None \<Rightarrow> ([Ev_tls (ip_host params)], Inr ())
      | Some Imap_fault \<Rightarrow> ([Ev_shutdown], Inl ImapTlsUnavailableError)
      | Some Os_fault \<Rightarrow> ([Ev_shutdown], Inl ImapConnectionError)
      | Some Other_fault \<Rightarrow> ([], Inl (Imap_raises Other_fault)))"

text \<open>Running one step after another; a step that raises ends the run.\<close>

definition andThen :: "imap_run \<Rightarrow> imap_run \<Rightarrow> imap_run" where
  "andThen r q = (case snd r of Inl e \<Rightarrow> r | Inr _ \<Rightarrow> (fst r @ fst q, snd q))"

text \<open>Resolve, connect and secure the connection: both the login check and the fetch session start so.\<close>

definition connect_secured :: "bool \<Rightarrow> net_lib \<Rightarrow> imap_peer \<Rightarrow> imap_params \<Rightarrow> imap_run" where
  "connect_secured guard_enabled nl pe params =
     (case (if ip_use_ssl params then open_guarded_imap4_ssl guard_enabled nl pe params else open_guarded_imap4 guard_enabled nl pe params) of
        None \<Rightarrow> ([], Inl ImapConnectionError)
      | Some (evs, Some Other_fault) \<Rightarrow> (evs, Inl (Imap_raises Other_fault))
      | Some (evs, Some _) \<Rightarrow> (evs, Inl ImapConnectionError)
      | Some (evs, None) \<Rightarrow> if ip_use_ssl params then (evs, Inr ()) else andThen (evs, Inr ()) (upgrade_to_starttls pe params))"

definition login_outcome :: "imap_fault \<Rightarrow> imap_exn" where
  "login_outcome f = (case f of Imap_fault \<Rightarrow> ImapAuthError | Os_fault \<Rightarrow> ImapConnectionError | Other_fault \<Rightarrow> Imap_raises Other_fault)"

text \<open>Login and NOOP, then a logout in every case, whose own failure is ignored.\<close>

definition blocking_verify :: "bool \<Rightarrow> net_lib \<Rightarrow> imap_peer \<Rightarrow> imap_params \<Rightarrow> string \<Rightarrow> imap_run" where
  "blocking_verify guard_enabled nl pe params secret =
     andThen (connect_secured guard_enabled nl pe params)
       (case pe_login pe of
          Some f \<Rightarrow> ([Ev_login (ip_username params) secret, Ev_logout], Inl (login_outcome f))
        | None \<Rightarrow>
          ([Ev_login (ip_username params) secret, Ev_noop, Ev_logout], case pe_noop pe of Some f \<Rightarrow> Inl (login_outcome f) | None \<Rightarrow> Inr ()))"

definition safe_close :: "imap_peer \<Rightarrow> imap_event list" where
  "safe_close pe = (case pe_logout pe of None \<Rightarrow> [Ev_logout] | Some _ \<Rightarrow> [Ev_logout, Ev_shutdown])"

definition open_imap_session :: "bool \<Rightarrow> net_lib \<Rightarrow> imap_peer \<Rightarrow> imap_params \<Rightarrow> string \<Rightarrow> imap_run" where
  "open_imap_session guard_enabled nl pe params secret =
     andThen (connect_secured guard_enabled nl pe params)
       (case pe_login pe of
          None \<Rightarrow> ([Ev_login (ip_username params) secret], Inr ())
        | Some Other_fault \<Rightarrow> ([Ev_login (ip_username params) secret], Inl (Imap_raises Other_fault))
        | Some f \<Rightarrow> (Ev_login (ip_username params) secret # safe_close pe, Inl (login_outcome f)))"

text \<open>The connector's check: the two errors become a failed check, everything else is raised. 0x97 is the em dash.\<close>

record imap_check =
  cc_ok :: bool
  cc_message :: string

definition verify_connection :: "bool \<Rightarrow> net_lib \<Rightarrow> imap_peer \<Rightarrow> imap_params \<Rightarrow> string \<Rightarrow> imap_fault + imap_check" where
  "verify_connection guard_enabled nl pe params secret =
     (case snd (blocking_verify guard_enabled nl pe params secret) of
        Inr _ \<Rightarrow> Inr \<lparr>cc_ok = True, cc_message = ''Connection verified.''\<rparr>
      | Inl ImapAuthError \<Rightarrow> Inr \<lparr>cc_ok = False, cc_message = ''Authentication failed '' @ [CHR 0x97] @ '' check the username and password.''\<rparr>
      | Inl (Imap_raises f) \<Rightarrow> Inl f
      | Inl _ \<Rightarrow> Inr \<lparr>cc_ok = False, cc_message = ''Could not reach the mailbox server '' @ [CHR 0x97] @ '' check the host, port, and SSL setting.''\<rparr>)"

section \<open>Where a connection may go\<close>

text \<open>The public addresses, by their octets.\<close>

definition public4 :: "32 word \<Rightarrow> bool" where
  "public4 a \<longleftrightarrow> (let n = unat a in n div 2 ^ 24 \<notin> {0, 10, 127} \<and> n div 2 ^ 24 < 224 \<and> n div 2 ^ 22 \<noteq> 100 * 4 + 1
     \<and> n div 2 ^ 16 \<noteq> 169 * 256 + 254 \<and> n div 2 ^ 20 \<noteq> 172 * 16 + 1 \<and> n div 2 ^ 16 \<noteq> 192 * 256 + 168)"

definition reachable6 :: "128 word \<Rightarrow> bool" where
  "reachable6 a \<longleftrightarrow> (let n = unat a in (n div 2 ^ 125 = 1 \<and> n div 2 ^ 112 \<noteq> 0x2002) \<or> n div 2 ^ 118 = 0x3FB)"

definition may_dial :: "ip_addr \<Rightarrow> bool" where
  "may_dial ip = (case ip of V4 a \<Rightarrow> public4 a | V6 a \<Rightarrow> (case ipv4_mapped a of Some m \<Rightarrow> public4 m | None \<Rightarrow> reachable6 a))"

lemma in_net4_div: "in_net4 a (b, l) \<longleftrightarrow> unat a div 2 ^ (32 - l) = unat b div 2 ^ (32 - l)"
  unfolding in_net4_def word_unat_eq_iff fst_conv snd_conv unat_drop_bit_eq unfolding drop_bit_eq_div ..

lemma in_net6_div: "in_net6 a (b, l) \<longleftrightarrow> unat a div 2 ^ (128 - l) = unat b div 2 ^ (128 - l)"
  unfolding in_net6_def word_unat_eq_iff fst_conv snd_conv unat_drop_bit_eq unfolding drop_bit_eq_div ..

lemma div_further: "x div 2 ^ (j + k) = (x div 2 ^ j) div (2 ^ k :: nat)"
  by (simp add: power_add div_mult2_eq)

text \<open>Past the block of a quotient that is excluded.\<close>

lemma past_block:
  fixes x :: nat
  assumes "x div k \<noteq> c" and "c * k \<le> x" and "0 < k"
  shows "Suc c * k \<le> x"
proof -
  have "c \<le> x div k" using assms(2,3) by (simp add: less_eq_div_iff_mult_less_eq)
  with assms(1) have "Suc c \<le> x div k" by simp
  then show ?thesis using assms(3) by (simp add: less_eq_div_iff_mult_less_eq)
qed

lemma allowed4_public:
  assumes "\<not> disallowed4 a"
  shows "public4 a"
proof -
  define n where "n = unat a"
  have lt: "n < 2 ^ 32" unfolding n_def using unsigned_less[of a] by simp
  from assms have d: "n div 2 ^ 24 \<noteq> 127" "n div 2 ^ 16 \<noteq> 169 * 256 + 254" "n div 2 ^ 28 \<noteq> 14" "n div 2 ^ 28 \<noteq> 15" "n div 2 ^ 22 \<noteq> 100 * 4 + 1" "\<not> is_private4 a"
    by (simp_all add: disallowed4_def in_net4_div n_def)
  from d(6) have p: "n div 2 ^ 24 \<noteq> 0" "n div 2 ^ 24 \<noteq> 10" "n div 2 ^ 20 \<noteq> 172 * 16 + 1" "n div 2 ^ 16 \<noteq> 192 * 256 + 168"
    by (auto simp: is_private4_def PRIVATE4_def PRIVATE4_EXCEPTIONS_def in_net4_div n_def)
  have top: "n div 2 ^ 24 < 224"
  proof (rule ccontr)
    assume "\<not> ?thesis"
    then have "224 * 2 ^ 24 \<le> n" by (simp add: div_less_iff_less_mult not_less)
    then have "Suc 14 * 2 ^ 28 \<le> n" by (intro past_block d(3)) simp_all
    then have "Suc 15 * 2 ^ 28 \<le> n" by (intro past_block d(4)) simp_all
    with lt show False by simp
  qed
  show ?thesis unfolding public4_def Let_def n_def[symmetric] using d p top by blast
qed

lemma net_shorter:
  assumes "in_net6 a (b, l)" and "16 \<le> l" and "l \<le> 128"
  shows "unat a div 2 ^ 112 = unat b div 2 ^ 112"
proof -
  have "112 = (128 - l) + (l - 16)" using assms(2,3) by simp
  then show ?thesis using assms(1) div_further[of _ "128 - l" "l - 16"] by (simp add: in_net6_div)
qed

lemma exceptions_prefix: "list_ex (in_net6 a) PRIVATE6_EXCEPTIONS \<Longrightarrow> unat a div 2 ^ 112 = 0x2001"
  by (auto simp: PRIVATE6_EXCEPTIONS_def dest!: net_shorter)

lemma private6_free:
  assumes "\<not> is_private6 a"
  shows "unat a div 2 ^ 112 \<noteq> 0x2002" and "unat a div 2 ^ 121 \<noteq> 0x7E"
proof -
  have no: "\<not> list_ex (in_net6 a) PRIVATE6" if "unat a div 2 ^ 112 \<noteq> 0x2001"
    using assms that exceptions_prefix[of a] by (auto simp: is_private6_def list_ex_iff list_all_iff)
  show "unat a div 2 ^ 112 \<noteq> 0x2002" using no by (auto simp: PRIVATE6_def in_net6_div)
  have "unat a div 2 ^ 121 = unat a div 2 ^ 112 div 512" using div_further[of "unat a" 112 9] by simp
  then show "unat a div 2 ^ 121 \<noteq> 0x7E"
  proof (cases "unat a div 2 ^ 112 = 0x2001")
    case False
    then show ?thesis using no by (auto simp: PRIVATE6_def in_net6_div)
  qed simp
qed

lemma allowed6_reachable:
  assumes "\<not> disallowed6 a"
  shows "reachable6 a"
proof -
  define m where "m = unat a div 2 ^ 118"
  have "unat a < 2 ^ 128" using unsigned_less[of a] by simp
  then have lt: "m < 1024" by (simp add: m_def less_mult_imp_div_less)
  from assms have d: "\<not> in_net6 a (push_bit 112 0xFE80, 10)" "\<not> in_net6 a (push_bit 112 0xFF00, 8)" "\<not> list_ex (in_net6 a) RESERVED6"
    "\<not> is_private6 a" by (simp_all add: disallowed6_def)
  from d(1-3) have r: "m \<noteq> 0x3FA" "m div 4 \<noteq> 0xFF" "m div 4 \<noteq> 0" "m div 4 \<noteq> 1" "m div 8 \<noteq> 1" "m div 16 \<noteq> 1" "m div 32 \<noteq> 1" "m div 64 \<noteq> 1"
      "m div 128 \<noteq> 2" "m div 128 \<noteq> 3" "m div 128 \<noteq> 4" "m div 128 \<noteq> 5" "m div 128 \<noteq> 6" "m div 64 \<noteq> 14" "m div 32 \<noteq> 30" "m div 16 \<noteq> 62"
      "m div 2 \<noteq> 0x1FC"
    by (simp_all add: RESERVED6_def in_net6_div m_def div_mult2_eq[symmetric])
  have "m div 8 \<noteq> 126" using private6_free(2)[OF d(4)] by (simp add: m_def div_mult2_eq[symmetric])
  note x = this
  have "m div 128 = 1 \<or> m = 0x3FB"
  proof (rule disjCI)
    assume "m \<noteq> 0x3FB"
    show "m div 128 = 1"
    proof (rule ccontr)
      assume low: "m div 128 \<noteq> 1"
      have "1 * 4 \<le> m" using past_block[of m 4 0] r(3) by simp
      from past_block[OF r(4) this] have "1 * 8 \<le> m" by simp
      from past_block[OF r(5) this] have "1 * 16 \<le> m" by simp
      from past_block[OF r(6) this] have "1 * 32 \<le> m" by simp
      from past_block[OF r(7) this] have "1 * 64 \<le> m" by simp
      from past_block[OF r(8) this] have "1 * 128 \<le> m" by simp
      from past_block[OF low this] have "2 * 128 \<le> m" by simp
      from past_block[OF r(9) this] have "3 * 128 \<le> m" by simp
      from past_block[OF r(10) this] have "4 * 128 \<le> m" by simp
      from past_block[OF r(11) this] have "5 * 128 \<le> m" by simp
      from past_block[OF r(12) this] have "6 * 128 \<le> m" by simp
      from past_block[OF r(13) this] have "14 * 64 \<le> m" by simp
      from past_block[OF r(14) this] have "30 * 32 \<le> m" by simp
      from past_block[OF r(15) this] have "62 * 16 \<le> m" by simp
      from past_block[OF r(16) this] have "126 * 8 \<le> m" by simp
      from past_block[OF x this] have "508 * 2 \<le> m" by simp
      from past_block[OF r(17) this] have "1018 \<le> m" by simp
      moreover have "m < 1020" using past_block[OF r(2)] lt by (cases "255 * 4 \<le> m") simp_all
      ultimately show False using r(1) \<open>m \<noteq> 0x3FB\<close> by linarith
    qed
  qed
  moreover have "unat a div 2 ^ 125 = m div 128" by (simp add: m_def div_mult2_eq[symmetric])
  ultimately show ?thesis using private6_free(1)[OF d(4)] by (auto simp: reachable6_def m_def)
qed

lemma allowed_may_dial: "\<not> is_disallowed_ip ip \<Longrightarrow> may_dial ip"
  by (auto simp: is_disallowed_ip_def may_dial_def allowed4_public allowed6_reachable split: ip_addr.splits option.splits)

lemma resolve_each_literals: "resolve_each nl seen ls = Some ips \<Longrightarrow> ip \<in> set ips \<Longrightarrow> \<exists>l \<in> set ls. nl_ip_address nl l = Some ip"
proof (induction nl seen ls arbitrary: ips rule: resolve_each.induct)
  case (2 nl seen l ls)
  from 2(3) obtain i where i: "nl_ip_address nl l = Some i" by (auto split: option.splits)
  show ?case
  proof (cases "l \<in> set seen")
    case True
    with 2(1)[OF i True] 2(3,4) i show ?thesis by auto
  next
    case False
    with 2(3) i obtain js where "ips = i # js" "resolve_each nl (l # seen) ls = Some js" by auto
    with 2(2)[OF i False] 2(4) i show ?thesis by auto
  qed
qed simp


definition demo_net :: net_lib where
  "demo_net = \<lparr>nl_getaddrinfo = \<lambda>_ _. Some [''8.8.8.8''], nl_ip_address = \<lambda>l. if l = ''8.8.8.8'' then Some (V4 0x08080808) else None,
     nl_str = \<lambda>_. ''8.8.8.8''\<rparr>"

definition demo_params :: "bool \<Rightarrow> imap_params" where
  "demo_params ssl = \<lparr>ip_host = ''mail'', ip_port = 993, ip_use_ssl = ssl, ip_username = ''u''\<rparr>"

lemma demo_dial: "guarded_dial True demo_net (demo_params ssl) = Some (Dial_ip ''8.8.8.8'')"
proof -
  have "\<not> is_disallowed_ip (V4 0x08080808)" by code_simp
  then show ?thesis by (simp add: guarded_dial_def validate_egress_target_def resolve_host_def demo_net_def demo_params_def)
qed


text \<open>The old site-local block of IPv6 is not refused, although its addresses are internal.\<close>

lemma site_local_not_refused: "\<not> is_disallowed_ip (V6 0xFEC00000000000000000000000000001)"
proof -
  have "drop_bit 32 (0xFEC00000000000000000000000000001 :: 128 word) \<noteq> 0xFFFF" by simp
  then show ?thesis
    by (simp add: is_disallowed_ip_def ipv4_mapped_def disallowed6_def is_private6_def PRIVATE6_def RESERVED6_def in_net6_div)
qed

section \<open>Where a password may go\<close>

text \<open>Every login of a run comes after the connection was secured.\<close>

definition logins_secured :: "imap_event list \<Rightarrow> bool" where
  "logins_secured evs \<longleftrightarrow> (\<forall>pre post u p. evs = pre @ Ev_login u p # post \<longrightarrow> (\<exists>h. Ev_tls h \<in> set pre))"

lemma no_login_secured: "(\<forall>u p. Ev_login u p \<notin> set evs) \<Longrightarrow> logins_secured evs"
  unfolding logins_secured_def by (metis in_set_conv_decomp)

lemma connect_events:
  assumes "connect_secured g nl pe params = (evs, r)"
  shows "(\<forall>u p. Ev_login u p \<notin> set evs) \<and> (r = Inr () \<longrightarrow> Ev_tls (ip_host params) \<in> set evs)
    \<and> (\<forall>d n. Ev_connect d n \<in> set evs \<longrightarrow> guarded_dial g nl params = Some d)"
proof (cases "guarded_dial g nl params")
  case None
  then show ?thesis using assms
    by (cases "ip_use_ssl params") (auto simp: connect_secured_def open_guarded_imap4_def open_guarded_imap4_ssl_def)
next
  case (Some d)
  show ?thesis
  proof (cases "pe_connect pe")
    case (Some f)
    then show ?thesis using assms \<open>guarded_dial g nl params = Some d\<close>
      by (cases f; cases "ip_use_ssl params") (auto simp: connect_secured_def open_guarded_imap4_def open_guarded_imap4_ssl_def)
  next
    case None
    note facts = None \<open>guarded_dial g nl params = Some d\<close>
    show ?thesis
    proof (cases "ip_use_ssl params")
      case True
      then show ?thesis using assms facts
        by (cases "pe_wrap_tls pe"; cases "the (pe_wrap_tls pe)") (auto simp: connect_secured_def open_guarded_imap4_ssl_def)
    next
      case False
      then show ?thesis using assms facts
        by (cases "pe_starttls pe"; cases "the (pe_starttls pe)")
          (auto simp: connect_secured_def open_guarded_imap4_def upgrade_to_starttls_def andThen_def)
    qed
  qed
qed

lemma andThen_secured:
  assumes "connect_secured g nl pe params = (evs, r)"
  shows "logins_secured (fst (andThen (evs, r) q))"
proof (cases r)
  case (Inl e)
  then show ?thesis using no_login_secured connect_events[OF assms] by (simp add: andThen_def)
next
  case (Inr x)
  then have r: "r = Inr ()" by simp
  note ev = connect_events[OF assms]
  have "\<exists>h. Ev_tls h \<in> set pre" if e: "evs @ fst q = pre @ Ev_login u p # post" for pre post u p
  proof -
    have "\<not> length pre < length evs"
    proof
      assume "length pre < length evs"
      then have "evs ! length pre = Ev_login u p" using arg_cong[OF e, of "\<lambda>l. l ! length pre"] by (simp add: nth_append)
      with \<open>length pre < length evs\<close> ev show False by (metis nth_mem)
    qed
    then have "set evs \<subseteq> set pre" using arg_cong[OF e, of "\<lambda>l. take (length evs) l"] by (auto simp: take_Cons') (metis in_set_takeD)
    with ev r show ?thesis by blast
  qed
  with r show ?thesis by (simp add: andThen_def logins_secured_def)
qed

text \<open>
  C14: A mailbox password never travels in clear: whatever the server answers, in a login check and in the opening of a fetch session
  every LOGIN comes after TLS was established on the connection, and a server without STARTTLS on a plain port gets no LOGIN at all.
\<close>

theorem password_only_over_tls:
  "logins_secured (fst (blocking_verify g nl pe params secret)) \<and> logins_secured (fst (open_imap_session g nl pe params secret))"
  unfolding blocking_verify_def open_imap_session_def
  by (metis andThen_secured surj_pair)

end
