(* ===== verification/Credential_Cipher.thy ===== *)
theory Credential_Cipher
  imports App_Settings Connector_Safety Imap_Client "HOL-Library.AList"
begin

text \<open>
  Stored credentials and the way back to a mailbox: the cipher (\<open>connectors/security/credential_cipher.py\<close>), the registry of connectors
  (\<open>connectors/base/registry.py\<close>), the IMAP connector it builds (\<open>connectors/imap/connector.py\<close>, \<open>config.py\<close>) and the wiring of
  \<open>connectors/dependencies.py\<close>. AES-GCM and SHA-256 are arguments. A secret is the list of its code points.
\<close>

section \<open>The cipher\<close>

text \<open>\<open>gcm_decrypt\<close> is \<open>None\<close> where it raises \<open>InvalidTag\<close> or \<open>ValueError\<close>; the arguments are key, nonce and data.\<close>

record cipher_lib =
  gcm_encrypt :: "string \<Rightarrow> string \<Rightarrow> string \<Rightarrow> string"
  gcm_decrypt :: "string \<Rightarrow> string \<Rightarrow> string \<Rightarrow> string option"
  sha256_digest :: "string \<Rightarrow> string"

record cipher =
  ci_key :: string
  ci_key_version :: int

definition INSECURE_CONNECTOR_KEY :: string where
  "INSECURE_CONNECTOR_KEY = ''dev-only-insecure-connector-secret-change-me''"

definition MIN_KEY_MATERIAL_CHARS :: nat where
  "MIN_KEY_MATERIAL_CHARS = 32"

definition NONCE_BYTES :: nat where
  "NONCE_BYTES = 12"

definition SECRET_KEY_VERSION :: int where
  "SECRET_KEY_VERSION = 1"

definition latin :: "string \<Rightarrow> codepoints" where
  "latin s = map code s"

definition derive_key :: "cipher_lib \<Rightarrow> string \<Rightarrow> string" where
  "derive_key lib material =
     (case b64decode True material of
        Some decoded \<Rightarrow> if length decoded = 32 then decoded else sha256_digest lib (utf8_bytes material)
      | None \<Rightarrow> sha256_digest lib (utf8_bytes material))"

definition new_cipher :: "cipher_lib \<Rightarrow> string \<Rightarrow> bool \<Rightarrow> connector_error + cipher" where
  "new_cipher lib key_material require_secure =
     (let cleaned = py_strip key_material
      in if require_secure \<and> (cleaned = INSECURE_CONNECTOR_KEY \<or> length cleaned < MIN_KEY_MATERIAL_CHARS)
         then Inl (ConnectorConfigurationError ''CONNECTOR_SECRET_KEY is the dev default or too weak for this environment. Provide a strong key (e.g. `openssl rand -base64 32`) via environment / secret manager.'')
         else Inr \<lparr>ci_key = derive_key lib cleaned, ci_key_version = SECRET_KEY_VERSION\<rparr>)"

text \<open>\<open>encrypt\<close> with the nonce it draws; \<open>None\<close> for a text that UTF-8 cannot encode.\<close>

definition encrypt :: "cipher_lib \<Rightarrow> cipher \<Rightarrow> string \<Rightarrow> codepoints \<Rightarrow> string option" where
  "encrypt lib ci nonce plaintext = map_option (\<lambda>bytes. nonce @ gcm_encrypt lib (ci_key ci) nonce bytes) (utf8_of plaintext)"

definition decrypt :: "cipher_lib \<Rightarrow> cipher \<Rightarrow> string \<Rightarrow> connector_error + codepoints" where
  "decrypt lib ci blob =
     (if length blob \<le> NONCE_BYTES then Inl (ConnectorSecretError ''Stored credential is malformed.'')
      else (case gcm_decrypt lib (ci_key ci) (take NONCE_BYTES blob) (drop NONCE_BYTES blob) of
              None \<Rightarrow> Inl (ConnectorSecretError ''Stored credential could not be decrypted.'')
            | Some bytes \<Rightarrow>
              (case utf8_decode bytes of
                 None \<Rightarrow> Inl (ConnectorSecretError ''Stored credential could not be decrypted.'')
               | Some plaintext \<Rightarrow> Inr plaintext)))"

section \<open>The registry\<close>

text \<open>A dictionary of factories in insertion order; a factory returns a connector or raises.\<close>

type_synonym 'conn factory = "(string \<times> json) list \<Rightarrow> string \<Rightarrow> 'conn option"
type_synonym 'conn registry = "(connector_type \<times> 'conn factory) list"

definition register :: "'conn registry \<Rightarrow> connector_type \<Rightarrow> 'conn factory \<Rightarrow> 'conn registry" where
  "register reg ctype factory = AList.update ctype factory reg"

definition is_registered :: "'conn registry \<Rightarrow> connector_type \<Rightarrow> bool" where
  "is_registered reg ctype \<longleftrightarrow> map_of reg ctype \<noteq> None"

definition registered_types :: "'conn registry \<Rightarrow> connector_type list" where
  "registered_types reg = map fst reg"

text \<open>\<open>create\<close>: the error, or what the factory does.\<close>

definition create_connector :: "'conn registry \<Rightarrow> connector_type \<Rightarrow> (string \<times> json) list \<Rightarrow> string \<Rightarrow> connector_error + 'conn option" where
  "create_connector reg ctype config secret =
     (case map_of reg ctype of
        None \<Rightarrow> Inl (UnknownConnectorError (''Connector type '' @ [CHR 0x27] @ connector_type_value ctype @ [CHR 0x27] @ '' is not available.''))
      | Some factory \<Rightarrow> Inr (factory config secret))"

text \<open>
  What the import system answers: \<open>find_spec\<close> finds no module (or raises \<open>ModuleNotFoundError\<close>), raises something else, or finds one; the
  import of it and the lookup of its factory succeed or raise.
\<close>

datatype 'conn module_probe = Spec_absent | Spec_raises | Spec_found "string \<Rightarrow> 'conn factory option"

definition register_builtin :: "(string \<Rightarrow> 'conn module_probe) \<Rightarrow> 'conn registry \<Rightarrow> connector_type \<times> string \<times> string \<Rightarrow> 'conn registry" where
  "register_builtin probe reg builtin =
     (case builtin of (ctype, module_path, factory_attr) \<Rightarrow>
       case probe module_path of
         Spec_raises \<Rightarrow> reg
       | Spec_absent \<Rightarrow> reg
       | Spec_found load \<Rightarrow> (case load factory_attr of None \<Rightarrow> reg | Some factory \<Rightarrow> register reg ctype factory))"

definition BUILTIN_CONNECTORS :: "(connector_type \<times> string \<times> string) list" where
  "BUILTIN_CONNECTORS = [(imap, ''app.connectors.imap.connector'', ''build_imap_connector'')]"

definition build_default_registry :: "(string \<Rightarrow> 'conn module_probe) \<Rightarrow> 'conn registry" where
  "build_default_registry probe = foldl (register_builtin probe) [] BUILTIN_CONNECTORS"

section \<open>The IMAP connector\<close>

record imap_connector =
  ic_params :: imap_params
  ic_secret :: string

definition DEFAULT_IMAP_PORT :: int where
  "DEFAULT_IMAP_PORT = 993"

text \<open>\<open>str\<close> of a configuration value that is no string is an argument; ports are those the request schema admits, so not negative.\<close>

definition text_or :: "(json \<Rightarrow> string) \<Rightarrow> (string \<times> json) list \<Rightarrow> string \<Rightarrow> string" where
  "text_or str config key = (case map_of config key of None \<Rightarrow> [] | Some (JStr s) \<Rightarrow> s | Some v \<Rightarrow> str v)"

definition imap_params_from_config :: "(json \<Rightarrow> string) \<Rightarrow> (string \<times> json) list \<Rightarrow> imap_params option" where
  "imap_params_from_config str config =
     (case (case map_of config ''port'' of None \<Rightarrow> Some DEFAULT_IMAP_PORT | Some v \<Rightarrow> int_of_json v) of
        None \<Rightarrow> None
      | Some port \<Rightarrow>
          Some \<lparr>ip_host = text_or str config ''host'', ip_port = nat port,
                ip_use_ssl = (case map_of config ''use_ssl'' of None \<Rightarrow> True | Some v \<Rightarrow> truthy v),
                ip_username = text_or str config ''username''\<rparr>)"

definition build_imap_connector :: "(json \<Rightarrow> string) \<Rightarrow> imap_connector factory" where
  "build_imap_connector str config secret = map_option (\<lambda>params. \<lparr>ic_params = params, ic_secret = secret\<rparr>) (imap_params_from_config str config)"

section \<open>The services' environment\<close>

text \<open>
  \<open>get_connector_service\<close> builds the cipher from the settings; \<open>_verify\<close> decrypts, builds and verifies, and every exception is a failed check.
\<close>

definition cipher_for :: "cipher_lib \<Rightarrow> app_settings \<Rightarrow> connector_error + cipher" where
  "cipher_for lib s = new_cipher lib (connector_secret_key s) (requires_secure_secrets s)"

definition connection_config :: "connection \<Rightarrow> (string \<times> json) list" where
  "connection_config c = AList.update ''username'' (JStr (cn_username c)) (cn_config c)"

definition connector_for :: "cipher_lib \<Rightarrow> cipher \<Rightarrow> 'conn registry \<Rightarrow> connection \<Rightarrow> 'conn option" where
  "connector_for lib ci reg c =
     (case decrypt lib ci (cn_secret_ciphertext c) of
        Inl _ \<Rightarrow> None
      | Inr secret \<Rightarrow>
        (case create_connector reg (cn_connector_type c) (connection_config c) (map byte_of secret) of Inl _ \<Rightarrow> None | Inr conn \<Rightarrow> conn))"

definition verify_imap :: "bool \<Rightarrow> net_lib \<Rightarrow> imap_peer \<Rightarrow> imap_connector \<Rightarrow> connection_check reply" where
  "verify_imap guard_enabled nl pe conn =
     (case verify_connection guard_enabled nl pe (ic_params conn) (ic_secret conn) of
        Inl _ \<Rightarrow> Raises
      | Inr ck \<Rightarrow> Replies \<lparr>ck_ok = cc_ok ck, ck_message = cc_message ck\<rparr>)"

definition connector_env_for :: "cipher_lib \<Rightarrow> cipher \<Rightarrow> string \<Rightarrow> imap_connector registry \<Rightarrow> bool \<Rightarrow> net_lib \<Rightarrow> imap_peer \<Rightarrow> connector_env" where
  "connector_env_for lib ci nonce reg guard_enabled nl pe = \<lparr>
     ce_encrypt = (\<lambda>password. case encrypt lib ci nonce (latin password) of None \<Rightarrow> [] | Some blob \<Rightarrow> blob),
     ce_key_version = ci_key_version ci,
     ce_verify = (\<lambda>c. case connector_for lib ci reg c of None \<Rightarrow> Raises | Some conn \<Rightarrow> verify_imap guard_enabled nl pe conn)\<rparr>"

section \<open>What the cipher promises\<close>

text \<open>The documented behaviour of AES-GCM with a 256-bit key and a 96-bit nonce, and the length of a SHA-256 digest.\<close>

definition aead_contract :: "cipher_lib \<Rightarrow> bool" where
  "aead_contract lib \<longleftrightarrow>
     (\<forall>key nonce data. length key = 32 \<longrightarrow> length nonce = 12 \<longrightarrow>
        gcm_decrypt lib key nonce (gcm_encrypt lib key nonce data) = Some data \<and> length (gcm_encrypt lib key nonce data) = length data + 16)
     \<and> (\<forall>data. length (sha256_digest lib data) = 32)"

lemma derive_key_length: "aead_contract lib \<Longrightarrow> length (derive_key lib material) = 32"
  by (auto simp: derive_key_def aead_contract_def split: option.splits)

lemma new_cipher_key: "aead_contract lib \<Longrightarrow> new_cipher lib material secure = Inr ci \<Longrightarrow> length (ci_key ci) = 32"
  by (auto simp: new_cipher_def Let_def derive_key_length split: if_splits)

lemma encrypt_decrypt:
  assumes "aead_contract lib" and "length (ci_key ci) = 32" and "length nonce = 12" and "encrypt lib ci nonce plaintext = Some blob"
  shows "decrypt lib ci blob = Inr plaintext"
proof -
  from assms(4) obtain bytes where b: "utf8_of plaintext = Some bytes" "blob = nonce @ gcm_encrypt lib (ci_key ci) nonce bytes"
    by (auto simp: encrypt_def)
  have "gcm_decrypt lib (ci_key ci) nonce (gcm_encrypt lib (ci_key ci) nonce bytes) = Some bytes"
    "length (gcm_encrypt lib (ci_key ci) nonce bytes) = length bytes + 16"
    using assms(1-3) unfolding aead_contract_def by blast+
  with b assms(3) utf8_roundtrip[OF b(1)] show ?thesis by (simp add: decrypt_def NONCE_BYTES_def)
qed

text \<open>
  C38: a stored credential is readable again, and only under a key that is fit for its environment. Whatever the key material, a cipher that was
  built has a 256-bit key, encrypts every text UTF-8 can carry, and decrypts what it encrypted to that very text; and outside
  development none is built from the public default or from less than 32 characters, blanks around them not counted.
\<close>

theorem credential_roundtrip:
  assumes "aead_contract lib" and "new_cipher lib material require_secure = Inr ci" and "length nonce = 12" and "list_all is_scalar plaintext"
  shows "(\<exists>blob. encrypt lib ci nonce plaintext = Some blob \<and> decrypt lib ci blob = Inr plaintext)
     \<and> length (ci_key ci) = 32
     \<and> (require_secure \<longrightarrow> py_strip material \<noteq> INSECURE_CONNECTOR_KEY \<and> 32 \<le> length (py_strip material))"
proof (intro conjI impI)
  have key: "length (ci_key ci) = 32" using assms(1,2) by (rule new_cipher_key)
  then show "length (ci_key ci) = 32" .
  have "utf8_of plaintext \<noteq> None" using assms(4) utf8_of_Some_iff[of plaintext] by auto
  then obtain blob where "encrypt lib ci nonce plaintext = Some blob" by (auto simp: encrypt_def)
  with encrypt_decrypt[OF assms(1) key assms(3)] show "\<exists>blob. encrypt lib ci nonce plaintext = Some blob \<and> decrypt lib ci blob = Inr plaintext" by blast
  show "py_strip material \<noteq> INSECURE_CONNECTOR_KEY" "32 \<le> length (py_strip material)" if require_secure
    using assms(2) that by (auto simp: new_cipher_def Let_def MIN_KEY_MATERIAL_CHARS_def split: if_splits)
qed

text \<open>A sealed box: the data with the key and the nonce as its tag.\<close>

definition demo_cipher_lib :: cipher_lib where
  "demo_cipher_lib = \<lparr>gcm_encrypt = (\<lambda>key nonce data. data @ take 16 (key @ nonce)),
     gcm_decrypt = (\<lambda>key nonce box. if 16 \<le> length box \<and> drop (length box - 16) box = take 16 (key @ nonce) then Some (take (length box - 16) box) else None),
     sha256_digest = (\<lambda>data. replicate 32 CHR ''h'')\<rparr>"

lemma demo_cipher_contract: "aead_contract demo_cipher_lib"
  by (simp add: aead_contract_def demo_cipher_lib_def)

lemma demo_cipher: "\<exists>ci. new_cipher demo_cipher_lib ''dev'' False = Inr ci"
  by (simp add: new_cipher_def)

theorem credential_roundtrip_witness:
  "\<exists>ci blob. new_cipher demo_cipher_lib ''dev'' False = Inr ci \<and> decrypt demo_cipher_lib ci blob = Inr [0x70, 0x1F511]"
proof -
  obtain ci where ci: "new_cipher demo_cipher_lib ''dev'' False = Inr ci" using demo_cipher by blast
  have "length ''0123456789ab'' = 12" "list_all is_scalar [0x70, 0x1F511]" by (simp_all add: is_scalar_def is_surrogate_def)
  with credential_roundtrip[OF demo_cipher_contract ci] ci show ?thesis by blast
qed

section \<open>From a stored connection back to its mailbox\<close>

text \<open>The registry is built whatever the import system does, and knows a type exactly when its module loads.\<close>

lemma default_registry:
  "map_of (build_default_registry probe) imap =
     (case probe ''app.connectors.imap.connector'' of Spec_found load \<Rightarrow> load ''build_imap_connector'' | _ \<Rightarrow> None)"
  by (auto simp: build_default_registry_def BUILTIN_CONNECTORS_def register_builtin_def register_def split: module_probe.splits option.splits)

lemma created_connection:
  "create_connection ce e org_id q actor owner action w = (Inr c, w') \<Longrightarrow> c = new_connection ce e org_id q owner"
  by (auto simp: create_connection_def Let_def split: if_splits sum.splits option.splits)

lemma latin_scalar: "list_all is_scalar (latin s)"
proof -
  have "is_scalar (code c)" for c
  proof -
    have "code c < 256" using nat_of_char_less_256 by simp
    then show ?thesis unfolding is_scalar_def is_surrogate_def by linarith
  qed
  then show ?thesis by (simp add: latin_def list_all_iff)
qed

text \<open>
  C39: a connection that was created can be used as it was entered. With the service's own cipher and the default registry, the connector built
  from the stored row has exactly the host, port, TLS choice, user name and password of the request, so verifying it is the login check
  of the IMAP client with them; and the stored row holds the password under no other form than the ciphertext.
\<close>

theorem stored_connection_usable:
  assumes "aead_contract lib" and "cipher_for lib s = Inr ci" and "length nonce = 12" and "0 \<le> cq_port q"
    and "probe ''app.connectors.imap.connector'' = Spec_found load" and "load ''build_imap_connector'' = Some (build_imap_connector str)"
    and "ce = connector_env_for lib ci nonce (build_default_registry probe) guard_enabled nl pe"
    and "create_connection ce e org_id q actor owner action w = (Inr c, w')"
  shows "ce_verify ce c = verify_imap guard_enabled nl pe
       \<lparr>ic_params = \<lparr>ip_host = cq_host q, ip_port = nat (cq_port q), ip_use_ssl = cq_use_ssl q, ip_username = cq_username q\<rparr>,
        ic_secret = cq_password q\<rparr>
     \<and> (\<exists>blob. encrypt lib ci nonce (latin (cq_password q)) = Some blob \<and> c = new_connection (ce\<lparr>ce_encrypt := \<lambda>_. blob\<rparr>) e org_id (q\<lparr>cq_password := []\<rparr>) owner)"
proof -
  have key: "length (ci_key ci) = 32" using new_cipher_key[OF assms(1)] assms(2) unfolding cipher_for_def by blast
  have "utf8_of (latin (cq_password q)) \<noteq> None" using utf8_of_Some_iff[of "latin (cq_password q)"] latin_scalar by auto
  then obtain blob where blob: "encrypt lib ci nonce (latin (cq_password q)) = Some blob" by (auto simp: encrypt_def)
  have dec: "decrypt lib ci blob = Inr (latin (cq_password q))" using assms(1) key assms(3) blob by (rule encrypt_decrypt)
  have c: "c = new_connection ce e org_id q owner" using assms(8) by (rule created_connection)
  have ctype: "cq_connector_type q = imap" by (cases "cq_connector_type q") simp
  have latin_byte: "map byte_of (latin t) = t" for t by (induction t) (simp_all add: latin_def)
  have reg: "map_of (build_default_registry probe) imap = Some (build_imap_connector str)" using assms(5,6) by (simp add: default_registry)
  have "connector_for lib ci (build_default_registry probe) c =
      Some \<lparr>ic_params = \<lparr>ip_host = cq_host q, ip_port = nat (cq_port q), ip_use_ssl = cq_use_ssl q, ip_username = cq_username q\<rparr>, ic_secret = cq_password q\<rparr>"
    unfolding c by (simp add: connector_for_def new_connection_def assms(7) connector_env_for_def blob dec create_connector_def ctype reg latin_byte
        build_imap_connector_def imap_params_from_config_def connection_config_def text_or_def)
  moreover have "c = new_connection (ce\<lparr>ce_encrypt := \<lambda>_. blob\<rparr>) e org_id (q\<lparr>cq_password := []\<rparr>) owner"
    unfolding c by (simp add: new_connection_def assms(7) connector_env_for_def blob)
  ultimately show ?thesis using blob by (simp add: assms(7) connector_env_for_def)
qed

lemma demo_create_ok:
  "\<exists>c w'. create_connection ce (demo_env 50) 7 (sq_connection demo_self_connect) demo_principal (Some 5) CONNECTOR_CREATED demo_mworld = (Inr c, w')"
  by (simp add: create_connection_def is_entitled_def entitlements_get_def connections_exists_for_owner_def connections_insert_def connection_fk_ok_def
      new_connection_def user_fk_ok_def org_fk_ok_def demo_mworld_def demo_cworld_def demo_connector_db_def demo_tenant_def
      demo_self_connect_def demo_env_def select_where_def Let_def)

definition demo_probe :: "string \<Rightarrow> imap_connector module_probe" where
  "demo_probe path = Spec_found (\<lambda>attr. if attr = ''build_imap_connector'' then Some (build_imap_connector (\<lambda>_. [])) else None)"

definition willing_peer :: imap_peer where
  "willing_peer = \<lparr>pe_connect = None, pe_wrap_tls = None, pe_starttls = None, pe_login = None, pe_noop = None, pe_logout = None\<rparr>"

definition offline_net :: net_lib where
  "offline_net = \<lparr>nl_getaddrinfo = (\<lambda>_ _. None), nl_ip_address = (\<lambda>_. None), nl_str = (\<lambda>_. [])\<rparr>"

theorem stored_connection_usable_witness:
  "\<exists>(ce :: connector_env) c w'. create_connection ce (demo_env 50) 7 (sq_connection demo_self_connect) demo_principal (Some 5) CONNECTOR_CREATED demo_mworld = (Inr c, w')
     \<and> ce_verify ce c = verify_imap False offline_net willing_peer
     \<lparr>ic_params = \<lparr>ip_host = ''mx'', ip_port = 993, ip_use_ssl = True, ip_username = ''a@x''\<rparr>, ic_secret = ''pw''\<rparr>"
proof -
  have "py_lower ''local'' = ''local''" by code_simp
  then have "\<not> requires_secure_secrets default_settings" by (simp add: requires_secure_secrets_def default_settings_def)
  then obtain ci where ci: "cipher_for demo_cipher_lib default_settings = Inr ci" by (simp add: cipher_for_def new_cipher_def Let_def)
  define ce where "ce = connector_env_for demo_cipher_lib ci ''0123456789ab'' (build_default_registry demo_probe) False offline_net willing_peer"
  obtain c w' where c: "create_connection ce (demo_env 50) 7 (sq_connection demo_self_connect) demo_principal (Some 5) CONNECTOR_CREATED demo_mworld = (Inr c, w')"
    using demo_create_ok by blast
  have "length ''0123456789ab'' = 12" "0 \<le> cq_port (sq_connection demo_self_connect)" by (simp_all add: demo_self_connect_def)
  from stored_connection_usable[OF demo_cipher_contract ci this _ _ ce_def c, of "\<lambda>attr. if attr = ''build_imap_connector'' then Some (build_imap_connector (\<lambda>_. [])) else None" "\<lambda>_. []"]
  have "ce_verify ce c = verify_imap False offline_net willing_peer
      \<lparr>ic_params = \<lparr>ip_host = ''mx'', ip_port = 993, ip_use_ssl = True, ip_username = ''a@x''\<rparr>, ic_secret = ''pw''\<rparr>"
    by (simp add: demo_probe_def demo_self_connect_def)
  with c show ?thesis by blast
qed

end
