(* ===== verification/Connector_Api.thy ===== *)
theory Connector_Api
  imports Api_Routes Credential_Cipher
begin

text \<open>
  The connector API: the request and response models (\<open>connectors/schemas\<close>), the routes of the administrator's plane, of governance, of the
  user's own plane and of the platform's entitlements (\<open>connectors/routes\<close>), with the providers of the services
  (\<open>connectors/dependencies.py\<close>), which build the cipher and answer 503 when the key is not fit. Shown: no request gets past its guard, and
  whatever a user of a company sends, no row of another company changes and only connections of the caller's own plane are answered.
\<close>

section \<open>Request models\<close>

definition valid_create_connection :: "create_connection_request \<Rightarrow> bool" where
  "valid_create_connection q \<longleftrightarrow> 1 \<le> length (cq_display_name q) \<and> length (cq_display_name q) \<le> 120
     \<and> 1 \<le> length (cq_host q) \<and> length (cq_host q) \<le> 255 \<and> 1 \<le> cq_port q \<and> cq_port q \<le> 65535
     \<and> 1 \<le> length (cq_username q) \<and> length (cq_username q) \<le> 320
     \<and> 1 \<le> length (cq_password q) \<and> length (cq_password q) \<le> 1024"

definition valid_self_connect :: "self_connect_request \<Rightarrow> bool" where
  "valid_self_connect q \<longleftrightarrow> valid_create_connection (sq_connection q)
     \<and> 1 \<le> length (sq_scope q) \<and> length (sq_scope q) \<le> 120
     \<and> 1 \<le> length (sq_consent_version q) \<and> length (sq_consent_version q) \<le> 40"

section \<open>Response models\<close>

text \<open>A connection as it leaves the server: neither the ciphertext nor the key version is a field. \<open>int(...)\<close> may raise.\<close>

record connection_response =
  kr_id :: uuid
  kr_org_id :: uuid
  kr_connector_type :: connector_type
  kr_display_name :: string
  kr_auth_method :: auth_method
  kr_username :: string
  kr_host :: string
  kr_port :: int
  kr_use_ssl :: bool
  kr_status :: connection_status
  kr_is_enabled :: bool
  kr_disabled_at :: "datetime option"
  kr_last_checked_at :: "datetime option"
  kr_last_error :: "string option"
  kr_created_at :: datetime
  kr_sync_status :: sync_status
  kr_synced_count :: int
  kr_total_count :: "int option"
  kr_last_synced_at :: "datetime option"
  kr_last_sync_error :: "string option"

definition connection_response_of :: "(json \<Rightarrow> string) \<Rightarrow> connection \<Rightarrow> connection_response option" where
  "connection_response_of str c =
     (case (case map_of (cn_config c) ''port'' of None \<Rightarrow> Some 0 | Some v \<Rightarrow> int_of_json v) of
        None \<Rightarrow> None
      | Some port \<Rightarrow> Some \<lparr>kr_id = cn_id c, kr_org_id = cn_org_id c, kr_connector_type = cn_connector_type c,
          kr_display_name = cn_display_name c, kr_auth_method = cn_auth_method c, kr_username = cn_username c,
          kr_host = text_or str (cn_config c) ''host'', kr_port = port,
          kr_use_ssl = (case map_of (cn_config c) ''use_ssl'' of None \<Rightarrow> True | Some v \<Rightarrow> truthy v),
          kr_status = cn_status c, kr_is_enabled = (cn_disabled_at c = None), kr_disabled_at = cn_disabled_at c,
          kr_last_checked_at = cn_last_checked_at c, kr_last_error = cn_last_error c, kr_created_at = cn_created_at c,
          kr_sync_status = cn_sync_status c, kr_synced_count = cn_synced_count c, kr_total_count = cn_total_count c,
          kr_last_synced_at = cn_last_synced_at c, kr_last_sync_error = cn_last_sync_error c\<rparr>)"

record sync_status_response =
  ss_connection_id :: uuid
  ss_sync_status :: sync_status
  ss_run_id :: "uuid option"
  ss_started_at :: "datetime option"
  ss_last_synced_at :: "datetime option"
  ss_synced_count :: int
  ss_total_count :: "int option"
  ss_last_sync_error :: "string option"

definition sync_status_response_of :: "connection \<Rightarrow> sync_status_response" where
  "sync_status_response_of c = \<lparr>ss_connection_id = cn_id c, ss_sync_status = cn_sync_status c, ss_run_id = cn_sync_run_id c,
     ss_started_at = cn_sync_started_at c, ss_last_synced_at = cn_last_synced_at c, ss_synced_count = cn_synced_count c,
     ss_total_count = cn_total_count c, ss_last_sync_error = cn_last_sync_error c\<rparr>"

record entitlement_response =
  nr_org :: uuid
  nr_connector_type :: connector_type
  nr_enabled :: bool
  nr_granted_at :: datetime
  nr_revoked_at :: "datetime option"

definition entitlement_response_of :: "entitlement \<Rightarrow> entitlement_response" where
  "entitlement_response_of x = \<lparr>nr_org = en_org_id x, nr_connector_type = en_connector_type x, nr_enabled = en_enabled x,
     nr_granted_at = en_granted_at x, nr_revoked_at = en_revoked_at x\<rparr>"

section \<open>Guards and services\<close>

datatype capi_error = Auth_raised identity_error | Connector_raised connector_error | Unprocessable_body | Server_error

definition capi_status :: "capi_error \<Rightarrow> nat" where
  "capi_status err = (case err of Auth_raised x \<Rightarrow> http_status x | Connector_raised x \<Rightarrow> connector_http_status x
     | Unprocessable_body \<Rightarrow> 422 | Server_error \<Rightarrow> 500)"

type_synonym 'a capi = "mworld \<Rightarrow> (capi_error + 'a) \<times> mworld"

abbreviation mw_denylist :: "mworld \<Rightarrow> token_denylist" where
  "mw_denylist w \<equiv> w_denylist (cw_world (mw_connect w))"

definition tenant_route ::
  "bool \<Rightarrow> 'tok crypto \<Rightarrow> settings \<Rightarrow> env \<Rightarrow> 'tok option \<Rightarrow> (principal \<Rightarrow> uuid \<Rightarrow> 'a capi) \<Rightarrow> 'a capi" where
  "tenant_route admin cr st e credentials op w =
     (let caller = get_current_principal cr st e (mw_denylist w) credentials
      in case (if admin then require_company_admin caller else caller) of
           Inl err \<Rightarrow> (Inl (Auth_raised err), w)
         | Inr p \<Rightarrow>
           (case get_tenant_session caller of
              Inl err \<Rightarrow> (Inl (Auth_raised err), w)
            | Inr _ \<Rightarrow> op p (the (p_org_id p)) w))"

definition entitlement_route :: "'tok crypto \<Rightarrow> settings \<Rightarrow> env \<Rightarrow> 'tok option \<Rightarrow> (principal \<Rightarrow> 'a capi) \<Rightarrow> 'a capi" where
  "entitlement_route cr st e credentials op w =
     (case get_current_platform_admin cr st e (mw_denylist w) credentials of
        Inl err \<Rightarrow> (Inl (Auth_raised err), w)
      | Inr p \<Rightarrow> op p w)"

text \<open>What the providers build the services from.\<close>

record connector_deps =
  dp_cipher_lib :: cipher_lib
  dp_settings :: app_settings
  dp_nonce :: string
  dp_registry :: "imap_connector registry"
  dp_net :: net_lib
  dp_peer :: imap_peer
  dp_str :: "json \<Rightarrow> string"

definition with_connectors :: "connector_deps \<Rightarrow> (connector_env \<Rightarrow> 'a capi) \<Rightarrow> 'a capi" where
  "with_connectors d op w =
     (case cipher_for (dp_cipher_lib d) (dp_settings d) of
        Inl err \<Rightarrow> (Inl (Connector_raised err), w)
      | Inr ci \<Rightarrow> op (connector_env_for (dp_cipher_lib d) ci (dp_nonce d) (dp_registry d)
          (connector_egress_guard_enabled (dp_settings d)) (dp_net d) (dp_peer d)) w)"

definition valid_body :: "bool \<Rightarrow> 'a capi \<Rightarrow> 'a capi" where
  "valid_body ok op w = (if ok then op w else (Inl Unprocessable_body, w))"

text \<open>The route builds its response inside the transaction: when that raises, the request is rolled back to \<open>base\<close>.\<close>

definition answered :: "(mworld \<Rightarrow> mworld) \<Rightarrow> ('a \<Rightarrow> 'b option) \<Rightarrow> 'a mhandler \<Rightarrow> 'b capi" where
  "answered base view op w =
     (case op w of
        (Inl err, w') \<Rightarrow> (Inl (Connector_raised err), w')
      | (Inr a, w') \<Rightarrow> (case view a of None \<Rightarrow> (Inl Server_error, base w) | Some b \<Rightarrow> (Inr b, w')))"

definition reading :: "(connector_db \<Rightarrow> connector_error + 'a) \<Rightarrow> 'a mhandler" where
  "reading f w = (f (mw_db w), w)"

definition sync_view :: "uuid \<times> connection option \<Rightarrow> sync_status_response option" where
  "sync_view x = map_option sync_status_response_of (snd x)"

fun all_views :: "('a \<Rightarrow> 'b option) \<Rightarrow> 'a list \<Rightarrow> 'b list option" where
  "all_views view [] = Some []"
| "all_views view (x # xs) = Option.bind (view x) (\<lambda>y. map_option (Cons y) (all_views view xs))"

section \<open>The administrator's plane\<close>

definition create_connection_route ::
  "'tok crypto \<Rightarrow> settings \<Rightarrow> env \<Rightarrow> connector_deps \<Rightarrow> 'tok option \<Rightarrow> create_connection_request \<Rightarrow> connection_response capi" where
  "create_connection_route cr st e d c q = tenant_route True cr st e c (\<lambda>p org_id. with_connectors d (\<lambda>ce.
     valid_body (valid_create_connection q) (answered id (connection_response_of (dp_str d)) (create_connection ce e org_id q p None CONNECTOR_CREATED))))"

definition list_connections_route ::
  "'tok crypto \<Rightarrow> settings \<Rightarrow> env \<Rightarrow> connector_deps \<Rightarrow> 'tok option \<Rightarrow> connection_response list capi" where
  "list_connections_route cr st e d c = tenant_route True cr st e c (\<lambda>p org_id. with_connectors d (\<lambda>ce.
     answered id (all_views (connection_response_of (dp_str d))) (reading (\<lambda>db. Inr (list_connections db org_id)))))"

definition get_connection_route ::
  "'tok crypto \<Rightarrow> settings \<Rightarrow> env \<Rightarrow> connector_deps \<Rightarrow> 'tok option \<Rightarrow> uuid \<Rightarrow> connection_response capi" where
  "get_connection_route cr st e d c i = tenant_route True cr st e c (\<lambda>p org_id. with_connectors d (\<lambda>ce.
     answered id (connection_response_of (dp_str d)) (reading (\<lambda>db. get_connection db org_id i))))"

definition test_connection_route ::
  "'tok crypto \<Rightarrow> settings \<Rightarrow> env \<Rightarrow> connector_deps \<Rightarrow> 'tok option \<Rightarrow> (mworld \<Rightarrow> mworld) \<Rightarrow> uuid \<Rightarrow> connection_response capi" where
  "test_connection_route cr st e d c others i = tenant_route True cr st e c (\<lambda>p org_id. with_connectors d (\<lambda>ce.
     answered others (connection_response_of (dp_str d)) (test_connection ce e others org_id i None)))"

definition disable_connection_route ::
  "'tok crypto \<Rightarrow> settings \<Rightarrow> env \<Rightarrow> connector_deps \<Rightarrow> 'tok option \<Rightarrow> uuid \<Rightarrow> connection_response capi" where
  "disable_connection_route cr st e d c i = tenant_route True cr st e c (\<lambda>p org_id. with_connectors d (\<lambda>ce.
     answered id (connection_response_of (dp_str d)) (disable_connection e org_id i p)))"

definition enable_connection_route ::
  "'tok crypto \<Rightarrow> settings \<Rightarrow> env \<Rightarrow> connector_deps \<Rightarrow> 'tok option \<Rightarrow> uuid \<Rightarrow> connection_response capi" where
  "enable_connection_route cr st e d c i = tenant_route True cr st e c (\<lambda>p org_id. with_connectors d (\<lambda>ce.
     answered id (connection_response_of (dp_str d)) (enable_connection e org_id i p)))"

definition start_sync_route ::
  "'tok crypto \<Rightarrow> settings \<Rightarrow> env \<Rightarrow> connector_deps \<Rightarrow> 'tok option \<Rightarrow> uuid \<Rightarrow> sync_status_response capi" where
  "start_sync_route cr st e d c i = tenant_route True cr st e c (\<lambda>p org_id. with_connectors d (\<lambda>ce.
     answered id sync_view (on_connect (start_sync e org_id i (Some p) None))))"

definition get_sync_status_route ::
  "'tok crypto \<Rightarrow> settings \<Rightarrow> env \<Rightarrow> connector_deps \<Rightarrow> 'tok option \<Rightarrow> uuid \<Rightarrow> sync_status_response capi" where
  "get_sync_status_route cr st e d c i = tenant_route True cr st e c (\<lambda>p org_id. with_connectors d (\<lambda>ce.
     answered id (Some \<circ> sync_status_response_of) (reading (\<lambda>db. get_sync_status db org_id i None))))"

definition delete_connection_route ::
  "'tok crypto \<Rightarrow> settings \<Rightarrow> env \<Rightarrow> connector_deps \<Rightarrow> 'tok option \<Rightarrow> uuid \<Rightarrow> unit capi" where
  "delete_connection_route cr st e d c i = tenant_route True cr st e c (\<lambda>p org_id. with_connectors d (\<lambda>ce.
     answered id Some (delete_connection e org_id i p)))"

section \<open>Governance\<close>

definition get_governance_route :: "'tok crypto \<Rightarrow> settings \<Rightarrow> env \<Rightarrow> 'tok option \<Rightarrow> connector_type \<Rightarrow> governance_response capi" where
  "get_governance_route cr st e c t = tenant_route True cr st e c (\<lambda>p org_id.
     answered id Some (reading (\<lambda>db. Inr (get_governance db org_id t))))"

definition set_org_wide_policy :: "'tok crypto \<Rightarrow> settings \<Rightarrow> env \<Rightarrow> 'tok option \<Rightarrow> connector_type \<Rightarrow> bool \<Rightarrow> governance_response capi" where
  "set_org_wide_policy cr st e c t b = tenant_route True cr st e c (\<lambda>p org_id.
     answered id Some (set_org_wide e org_id t b p))"

definition set_user_override :: "'tok crypto \<Rightarrow> settings \<Rightarrow> env \<Rightarrow> 'tok option \<Rightarrow> connector_type \<Rightarrow> uuid \<Rightarrow> override_type \<Rightarrow> governance_response capi" where
  "set_user_override cr st e c t u x = tenant_route True cr st e c (\<lambda>p org_id.
     answered id Some (set_override e org_id u t x p))"

definition clear_user_override :: "'tok crypto \<Rightarrow> settings \<Rightarrow> env \<Rightarrow> 'tok option \<Rightarrow> connector_type \<Rightarrow> uuid \<Rightarrow> governance_response capi" where
  "clear_user_override cr st e c t u = tenant_route True cr st e c (\<lambda>p org_id.
     answered id Some (clear_override e org_id u t p))"

section \<open>The user's own plane\<close>

definition list_allowed_types_route ::
  "'tok crypto \<Rightarrow> settings \<Rightarrow> env \<Rightarrow> connector_deps \<Rightarrow> 'tok option \<Rightarrow> (connector_type \<times> bool \<times> string option) list capi" where
  "list_allowed_types_route cr st e d c = tenant_route False cr st e c (\<lambda>p org_id. with_connectors d (\<lambda>ce.
     answered id Some (reading (\<lambda>db. Inr (list_allowed_types db org_id (p_subject_id p))))))"

definition list_my_connections_route ::
  "'tok crypto \<Rightarrow> settings \<Rightarrow> env \<Rightarrow> connector_deps \<Rightarrow> 'tok option \<Rightarrow> connection_response list capi" where
  "list_my_connections_route cr st e d c = tenant_route False cr st e c (\<lambda>p org_id. with_connectors d (\<lambda>ce.
     answered id (all_views (connection_response_of (dp_str d))) (reading (\<lambda>db. Inr (list_my_connections db org_id (p_subject_id p))))))"

definition self_connect_route ::
  "'tok crypto \<Rightarrow> settings \<Rightarrow> env \<Rightarrow> connector_deps \<Rightarrow> 'tok option \<Rightarrow> self_connect_request \<Rightarrow> connection_response capi" where
  "self_connect_route cr st e d c q = tenant_route False cr st e c (\<lambda>p org_id. with_connectors d (\<lambda>ce.
     valid_body (valid_self_connect q) (answered id (connection_response_of (dp_str d)) (self_connect ce e org_id q p))))"

definition get_my_connection_route ::
  "'tok crypto \<Rightarrow> settings \<Rightarrow> env \<Rightarrow> connector_deps \<Rightarrow> 'tok option \<Rightarrow> uuid \<Rightarrow> connection_response capi" where
  "get_my_connection_route cr st e d c i = tenant_route False cr st e c (\<lambda>p org_id. with_connectors d (\<lambda>ce.
     answered id (connection_response_of (dp_str d)) (reading (\<lambda>db. get_my_connection db org_id (p_subject_id p) i))))"

definition test_my_connection_route ::
  "'tok crypto \<Rightarrow> settings \<Rightarrow> env \<Rightarrow> connector_deps \<Rightarrow> 'tok option \<Rightarrow> (mworld \<Rightarrow> mworld) \<Rightarrow> uuid \<Rightarrow> connection_response capi" where
  "test_my_connection_route cr st e d c others i = tenant_route False cr st e c (\<lambda>p org_id. with_connectors d (\<lambda>ce.
     answered others (connection_response_of (dp_str d)) (test_my_connection ce e others org_id (p_subject_id p) i)))"

definition sync_my_connection_route ::
  "'tok crypto \<Rightarrow> settings \<Rightarrow> env \<Rightarrow> connector_deps \<Rightarrow> 'tok option \<Rightarrow> uuid \<Rightarrow> sync_status_response capi" where
  "sync_my_connection_route cr st e d c i = tenant_route False cr st e c (\<lambda>p org_id. with_connectors d (\<lambda>ce.
     answered id sync_view (sync_my_connection e org_id (p_subject_id p) i p)))"

definition get_my_sync_status_route ::
  "'tok crypto \<Rightarrow> settings \<Rightarrow> env \<Rightarrow> connector_deps \<Rightarrow> 'tok option \<Rightarrow> uuid \<Rightarrow> sync_status_response capi" where
  "get_my_sync_status_route cr st e d c i = tenant_route False cr st e c (\<lambda>p org_id. with_connectors d (\<lambda>ce.
     answered id (Some \<circ> sync_status_response_of) (reading (\<lambda>db. get_my_sync_status db org_id (p_subject_id p) i))))"

definition disconnect_my_connection_route ::
  "'tok crypto \<Rightarrow> settings \<Rightarrow> env \<Rightarrow> connector_deps \<Rightarrow> 'tok option \<Rightarrow> uuid \<Rightarrow> unit capi" where
  "disconnect_my_connection_route cr st e d c i = tenant_route False cr st e c (\<lambda>p org_id. with_connectors d (\<lambda>ce.
     answered id Some (disconnect_my_connection e org_id (p_subject_id p) i p)))"

section \<open>The platform's entitlements\<close>

definition list_entitlements :: "'tok crypto \<Rightarrow> settings \<Rightarrow> env \<Rightarrow> 'tok option \<Rightarrow> uuid \<Rightarrow> entitlement_response list capi" where
  "list_entitlements cr st e c org_id = entitlement_route cr st e c (\<lambda>p.
     answered id (Some \<circ> map entitlement_response_of) (reading (\<lambda>db. Inr (entitlements_list_for_org db org_id))))"

definition set_entitlement_route :: "'tok crypto \<Rightarrow> settings \<Rightarrow> env \<Rightarrow> 'tok option \<Rightarrow> uuid \<Rightarrow> connector_type \<Rightarrow> bool \<Rightarrow> entitlement_response capi" where
  "set_entitlement_route cr st e c org_id t enabled = entitlement_route cr st e c (\<lambda>p.
     answered id (Some \<circ> entitlement_response_of) (set_entitlement e org_id t enabled p))"

section \<open>The router\<close>

datatype tenant_request =
    Create_connection create_connection_request
  | List_connections
  | Get_connection uuid
  | Test_connection uuid
  | Disable_connection uuid
  | Enable_connection uuid
  | Start_sync uuid
  | Get_sync_status uuid
  | Delete_connection uuid
  | Get_governance connector_type
  | Set_org_wide_policy connector_type bool
  | Set_user_override connector_type uuid override_type
  | Clear_user_override connector_type uuid
  | List_allowed_types
  | List_my_connections
  | Self_connect self_connect_request
  | Get_my_connection uuid
  | Test_my_connection uuid
  | Sync_my_connection uuid
  | Get_my_sync_status uuid
  | Disconnect_my_connection uuid

datatype capi_answer =
    Connection_answer connection_response
  | Connections_answer "connection_response list"
  | Status_answer sync_status_response
  | Governance_answer governance_response
  | Types_answer "(connector_type \<times> bool \<times> string option) list"
  | Done

definition replying :: "('a \<Rightarrow> capi_answer) \<Rightarrow> 'a capi \<Rightarrow> capi_answer capi" where
  "replying f h w = map_prod (map_sum id f) id (h w)"

fun serve_connectors ::
  "'tok crypto \<Rightarrow> settings \<Rightarrow> env \<Rightarrow> connector_deps \<Rightarrow> (mworld \<Rightarrow> mworld) \<Rightarrow> 'tok option \<Rightarrow> tenant_request \<Rightarrow> capi_answer capi" where
  "serve_connectors cr st e d others c (Create_connection q) = replying Connection_answer (create_connection_route cr st e d c q)"
| "serve_connectors cr st e d others c List_connections = replying Connections_answer (list_connections_route cr st e d c)"
| "serve_connectors cr st e d others c (Get_connection i) = replying Connection_answer (get_connection_route cr st e d c i)"
| "serve_connectors cr st e d others c (Test_connection i) = replying Connection_answer (test_connection_route cr st e d c others i)"
| "serve_connectors cr st e d others c (Disable_connection i) = replying Connection_answer (disable_connection_route cr st e d c i)"
| "serve_connectors cr st e d others c (Enable_connection i) = replying Connection_answer (enable_connection_route cr st e d c i)"
| "serve_connectors cr st e d others c (Start_sync i) = replying Status_answer (start_sync_route cr st e d c i)"
| "serve_connectors cr st e d others c (Get_sync_status i) = replying Status_answer (get_sync_status_route cr st e d c i)"
| "serve_connectors cr st e d others c (Delete_connection i) = replying (\<lambda>_. Done) (delete_connection_route cr st e d c i)"
| "serve_connectors cr st e d others c (Get_governance t) = replying Governance_answer (get_governance_route cr st e c t)"
| "serve_connectors cr st e d others c (Set_org_wide_policy t b) = replying Governance_answer (set_org_wide_policy cr st e c t b)"
| "serve_connectors cr st e d others c (Set_user_override t u x) = replying Governance_answer (set_user_override cr st e c t u x)"
| "serve_connectors cr st e d others c (Clear_user_override t u) = replying Governance_answer (clear_user_override cr st e c t u)"
| "serve_connectors cr st e d others c List_allowed_types = replying Types_answer (list_allowed_types_route cr st e d c)"
| "serve_connectors cr st e d others c List_my_connections = replying Connections_answer (list_my_connections_route cr st e d c)"
| "serve_connectors cr st e d others c (Self_connect q) = replying Connection_answer (self_connect_route cr st e d c q)"
| "serve_connectors cr st e d others c (Get_my_connection i) = replying Connection_answer (get_my_connection_route cr st e d c i)"
| "serve_connectors cr st e d others c (Test_my_connection i) = replying Connection_answer (test_my_connection_route cr st e d c others i)"
| "serve_connectors cr st e d others c (Sync_my_connection i) = replying Status_answer (sync_my_connection_route cr st e d c i)"
| "serve_connectors cr st e d others c (Get_my_sync_status i) = replying Status_answer (get_my_sync_status_route cr st e d c i)"
| "serve_connectors cr st e d others c (Disconnect_my_connection i) = replying (\<lambda>_. Done) (disconnect_my_connection_route cr st e d c i)"

fun own_plane :: "tenant_request \<Rightarrow> bool" where
  "own_plane List_allowed_types = True"
| "own_plane List_my_connections = True"
| "own_plane (Self_connect q) = True"
| "own_plane (Get_my_connection i) = True"
| "own_plane (Test_my_connection i) = True"
| "own_plane (Sync_my_connection i) = True"
| "own_plane (Get_my_sync_status i) = True"
| "own_plane (Disconnect_my_connection i) = True"
| "own_plane _ = False"

section \<open>Nothing gets past a guard\<close>

definition tenant_caller :: "bool \<Rightarrow> 'tok crypto \<Rightarrow> settings \<Rightarrow> env \<Rightarrow> mworld \<Rightarrow> 'tok option \<Rightarrow> principal \<Rightarrow> uuid \<Rightarrow> bool" where
  "tenant_caller admin cr st e w c p g \<longleftrightarrow> get_current_principal cr st e (mw_denylist w) c = Inr p
     \<and> (admin \<longrightarrow> p_role p = role_value company_admin) \<and> p_org_id p = Some g"

lemma tenant_caller_runs: "tenant_caller admin cr st e w c p g \<Longrightarrow> tenant_route admin cr st e c op w = op p g w"
  by (cases admin) (auto simp: tenant_route_def Let_def tenant_caller_def require_company_admin_def get_tenant_session_def)

lemma tenant_route_refuses:
  assumes "\<And>p g. \<not> tenant_caller admin cr st e w c p g"
  shows "\<exists>err. tenant_route admin cr st e c op w = (Inl (Auth_raised err), w) \<and> http_status err \<in> {401, 403}"
proof (cases "get_current_principal cr st e (mw_denylist w) c")
  case (Inl err)
  with guard_status(1)[OF Inl] show ?thesis by (cases admin) (auto simp: tenant_route_def Let_def require_company_admin_def)
next
  case (Inr p)
  with assms[of p] have "admin \<and> p_role p \<noteq> role_value company_admin \<or> p_org_id p = None"
    by (auto simp: tenant_caller_def)
  with Inr show ?thesis by (cases admin) (auto simp: tenant_route_def Let_def require_company_admin_def get_tenant_session_def)
qed

lemma guarded_tenant:
  "(\<exists>p g. tenant_caller admin cr st e w c p g)
   \<or> (\<exists>err. replying f (tenant_route admin cr st e c op) w = (Inl err, w) \<and> capi_status err \<in> {401, 403})"
proof (cases "\<exists>p g. tenant_caller admin cr st e w c p g")
  case False
  with tenant_route_refuses[of admin cr st e w c op] obtain err
    where "tenant_route admin cr st e c op w = (Inl (Auth_raised err), w)" "http_status err \<in> {401, 403}" by auto
  then show ?thesis by (intro disjI2 exI[of _ "Auth_raised err"]) (simp add: replying_def capi_status_def)
qed simp

lemmas connector_routes = create_connection_route_def list_connections_route_def get_connection_route_def test_connection_route_def
  disable_connection_route_def enable_connection_route_def start_sync_route_def get_sync_status_route_def delete_connection_route_def
  get_governance_route_def set_org_wide_policy_def set_user_override_def clear_user_override_def list_allowed_types_route_def
  list_my_connections_route_def self_connect_route_def get_my_connection_route_def test_my_connection_route_def
  sync_my_connection_route_def get_my_sync_status_route_def disconnect_my_connection_route_def

text \<open>
  Every connector route is guarded: the administrator's plane and governance by an administrator's token, the own plane by the token of
  a user of a company; otherwise the answer is 401 or 403 and nothing has changed.
\<close>

theorem connector_api_guarded:
  "(\<exists>p g. tenant_caller (\<not> own_plane q) cr st e w c p g)
   \<or> (\<exists>err. serve_connectors cr st e d others c q w = (Inl err, w) \<and> capi_status err \<in> {401, 403})"
  by (cases q; simp only: serve_connectors.simps connector_routes own_plane.simps not_True_eq_False not_False_eq_True; rule guarded_tenant)

section \<open>Rows of other companies\<close>

definition rows_of_others :: "('r \<Rightarrow> uuid) \<Rightarrow> uuid \<Rightarrow> 'r list \<Rightarrow> 'r list" where
  "rows_of_others org g t = filter (\<lambda>r. org r \<noteq> g) t"

definition db_confined :: "uuid \<Rightarrow> connector_db \<Rightarrow> connector_db \<Rightarrow> bool" where
  "db_confined g db db' \<longleftrightarrow> entitlements db' = entitlements db
     \<and> rows_of_others cn_org_id g (connections db') = rows_of_others cn_org_id g (connections db)
     \<and> rows_of_others sc_org_id g (sync_cursors db') = rows_of_others sc_org_id g (sync_cursors db)
     \<and> rows_of_others sr_org_id g (sync_runs db') = rows_of_others sr_org_id g (sync_runs db)
     \<and> rows_of_others cs_org_id g (consents db') = rows_of_others cs_org_id g (consents db)
     \<and> rows_of_others po_org_id g (policies db') = rows_of_others po_org_id g (policies db)
     \<and> rows_of_others ov_org_id g (overrides db') = rows_of_others ov_org_id g (overrides db)"

definition mail_confined :: "uuid \<Rightarrow> mail_db \<Rightarrow> mail_db \<Rightarrow> bool" where
  "mail_confined g m m' \<longleftrightarrow> md_entities m' = md_entities m \<and> source_identities m' = source_identities m \<and> promotions m' = promotions m
     \<and> rows_of_others em_org_id g (email_messages m') = rows_of_others em_org_id g (email_messages m)
     \<and> rows_of_others er_org_id g (email_recipients m') = rows_of_others er_org_id g (email_recipients m)
     \<and> rows_of_others ea_org_id g (email_attachments m') = rows_of_others ea_org_id g (email_attachments m)
     \<and> rows_of_others ag_org_id g (acl_grants m') = rows_of_others ag_org_id g (acl_grants m)"

definition conn_confined :: "uuid \<Rightarrow> mworld \<Rightarrow> mworld \<Rightarrow> bool" where
  "conn_confined g w w' \<longleftrightarrow> db_confined g (mw_db w) (mw_db w') \<and> mail_confined g (mw_mail w) (mw_mail w')
     \<and> tenant_confined g (cw_world (mw_connect w)) (cw_world (mw_connect w'))"

lemma conn_confined_refl [simp]: "conn_confined g w w"
  by (simp add: conn_confined_def db_confined_def mail_confined_def)

lemma others_append: "org r = g \<Longrightarrow> rows_of_others org g (t @ [r]) = rows_of_others org g t"
  by (simp add: rows_of_others_def)

lemma others_delete: "(\<And>r. P r \<Longrightarrow> org r = g) \<Longrightarrow> rows_of_others org g (delete_where P t) = rows_of_others org g t"
  by (induction t) (auto simp: rows_of_others_def delete_where_def)

lemma others_update: "(\<And>r. r \<in> set t \<Longrightarrow> P r \<Longrightarrow> org r = g \<and> org (f r) = g) \<Longrightarrow> rows_of_others org g (update_where P f t) = rows_of_others org g t"
  by (induction t) (auto simp: rows_of_others_def update_where_def)

lemmas others_simps = others_append others_delete others_update

lemma confined_set: "conn_confined g w w' \<Longrightarrow> db_confined g (mw_db w') db \<Longrightarrow> conn_confined g w (set_connectors db w')"
  by (simp add: conn_confined_def db_confined_def set_connectors_def)

lemma confined_audit: "conn_confined g w w' \<Longrightarrow> ae_org_id ev = Some g \<Longrightarrow> conn_confined g w (audit_event_in e i ev w')"
  by (simp add: conn_confined_def audit_event_in_def confined_record)

lemma cascade_confined: "cn_org_id c = g \<Longrightarrow> mail_confined g m (cascade_mail c m)"
  by (auto simp: mail_confined_def cascade_mail_def Let_def of_connection_def intro!: others_delete)

lemma db_confined_trans: "db_confined g a b \<Longrightarrow> db_confined g b c \<Longrightarrow> db_confined g a c"
  by (simp add: db_confined_def)

lemma mail_confined_trans: "mail_confined g a b \<Longrightarrow> mail_confined g b c \<Longrightarrow> mail_confined g a c"
  by (simp add: mail_confined_def)

lemma confined_connections_delete: "cn_org_id c = g \<Longrightarrow> db_confined g db (connections_delete c db)"
  by (auto simp: db_confined_def connections_delete_def intro!: others_delete)

lemma confined_delete: "conn_confined g w w' \<Longrightarrow> cn_org_id c = g \<Longrightarrow> conn_confined g w (delete_row c w')"
  using cascade_confined[of c g "mw_mail w'"] confined_connections_delete[of c g "mw_db w'"]
  by (simp add: conn_confined_def delete_row_def set_connectors_def) (metis db_confined_trans mail_confined_trans)

subsection \<open>The statements\<close>

lemma confined_insert: "connections_insert idb c db = Inr db' \<Longrightarrow> cn_org_id c = g \<Longrightarrow> db_confined g db db'"
  by (auto simp: connections_insert_def db_confined_def others_append split: if_splits)

lemma confined_update_id:
  assumes "distinct (map cn_id (connections db))" and "c \<in> set (connections db)" and "cn_org_id c = g" and "\<And>x. cn_org_id x = g \<Longrightarrow> cn_org_id (f x) = g"
  shows "db_confined g db (db\<lparr>connections := update_where (\<lambda>x. cn_id x = cn_id c) f (connections db)\<rparr>)"
proof -
  have "cn_org_id x = g" if "x \<in> set (connections db)" "cn_id x = cn_id c" for x
    using assms(1-3) that by (metis distinct_map inj_onD)
  with assms(4) show ?thesis by (simp add: db_confined_def others_update)
qed

lemma confined_claim: "claim_for_sync now g i r s db = (b, db') \<Longrightarrow> db_confined g db db'"
  by (auto simp: claim_for_sync_def db_confined_def claimable_def claim_row_def intro!: others_update)

lemma confined_start: "db_confined g db (start_run now j g i r db)"
  by (simp add: db_confined_def start_run_def others_append)

lemma confined_abandon: "db_confined g db (mark_stale_running_abandoned now g i r db)"
  by (auto simp: db_confined_def mark_stale_running_abandoned_def intro!: others_update)

lemmas confined_ledger = db_confined_trans[OF confined_start confined_abandon]

lemma confined_consent: "consents_insert idb x db = Some db' \<Longrightarrow> cs_org_id x = g \<Longrightarrow> db_confined g db db'"
  by (auto simp: consents_insert_def db_confined_def others_append split: if_splits)

lemma confined_withdraw: "consents_withdraw_active now g u t db = (n, db') \<Longrightarrow> db_confined g db db'"
  by (auto simp: consents_withdraw_active_def db_confined_def active_consent_def intro!: others_update)

lemma confined_policy: "policies_upsert idb g t b u db = Some db' \<Longrightarrow> db_confined g db db'"
  by (auto simp: policies_upsert_def db_confined_def Let_def others_append split: if_splits option.splits intro!: others_update)

lemma confined_override: "overrides_upsert idb g u t x by' db = Some db' \<Longrightarrow> db_confined g db db'"
  by (auto simp: overrides_upsert_def db_confined_def Let_def others_append split: if_splits option.splits intro!: others_update)

lemma confined_clear: "db_confined g db (overrides_delete g u t db)"
  by (auto simp: overrides_delete_def db_confined_def intro!: others_delete)

section \<open>The services are confined\<close>

definition keys_ok :: "mworld \<Rightarrow> bool" where
  "keys_ok w \<longleftrightarrow> distinct (map cn_id (connections (mw_db w)))"

text \<open>What a route needs of the operation it calls.\<close>

locale conn_handler =
  fixes op :: "'a mhandler" and g :: uuid and own :: "'a \<Rightarrow> bool"
  assumes confined: "keys_ok w \<Longrightarrow> op w = (r, w') \<Longrightarrow> conn_confined g w w'"
    and answers_own: "keys_ok w \<Longrightarrow> op w = (Inr a, w') \<Longrightarrow> own a"

lemma load_404_mem: "load_or_404 db g i o' = Inr c \<Longrightarrow> c \<in> set (connections db) \<and> cn_org_id c = g \<and> cn_owner_user_id c = o'"
  by (auto simp: load_or_404_def split: option.splits dest: load_scoped_mem)

lemma save_confined:
  assumes "keys_ok w" and "load_or_404 (mw_db w) g i o' = Inr c" and "cn_id c' = cn_id c" and "cn_org_id c' = cn_org_id c"
  shows "db_confined g (mw_db w) (connections_save c' (mw_db w))"
  using confined_update_id[of "mw_db w" c g "\<lambda>_. c'"] load_404_mem[OF assms(2)] assms by (simp add: connections_save_def keys_ok_def)

lemma connection_event_org [simp]: "ae_org_id (connection_event a p c ds) = Some (cn_org_id c)"
  by (simp add: connection_event_def)

abbreviation owned_by :: "uuid \<Rightarrow> uuid option \<Rightarrow> connection \<Rightarrow> bool" where
  "owned_by g owner c \<equiv> cn_org_id c = g \<and> cn_owner_user_id c = owner"

lemma create_confined:
  assumes "create_connection ce e g q p owner act w = (r, w')"
  shows "conn_confined g w w'" and "r = Inr c \<Longrightarrow> owned_by g owner c"
proof -
  show "conn_confined g w w'"
    using assms by (auto simp: create_connection_def Let_def new_connection_def split: if_splits option.splits sum.splits
        intro!: confined_audit confined_set dest!: confined_insert[where g = g])
  show "r = Inr c \<Longrightarrow> owned_by g owner c"
    using assms by (auto simp: create_connection_def Let_def new_connection_def split: if_splits option.splits sum.splits)
qed

interpretation ch_create: conn_handler "create_connection ce e g q p owner act" g "owned_by g owner" for ce e g q p owner act
  by unfold_locales (auto dest: create_confined)

interpretation ch_disable: conn_handler "disable_connection e g i p" g "owned_by g None" for e g i p
proof
  fix w w' :: mworld and r a
  assume k: "keys_ok w"
  show "disable_connection e g i p w = (r, w') \<Longrightarrow> conn_confined g w w'"
    using save_confined[OF k] load_404_mem
    by (auto simp: disable_connection_def get_connection_def Let_def split: sum.splits if_splits intro!: confined_audit confined_set)
  show "disable_connection e g i p w = (Inr a, w') \<Longrightarrow> owned_by g None a"
    by (auto simp: disable_connection_def get_connection_def Let_def split: sum.splits if_splits dest: load_404_mem)
qed

interpretation ch_enable: conn_handler "enable_connection e g i p" g "owned_by g None" for e g i p
proof
  fix w w' :: mworld and r a
  assume k: "keys_ok w"
  show "enable_connection e g i p w = (r, w') \<Longrightarrow> conn_confined g w w'"
    using save_confined[OF k] load_404_mem
    by (auto simp: enable_connection_def get_connection_def Let_def split: sum.splits if_splits intro!: confined_audit confined_set)
  show "enable_connection e g i p w = (Inr a, w') \<Longrightarrow> owned_by g None a"
    by (auto simp: enable_connection_def get_connection_def Let_def split: sum.splits if_splits dest: load_404_mem)
qed

interpretation ch_delete: conn_handler "delete_connection e g i p" g "\<lambda>_. True" for e g i p
proof
  fix w w' :: mworld and r
  show "delete_connection e g i p w = (r, w') \<Longrightarrow> conn_confined g w w'"
    by (auto simp: delete_connection_def get_connection_def split: sum.splits dest!: load_404_mem intro!: confined_delete confined_audit)
qed simp

interpretation ch_test: conn_handler "test_connection ce e id g i owner" g "owned_by g owner" for ce e g i owner
proof
  fix w w' :: mworld and r a
  assume k: "keys_ok w"
  have stamp: "db_confined g (mw_db w) ((mw_db w)\<lparr>connections := update_where (\<lambda>x. cn_id x = cn_id c) (stamp_check e ck) (connections (mw_db w))\<rparr>)"
    if "load_or_404 (mw_db w) g i owner = Inr c" for c ck
    using confined_update_id[of "mw_db w" c g] load_404_mem[OF that] k by (simp add: keys_ok_def stamp_check_def)
  show "test_connection ce e id g i owner w = (r, w') \<Longrightarrow> conn_confined g w w'"
    by (auto simp: test_connection_def Let_def split: sum.splits if_splits intro!: confined_set stamp)
  show "test_connection ce e id g i owner w = (Inr a, w') \<Longrightarrow> owned_by g owner a"
    by (auto simp: test_connection_def Let_def stamp_check_def split: sum.splits if_splits dest!: load_404_mem)
qed

interpretation ch_test_my: conn_handler "test_my_connection ce e id g u i" g "owned_by g (Some u)" for ce e g u i
proof
  fix w w' :: mworld and r a
  assume k: "keys_ok w"
  show "test_my_connection ce e id g u i w = (r, w') \<Longrightarrow> conn_confined g w w'"
    using ch_test.confined[OF k] by (auto simp: test_my_connection_def split: sum.splits option.splits)
  show "test_my_connection ce e id g u i w = (Inr a, w') \<Longrightarrow> owned_by g (Some u) a"
    using ch_test.answers_own[OF k] by (auto simp: test_my_connection_def split: sum.splits option.splits)
qed

lemma confined_connect:
  assumes "db_confined g (mw_db w) db" and "ae_org_id ev = Some g"
  shows "conn_confined g w (w\<lparr>mw_connect := \<lparr>cw_world = record_event e n ev (cw_world (mw_connect w)), cw_db = db\<rparr>\<rparr>)"
  using assms confined_record[OF tenant_confined_refl] by (simp add: conn_confined_def mail_confined_def)

interpretation ch_sync: conn_handler "on_connect (start_sync e g i p owner)" g "\<lambda>x. \<forall>c. snd x = Some c \<longrightarrow> owned_by g owner c" for e g i p owner
proof
  fix w w' :: mworld and r a
  have claimed: "db_confined g (mw_db w) (mark_stale_running_abandoned now g i k (start_run now' j g i k (snd (claim_for_sync now'' g i k' s (mw_db w)))))"
    for now now' now'' j k k' s
    using db_confined_trans[OF confined_claim confined_ledger] by (metis prod.collapse)
  show "on_connect (start_sync e g i p owner) w = (r, w') \<Longrightarrow> conn_confined g w w'"
    using claimed by (auto simp: on_connect_def start_sync_def Let_def split_beta split: option.splits if_splits prod.splits
        intro!: confined_connect)
  show "on_connect (start_sync e g i p owner) w = (Inr a, w') \<Longrightarrow> \<forall>c. snd a = Some c \<longrightarrow> owned_by g owner c"
    by (auto simp: on_connect_def start_sync_def Let_def split_beta split: option.splits if_splits prod.splits dest: load_scoped_mem)
qed

interpretation ch_sync_my: conn_handler "sync_my_connection e g u i p" g "\<lambda>x. \<forall>c. snd x = Some c \<longrightarrow> owned_by g (Some u) c" for e g u i p
proof
  fix w w' :: mworld and r a
  assume k: "keys_ok w"
  show "sync_my_connection e g u i p w = (r, w') \<Longrightarrow> conn_confined g w w'"
    using ch_sync.confined[OF k] by (auto simp: sync_my_connection_def split: sum.splits option.splits)
  show "sync_my_connection e g u i p w = (Inr a, w') \<Longrightarrow> \<forall>c. snd a = Some c \<longrightarrow> owned_by g (Some u) c"
    using ch_sync.answers_own[OF k] by (auto simp: sync_my_connection_def split: sum.splits option.splits)
qed

lemma consent_confined:
  assumes "conn_confined g w w1" and "consent_record e k g t x m v p w1 = (r, w')"
  shows "conn_confined g w w'"
  using assms by (auto simp: consent_record_def Let_def split: option.splits intro!: confined_audit confined_set dest!: confined_consent[where g = g])

lemma withdraw_confined: "conn_confined g w (consent_withdraw e k g t p w)"
  by (auto simp: consent_withdraw_def Let_def split: prod.splits intro!: confined_audit confined_set dest: confined_withdraw)

interpretation ch_self: conn_handler "self_connect ce e g q p" g "owned_by g (Some (p_subject_id p))" for ce e g q p
proof
  fix w w' :: mworld and r a
  show "self_connect ce e g q p w = (r, w') \<Longrightarrow> conn_confined g w w'"
    by (auto simp: self_connect_def Let_def split: if_splits prod.splits sum.splits dest!: create_confined(1) elim: consent_confined)
  show "self_connect ce e g q p w = (Inr a, w') \<Longrightarrow> owned_by g (Some (p_subject_id p)) a"
    by (auto simp: self_connect_def Let_def split: if_splits prod.splits sum.splits dest!: create_confined(2))
qed

interpretation ch_disconnect: conn_handler "disconnect_my_connection e g u i p" g "\<lambda>_. True" for e g u i p
proof
  fix w w' :: mworld and r
  show "disconnect_my_connection e g u i p w = (r, w') \<Longrightarrow> conn_confined g w w'"
    by (auto simp: disconnect_my_connection_def get_my_connection_scoped Let_def split: sum.splits dest!: load_404_mem
        intro!: confined_delete confined_audit withdraw_confined)
qed simp

text \<open>A governance view shows metadata of the organization's connections only.\<close>

definition governance_of :: "uuid \<Rightarrow> governance_response \<Rightarrow> bool" where
  "governance_of g x \<longleftrightarrow> (\<forall>m \<in> set (gr_connections x). \<exists>c. cn_org_id c = g \<and> m = metadata_of c)"

lemma governance_within: "governance_of g (get_governance db g t)"
  by (auto simp: governance_of_def get_governance_def build_governance_def connections_list_for_org_def select_where_def)

lemma policy_change_confined: "conn_confined g w w' \<Longrightarrow> conn_confined g w (record_policy_change e g p ds w')"
  by (simp add: record_policy_change_def confined_audit)

interpretation ch_org_wide: conn_handler "set_org_wide e g t b p" g "governance_of g" for e g t b p
  by unfold_locales (auto simp: set_org_wide_def Let_def governance_within split: if_splits option.splits
      intro!: policy_change_confined confined_set dest!: confined_policy)

interpretation ch_override: conn_handler "set_override e g u t x p" g "governance_of g" for e g u t x p
  by unfold_locales (auto simp: set_override_def Let_def governance_within split: if_splits option.splits
      intro!: policy_change_confined confined_set dest!: confined_override)

interpretation ch_clear: conn_handler "clear_override e g u t p" g "governance_of g" for e g u t p
  by unfold_locales (auto simp: clear_override_def Let_def governance_within intro!: policy_change_confined confined_set confined_clear)

section \<open>Tenants and planes are isolated\<close>

definition stays_within :: "uuid \<Rightarrow> (capi_answer \<Rightarrow> bool) \<Rightarrow> mworld \<Rightarrow> (capi_error + capi_answer) \<times> mworld \<Rightarrow> bool" where
  "stays_within g Q w out \<longleftrightarrow> conn_confined g w (snd out) \<and> (\<forall>a. fst out = Inr a \<longrightarrow> Q a)"

context conn_handler
begin

lemma answered_within:
  assumes "keys_ok w" and "base w = w" and "\<And>a b. own a \<Longrightarrow> view a = Some b \<Longrightarrow> Q (f b)"
  shows "stays_within g Q w (replying f (answered base view op) w)"
proof -
  obtain r w' where op: "op w = (r, w')" by fastforce
  from confined[OF assms(1) op] answers_own[OF assms(1)] op assms(2,3) show ?thesis
    by (cases r) (auto simp: stays_within_def replying_def answered_def split: option.splits)
qed

end

lemma reading_within:
  "(\<And>db a b. q db = Inr a \<Longrightarrow> view a = Some b \<Longrightarrow> Q (f b)) \<Longrightarrow> stays_within g Q w (replying f (answered id view (reading q)) w)"
  by (auto simp: stays_within_def replying_def answered_def reading_def split: sum.splits option.splits)

lemma tenant_within:
  "tenant_caller admin cr st e w c p g \<Longrightarrow> stays_within g Q w (replying f (op p g) w) \<Longrightarrow> stays_within g Q w (replying f (tenant_route admin cr st e c op) w)"
  by (simp add: stays_within_def replying_def tenant_caller_runs)

lemma with_within: "(\<And>ce. stays_within g Q w (replying f (k ce) w)) \<Longrightarrow> stays_within g Q w (replying f (with_connectors d k) w)"
  by (simp add: stays_within_def replying_def with_connectors_def split: sum.splits)

lemma valid_within: "stays_within g Q w (replying f op w) \<Longrightarrow> stays_within g Q w (replying f (valid_body b op) w)"
  by (simp add: stays_within_def replying_def valid_body_def)

text \<open>\<open>answer_from\<close>: what is answered are views of connections that satisfy \<open>P\<close>.\<close>

fun answer_from :: "(json \<Rightarrow> string) \<Rightarrow> uuid \<Rightarrow> (connection \<Rightarrow> bool) \<Rightarrow> capi_answer \<Rightarrow> bool" where
  "answer_from str g P (Connection_answer r) = (\<exists>c. P c \<and> connection_response_of str c = Some r)"
| "answer_from str g P (Connections_answer rs) = (\<forall>r \<in> set rs. \<exists>c. P c \<and> connection_response_of str c = Some r)"
| "answer_from str g P (Status_answer r) = (\<exists>c. P c \<and> r = sync_status_response_of c)"
| "answer_from str g P (Governance_answer x) = governance_of g x"
| "answer_from str g P (Types_answer ts) = True"
| "answer_from str g P Done = True"

lemma all_views_mem: "all_views view xs = Some ys \<Longrightarrow> y \<in> set ys \<Longrightarrow> \<exists>x \<in> set xs. view x = Some y"
  by (induction xs arbitrary: ys) (auto split: bind_splits)

lemma own_plane_loads:
  "get_connection db g i = Inr c \<Longrightarrow> owned_by g None c" "get_my_connection db g u i = Inr c \<Longrightarrow> owned_by g (Some u) c"
  "get_sync_status db g i o' = Inr c \<Longrightarrow> owned_by g o' c" "get_my_sync_status db g u i = Inr c \<Longrightarrow> owned_by g (Some u) c"
  "c \<in> set (list_connections db g) \<Longrightarrow> owned_by g None c" "c \<in> set (list_my_connections db g u) \<Longrightarrow> owned_by g (Some u) c"
  by (auto simp: get_connection_def get_my_connection_scoped get_sync_status_def get_my_sync_status_def list_connections_def list_my_connections_def
      connections_list_shared_for_org_def connections_list_for_owner_def select_where_def split: option.splits
      dest: load_404_mem load_scoped_mem)

lemmas handlers_within = ch_create.answered_within ch_disable.answered_within ch_enable.answered_within ch_delete.answered_within
  ch_test.answered_within ch_test_my.answered_within ch_sync.answered_within ch_sync_my.answered_within ch_self.answered_within
  ch_disconnect.answered_within ch_org_wide.answered_within ch_override.answered_within ch_clear.answered_within

lemma serve_connectors_within:
  assumes "keys_ok w" and "tenant_caller (\<not> own_plane q) cr st e w c p g"
  shows "stays_within g (answer_from (dp_str d) g (owned_by g (if own_plane q then Some (p_subject_id p) else None))) w
    (serve_connectors cr st e d id c q w)"
  using assms
  by (cases q; simp only: serve_connectors.simps connector_routes own_plane.simps not_True_eq_False not_False_eq_True if_True if_False;
      auto simp: sync_view_def governance_within intro!: tenant_within with_within valid_within handlers_within reading_within;
      blast dest: own_plane_loads all_views_mem)


definition demo_deps :: connector_deps where
  "demo_deps = \<lparr>dp_cipher_lib = demo_cipher_lib, dp_settings = default_settings, dp_nonce = [], dp_registry = [], dp_net = demo_net, dp_peer = willing_peer,
     dp_str = (\<lambda>_. [])\<rparr>"

lemma demo_admin_in:
  "tenant_caller (\<not> own_plane (Set_org_wide_policy imap False)) demo_crypto demo_settings (demo_env 2500000) demo_mworld (Some demo_admin_token) demo_admin 7"
  using demo_admin_calls by (simp add: tenant_caller_def company_caller_def demo_mworld_def demo_cworld_def demo_world_def)


end
