(* ===== verification/Http_Guard.thy ===== *)
theory Http_Guard
  imports App_Settings
begin

text \<open>
  The ASGI middleware around every request: the body-size guard (\<open>core/middleware.py\<close>) and the request context
  (\<open>core/request_context.py\<close>). The application behind the guard is any program that receives and sends messages; what it receives and what
  the client is sent is a trace.
\<close>

section \<open>Programs behind a middleware\<close>

text \<open>Messages from the server: a part of the request body, or one of another type (a disconnect among them).\<close>

datatype asgi_message = Http_request string | Http_other string

abbreviation http_disconnect :: asgi_message where
  "http_disconnect \<equiv> Http_other ''http.disconnect''"

datatype 'm asgi_app =
    Returns
  | Raises_exception
  | Receive "asgi_message \<Rightarrow> 'm asgi_app"
  | Send 'm "'m asgi_app"

datatype 'm asgi_event = Got asgi_message | Sent 'm

text \<open>
  The server's side of \<open>receive\<close>: the messages of the client in order, then disconnects. A run is its trace and whether an exception leaves it.
\<close>

primrec run_app :: "'m asgi_app \<Rightarrow> asgi_message list \<Rightarrow> 'm asgi_event list \<times> bool" where
  "run_app Returns ms = ([], False)"
| "run_app Raises_exception ms = ([], True)"
| "run_app (Receive k) ms =
     (let (m, rest) = (case ms of [] \<Rightarrow> (http_disconnect, []) | m # rest \<Rightarrow> (m, rest)); (tr, raised) = run_app (k m) rest in (Got m # tr, raised))"
| "run_app (Send x p) ms = (let (tr, raised) = run_app p ms in (Sent x # tr, raised))"

section \<open>The body-size guard\<close>

text \<open>
  \<open>limited_receive\<close> and \<open>guarded_send\<close> around the application, with the variables \<open>received\<close> and \<open>rejected\<close> they share; \<open>reject\<close> are the
  messages of the 413 response.
\<close>

primrec run_limited :: "'m list \<Rightarrow> nat \<Rightarrow> 'm asgi_app \<Rightarrow> nat \<Rightarrow> bool \<Rightarrow> asgi_message list \<Rightarrow> 'm asgi_event list \<times> bool" where
  "run_limited reject max_bytes Returns received rejected ms = ([], False)"
| "run_limited reject max_bytes Raises_exception received rejected ms = ([], \<not> rejected)"
| "run_limited reject max_bytes (Receive k) received rejected ms =
     (if rejected then (let (tr, raised) = run_limited reject max_bytes (k http_disconnect) received True ms in (Got http_disconnect # tr, raised))
      else (let (m, rest) = (case ms of [] \<Rightarrow> (http_disconnect, []) | m # rest \<Rightarrow> (m, rest)) in
        case m of
          Http_other _ \<Rightarrow> (let (tr, raised) = run_limited reject max_bytes (k m) received False rest in (Got m # tr, raised))
        | Http_request body \<Rightarrow>
            (let received' = received + length body
             in if received' \<le> max_bytes
                then (let (tr, raised) = run_limited reject max_bytes (k m) received' False rest in (Got m # tr, raised))
                else (let (tr, raised) = run_limited reject max_bytes (k http_disconnect) received' True rest
                      in (map Sent reject @ Got http_disconnect # tr, raised)))))"
| "run_limited reject max_bytes (Send x p) received rejected ms =
     (let (tr, raised) = run_limited reject max_bytes p received rejected ms in (if rejected then tr else Sent x # tr, raised))"

text \<open>\<open>str.isdigit\<close> admits the superscript digits, which \<open>int\<close> refuses: \<open>None\<close> is its \<open>ValueError\<close>.\<close>

definition py_isdigit :: "string \<Rightarrow> bool" where
  "py_isdigit s \<longleftrightarrow> s \<noteq> [] \<and> list_all (\<lambda>c. (48 \<le> code c \<and> code c \<le> 57) \<or> code c \<in> {178, 179, 185}) s"

definition decimal_value :: "string \<Rightarrow> nat option" where
  "decimal_value s = (if list_all (\<lambda>c. 48 \<le> code c \<and> code c \<le> 57) s then Some (foldl (\<lambda>n c. n * 10 + (code c - 48)) 0 s) else None)"

definition max_body_size :: "'m list \<Rightarrow> nat \<Rightarrow> 'm asgi_app \<Rightarrow> bool \<Rightarrow> (string \<rightharpoonup> string) \<Rightarrow> asgi_message list \<Rightarrow> 'm asgi_event list \<times> bool" where
  "max_body_size reject max_bytes app is_http header ms =
     (if \<not> is_http then run_app app ms
      else (case header ''content-length'' of
              Some v \<Rightarrow>
                if py_isdigit v
                then (case decimal_value v of
                        None \<Rightarrow> ([], True)
                      | Some n \<Rightarrow> if n > max_bytes then (map Sent reject, False) else run_limited reject max_bytes app 0 False ms)
                else run_limited reject max_bytes app 0 False ms
            | None \<Rightarrow> run_limited reject max_bytes app 0 False ms))"

section \<open>What the guard promises\<close>

fun body_bytes :: "asgi_message list \<Rightarrow> nat" where
  "body_bytes [] = 0"
| "body_bytes (Http_request b # ms) = length b + body_bytes ms"
| "body_bytes (Http_other _ # ms) = body_bytes ms"

fun got :: "'m asgi_event list \<Rightarrow> asgi_message list" where
  "got [] = []"
| "got (Got m # tr) = m # got tr"
| "got (Sent _ # tr) = got tr"

fun sent :: "'m asgi_event list \<Rightarrow> 'm list" where
  "sent [] = []"
| "sent (Got _ # tr) = sent tr"
| "sent (Sent x # tr) = x # sent tr"

lemma got_append [simp]: "got (a @ b) = got a @ got b"
  by (induction a rule: got.induct) auto

lemma sent_append [simp]: "sent (a @ b) = sent a @ sent b"
  by (induction a rule: sent.induct) auto

lemma got_Sent [simp]: "got (map Sent xs) = []" and sent_Sent [simp]: "sent (map Sent xs) = xs"
  by (induction xs) auto

lemma run_rejected: "sent (fst (run_limited reject n p received True ms)) = []
    \<and> body_bytes (got (fst (run_limited reject n p received True ms))) = 0 \<and> \<not> snd (run_limited reject n p received True ms)"
  by (induction p arbitrary: received ms) (auto simp: Let_def split_beta)

lemma run_limited_bounded:
  "received \<le> n \<Longrightarrow> received + body_bytes (got (fst (run_limited reject n p received False ms))) \<le> n"
proof (induction p arbitrary: received ms)
  case (Receive k)
  show ?case
  proof (cases ms)
    case Nil
    with Receive.IH[OF _ Receive.prems] show ?thesis by (simp add: Let_def split_beta)
  next
    case (Cons m rest)
    show ?thesis
    proof (cases m)
      case (Http_request body)
      show ?thesis
      proof (cases "received + length body \<le> n")
        case True
        with Receive.IH[OF _ True, of "k m" rest] Cons Http_request show ?thesis by (simp add: Let_def split_beta add.assoc)
      next
        case False
        with Receive.prems Cons Http_request run_rejected[of reject n "k http_disconnect" "received + length body" rest] show ?thesis
          by (simp add: Let_def split_beta)
      qed
    next
      case (Http_other t)
      with Cons Receive.IH[OF _ Receive.prems] show ?thesis by (simp add: Let_def split_beta)
    qed
  qed
qed (simp_all add: Let_def split_beta)

lemma run_limited_transparent: "received + body_bytes ms \<le> n \<Longrightarrow> run_limited reject n p received False ms = run_app p ms"
proof (induction p arbitrary: received ms)
  case (Receive k)
  show ?case
  proof (cases ms)
    case Nil
    with Receive show ?thesis by (simp add: Let_def split_beta)
  next
    case (Cons m rest)
    with Receive.prems have "(case m of Http_request b \<Rightarrow> received + length b + body_bytes rest \<le> n | Http_other _ \<Rightarrow> received + body_bytes rest \<le> n)"
      by (cases m) auto
    with Cons Receive.IH[of "k m"] show ?thesis by (cases m) (auto simp: Let_def split_beta)
  qed
qed (simp_all add: Let_def split_beta)

lemma run_limited_sent:
  "\<exists>s. prefix s (sent (fst (run_app p ms))) \<and>
      (sent (fst (run_limited reject n p received False ms)) = s @ reject \<and> \<not> snd (run_limited reject n p received False ms)
       \<or> run_limited reject n p received False ms = run_app p ms)"
proof (induction p arbitrary: received ms)
  case (Receive k)
  show ?case
  proof (cases ms)
    case Nil
    with Receive.IH[of "k http_disconnect" "[]" received] show ?thesis by (auto simp: Let_def split_beta)
  next
    case (Cons m rest)
    show ?thesis
    proof (cases "\<exists>b. m = Http_request b \<and> received + length b > n")
      case True
      then obtain b where "m = Http_request b" "\<not> received + length b \<le> n" by auto
      with Cons run_rejected[of reject n "k http_disconnect" "received + length b" rest] show ?thesis
        by (intro exI[of _ "[]"]) (simp add: Let_def split_beta)
    next
      case False
      define received' where "received' = (case m of Http_request b \<Rightarrow> received + length b | Http_other _ \<Rightarrow> received)"
      have "run_limited reject n (Receive k) received False ms
          = (Got m # fst (run_limited reject n (k m) received' False rest), snd (run_limited reject n (k m) received' False rest))"
        using False Cons by (cases m) (auto simp: received'_def Let_def split_beta)
      with Cons Receive.IH[of "k m" rest received'] show ?thesis by (auto simp: Let_def split_beta)
    qed
  qed
next
  case (Send x p)
  from Send.IH[of ms received] obtain s where "prefix s (sent (fst (run_app p ms)))"
    "sent (fst (run_limited reject n p received False ms)) = s @ reject \<and> \<not> snd (run_limited reject n p received False ms)
       \<or> run_limited reject n p received False ms = run_app p ms" by blast
  then show ?case by (intro exI[of _ "x # s"]) (auto simp: Let_def split_beta)
qed auto

text \<open>
  C18: the body limit holds whatever the application does and whatever \<open>Content-Length\<close> says or leaves out. It is never handed more than the
  configured number of body bytes; a body within the limit (and not declared larger) passes as if the guard were not there; and
  otherwise the client is sent what the application had sent before, then the 413 response, and nothing after it, with no exception.
\<close>

theorem body_limit_enforced:
  assumes "\<forall>v. header ''content-length'' = Some v \<longrightarrow> list_all (\<lambda>c. code c < 128) v"
  shows "body_bytes (got (fst (max_body_size reject n app True header ms))) \<le> n
     \<and> (body_bytes ms \<le> n \<and> (\<forall>v len. header ''content-length'' = Some v \<and> py_isdigit v \<and> decimal_value v = Some len \<longrightarrow> len \<le> n)
          \<longrightarrow> max_body_size reject n app True header ms = run_app app ms)
     \<and> (\<exists>s. prefix s (sent (fst (run_app app ms))) \<and>
          (sent (fst (max_body_size reject n app True header ms)) = s @ reject \<and> \<not> snd (max_body_size reject n app True header ms)
           \<or> max_body_size reject n app True header ms = run_app app ms))"
proof -
  let ?lim = "run_limited reject n app 0 False ms"
  have dec: "decimal_value v \<noteq> None" if "header ''content-length'' = Some v" "py_isdigit v" for v
  proof -
    from assms that(1) have "\<forall>c \<in> set v. code c < 128" by (auto simp: list_all_iff)
    moreover from that(2) have "\<forall>c \<in> set v. 48 \<le> code c \<and> (code c \<le> 57 \<or> 178 \<le> code c)" by (auto simp: py_isdigit_def list_all_iff)
    ultimately have "\<forall>c \<in> set v. 48 \<le> code c \<and> code c \<le> 57" by fastforce
    then show ?thesis by (simp add: decimal_value_def list_all_iff)
  qed
  have cases: "max_body_size reject n app True header ms = ?lim \<or>
      (max_body_size reject n app True header ms = (map Sent reject, False)
       \<and> (\<exists>v len. header ''content-length'' = Some v \<and> py_isdigit v \<and> decimal_value v = Some len \<and> n < len))"
  proof (cases "header ''content-length''")
    case (Some v)
    show ?thesis
    proof (cases "py_isdigit v")
      case True
      with dec[OF Some] obtain len where "decimal_value v = Some len" by auto
      with Some True show ?thesis by (cases "n < len") (auto simp: max_body_size_def)
    qed (simp add: max_body_size_def Some)
  qed (simp add: max_body_size_def)
  show ?thesis
  proof (intro conjI impI)
    show "body_bytes (got (fst (max_body_size reject n app True header ms))) \<le> n"
      using cases run_limited_bounded[of 0 n reject app ms] by auto
    show "max_body_size reject n app True header ms = run_app app ms"
      if "body_bytes ms \<le> n \<and> (\<forall>v len. header ''content-length'' = Some v \<and> py_isdigit v \<and> decimal_value v = Some len \<longrightarrow> len \<le> n)"
      using cases that run_limited_transparent[of 0 ms n reject app] by force
    show "\<exists>s. prefix s (sent (fst (run_app app ms))) \<and>
          (sent (fst (max_body_size reject n app True header ms)) = s @ reject \<and> \<not> snd (max_body_size reject n app True header ms)
           \<or> max_body_size reject n app True header ms = run_app app ms)"
      using cases run_limited_sent[of app ms reject n 0] by (force intro: exI[of _ "[]"])
  qed
qed

text \<open>An application that reads the whole body, part by part, and then answers.\<close>

primrec demo_reader :: "nat \<Rightarrow> string asgi_app" where
  "demo_reader 0 = Send ''200'' Returns"
| "demo_reader (Suc n) = Send ''102'' (Receive (\<lambda>m. case m of Http_request _ \<Rightarrow> demo_reader n | Http_other _ \<Rightarrow> Raises_exception))"

theorem body_limit_enforced_witness:
  "body_bytes (got (fst (max_body_size [''413''] 5 (demo_reader 2) True Map.empty [Http_request ''abc'', Http_request ''def'']))) \<le> 5
   \<and> sent (fst (max_body_size [''413''] 5 (demo_reader 2) True Map.empty [Http_request ''abc'', Http_request ''def''])) = [''102'', ''102'', ''413'']"
proof
  show "body_bytes (got (fst (max_body_size [''413''] 5 (demo_reader 2) True Map.empty [Http_request ''abc'', Http_request ''def'']))) \<le> 5"
    using body_limit_enforced[of Map.empty "[''413'']" 5 "demo_reader 2" "[Http_request ''abc'', Http_request ''def'']"] by simp
  show "sent (fst (max_body_size [''413''] 5 (demo_reader 2) True Map.empty [Http_request ''abc'', Http_request ''def''])) = [''102'', ''102'', ''413'']"
    by (simp add: max_body_size_def numeral_2_eq_2)
qed

section \<open>The request context\<close>

text \<open>\<open>is_ip\<close> is whether \<open>ipaddress.ip_address\<close> accepts a text, \<open>fresh\<close> the \<open>uuid4().hex\<close> drawn.\<close>

definition validated_client_ip :: "(string \<Rightarrow> bool) \<Rightarrow> http_request \<Rightarrow> string option" where
  "validated_client_ip is_ip req = (case rq_client_host req of None \<Rightarrow> None | Some host \<Rightarrow> if is_ip host then Some host else None)"

definition request_context_for :: "(string \<Rightarrow> bool) \<Rightarrow> string \<Rightarrow> http_request \<Rightarrow> request_context" where
  "request_context_for is_ip fresh req = \<lparr>ctx_ip_address = validated_client_ip is_ip req,
     ctx_request_id = take REQUEST_ID_MAX_LENGTH
       (case rq_header req ''x-request-id'' of None \<Rightarrow> fresh | Some h \<Rightarrow> if h = [] then fresh else h)\<rparr>"

text \<open>\<open>dispatch\<close>: the request runs with its context bound, and the identifier goes out with the answer.\<close>

definition dispatch :: "(string \<Rightarrow> bool) \<Rightarrow> string \<Rightarrow> http_request \<Rightarrow> env \<Rightarrow> (env \<Rightarrow> world \<Rightarrow> 'r \<times> world) \<Rightarrow> world \<Rightarrow> ('r \<times> string) \<times> world" where
  "dispatch is_ip fresh req e call_next w =
     (let context = request_context_for is_ip fresh req; (r, w') = call_next (e\<lparr>request_ctx := Some context\<rparr>) w
      in ((r, ctx_request_id context), w'))"

text \<open>Whatever headers a request carries, an audit row written under it fits its columns and names the identifier that goes out.\<close>

lemma dispatched_row_fits:
  "al_request_id (build_row (e\<lparr>request_ctx := Some (request_context_for is_ip fresh req)\<rparr>) i ev) = Some (ctx_request_id (request_context_for is_ip fresh req))
   \<and> length (ctx_request_id (request_context_for is_ip fresh req)) \<le> 64
   \<and> (\<forall>ip. al_ip_address (build_row (e\<lparr>request_ctx := Some (request_context_for is_ip fresh req)\<rparr>) i ev) = Some ip \<longrightarrow> is_ip ip)"
  by (auto simp: build_row_def request_context_for_def validated_client_ip_def REQUEST_ID_MAX_LENGTH_def split: option.splits if_splits)

end
