(* ===== verification/Mailbox_Names.thy ===== *)
theory Mailbox_Names
  imports Py_Codec
begin

text \<open>
  Mailbox names in modified UTF-7 (\<open>decode_mutf7\<close> of \<open>connectors/imap/sync/fetch_planner.py\<close>). The loop over an index is a partial function, so
  that not returning would be a value; it is shown to return on every name and to invert the encoding of RFC 3501, written here as the
  reference. A decoded name is a list of code points.
\<close>

section \<open>The decoder\<close>

definition b64_to_text :: "string \<Rightarrow> codepoints" where
  "b64_to_text chunk =
     (let data = pad_quad (map (\<lambda>c. if c = CHR '','' then CHR ''/'' else c) chunk);
          raw = map code (''&'' @ chunk @ ''-'')
      in case b64decode False data of
           None \<Rightarrow> raw
         | Some bytes \<Rightarrow> (case utf16be_decode bytes of None \<Rightarrow> raw | Some decoded \<Rightarrow> decoded))"

text \<open>\<open>name.find(c, index)\<close>, with the length of the name for \<open>-1\<close> as the caller replaces it.\<close>

definition find_or_length :: "string \<Rightarrow> char \<Rightarrow> nat \<Rightarrow> nat" where
  "find_or_length name c index = index + length (takeWhile (\<lambda>x. x \<noteq> c) (drop index name))"

partial_function (option) mutf7_loop :: "string \<Rightarrow> nat \<Rightarrow> codepoints \<Rightarrow> codepoints option" where
  "mutf7_loop name index out =
     (if index < length name then
        (if name ! index = CHR ''&'' then
           (let stop = find_or_length name CHR ''-'' index;
                chunk = take (stop - (index + 1)) (drop (index + 1) name)
            in mutf7_loop name (stop + 1) (out @ (if chunk = [] then [code CHR ''&''] else b64_to_text chunk)))
         else mutf7_loop name (index + 1) (out @ [code (name ! index)]))
      else Some out)"

definition decode_mutf7 :: "string \<Rightarrow> codepoints option" where
  "decode_mutf7 name = mutf7_loop name 0 []"

section \<open>What the loop computes\<close>

text \<open>The decoder on the rest of a name, one character or one run at a time.\<close>

function decoded_rest :: "string \<Rightarrow> codepoints" where
  "decoded_rest [] = []"
| "decoded_rest (c # s) =
     (if c = CHR ''&'' then
        (let chunk = takeWhile (\<lambda>x. x \<noteq> CHR ''-'') s
         in (if chunk = [] then [code CHR ''&''] else b64_to_text chunk) @ decoded_rest (drop (Suc (length chunk)) s))
      else code c # decoded_rest s)"
  by pat_completeness auto
termination by (relation "measure length") auto

lemma mutf7_loop_result: "mutf7_loop name index out = Some (out @ decoded_rest (drop index name))"
proof (induction "length name - index" arbitrary: index out rule: less_induct)
  case less
  show ?case
  proof (cases "index < length name")
    case False
    then show ?thesis by (simp add: mutf7_loop.simps)
  next
    case True
    define s where "s = drop (Suc index) name"
    have d: "drop index name = name ! index # s" using True by (simp add: Cons_nth_drop_Suc s_def)
    define chunk where "chunk = takeWhile (\<lambda>x. x \<noteq> CHR ''-'') s"
    define piece where "piece = (if chunk = [] then [code CHR ''&''] else b64_to_text chunk)"
    have take: "take (length chunk) s = chunk" unfolding chunk_def by (rule takeWhile_eq_take[symmetric])
    have rest: "drop (Suc (Suc (index + length chunk))) name = drop (Suc (length chunk)) s" by (simp add: s_def add.commute)
    show ?thesis
    proof (cases "name ! index = CHR ''&''")
      case amp: True
      have stop: "find_or_length name CHR ''-'' index = Suc (index + length chunk)" by (simp add: find_or_length_def d amp chunk_def)
      have "mutf7_loop name index out = mutf7_loop name (Suc (Suc (index + length chunk))) (out @ piece)"
        using True amp by (subst mutf7_loop.simps) (simp add: stop take s_def[symmetric] piece_def Let_def del: take_eq_Nil)
      moreover have "decoded_rest (drop index name) = piece @ decoded_rest (drop (Suc (length chunk)) s)"
        by (simp add: d amp chunk_def[symmetric] piece_def Let_def del: takeWhile_eq_Nil_iff)
      moreover have "length name - Suc (Suc (index + length chunk)) < length name - index" using True by simp
      ultimately show ?thesis using less rest by simp
    next
      case False
      have "length name - Suc index < length name - index" using True by simp
      from less[OF this] show ?thesis using True False by (subst mutf7_loop.simps) (simp add: d s_def[symmetric])
    qed
  qed
qed

section \<open>The encoding of RFC 3501\<close>

definition direct :: "nat \<Rightarrow> bool" where
  "direct c \<longleftrightarrow> 0x20 \<le> c \<and> c \<le> 0x7E"

definition encoded_run :: "codepoints \<Rightarrow> string" where
  "encoded_run cs = map (\<lambda>c. if c = CHR ''/'' then CHR '','' else c) (b64_digits (concat (map utf16be_point cs)))"

function encode_mutf7 :: "codepoints \<Rightarrow> string" where
  "encode_mutf7 [] = []"
| "encode_mutf7 (c # cs) =
     (if c = code CHR ''&'' then ''&-'' @ encode_mutf7 cs
      else if direct c then byte_of c # encode_mutf7 cs
      else ''&'' @ encoded_run (takeWhile (\<lambda>x. \<not> direct x) (c # cs)) @ ''-'' @ encode_mutf7 (dropWhile (\<lambda>x. \<not> direct x) (c # cs)))"
  by pat_completeness auto
termination by (relation "measure length") (auto simp: less_Suc_eq_le length_dropWhile_le)

lemma b64_digits_ne: "bs \<noteq> [] \<Longrightarrow> b64_digits bs \<noteq> []"
  by (cases bs rule: b64_digits.cases) auto

lemma encoded_run_ne: "cs \<noteq> [] \<Longrightarrow> encoded_run cs \<noteq> []"
proof -
  assume "cs \<noteq> []"
  then have "concat (map utf16be_point cs) \<noteq> []" by (cases cs) (simp_all add: utf16be_point_def unit_bytes_def)
  then show ?thesis by (simp add: encoded_run_def b64_digits_ne)
qed

lemma encoded_run_chars: "c \<in> set (encoded_run cs) \<Longrightarrow> c \<noteq> CHR ''-''"
proof -
  assume "c \<in> set (encoded_run cs)"
  then obtain d where d: "d \<in> set (b64_digits (concat (map utf16be_point cs)))" "c = (if d = CHR ''/'' then CHR '','' else d)"
    by (auto simp: encoded_run_def)
  from b64_digits_chars[OF d(1)] have "d \<noteq> CHR ''-''" by auto
  with d(2) show ?thesis by auto
qed

lemma encoded_run_back: "map (\<lambda>c. if c = CHR '','' then CHR ''/'' else c) (encoded_run cs) = b64_digits (concat (map utf16be_point cs))"
proof -
  have "(if (if c = CHR ''/'' then CHR '','' else c) = CHR '','' then CHR ''/'' else (if c = CHR ''/'' then CHR '','' else c)) = c"
    if "c \<in> set (b64_digits bs)" for c bs
    using b64_digits_chars[OF that] by auto
  then show ?thesis unfolding encoded_run_def map_map by (intro map_idI) (simp only: comp_def)
qed

lemma b64_to_text_run: "list_all is_scalar cs \<Longrightarrow> b64_to_text (encoded_run cs) = cs"
  by (simp add: b64_to_text_def encoded_run_back b64_roundtrip utf16be_roundtrip)

lemma decoded_rest_run:
  assumes "cs \<noteq> []" and "list_all is_scalar cs"
  shows "decoded_rest (''&'' @ encoded_run cs @ ''-'' @ s) = cs @ decoded_rest s"
proof -
  have "takeWhile (\<lambda>x. x \<noteq> CHR ''-'') (encoded_run cs @ ''-'' @ s) = encoded_run cs" using encoded_run_chars by (simp add: takeWhile_append2)
  with encoded_run_ne[OF assms(1)] b64_to_text_run[OF assms(2)] show ?thesis by simp
qed

lemma decoded_rest_encoded: "list_all is_scalar cs \<Longrightarrow> decoded_rest (encode_mutf7 cs) = cs"
proof (induction cs rule: encode_mutf7.induct)
  case (2 c cs)
  show ?case
  proof (cases "direct c")
    case True
    then have "c < 256" by (simp add: direct_def)
    then have "byte_of c = CHR ''&'' \<longleftrightarrow> c = code CHR ''&''" by (metis char_of_char code_byte_of)
    moreover have "c mod 256 = c" using \<open>c < 256\<close> by simp
    ultimately show ?thesis using True 2 by simp
  next
    case False
    then have ne: "c \<noteq> code CHR ''&''" by (auto simp: direct_def)
    define run rest where "run = takeWhile (\<lambda>x. \<not> direct x) (c # cs)" and "rest = dropWhile (\<lambda>x. \<not> direct x) (c # cs)"
    have cat: "run @ rest = c # cs" by (simp add: run_def rest_def del: takeWhile.simps dropWhile.simps)
    have "run \<noteq> []" using False by (simp add: run_def)
    moreover have "list_all is_scalar run" "list_all is_scalar rest" using "2.prems" cat by (metis list_all_append)+
    moreover from this "2.IH"(3)[OF ne False] have "decoded_rest (encode_mutf7 rest) = rest" by (simp add: rest_def)
    ultimately have "decoded_rest (''&'' @ encoded_run run @ ''-'' @ encode_mutf7 rest) = c # cs"
      using decoded_rest_run[of run "encode_mutf7 rest"] cat by simp
    with ne False show ?thesis by (simp add: run_def rest_def)
  qed
qed simp

text \<open>
  C40: decoding a mailbox name ends on every name, with a result: the loop moves its index forward on every branch and no malformed run raises.
  And a name that was encoded comes back as it was, for every sequence of Unicode scalar values, ampersands, controls and characters
  beyond the basic plane included.
\<close>

theorem decode_mutf7_returns:
  "(\<exists>out. decode_mutf7 name = Some out) \<and> (list_all is_scalar cs \<longrightarrow> decode_mutf7 (encode_mutf7 cs) = Some cs)"
  by (simp add: decode_mutf7_def mutf7_loop_result decoded_rest_encoded)

theorem decode_mutf7_returns_witness:
  "encode_mutf7 [0x41, 0x26, 0xE4, 0x1F4EC, 0x42] = ''A&-&AOTYPdzs-B''
   \<and> decode_mutf7 (encode_mutf7 [0x41, 0x26, 0xE4, 0x1F4EC, 0x42]) = Some [0x41, 0x26, 0xE4, 0x1F4EC, 0x42]"
proof
  have "list_all is_scalar [0x41, 0x26, 0xE4, 0x1F4EC, 0x42]" by (simp add: is_scalar_def is_surrogate_def)
  then show "decode_mutf7 (encode_mutf7 [0x41, 0x26, 0xE4, 0x1F4EC, 0x42]) = Some [0x41, 0x26, 0xE4, 0x1F4EC, 0x42]"
    using decode_mutf7_returns by blast
  show "encode_mutf7 [0x41, 0x26, 0xE4, 0x1F4EC, 0x42] = ''A&-&AOTYPdzs-B''"
    by (simp add: direct_def encoded_run_def utf16be_point_def unit_bytes_def b64_char_def char_of_eq_iff)
qed

end
