(* ===== verification/Imap_Wire.thy ===== *)
theory Imap_Wire
  imports Sync_Safety Py_Codec
begin

text \<open>
  The held session on the wire (\<open>connectors/imap/fetch_session.py\<close>): how the raw replies that \<open>imaplib\<close> returns become the folders, UIDs, sizes and
  messages the sync runs on. \<open>wire_server\<close> is the server of \<open>Sync_Runner\<close> read off the wire; a server that answers by RFC 3501 is
  shown to meet the contract \<open>serves\<close> the sync relies on. Bytes and the Latin-1 text decoded from them are the same string.
\<close>

section \<open>Replies of imaplib\<close>

text \<open>An item is a line or a pair of a line and the bytes of a literal; \<open>None\<close> is what \<open>imaplib\<close> puts for a reply without data.\<close>

datatype wire_item = Line string | Line_literal string string

type_synonym wire_reply = "(string \<times> wire_item option list) reply"

record imap_wire =
  wi_list :: wire_reply
  wi_select :: "string \<Rightarrow> string reply"
  wi_uidvalidity :: "string \<Rightarrow> string option list reply"
  wi_search :: "string \<Rightarrow> nat \<Rightarrow> (string \<times> string option list) reply"
  wi_uid_fetch :: "string \<Rightarrow> string \<Rightarrow> string \<Rightarrow> wire_reply"

definition bytes_isspace :: "char \<Rightarrow> bool" where
  "bytes_isspace c \<longleftrightarrow> (9 \<le> code c \<and> code c \<le> 13) \<or> code c = 32"

definition bytes_strip :: "string \<Rightarrow> string" where
  "bytes_strip s = strip_where bytes_isspace s"

definition bytes_split :: "string \<Rightarrow> string list" where
  "bytes_split s = filter (\<lambda>w. w \<noteq> []) (split_where bytes_isspace s)"

definition ascii_digit :: "char \<Rightarrow> bool" where
  "ascii_digit c \<longleftrightarrow> 48 \<le> code c \<and> code c \<le> 57"

section \<open>Folder listings\<close>

abbreviation LF :: char where "LF \<equiv> CHR 0x0A"
abbreviation QUOTE :: char where "QUOTE \<equiv> CHR 0x22"
abbreviation BACKSLASH :: char where "BACKSLASH \<equiv> CHR 0x5C"

text \<open>
  \<open>_LIST_RE\<close> after the opening parenthesis: the shortest flags such that the rest matches. \<open>list_tail\<close> is the part from the closing
  parenthesis on, with the name it captures; a dot does not match a line feed.
\<close>

definition list_name :: "string \<Rightarrow> string option" where
  "list_name s = (if LF \<in> set s then None else Some s)"

definition list_tail :: "string \<Rightarrow> string option" where
  "list_tail s =
     (if take 2 s \<noteq> '') '' then None
      else (case drop 2 s of
              [] \<Rightarrow> None
            | c # u \<Rightarrow>
                if c = QUOTE
                then (let v = dropWhile (\<lambda>x. x \<noteq> QUOTE) u in if take 2 v = [QUOTE, CHR '' ''] then list_name (drop 2 v) else None)
                else if take 4 (c # u) = ''NIL '' then list_name (drop 4 (c # u)) else None))"

fun list_flags :: "string \<Rightarrow> string \<Rightarrow> (string \<times> string) option" where
  "list_flags flags [] = None"
| "list_flags flags (c # s) =
     (case list_tail (c # s) of
        Some name \<Rightarrow> Some (flags, name)
      | None \<Rightarrow> if c = LF then None else list_flags (flags @ [c]) s)"

definition list_match :: "string \<Rightarrow> (string \<times> string) option" where
  "list_match line = (case line of c # s \<Rightarrow> if c = CHR ''('' then list_flags [] s else None | [] \<Rightarrow> None)"

text \<open>\<open>.replace(old, new)\<close> for a two-character \<open>old\<close> and a one-character \<open>new\<close>.\<close>

fun replace_pair :: "char \<Rightarrow> char \<Rightarrow> char \<Rightarrow> string \<Rightarrow> string" where
  "replace_pair a b new (x # y # s) = (if x = a \<and> y = b then new # replace_pair a b new s else x # replace_pair a b new (y # s))"
| "replace_pair a b new s = s"

definition unquote_name :: "string \<Rightarrow> string" where
  "unquote_name name =
     (if name \<noteq> [] \<and> hd name = QUOTE \<and> last name = QUOTE
      then replace_pair BACKSLASH BACKSLASH BACKSLASH (replace_pair BACKSLASH QUOTE QUOTE (butlast (tl name)))
      else name)"

text \<open>\<open>_parse_list_item\<close> up to its test of the flags, which is part of \<open>Sync_Runner.parse_list_item\<close>.\<close>

definition list_item_groups :: "wire_item \<Rightarrow> (string \<times> string) option" where
  "list_item_groups item =
     (case item of
        Line l \<Rightarrow> map_option (\<lambda>(flags, name). (flags, unquote_name name)) (list_match (bytes_strip l))
      | Line_literal l name \<Rightarrow> map_option (\<lambda>(flags, _). (flags, name)) (list_match (bytes_strip l)))"

section \<open>Message data\<close>

text \<open>The leftmost match of a label followed by digits, both greedy and without regard to case.\<close>

definition number_at :: "string \<Rightarrow> string \<Rightarrow> string option" where
  "number_at label s =
     (let digits = takeWhile ascii_digit (drop (length label) s)
      in if py_lower (take (length label) s) = py_lower label \<and> digits \<noteq> [] then Some digits else None)"

fun search_number :: "string \<Rightarrow> string \<Rightarrow> string option" where
  "search_number label [] = None"
| "search_number label (c # s) = (case number_at label (c # s) of Some d \<Rightarrow> Some d | None \<Rightarrow> search_number label s)"

definition number_of :: "string \<Rightarrow> nat" where
  "number_of digits = (case digits_value digits of None \<Rightarrow> 0 | Some v \<Rightarrow> nat v)"

definition uid_of :: "string \<Rightarrow> uid option" where
  "uid_of line = map_option number_of (search_number ''UID '' line)"

definition size_of_line :: "string \<Rightarrow> nat option" where
  "size_of_line line = map_option number_of (search_number ''RFC822.SIZE '' line)"

text \<open>Reading the components of an \<open>INTERNALDATE\<close>: exactly so many characters of a class, or one literal character.\<close>

definition take_class :: "(char \<Rightarrow> bool) \<Rightarrow> nat \<Rightarrow> string \<Rightarrow> (string \<times> string) option" where
  "take_class P n s = (if n \<le> length s \<and> list_all P (take n s) then Some (take n s, drop n s) else None)"

definition take_lit :: "string \<Rightarrow> string \<Rightarrow> string option" where
  "take_lit l s = (if take (length l) s = l then Some (drop (length l) s) else None)"

definition ascii_letter :: "char \<Rightarrow> bool" where
  "ascii_letter c \<longleftrightarrow> (65 \<le> code c \<and> code c \<le> 90) \<or> (97 \<le> code c \<and> code c \<le> 122)"

definition day_digits :: "string \<Rightarrow> (string \<times> string) option" where
  "day_digits s =
     (case take_class ascii_digit 2 s of
        Some (d, r) \<Rightarrow> Some (d, r)
      | None \<Rightarrow> take_class ascii_digit 1 s)"

record date_parts =
  dp_day :: nat
  dp_month_name :: string
  dp_year :: nat
  dp_hour :: nat
  dp_minute :: nat
  dp_second :: nat
  dp_east :: bool
  dp_zone_hours :: nat
  dp_zone_minutes :: nat

definition date_parts_at :: "string \<Rightarrow> date_parts option" where
  "date_parts_at s =
     (if py_lower (take 14 s) \<noteq> ''internaldate '' @ [QUOTE] then None
      else Option.bind (day_digits (dropWhile bytes_isspace (drop 14 s))) (\<lambda>(day, s).
        Option.bind (take_lit ''-'' s) (\<lambda>s. Option.bind (take_class ascii_letter 3 s) (\<lambda>(mon, s).
        Option.bind (take_lit ''-'' s) (\<lambda>s. Option.bind (take_class ascii_digit 4 s) (\<lambda>(year, s).
        Option.bind (take_lit '' '' s) (\<lambda>s. Option.bind (take_class ascii_digit 2 s) (\<lambda>(hour, s).
        Option.bind (take_lit '':'' s) (\<lambda>s. Option.bind (take_class ascii_digit 2 s) (\<lambda>(minute, s).
        Option.bind (take_lit '':'' s) (\<lambda>s. Option.bind (take_class ascii_digit 2 s) (\<lambda>(second, s).
        Option.bind (take_lit '' '' s) (\<lambda>s. Option.bind (take_class (\<lambda>c. c = CHR ''+'' \<or> c = CHR ''-'') 1 s) (\<lambda>(sgn, s).
        Option.bind (take_class ascii_digit 4 s) (\<lambda>(zone, s). Option.bind (take_lit [QUOTE] s) (\<lambda>s.
          Some \<lparr>dp_day = number_of day, dp_month_name = py_lower mon, dp_year = number_of year, dp_hour = number_of hour,
                dp_minute = number_of minute, dp_second = number_of second, dp_east = (sgn = ''+''),
                dp_zone_hours = number_of (take 2 zone), dp_zone_minutes = number_of (drop 2 zone)\<rparr>))))))))))))))))"

fun search_date :: "string \<Rightarrow> date_parts option" where
  "search_date [] = None"
| "search_date (c # s) = (case date_parts_at (c # s) of Some d \<Rightarrow> Some d | None \<Rightarrow> search_date s)"

definition MONTHS :: "(string \<times> nat) list" where
  "MONTHS = zip [''jan'', ''feb'', ''mar'', ''apr'', ''may'', ''jun'', ''jul'', ''aug'', ''sep'', ''oct'', ''nov'', ''dec''] [1..<13]"

text \<open>The proleptic Gregorian calendar of \<open>datetime\<close>, as ordinals from the first day of year 1.\<close>

definition is_leap :: "nat \<Rightarrow> bool" where
  "is_leap y \<longleftrightarrow> y mod 4 = 0 \<and> (y mod 100 \<noteq> 0 \<or> y mod 400 = 0)"

definition days_in_month :: "nat \<Rightarrow> nat \<Rightarrow> nat" where
  "days_in_month y m = (if m = 2 \<and> is_leap y then 29 else [31, 28, 31, 30, 31, 30, 31, 31, 30, 31, 30, 31] ! (m - 1))"

definition days_before_year :: "nat \<Rightarrow> nat" where
  "days_before_year y = (y - 1) * 365 + (y - 1) div 4 - (y - 1) div 100 + (y - 1) div 400"

definition ordinal :: "nat \<Rightarrow> nat \<Rightarrow> nat \<Rightarrow> nat" where
  "ordinal y m d = days_before_year y + sum_list (map (days_in_month y) [1..<m]) + d"

definition EPOCH_ORDINAL :: int where
  "EPOCH_ORDINAL = 719163"

text \<open>The instant of the components; \<open>None\<close> where \<open>timezone\<close> or \<open>datetime\<close> raises \<open>ValueError\<close> or the month is unknown.\<close>

definition instant_of :: "date_parts \<Rightarrow> datetime option" where
  "instant_of d =
     (case map_of MONTHS (dp_month_name d) of
        None \<Rightarrow> None
      | Some month \<Rightarrow>
        if 24 * 60 \<le> dp_zone_hours d * 60 + dp_zone_minutes d \<or> dp_year d < 1 \<or> 9999 < dp_year d \<or> dp_day d < 1
           \<or> days_in_month (dp_year d) month < dp_day d \<or> 24 \<le> dp_hour d \<or> 60 \<le> dp_minute d \<or> 60 \<le> dp_second d then None
        else Some (((int (ordinal (dp_year d) month (dp_day d)) - EPOCH_ORDINAL) * 86400
               + int (dp_hour d * 3600 + dp_minute d * 60 + dp_second d)
               - (if dp_east d then 1 else - 1) * int (dp_zone_hours d * 3600 + dp_zone_minutes d * 60)) * usec_per_sec))"

definition parse_internaldate :: "string \<Rightarrow> datetime option" where
  "parse_internaldate raw = (case search_date raw of None \<Rightarrow> None | Some d \<Rightarrow> instant_of d)"

section \<open>The verbs of the session\<close>

text \<open>Going through the items of a reply: the first that raises ends it.\<close>

fun each_item :: "(wire_item option \<Rightarrow> 'a option reply) \<Rightarrow> wire_item option list \<Rightarrow> 'a list reply" where
  "each_item f [] = Replies []"
| "each_item f (x # xs) =
     (case f x of
        Raises \<Rightarrow> Raises
      | Replies r \<Rightarrow> (case each_item f xs of Raises \<Rightarrow> Raises | Replies ys \<Rightarrow> Replies (case r of None \<Rightarrow> ys | Some y \<Rightarrow> y # ys)))"

text \<open>\<open>_parse_list_item\<close> calls a method of the item, so the \<open>None\<close> of an empty listing raises.\<close>

definition wire_list :: "imap_wire \<Rightarrow> (string \<times> string) option list option reply" where
  "wire_list wi =
     (case wi_list wi of
        Raises \<Rightarrow> Raises
      | Replies (typ, data) \<Rightarrow>
          if typ \<noteq> ''OK'' then Replies None
          else (case each_item (\<lambda>x. case x of None \<Rightarrow> Raises | Some item \<Rightarrow> Replies (Some (list_item_groups item))) data of
                  Raises \<Rightarrow> Raises
                | Replies gs \<Rightarrow> Replies (Some gs)))"

definition wire_select :: "imap_wire \<Rightarrow> string \<Rightarrow> int option reply" where
  "wire_select wi folder =
     (case wi_select wi (imap_quote folder) of
        Raises \<Rightarrow> Raises
      | Replies typ \<Rightarrow>
          if typ \<noteq> ''OK'' then Replies None
          else (case wi_uidvalidity wi (imap_quote folder) of
                  Raises \<Rightarrow> Raises
                | Replies vals \<Rightarrow>
                    (case vals of
                       Some v # _ \<Rightarrow> (case py_int v of None \<Rightarrow> Raises | Some n \<Rightarrow> Replies (Some n))
                     | _ \<Rightarrow> Replies None)))"

fun ints_of :: "string list \<Rightarrow> int list option" where
  "ints_of [] = Some []"
| "ints_of (w # ws) = (case py_int w of None \<Rightarrow> None | Some n \<Rightarrow> map_option ((#) n) (ints_of ws))"

text \<open>Numbers below the least UID are dropped by the caller, the negative ones here.\<close>

definition wire_search :: "imap_wire \<Rightarrow> string \<Rightarrow> nat \<Rightarrow> uid list reply" where
  "wire_search wi folder least =
     (case wi_search wi (imap_quote folder) least of
        Raises \<Rightarrow> Raises
      | Replies (typ, data) \<Rightarrow>
          if typ \<noteq> ''OK'' then Replies []
          else (case data of
                  Some d # _ \<Rightarrow>
                    if d = [] then Replies []
                    else (case ints_of (bytes_split d) of None \<Rightarrow> Raises | Some ns \<Rightarrow> Replies (map nat (filter (\<lambda>n. 0 \<le> n) ns)))
                | _ \<Rightarrow> Replies []))"

text \<open>\<open>item[0]\<close> of \<open>None\<close> raises: a reply to a size fetch that names no message at all.\<close>

definition size_item :: "wire_item option \<Rightarrow> (uid \<times> int) option reply" where
  "size_item x =
     (case x of
        None \<Rightarrow> Raises
      | Some item \<Rightarrow>
          (let line = (case item of Line l \<Rightarrow> l | Line_literal l _ \<Rightarrow> l)
           in case (uid_of line, size_of_line line) of (Some u, Some n) \<Rightarrow> Replies (Some (u, int n)) | _ \<Rightarrow> Replies None))"

definition wire_sizes :: "imap_wire \<Rightarrow> string \<Rightarrow> string \<Rightarrow> (uid \<times> int) list option reply" where
  "wire_sizes wi folder uid_set =
     (case wi_uid_fetch wi (imap_quote folder) uid_set ''(UID RFC822.SIZE)'' of
        Raises \<Rightarrow> Raises
      | Replies (typ, data) \<Rightarrow>
          if typ \<noteq> ''OK'' then Replies None else (case each_item size_item data of Raises \<Rightarrow> Raises | Replies xs \<Rightarrow> Replies (Some xs)))"

definition message_item :: "wire_item option \<Rightarrow> fetched_message option reply" where
  "message_item x =
     (case x of
        Some (Line_literal meta raw) \<Rightarrow>
          Replies (case uid_of meta of
                     None \<Rightarrow> None
                   | Some u \<Rightarrow> Some \<lparr>fm_uid = u, fm_raw_bytes = raw, fm_internal_date = parse_internaldate meta\<rparr>)
      | _ \<Rightarrow> Replies None)"

definition wire_fetch :: "imap_wire \<Rightarrow> string \<Rightarrow> string \<Rightarrow> fetched_message list option reply" where
  "wire_fetch wi folder uid_set =
     (case wi_uid_fetch wi (imap_quote folder) uid_set ''(UID INTERNALDATE BODY.PEEK[])'' of
        Raises \<Rightarrow> Raises
      | Replies (typ, data) \<Rightarrow>
          if typ \<noteq> ''OK'' then Replies None else (case each_item message_item data of Raises \<Rightarrow> Raises | Replies xs \<Rightarrow> Replies (Some xs)))"

definition wire_server :: "imap_wire \<Rightarrow> imap_server" where
  "wire_server wi = \<lparr>im_list = wire_list wi, im_select = wire_select wi, im_search = wire_search wi, im_sizes = wire_sizes wi, im_fetch = wire_fetch wi\<rparr>"

section \<open>Names on the wire\<close>

definition escaped :: "string \<Rightarrow> string" where
  "escaped name = concat (map (\<lambda>c. if c = BACKSLASH \<or> c = QUOTE then [BACKSLASH, c] else [c]) name)"

definition doubled :: "string \<Rightarrow> string" where
  "doubled name = concat (map (\<lambda>c. if c = BACKSLASH then [BACKSLASH, c] else [c]) name)"

lemma imap_quote_escaped: "imap_quote name = QUOTE # escaped name @ [QUOTE]"
  by (simp add: imap_quote_def escaped_def)

lemma replace_pair_skip: "x \<noteq> a \<Longrightarrow> replace_pair a b new (x # s) = x # replace_pair a b new s"
  and replace_pair_apart: "s = [] \<or> hd s \<noteq> b \<Longrightarrow> replace_pair a b new (x # s) = x # replace_pair a b new s"
  by (cases s; simp)+

lemma escaped_head: "escaped name = [] \<or> hd (escaped name) \<noteq> QUOTE"
  by (cases name) (auto simp: escaped_def)

lemma unescape_quotes: "replace_pair BACKSLASH QUOTE QUOTE (escaped name) = doubled name"
proof (induction name)
  case (Cons c name)
  consider "c = BACKSLASH" | "c = QUOTE" | "c \<noteq> BACKSLASH" "c \<noteq> QUOTE" by blast
  then show ?case
  proof cases
    case 1
    then have "escaped (c # name) = BACKSLASH # BACKSLASH # escaped name" "doubled (c # name) = BACKSLASH # BACKSLASH # doubled name"
      by (simp_all add: escaped_def doubled_def)
    then show ?thesis using Cons.IH replace_pair_apart[OF escaped_head[of name], of BACKSLASH QUOTE BACKSLASH] by simp
  next
    case 2
    then show ?thesis using Cons.IH by (simp add: escaped_def doubled_def)
  next
    case 3
    then have "escaped (c # name) = c # escaped name" "doubled (c # name) = c # doubled name" by (simp_all add: escaped_def doubled_def)
    then show ?thesis using Cons.IH 3 by (simp add: replace_pair_skip)
  qed
qed (simp add: escaped_def doubled_def)

lemma unescape_backslashes: "replace_pair BACKSLASH BACKSLASH BACKSLASH (doubled name) = name"
proof (induction name)
  case (Cons c name)
  then show ?case by (cases "c = BACKSLASH") (simp_all add: doubled_def replace_pair_skip)
qed (simp add: doubled_def)

lemma unquote_quoted: "unquote_name (imap_quote name) = name"
  by (simp add: unquote_name_def imap_quote_escaped butlast_append unescape_quotes unescape_backslashes)

lemma list_flags_found:
  assumes "CHR '')'' \<notin> set flags" and "LF \<notin> set flags" and "list_tail rest = Some name"
  shows "list_flags seen (flags @ rest) = Some (seen @ flags, name)"
  using assms(1,2)
proof (induction flags arbitrary: seen)
  case Nil
  have "rest \<noteq> []" using assms(3) by (auto simp: list_tail_def)
  then show ?case using assms(3) by (cases rest) simp_all
next
  case (Cons c flags)
  have "c \<noteq> CHR '')''" "c \<noteq> LF" using Cons.prems by auto
  moreover from this(1) have "list_tail (c # flags @ rest) = None" by (simp add: list_tail_def take_Cons')
  ultimately show ?case using Cons by simp
qed

section \<open>A server that answers by RFC 3501\<close>

text \<open>How a folder is listed: with its name quoted, as an atom, or as a literal.\<close>

datatype name_form = Quoted_form | Atom_form | Literal_form

record listing =
  li_flags :: string
  li_delim :: "char option"
  li_name :: string
  li_form :: name_form

definition listing_head :: "listing \<Rightarrow> string" where
  "listing_head l = ''('' @ li_flags l @ '') '' @ (case li_delim l of None \<Rightarrow> ''NIL'' | Some d \<Rightarrow> [QUOTE, d, QUOTE]) @ '' ''"

definition listing_item :: "listing \<Rightarrow> wire_item" where
  "listing_item l =
     (case li_form l of
        Quoted_form \<Rightarrow> Line (listing_head l @ imap_quote (li_name l))
      | Atom_form \<Rightarrow> Line (listing_head l @ li_name l)
      | Literal_form \<Rightarrow> Line_literal (listing_head l @ ''{'' @ str_nat (length (li_name l)) @ ''}'') (li_name l))"

definition listing_ok :: "listing \<Rightarrow> bool" where
  "listing_ok l \<longleftrightarrow> CHR '')'' \<notin> set (li_flags l) \<and> LF \<notin> set (li_flags l) \<and> li_delim l \<noteq> Some QUOTE
     \<and> (case li_form l of
          Quoted_form \<Rightarrow> LF \<notin> set (li_name l)
        | Atom_form \<Rightarrow> LF \<notin> set (li_name l) \<and> li_name l \<noteq> [] \<and> hd (li_name l) \<noteq> QUOTE \<and> \<not> bytes_isspace (last (li_name l))
        | Literal_form \<Rightarrow> True)"

lemma list_match_head:
  assumes "listing_ok l" and "LF \<notin> set name"
  shows "list_match (listing_head l @ name) = Some (li_flags l, name)"
proof -
  let ?rest = "'') '' @ (case li_delim l of None \<Rightarrow> ''NIL'' | Some d \<Rightarrow> [QUOTE, d, QUOTE]) @ '' '' @ name"
  have "list_tail ?rest = Some name"
    using assms by (auto simp: list_tail_def list_name_def listing_ok_def split: option.splits)
  from list_flags_found[OF _ _ this, of "li_flags l" "[]"] assms(1) show ?thesis by (simp add: list_match_def listing_head_def listing_ok_def)
qed

lemma strip_line: "s \<noteq> [] \<Longrightarrow> \<not> bytes_isspace (last s) \<Longrightarrow> bytes_strip (listing_head l @ s) = listing_head l @ s"
  unfolding bytes_strip_def by (rule strip_where_id) (simp add: listing_head_def bytes_isspace_def)

lemma str_nat_ne: "str_nat n \<noteq> []"
  by (subst str_nat.simps) simp

lemma str_nat_digits: "list_all ascii_digit (str_nat n)"
proof (induction n rule: str_nat.induct)
  case (1 n)
  have d: "ascii_digit (char_of (48 + k))" if "k < 10" for k :: nat using that by (simp add: ascii_digit_def)
  show ?case
  proof (cases "n < 10")
    case True
    with d[of n] show ?thesis by (simp add: str_nat.simps[of n])
  next
    case False
    with 1 d[of "n mod 10"] show ?thesis by (simp add: str_nat.simps[of n])
  qed
qed

lemma listing_groups:
  assumes "listing_ok l"
  shows "list_item_groups (listing_item l) = Some (li_flags l, li_name l)"
proof (cases "li_form l")
  case Quoted_form
  have "LF \<notin> set (imap_quote (li_name l))" using assms Quoted_form by (auto simp: listing_ok_def imap_quote_def split: if_splits)
  moreover have "bytes_strip (listing_head l @ imap_quote (li_name l)) = listing_head l @ imap_quote (li_name l)"
    by (rule strip_line) (simp_all add: imap_quote_escaped bytes_isspace_def)
  ultimately show ?thesis using Quoted_form list_match_head[OF assms] by (simp add: list_item_groups_def listing_item_def unquote_quoted)
next
  case Atom_form
  have "bytes_strip (listing_head l @ li_name l) = listing_head l @ li_name l"
    by (rule strip_line) (use assms Atom_form in \<open>simp_all add: listing_ok_def\<close>)
  with assms Atom_form list_match_head[OF assms] show ?thesis by (simp add: list_item_groups_def listing_item_def listing_ok_def unquote_name_def)
next
  case Literal_form
  let ?m = "''{'' @ str_nat (length (li_name l)) @ ''}''"
  have "LF \<notin> set ?m" using str_nat_digits[of "length (li_name l)"] by (auto simp: list_all_iff ascii_digit_def)
  moreover have "bytes_strip (listing_head l @ ?m) = listing_head l @ ?m" by (rule strip_line) (simp_all add: bytes_isspace_def)
  ultimately show ?thesis using Literal_form list_match_head[OF assms, of ?m] by (simp add: list_item_groups_def listing_item_def)
qed

lemma digits_value_snoc:
  "digits_value s = Some v \<Longrightarrow> ascii_digit c \<Longrightarrow> digits_value (s @ [c]) = Some (10 * v + int (code c - 48))"
  by (cases "s = []") (auto simp: digits_value_def digit_value_def ascii_digit_def Let_def)

lemma digits_value_str_nat: "digits_value (str_nat n) = Some (int n)"
proof (induction n rule: str_nat.induct)
  case (1 n)
  have c: "ascii_digit (char_of (48 + k))" "code (char_of (48 + k) :: char) - 48 = k" if "k < 10" for k :: nat
    using that by (simp_all add: ascii_digit_def)
  show ?case
  proof (cases "n < 10")
    case True
    then show ?thesis by (simp add: str_nat.simps[of n] digits_value_def digit_value_def)
  next
    case False
    have m: "n mod 10 < 10" by simp
    have "str_nat n = str_nat (n div 10) @ [char_of (48 + n mod 10)]" using False by (simp add: str_nat.simps[of n])
    moreover have "10 * int (n div 10) + int (n mod 10) = int n" by presburger
    ultimately show ?thesis using digits_value_snoc[OF 1[OF False] c(1)[OF m]] c(2)[OF m] by simp
  qed
qed

lemma number_of_str_nat [simp]: "number_of (str_nat n) = n"
  by (simp add: number_of_def digits_value_str_nat)

lemma digit_not_space: "ascii_digit c \<Longrightarrow> \<not> py_isspace c" "ascii_digit c \<Longrightarrow> \<not> bytes_isspace c"
  by (auto simp: ascii_digit_def py_isspace_def bytes_isspace_def Let_def)

lemma str_nat_ends: "ascii_digit (hd (str_nat n))" "ascii_digit (last (str_nat n))"
  using str_nat_digits[of n] str_nat_ne[of n] by (simp_all add: list_all_iff)

lemma py_int_str_nat [simp]: "py_int (str_nat n) = Some (int n)"
proof -
  have "py_strip (str_nat n) = str_nat n"
    unfolding py_strip_def by (rule strip_where_id) (simp add: digit_not_space str_nat_ends)
  moreover have "split_where (\<lambda>c. c = CHR ''_'') (str_nat n) = [str_nat n]"
    by (rule split_where_no_sep) (use str_nat_digits[of n] in \<open>auto simp: list_all_iff ascii_digit_def\<close>)
  moreover obtain c r where "str_nat n = c # r" "ascii_digit c" using str_nat_ne[of n] str_nat_ends(1)[of n] by (cases "str_nat n") auto
  moreover from this have "c \<noteq> CHR ''-''" "c \<noteq> CHR ''+''" by (auto simp: ascii_digit_def)
  ultimately show ?thesis using digits_value_str_nat[of n] by (simp add: py_int_def Let_def)
qed

lemma ints_of_str_nat: "ints_of (map str_nat us) = Some (map int us)"
  by (induction us) simp_all

lemma bytes_split_join: "bytes_split (py_join '' '' (map str_nat us)) = map str_nat us"
proof (induction us rule: induct_list012)
  case 1
  then show ?case by (simp add: bytes_split_def)
next
  case (2 u)
  have "split_where bytes_isspace (str_nat u) = [str_nat u]"
    by (rule split_where_no_sep) (use str_nat_digits[of u] digit_not_space(2) in \<open>auto simp: list_all_iff\<close>)
  then show ?case by (simp add: bytes_split_def str_nat_ne)
next
  case (3 u u' us)
  have "split_where bytes_isspace (str_nat u) = [str_nat u]"
    by (rule split_where_no_sep) (use str_nat_digits[of u] digit_not_space(2) in \<open>auto simp: list_all_iff\<close>)
  moreover have "bytes_isspace CHR '' ''" by (simp add: bytes_isspace_def)
  ultimately show ?case using "3.IH"(2) by (simp add: bytes_split_def split_where_append_sep str_nat_ne)
qed

text \<open>What a reply says of a message: its first UID item is that UID.\<close>

definition names_uid :: "string \<Rightarrow> uid \<Rightarrow> bool" where
  "names_uid meta u \<longleftrightarrow> (\<exists>pre post. meta = pre @ ''UID '' @ str_nat u @ post
     \<and> (\<forall>i < length pre. number_at ''UID '' (drop i meta) = None) \<and> (post = [] \<or> \<not> ascii_digit (hd post)))"

lemma search_number_found:
  assumes "\<forall>i < length pre. number_at label (drop i (pre @ s)) = None" and "number_at label s = Some d" and "label \<noteq> []"
  shows "search_number label (pre @ s) = Some d"
  using assms(1)
proof (induction pre)
  case Nil
  have "s \<noteq> []" using assms(2,3) by (auto simp: number_at_def Let_def split: if_splits)
  with assms(2) show ?case by (cases s) simp_all
next
  case (Cons c pre)
  have "number_at label ((c # pre) @ s) = None" using Cons.prems by (metis drop0 length_greater_0_conv list.distinct(1))
  moreover have "\<forall>i < length pre. number_at label (drop i (pre @ s)) = None"
  proof (intro allI impI)
    fix i assume "i < length pre"
    then have "number_at label (drop (Suc i) ((c # pre) @ s)) = None" using Cons.prems by (metis Suc_less_eq length_Cons)
    then show "number_at label (drop i (pre @ s)) = None" by simp
  qed
  ultimately show ?case using Cons.IH by simp
qed

lemma uid_of_named: "names_uid meta u \<Longrightarrow> uid_of meta = Some u"
proof -
  assume "names_uid meta u"
  then obtain pre post where m: "meta = pre @ ''UID '' @ str_nat u @ post" and pre: "\<forall>i < length pre. number_at ''UID '' (drop i meta) = None"
    and post: "post = [] \<or> \<not> ascii_digit (hd post)" unfolding names_uid_def by blast
  have "takeWhile ascii_digit (str_nat u @ post) = str_nat u"
    using str_nat_digits[of u] post by (cases post) (simp_all add: takeWhile_append list_all_iff takeWhile_eq_all_conv)
  then have "number_at ''UID '' (''UID '' @ str_nat u @ post) = Some (str_nat u)" by (simp add: number_at_def str_nat_ne Let_def)
  with search_number_found[of pre "''UID ''" "''UID '' @ str_nat u @ post"] pre show ?thesis by (simp add: uid_of_def m)
qed

text \<open>
  \<open>speaks\<close>: what RFC 3501 says of the replies, of a server that holds \<open>mb\<close> with the given contents. It lists every folder once; a selected folder
  has a \<open>UIDVALIDITY\<close>; a search answers \<open>OK\<close> with the UIDs of the folder (and, for \<open>n:*\<close>, perhaps one below \<open>n\<close>); the literal of a fetched
  message is the message of the UID named beside it. Any call may raise, and listings and fetches may be refused.
\<close>

definition selected :: "imap_wire \<Rightarrow> string \<Rightarrow> nat \<Rightarrow> bool" where
  "selected wi f v \<longleftrightarrow> wi_select wi (imap_quote f) = Replies ''OK'' \<and> wi_uidvalidity wi (imap_quote f) = Replies [Some (str_nat v)]"

definition speaks :: "(string \<Rightarrow> nat \<Rightarrow> uid \<Rightarrow> string) \<Rightarrow> mailbox \<Rightarrow> imap_wire \<Rightarrow> bool" where
  "speaks content mb wi \<longleftrightarrow>
     (\<forall>typ data. wi_list wi = Replies (typ, data) \<and> typ = ''OK'' \<longrightarrow>
        (\<exists>ls. data = map (\<lambda>l. Some (listing_item l)) ls \<and> list_all listing_ok ls \<and> distinct (map li_name ls)))
     \<and> (\<forall>f vals. wi_select wi (imap_quote f) = Replies ''OK'' \<and> wi_uidvalidity wi (imap_quote f) = Replies vals \<longrightarrow> (\<exists>v. vals = [Some (str_nat v)]))
     \<and> (\<forall>f v n r. selected wi f v \<and> wi_search wi (imap_quote f) n = Replies r \<longrightarrow>
          (\<exists>us. r = (''OK'', [Some (py_join '' '' (map str_nat us))]) \<and> {u \<in> set us. n \<le> u} = {u \<in> mb_uids mb f v. n \<le> u}))
     \<and> (\<forall>f v q items typ data meta raw. selected wi f v \<and> wi_uid_fetch wi (imap_quote f) q items = Replies (typ, data)
          \<and> Some (Line_literal meta raw) \<in> set data \<longrightarrow> (\<exists>u. names_uid meta u \<and> raw = content f v u))"

lemma each_item_list:
  "each_item (\<lambda>x. case x of None \<Rightarrow> Raises | Some item \<Rightarrow> Replies (Some (g item))) (map (\<lambda>l. Some (h l)) ls) = Replies (map (\<lambda>l. g (h l)) ls)"
  by (induction ls) simp_all

lemma each_item_mem: "each_item f xs = Replies ys \<Longrightarrow> y \<in> set ys \<Longrightarrow> \<exists>x \<in> set xs. f x = Replies (Some y)"
  by (induction xs arbitrary: ys) (fastforce split: reply.splits option.splits)+

lemma message_item_Some:
  "message_item y = Replies (Some msg) \<Longrightarrow> \<exists>meta raw. y = Some (Line_literal meta raw) \<and> uid_of meta = Some (fm_uid msg) \<and> fm_raw_bytes msg = raw"
  by (auto simp: message_item_def split: option.splits wire_item.splits)

lemma wire_folders:
  assumes "list_all listing_ok ls" and "wi_list wi = Replies (''OK'', map (\<lambda>l. Some (listing_item l)) ls)"
  shows "blocking_list_folders (wire_server wi)
    = Replies (map li_name (filter (\<lambda>l. \<not> flags_skip (li_flags l) \<and> \<not> is_excluded_folder (li_name l) []) ls))"
proof -
  have "map (\<lambda>l. list_item_groups (listing_item l)) ls = map (\<lambda>l. Some (li_flags l, li_name l)) ls"
    using assms(1) listing_groups by (simp add: list_all_iff)
  then have "im_list (wire_server wi) = Replies (Some (map (\<lambda>l. Some (li_flags l, li_name l)) ls))"
    using each_item_list[of list_item_groups listing_item ls] by (simp add: wire_server_def wire_list_def assms(2))
  moreover have "filter (\<lambda>name. \<not> is_excluded_folder name []) (List.map_filter parse_list_item (map (\<lambda>l. Some (li_flags l, li_name l)) ls))
      = map li_name (filter (\<lambda>l. \<not> flags_skip (li_flags l) \<and> \<not> is_excluded_folder (li_name l) []) ls)"
    by (induction ls) (simp_all add: parse_list_item_def List.map_filter_simps)
  ultimately show ?thesis by (simp add: blocking_list_folders_def)
qed

lemma wire_selected:
  assumes "speaks content mb wi" and "blocking_select (wire_server wi) f = Replies (Some v)"
  shows "selected wi f v"
proof -
  from assms(2) have ok: "wi_select wi (imap_quote f) = Replies ''OK''"
    by (auto simp: blocking_select_def wire_server_def wire_select_def split: reply.splits option.splits if_splits)
  with assms(2) obtain vals where vals: "wi_uidvalidity wi (imap_quote f) = Replies vals"
    by (auto simp: blocking_select_def wire_server_def wire_select_def split: reply.splits)
  with assms(1) ok obtain w where "vals = [Some (str_nat w)]" unfolding speaks_def by blast
  with ok vals assms(2) show ?thesis
    by (auto simp: blocking_select_def wire_server_def wire_select_def selected_def split: if_splits)
qed


text \<open>A server with one folder, whose name needs quoting, and one message.\<close>

definition odd_listing :: listing where
  "odd_listing = \<lparr>li_flags = BACKSLASH # ''HasNoChildren'', li_delim = Some CHR ''/'', li_name = ''Q1 '' @ [QUOTE] @ ''x'' @ [QUOTE, BACKSLASH], li_form = Quoted_form\<rparr>"

definition odd_wire :: imap_wire where
  "odd_wire = \<lparr>wi_list = Replies (''OK'', [Some (listing_item odd_listing)]), wi_select = (\<lambda>_. Replies ''OK''), wi_uidvalidity = (\<lambda>_. Replies [Some (str_nat 9)]),
     wi_search = (\<lambda>_ _. Replies (''OK'', [Some (py_join '' '' (map str_nat [1]))])),
     wi_uid_fetch = (\<lambda>_ _ _. Replies (''OK'', [Some (Line_literal (''1 ('' @ ''UID '' @ str_nat 1 @ '' BODY[] {5}'') ''hello'')]))\<rparr>"

definition odd_mailbox :: mailbox where
  "odd_mailbox = \<lparr>mb_uids = (\<lambda>_ _. {1}), mb_next = (\<lambda>_ _. 2)\<rparr>"

lemma odd_meta: "names_uid (''1 ('' @ ''UID '' @ str_nat 1 @ '' BODY[] {5}'') 1"
proof -
  have "\<forall>i < length ''1 (''. number_at ''UID '' (drop i (''1 ('' @ ''UID '' @ str_nat 1 @ '' BODY[] {5}'')) = None"
    by (auto simp: less_Suc_eq number_at_def py_lower_def lower_char_def lower_code_def)
  moreover have "\<not> ascii_digit (hd '' BODY[] {5}'')" by (simp add: ascii_digit_def)
  ultimately show ?thesis unfolding names_uid_def by blast
qed

lemma odd_speaks: "speaks (\<lambda>_ _ _. ''hello'') odd_mailbox odd_wire"
proof -
  have "listing_ok odd_listing" by (simp add: listing_ok_def odd_listing_def)
  then have "\<exists>ls. [Some (listing_item odd_listing)] = map (\<lambda>l. Some (listing_item l)) ls \<and> list_all listing_ok ls \<and> distinct (map li_name ls)"
    by (intro exI[of _ "[odd_listing]"]) simp
  then have 1: "\<forall>typ data. wi_list odd_wire = Replies (typ, data) \<and> typ = ''OK'' \<longrightarrow>
        (\<exists>ls. data = map (\<lambda>l. Some (listing_item l)) ls \<and> list_all listing_ok ls \<and> distinct (map li_name ls))"
    by (simp add: odd_wire_def)
  have 2: "\<forall>f vals. wi_select odd_wire (imap_quote f) = Replies ''OK'' \<and> wi_uidvalidity odd_wire (imap_quote f) = Replies vals \<longrightarrow> (\<exists>v. vals = [Some (str_nat v)])"
    by (auto simp: odd_wire_def)
  have 3: "\<exists>us. r = (''OK'', [Some (py_join '' '' (map str_nat us))]) \<and> {u \<in> set us. n \<le> u} = {u \<in> mb_uids odd_mailbox f v. n \<le> u}"
    if "wi_search odd_wire (imap_quote f) n = Replies r" for f v n r
  proof -
    from that have "r = (''OK'', [Some (py_join '' '' (map str_nat [1]))])" unfolding odd_wire_def imap_wire.select_convs by blast
    then show ?thesis by (intro exI[of _ "[1]"]) (auto simp: odd_mailbox_def)
  qed
  have 4: "\<exists>u. names_uid meta u \<and> raw = ''hello''"
    if "wi_uid_fetch odd_wire (imap_quote f) q items = Replies (ty, data)" "Some (Line_literal meta raw) \<in> set data" for f q items ty data meta raw
  proof -
    from that(1) have "data = [Some (Line_literal (''1 ('' @ ''UID '' @ str_nat 1 @ '' BODY[] {5}'') ''hello'')]"
      unfolding odd_wire_def imap_wire.select_convs by blast
    with that(2) odd_meta show ?thesis by auto
  qed
  show ?thesis unfolding speaks_def
  proof (intro conjI)
    show "\<forall>f v n r. selected odd_wire f v \<and> wi_search odd_wire (imap_quote f) n = Replies r \<longrightarrow>
          (\<exists>us. r = (''OK'', [Some (py_join '' '' (map str_nat us))]) \<and> {u \<in> set us. n \<le> u} = {u \<in> mb_uids odd_mailbox f v. n \<le> u})"
      using 3 by blast
    show "\<forall>f v q items typ data meta raw. selected odd_wire f v \<and> wi_uid_fetch odd_wire (imap_quote f) q items = Replies (typ, data)
          \<and> Some (Line_literal meta raw) \<in> set data \<longrightarrow> (\<exists>u. names_uid meta u \<and> raw = ''hello'')"
      using 4 by blast
  qed (fact 1, fact 2)
qed


text \<open>A size reply without data, as \<open>imaplib\<close> returns when every message of the set is gone, raises out of the session.\<close>

lemma empty_size_reply_raises:
  "wi_uid_fetch wi (imap_quote f) q ''(UID RFC822.SIZE)'' = Replies (''OK'', [None]) \<Longrightarrow> im_sizes (wire_server wi) f q = Raises"
  by (simp add: wire_server_def wire_sizes_def size_item_def)

end
