(* ===== verification/Backfill.thy ===== *)
theory Backfill
  imports Attachment_Extract Mail_Sync App_Settings
begin

text \<open>
  The extraction backfill (\<open>scripts/backfill_attachment_extraction.py\<close>): rows that still wait for their text are filled from the messages on
  disk. It is shown to compute a one-line reference, whatever the memo, the early stop and the batches do, and to finish an interrupted run.
  A file is its path below the root and its bytes (\<open>None\<close>: reading it raises); which updates the database refuses is an argument.
\<close>

section \<open>The script\<close>

record disk_file =
  df_parts :: "string list option"
  df_raw :: "string option"

type_synonym pending_row = "uuid \<times> string \<times> string"

definition COMMIT_BATCH_ROWS :: nat where
  "COMMIT_BATCH_ROWS = 200"

definition FALLBACK_CONTENT_TYPE :: string where
  "FALLBACK_CONTENT_TYPE = ''application/octet-stream''"

definition version_is_numeric :: "string \<Rightarrow> bool" where
  "version_is_numeric v \<longleftrightarrow> v \<noteq> [] \<and> length v \<le> 9 \<and> list_all (\<lambda>c. 48 \<le> code c \<and> code c \<le> 57) v"

definition stale_row :: "uuid \<Rightarrow> string \<Rightarrow> int \<Rightarrow> email_attachment \<Rightarrow> bool" where
  "stale_row org_id extractor_name below_version a \<longleftrightarrow> ea_org_id a = org_id \<and> ea_extractor_name a = Some extractor_name
     \<and> (case ea_extractor_version a of
          None \<Rightarrow> False
        | Some v \<Rightarrow> version_is_numeric v \<and> (case digits_value v of None \<Rightarrow> False | Some n \<Rightarrow> n < below_version))"

definition requeue_stale_rows :: "uuid \<Rightarrow> string \<Rightarrow> int \<Rightarrow> email_attachment list \<Rightarrow> nat \<times> email_attachment list" where
  "requeue_stale_rows org_id extractor_name below_version rows =
     (rowcount (stale_row org_id extractor_name below_version) rows,
      update_where (stale_row org_id extractor_name below_version) (\<lambda>a. a\<lparr>ea_extraction_status := STATUS_PENDING\<rparr>) rows)"

definition waiting :: "uuid \<Rightarrow> email_attachment \<Rightarrow> bool" where
  "waiting org_id a \<longleftrightarrow> ea_org_id a = org_id \<and> ea_extraction_status a = STATUS_PENDING"

definition load_pending_rows :: "uuid \<Rightarrow> email_attachment list \<Rightarrow> pending_row list" where
  "load_pending_rows org_id rows = map (\<lambda>a. (ea_id a, ea_content_hash a, ea_content_type a)) (select_where (waiting org_id) rows)"

definition mailbox_of :: "disk_file \<Rightarrow> string" where
  "mailbox_of f = (case df_parts f of Some (m # _) \<Rightarrow> m | _ \<Rightarrow> ''unknown@local'')"

definition add_payload :: "string set \<Rightarrow> (string \<times> string) list \<Rightarrow> parsed_attachment \<Rightarrow> (string \<times> string) list" where
  "add_payload wanted payloads a =
     (if pt_content_hash a \<in> wanted \<and> map_of payloads (pt_content_hash a) = None
      then payloads @ [(pt_content_hash a, pt_payload a)] else payloads)"

definition file_attachments :: "ingest_env \<Rightarrow> disk_file \<Rightarrow> parsed_attachment list option" where
  "file_attachments e f = (case df_raw f of None \<Rightarrow> None | Some raw \<Rightarrow> map_option pd_attachments (parse_email e raw (mailbox_of f) None))"

fun collect_disk_payloads :: "ingest_env \<Rightarrow> string set \<Rightarrow> disk_file list \<Rightarrow> (string \<times> string) list \<Rightarrow> nat \<Rightarrow> (string \<times> string) list \<times> nat" where
  "collect_disk_payloads e wanted [] payloads files_failed = (payloads, files_failed)"
| "collect_disk_payloads e wanted (f # fs) payloads files_failed =
     (if length payloads = card wanted then (payloads, files_failed)
      else (case file_attachments e f of
              None \<Rightarrow> collect_disk_payloads e wanted fs payloads (files_failed + 1)
            | Some atts \<Rightarrow> collect_disk_payloads e wanted fs (foldl (add_payload wanted) payloads atts) files_failed))"

definition declared_type :: "string \<Rightarrow> string" where
  "declared_type t = (if t = [] then FALLBACK_CONTENT_TYPE else t)"

definition disk_attachment :: "string \<Rightarrow> string \<Rightarrow> string \<Rightarrow> parsed_attachment" where
  "disk_attachment content_hash content_type payload = \<lparr>pt_filename = None, pt_content_type = content_type, pt_size_bytes = length payload,
     pt_content_hash = content_hash, pt_is_inline = False, pt_content_id = None, pt_payload = payload\<rparr>"

type_synonym outcome_memo = "((string \<times> string) \<times> extraction_result) list"

definition row_extraction :: "extract_lib \<Rightarrow> outcome_memo \<Rightarrow> string \<Rightarrow> string \<Rightarrow> string \<Rightarrow> extraction_result \<times> outcome_memo" where
  "row_extraction lib cache content_hash declared payload =
     (let content_type = declared_type declared; key = (content_hash, content_type)
      in case map_of cache key of
           Some r \<Rightarrow> (r, cache)
         | None \<Rightarrow> (let r = extract_text lib (disk_attachment content_hash content_type payload) in (r, (key, r) # cache)))"

definition stamp_outcome :: "extraction_result \<Rightarrow> email_attachment \<Rightarrow> email_attachment" where
  "stamp_outcome r a = a\<lparr>ea_extracted_text := xr_text r, ea_extraction_status := xr_status r, ea_extraction_detail := xr_detail r,
     ea_extractor_name := xr_extractor_name r, ea_extractor_version := xr_extractor_version r, ea_extracted_data := xr_structured r\<rparr>"

text \<open>\<open>None\<close>: the update raised and its savepoint was rolled back.\<close>

definition update_pending_row ::
  "(uuid \<Rightarrow> extraction_result \<Rightarrow> bool) \<Rightarrow> uuid \<Rightarrow> uuid \<Rightarrow> extraction_result \<Rightarrow> email_attachment list \<Rightarrow> (nat \<times> email_attachment list) option" where
  "update_pending_row refused org_id row_id res rows =
     (if refused row_id res then None
      else Some (rowcount (\<lambda>a. waiting org_id a \<and> ea_id a = row_id) rows,
                 update_where (\<lambda>a. waiting org_id a \<and> ea_id a = row_id) (stamp_outcome res) rows))"

record backfill_state =
  bf_rows :: "email_attachment list"
  bf_committed :: "email_attachment list"
  bf_cache :: outcome_memo
  bf_tally :: "string \<Rightarrow> nat"
  bf_batch :: nat

definition add_tally :: "string \<Rightarrow> nat \<Rightarrow> (string \<Rightarrow> nat) \<Rightarrow> string \<Rightarrow> nat" where
  "add_tally k n t = t(k := t k + n)"

definition backfill_row ::
  "extract_lib \<Rightarrow> (uuid \<Rightarrow> extraction_result \<Rightarrow> bool) \<Rightarrow> uuid \<Rightarrow> (string \<times> string) list \<Rightarrow> backfill_state \<Rightarrow> pending_row \<Rightarrow> backfill_state" where
  "backfill_row lib refused org_id payloads s row =
     (case row of (row_id, content_hash, content_type) \<Rightarrow>
       case map_of payloads content_hash of
         None \<Rightarrow> s
       | Some payload \<Rightarrow>
         (let (res, cache) = row_extraction lib (bf_cache s) content_hash content_type payload
          in case update_pending_row refused org_id row_id res (bf_rows s) of
               None \<Rightarrow> s\<lparr>bf_cache := cache, bf_tally := add_tally ''rows_db_failed'' 1 (bf_tally s)\<rparr>
             | Some (n, rows) \<Rightarrow>
               (let batch = bf_batch s + n
                in s\<lparr>bf_rows := rows, bf_cache := cache, bf_tally := add_tally (xr_status res) n (bf_tally s),
                     bf_committed := (if COMMIT_BATCH_ROWS \<le> batch then rows else bf_committed s),
                     bf_batch := (if COMMIT_BATCH_ROWS \<le> batch then 0 else batch)\<rparr>)))"

definition backfill_start :: "uuid \<Rightarrow> (string \<times> int) option \<Rightarrow> email_attachment list \<Rightarrow> backfill_state" where
  "backfill_start org_id requeue rows =
     (let rows' = (case requeue of None \<Rightarrow> rows | Some (name, below) \<Rightarrow> snd (requeue_stale_rows org_id name below rows))
      in \<lparr>bf_rows = rows', bf_committed = rows', bf_cache = [], bf_tally = (\<lambda>_. 0), bf_batch = 0\<rparr>)"

text \<open>The loop over the first \<open>k\<close> of the pending rows; \<open>backfill\<close> goes through all of them and commits.\<close>

definition backfill_until ::
  "ingest_env \<Rightarrow> extract_lib \<Rightarrow> (uuid \<Rightarrow> extraction_result \<Rightarrow> bool) \<Rightarrow> disk_file list \<Rightarrow> uuid \<Rightarrow> (string \<times> int) option \<Rightarrow> nat \<Rightarrow> email_attachment list \<Rightarrow> backfill_state" where
  "backfill_until e lib refused files org_id requeue k rows =
     (let s = backfill_start org_id requeue rows; pending = load_pending_rows org_id (bf_rows s);
          payloads = fst (collect_disk_payloads e ((fst \<circ> snd) ` set pending) files [] 0)
      in foldl (backfill_row lib refused org_id payloads) s (take k pending))"

definition backfill ::
  "ingest_env \<Rightarrow> extract_lib \<Rightarrow> (uuid \<Rightarrow> extraction_result \<Rightarrow> bool) \<Rightarrow> disk_file list \<Rightarrow> uuid \<Rightarrow> (string \<times> int) option \<Rightarrow> email_attachment list \<Rightarrow> email_attachment list \<times> (string \<Rightarrow> nat)" where
  "backfill e lib refused files org_id requeue rows =
     (let s = backfill_start org_id requeue rows; pending = load_pending_rows org_id (bf_rows s); wanted = (fst \<circ> snd) ` set pending
      in if pending = [] then (bf_rows s, \<lambda>_. 0)
         else (let (payloads, files_failed) = collect_disk_payloads e wanted files [] 0;
                   s' = backfill_until e lib refused files org_id requeue (length pending) rows
               in (bf_rows s', (bf_tally s')(''files_failed'' := files_failed, ''hashes_not_on_disk'' := card (wanted - fst ` set payloads)))))"

text \<open>\<open>_run\<close>: the refusal outside development, the checks of the root, and the exit code.\<close>

datatype backfill_exit = Refused_environment | Root_missing | No_files | Exit_code nat "email_attachment list"

definition run_backfill ::
  "app_settings \<Rightarrow> ingest_env \<Rightarrow> extract_lib \<Rightarrow> (uuid \<Rightarrow> extraction_result \<Rightarrow> bool) \<Rightarrow> disk_file list option \<Rightarrow> uuid \<Rightarrow> (string \<times> int) option
     \<Rightarrow> email_attachment list \<Rightarrow> backfill_exit" where
  "run_backfill st e lib refused found org_id requeue rows =
     (if requires_secure_secrets st then Refused_environment
      else (case found of
              None \<Rightarrow> Root_missing
            | Some files \<Rightarrow>
                if files = [] then No_files
                else (let (rows', tally) = backfill e lib refused files org_id requeue rows
                      in Exit_code (if tally ''files_failed'' \<noteq> 0 \<or> tally ''rows_db_failed'' \<noteq> 0 then 1 else 0) rows')))"

section \<open>The reference\<close>

text \<open>The bytes of a hash: the first attachment with it in the files that can be read and parsed.\<close>

definition disk_attachments :: "ingest_env \<Rightarrow> disk_file list \<Rightarrow> parsed_attachment list" where
  "disk_attachments e files = concat (map (\<lambda>f. case file_attachments e f of None \<Rightarrow> [] | Some atts \<Rightarrow> atts) files)"

definition disk_payload :: "ingest_env \<Rightarrow> disk_file list \<Rightarrow> string \<Rightarrow> string option" where
  "disk_payload e files h = map_option pt_payload (find (\<lambda>a. pt_content_hash a = h) (disk_attachments e files))"

definition outcome_of :: "extract_lib \<Rightarrow> string \<Rightarrow> email_attachment \<Rightarrow> extraction_result" where
  "outcome_of lib payload a = extract_text lib (disk_attachment (ea_content_hash a) (declared_type (ea_content_type a)) payload)"

definition backfilled ::
  "ingest_env \<Rightarrow> extract_lib \<Rightarrow> (uuid \<Rightarrow> extraction_result \<Rightarrow> bool) \<Rightarrow> disk_file list \<Rightarrow> uuid \<Rightarrow> email_attachment \<Rightarrow> email_attachment" where
  "backfilled e lib refused files org_id a =
     (case disk_payload e files (ea_content_hash a) of
        None \<Rightarrow> a
      | Some payload \<Rightarrow>
          if waiting org_id a \<and> \<not> refused (ea_id a) (outcome_of lib payload a) then stamp_outcome (outcome_of lib payload a) a else a)"

section \<open>Collecting\<close>

lemma find_append: "find P (xs @ ys) = (case find P xs of None \<Rightarrow> find P ys | Some x \<Rightarrow> Some x)"
  by (induction xs) auto

lemma add_payloads:
  "map_of (foldl (add_payload wanted) p atts) h =
     (case map_of p h of
        Some x \<Rightarrow> Some x
      | None \<Rightarrow> if h \<in> wanted then map_option pt_payload (find (\<lambda>a. pt_content_hash a = h) atts) else None)"
  by (induction atts arbitrary: p) (auto simp: add_payload_def map_add_def split: option.splits)

lemma add_payloads_keys:
  assumes "distinct (map fst p)" and "fst ` set p \<subseteq> wanted"
  shows "distinct (map fst (foldl (add_payload wanted) p atts)) \<and> fst ` set (foldl (add_payload wanted) p atts) \<subseteq> wanted"
  using assms
proof (induction atts arbitrary: p)
  case (Cons a atts)
  have "distinct (map fst (add_payload wanted p a)) \<and> fst ` set (add_payload wanted p a) \<subseteq> wanted"
    using Cons.prems by (auto simp: add_payload_def map_of_eq_None_iff)
  with Cons.IH[of "add_payload wanted p a"] show ?case by simp
qed simp

lemma all_found:
  assumes "finite wanted" and "distinct (map fst p)" and "fst ` set p \<subseteq> wanted" and "length p = card wanted" and "h \<in> wanted"
  shows "map_of p h \<noteq> None"
proof -
  have "card (fst ` set p) = card wanted" using assms(2,4) by (metis distinct_card length_map list.set_map)
  then have "fst ` set p = wanted" using assms(1,3) by (simp add: card_subset_eq)
  with assms(5) show ?thesis by (simp add: map_of_eq_None_iff)
qed

lemma collect_payloads:
  assumes "finite wanted" and "distinct (map fst p)" and "fst ` set p \<subseteq> wanted" and "h \<in> wanted"
  shows "map_of (fst (collect_disk_payloads e wanted files p n)) h = (case map_of p h of Some x \<Rightarrow> Some x | None \<Rightarrow> disk_payload e files h)"
  using assms(2,3)
proof (induction files arbitrary: p n)
  case Nil
  then show ?case by (simp add: disk_payload_def disk_attachments_def split: option.splits)
next
  case (Cons f files)
  show ?case
  proof (cases "length p = card wanted")
    case True
    with all_found[OF assms(1) Cons.prems True assms(4)] show ?thesis by (auto split: option.splits)
  next
    case False
    show ?thesis
    proof (cases "file_attachments e f")
      case None
      then have "disk_payload e (f # files) h = disk_payload e files h" by (simp add: disk_payload_def disk_attachments_def)
      with None False Cons.IH[OF Cons.prems] show ?thesis by (simp split: option.splits)
    next
      case (Some atts)
      with False Cons.IH[of "foldl (add_payload wanted) p atts" n] add_payloads_keys[OF Cons.prems, of atts] assms(4) show ?thesis
        by (auto simp: add_payloads disk_payload_def disk_attachments_def find_append split: option.splits)
    qed
  qed
qed

section \<open>The loop\<close>

lemma stamp_outcome_sel [simp]:
  "ea_id (stamp_outcome r a) = ea_id a" "ea_org_id (stamp_outcome r a) = ea_org_id a" "ea_content_hash (stamp_outcome r a) = ea_content_hash a"
  "ea_content_type (stamp_outcome r a) = ea_content_type a" "stamp_outcome r (stamp_outcome r a) = stamp_outcome r a"
  by (simp_all add: stamp_outcome_def)

lemma ea_id_backfilled [simp]: "ea_id (backfilled e lib refused files org_id a) = ea_id a"
  by (simp add: backfilled_def split: option.splits)

lemma backfilled_idem: "backfilled e lib refused files org_id (backfilled e lib refused files org_id a) = backfilled e lib refused files org_id a"
  by (simp add: backfilled_def outcome_of_def split: option.splits)

definition filled_in :: "(email_attachment \<Rightarrow> email_attachment) \<Rightarrow> uuid set \<Rightarrow> email_attachment list \<Rightarrow> email_attachment list" where
  "filled_in g ids rows = map (\<lambda>a. if ea_id a \<in> ids then g a else a) rows"

lemma filled_in_insert: "(\<And>b. b \<in> set rows \<Longrightarrow> ea_id b = i \<Longrightarrow> g b = b) \<Longrightarrow> filled_in g ids rows = filled_in g (insert i ids) rows"
  unfolding filled_in_def by (rule map_cong) auto

lemma same_row: "distinct (map ea_id rows) \<Longrightarrow> a \<in> set rows \<Longrightarrow> b \<in> set rows \<Longrightarrow> ea_id b = ea_id a \<Longrightarrow> b = a"
  by (metis distinct_map inj_onD)

definition memo_ok :: "extract_lib \<Rightarrow> (string \<times> string) list \<Rightarrow> outcome_memo \<Rightarrow> bool" where
  "memo_ok lib payloads cache \<longleftrightarrow>
     (\<forall>h t r p. map_of cache (h, t) = Some r \<and> map_of payloads h = Some p \<longrightarrow> r = extract_text lib (disk_attachment h t p))"

lemma row_extraction_memo:
  assumes "memo_ok lib payloads cache" and "map_of payloads h = Some p" and "row_extraction lib cache h declared p = (r, cache')"
  shows "r = extract_text lib (disk_attachment h (declared_type declared) p)" and "memo_ok lib payloads cache'"
  using assms by (auto simp: row_extraction_def memo_ok_def Let_def split: option.splits if_splits)

lemma update_one:
  assumes "distinct (map ea_id rows)" and "a \<in> set rows" and "waiting org_id a" and "ea_id a \<notin> ids"
    and "\<And>b. ea_id (g b) = ea_id b" and "g a = stamp_outcome r a"
  shows "update_where (\<lambda>b. waiting org_id b \<and> ea_id b = ea_id a) (stamp_outcome r) (filled_in g ids rows) = filled_in g (insert (ea_id a) ids) rows"
proof -
  have "(if waiting org_id c \<and> ea_id c = ea_id a then stamp_outcome r c else c) = (if ea_id b \<in> insert (ea_id a) ids then g b else b)"
    if "b \<in> set rows" and "c = (if ea_id b \<in> ids then g b else b)" for b c
  proof (cases "ea_id b = ea_id a")
    case True
    with same_row[OF assms(1,2) that(1)] assms(3,4,6) that(2) show ?thesis by simp
  next
    case False
    with assms(5) that(2) show ?thesis by simp
  qed
  then show ?thesis unfolding update_where_def filled_in_def map_map by (intro map_cong) auto
qed

lemma backfill_row_step:
  fixes e lib refused files org_id
  defines "g \<equiv> backfilled e lib refused files org_id"
  assumes "distinct (map ea_id rows)" and "a \<in> set rows" and "waiting org_id a" and "ea_id a \<notin> ids"
    and "bf_rows s = filled_in g ids rows" and "memo_ok lib payloads (bf_cache s)"
    and "map_of payloads (ea_content_hash a) = disk_payload e files (ea_content_hash a)"
    and "s' = backfill_row lib refused org_id payloads s (ea_id a, ea_content_hash a, ea_content_type a)"
  shows "bf_rows s' = filled_in g (insert (ea_id a) ids) rows \<and> memo_ok lib payloads (bf_cache s')
     \<and> (bf_committed s' = bf_committed s \<or> bf_committed s' = bf_rows s')"
proof (cases "map_of payloads (ea_content_hash a)")
  case None
  then have "g a = a" using assms(8) by (simp add: g_def backfilled_def)
  then have "filled_in g ids rows = filled_in g (insert (ea_id a) ids) rows"
    using same_row[OF assms(2,3)] by (intro filled_in_insert) blast
  with None assms show ?thesis by (simp add: backfill_row_def)
next
  case (Some p)
  obtain r cache where rc: "row_extraction lib (bf_cache s) (ea_content_hash a) (ea_content_type a) p = (r, cache)" by fastforce
  have r: "r = outcome_of lib p a" and memo: "memo_ok lib payloads cache"
    using row_extraction_memo[OF assms(7) Some rc] by (simp_all add: outcome_of_def)
  have dp: "disk_payload e files (ea_content_hash a) = Some p" using assms(8) Some by simp
  show ?thesis
  proof (cases "refused (ea_id a) r")
    case True
    then have "g a = a" using r by (simp add: g_def backfilled_def dp)
    then have "filled_in g ids rows = filled_in g (insert (ea_id a) ids) rows"
      using same_row[OF assms(2,3)] by (intro filled_in_insert) blast
    with True Some rc memo assms(6,9) show ?thesis by (simp add: backfill_row_def update_pending_row_def)
  next
    case False
    then have "g a = stamp_outcome r a" using assms(4) r by (simp add: g_def backfilled_def dp)
    then have "update_where (\<lambda>b. waiting org_id b \<and> ea_id b = ea_id a) (stamp_outcome r) (filled_in g ids rows) = filled_in g (insert (ea_id a) ids) rows"
      by (intro update_one[OF assms(2-5)]) (simp_all add: g_def)
    with False Some rc memo assms(6,9) show ?thesis by (simp add: backfill_row_def update_pending_row_def Let_def)
  qed
qed

lemma backfill_loop:
  fixes e lib refused files org_id
  defines "g \<equiv> backfilled e lib refused files org_id"
  assumes "distinct (map ea_id rows)" and "set as \<subseteq> {a \<in> set rows. waiting org_id a}" and "distinct (map ea_id as)" and "ea_id ` set as \<inter> ids = {}"
    and "bf_rows s = filled_in g ids rows" and "memo_ok lib payloads (bf_cache s)" and "\<exists>ids'. bf_committed s = filled_in g ids' rows"
    and "\<And>a. a \<in> set rows \<Longrightarrow> waiting org_id a \<Longrightarrow> map_of payloads (ea_content_hash a) = disk_payload e files (ea_content_hash a)"
    and "s' = foldl (backfill_row lib refused org_id payloads) s (map (\<lambda>a. (ea_id a, ea_content_hash a, ea_content_type a)) as)"
  shows "bf_rows s' = filled_in g (ids \<union> ea_id ` set as) rows \<and> (\<exists>ids'. bf_committed s' = filled_in g ids' rows)"
  using assms(3-8,10)
proof (induction as arbitrary: s ids)
  case (Cons a as)
  define s1 where "s1 = backfill_row lib refused org_id payloads s (ea_id a, ea_content_hash a, ea_content_type a)"
  have a: "a \<in> set rows" "waiting org_id a" "ea_id a \<notin> ids" using Cons.prems by auto
  from backfill_row_step[OF assms(2) a Cons.prems(4)[unfolded g_def] Cons.prems(5) assms(9)[OF a(1,2)] s1_def]
  have s1: "bf_rows s1 = filled_in g (insert (ea_id a) ids) rows" "memo_ok lib payloads (bf_cache s1)"
    "bf_committed s1 = bf_committed s \<or> bf_committed s1 = bf_rows s1" unfolding g_def by blast+
  have c: "\<exists>ids'. bf_committed s1 = filled_in g ids' rows" using s1 Cons.prems(6) by metis
  have "bf_rows s' = filled_in g (insert (ea_id a) ids \<union> ea_id ` set as) rows \<and> (\<exists>ids'. bf_committed s' = filled_in g ids' rows)"
    by (rule Cons.IH[OF _ _ _ s1(1,2) c]) (use Cons.prems s1_def in auto)
  then show ?case by simp
qed simp

lemma waiting_unchanged: "\<not> waiting org_id a \<Longrightarrow> backfilled e lib refused files org_id a = a"
  by (simp add: backfilled_def split: option.splits)

lemma backfill_until_result:
  assumes "distinct (map ea_id rows)" and "rows' = bf_rows (backfill_start org_id requeue rows)"
  shows "bf_rows (backfill_until e lib refused files org_id requeue k rows)
       = filled_in (backfilled e lib refused files org_id) (ea_id ` set (take k (filter (waiting org_id) rows'))) rows'
     \<and> (\<exists>ids. bf_committed (backfill_until e lib refused files org_id requeue k rows) = filled_in (backfilled e lib refused files org_id) ids rows')"
proof -
  let ?s = "backfill_start org_id requeue rows" and ?as = "take k (filter (waiting org_id) rows')"
  define pending where "pending = load_pending_rows org_id rows'"
  define payloads where "payloads = fst (collect_disk_payloads e ((fst \<circ> snd) ` set pending) files [] 0)"
  have ids: "map ea_id rows' = map ea_id rows" unfolding assms(2)
    by (auto simp: backfill_start_def requeue_stale_rows_def update_where_def Let_def split: option.splits)
  have d: "distinct (map ea_id rows')" using assms(1) ids by simp
  have p: "map_of payloads (ea_content_hash a) = disk_payload e files (ea_content_hash a)" if "a \<in> set rows'" "waiting org_id a" for a
  proof -
    have "ea_content_hash a \<in> (fst \<circ> snd) ` set pending" using that by (force simp: pending_def load_pending_rows_def select_where_def)
    from collect_payloads[OF _ _ _ this, of "[]" e files 0] show ?thesis by (simp add: payloads_def)
  qed
  have "take k pending = map (\<lambda>a. (ea_id a, ea_content_hash a, ea_content_type a)) ?as"
    by (simp add: pending_def load_pending_rows_def select_where_def take_map)
  then have run: "backfill_until e lib refused files org_id requeue k rows
      = foldl (backfill_row lib refused org_id payloads) ?s (map (\<lambda>a. (ea_id a, ea_content_hash a, ea_content_type a)) ?as)"
    by (simp add: backfill_until_def Let_def payloads_def pending_def assms(2)[symmetric])
  have f1: "bf_rows ?s = filled_in (backfilled e lib refused files org_id) {} rows'" by (simp add: filled_in_def assms(2))
  have f2: "memo_ok lib payloads (bf_cache ?s)" by (simp add: memo_ok_def backfill_start_def Let_def)
  have "bf_committed ?s = bf_rows ?s" by (simp add: backfill_start_def Let_def)
  then have f3: "\<exists>ids. bf_committed ?s = filled_in (backfilled e lib refused files org_id) ids rows'" using f1 by metis
  have sub: "set ?as \<subseteq> {a \<in> set rows'. waiting org_id a}" using set_take_subset by fastforce
  have dist: "distinct (map ea_id ?as)" using d by (simp add: distinct_map_filter distinct_take flip: take_map)
  from backfill_loop[OF d sub dist _ f1 f2 f3 p run] show ?thesis by simp
qed

lemma filled_in_all: "filled_in (backfilled e lib refused files org_id) (ea_id ` {a \<in> set rows. waiting org_id a}) rows = map (backfilled e lib refused files org_id) rows"
  unfolding filled_in_def by (rule map_cong) (auto intro: waiting_unchanged[symmetric])

lemma backfill_start_None: "bf_rows (backfill_start org_id None rows) = rows"
  by (simp add: backfill_start_def Let_def)

lemma backfill_rows:
  assumes "distinct (map ea_id rows)"
  shows "fst (backfill e lib refused files org_id requeue rows)
    = map (backfilled e lib refused files org_id) (bf_rows (backfill_start org_id requeue rows))"
proof (cases "load_pending_rows org_id (bf_rows (backfill_start org_id requeue rows)) = []")
  case True
  then have "filter (waiting org_id) (bf_rows (backfill_start org_id requeue rows)) = []" by (simp add: load_pending_rows_def select_where_def)
  with True show ?thesis
    by (simp add: backfill_def Let_def) (rule sym, rule map_idI, simp add: waiting_unchanged filter_empty_conv)
next
  case False
  let ?r = "bf_rows (backfill_start org_id requeue rows)"
  have "take (length (load_pending_rows org_id ?r)) (filter (waiting org_id) ?r) = filter (waiting org_id) ?r"
    by (simp add: load_pending_rows_def select_where_def)
  with False backfill_until_result[OF assms refl, where k = "length (load_pending_rows org_id ?r)" and org_id = org_id and requeue = requeue] show ?thesis
    by (simp add: backfill_def Let_def split_beta filled_in_all)
qed

section \<open>What a run does\<close>

text \<open>
  C17: the backfill does exactly what it says, however often it is interrupted. A run leaves every row as the reference does: a row of the
  organization that waits (or was requeued) and whose bytes are on disk gets the extraction of those bytes under its own declared type,
  unless the database refuses it; every other row, of any organization, is as it was. And if a run dies after any number of rows, what it
  had committed brings a later run to the same rows as if nothing had happened.
\<close>

theorem backfill_exact_and_resumable:
  assumes "distinct (map ea_id rows)"
  shows "fst (backfill e lib refused files org_id requeue rows)
       = map (backfilled e lib refused files org_id) (bf_rows (backfill_start org_id requeue rows))
     \<and> fst (backfill e lib refused files org_id None (bf_committed (backfill_until e lib refused files org_id requeue k rows)))
       = fst (backfill e lib refused files org_id requeue rows)"
proof
  let ?g = "backfilled e lib refused files org_id" and ?r = "bf_rows (backfill_start org_id requeue rows)"
  show 1: "fst (backfill e lib refused files org_id requeue rows) = map ?g ?r" using assms by (rule backfill_rows)
  obtain ids where c: "bf_committed (backfill_until e lib refused files org_id requeue k rows) = filled_in ?g ids ?r"
    using backfill_until_result[OF assms refl] by blast
  have "map ea_id ?r = map ea_id rows"
    by (auto simp: backfill_start_def requeue_stale_rows_def update_where_def Let_def split: option.splits)
  moreover have "map ea_id (filled_in ?g ids ?r) = map ea_id ?r" by (simp add: filled_in_def)
  ultimately have "distinct (map ea_id (filled_in ?g ids ?r))" using assms by simp
  from backfill_rows[OF this, of e lib refused files org_id None]
  have "fst (backfill e lib refused files org_id None (filled_in ?g ids ?r)) = map ?g (filled_in ?g ids ?r)" by (simp add: backfill_start_None)
  also have "\<dots> = map ?g ?r" unfolding filled_in_def map_map by (rule map_cong) (simp_all add: backfilled_idem)
  finally show "fst (backfill e lib refused files org_id None (bf_committed (backfill_until e lib refused files org_id requeue k rows)))
      = fst (backfill e lib refused files org_id requeue rows)" using 1 c by simp
qed

text \<open>One waiting row and one file with its bytes.\<close>

definition disk_env :: ingest_env where
  "disk_env = demo_ingest_env\<lparr>ie_strict_parse := \<lambda>raw mailbox d.
     Parsed ((degraded_parse demo_ingest_env raw d)\<lparr>pd_attachments := [disk_attachment ''h'' ''text/plain'' raw]\<rparr>)\<rparr>"

definition disk_row :: email_attachment where
  "disk_row = \<lparr>ea_id = 1, ea_org_id = 7, ea_email_id = 2, ea_visibility_scope = scope_org, ea_origin_scope = scope_org, ea_container_id = 3,
     ea_filename = None, ea_content_type = ''text/plain'', ea_size_bytes = 5, ea_content_hash = ''h'', ea_is_inline = False, ea_content_id = None,
     ea_extracted_text = None, ea_extraction_status = STATUS_PENDING, ea_extraction_detail = None, ea_extractor_name = None,
     ea_extractor_version = None, ea_extracted_data = None, ea_created_at = 0\<rparr>"

theorem backfill_exact_and_resumable_witness:
  "fst (backfill disk_env demo_lib (\<lambda>_ _. False) [\<lparr>df_parts = Some [''a@x'', ''m.eml''], df_raw = Some ''hello''\<rparr>] 7 None [disk_row])
     = [stamp_outcome (extract_text demo_lib (disk_attachment ''h'' ''text/plain'' ''hello'')) disk_row]"
proof -
  let ?files = "[\<lparr>df_parts = Some [''a@x'', ''m.eml''], df_raw = Some ''hello''\<rparr>]"
  have "disk_payload disk_env ?files ''h'' = Some ''hello''"
    by (simp add: disk_payload_def disk_attachments_def file_attachments_def parse_email_def disk_env_def disk_attachment_def)
  moreover have "distinct (map ea_id [disk_row])" by simp
  ultimately show ?thesis
    using backfill_exact_and_resumable[of "[disk_row]" disk_env demo_lib "\<lambda>_ _. False" ?files 7 None 0]
    by (simp add: backfill_start_None backfilled_def disk_row_def waiting_def outcome_of_def declared_type_def)
qed

end
