(* ===== verification/Spec2Isabelle.thy ===== *)
theory Spec2Isabelle
  imports Erasure Mail_At_Rest Connector_Api Http_Guard Mailbox_Names Imap_Wire Backfill
begin

text \<open>
  Verification of the backend of one-ai (\<open>src/backend/app\<close>): a multi-tenant service in which companies connect mailboxes,
  mail is synchronized, parsed, linked to persons and companies, and stored under fine-grained visibility.

  \<^bold>\<open>Parts of the program and the theories that model them.\<close>

  \<^item> \<^bold>\<open>Shared.\<close> \<open>Prelude_OneAI\<close>: identifiers, times, results, and a table as a list of row records with the statements
    \<open>select_one\<close>, \<open>select_where\<close>, \<open>update_where\<close>, \<open>delete_where\<close> and their lemmas (collection \<open>table_simps\<close>). \<open>Py_Strings\<close>: the string
    operations of Python that the sources use. \<open>Py_Codec\<close>: UTF-8, UTF-16 and base64.

  \<^item> \<^bold>\<open>Identity\<close> (\<open>identity/\<close>, \<open>core/database.py\<close>). \<open>Rate_Limit\<close>: the login throttle. \<open>Token_Denylist\<close>: revoked subjects and organizations with
    eviction, as a refinement of the trace of revocations (locale \<open>revocation\<close> and its interpretation). \<open>Identity_Tables\<close>: the
    tables, constraints and repositories; row-level security is the predicate \<open>sees\<close> of a session. \<open>Audit_Trail\<close>: audit rows that live
    and die with the request's transaction and rows committed independently; the unit of work. \<open>Tokens\<close>: access and refresh tokens over
    abstract cryptography (record \<open>crypto\<close> with a named contract). \<open>Auth_Service\<close>, \<open>User_Service\<close>, \<open>Org_Support\<close>: logins of both
    domains, onboarding, user management, the organization life cycle and the support grants, as handlers
    \<open>world \<Rightarrow> (error + result) \<times> world\<close>.

  \<^item> \<^bold>\<open>Settings and HTTP\<close> (\<open>core/config.py\<close>, \<open>core/middleware.py\<close>, \<open>core/request_context.py\<close>, \<open>identity/routes\<close>, \<open>connectors/routes\<close>). \<open>App_Settings\<close>: the settings with
    their validators, the guard that refuses to start, the refresh cookie, the cross-site check and the company's authentication routes.
    \<open>Http_Guard\<close>: the body-size guard around any application and the request context. \<open>Api_Routes\<close>: the request models with their validators and the
    routes of users, platform and support access behind the guards of their planes. \<open>Connector_Api\<close>: the models and routes of the connectors (administrator, governance,
    own plane, entitlements) behind their guards and the providers of their services.

  \<^item> \<^bold>\<open>Sync\<close> (\<open>connectors/sync\<close>, \<open>connectors/imap\<close>). \<open>Fetch_Planner\<close>: batches, the contiguous advance of a cursor, UID sequence sets, the
    folder policy. \<open>Connector_Tables\<close>: the connector tables and repositories, with the claim of a connection and the fenced updates.
    \<open>Sync_Runner\<close>: the replies of the IMAP server (a parameter), the fetcher, the folder trackers, one batch as one transaction, the run
    with all its error paths, and starting a run. \<open>Sync_Safety\<close>: the interface \<open>email_ingest\<close> of the runner to its ingest
    service as a locale, the step relation \<open>sync_step\<close> of concurrent runs, mail delivery and other sessions, the invariant, and fencing.

  \<^item> \<^bold>\<open>Entities\<close> (\<open>entities/\<close>). \<open>Resolution_Cache\<close>: the per-run memo with savepoint-tagged staging. \<open>Address_Rules\<close>: normalization and the role,
    generic, IDN and registrable-domain rules (the public suffix list is a parameter). \<open>Entity_Resolver\<close>: tables, repositories and
    the resolver with savepoints and races against other sessions. \<open>Entity_Graph\<close>: well-formedness of the graph and soundness of
    resolution.

  \<^item> \<^bold>\<open>Mail and access\<close> (\<open>connectors/imap/services\<close>, \<open>access/\<close>). \<open>Mail_Tables\<close>: stored mail, grants, identities, promotions, the reader's
    policy. \<open>Grant_Writer\<close>: derivation and reconciliation of grants. \<open>Email_Ingest\<close>: the ingest of one message inside
    its savepoint; the interpretation \<open>mi\<close> shows that it meets \<open>email_ingest\<close>. \<open>Mail_Sync\<close>: runner and ingest together.

  \<^item> \<^bold>\<open>Governance\<close> (\<open>connectors/services\<close>, \<open>access/services\<close>). \<open>Connector_Service\<close>: the permission rule, consent, entitlement, policies, the
    administrator's and the user's plane, with the cascade of a deletion into the mail tables. \<open>Connector_Safety\<close>: their guarantees.
    \<open>Visibility\<close>: promotion to the organization, the reader session, the projection for readers, retrieval telemetry, and the lineage
    invariant. \<open>Erasure\<close> (\<open>identity/services/erasure_service.py\<close> and the purge hooks of the domains): the hook registry, the guarded
    erasure of a whole organization, and what remains of it.

  \<^item> \<^bold>\<open>Extraction\<close> (\<open>connectors/extraction\<close>). \<open>Py_Regex\<close>: the fragment of \<open>re\<close> the patterns use, as a list-of-successes matcher. \<open>Redact\<close>: the
    masking of secrets, detector by detector; \<open>Redact_Safety\<close>: what survives it. \<open>Extraction_Core\<close>: the result type, text sanitizing, the charset
    chain, the sniffer and the table serializer. \<open>Pdf_Extract\<close>, \<open>Office_Extract\<close>, \<open>Tnef_Extract\<close>: the format extractors with their
    bounds and fallbacks. \<open>Attachment_Extract\<close>: the dispatch by content type and the masking seam.

  \<^item> \<^bold>\<open>Parsing\<close> (\<open>connectors/imap/parsing\<close>). \<open>Mail_Headers\<close>: header merging, the allowlist, dates and the derived flags. \<open>Mail_Parser\<close>: the strict
    parse of a message and its content identity. \<open>Mail_Identity\<close>: the parsed fields fit their columns and distinct mail has distinct keys.
    \<open>Mail_At_Rest\<close>: synchronization, ingest, parser and extraction composed; the interface \<open>email_ingest\<close> is interpreted a second time with the masked store as its invariant.

  \<^item> \<^bold>\<open>Network\<close> (\<open>connectors/imap/egress_guard.py\<close>, \<open>client.py\<close>, \<open>fetch_session.py\<close>). \<open>Imap_Client\<close>: the address classes over 32- and 128-bit words,
    the guard that resolves, checks and dials, and the login check and session opening as lists of events. \<open>Imap_Wire\<close>: the
    raw replies of the protocol library, read into the server of \<open>Sync_Runner\<close>; a conforming server meets the contract \<open>serves\<close>.
    \<open>Mailbox_Names\<close>: modified UTF-7 of folder names. \<open>Credential_Cipher\<close> (\<open>connectors/security/credential_cipher.py\<close>,
    \<open>base/registry.py\<close>, \<open>imap/connector.py\<close>, \<open>dependencies.py\<close>): the cipher with its key ring, the registry, the IMAP connector and the wiring of the services.

  \<^item> \<^bold>\<open>Scripts.\<close> \<open>Backfill\<close> (\<open>scripts/backfill_attachment_extraction.py\<close>): the batched extraction of attachments stored earlier.

  \<^bold>\<open>How code becomes definitions.\<close> One record per table row or dataclass, one function per statement, method or handler, composed
  as the code composes them. A handler returns its result or error with the state after the request; where the unit of work rolls back, the
  error comes with the state before. \<open>IntegrityError\<close> is \<open>None\<close> or a constructor of the error type; savepoints are explicit. One request
  sees one instant; identifiers are drawn in order from the environment. Integers of Python are \<open>int\<close> or \<open>nat\<close>, floats are
  rationals or reals, bytes and text are lists of 8-bit characters (an em dash is written as its Windows-1252 code). What is not under \<open>src/\<close> is a parameter with a named contract that a concrete instance
  satisfies in the witnesses: PyJWT, bcrypt, SHA-256, the cipher, the IMAP server (\<open>serves\<close>), the public suffix list, the message objects
  of the \<open>email\<close> package, the readers of PDF, Office, TNEF, RTF and HTML, whose every access may raise. Other sessions are arguments too: what they may do between two statements is \<open>rival_ok\<close>, between two
  transactions \<open>keeps_cursors\<close>, or steps of a relation.

  \<^bold>\<open>What is shown.\<close> Logins succeed exactly when they should, failures are indistinguishable, suspension, deactivation and logout cut off at
  once; the last administrator stays; support access needs a fresh approval on the trail. No mail is lost: whatever fails and
  however runs interleave, a message at or below a folder cursor is stored (\<open>never_lose_mail\<close>,
  \<open>run_sync_keeps_cursors_covered\<close>); superseded runs commit nothing. The memo never changes an answer and an address keeps its
  person. A restricted message is readable by exactly the derivable principals, and by more only after an audited
  promotion by the mailbox owner. A connected mailbox has a consent in force; a revoked entitlement closes the
  connector; disconnecting erases the mailbox and nothing else, erasing an organization leaves none of its rows and every row of the others. An attachment
  yields a result of a closed vocabulary whatever its reader does, no token pattern survives the masking, parsed mail fits its columns,
  mail that differs in a keyed field has a different key and a row of its own, nothing at rest holds a provider token, a connection goes to a public address, and a password travels only over TLS.
  No management or connector request gets past its guard and a company's request touches no other company's rows; a user's own plane shows own connections only. A deployment starts exactly when its settings are hardened, the refresh token travels only in its cookie, no body above the
  limit reaches the application, a stored credential decrypts to what was stored and under its own connection only, the session read from the wire is
  the session the server holds, and the backfill extracts every pending attachment once and resumes where it stopped.

  \<^bold>\<open>Interfaces.\<close> The locales are \<open>revocation\<close> (the denylist), \<open>throttle\<close> (the login throttle and its clients), \<open>audited_handler\<close> (handlers over the unit
  of work), \<open>email_ingest\<close> (what the sync runner needs of its ingest), \<open>erasure_hook\<close> and \<open>erasure_registry\<close> (what a domain's purge promises), \<open>tenant_handler\<close> and \<open>conn_handler\<close> (what a company's route and a connector route need of their services).
  Each is interpreted on the model's own definitions in the theory of the component that provides them.

  \<^bold>\<open>Termination and fuel.\<close> The loops of the modelled code iterate over finite collections or shrink what is left of their input, so the functions
  are total by structural recursion or a size measure; no fuel is used. The scanning loop of modified UTF-7 is a \<open>partial_function\<close> into \<open>option\<close>, and it is shown to return.

  \<^bold>\<open>Not modelled.\<close> The routes of erasure and of the health probe (they unpack a request and call a modelled service), the worker threads and timeouts of the
  IMAP clients, the heartbeat task's scheduling (its statement is modelled), logging, the schema migrations (their constraints and triggers are
  part of the table models) and the scripts other than the backfill: they are glue around the modelled operations, or I/O. AES-GCM,
  SHA-256, the protocol library and the import system are arguments.
\<close>

end
